(* ===== verification/Prelude.thy ===== *)
theory Prelude
  imports
    "HOL-Library.Code_Target_Nat"
    "HOL-Library.AList"
    "HOL-Library.List_Lexorder"
    "HOL-Library.Multiset"
begin

text \<open>
  Shared vocabulary of the development: JavaScript strings, results that may be a thrown error,
  the insertion-ordered \<open>Map\<close>, comparators and the stable \<open>Array.prototype.sort\<close>.
\<close>

section \<open>Strings\<close>

text \<open>
  A JavaScript string is a sequence of UTF-16 code units. Code units are naturals here, so the
  lexicographic order that \<open>HOL-Library.List_Lexorder\<close> puts on lists is the order of the
  language's \<open>\<lt>\<close> on strings, and \<open>length\<close> is its \<open>length\<close>.
\<close>

type_synonym jstr = "nat list"

definition u :: "string \<Rightarrow> jstr" where
  "u s = map of_char s"

lemma length_u [simp]: "length (u s) = length s"
  by (simp add: u_def)

lemma u_eq_iff [simp]: "u s = u t \<longleftrightarrow> s = t"
  by (auto simp: u_def inj_map_eq_map inj_def)

lemma u_Nil [simp]: "u [] = []"
  by (simp add: u_def)

lemma u_eq_Nil [simp]: "u s = [] \<longleftrightarrow> s = []"
  by (simp add: u_def)

text \<open>
  A literal with Turkish letters: a tilde marks the letter after it, so \<open>~s\<close> is U+015F,
  \<open>~i\<close> the dotless i U+0131 and \<open>~I\<close> the dotted capital U+0130; \<open>~q\<close> is an
  apostrophe, \<open>~l\<close> and \<open>~r\<close> U+2018 and U+2019, \<open>~(\<close> and \<open>~)\<close> U+201C and U+201D,
  \<open>~d\<close> a double quote, \<open>~t\<close> the lira sign, \<open>~e\<close> an ellipsis, \<open>~n\<close> an en dash,
  \<open>~b\<close> a bullet, \<open>~:\<close> and \<open>~,\<close> the combining diaeresis and cedilla, \<open>~h\<close> a hyphen
  U+2010, \<open>~M\<close> an em dash, \<open>~H\<close> a horizontal bar, \<open>~m\<close> a minus sign, \<open>~;\<close> a full-width colon.
\<close>

definition tr_unit :: "char \<Rightarrow> nat" where
  "tr_unit c =
     (if c = CHR ''s'' then 351 else if c = CHR ''S'' then 350
      else if c = CHR ''i'' then 305 else if c = CHR ''I'' then 304
      else if c = CHR ''g'' then 287 else if c = CHR ''G'' then 286
      else if c = CHR ''u'' then 252 else if c = CHR ''U'' then 220
      else if c = CHR ''o'' then 246 else if c = CHR ''O'' then 214
      else if c = CHR ''c'' then 231 else if c = CHR ''C'' then 199
      else if c = CHR ''q'' then 39 else if c = CHR ''r'' then 8217
      else if c = CHR ''n'' then 8211 else if c = CHR ''b'' then 8226
      else if c = CHR '':'' then 776 else if c = CHR '','' then 807
      else if c = CHR ''l'' then 8216 else if c = CHR ''('' then 8220
      else if c = CHR '')'' then 8221 else if c = CHR ''d'' then 34
      else if c = CHR ''t'' then 8378 else if c = CHR ''e'' then 8230
      else if c = CHR ''h'' then 8208 else if c = CHR ''H'' then 8213
      else if c = CHR ''m'' then 8722 else if c = CHR ''M'' then 8212
      else if c = CHR '';'' then 65306
      else of_char c)"

fun tr :: "string \<Rightarrow> jstr" where
  "tr [] = []"
| "tr [c] = [of_char c]"
| "tr (c # d # r) =
     (if c = CHR ''~'' then tr_unit d # tr r else of_char c # tr (d # r))"

text \<open>The code unit of a character, for character classes.\<close>

definition cu :: "char \<Rightarrow> nat" where
  "cu c = of_char c"

definition is_digit_unit :: "nat \<Rightarrow> bool" where
  "is_digit_unit c \<longleftrightarrow> 48 \<le> c \<and> c \<le> 57"

definition is_lower_unit :: "nat \<Rightarrow> bool" where
  "is_lower_unit c \<longleftrightarrow> 97 \<le> c \<and> c \<le> 122"

definition is_upper_unit :: "nat \<Rightarrow> bool" where
  "is_upper_unit c \<longleftrightarrow> 65 \<le> c \<and> c \<le> 90"

definition is_hex_unit :: "nat \<Rightarrow> bool" where
  "is_hex_unit c \<longleftrightarrow> is_digit_unit c \<or> (97 \<le> c \<and> c \<le> 102)"

text \<open>\<open>Array.prototype.join\<close>.\<close>

fun join :: "jstr \<Rightarrow> jstr list \<Rightarrow> jstr" where
  "join sep [] = []"
| "join sep [x] = x"
| "join sep (x # xs) = x @ sep @ join sep xs"

text \<open>An optional text used as a condition or with \<open>||\<close>: absent and empty agree.\<close>

definition or_empty :: "jstr option \<Rightarrow> jstr" where
  "or_empty s = (case s of Some t \<Rightarrow> t | None \<Rightarrow> [])"

section \<open>Errors\<close>

text \<open>
  A function that may throw returns a sum: \<open>Inl\<close> is the thrown error, by the message of the
  source, or the one error class of the program that carries data
  (\<open>CheckpointPublicationStopped\<close> with its failure code).
\<close>

datatype failure_code = Request_aborted | Deadline_exceeded | Publication_failed

datatype js_error =
    Err string
  | Publication_stopped failure_code

type_synonym 'a res = "js_error + 'a"

definition throw :: "string \<Rightarrow> 'a res" where
  "throw msg = Inl (Err msg)"

definition rbind :: "'a res \<Rightarrow> ('a \<Rightarrow> 'b res) \<Rightarrow> 'b res" where
  "rbind m f = (case m of Inl e \<Rightarrow> Inl e | Inr x \<Rightarrow> f x)"

lemma rbind_simps [simp]: "rbind (Inl e) f = Inl e" "rbind (Inr x) f = f x"
  by (simp_all add: rbind_def)

lemma throw_neq_Inr [simp]: "throw m \<noteq> Inr x" "Inr x \<noteq> throw m"
  by (simp_all add: throw_def)

lemma throw_eq_iff [simp]: "throw m = throw m' \<longleftrightarrow> m = m'"
  by (simp add: throw_def)

lemma case_throw [simp]: "(case throw m of Inl e \<Rightarrow> f e | Inr x \<Rightarrow> g x) = f (Err m)"
  by (simp add: throw_def)

lemma rbind_throw [simp]: "rbind (throw m) f = throw m"
  by (simp add: throw_def)

lemma rbind_eq_Inr: "rbind m f = Inr y \<longleftrightarrow> (\<exists>x. m = Inr x \<and> f x = Inr y)"
  by (cases m) auto

definition guard :: "bool \<Rightarrow> string \<Rightarrow> unit res" where
  "guard b msg = (if b then Inr () else throw msg)"

lemma guard_simps [simp]: "guard True msg = Inr ()" "guard False msg = throw msg"
  by (simp_all add: guard_def)

lemma guard_eq_Inr [simp]: "guard b msg = Inr x \<longleftrightarrow> b"
  by (simp add: guard_def)

text \<open>A loop over a list that carries a state and stops at the first error.\<close>

fun rfold :: "('a \<Rightarrow> 's \<Rightarrow> 's res) \<Rightarrow> 'a list \<Rightarrow> 's \<Rightarrow> 's res" where
  "rfold f [] s = Inr s"
| "rfold f (x # xs) s = rbind (f x s) (rfold f xs)"

lemma rfold_append: "rfold f (xs @ ys) s = rbind (rfold f xs s) (rfold f ys)"
proof (induction xs arbitrary: s)
  case Nil
  then show ?case by simp
next
  case (Cons x xs)
  then show ?case by (cases "f x s") simp_all
qed

lemma rfold_invariant:
  assumes "rfold f xs s = Inr t" and "P s"
    and "\<And>x s t. x \<in> set xs \<Longrightarrow> P s \<Longrightarrow> f x s = Inr t \<Longrightarrow> P t"
  shows "P t"
  using assms
proof (induction xs arbitrary: s)
  case Nil
  then show ?case by simp
next
  case (Cons x xs)
  from Cons.prems(1) obtain s' where s': "f x s = Inr s'" "rfold f xs s' = Inr t"
    by (auto simp: rbind_eq_Inr)
  have "P s'" using Cons.prems(2,3) s'(1) by (metis list.set_intros(1))
  then show ?case using Cons.IH s'(2) Cons.prems(3) by (meson list.set_intros(2))
qed

section \<open>Operations on a state\<close>

text \<open>
  An operation that reads and writes a state and may throw. What it wrote before it threw stays
  written.
\<close>

type_synonym ('s, 'a) op = "'s \<Rightarrow> 'a res \<times> 's"

definition oreturn :: "'a \<Rightarrow> ('s, 'a) op" where
  "oreturn x s = (Inr x, s)"

definition othrow :: "js_error \<Rightarrow> ('s, 'a) op" where
  "othrow e s = (Inl e, s)"

definition olift :: "'a res \<Rightarrow> ('s, 'a) op" where
  "olift r s = (r, s)"

definition obind :: "('s, 'a) op \<Rightarrow> ('a \<Rightarrow> ('s, 'b) op) \<Rightarrow> ('s, 'b) op" where
  "obind m f s = (case m s of (Inl e, s') \<Rightarrow> (Inl e, s') | (Inr x, s') \<Rightarrow> f x s')"

lemma op_simps [simp]:
  "oreturn x s = (Inr x, s)" "othrow e s = (Inl e, s)" "olift r s = (r, s)"
  by (simp_all add: oreturn_def othrow_def olift_def)

lemma obind_simps [simp]:
  "m s = (Inl e, s') \<Longrightarrow> obind m f s = (Inl e, s')"
  "m s = (Inr x, s') \<Longrightarrow> obind m f s = f x s'"
  by (simp_all add: obind_def)

lemma obind_eq_Inr:
  "obind m f s = (Inr y, t) \<longleftrightarrow> (\<exists>x s'. m s = (Inr x, s') \<and> f x s' = (Inr y, t))"
  by (auto simp: obind_def split: prod.split sum.split)

text \<open>A loop over a list of elements that stops at the first throw.\<close>

fun ofold :: "('a \<Rightarrow> 'b \<Rightarrow> ('s, 'b) op) \<Rightarrow> 'a list \<Rightarrow> 'b \<Rightarrow> ('s, 'b) op" where
  "ofold f [] b = oreturn b"
| "ofold f (x # xs) b = obind (f x b) (ofold f xs)"

lemma obind_state_invariant:
  assumes "P s" and "\<And>r t. m s = (r, t) \<Longrightarrow> P t"
    and "\<And>x t. m s = (Inr x, t) \<Longrightarrow> P t \<Longrightarrow> P (snd (f x t))"
  shows "P (snd (obind m f s))"
  using assms by (auto simp: obind_def split: prod.splits sum.splits)

lemma ofold_state_invariant:
  assumes "P s" and "\<And>x b s. P s \<Longrightarrow> P (snd (f x b s))"
  shows "P (snd (ofold f xs b s))"
  using assms(1)
proof (induction xs arbitrary: b s)
  case Nil
  then show ?case by simp
next
  case (Cons x xs)
  obtain r t where f: "f x b s = (r, t)" by fastforce
  have "P t" using Cons.prems assms(2)[of s x b] f by simp
  then show ?case
    using Cons.IH f by (cases r) (simp_all add: obind_def)
qed

section \<open>The insertion-ordered map\<close>

text \<open>
  A JavaScript \<open>Map\<close> is an association list with distinct keys in insertion order:
  \<open>set\<close> is \<^const>\<open>AList.update\<close> (an existing key keeps its place), \<open>get\<close> is
  \<^const>\<open>map_of\<close>, \<open>delete\<close> is \<^const>\<open>AList.delete\<close>.
\<close>

abbreviation keys :: "('k \<times> 'v) list \<Rightarrow> 'k list" where
  "keys m \<equiv> map fst m"

abbreviation vals :: "('k \<times> 'v) list \<Rightarrow> 'v list" where
  "vals m \<equiv> map snd m"

text \<open>A JavaScript \<open>Set\<close> is a duplicate-free list in insertion order: this is \<open>add\<close>.\<close>

definition set_add :: "'a \<Rightarrow> 'a list \<Rightarrow> 'a list" where
  "set_add x xs = (if x \<in> set xs then xs else xs @ [x])"

lemma set_set_add [simp]: "set (set_add x xs) = insert x (set xs)"
  by (auto simp: set_add_def)

lemma distinct_set_add: "distinct xs \<Longrightarrow> distinct (set_add x xs)"
  by (simp add: set_add_def)

text \<open>Append to the bucket of a key: \<open>if (group) group.push(x) else groups.set(key, [x])\<close>.\<close>

definition push_at :: "'k \<Rightarrow> 'a \<Rightarrow> ('k \<times> 'a list) list \<Rightarrow> ('k \<times> 'a list) list" where
  "push_at k x m =
     (case map_of m k of Some xs \<Rightarrow> AList.update k (xs @ [x]) m | None \<Rightarrow> m @ [(k, [x])])"

text \<open>Grouping a list by a key, in order of first appearance.\<close>

definition group_by :: "('a \<Rightarrow> 'k) \<Rightarrow> 'a list \<Rightarrow> ('k \<times> 'a list) list" where
  "group_by f xs = fold (\<lambda>x. push_at (f x) x) xs []"

lemma update_append_fresh: "map_of m k = None \<Longrightarrow> AList.update k v m = m @ [(k, v)]"
  by (induction m) (auto split: if_splits)

lemma set_AList_update: "set (AList.update k v m) \<subseteq> insert (k, v) (set m)"
  by (induction m) auto

lemma push_at_update:
  "push_at k x m = AList.update k ((case map_of m k of Some xs \<Rightarrow> xs | None \<Rightarrow> []) @ [x]) m"
  by (simp add: push_at_def update_append_fresh split: option.split)

lemma map_of_push_at:
  "map_of (push_at k x m) =
     (map_of m)(k \<mapsto> (case map_of m k of Some xs \<Rightarrow> xs | None \<Rightarrow> []) @ [x])"
  by (simp add: push_at_update update_conv')

lemma distinct_push_at: "distinct (keys m) \<Longrightarrow> distinct (keys (push_at k x m))"
  by (simp add: push_at_update distinct_update)

lemma group_by_snoc: "group_by f (xs @ [x]) = push_at (f x) x (group_by f xs)"
  by (simp add: group_by_def)

lemma group_by_Nil [simp]: "group_by f [] = []"
  by (simp add: group_by_def)

lemma distinct_group_by [simp]: "distinct (keys (group_by f xs))"
  by (induction xs rule: rev_induct) (simp_all add: group_by_snoc distinct_push_at)

lemma map_of_group_by:
  "map_of (group_by f xs) k =
     (let ys = filter (\<lambda>x. f x = k) xs in if ys = [] then None else Some ys)"
proof (induction xs rule: rev_induct)
  case Nil
  then show ?case by simp
next
  case (snoc x xs)
  then show ?case
    by (simp add: group_by_snoc map_of_push_at Let_def del: fun_upd_apply)
       (simp add: fun_upd_apply split: option.split if_split)
qed

lemma group_by_member:
  "(k, ys) \<in> set (group_by f xs) \<longleftrightarrow> ys = filter (\<lambda>x. f x = k) xs \<and> ys \<noteq> []"
proof -
  have "(k, ys) \<in> set (group_by f xs) \<longleftrightarrow> map_of (group_by f xs) k = Some ys"
    by (simp add: map_of_eq_Some_iff)
  then show ?thesis by (auto simp: map_of_group_by Let_def)
qed

lemma key_group_by_iff: "k \<in> fst ` set (group_by f xs) \<longleftrightarrow> k \<in> f ` set xs"
proof -
  have "k \<in> fst ` set (group_by f xs) \<longleftrightarrow> map_of (group_by f xs) k \<noteq> None"
    by (metis map_of_eq_None_iff)
  also have "\<dots> \<longleftrightarrow> k \<in> f ` set xs"
    by (auto simp: map_of_group_by Let_def filter_empty_conv split: if_splits)
  finally show ?thesis .
qed

lemma keys_group_by: "set (keys (group_by f xs)) = f ` set xs"
  using key_group_by_iff[of _ f xs] by auto

section \<open>Comparators and the stable sort\<close>

text \<open>
  \<open>Array.prototype.sort\<close> with a comparator is stable. For a comparator that is a consistent
  order the result is determined; the insertion sort below computes it. \<open>cmp_or\<close> is the
  \<open>c1 || c2\<close> with which the code chains comparators.
\<close>

definition cmp_or :: "int \<Rightarrow> int \<Rightarrow> int" where
  "cmp_or a b = (if a \<noteq> 0 then a else b)"

definition cmp_int :: "'a::linorder \<Rightarrow> 'a \<Rightarrow> int" where
  "cmp_int a b = (if a < b then - 1 else if a = b then 0 else 1)"

fun insert_by :: "('a \<Rightarrow> 'a \<Rightarrow> int) \<Rightarrow> 'a \<Rightarrow> 'a list \<Rightarrow> 'a list" where
  "insert_by c x [] = [x]"
| "insert_by c x (y # ys) = (if c x y \<le> 0 then x # y # ys else y # insert_by c x ys)"

definition sort_by :: "('a \<Rightarrow> 'a \<Rightarrow> int) \<Rightarrow> 'a list \<Rightarrow> 'a list" where
  "sort_by c xs = foldr (insert_by c) xs []"

lemma sort_by_simps [simp]:
  "sort_by c [] = []" "sort_by c (x # xs) = insert_by c x (sort_by c xs)"
  by (simp_all add: sort_by_def)

lemma mset_insert_by [simp]: "mset (insert_by c x xs) = add_mset x (mset xs)"
  by (induction xs) auto

lemma mset_sort_by [simp]: "mset (sort_by c xs) = mset xs"
  by (induction xs) auto

lemma set_sort_by [simp]: "set (sort_by c xs) = set xs"
  by (metis mset_sort_by set_mset_mset)

lemma length_sort_by [simp]: "length (sort_by c xs) = length xs"
  by (metis mset_sort_by size_mset)

lemma sort_by_eq_Nil [simp]: "sort_by c xs = [] \<longleftrightarrow> xs = []"
  by (metis length_0_conv length_sort_by)

lemma distinct_sort_by [simp]: "distinct (sort_by c xs) = distinct xs"
  by (metis mset_sort_by mset_eq_imp_distinct_iff)

lemma distinct_map_sort_by [simp]: "distinct (map f (sort_by c xs)) = distinct (map f xs)"
  by (metis mset_sort_by mset_map mset_eq_imp_distinct_iff)

text \<open>
  The contract of a comparator: its sign is antisymmetric and "not greater" is transitive. Sorted
  order, and the head of a sorted list as a least element, follow for every instance.
\<close>

locale comparator_fn =
  fixes cmp :: "'a \<Rightarrow> 'a \<Rightarrow> int"
  assumes sign_flip: "cmp x y \<le> 0 \<longleftrightarrow> 0 \<le> cmp y x"
    and le_trans: "cmp x y \<le> 0 \<Longrightarrow> cmp y z \<le> 0 \<Longrightarrow> cmp x z \<le> 0"
begin

lemma le_total: "cmp x y \<le> 0 \<or> cmp y x \<le> 0"
  using sign_flip by (metis linear)

lemma le_refl: "cmp x x \<le> 0"
  using le_total by blast

lemma sorted_insert_by:
  "sorted_wrt (\<lambda>a b. cmp a b \<le> 0) xs \<Longrightarrow> sorted_wrt (\<lambda>a b. cmp a b \<le> 0) (insert_by cmp x xs)"
proof (induction xs)
  case Nil
  then show ?case by simp
next
  case (Cons y ys)
  show ?case
  proof (cases "cmp x y \<le> 0")
    case True
    with Cons.prems show ?thesis by (auto intro: le_trans)
  next
    case False
    then have "cmp y x \<le> 0" using le_total by blast
    moreover have "set (insert_by cmp x ys) = insert x (set ys)"
      by (metis mset_insert_by set_mset_add_mset_insert set_mset_mset)
    ultimately show ?thesis using False Cons by auto
  qed
qed

lemma sorted_sort_by: "sorted_wrt (\<lambda>a b. cmp a b \<le> 0) (sort_by cmp xs)"
  by (induction xs) (auto intro: sorted_insert_by)

lemma hd_sort_by_least:
  assumes "x \<in> set xs"
  shows "cmp (hd (sort_by cmp xs)) x \<le> 0"
proof -
  from assms have ne: "sort_by cmp xs \<noteq> []" by auto
  then obtain y ys where e: "sort_by cmp xs = y # ys" by (cases "sort_by cmp xs") auto
  have "x \<in> set (y # ys)" using assms e by (metis set_sort_by)
  with sorted_sort_by[of xs] e show ?thesis by (auto intro: le_refl)
qed

lemma sort_by_sorted_id: "sorted_wrt (\<lambda>a b. cmp a b \<le> 0) xs \<Longrightarrow> sort_by cmp xs = xs"
proof (induction xs)
  case Nil
  then show ?case by simp
next
  case (Cons x xs)
  then show ?case by (cases xs) auto
qed

lemma sort_by_idem: "sort_by cmp (sort_by cmp xs) = sort_by cmp xs"
  by (rule sort_by_sorted_id) (rule sorted_sort_by)

end

lemma comparator_cmp_int: "comparator_fn (\<lambda>a b. cmp_int (f a) (f b :: 'b::linorder))"
  by unfold_locales (auto simp: cmp_int_def split: if_splits)

lemma comparator_on: "comparator_fn c \<Longrightarrow> comparator_fn (\<lambda>a b. c (f a) (f b))"
  unfolding comparator_fn_def by blast

lemma comparator_cmp_or:
  assumes "comparator_fn c" and "comparator_fn d"
  shows "comparator_fn (\<lambda>a b. cmp_or (c a b) (d a b))"
proof
  note flip = comparator_fn.sign_flip[OF assms(1)] comparator_fn.sign_flip[OF assms(2)]
  note trans = comparator_fn.le_trans[OF assms(1)] comparator_fn.le_trans[OF assms(2)]
  have zero: "c x y = 0 \<longleftrightarrow> c y x = 0" for x y
    using flip(1)[of x y] flip(1)[of y x] by linarith
  fix x y
  show "cmp_or (c x y) (d x y) \<le> 0 \<longleftrightarrow> 0 \<le> cmp_or (c y x) (d y x)"
    using flip(1)[of x y] flip(2)[of x y] zero[of x y] by (simp add: cmp_or_def)
  fix z
  assume a: "cmp_or (c x y) (d x y) \<le> 0" and b: "cmp_or (c y z) (d y z) \<le> 0"
  have cxy: "c x y \<le> 0" "c y z \<le> 0" using a b by (auto simp: cmp_or_def split: if_splits)
  show "cmp_or (c x z) (d x z) \<le> 0"
  proof (cases "c x z = 0")
    case True
    then have "c z x \<le> 0" using flip(1)[of z x] by simp
    then have "c y x \<le> 0" "c z y \<le> 0" using cxy trans(1) by blast+
    then have "c x y = 0" "c y z = 0"
      using cxy flip(1)[of y x] flip(1)[of z y] by simp_all
    then show ?thesis using a b True trans(2) by (auto simp: cmp_or_def)
  next
    case False
    then show ?thesis using trans(1)[OF cxy] by (simp add: cmp_or_def)
  qed
qed

end
