(* ===== verification/Regex.thy ===== *)
theory Regex
  imports Prelude
begin

text \<open>
  The regular expressions the program applies to text. The pattern language has the constructs
  the sources use; \<open>run\<close> is the backtracking matcher of the language: it lists every way to
  match from a position, in the order in which the matcher tries them, so the first element is
  the match that \<open>exec\<close> reports.
\<close>

section \<open>Patterns\<close>

datatype rx =
    Chr "nat \<Rightarrow> bool"
  | Eps
  | Seq rx rx
  | Alt rx rx
  | Rep bool nat "nat option" rx
  | Cap nat rx
  | Bound "nat \<Rightarrow> bool"
  | Begins
  | Finishes
  | Ahead rx
  | Unless rx
  | Behind "jstr \<Rightarrow> bool"

text \<open>
  \<open>Ahead\<close> and \<open>Unless\<close> are the positive and the negative look-ahead. A look-behind of the
  sources compares a bounded text, so it is a predicate on the units before the position.

  A position in the input: the units past it, last first, and the units after it. Captures
  are the groups matched so far, latest first.
\<close>

type_synonym captures = "(nat \<times> jstr) list"
type_synonym position = "jstr \<times> jstr \<times> captures"

definition is_word_unit :: "nat \<Rightarrow> bool" where
  "is_word_unit c \<longleftrightarrow> is_digit_unit c \<or> is_lower_unit c \<or> is_upper_unit c \<or> c = 95"

text \<open>White space and line terminators of \<open>\\s\<close>, which are also what \<open>trim\<close> removes.\<close>

definition is_space_unit :: "nat \<Rightarrow> bool" where
  "is_space_unit c \<longleftrightarrow>
     (9 \<le> c \<and> c \<le> 13) \<or> c = 32 \<or> c = 160 \<or> c = 5760 \<or> (8192 \<le> c \<and> c \<le> 8202)
     \<or> c = 8232 \<or> c = 8233 \<or> c = 8239 \<or> c = 8287 \<or> c = 12288 \<or> c = 65279"

fun unit_ahead :: "(nat \<Rightarrow> bool) \<Rightarrow> jstr \<Rightarrow> bool" where
  "unit_ahead w [] = False"
| "unit_ahead w (c # r) = w c"

fun groups :: "rx \<Rightarrow> nat list" where
  "groups (Seq a b) = groups a @ groups b"
| "groups (Alt a b) = groups a @ groups b"
| "groups (Rep g m n r) = groups r"
| "groups (Cap k r) = k # groups r"
| "groups (Ahead r) = groups r"
| "groups (Unless r) = groups r"
| "groups _ = []"

text \<open>
  Repetition. An iteration clears the groups of its body; once the minimum is reached, an
  iteration that consumes nothing fails. Each further iteration consumes a unit, so the minimum
  plus the units left, plus one, bounds the iterations: that is the fuel \<open>run\<close> gives.
\<close>

fun iterate ::
  "(position \<Rightarrow> position list) \<Rightarrow> nat list \<Rightarrow> bool \<Rightarrow> nat \<Rightarrow> nat \<Rightarrow> nat option \<Rightarrow> position
     \<Rightarrow> position list" where
  "iterate f gs greedy 0 low high p = []"
| "iterate f gs greedy (Suc fuel) low high p =
     (if high = Some 0 then [p]
      else
        let again = concat (map (\<lambda>q. if low = 0 \<and> fst (snd q) = fst (snd p) then []
                       else iterate f gs greedy fuel (low - 1) (map_option (\<lambda>n. n - 1) high) q)
                     (f (fst p, fst (snd p), filter (\<lambda>c. fst c \<notin> set gs) (snd (snd p)))))
        in if low > 0 then again else if greedy then again @ [p] else p # again)"

fun run :: "rx \<Rightarrow> position \<Rightarrow> position list" where
  "run (Chr ok) (past, rest, cs) =
     (case rest of [] \<Rightarrow> [] | c # r \<Rightarrow> if ok c then [(c # past, r, cs)] else [])"
| "run Eps p = [p]"
| "run (Seq a b) p = concat (map (run b) (run a p))"
| "run (Alt a b) p = run a p @ run b p"
| "run (Rep greedy low high r) p =
     iterate (run r) (groups r) greedy (low + length (fst (snd p)) + 1) low high p"
| "run (Cap k r) (past, rest, cs) =
     map (\<lambda>(b, e, ds). (b, e, (k, rev (take (length b - length past) b)) # ds))
       (run r (past, rest, cs))"
| "run (Bound w) (past, rest, cs) =
     (if unit_ahead w past \<noteq> unit_ahead w rest then [(past, rest, cs)] else [])"
| "run Begins (past, rest, cs) = (if past = [] then [(past, rest, cs)] else [])"
| "run Finishes (past, rest, cs) = (if rest = [] then [(past, rest, cs)] else [])"
| "run (Ahead r) (past, rest, cs) =
     (case run r (past, rest, cs) of [] \<Rightarrow> [] | (b, e, ds) # qs \<Rightarrow> [(past, rest, ds)])"
| "run (Unless r) (past, rest, cs) =
     (case run r (past, rest, cs) of [] \<Rightarrow> [(past, rest, cs)] | q # qs \<Rightarrow> [])"
| "run (Behind ok) (past, rest, cs) = (if ok past then [(past, rest, cs)] else [])"

section \<open>Notations of the sources\<close>

definition Lit :: "jstr \<Rightarrow> rx" where
  "Lit s = foldr (\<lambda>c. Seq (Chr (\<lambda>d. d = c))) s Eps"

definition L :: "string \<Rightarrow> rx" where
  "L s = Lit (u s)"

definition seqs :: "rx list \<Rightarrow> rx" where
  "seqs rs = foldr Seq rs Eps"

fun alts :: "rx list \<Rightarrow> rx" where
  "alts [] = Chr (\<lambda>c. False)"
| "alts [r] = r"
| "alts (r # rs) = Alt r (alts rs)"

definition any_of :: "string list \<Rightarrow> rx" where
  "any_of ws = alts (map L ws)"

definition Opt :: "rx \<Rightarrow> rx" where "Opt r = Rep True 0 (Some 1) r"
definition Star :: "rx \<Rightarrow> rx" where "Star r = Rep True 0 None r"
definition Plus :: "rx \<Rightarrow> rx" where "Plus r = Rep True 1 None r"
definition Upto :: "nat \<Rightarrow> nat \<Rightarrow> rx \<Rightarrow> rx" where "Upto m n r = Rep True m (Some n) r"

text \<open>\<open>\\b\<close>, with the ASCII word class.\<close>

definition Wordb :: rx where "Wordb = Bound is_word_unit"

definition Space :: rx where "Space = Chr is_space_unit"
definition Digit :: rx where "Digit = Chr is_digit_unit"
definition Word :: rx where "Word = Chr is_word_unit"

text \<open>A whole word: \<open>\\b(?:...)\\b\<close>.\<close>

definition whole :: "rx \<Rightarrow> rx" where
  "whole r = seqs [Wordb, r, Wordb]"

section \<open>Matching\<close>

record rx_match =
  rm_before :: jstr
  rm_text :: jstr
  rm_after :: jstr
  rm_groups :: captures

definition match_at :: "rx \<Rightarrow> jstr \<Rightarrow> jstr \<Rightarrow> rx_match option" where
  "match_at r past rest =
     (case run r (past, rest, []) of
        [] \<Rightarrow> None
      | (b, e, cs) # qs \<Rightarrow>
          Some \<lparr>rm_before = past, rm_text = rev (take (length b - length past) b),
                rm_after = e, rm_groups = cs\<rparr>)"

text \<open>The leftmost match at or after a position.\<close>

fun find_from :: "rx \<Rightarrow> jstr \<Rightarrow> jstr \<Rightarrow> rx_match option" where
  "find_from r past [] = match_at r past []"
| "find_from r past (c # rest) =
     (case match_at r past (c # rest) of
        Some m \<Rightarrow> Some m | None \<Rightarrow> find_from r (c # past) rest)"

definition exec :: "rx \<Rightarrow> jstr \<Rightarrow> rx_match option" where
  "exec r s = find_from r [] s"

definition test :: "rx \<Rightarrow> jstr \<Rightarrow> bool" where
  "test r s \<longleftrightarrow> exec r s \<noteq> None"

definition group :: "rx_match \<Rightarrow> nat \<Rightarrow> jstr option" where
  "group m k = (if k = 0 then Some (rm_text m) else map_of (rm_groups m) k)"

definition rm_index :: "rx_match \<Rightarrow> nat" where
  "rm_index m = length (rm_before m)"

text \<open>\<open>matchAll\<close>: an empty match moves on by one unit.\<close>

fun matches_from :: "nat \<Rightarrow> rx \<Rightarrow> jstr \<Rightarrow> jstr \<Rightarrow> rx_match list" where
  "matches_from 0 r past rest = []"
| "matches_from (Suc fuel) r past rest =
     (case find_from r past rest of
        None \<Rightarrow> []
      | Some m \<Rightarrow>
          m # (if rm_text m \<noteq> []
               then matches_from fuel r (rev (rm_text m) @ rm_before m) (rm_after m)
               else case rm_after m of
                      [] \<Rightarrow> []
                    | c # e \<Rightarrow> matches_from fuel r (c # rm_before m) e))"

definition match_all :: "rx \<Rightarrow> jstr \<Rightarrow> rx_match list" where
  "match_all r s = matches_from (Suc (length s)) r [] s"

text \<open>\<open>replace\<close> with a pattern that is not global: the first match only.\<close>

definition replace_first :: "rx \<Rightarrow> jstr \<Rightarrow> jstr \<Rightarrow> jstr" where
  "replace_first r by s =
     (case exec r s of None \<Rightarrow> s | Some m \<Rightarrow> rev (rm_before m) @ by @ rm_after m)"

text \<open>\<open>replaceAll\<close>, or \<open>replace\<close> with a global pattern.\<close>

fun replace_from :: "nat \<Rightarrow> rx \<Rightarrow> jstr \<Rightarrow> jstr \<Rightarrow> jstr \<Rightarrow> jstr" where
  "replace_from 0 r by past rest = rest"
| "replace_from (Suc fuel) r by past rest =
     (case find_from r past rest of
        None \<Rightarrow> rest
      | Some m \<Rightarrow>
          take (length (rm_before m) - length past) rest @ by @
          (if rm_text m \<noteq> []
           then replace_from fuel r by (rev (rm_text m) @ rm_before m) (rm_after m)
           else case rm_after m of
                  [] \<Rightarrow> []
                | c # e \<Rightarrow> c # replace_from fuel r by (c # rm_before m) e))"

definition replace_all :: "rx \<Rightarrow> jstr \<Rightarrow> jstr \<Rightarrow> jstr" where
  "replace_all r by s = replace_from (Suc (length s)) r by [] s"

text \<open>\<open>replace\<close> with a global pattern and a function of the match.\<close>

fun replace_with_from :: "nat \<Rightarrow> rx \<Rightarrow> (rx_match \<Rightarrow> jstr) \<Rightarrow> jstr \<Rightarrow> jstr \<Rightarrow> jstr" where
  "replace_with_from 0 r by past rest = rest"
| "replace_with_from (Suc fuel) r by past rest =
     (case find_from r past rest of
        None \<Rightarrow> rest
      | Some m \<Rightarrow>
          take (length (rm_before m) - length past) rest @ by m @
          (if rm_text m \<noteq> []
           then replace_with_from fuel r by (rev (rm_text m) @ rm_before m) (rm_after m)
           else case rm_after m of
                  [] \<Rightarrow> []
                | c # e \<Rightarrow> c # replace_with_from fuel r by (c # rm_before m) e))"

definition replace_with :: "rx \<Rightarrow> (rx_match \<Rightarrow> jstr) \<Rightarrow> jstr \<Rightarrow> jstr" where
  "replace_with r by s = replace_with_from (Suc (length s)) r by [] s"

text \<open>\<open>split\<close> at the matches of a pattern that matches no empty text.\<close>

fun split_from :: "rx_match list \<Rightarrow> nat \<Rightarrow> jstr \<Rightarrow> jstr list" where
  "split_from [] start s = [drop start s]"
| "split_from (m # ms) start s =
     take (rm_index m - start) (drop start s)
       # split_from ms (rm_index m + length (rm_text m)) s"

definition split_rx :: "rx \<Rightarrow> jstr \<Rightarrow> jstr list" where
  "split_rx r s = split_from (match_all r s) 0 s"

section \<open>What a match is\<close>

text \<open>Every outcome of a pattern consumes a prefix of the rest.\<close>

definition consumes :: "position \<Rightarrow> position \<Rightarrow> bool" where
  "consumes p q \<longleftrightarrow> (\<exists>w. fst (snd p) = w @ fst (snd q) \<and> fst q = rev w @ fst p)"

lemma consumes_refl [simp]: "consumes p p"
  by (simp add: consumes_def)

lemma consumes_trans: "consumes p q \<Longrightarrow> consumes q r \<Longrightarrow> consumes p r"
  by (fastforce simp: consumes_def)

lemma consumes_caps: "consumes (b, e, cs) q \<longleftrightarrow> consumes (b, e, ds) q"
  by (simp add: consumes_def)

lemma consumes_length: "consumes p q \<Longrightarrow> length (fst (snd q)) \<le> length (fst (snd p))"
  by (auto simp: consumes_def)

lemma consumes_shorter:
  "consumes p q \<Longrightarrow> fst (snd q) \<noteq> fst (snd p) \<Longrightarrow> length (fst (snd q)) < length (fst (snd p))"
  by (auto simp: consumes_def)

lemma iterate_consumes:
  assumes "\<And>p q. q \<in> set (f p) \<Longrightarrow> consumes p q"
  shows "q \<in> set (iterate f gs greedy fuel low high p) \<Longrightarrow> consumes p q"
proof (induction fuel arbitrary: low high p q)
  case 0
  then show ?case by simp
next
  case (Suc fuel)
  have step: "consumes p q'" if "q' \<in> set (f (fst p, fst (snd p), cs))" for q' cs
    using assms[OF that] by (simp add: consumes_def)
  have "q = p \<or> (\<exists>q' cs low high. q' \<in> set (f (fst p, fst (snd p), cs))
          \<and> q \<in> set (iterate f gs greedy fuel low high q'))"
    using Suc.prems
    by (fastforce simp: Let_def split: if_splits)
  then show ?case using Suc.IH step consumes_trans consumes_refl by blast
qed

lemma run_consumes: "q \<in> set (run r p) \<Longrightarrow> consumes p q"
proof (induction r arbitrary: p q)
  case (Chr ok)
  then show ?case by (cases p) (auto simp: consumes_def split: list.splits if_splits)
next
  case (Seq a b)
  then obtain m where "m \<in> set (run a p)" "q \<in> set (run b m)" by auto
  then show ?case using Seq.IH consumes_trans by blast
next
  case (Rep greedy low high r)
  show ?case
    by (rule iterate_consumes[of "run r"]) (use Rep.IH Rep.prems[unfolded run.simps] in blast)+
next
  case (Cap k r)
  obtain past rest cs where p: "p = (past, rest, cs)" by (cases p) auto
  then obtain b e ds where "(b, e, ds) \<in> set (run r p)" "q = (b, e, (k, rev (take (length b - length past) b)) # ds)"
    using Cap.prems by auto
  then show ?case using Cap.IH p by (force simp: consumes_def)
next
  case (Ahead r)
  then show ?case by (cases p) (auto simp: consumes_def split: list.splits)
next
  case (Unless r)
  then show ?case by (cases p) (auto simp: consumes_def split: list.splits)
qed (auto simp: consumes_def split: if_splits)

text \<open>The fuel of a repetition is enough: more fuel gives the same outcomes.\<close>

lemma iterate_enough:
  assumes "\<And>p q. q \<in> set (f p) \<Longrightarrow> consumes p q"
    and "low + length (fst (snd p)) < fuel"
  shows "iterate f gs greedy (fuel + extra) low high p = iterate f gs greedy fuel low high p"
  using assms(2)
proof (induction fuel arbitrary: low high p)
  case 0
  then show ?case by simp
next
  case (Suc fuel)
  let ?start = "(fst p, fst (snd p), filter (\<lambda>c. fst c \<notin> set gs) (snd (snd p)))"
  have "iterate f gs greedy (fuel + extra) (low - 1) h q = iterate f gs greedy fuel (low - 1) h q"
    if q: "q \<in> set (f ?start)" and go: "\<not> (low = 0 \<and> fst (snd q) = fst (snd p))" for q h
  proof (rule Suc.IH)
    have c: "consumes p q" using assms(1)[OF q] by (simp add: consumes_def)
    show "low - 1 + length (fst (snd q)) < fuel"
    proof (cases "low = 0")
      case True
      then show ?thesis using consumes_shorter[OF c] go Suc.prems by simp
    next
      case False
      then show ?thesis using consumes_length[OF c] Suc.prems by simp
    qed
  qed
  then have "map (\<lambda>q. if low = 0 \<and> fst (snd q) = fst (snd p) then []
        else iterate f gs greedy (fuel + extra) (low - 1) h q) (f ?start)
      = map (\<lambda>q. if low = 0 \<and> fst (snd q) = fst (snd p) then []
        else iterate f gs greedy fuel (low - 1) h q) (f ?start)" for h
    by (intro map_cong) auto
  then show ?case by (simp only: add_Suc iterate.simps Let_def)
qed

lemma run_rep_fuel:
  "run (Rep greedy low high r) p =
     iterate (run r) (groups r) greedy (low + length (fst (snd p)) + 1 + extra) low high p"
  unfolding run.simps by (rule iterate_enough[symmetric]) (auto intro: run_consumes)

lemma match_at_split:
  "match_at r past rest = Some m \<Longrightarrow> rm_before m = past \<and> rest = rm_text m @ rm_after m"
proof -
  assume "match_at r past rest = Some m"
  then obtain b e cs qs where r: "run r (past, rest, []) = (b, e, cs) # qs"
    and m: "m = \<lparr>rm_before = past, rm_text = rev (take (length b - length past) b),
                 rm_after = e, rm_groups = cs\<rparr>"
    by (auto simp: match_at_def split: list.splits)
  have "consumes (past, rest, []) (b, e, cs)" using r run_consumes[of _ r] by simp
  then show ?thesis using m by (auto simp: consumes_def)
qed

lemma find_from_split:
  "find_from r past rest = Some m \<Longrightarrow>
     rev past @ rest = rev (rm_before m) @ rm_text m @ rm_after m"
proof (induction rest arbitrary: past)
  case Nil
  then show ?case using match_at_split by fastforce
next
  case (Cons c rest)
  then show ?case using match_at_split[of r past "c # rest" m] Cons.IH[of "c # past"]
    by (auto split: option.splits)
qed

lemma exec_split: "exec r s = Some m \<Longrightarrow> s = rev (rm_before m) @ rm_text m @ rm_after m"
  using find_from_split[of r "[]" s m] by (simp add: exec_def)

lemma replace_first_eq: "exec r s = None \<Longrightarrow> replace_first r by s = s"
  by (simp add: replace_first_def)

text \<open>A literal matches where the text contains it.\<close>

lemma run_Lit:
  "run (Lit w) (past, rest, cs) =
     (if take (length w) rest = w then [(rev w @ past, drop (length w) rest, cs)] else [])"
proof (induction w arbitrary: past rest)
  case Nil
  then show ?case by (simp add: Lit_def)
next
  case (Cons c w)
  then show ?case by (cases rest) (auto simp: Lit_def)
qed

lemma find_from_None:
  "find_from r past rest = None \<longleftrightarrow>
     (\<forall>xs ys. rest = xs @ ys \<longrightarrow> run r (rev xs @ past, ys, []) = [])"
proof (induction rest arbitrary: past)
  case Nil
  then show ?case by (auto simp: match_at_def split: list.splits)
next
  case (Cons c rest)
  show ?case
  proof
    assume "find_from r past (c # rest) = None"
    then have "run r (past, c # rest, []) = []" "find_from r (c # past) rest = None"
      by (auto simp: match_at_def split: option.splits list.splits)
    then show "\<forall>xs ys. c # rest = xs @ ys \<longrightarrow> run r (rev xs @ past, ys, []) = []"
      using Cons.IH by (auto simp: Cons_eq_append_conv)
  next
    assume a: "\<forall>xs ys. c # rest = xs @ ys \<longrightarrow> run r (rev xs @ past, ys, []) = []"
    have "run r (past, c # rest, []) = []" using a[rule_format, of "[]" "c # rest"] by simp
    moreover have "find_from r (c # past) rest = None"
      unfolding Cons.IH using a[rule_format, of "c # _"] by auto
    ultimately show "find_from r past (c # rest) = None" by (simp add: match_at_def)
  qed
qed

lemma test_iff: "test r s \<longleftrightarrow> (\<exists>xs ys. s = xs @ ys \<and> run r (rev xs, ys, []) \<noteq> [])"
  by (auto simp: test_def exec_def find_from_None)

lemma test_Lit: "test (Lit w) s \<longleftrightarrow> (\<exists>xs ys. s = xs @ w @ ys)"
proof
  assume "test (Lit w) s"
  then obtain xs ys where "s = xs @ ys" "take (length w) ys = w"
    by (auto simp: test_iff run_Lit split: if_splits)
  then show "\<exists>xs ys. s = xs @ w @ ys" by (metis append_take_drop_id)
next
  assume "\<exists>xs ys. s = xs @ w @ ys"
  then obtain xs ys where "s = xs @ w @ ys" by blast
  then show "test (Lit w) s"
    unfolding test_iff run_Lit by (intro exI[of _ xs] exI[of _ "w @ ys"]) simp
qed

end
