(* ===== verification/JsTime.thy ===== *)
theory JsTime
  imports Prelude
begin

text \<open>
  The part of the language's \<open>Date\<close> that the program relies on: time values in
  milliseconds, \<open>toISOString\<close>, and \<open>Date.parse\<close> of the ISO date-time format, with the
  civil calendar of ECMA-262 (\<open>DayFromYear\<close>, \<open>MonthFromTime\<close>, \<open>MakeDay\<close>). A date outside
  the ISO format, or a date-time without an offset, parses to \<open>NaN\<close>, which is \<^term>\<open>None\<close>
  here. On top of it stands the check for a canonical time stamp, which five of the source
  files repeat under the names \<open>canonicalIso\<close>, \<open>iso\<close> and \<open>timestamp\<close>.
\<close>

section \<open>The civil calendar\<close>

definition ms_per_day :: int where
  "ms_per_day = 86400000"

definition leap_year :: "int \<Rightarrow> bool" where
  "leap_year y \<longleftrightarrow> (y mod 4 = 0 \<and> y mod 100 \<noteq> 0) \<or> y mod 400 = 0"

definition day_from_year :: "int \<Rightarrow> int" where
  "day_from_year y =
     365 * (y - 1970) + (y - 1969) div 4 - (y - 1901) div 100 + (y - 1601) div 400"

definition year_from_day :: "int \<Rightarrow> int" where
  "year_from_day d =
     (let y = 1970 + d * 400 div 146097
      in if d < day_from_year y then y - 1
         else if day_from_year (y + 1) \<le> d then y + 1 else y)"

definition month_start :: "bool \<Rightarrow> nat \<Rightarrow> int" where
  "month_start leap m =
     (let base = [0, 31, 59, 90, 120, 151, 181, 212, 243, 273, 304, 334] ! (m - 1)
      in if leap \<and> 3 \<le> m then base + 1 else base)"

definition month_of_yday :: "bool \<Rightarrow> int \<Rightarrow> nat" where
  "month_of_yday leap yd =
     (if yd < month_start leap 2 then 1 else if yd < month_start leap 3 then 2
      else if yd < month_start leap 4 then 3 else if yd < month_start leap 5 then 4
      else if yd < month_start leap 6 then 5 else if yd < month_start leap 7 then 6
      else if yd < month_start leap 8 then 7 else if yd < month_start leap 9 then 8
      else if yd < month_start leap 10 then 9 else if yd < month_start leap 11 then 10
      else if yd < month_start leap 12 then 11 else 12)"

definition make_time :: "int \<Rightarrow> nat \<Rightarrow> int \<Rightarrow> int \<Rightarrow> int \<Rightarrow> int \<Rightarrow> int \<Rightarrow> int" where
  "make_time y mo d h mi s ms =
     (day_from_year y + month_start (leap_year y) mo + d - 1) * ms_per_day
       + h * 3600000 + mi * 60000 + s * 1000 + ms"

lemma div_step:
  fixes a n :: int
  assumes "0 < n"
  shows "(a + 1) div n = a div n + (if (a + 1) mod n = 0 then 1 else 0)"
proof (cases "a mod n = n - 1")
  case True
  then have "a + 1 = n * (a div n + 1)"
    using mult_div_mod_eq[of n a] by (simp add: distrib_left)
  then show ?thesis using assms by simp
next
  case False
  then have r: "0 \<le> a mod n + 1" "a mod n + 1 < n"
    using pos_mod_bound[OF assms, of a] pos_mod_sign[OF assms, of a] by linarith+
  have "a + 1 = n * (a div n) + (a mod n + 1)"
    using mult_div_mod_eq[of n a] by simp
  then have "(a + 1) div n = a div n" "(a + 1) mod n = a mod n + 1"
    using r by (metis int_div_pos_eq) (metis int_mod_pos_eq \<open>a + 1 = _\<close> r)
  then show ?thesis using pos_mod_sign[OF assms, of a] by simp
qed

lemma day_from_year_Suc:
  "day_from_year (y + 1) = day_from_year y + (if leap_year y then 366 else 365)"
proof -
  have m: "(y - 1968) mod 4 = y mod 4" "(y - 1900) mod 100 = y mod 100"
    "(y - 1600) mod 400 = y mod 400"
  proof -
    have c: "(y - k * n) mod n = y mod n" for k n :: int
      using mod_mult_self1[of y "- k" n] by simp
    show "(y - 1968) mod 4 = y mod 4" "(y - 1900) mod 100 = y mod 100"
      "(y - 1600) mod 400 = y mod 400"
      using c[of 492 4] c[of 19 100] c[of 4 400] by (simp_all only: arith_simps)
  qed
  have imp: "y mod 400 = 0 \<Longrightarrow> y mod 100 = 0" "y mod 100 = 0 \<Longrightarrow> y mod 4 = 0"
    using dvd_trans[of 100 400 y] dvd_trans[of 4 100 y] by (simp_all add: mod_eq_0_iff_dvd)
  have e: "y - 1969 + 1 = y - 1968" "y - 1901 + 1 = y - 1900" "y - 1601 + 1 = y - 1600"
    "y + 1 - 1970 = y - 1970 + 1" "y + 1 - 1969 = y - 1968" "y + 1 - 1901 = y - 1900"
    "y + 1 - 1601 = y - 1600"
    by simp_all
  have d4: "(y - 1968) div 4 = (y - 1969) div 4 + (if y mod 4 = 0 then 1 else 0)"
    using div_step[of 4 "y - 1969"] by (simp only: e m)
  have d100: "(y - 1900) div 100 = (y - 1901) div 100 + (if y mod 100 = 0 then 1 else 0)"
    using div_step[of 100 "y - 1901"] by (simp only: e m)
  have d400: "(y - 1600) div 400 = (y - 1601) div 400 + (if y mod 400 = 0 then 1 else 0)"
    using div_step[of 400 "y - 1601"] by (simp only: e m)
  show ?thesis
    unfolding day_from_year_def leap_year_def e d4 d100 d400 using imp
    by (auto split: if_splits)
qed

lemma day_from_year_estimate:
  "146097 * (y - 1970) - 800 \<le> 400 * day_from_year y"
  "400 * day_from_year y \<le> 146097 * (y - 1970) + 800"
proof -
  have b: "n * (a div n) \<le> a" "a < n * (a div n) + n" if "0 < n" for a n :: int
    using that mult_div_mod_eq[of n a] pos_mod_bound[of n a] pos_mod_sign[of n a]
    by linarith+
  note e = b[of 4 "y - 1969"] b[of 100 "y - 1901"] b[of 400 "y - 1601"]
  show "146097 * (y - 1970) - 800 \<le> 400 * day_from_year y"
    using e by (simp add: day_from_year_def)
  show "400 * day_from_year y \<le> 146097 * (y - 1970) + 800"
    using e by (simp add: day_from_year_def)
qed

lemma year_from_day_bounds:
  "day_from_year (year_from_day d) \<le> d" "d < day_from_year (year_from_day d + 1)"
proof -
  define y where "y = 1970 + d * 400 div 146097"
  have q: "146097 * (y - 1970) \<le> d * 400" "d * 400 < 146097 * (y - 1970) + 146097"
    using mult_div_mod_eq[of 146097 "d * 400"] pos_mod_bound[of 146097 "d * 400"]
      pos_mod_sign[of 146097 "d * 400"] by (simp_all add: y_def)
  have lo: "day_from_year (y - 1) \<le> d"
    using day_from_year_estimate(2)[of "y - 1"] q(1) by simp
  have hi: "d < day_from_year (y + 1 + 1)"
    using day_from_year_estimate(1)[of "y + 1 + 1"] q(2) by simp
  show "day_from_year (year_from_day d) \<le> d" "d < day_from_year (year_from_day d + 1)"
    using lo hi by (auto simp: year_from_day_def Let_def y_def[symmetric])
qed

lemma day_from_year_less: "y < z \<Longrightarrow> day_from_year y < day_from_year z"
proof (induction z rule: int_gr_induct)
  case base
  then show ?case by (simp add: day_from_year_Suc)
next
  case (step z)
  then show ?case by (simp add: day_from_year_Suc split: if_splits)
qed

lemma day_from_year_le: "y \<le> z \<Longrightarrow> day_from_year y \<le> day_from_year z"
  using day_from_year_less by (metis order_le_less)

lemma year_from_day_unique:
  assumes "day_from_year y \<le> d" "d < day_from_year (y + 1)"
  shows "year_from_day d = y"
proof -
  have a: "day_from_year y < day_from_year (year_from_day d + 1)"
    using assms(1) year_from_day_bounds(2)[of d] by linarith
  have b: "day_from_year (year_from_day d) < day_from_year (y + 1)"
    using assms(2) year_from_day_bounds(1)[of d] by linarith
  have "\<not> year_from_day d + 1 \<le> y" using a day_from_year_le by (metis not_less)
  moreover have "\<not> y + 1 \<le> year_from_day d" using b day_from_year_le by (metis not_less)
  ultimately show ?thesis by linarith
qed

lemma month_of_yday_range: "1 \<le> month_of_yday l yd" "month_of_yday l yd \<le> 12"
  by (simp_all add: month_of_yday_def)

lemma month_of_yday_start:
  assumes "0 \<le> yd"
  shows "month_start l (month_of_yday l yd) \<le> yd"
  using assms by (cases l) (auto simp: month_of_yday_def month_start_def)

lemma month_of_yday_day:
  assumes "0 \<le> yd" "yd < (if l then 366 else 365)"
  shows "yd - month_start l (month_of_yday l yd) < 31"
  using assms by (cases l) (auto simp: month_of_yday_def month_start_def)

section \<open>Fixed-width decimals\<close>

fun pad :: "nat \<Rightarrow> nat \<Rightarrow> jstr" where
  "pad 0 n = []"
| "pad (Suc k) n = pad k (n div 10) @ [48 + n mod 10]"

definition digits_value :: "jstr \<Rightarrow> nat" where
  "digits_value s = foldl (\<lambda>a c. 10 * a + (c - 48)) 0 s"

text \<open>Read exactly \<open>k\<close> decimal digits; the rest of the input is returned.\<close>

definition read_digits :: "nat \<Rightarrow> jstr \<Rightarrow> (nat \<times> jstr) option" where
  "read_digits k s =
     (if k \<le> length s \<and> list_all is_digit_unit (take k s)
      then Some (digits_value (take k s), drop k s) else None)"

lemma length_pad [simp]: "length (pad k n) = k"
  by (induction k arbitrary: n) simp_all

lemma pad_digits [simp]: "list_all is_digit_unit (pad k n)"
  by (induction k arbitrary: n) (simp_all add: is_digit_unit_def)

lemma digits_value_snoc: "digits_value (s @ [c]) = 10 * digits_value s + (c - 48)"
  by (simp add: digits_value_def)

lemma digits_value_pad: "n < 10 ^ k \<Longrightarrow> digits_value (pad k n) = n"
proof (induction k arbitrary: n)
  case 0
  then show ?case by (simp add: digits_value_def)
next
  case (Suc k)
  then have "n div 10 < 10 ^ k" by (simp add: less_mult_imp_div_less mult.commute)
  with Suc.IH show ?case by (simp add: digits_value_snoc)
qed

lemma read_digits_pad: "n < 10 ^ k \<Longrightarrow> read_digits k (pad k n @ r) = Some (n, r)"
  by (simp add: read_digits_def digits_value_pad)

text \<open>Lists of equal length compare by their first part, then by the second.\<close>

lemma less_append_same_length:
  fixes a b :: "nat list"
  assumes "length a = length b"
  shows "a @ r < b @ s \<longleftrightarrow> a < b \<or> (a = b \<and> r < s)"
  using assms by (induction a b rule: list_induct2) auto

lemma pad_less_iff: "m < 10 ^ k \<Longrightarrow> n < 10 ^ k \<Longrightarrow> pad k m < pad k n \<longleftrightarrow> m < n"
proof (induction k arbitrary: m n)
  case 0
  then show ?case by simp
next
  case (Suc k)
  then have b: "m div 10 < 10 ^ k" "n div 10 < 10 ^ k"
    by (simp_all add: less_mult_imp_div_less mult.commute)
  have e: "pad k (m div 10) = pad k (n div 10) \<longleftrightarrow> m div 10 = n div 10"
    using b digits_value_pad by metis
  have "m < n \<longleftrightarrow> m div 10 < n div 10 \<or> (m div 10 = n div 10 \<and> m mod 10 < n mod 10)"
    using div_mult_mod_eq[of m 10] div_mult_mod_eq[of n 10] mod_less_divisor[of 10 m]
      mod_less_divisor[of 10 n] by linarith
  then show ?case using Suc.IH[OF b] e by (simp add: less_append_same_length)
qed

lemma pad_inj: "m < 10 ^ k \<Longrightarrow> n < 10 ^ k \<Longrightarrow> pad k m = pad k n \<longleftrightarrow> m = n"
  using digits_value_pad by metis

section \<open>toISOString\<close>

definition max_time :: int where
  "max_time = 8640000000000000"

definition iso_year :: "int \<Rightarrow> jstr" where
  "iso_year y =
     (if 0 \<le> y \<and> y \<le> 9999 then pad 4 (nat y)
      else if y < 0 then u ''-'' @ pad 6 (nat (- y)) else u ''+'' @ pad 6 (nat y))"

definition iso_rest :: "nat \<Rightarrow> nat \<Rightarrow> nat \<Rightarrow> nat \<Rightarrow> nat \<Rightarrow> nat \<Rightarrow> jstr" where
  "iso_rest mo d h mi s ms =
     u ''-'' @ pad 2 mo @ u ''-'' @ pad 2 d @ u ''T'' @ pad 2 h @ u '':'' @ pad 2 mi
       @ u '':'' @ pad 2 s @ u ''.'' @ pad 3 ms @ u ''Z''"

text \<open>The calendar fields of a time value.\<close>

definition t_day :: "int \<Rightarrow> int" where "t_day t = t div ms_per_day"
definition t_year :: "int \<Rightarrow> int" where "t_year t = year_from_day (t_day t)"
definition t_yday :: "int \<Rightarrow> int" where "t_yday t = t_day t - day_from_year (t_year t)"
definition t_month :: "int \<Rightarrow> nat" where
  "t_month t = month_of_yday (leap_year (t_year t)) (t_yday t)"
definition t_mday :: "int \<Rightarrow> int" where
  "t_mday t = t_yday t - month_start (leap_year (t_year t)) (t_month t) + 1"
definition t_ms :: "int \<Rightarrow> int" where "t_ms t = t mod ms_per_day"
definition t_hour :: "int \<Rightarrow> nat" where "t_hour t = nat (t_ms t div 3600000)"
definition t_minute :: "int \<Rightarrow> nat" where "t_minute t = nat (t_ms t div 60000 mod 60)"
definition t_second :: "int \<Rightarrow> nat" where "t_second t = nat (t_ms t div 1000 mod 60)"
definition t_milli :: "int \<Rightarrow> nat" where "t_milli t = nat (t_ms t mod 1000)"

definition iso_string :: "int \<Rightarrow> jstr" where
  "iso_string t =
     iso_year (t_year t) @
     iso_rest (t_month t) (nat (t_mday t)) (t_hour t) (t_minute t) (t_second t) (t_milli t)"

text \<open>\<open>toISOString\<close> throws a \<open>RangeError\<close> outside the range of time values.\<close>

definition to_iso :: "int \<Rightarrow> jstr option" where
  "to_iso t = (if \<bar>t\<bar> \<le> max_time then Some (iso_string t) else None)"

section \<open>Date.parse\<close>

definition read_lit :: "char \<Rightarrow> jstr \<Rightarrow> jstr option" where
  "read_lit c s = (case s of x # r \<Rightarrow> if x = cu c then Some r else None | [] \<Rightarrow> None)"

definition read_year :: "jstr \<Rightarrow> (int \<times> jstr) option" where
  "read_year s =
     (case s of
        [] \<Rightarrow> None
      | c # r \<Rightarrow>
          if c = cu CHR ''+'' then map_option (apfst int) (read_digits 6 r)
          else if c = cu CHR ''-'' then
            (case read_digits 6 r of
               Some (n, r') \<Rightarrow> if n = 0 then None else Some (- int n, r')
             | None \<Rightarrow> None)
          else map_option (apfst int) (read_digits 4 s))"

text \<open>An optional two-digit field behind a separator, with the value it has when absent.\<close>

definition read_field :: "char \<Rightarrow> nat \<Rightarrow> jstr \<Rightarrow> (nat \<times> jstr) option" where
  "read_field c k s = Option.bind (read_lit c s) (read_digits k)"

definition read_offset :: "jstr \<Rightarrow> int option" where
  "read_offset s =
     (if s = u ''Z'' then Some 0
      else case s of
        [] \<Rightarrow> None
      | c # r \<Rightarrow>
          if c = cu CHR ''+'' \<or> c = cu CHR ''-'' then
            Option.bind (read_digits 2 r) (\<lambda>(h, r1).
            Option.bind (read_field CHR '':'' 2 r1) (\<lambda>(m, r2).
              if r2 = [] \<and> h \<le> 23 \<and> m \<le> 59
              then Some ((if c = cu CHR ''-'' then - 1 else 1) * int (h * 60 + m) * 60000)
              else None))
          else None)"

definition read_clock :: "jstr \<Rightarrow> int option" where
  "read_clock s =
     Option.bind (read_digits 2 s) (\<lambda>(h, r1).
     Option.bind (read_field CHR '':'' 2 r1) (\<lambda>(mi, r2).
       let (sec, r3) = (case read_field CHR '':'' 2 r2 of Some x \<Rightarrow> x | None \<Rightarrow> (0, r2));
           (ms, r4) = (case read_field CHR ''.'' 3 r3 of Some x \<Rightarrow> x | None \<Rightarrow> (0, r3))
       in if mi \<le> 59 \<and> sec \<le> 59 \<and> (h \<le> 23 \<or> (h = 24 \<and> mi = 0 \<and> sec = 0 \<and> ms = 0))
          then map_option
                 (\<lambda>off. int h * 3600000 + int mi * 60000 + int sec * 1000 + int ms - off)
                 (read_offset r4)
          else None))"

definition date_parse :: "jstr \<Rightarrow> int option" where
  "date_parse s =
     Option.bind (read_year s) (\<lambda>(y, r1).
       let (mo, r2) = (case read_field CHR ''-'' 2 r1 of Some x \<Rightarrow> x | None \<Rightarrow> (1, r1));
           (d, r3) = (case read_field CHR ''-'' 2 r2 of Some x \<Rightarrow> x | None \<Rightarrow> (1, r2));
           base = make_time y mo (int d) 0 0 0 0
       in if 1 \<le> mo \<and> mo \<le> 12 \<and> 1 \<le> d \<and> d \<le> 31 then
            Option.bind
              (if r3 = [] then Some 0 else Option.bind (read_lit CHR ''T'' r3) read_clock)
              (\<lambda>c. if \<bar>base + c\<bar> \<le> max_time then Some (base + c) else None)
          else None)"

text \<open>
  \<open>Number.isFinite(Date.parse(v)) && new Date(Date.parse(v)).toISOString() === v\<close>.
\<close>

definition canonical_iso :: "jstr \<Rightarrow> bool" where
  "canonical_iso s = (case date_parse s of None \<Rightarrow> False | Some t \<Rightarrow> to_iso t = Some s)"

section \<open>The round trip\<close>

lemma t_yday_bounds: "0 \<le> t_yday t" "t_yday t < (if leap_year (t_year t) then 366 else 365)"
  using year_from_day_bounds[of "t_day t"]
  by (simp_all add: t_yday_def t_year_def day_from_year_Suc)

lemma t_month_range: "1 \<le> t_month t" "t_month t \<le> 12"
  using month_of_yday_range by (simp_all add: t_month_def)

lemma t_mday_range: "1 \<le> t_mday t" "t_mday t \<le> 31"
  using month_of_yday_start[OF t_yday_bounds(1), of "leap_year (t_year t)" t]
    month_of_yday_day[OF t_yday_bounds, of t]
  by (simp_all add: t_mday_def t_month_def)

lemma t_ms_range: "0 \<le> t_ms t" "t_ms t < ms_per_day"
  by (simp_all add: t_ms_def ms_per_day_def)

lemma make_time_fields:
  "make_time (t_year t) (t_month t) (t_mday t) 0 0 0 0 + t_ms t = t"
proof -
  have "day_from_year (t_year t) + month_start (leap_year (t_year t)) (t_month t) + t_mday t - 1
      = t_day t"
    by (simp only: t_mday_def t_yday_def)
  then show ?thesis
    by (simp only: make_time_def) (simp add: t_day_def t_ms_def)
qed

lemma t_year_bounds:
  assumes "\<bar>t\<bar> \<le> max_time"
  shows "- 271821 \<le> t_year t" "t_year t \<le> 275760"
proof -
  have d: "- 100000000 \<le> t_day t" "t_day t \<le> 100000000"
    using assms by (auto simp: t_day_def max_time_def ms_per_day_def)
  have lo: "day_from_year (t_year t) \<le> 100000000"
    using year_from_day_bounds(1)[of "t_day t"] d by (simp add: t_year_def)
  have hi: "- 100000000 < day_from_year (t_year t + 1)"
    using year_from_day_bounds(2)[of "t_day t"] d by (simp add: t_year_def)
  have a: "day_from_year 275761 > 100000000" "day_from_year (- 271821) \<le> - 100000000"
    by (simp_all add: day_from_year_def)
  show "- 271821 \<le> t_year t"
    using hi a(2) day_from_year_le[of "t_year t + 1" "- 271821"] by linarith
  show "t_year t \<le> 275760"
    using lo a(1) day_from_year_le[of 275761 "t_year t"] by linarith
qed

lemma read_lit_u: "read_lit c (u [c] @ r) = Some r"
  by (simp add: read_lit_def u_def cu_def)

lemma read_field_pad: "n < 10 ^ k \<Longrightarrow> read_field c k (u [c] @ pad k n @ r) = Some (n, r)"
  by (simp add: read_field_def read_lit_u read_digits_pad)

lemma pad_Cons: "pad (Suc k) n = (48 + n div 10 ^ k mod 10) # pad k n"
proof (induction k arbitrary: n)
  case 0
  then show ?case by simp
next
  case (Suc k)
  have "pad (Suc (Suc k)) n = pad (Suc k) (n div 10) @ [48 + n mod 10]" by simp
  also have "\<dots> = (48 + n div 10 div 10 ^ k mod 10) # pad k (n div 10) @ [48 + n mod 10]"
    by (simp only: Suc.IH append_Cons)
  finally show ?case by (simp add: div_mult2_eq)
qed

lemma read_year_iso_year:
  assumes "- 271821 \<le> y" "y \<le> 275760"
  shows "read_year (iso_year y @ r) = Some (y, r)"
proof (cases "0 \<le> y \<and> y \<le> 9999")
  case True
  define c where "c = 48 + nat y div 10 ^ 3 mod 10"
  have four: "(4::nat) = Suc 3" by simp
  have p: "pad 4 (nat y) = c # pad 3 (nat y)"
    unfolding four c_def by (rule pad_Cons)
  have sign: "c \<noteq> cu CHR ''+''" "c \<noteq> cu CHR ''-''" by (simp_all add: c_def cu_def)
  have v: "read_digits 4 (c # (pad 3 (nat y) @ r)) = Some (nat y, r)"
  proof -
    have "nat y < 10 ^ 4" using True by (simp add: nat_less_iff)
    then show ?thesis using read_digits_pad[of "nat y" 4 r] p by simp
  qed
  show ?thesis using True sign v by (simp add: read_year_def iso_year_def p)
next
  case False
  show ?thesis
  proof (cases "y < 0")
    case True
    have v: "read_digits 6 (pad 6 (nat (- y)) @ r) = Some (nat (- y), r)"
      using assms by (intro read_digits_pad) simp
    show ?thesis using True by (simp add: read_year_def iso_year_def v) (simp add: u_def cu_def v)
  next
    case pos: False
    have v: "read_digits 6 (pad 6 (nat y) @ r) = Some (nat y, r)"
      using assms by (intro read_digits_pad) simp
    show ?thesis using False pos by (simp add: read_year_def iso_year_def u_def cu_def v)
  qed
qed

lemma read_clock_iso:
  assumes "h \<le> 23" "mi \<le> 59" "s \<le> 59" "ms \<le> 999"
  shows "read_clock (pad 2 h @ u '':'' @ pad 2 mi @ u '':'' @ pad 2 s @ u ''.'' @ pad 3 ms @ u ''Z'')
     = Some (int h * 3600000 + int mi * 60000 + int s * 1000 + int ms)"
proof -
  have b: "h < 10 ^ 2" "mi < 10 ^ 2" "s < 10 ^ 2" "ms < 10 ^ 3" using assms by simp_all
  note r = read_digits_pad[OF b(1)] read_field_pad[OF b(2)] read_field_pad[OF b(3)]
    read_field_pad[OF b(4)]
  show ?thesis
    unfolding read_clock_def r using assms by (simp add: r Let_def read_offset_def)
qed

lemma clock_fields:
  "t_ms t = int (t_hour t) * 3600000 + int (t_minute t) * 60000 + int (t_second t) * 1000
     + int (t_milli t)"
  "t_hour t \<le> 23" "t_minute t \<le> 59" "t_second t \<le> 59" "t_milli t \<le> 999"
proof -
  define r where "r = t_ms t"
  have b: "0 \<le> r" "r < 86400000" using t_ms_range[of t] by (simp_all add: r_def ms_per_day_def)
  have i: "int (t_hour t) = r div 3600000" "int (t_minute t) = r div 60000 mod 60"
    "int (t_second t) = r div 1000 mod 60" "int (t_milli t) = r mod 1000"
    using b(1) by (simp_all add: t_hour_def t_minute_def t_second_def t_milli_def r_def
        pos_imp_zdiv_nonneg_iff)
  have q: "r div 60000 = r div 1000 div 60" "r div 3600000 = r div 1000 div 60 div 60"
    by (simp_all add: zdiv_zmult2_eq[symmetric])
  have "r = r div 3600000 * 3600000 + (r div 60000 mod 60) * 60000 + (r div 1000 mod 60) * 1000
      + r mod 1000"
    unfolding q
    using div_mult_mod_eq[of r 1000] div_mult_mod_eq[of "r div 1000" 60]
      div_mult_mod_eq[of "r div 1000 div 60" 60]
    by linarith
  then show "t_ms t = int (t_hour t) * 3600000 + int (t_minute t) * 60000
      + int (t_second t) * 1000 + int (t_milli t)"
    by (simp only: i r_def)
  have "r div 3600000 \<le> 23" using b by linarith
  then show "t_hour t \<le> 23" using i(1) by linarith
  show "t_minute t \<le> 59" "t_second t \<le> 59" "t_milli t \<le> 999"
    using i(2-4) pos_mod_bound[of 60 "r div 60000"] pos_mod_bound[of 60 "r div 1000"]
      pos_mod_bound[of 1000 r] by linarith+
qed

lemma date_parse_iso_string:
  assumes "\<bar>t\<bar> \<le> max_time"
  shows "date_parse (iso_string t) = Some t"
proof -
  define D where "D = nat (t_mday t)"
  have md: "D < 10 ^ 2" "t_month t < 10 ^ 2" "1 \<le> D" "D \<le> 31"
    using t_mday_range[of t] t_month_range[of t] by (simp_all add: D_def)
  note ry = read_year_iso_year[OF t_year_bounds[OF assms]]
  note rf = read_field_pad[OF md(2), of "CHR ''-''"] read_field_pad[OF md(1), of "CHR ''-''"]
  note rc = read_clock_iso[OF clock_fields(2,3,4,5)[of t]]
  have mt: "make_time (t_year t) (t_month t) (int D) 0 0 0 0 + t_ms t = t"
    using make_time_fields[of t] t_mday_range[of t] by (simp add: D_def)
  show ?thesis
    unfolding date_parse_def iso_string_def iso_rest_def ry D_def[symmetric]
    using t_month_range[of t] md(3,4) assms
    by (simp add: rf rc Let_def read_lit_u clock_fields(1)[symmetric] mt)
qed

lemma canonical_iso_iff: "canonical_iso s \<longleftrightarrow> (\<exists>t. \<bar>t\<bar> \<le> max_time \<and> s = iso_string t)"
  by (auto simp: canonical_iso_def to_iso_def date_parse_iso_string
      split: option.splits if_splits)

lemma canonical_iso_of_time [intro]: "\<bar>t\<bar> \<le> max_time \<Longrightarrow> canonical_iso (iso_string t)"
  by (auto simp: canonical_iso_iff)

lemma canonical_iso_parse:
  "canonical_iso s \<Longrightarrow> \<exists>t. date_parse s = Some t \<and> iso_string t = s \<and> \<bar>t\<bar> \<le> max_time"
  by (auto simp: canonical_iso_iff date_parse_iso_string)

lemma iso_string_inj:
  "\<bar>a\<bar> \<le> max_time \<Longrightarrow> \<bar>b\<bar> \<le> max_time \<Longrightarrow> iso_string a = iso_string b \<longleftrightarrow> a = b"
  using date_parse_iso_string by (metis option.inject)

section \<open>String order is time order\<close>

text \<open>
  Every stored time stamp of the program is compared as a string. For years 0 to 9999, which is
  when \<open>toISOString\<close> has its four-digit form, that is the order of time.
\<close>

definition four_digit_year :: "int \<Rightarrow> bool" where
  "four_digit_year t \<longleftrightarrow> \<bar>t\<bar> \<le> max_time \<and> 0 \<le> t_year t \<and> t_year t \<le> 9999"

lemma year_from_day_mono: "a \<le> b \<Longrightarrow> year_from_day a \<le> year_from_day b"
  using year_from_day_bounds[of a] year_from_day_bounds[of b] day_from_year_le
  by (smt (verit))

lemma month_of_yday_mono: "a \<le> b \<Longrightarrow> month_of_yday l a \<le> month_of_yday l b"
  by (cases l) (simp_all add: month_of_yday_def month_start_def)

text \<open>The string as one list of numbers, most significant first.\<close>

definition fields :: "int \<Rightarrow> nat list" where
  "fields t =
     [nat (t_year t), t_month t, nat (t_mday t), t_hour t, t_minute t, t_second t, t_milli t]"

lemma iso_less_fields:
  assumes "four_digit_year a" "four_digit_year b"
  shows "iso_string a < iso_string b \<longleftrightarrow> fields a < fields b"
proof -
  note inj = pad_inj and less = pad_less_iff
  have y: "nat (t_year t) < 10 ^ 4" "iso_year (t_year t) = pad 4 (nat (t_year t))"
    if "four_digit_year t" for t
    using that by (auto simp: four_digit_year_def iso_year_def)
  have b: "t_month t < 10 ^ 2" "nat (t_mday t) < 10 ^ 2" "t_hour t < 10 ^ 2"
    "t_minute t < 10 ^ 2" "t_second t < 10 ^ 2" "t_milli t < 10 ^ 3" for t
    using t_mday_range[of t] t_month_range[of t] clock_fields(2-5)[of t] by simp_all
  note bounds = y(1)[OF assms(1)] y(1)[OF assms(2)] b[of a] b[of b]
  show ?thesis
    unfolding iso_string_def iso_rest_def y(2)[OF assms(1)] y(2)[OF assms(2)] fields_def
    using bounds
    by (simp only: less_append_same_length length_pad inj less Cons_less_Cons append_assoc
        length_u) simp
qed

lemma fields_less:
  assumes "a < b" "four_digit_year a" "four_digit_year b"
  shows "fields a < fields b"
proof -
  have d: "t_day a \<le> t_day b" using assms(1) by (simp add: t_day_def ms_per_day_def zdiv_mono1)
  have yy: "t_year a \<le> t_year b" unfolding t_year_def by (rule year_from_day_mono[OF d])
  consider "t_year a < t_year b" | "t_year a = t_year b" "t_month a < t_month b"
    | "t_year a = t_year b" "t_month a = t_month b" "t_mday a < t_mday b"
    | "t_year a = t_year b" "t_month a = t_month b" "t_mday a = t_mday b"
  proof -
    have "t_month a \<le> t_month b" if "t_year a = t_year b"
      unfolding t_month_def that using d that by (intro month_of_yday_mono) (simp add: t_yday_def)
    moreover have "t_mday a \<le> t_mday b" if "t_year a = t_year b" "t_month a = t_month b"
      using d that by (simp add: t_mday_def t_yday_def)
    ultimately show thesis using that yy by (metis order_le_less)
  qed
  then show ?thesis
  proof cases
    case 1
    then show ?thesis using assms(2) by (simp add: fields_def four_digit_year_def)
  next
    case 2
    then show ?thesis by (simp add: fields_def)
  next
    case 3
    then show ?thesis using t_mday_range[of a] by (simp add: fields_def)
  next
    case 4
    then have "t_day a = t_day b" by (simp add: t_mday_def t_yday_def)
    then have ms: "t_ms a < t_ms b"
      using assms(1) by (simp add: t_day_def t_ms_def minus_div_mult_eq_mod[symmetric])
    have "[t_hour a, t_minute a, t_second a, t_milli a]
        < [t_hour b, t_minute b, t_second b, t_milli b]"
      using ms clock_fields[of a] clock_fields[of b] by simp linarith
    then show ?thesis using 4 by (simp add: fields_def)
  qed
qed

lemma iso_string_less_iff:
  assumes "four_digit_year a" "four_digit_year b"
  shows "iso_string a < iso_string b \<longleftrightarrow> a < b"
  using iso_less_fields[OF assms] iso_less_fields[OF assms(2,1)] fields_less[OF _ assms]
    fields_less[OF _ assms(2,1)]
  by (metis less_linear order_less_asym order_less_irrefl)

end
