(* ===== verification/JsValue.thy ===== *)
theory JsValue
  imports JsTime Complex_Main
begin

text \<open>
  Untrusted JavaScript values, as \<open>JSON.parse\<close> yields them, and the operations the validators
  of the program use on them. A number is a finite value (a rational, which every double is),
  \<open>NaN\<close> or an infinity; an object is the list of its own properties in order.
\<close>

datatype jnum = Fin rat | NaN | PosInf | NegInf

datatype json =
    Undefined
  | Null
  | JBool bool
  | JNum jnum
  | JStr jstr
  | JArr "json list"
  | JObj "(jstr \<times> json) list"

text \<open>Property access on an object; every other value has none of the properties read here.\<close>

fun jget :: "json \<Rightarrow> string \<Rightarrow> json" where
  "jget (JObj ps) k = (case map_of ps (u k) of Some v \<Rightarrow> v | None \<Rightarrow> Undefined)"
| "jget _ k = Undefined"

fun truthy :: "json \<Rightarrow> bool" where
  "truthy Undefined = False"
| "truthy Null = False"
| "truthy (JBool b) = b"
| "truthy (JNum n) = (n \<noteq> Fin 0 \<and> n \<noteq> NaN)"
| "truthy (JStr s) = (s \<noteq> [])"
| "truthy (JArr xs) = True"
| "truthy (JObj ps) = True"

fun is_obj :: "json \<Rightarrow> bool" where
  "is_obj (JObj ps) = True"
| "is_obj _ = False"

fun own_keys :: "json \<Rightarrow> jstr list" where
  "own_keys (JObj ps) = map fst ps"
| "own_keys _ = []"

fun as_str :: "json \<Rightarrow> jstr option" where
  "as_str (JStr s) = Some s"
| "as_str _ = None"

fun as_fin :: "json \<Rightarrow> rat option" where
  "as_fin (JNum (Fin r)) = Some r"
| "as_fin _ = None"

fun as_arr :: "json \<Rightarrow> json list option" where
  "as_arr (JArr xs) = Some xs"
| "as_arr _ = None"

definition max_safe_integer :: int where
  "max_safe_integer = 9007199254740991"

text \<open>\<open>Number.isInteger\<close> and \<open>Number.isSafeInteger\<close>, with the integer.\<close>

definition as_integer :: "json \<Rightarrow> int option" where
  "as_integer v = (case as_fin v of
     Some r \<Rightarrow> if r = of_int \<lfloor>r\<rfloor> then Some \<lfloor>r\<rfloor> else None | None \<Rightarrow> None)"

definition as_safe_integer :: "json \<Rightarrow> int option" where
  "as_safe_integer v = (case as_integer v of
     Some n \<Rightarrow> if \<bar>n\<bar> \<le> max_safe_integer then Some n else None | None \<Rightarrow> None)"

definition jint :: "int \<Rightarrow> json" where
  "jint n = JNum (Fin (of_int n))"

lemma jint_eq_iff [simp]: "jint m = jint n \<longleftrightarrow> m = n"
  by (simp add: jint_def)

lemma as_integer_jint [simp]: "as_integer (jint n) = Some n"
  by (simp add: as_integer_def jint_def)

lemma as_safe_integer_jint [simp]:
  "as_safe_integer (jint n) = (if \<bar>n\<bar> \<le> max_safe_integer then Some n else None)"
  by (simp add: as_safe_integer_def)

lemma as_integer_Some: "as_integer v = Some n \<longleftrightarrow> v = jint n"
  by (cases v rule: as_fin.cases) (auto simp: as_integer_def jint_def split: if_splits)

lemma as_safe_integer_Some: "as_safe_integer v = Some n \<longleftrightarrow> v = jint n \<and> \<bar>n\<bar> \<le> max_safe_integer"
  by (auto simp: as_safe_integer_def as_integer_Some split: option.splits if_splits)

lemma as_str_Some [simp]: "as_str v = Some s \<longleftrightarrow> v = JStr s"
  by (cases v) auto

lemma as_str_None_iff: "as_str v = None \<longleftrightarrow> (\<forall>s. v \<noteq> JStr s)"
  by (cases v) auto

lemma jget_JObj: "jget (JObj ps) k = (case map_of ps (u k) of Some v \<Rightarrow> v | None \<Rightarrow> Undefined)"
  by simp

text \<open>\<open>Object.keys\<close> is exactly the given set of keys, in any order.\<close>

definition exact_keys :: "json \<Rightarrow> string list \<Rightarrow> bool" where
  "exact_keys v expected = (sort (own_keys v) = sort (map u expected))"

text \<open>The value is a canonical ISO time stamp, or not.\<close>

definition iso_value :: "json \<Rightarrow> bool" where
  "iso_value v = (case v of JStr s \<Rightarrow> canonical_iso s | _ \<Rightarrow> False)"

definition str_in :: "json \<Rightarrow> string list \<Rightarrow> bool" where
  "str_in v options = (case v of JStr s \<Rightarrow> s \<in> set (map u options) | _ \<Rightarrow> False)"

lemma iso_value_iff: "iso_value v \<longleftrightarrow> (\<exists>s. v = JStr s \<and> canonical_iso s)"
  by (cases v) (auto simp: iso_value_def)

definition is_hex64 :: "jstr \<Rightarrow> bool" where
  "is_hex64 s \<longleftrightarrow> length s = 64 \<and> list_all is_hex_unit s"

end
