(* ===== verification/Sha256.thy ===== *)
theory Sha256
  imports Prelude "HOL-Library.Word"
begin

unbundle bit_operations_syntax

text \<open>
  \<open>contracts/hash.ts\<close>: the dependency-free SHA-256 that derives the listing identities.
  Bytes are naturals below 256, the entries of the \<open>Uint32Array\<close> and the state are
  \<open>32 word\<close>s, on which \<open>+\<close> is the code's addition followed by \<open>>>> 0\<close>. The lemmas show that
  the padding fills whole blocks and is injective, that the shift-and-or rotation is the word
  rotation, and that every digest is 64 lower-case hexadecimal digits.
\<close>

section \<open>TextEncoder\<close>

definition high_surrogate :: "nat \<Rightarrow> bool" where
  "high_surrogate c \<longleftrightarrow> 55296 \<le> c \<and> c \<le> 56319"

definition low_surrogate :: "nat \<Rightarrow> bool" where
  "low_surrogate c \<longleftrightarrow> 56320 \<le> c \<and> c \<le> 57343"

definition utf8_three :: "nat \<Rightarrow> nat list" where
  "utf8_three c = [224 + c div 4096, 128 + c div 64 mod 64, 128 + c mod 64]"

definition utf8_four :: "nat \<Rightarrow> nat list" where
  "utf8_four c =
     [240 + c div 262144, 128 + c div 4096 mod 64, 128 + c div 64 mod 64, 128 + c mod 64]"

text \<open>A surrogate without its partner is encoded as U+FFFD.\<close>

fun utf8 :: "jstr \<Rightarrow> nat list" where
  "utf8 [] = []"
| "utf8 (c # r) =
     (if c < 128 then c # utf8 r
      else if c < 2048 then [192 + c div 64, 128 + c mod 64] @ utf8 r
      else if high_surrogate c then
        (case r of
           d # r' \<Rightarrow>
             if low_surrogate d
             then utf8_four (65536 + (c - 55296) * 1024 + (d - 56320)) @ utf8 r'
             else utf8_three 65533 @ utf8 r
         | [] \<Rightarrow> utf8_three 65533)
      else if low_surrogate c then utf8_three 65533 @ utf8 r
      else utf8_three c @ utf8 r)"

section \<open>Padding\<close>

text \<open>\<open>while (bytes.length % 64 !== 56) bytes.push(0)\<close>.\<close>

function push_zeros :: "nat list \<Rightarrow> nat list" where
  "push_zeros bs = (if length bs mod 64 \<noteq> 56 then push_zeros (bs @ [0]) else bs)"
  by pat_completeness auto
termination
proof (relation "measure (\<lambda>bs. (56 + 64 - length bs mod 64) mod 64)", goal_cases)
  case 1
  then show ?case by simp
next
  case (2 bs)
  define n where "n = length bs mod 64"
  have n: "n < 64" "n \<noteq> 56" using 2 by (simp_all add: n_def)
  have s: "(length bs + 1) mod 64 = (if n = 63 then 0 else n + 1)"
    unfolding n_def by (simp add: mod_Suc)
  show ?case using n s by (simp add: n_def[symmetric]) (auto simp: mod_if)
qed

declare push_zeros.simps [simp del]

text \<open>The four bytes \<open>(n >>> 24) & 0xff, \<dots>, n & 0xff\<close>.\<close>

definition be_bytes :: "nat \<Rightarrow> nat list" where
  "be_bytes n =
     map (\<lambda>shift. n mod 4294967296 div 2 ^ shift mod 256) [24, 16, 8, 0]"

definition pad_message :: "nat list \<Rightarrow> nat list" where
  "pad_message bs =
     (let bitLength = length bs * 8;
          high = bitLength div 4294967296;
          low = bitLength mod 4294967296
      in push_zeros (bs @ [128]) @ be_bytes high @ be_bytes low)"

section \<open>The compression function\<close>

type_synonym u32 = "32 word"

text \<open>The round constants of the source, written in decimal.\<close>

definition sha_constants :: "u32 list" where
  "sha_constants = [
    1116352408, 1899447441, 3049323471, 3921009573, 961987163, 1508970993, 2453635748, 2870763221,
    3624381080, 310598401, 607225278, 1426881987, 1925078388, 2162078206, 2614888103, 3248222580,
    3835390401, 4022224774, 264347078, 604807628, 770255983, 1249150122, 1555081692, 1996064986,
    2554220882, 2821834349, 2952996808, 3210313671, 3336571891, 3584528711, 113926993, 338241895,
    666307205, 773529912, 1294757372, 1396182291, 1695183700, 1986661051, 2177026350, 2456956037,
    2730485921, 2820302411, 3259730800, 3345764771, 3516065817, 3600352804, 4094571909, 275423344,
    430227734, 506948616, 659060556, 883997877, 958139571, 1322822218, 1537002063, 1747873779,
    1955562222, 2024104815, 2227730452, 2361852424, 2428436474, 2756734187, 3204031479, 3329325298]"

definition initial_state :: "u32 list" where
  "initial_state =
     [0x6a09e667,0xbb67ae85,0x3c6ef372,0xa54ff53a,0x510e527f,0x9b05688c,0x1f83d9ab,0x5be0cd19]"

definition rotate_bits :: "u32 \<Rightarrow> nat \<Rightarrow> u32" where
  "rotate_bits v n = drop_bit n v OR push_bit (32 - n) v"

definition word_at :: "nat list \<Rightarrow> nat \<Rightarrow> u32" where
  "word_at bs at =
     push_bit 24 (of_nat (bs ! at)) OR push_bit 16 (of_nat (bs ! (at + 1)))
       OR push_bit 8 (of_nat (bs ! (at + 2))) OR of_nat (bs ! (at + 3))"

definition extend_word :: "u32 list \<Rightarrow> u32" where
  "extend_word ws =
     (let index = length ws;
          left = ws ! (index - 15); right = ws ! (index - 2);
          sigma0 = rotate_bits left 7 XOR rotate_bits left 18 XOR drop_bit 3 left;
          sigma1 = rotate_bits right 17 XOR rotate_bits right 19 XOR drop_bit 10 right
      in ws ! (index - 16) + sigma0 + ws ! (index - 7) + sigma1)"

fun extend_words :: "nat \<Rightarrow> u32 list \<Rightarrow> u32 list" where
  "extend_words 0 ws = ws"
| "extend_words (Suc n) ws = extend_words n (ws @ [extend_word ws])"

definition schedule_words :: "nat list \<Rightarrow> u32 list" where
  "schedule_words block = extend_words 48 (map (\<lambda>i. word_at block (i * 4)) [0..<16])"

datatype regs = Regs u32 u32 u32 u32 u32 u32 u32 u32

fun sha_round :: "regs \<Rightarrow> u32 \<Rightarrow> u32 \<Rightarrow> regs" where
  "sha_round (Regs a b c d e f g h) k w =
     (let sum1 = rotate_bits e 6 XOR rotate_bits e 11 XOR rotate_bits e 25;
          ch = (e AND f) XOR ((NOT e) AND g);
          temporary1 = h + sum1 + ch + k + w;
          sum0 = rotate_bits a 2 XOR rotate_bits a 13 XOR rotate_bits a 22;
          majority = (a AND b) XOR (a AND c) XOR (b AND c);
          temporary2 = sum0 + majority
      in Regs (temporary1 + temporary2) a b c (d + temporary1) e f g)"

fun regs_list :: "regs \<Rightarrow> u32 list" where
  "regs_list (Regs a b c d e f g h) = [a, b, c, d, e, f, g, h]"

definition list_regs :: "u32 list \<Rightarrow> regs" where
  "list_regs s = Regs (s ! 0) (s ! 1) (s ! 2) (s ! 3) (s ! 4) (s ! 5) (s ! 6) (s ! 7)"

definition compress_block :: "u32 list \<Rightarrow> nat list \<Rightarrow> u32 list" where
  "compress_block state block =
     map2 (+) state
       (regs_list (fold (\<lambda>(k, w) r. sha_round r k w)
          (zip sha_constants (schedule_words block)) (list_regs state)))"

text \<open>\<open>for (let offset = 0; offset < bytes.length; offset += 64)\<close>.\<close>

function compress_blocks :: "u32 list \<Rightarrow> nat list \<Rightarrow> u32 list" where
  "compress_blocks state bs =
     (if bs = [] then state else compress_blocks (compress_block state (take 64 bs)) (drop 64 bs))"
  by pat_completeness auto
termination
  by (relation "measure (\<lambda>(s, bs). length bs)") auto

declare compress_blocks.simps [simp del]

section \<open>The digest as text\<close>

definition hex_digit :: "nat \<Rightarrow> nat" where
  "hex_digit n = (if n < 10 then 48 + n else 87 + n)"

definition word_hex :: "u32 \<Rightarrow> jstr" where
  "word_hex w = map (\<lambda>i. hex_digit (unat (drop_bit (4 * i) w) mod 16)) [7, 6, 5, 4, 3, 2, 1, 0]"

definition sha256_hex :: "jstr \<Rightarrow> jstr" where
  "sha256_hex input =
     concat (map word_hex (compress_blocks initial_state (pad_message (utf8 input))))"

section \<open>Correctness of the parts\<close>

lemma zeros_needed: "n < 64 \<Longrightarrow> (120 - n) mod 64 = (if n \<le> 56 then 56 - n else 120 - (n::nat))"
proof (cases "n \<le> 56")
  case True
  then have "120 - n = 56 - n + 64" by simp
  then have "(120 - n) mod 64 = (56 - n) mod 64" by (metis mod_add_self2)
  then show ?thesis using True by simp
next
  case False
  then show "n < 64 \<Longrightarrow> ?thesis" by simp
qed

lemma push_zeros_replicate: "push_zeros bs = bs @ replicate ((120 - length bs mod 64) mod 64) 0"
proof -
  have "push_zeros bs = bs @ replicate m 0" if "m = (120 - length bs mod 64) mod 64" for m
    using that
  proof (induction m arbitrary: bs)
    case 0
    have "length bs mod 64 < 64" by simp
    with 0 have "length bs mod 64 = 56" using zeros_needed[of "length bs mod 64"]
      by (simp split: if_splits)
    then show ?case by (simp add: push_zeros.simps)
  next
    case (Suc m)
    define n where "n = length bs mod 64"
    have n: "n < 64" "Suc m = (120 - n) mod 64" using Suc.prems by (simp_all add: n_def)
    have ne: "n \<noteq> 56" using n by auto
    have l: "length (bs @ [0]) mod 64 = (if n = 63 then 0 else Suc n)"
      by (simp add: n_def mod_Suc)
    have "m = (120 - length (bs @ [0]) mod 64) mod 64"
      unfolding l using n ne zeros_needed[of n] zeros_needed[of "Suc n"]
      by (cases "n = 63") (simp_all split: if_splits)
    then have "push_zeros (bs @ [0]) = (bs @ [0]) @ replicate m 0" by (rule Suc.IH)
    then show ?case using ne n_def by (simp add: push_zeros.simps[of bs])
  qed
  then show ?thesis by blast
qed

lemma push_zeros_shape:
  "\<exists>k. push_zeros bs = bs @ replicate k 0 \<and> k < 64 \<and> length (push_zeros bs) mod 64 = 56"
proof -
  define n where "n = length bs mod 64"
  define m where "m = (120 - n) mod 64"
  have e: "push_zeros bs = bs @ replicate m 0" using push_zeros_replicate by (simp add: n_def m_def)
  have n: "n < 64" by (simp add: n_def)
  have "(n + m) mod 64 = 56"
    using n zeros_needed[of n] m_def by (cases "n \<le> 56") simp_all
  then have "(length bs + m) mod 64 = 56" by (simp add: n_def mod_add_left_eq)
  then show ?thesis using e by (intro exI[of _ m]) (simp add: m_def)
qed

lemma length_be_bytes [simp]: "length (be_bytes n) = 4"
  by (simp add: be_bytes_def)

lemma length_pad_message: "length (pad_message bs) mod 64 = 0"
proof -
  have "length (push_zeros (bs @ [128])) mod 64 = 56" using push_zeros_shape by blast
  then have "(length (push_zeros (bs @ [128])) + 8) mod 64 = 0" by presburger
  then show ?thesis by (simp add: pad_message_def Let_def)
qed

lemma be_bytes_inj: "m < 2 ^ 32 \<Longrightarrow> n < 2 ^ 32 \<Longrightarrow> be_bytes m = be_bytes n \<Longrightarrow> m = n"
proof -
  assume b: "m < 2 ^ 32" "n < 2 ^ 32" and e: "be_bytes m = be_bytes n"
  have s: "x = x div 16777216 mod 256 * 16777216 + x div 65536 mod 256 * 65536
      + x div 256 mod 256 * 256 + x mod 256" if "x < 4294967296" for x :: nat
  proof -
    have a: "x div 16777216 = x div 256 div 256 div 256"
      by (simp add: div_mult2_eq[symmetric])
    have b: "x div 65536 = x div 256 div 256"
      by (simp add: div_mult2_eq[symmetric])
    have "x div 16777216 < 256" using that by (intro less_mult_imp_div_less) simp
    then have c: "x div 256 div 256 div 256 mod 256 = x div 256 div 256 div 256"
      unfolding a by (rule mod_less)
    show ?thesis
      unfolding a b c
      using div_mult_mod_eq[of x 256] div_mult_mod_eq[of "x div 256" 256]
        div_mult_mod_eq[of "x div 256 div 256" 256] by linarith
  qed
  have "m mod 4294967296 = m" "n mod 4294967296 = n" using b by simp_all
  then have "m div 16777216 mod 256 = n div 16777216 mod 256" "m div 65536 mod 256 = n div 65536 mod 256"
    "m div 256 mod 256 = n div 256 mod 256" "m mod 256 = n mod 256"
    using e by (simp_all add: be_bytes_def)
  then show "m = n" using s[of m] s[of n] b by simp
qed

lemma pad_message_inj:
  assumes "pad_message xs = pad_message ys" "length xs < 2 ^ 61" "length ys < 2 ^ 61"
  shows "xs = ys"
proof -
  obtain k l where p: "pad_message xs = (xs @ [128]) @ replicate k 0 @ be_bytes (length xs * 8 div 4294967296)
      @ be_bytes (length xs * 8 mod 4294967296)"
    and q: "pad_message ys = (ys @ [128]) @ replicate l 0 @ be_bytes (length ys * 8 div 4294967296)
      @ be_bytes (length ys * 8 mod 4294967296)"
    using push_zeros_shape[of "xs @ [128]"] push_zeros_shape[of "ys @ [128]"]
    unfolding pad_message_def Let_def by (metis append.assoc)
  let ?tail = "\<lambda>n. be_bytes (n * 8 div 4294967296) @ be_bytes (n * 8 mod 4294967296)"
  have "rev (take 8 (rev (pad_message xs))) = ?tail (length xs)"
    "rev (take 8 (rev (pad_message ys))) = ?tail (length ys)"
    unfolding p q by simp_all
  then have "?tail (length xs) = ?tail (length ys)" using assms(1) by simp
  then have t: "be_bytes (length xs * 8 div 4294967296) = be_bytes (length ys * 8 div 4294967296)"
    "be_bytes (length xs * 8 mod 4294967296) = be_bytes (length ys * 8 mod 4294967296)"
    by (simp_all add: append_eq_append_conv)
  have lt: "n * 8 div 4294967296 < 2 ^ 32" if "n < 2 ^ 61" for n :: nat
    using that by (simp add: less_mult_imp_div_less)
  have "length xs * 8 div 4294967296 = length ys * 8 div 4294967296"
    using be_bytes_inj[OF lt[OF assms(2)] lt[OF assms(3)] t(1)] .
  moreover have "length xs * 8 mod 4294967296 = length ys * 8 mod 4294967296"
    by (rule be_bytes_inj[OF _ _ t(2)]) simp_all
  ultimately have "length xs * 8 = length ys * 8"
    by (metis div_mult_mod_eq)
  then have "length xs = length ys" by simp
  then show ?thesis using assms(1) unfolding p q by simp
qed

lemma rotate_bits_word_rotr:
  assumes "0 < k" "k < 32"
  shows "rotate_bits v k = word_rotr k v"
proof (rule bit_word_eqI)
  fix i assume "i < LENGTH(32)"
  then have i: "i < 32" by simp
  show "bit (rotate_bits v k) i = bit (word_rotr k v) i"
  proof (cases "i + k < 32")
    case True
    then have "\<not> 32 - k \<le> i" using assms by arith
    with True show ?thesis using i assms
      by (simp add: rotate_bits_def bit_or_iff bit_drop_bit_eq bit_push_bit_iff bit_word_rotr_iff add.commute)
  next
    case False
    then have "(i + k) mod 32 = i + k - 32" using i assms by (simp add: mod_if)
    moreover have "32 - k \<le> i" using False by arith
    moreover have "\<not> bit v (k + i)" using False by (simp add: bit_imp_le_length impossible_bit)
    ultimately show ?thesis using i assms False
      by (simp add: rotate_bits_def bit_or_iff bit_drop_bit_eq bit_push_bit_iff bit_word_rotr_iff add.commute)
  qed
qed

lemma length_extend_words [simp]: "length (extend_words n ws) = length ws + n"
  by (induction n arbitrary: ws) simp_all

lemma length_schedule [simp]: "length (schedule_words block) = 64"
  by (simp add: schedule_words_def)

lemma length_regs_list [simp]: "length (regs_list r) = 8"
  by (cases r) simp

lemma length_compress_block [simp]: "length s = 8 \<Longrightarrow> length (compress_block s b) = 8"
  by (simp add: compress_block_def)

lemma length_compress_blocks: "length s = 8 \<Longrightarrow> length (compress_blocks s bs) = 8"
proof (induction s bs rule: compress_blocks.induct)
  case (1 s bs)
  then show ?case by (subst compress_blocks.simps) simp
qed

lemma hex_digit_hex: "n < 16 \<Longrightarrow> is_hex_unit (hex_digit n)"
  by (auto simp: hex_digit_def is_hex_unit_def is_digit_unit_def)

lemma word_hex_hex: "length (word_hex w) = 8" "list_all is_hex_unit (word_hex w)"
  by (simp_all add: word_hex_def hex_digit_hex)

lemma sha256_hex_shape: "length (sha256_hex s) = 64 \<and> list_all is_hex_unit (sha256_hex s)"
proof -
  have "length (concat (map word_hex ws)) = 8 * length ws
      \<and> list_all is_hex_unit (concat (map word_hex ws))" for ws
    by (induction ws) (simp_all add: word_hex_hex)
  then show ?thesis
    using length_compress_blocks[of initial_state] by (simp add: sha256_hex_def initial_state_def)
qed

end
