(* ===== verification/Text.thy ===== *)
theory Text
  imports Regex JsValue Sha256
begin

text \<open>
  Text as the program compares it. The platform record holds what the language takes from its
  Unicode and locale tables and from IEEE arithmetic: case mapping for Turkish, canonical
  decomposition, collation, the decimal text of a number, and the offset of Europe/Istanbul in
  minutes at an instant. The five normalisers of the sources are
  built on it; each turns a text into lower-case ASCII words.
\<close>

section \<open>The platform\<close>

record platform =
  pl_lower_tr :: "jstr \<Rightarrow> jstr"
  pl_nfd :: "jstr \<Rightarrow> jstr"
  pl_collate :: "jstr \<Rightarrow> jstr \<Rightarrow> int"
  pl_collate_tr :: "jstr \<Rightarrow> jstr \<Rightarrow> int"
  pl_number :: "rat \<Rightarrow> jstr"
  pl_fixed4 :: "rat \<Rightarrow> jstr"
  pl_cos :: "rat \<Rightarrow> rat"
  pl_sqrt :: "rat \<Rightarrow> rat"
  pl_zone :: "int \<Rightarrow> int"

section \<open>String methods\<close>

fun split_on :: "nat \<Rightarrow> jstr \<Rightarrow> jstr list" where
  "split_on sep [] = [[]]"
| "split_on sep (c # r) =
     (if c = sep then [] # split_on sep r
      else case split_on sep r of s # ss \<Rightarrow> (c # s) # ss | [] \<Rightarrow> [[c]])"

definition starts_with :: "jstr \<Rightarrow> jstr \<Rightarrow> bool" where
  "starts_with s w \<longleftrightarrow> take (length w) s = w"

definition ends_with :: "jstr \<Rightarrow> jstr \<Rightarrow> bool" where
  "ends_with s w \<longleftrightarrow> length w \<le> length s \<and> drop (length s - length w) s = w"

fun contains_text :: "jstr \<Rightarrow> jstr \<Rightarrow> bool" where
  "contains_text [] w = (w = [])"
| "contains_text (c # s) w \<longleftrightarrow> starts_with (c # s) w \<or> contains_text s w"

definition trim :: "jstr \<Rightarrow> jstr" where
  "trim s = dropWhile is_space_unit (rev (dropWhile is_space_unit (rev s)))"

text \<open>\<open>replace(/[^...]+/g, ' ')\<close>: every run of units outside a class becomes one space.\<close>

fun squash_from :: "(nat \<Rightarrow> bool) \<Rightarrow> bool \<Rightarrow> jstr \<Rightarrow> jstr" where
  "squash_from keep inside [] = []"
| "squash_from keep inside (c # r) =
     (if keep c then c # squash_from keep False r
      else if inside then squash_from keep True r else 32 # squash_from keep True r)"

definition squash :: "(nat \<Rightarrow> bool) \<Rightarrow> jstr \<Rightarrow> jstr" where
  "squash keep s = squash_from keep False s"

text \<open>\<open>[...new Set(xs)]\<close>: the first occurrence of every element.\<close>

definition uniq :: "'a list \<Rightarrow> 'a list" where
  "uniq xs = rev (remdups (rev xs))"

lemma set_uniq [simp]: "set (uniq xs) = set xs"
  by (simp add: uniq_def)

lemma distinct_uniq [simp]: "distinct (uniq xs)"
  by (simp add: uniq_def)

text \<open>The class \<open>[a-z0-9]\<close>.\<close>

definition key_unit :: "nat \<Rightarrow> bool" where
  "key_unit c \<longleftrightarrow> is_lower_unit c \<or> is_digit_unit c"

text \<open>\<open>replace(/[\\u0300-\\u036f]/g, '')\<close> and \<open>replace(/\<dots>/g, 'i')\<close> for the dotless i.\<close>

definition strip_marks :: "jstr \<Rightarrow> jstr" where
  "strip_marks s = filter (\<lambda>c. \<not> (768 \<le> c \<and> c \<le> 879)) s"

definition dot_i :: "jstr \<Rightarrow> jstr" where
  "dot_i s = map (\<lambda>c. if c = 305 then 105 else c) s"

section \<open>The normalisers\<close>

text \<open>\<open>normalize\<close> of \<open>contracts/district.ts\<close>: fold case and marks, keep everything else.\<close>

definition fold_text :: "platform \<Rightarrow> jstr \<Rightarrow> jstr" where
  "fold_text P s = dot_i (strip_marks (pl_nfd P (pl_lower_tr P s)))"

text \<open>\<open>normalizeIdentityText\<close>; an absent value is the empty text. Its cache is not observable.\<close>

definition normalize_identity_text :: "platform \<Rightarrow> jstr \<Rightarrow> jstr" where
  "normalize_identity_text P s =
     squash (\<lambda>c. \<not> is_space_unit c) (trim (squash key_unit
       (strip_marks (pl_nfd P (dot_i (pl_lower_tr P s))))))"

text \<open>\<open>normalize\<close> of \<open>web/lib/event-merge.ts\<close>.\<close>

definition merge_normalize :: "platform \<Rightarrow> jstr \<Rightarrow> jstr" where
  "merge_normalize P s =
     squash (\<lambda>c. \<not> is_space_unit c) (trim (squash key_unit (fold_text P s)))"

text \<open>\<open>evidenceText\<close> of \<open>contracts/source-evidence.ts\<close>, \<open>normalizeEvidence\<close> of the category rules.\<close>

definition evidence_text :: "platform \<Rightarrow> jstr \<Rightarrow> jstr" where
  "evidence_text P s = trim (squash key_unit (fold_text P s))"

text \<open>\<open>normalizedEvidence\<close> of \<open>web/lib/materialized-catalog.ts\<close>: the dotless i is folded first.\<close>

definition normalized_evidence :: "platform \<Rightarrow> jstr \<Rightarrow> jstr" where
  "normalized_evidence P s =
     trim (squash key_unit (strip_marks (pl_nfd P (dot_i (pl_lower_tr P s)))))"

section \<open>Canonical text\<close>

text \<open>Words over the class, separated by single spaces, with none at the ends.\<close>

fun spaced :: "jstr \<Rightarrow> bool" where
  "spaced [] = True"
| "spaced [c] = key_unit c"
| "spaced (c # d # r) =
     (key_unit c \<and> (if d = 32 then r \<noteq> [] \<and> spaced r else spaced (d # r)))"

lemma key_unit_not_space [simp]: "key_unit c \<Longrightarrow> \<not> is_space_unit c"
  by (auto simp: key_unit_def is_space_unit_def is_lower_unit_def is_digit_unit_def)

lemma key_unit_neq_space [simp]: "\<not> key_unit 32"
  by (simp add: key_unit_def is_lower_unit_def is_digit_unit_def)

lemma space_is_space [simp]: "is_space_unit 32"
  by (simp add: is_space_unit_def)

text \<open>A text that a squash and a trim leave: the units, and single spaces inside.\<close>

fun no_double :: "jstr \<Rightarrow> bool" where
  "no_double [] = True"
| "no_double [c] = True"
| "no_double (c # d # r) = (\<not> (c = 32 \<and> d = 32) \<and> no_double (d # r))"

lemma squash_from_shape:
  "no_double (squash_from key_unit b s) \<and> list_all (\<lambda>c. key_unit c \<or> c = 32) (squash_from key_unit b s)
   \<and> (b \<longrightarrow> squash_from key_unit b s = [] \<or> hd (squash_from key_unit b s) \<noteq> 32)"
proof (induction s arbitrary: b)
  case Nil
  then show ?case by simp
next
  case (Cons c s)
  show ?case
    using Cons.IH[of True] Cons.IH[of False]
    by (cases "squash_from key_unit False s"; cases "squash_from key_unit True s")
       (auto)
qed

lemma no_double_append: "no_double (xs @ ys) \<Longrightarrow> no_double xs \<and> no_double ys"
proof (induction xs rule: no_double.induct)
  case (2 c)
  then show ?case by (cases ys) auto
qed auto

lemma dropWhile_suffix: "\<exists>xs. s = xs @ dropWhile p s"
  by (metis takeWhile_dropWhile_id)

lemma trim_infix: "\<exists>xs ys. s = xs @ trim s @ ys"
proof -
  obtain a where a: "rev s = a @ dropWhile is_space_unit (rev s)" using dropWhile_suffix by blast
  let ?t = "rev (dropWhile is_space_unit (rev s))"
  have "s = ?t @ rev a" using a by (metis rev_append rev_rev_ident)
  moreover obtain b where "?t = b @ trim s" using dropWhile_suffix trim_def by metis
  ultimately have "s = b @ trim s @ rev a" by simp
  then show ?thesis by blast
qed

lemma trim_ends:
  assumes "trim s \<noteq> []"
  shows "\<not> is_space_unit (hd (trim s))" and "\<not> is_space_unit (last (trim s))"
proof -
  let ?t = "rev (dropWhile is_space_unit (rev s))"
  show "\<not> is_space_unit (hd (trim s))"
    using assms hd_dropWhile unfolding trim_def by blast
  have t: "?t \<noteq> []" using assms unfolding trim_def by (metis dropWhile.simps(1))
  then have "last ?t = hd (dropWhile is_space_unit (rev s))" by (simp add: last_rev)
  then have "\<not> is_space_unit (last ?t)" using t hd_dropWhile by (metis rev.simps(1))
  moreover obtain b where "?t = b @ trim s" using dropWhile_suffix trim_def by metis
  ultimately show "\<not> is_space_unit (last (trim s))" using assms by (metis last_appendR)
qed

lemma spaced_iff:
  "spaced s \<longleftrightarrow> list_all (\<lambda>c. key_unit c \<or> c = 32) s \<and> no_double s
     \<and> (s \<noteq> [] \<longrightarrow> hd s \<noteq> 32 \<and> last s \<noteq> 32)"
proof (induction s rule: spaced.induct)
  case (3 c d r)
  then show ?case by (cases r) (auto split: if_splits)
qed auto

lemma spaced_trim_squash: "spaced (trim (squash key_unit s))"
proof -
  let ?q = "squash key_unit s"
  have q: "no_double ?q" "list_all (\<lambda>c. key_unit c \<or> c = 32) ?q"
    using squash_from_shape[of False s] by (simp_all add: squash_def)
  obtain xs ys where e: "?q = xs @ trim ?q @ ys" using trim_infix by blast
  have "no_double (trim ?q)" using q(1) e no_double_append by metis
  moreover have "list_all (\<lambda>c. key_unit c \<or> c = 32) (trim ?q)"
    using q(2) e by (metis list_all_append)
  ultimately show ?thesis
    using trim_ends[of ?q] space_is_space unfolding spaced_iff by (metis (full_types))
qed

lemma squash_keep: "list_all keep s \<Longrightarrow> squash keep s = s"
proof -
  have "list_all keep s \<Longrightarrow> squash_from keep b s = s" for b
    by (induction s arbitrary: b) auto
  then show "list_all keep s \<Longrightarrow> squash keep s = s" by (simp add: squash_def)
qed

lemma squash_from_head:
  "s \<noteq> [] \<Longrightarrow> keep (hd s) \<Longrightarrow> squash_from keep b s = squash_from keep False s"
  by (cases s) auto

lemma spaced_hd: "spaced s \<Longrightarrow> s \<noteq> [] \<Longrightarrow> key_unit (hd s)"
  by (induction s rule: spaced.induct) auto

lemma squash_from_spaced:
  assumes "\<And>c. key_unit c \<Longrightarrow> keep c" "\<not> keep 32"
  shows "spaced s \<Longrightarrow> squash_from keep False s = s"
proof (induction s rule: spaced.induct)
  case (3 c d r)
  show ?case
  proof (cases "d = 32")
    case True
    then have "squash_from keep True r = r"
      using 3 assms squash_from_head[of r keep True] spaced_hd[of r] by simp
    then show ?thesis using True 3 assms by simp
  next
    case False
    then show ?thesis using 3 assms by simp
  qed
qed (use assms in auto)

lemma squash_spaced: "spaced s \<Longrightarrow> squash key_unit s = s"
  by (simp add: squash_def squash_from_spaced)

lemma squash_spaces_spaced: "spaced s \<Longrightarrow> squash (\<lambda>c. \<not> is_space_unit c) s = s"
  by (simp add: squash_def squash_from_spaced)

lemma spaced_last: "spaced s \<Longrightarrow> s \<noteq> [] \<Longrightarrow> key_unit (last s)"
  by (induction s rule: spaced.induct) (auto split: if_splits)

lemma trim_spaced: "spaced s \<Longrightarrow> trim s = s"
proof (cases "s = []")
  case False
  assume s: "spaced s"
  have "dropWhile is_space_unit s = s"
    using spaced_hd[OF s False] False by (cases s) auto
  moreover have "dropWhile is_space_unit (rev s) = rev s"
    using spaced_last[OF s False] False by (cases s rule: rev_cases) auto
  ultimately show ?thesis by (simp add: trim_def)
qed (simp add: trim_def)

text \<open>Every normaliser that squashes yields canonical text.\<close>

lemma identity_text_spaced: "spaced (normalize_identity_text P s)"
  by (simp add: normalize_identity_text_def squash_spaces_spaced spaced_trim_squash)

lemma merge_normalize_spaced: "spaced (merge_normalize P s)"
  by (simp add: merge_normalize_def squash_spaces_spaced spaced_trim_squash)

lemma merge_normalize_eq_evidence: "merge_normalize P s = evidence_text P s"
  by (simp add: merge_normalize_def evidence_text_def squash_spaces_spaced spaced_trim_squash)

lemma identity_text_eq_evidence: "normalize_identity_text P s = normalized_evidence P s"
  by (simp add: normalize_identity_text_def normalized_evidence_def squash_spaces_spaced
      spaced_trim_squash)

text \<open>
  What the program relies on from the platform: case mapping and decomposition leave lower-case
  ASCII words alone. Under it the normalisers are idempotent, so a stored key can be compared with
  a fresh one.
\<close>

locale word_preserving =
  fixes lower :: "jstr \<Rightarrow> jstr" and nfd :: "jstr \<Rightarrow> jstr"
  assumes lower_words: "list_all (\<lambda>c. key_unit c \<or> c = 32) s \<Longrightarrow> lower s = s"
    and nfd_words: "list_all (\<lambda>c. key_unit c \<or> c = 32) s \<Longrightarrow> nfd s = s"
begin

lemma marks_words: "list_all (\<lambda>c. key_unit c \<or> c = 32) s \<Longrightarrow> strip_marks s = s"
  unfolding strip_marks_def
  by (rule filter_True)
     (auto simp: list_all_iff key_unit_def is_lower_unit_def is_digit_unit_def)

lemma dot_i_words: "list_all (\<lambda>c. key_unit c \<or> c = 32) s \<Longrightarrow> dot_i s = s"
  by (induction s) (auto simp: dot_i_def key_unit_def is_lower_unit_def is_digit_unit_def)

lemma fold_words: "spaced s \<Longrightarrow> strip_marks (nfd (dot_i (lower s))) = s"
  by (simp add: spaced_iff lower_words nfd_words marks_words dot_i_words)

lemma fold_words': "spaced s \<Longrightarrow> dot_i (strip_marks (nfd (lower s))) = s"
  by (simp add: spaced_iff lower_words nfd_words marks_words dot_i_words)

end

section \<open>JSON text\<close>

definition hex_digit :: "nat \<Rightarrow> nat" where
  "hex_digit n = (if n < 10 then 48 + n else 87 + n)"

definition unicode_escape :: "nat \<Rightarrow> jstr" where
  "unicode_escape c =
     [92, 117] @ map hex_digit [c div 4096 mod 16, c div 256 mod 16, c div 16 mod 16, c mod 16]"

definition is_high_surrogate :: "nat \<Rightarrow> bool" where
  "is_high_surrogate c \<longleftrightarrow> 55296 \<le> c \<and> c \<le> 56319"

definition is_low_surrogate :: "nat \<Rightarrow> bool" where
  "is_low_surrogate c \<longleftrightarrow> 56320 \<le> c \<and> c \<le> 57343"

text \<open>The well-formed \<open>JSON.stringify\<close> of a string: a surrogate without its pair is escaped.\<close>

fun json_chars :: "jstr \<Rightarrow> jstr" where
  "json_chars [] = []"
| "json_chars (c # r) =
     (if c = 34 \<or> c = 92 then 92 # c # json_chars r
      else if c = 8 then 92 # 98 # json_chars r
      else if c = 9 then 92 # 116 # json_chars r
      else if c = 10 then 92 # 110 # json_chars r
      else if c = 12 then 92 # 102 # json_chars r
      else if c = 13 then 92 # 114 # json_chars r
      else if c < 32 then unicode_escape c @ json_chars r
      else if is_high_surrogate c then
        (case r of
           d # e \<Rightarrow> if is_low_surrogate d then c # d # json_chars e else unicode_escape c @ json_chars r
         | [] \<Rightarrow> unicode_escape c)
      else if is_low_surrogate c then unicode_escape c @ json_chars r
      else c # json_chars r)"

definition json_string :: "jstr \<Rightarrow> jstr" where
  "json_string s = 34 # json_chars s @ [34]"

text \<open>\<open>JSON.stringify\<close>: undefined is omitted in objects and \<open>null\<close> in arrays.\<close>

fun stringify :: "platform \<Rightarrow> json \<Rightarrow> jstr" where
  "stringify P Undefined = u ''null''"
| "stringify P Null = u ''null''"
| "stringify P (JBool b) = (if b then u ''true'' else u ''false'')"
| "stringify P (JNum n) = (case n of Fin r \<Rightarrow> pl_number P r | _ \<Rightarrow> u ''null'')"
| "stringify P (JStr s) = json_string s"
| "stringify P (JArr xs) = u ''['' @ join (u '','') (map (stringify P) xs) @ u '']''"
| "stringify P (JObj ps) =
     u ''{'' @ join (u '','')
       (map (\<lambda>(k, v). json_string k @ u '':'' @ stringify P v)
            (filter (\<lambda>(k, v). v \<noteq> Undefined) ps)) @ u ''}''"

text \<open>\<open>identityHash\<close>.\<close>

definition identity_hash :: "platform \<Rightarrow> string \<Rightarrow> json \<Rightarrow> jstr" where
  "identity_hash P namespace v = sha256_hex (u namespace @ [31] @ stringify P v)"

section \<open>A concrete platform\<close>

text \<open>
  The tables for ASCII and the Turkish letters, code unit order for the collation, and integer
  numbers: an instance of the parameters, used to run the definitions on examples.
\<close>

definition turkish_lower_unit :: "nat \<Rightarrow> nat" where
  "turkish_lower_unit c =
     (if c = 73 then 305 else if c = 304 then 105
      else if is_upper_unit c then c + 32
      else if c = 199 \<or> c = 214 \<or> c = 220 then c + 32
      else if c = 286 \<or> c = 350 then c + 1 else c)"

definition turkish_decompose :: "nat \<Rightarrow> jstr" where
  "turkish_decompose c =
     (if c = 231 then [99, 807] else if c = 246 then [111, 776] else if c = 252 then [117, 776]
      else if c = 287 then [103, 774] else if c = 351 then [115, 807] else [c])"

fun nat_digits :: "nat \<Rightarrow> jstr" where
  "nat_digits n = (if n < 10 then [48 + n] else nat_digits (n div 10) @ [48 + n mod 10])"

declare nat_digits.simps [simp del]

definition int_digits :: "int \<Rightarrow> jstr" where
  "int_digits n = (if n < 0 then u ''-'' @ nat_digits (nat (- n)) else nat_digits (nat n))"

definition turkish_platform :: platform where
  "turkish_platform = \<lparr>
     pl_lower_tr = map turkish_lower_unit,
     pl_nfd = (\<lambda>s. concat (map turkish_decompose s)),
     pl_collate = cmp_int, pl_collate_tr = cmp_int,
     pl_number = (\<lambda>r. int_digits \<lfloor>r\<rfloor>), pl_fixed4 = (\<lambda>r. int_digits \<lfloor>r\<rfloor> @ u ''.0000''),
     pl_cos = (\<lambda>x. 1 - x * x / 2), pl_sqrt = (\<lambda>x. x),
     pl_zone = (\<lambda>t. 180)\<rparr>"

interpretation turkish: word_preserving "pl_lower_tr turkish_platform" "pl_nfd turkish_platform"
proof
  fix s
  assume s: "list_all (\<lambda>c. key_unit c \<or> c = 32) s"
  have c: "key_unit c \<or> c = 32 \<Longrightarrow> turkish_lower_unit c = c \<and> turkish_decompose c = [c]" for c
    by (auto simp: turkish_lower_unit_def turkish_decompose_def key_unit_def is_lower_unit_def
        is_digit_unit_def is_upper_unit_def)
  from s show "pl_lower_tr turkish_platform s = s"
    by (induction s) (auto simp: turkish_platform_def c)
  from s show "pl_nfd turkish_platform s = s"
    by (induction s) (auto simp: turkish_platform_def c)
qed

text \<open>The normalisers fix canonical text, on every platform that preserves words.\<close>

lemma normalize_fixes_words:
  assumes "word_preserving (pl_lower_tr P) (pl_nfd P)" "spaced s"
  shows "normalize_identity_text P s = s" and "merge_normalize P s = s"
  using word_preserving.fold_words[OF assms] word_preserving.fold_words'[OF assms] assms(2)
  by (simp_all add: normalize_identity_text_def merge_normalize_def fold_text_def squash_spaced
      trim_spaced squash_spaces_spaced)

end
