(* ===== verification/Identity_Text.thy ===== *)
theory Identity_Text
  imports Text
begin

text \<open>
  \<open>collector/normalize/identity.ts\<close>: keys for categories, districts, titles and venues, the
  stated location of a venue and when two stated locations conflict.
\<close>

section \<open>Categories and districts\<close>

definition compact_identity_key :: "platform \<Rightarrow> jstr \<Rightarrow> jstr" where
  "compact_identity_key P s = filter (\<lambda>c. \<not> is_space_unit c) (normalize_identity_text P s)"

definition normalize_category_key :: "platform \<Rightarrow> jstr \<Rightarrow> jstr" where
  "normalize_category_key P s =
     (let category = normalize_identity_text P s in
      if test (whole (any_of [''konser'', ''muzik''])) category then u ''concert''
      else if test (whole (any_of [''tiyatro'', ''oyun''])) category then u ''theatre''
      else if test (whole (any_of [''stand up'', ''standup''])) category then u ''standup''
      else if test (whole (any_of [''atolye'', ''workshop''])) category then u ''workshop''
      else category)"

definition istanbul_districts :: "jstr list" where
  "istanbul_districts = map u [
     ''adalar'', ''arnavutkoy'', ''atasehir'', ''avcilar'', ''bagcilar'', ''bahcelievler'',
     ''bakirkoy'', ''basaksehir'', ''bayrampasa'', ''besiktas'', ''beykoz'', ''beylikduzu'',
     ''beyoglu'', ''buyukcekmece'', ''catalca'', ''cekmekoy'', ''esenler'', ''esenyurt'',
     ''eyupsultan'', ''fatih'', ''gaziosmanpasa'', ''gungoren'', ''kadikoy'', ''kagithane'',
     ''kartal'', ''kucukcekmece'', ''maltepe'', ''pendik'', ''sancaktepe'', ''sariyer'', ''sile'',
     ''silivri'', ''sisli'', ''sultanbeyli'', ''sultangazi'', ''tuzla'', ''umraniye'', ''uskudar'',
     ''zeytinburnu'']"

definition asia_districts :: "jstr list" where
  "asia_districts = map u [
     ''adalar'', ''atasehir'', ''beykoz'', ''cekmekoy'', ''kadikoy'', ''kartal'', ''maltepe'',
     ''pendik'', ''sancaktepe'', ''sultanbeyli'', ''sile'', ''tuzla'', ''umraniye'', ''uskudar'']"

definition neighbourhood_districts :: "(jstr \<times> jstr) list" where
  "neighbourhood_districts = map (\<lambda>(n, d). (u n, u d)) [
     (''ayazaga'', ''sariyer''), (''bahariye'', ''kadikoy''), (''bomonti'', ''sisli''),
     (''bostanci'', ''kadikoy''), (''caddebostan'', ''kadikoy''), (''cihangir'', ''beyoglu''),
     (''emirgan'', ''sariyer''), (''galata'', ''beyoglu''), (''harbiye'', ''sisli''),
     (''karakoy'', ''beyoglu''), (''kosuyolu'', ''kadikoy''), (''kozyatagi'', ''kadikoy''),
     (''kustepe'', ''sisli''), (''maslak'', ''sariyer''), (''mecidiyekoy'', ''sisli''),
     (''moda'', ''kadikoy''), (''nisantasi'', ''sisli''), (''ortakoy'', ''besiktas''),
     (''sishane'', ''beyoglu''), (''sultanahmet'', ''fatih''), (''taksim'', ''beyoglu''),
     (''yenibosna'', ''bahcelievler'')]"

text \<open>
  The own properties of the table; the names that every object inherits are not listed in it.
\<close>

definition district_of_token :: "jstr \<Rightarrow> jstr option" where
  "district_of_token token =
     (if token \<in> set istanbul_districts then Some token else map_of neighbourhood_districts token)"

definition location_tokens :: "platform \<Rightarrow> jstr \<Rightarrow> jstr list" where
  "location_tokens P s =
     split_on 32 (replace_all (whole (L ''eyup sultan'')) (u ''eyupsultan'')
       (normalize_identity_text P s))"

text \<open>\<open>tokens.lastIndexOf('istanbul')\<close>, and the last district named from the end.\<close>

definition last_index_of :: "'a \<Rightarrow> 'a list \<Rightarrow> nat option" where
  "last_index_of x xs =
     (case filter (\<lambda>i. xs ! i = x) [0..<length xs] of [] \<Rightarrow> None | is \<Rightarrow> Some (last is))"

definition address_district_key :: "platform \<Rightarrow> jstr \<Rightarrow> jstr option" where
  "address_district_key P address =
     (let tokens = filter (\<lambda>t. \<not> (t \<noteq> [] \<and> list_all is_digit_unit t)) (location_tokens P address);
          beforeCity =
            (case last_index_of (u ''istanbul'') tokens of
               Some city \<Rightarrow> if city > 0 then district_of_token (tokens ! (city - 1)) else None
             | None \<Rightarrow> None)
      in case beforeCity of
           Some d \<Rightarrow> Some d
         | None \<Rightarrow>
             (case List.map_filter district_of_token (rev tokens) of
                [] \<Rightarrow> None | d # ds \<Rightarrow> Some d))"

definition is_side_label :: "jstr \<Rightarrow> bool" where
  "is_side_label s \<longleftrightarrow> s = u ''istanbul anadolu'' \<or> s = u ''istanbul avrupa''"

definition normalize_district_key :: "platform \<Rightarrow> jstr option \<Rightarrow> jstr option \<Rightarrow> jstr" where
  "normalize_district_key P district address =
     (let normalized = normalize_identity_text P (case district of Some d \<Rightarrow> d | None \<Rightarrow> []) in
      if normalized \<noteq> [] \<and> \<not> is_side_label normalized
      then (case List.map_filter district_of_token (location_tokens P normalized) of
              [] \<Rightarrow> normalized | d # ds \<Rightarrow> d)
      else (case address_district_key P (case address of Some a \<Rightarrow> a | None \<Rightarrow> []) of
              Some d \<Rightarrow> d | None \<Rightarrow> normalized))"

section \<open>Stated locations\<close>

datatype shore = Asia_shore | Europe_shore

record venue_geo =
  geo_lat :: rat
  geo_lon :: rat

record listing_venue =
  vn_name :: jstr
  vn_providerVenueId :: "jstr option"
  vn_address :: "jstr option"
  vn_district :: "jstr option"
  vn_geo :: "venue_geo option"

text \<open>The sets are listed without repetition; \<open>sort\<close> puts them in code unit order.\<close>

record location_evidence =
  le_districts :: "jstr list"
  le_sides :: "shore list"

definition shore_name :: "shore \<Rightarrow> jstr" where
  "shore_name s = (case s of Asia_shore \<Rightarrow> u ''asia'' | Europe_shore \<Rightarrow> u ''europe'')"

definition venue_location_evidence :: "platform \<Rightarrow> listing_venue \<Rightarrow> location_evidence" where
  "venue_location_evidence P v =
     (let field = normalize_identity_text P (case vn_district v of Some d \<Rightarrow> d | None \<Rightarrow> []);
          side = (if field = u ''istanbul anadolu'' then [Asia_shore]
                  else if field = u ''istanbul avrupa'' then [Europe_shore] else []);
          fromField = (if side \<noteq> [] then []
                       else List.map_filter district_of_token (location_tokens P field));
          fromAddress =
            (case address_district_key P (case vn_address v of Some a \<Rightarrow> a | None \<Rightarrow> []) of
               Some d \<Rightarrow> [d] | None \<Rightarrow> []);
          fromName = List.map_filter district_of_token (location_tokens P (vn_name v));
          districts = fromField @ fromAddress @ fromName;
          sides = side @ map (\<lambda>d. if d \<in> set asia_districts then Asia_shore else Europe_shore)
                             districts
      in \<lparr>le_districts = sort (remdups districts),
          le_sides = filter (\<lambda>s. s \<in> set sides) [Asia_shore, Europe_shore]\<rparr>)"

definition stated_disjoint :: "'a list \<Rightarrow> 'a list \<Rightarrow> bool" where
  "stated_disjoint a b \<longleftrightarrow> a \<noteq> [] \<and> b \<noteq> [] \<and> \<not> list_ex (\<lambda>x. x \<in> set b) a"

definition location_conflict :: "location_evidence \<Rightarrow> location_evidence \<Rightarrow> bool" where
  "location_conflict l r \<longleftrightarrow>
     stated_disjoint (le_districts l) (le_districts r) \<or> stated_disjoint (le_sides l) (le_sides r)"

lemma stated_disjoint_sym: "stated_disjoint a b \<longleftrightarrow> stated_disjoint b a"
  by (auto simp: stated_disjoint_def list_ex_iff)

lemma location_conflict_sym: "location_conflict a b \<longleftrightarrow> location_conflict b a"
  unfolding location_conflict_def using stated_disjoint_sym by metis

lemma location_conflict_irrefl [simp]: "\<not> location_conflict a a"
  by (auto simp: location_conflict_def stated_disjoint_def list_ex_iff)

section \<open>Titles and venue names\<close>

record normalized_title =
  nt_key :: jstr
  nt_category :: jstr
  nt_removed :: bool

definition normalize_title_key :: "platform \<Rightarrow> jstr \<Rightarrow> jstr \<Rightarrow> normalized_title" where
  "normalize_title_key P title rawCategory =
     (let category = normalize_category_key P rawCategory;
          normalized = normalize_identity_text P title;
          key = (if category = u ''concert''
                 then replace_first (seqs [Plus Space, L ''konser'', Opt (L ''i''), Finishes]) []
                        normalized
                 else if category = u ''theatre''
                 then replace_first (seqs [Plus Space, Opt (seqs [L ''tiyatro'', Plus Space]),
                        L ''oyunu'', Finishes]) [] normalized
                 else if category = u ''standup''
                 then replace_first (seqs [Plus Space, L ''stand up'', Finishes]) [] normalized
                 else normalized)
      in \<lparr>nt_key = (if key \<noteq> [] then key else normalized), nt_category = category,
          nt_removed = (key \<noteq> normalized)\<rparr>)"

definition generic_venue_tokens :: "jstr list" where
  "generic_venue_tokens = map u [
     ''acik'', ''hava'', ''arena'', ''etkinlik'', ''gosteri'', ''istanbul'', ''kultur'',
     ''merkezi'', ''mekan'', ''performans'', ''salon'', ''salonu'', ''sahne'', ''tiyatro'',
     ''yer'']"

definition venue_name_tokens :: "platform \<Rightarrow> jstr \<Rightarrow> jstr list" where
  "venue_name_tokens P name =
     filter (\<lambda>t. length t > 1 \<and> t \<notin> set generic_venue_tokens)
       (split_on 32 (normalize_identity_text P name))"

definition descriptive_venue_tokens :: "jstr list" where
  "descriptive_venue_tokens = generic_venue_tokens @ map u [
     ''acikhava'', ''amfi'', ''auditorium'', ''avm'', ''cad'', ''caddesi'', ''ile'', ''km'',
     ''ksm'', ''merkez'', ''oditoryum'', ''oditoryumu'', ''sahnesi'', ''sanat'', ''sk'',
     ''sokak'', ''sokagi'', ''tiyatrosu'', ''ve'']"

definition weak_venue_tokens :: "jstr list" where
  "weak_venue_tokens = map u [
     ''alt'', ''ana'', ''art'', ''arts'', ''bar'', ''buyuk'', ''cafe'', ''center'', ''centre'',
     ''city'', ''club'', ''hall'', ''house'', ''kafe'', ''kucuk'', ''kulup'', ''live'', ''of'',
     ''park'', ''pub'', ''stage'', ''studio'', ''studyo'', ''the'', ''theater'', ''theatre'',
     ''ust'']"

definition is_weak_venue_token :: "jstr \<Rightarrow> bool" where
  "is_weak_venue_token t \<longleftrightarrow> t \<in> set weak_venue_tokens"

text \<open>Spelled-out initials are joined to the initial before them.\<close>

definition join_initials :: "jstr list \<Rightarrow> jstr list" where
  "join_initials tokens =
     fst (fold (\<lambda>token (joined, initials).
       let initial = (case token of [c] \<Rightarrow> is_lower_unit c | _ \<Rightarrow> False)
       in (if initial \<and> initials then butlast joined @ [last joined @ token] else joined @ [token],
           initial)) tokens ([], False))"

definition distinctive_venue_tokens :: "platform \<Rightarrow> jstr \<Rightarrow> jstr list" where
  "distinctive_venue_tokens P name =
     (let joined = join_initials (location_tokens P name);
          tokens = filter (\<lambda>t. length t > 1 \<and> t \<notin> set descriptive_venue_tokens
                               \<and> t \<noteq> u ''istanbul'') joined;
          named = filter (\<lambda>t. district_of_token t = None) tokens
      in if list_ex (\<lambda>t. \<not> is_weak_venue_token t) named then named else tokens)"

text \<open>
  The pattern of \<open>stripVenueTitlePrefix\<close>: a shortest prefix, a separator, the rest. The dot is
  any unit but a line terminator; the separator words ignore case.
\<close>

definition not_line_end :: "nat \<Rightarrow> bool" where
  "not_line_end c \<longleftrightarrow> c \<notin> {10, 13, 8232, 8233}"

definition Dot :: rx where "Dot = Chr not_line_end"

definition ascii_lower :: "nat \<Rightarrow> nat" where
  "ascii_lower c = (if is_upper_unit c then c + 32 else c)"

definition Ci :: "string \<Rightarrow> rx" where
  "Ci s = foldr (\<lambda>c. Seq (Chr (\<lambda>d. ascii_lower d = ascii_lower c))) (u s) Eps"

definition venue_prefix_rx :: rx where
  "venue_prefix_rx =
     seqs [Begins, Cap 1 (Rep False 1 None Dot),
           alts [seqs [Plus Space, alts [Ci ''x'', Ci ''sunar'', Ci ''presents''], Plus Space],
                 seqs [Star Space, L '':'', Plus Space]],
           Cap 2 (Plus Dot), Finishes]"

definition strip_venue_title_prefix :: "platform \<Rightarrow> jstr \<Rightarrow> jstr \<Rightarrow> jstr" where
  "strip_venue_title_prefix P title venueName =
     (let venue = distinctive_venue_tokens P venueName in
      case exec venue_prefix_rx (trim title) of
        None \<Rightarrow> title
      | Some m \<Rightarrow>
          (case (group m 1, group m 2) of
             (Some first, Some rest) \<Rightarrow>
               if venue = [] \<or> normalize_identity_text P rest = [] then title
               else
                 let prefix = split_on 32 (normalize_identity_text P first);
                     identifying = list_ex (\<lambda>t. length t \<ge> 3 \<and> \<not> is_weak_venue_token t) prefix;
                     sameName = (concat prefix = concat venue
                                 \<or> list_all (\<lambda>t. t \<in> set venue) prefix)
                 in if identifying \<and> sameName then rest else title
           | _ \<Rightarrow> title))"

section \<open>What the keys are\<close>

lemma split_on_words:
  "spaced s \<Longrightarrow> s \<noteq> [] \<Longrightarrow> \<forall>w \<in> set (split_on 32 s). w \<noteq> [] \<and> list_all key_unit w"
proof (induction s rule: spaced.induct)
  case (2 c)
  then show ?case by auto
next
  case (3 c d r)
  then show ?case by (auto split: if_splits list.splits)
qed simp

lemma title_key_nonempty:
  "normalize_identity_text P title \<noteq> [] \<Longrightarrow> nt_key (normalize_title_key P title category) \<noteq> []"
  by (simp add: normalize_title_key_def Let_def)

lemma district_of_token_known:
  "district_of_token t = Some d \<Longrightarrow> d \<in> set istanbul_districts"
  unfolding district_of_token_def
  by (simp add: istanbul_districts_def neighbourhood_districts_def split: if_splits)

end
