(* ===== verification/Timing.thy ===== *)
theory Timing
  imports JsValue
begin

text \<open>
  \<open>contracts/timing.ts\<close>: the attendance semantics a provider's data support, and the strict
  validation of persisted timing metadata. Parsing and writing back are inverse.
\<close>

datatype attendance_timing =
    TimedSession
  | UnknownTiming
  | AdmissionWindow jstr jstr

definition parse_attendance_timing :: "json \<Rightarrow> attendance_timing option res" where
  "parse_attendance_timing value =
     (if value = Undefined then Inr None
      else if \<not> is_obj value then throw ''Invalid attendance timing''
      else
        let kind = jget value ''kind''; evidence = jget value ''evidence'';
            from = jget value ''validFrom''; through = jget value ''validThrough''
        in if kind = JStr (u ''timed_session'') \<and> exact_keys value [''kind'', ''evidence'']
              \<and> evidence = JStr (u ''provider_sessions_and_source_text'')
           then Inr (Some TimedSession)
           else if kind = JStr (u ''unknown'') \<and> exact_keys value [''kind'', ''evidence'']
              \<and> evidence = JStr (u ''insufficient_source_evidence'')
           then Inr (Some UnknownTiming)
           else if kind = JStr (u ''admission_window'')
              \<and> exact_keys value [''kind'', ''evidence'', ''validFrom'', ''validThrough'']
              \<and> evidence = JStr (u ''provider_flexible_window'')
           then (case (from, through) of
               (JStr f, JStr t) \<Rightarrow>
                 if canonical_iso f \<and> canonical_iso t
                    \<and> the (date_parse f) \<le> the (date_parse t)
                 then Inr (Some (AdmissionWindow f t))
                 else throw ''Invalid attendance timing''
             | _ \<Rightarrow> throw ''Invalid attendance timing'')
           else throw ''Invalid attendance timing'')"

text \<open>The object literal of each variant, as the source writes it.\<close>

fun timing_json :: "attendance_timing \<Rightarrow> json" where
  "timing_json TimedSession =
     JObj [(u ''kind'', JStr (u ''timed_session'')),
           (u ''evidence'', JStr (u ''provider_sessions_and_source_text''))]"
| "timing_json UnknownTiming =
     JObj [(u ''kind'', JStr (u ''unknown'')),
           (u ''evidence'', JStr (u ''insufficient_source_evidence''))]"
| "timing_json (AdmissionWindow f t) =
     JObj [(u ''kind'', JStr (u ''admission_window'')),
           (u ''evidence'', JStr (u ''provider_flexible_window'')),
           (u ''validFrom'', JStr f), (u ''validThrough'', JStr t)]"

text \<open>A timing value is well formed when its window is a nonempty interval of canonical stamps.\<close>

fun timing_ok :: "attendance_timing \<Rightarrow> bool" where
  "timing_ok (AdmissionWindow f t) =
     (canonical_iso f \<and> canonical_iso t \<and> the (date_parse f) \<le> the (date_parse t))"
| "timing_ok _ = True"

definition exact_instant :: "json \<Rightarrow> jstr option" where
  "exact_instant value =
     (case value of
        JNum (Fin r) \<Rightarrow>
          \<comment> \<open>\<open>new Date(value)\<close> clips the fraction towards zero (TimeClip).\<close>
          to_iso (if 0 \<le> r then \<lfloor>r\<rfloor> else \<lceil>r\<rceil>)
      | _ \<Rightarrow> None)"

lemma parse_timing_roundtrip:
  "timing_ok t \<Longrightarrow> parse_attendance_timing (timing_json t) = Inr (Some t)"
  by (cases t) (auto simp: parse_attendance_timing_def exact_keys_def Let_def)

lemma jget_absent: "u k \<notin> set (own_keys v) \<Longrightarrow> jget v k = Undefined"
  by (cases v) (force split: option.splits dest: map_of_SomeD)+

lemma exact_keys_set: "exact_keys v ks \<Longrightarrow> set (own_keys v) = set (map u ks)"
  by (metis exact_keys_def set_sort)

lemma parse_timing_cases:
  assumes "parse_attendance_timing v = Inr (Some t)"
  obtains "t = TimedSession" "exact_keys v [''kind'', ''evidence'']"
      "jget v ''kind'' = JStr (u ''timed_session'')"
      "jget v ''evidence'' = JStr (u ''provider_sessions_and_source_text'')"
    | "t = UnknownTiming" "exact_keys v [''kind'', ''evidence'']"
      "jget v ''kind'' = JStr (u ''unknown'')"
      "jget v ''evidence'' = JStr (u ''insufficient_source_evidence'')"
    | f g where "t = AdmissionWindow f g"
      "exact_keys v [''kind'', ''evidence'', ''validFrom'', ''validThrough'']"
      "jget v ''kind'' = JStr (u ''admission_window'')"
      "jget v ''evidence'' = JStr (u ''provider_flexible_window'')"
      "jget v ''validFrom'' = JStr f" "jget v ''validThrough'' = JStr g"
      "canonical_iso f" "canonical_iso g" "the (date_parse f) \<le> the (date_parse g)"
  using assms
  by (auto simp: parse_attendance_timing_def Let_def split: if_split_asm json.split_asm)

text \<open>What the validator accepts is what it returns: nothing is dropped and nothing invented.\<close>

lemma parse_timing_ok:
  assumes "parse_attendance_timing v = Inr (Some t)"
  shows "timing_ok t \<and> set (own_keys v) = set (own_keys (timing_json t))
    \<and> (\<forall>k. jget v k = jget (timing_json t) k)"
  using assms
proof (cases rule: parse_timing_cases)
  case 1
  note keys = exact_keys_set[OF 1(2)]
  have "jget v k = jget (timing_json t) k" for k
    using jget_absent[of k v] keys 1 by (cases "k = ''kind''"; cases "k = ''evidence''") auto
  then show ?thesis using 1(1) keys by simp
next
  case 2
  note keys = exact_keys_set[OF 2(2)]
  have "jget v k = jget (timing_json t) k" for k
    using jget_absent[of k v] keys 2 by (cases "k = ''kind''"; cases "k = ''evidence''") auto
  then show ?thesis using 2(1) keys by simp
next
  case (3 f g)
  note keys = exact_keys_set[OF 3(2)]
  have "jget v k = jget (timing_json t) k" for k
    using jget_absent[of k v] keys 3
    by (cases "k = ''kind''"; cases "k = ''evidence''"; cases "k = ''validFrom''";
        cases "k = ''validThrough''") auto
  then show ?thesis using 3 keys by auto
qed

lemma exact_instant_canonical: "exact_instant v = Some s \<Longrightarrow> canonical_iso s"
  by (auto simp: exact_instant_def to_iso_def split: json.splits jnum.splits if_splits)

end
