(* ===== verification/Seeds.thy ===== *)
theory Seeds
  imports Identity_Text Timing
begin

text \<open>
  \<open>collector/identity/types.ts\<close>: the listing that identity resolution compares; and
  \<open>collector/identity/seed-overrides.ts\<close>: the reviewed aliases of venues and titles.
\<close>

record identity_listing =
  il_listingId :: jstr
  il_provider :: jstr
  il_title :: jstr
  il_description :: jstr
  il_category :: jstr
  il_startsAt :: jstr
  il_attendanceTiming :: "attendance_timing option"
  il_venue :: listing_venue
  il_city :: "jstr option"

definition venue_alias_groups :: "jstr list list" where
  "venue_alias_groups = map (map tr) [
     [''Ay~i Pub & Disko R~iht~im'', ''Ay~i Pub & Disko R~iht~im Kad~ik~oy''],
     [''Cafe Theatre'', ''Cafe Theatre Ko~suyolu''],
     [''Ada Bar Kad~ik~oy'', ''Ada Bar''],
     [''HoP Sahne'', ''House of Performance - HoP''],
     [''Biletinial Torium Sahne'', ''Torium Sahne''],
     [''Kartal Sanat Tiyatrosu'', ''Kartal Sanat Tiyatro Salonu''],
     [''Maltepe Dragos Sahne'', ''Sahne Dragos''],
     [''Watergarden Performans Merkezi Duru Tiyatro [Ata~sehir]'',
      ''Duru Tiyatro Watergarden Performans Merkezi''],
     [''~Inal Ayd~ino~glu KM'', ''~Inal Ayd~ino~glu K~ult~ur Merkezi''],
     [''L~utfi K~irdar Anadolu Auditorium'', ''~Istanbul L~utfi Kirdar Anadolu Oditoryum Salonu''],
     [''Paribu Vadi A~c~ikhava'', ''Paribu Vadi A~c~ik Hava''],
     [''Jolly Joker Kartal'', ''Jolly Joker Kartal ~IstMarina''],
     [''JJ Arena'', ''JJ Arena Ata~sehir''],
     [''Dorock XL Kad~ik~oy'', ''Dorock XL''],
     [''AKM T~urk Telekom Opera Salonu'', ''T~urk Telekom Opera Salonu''],
     [''Mall Of ~Istanbul Biletinial Moi Sahne'', ''Mall of ~Istanbul MO~I Sahne'']]"

definition title_alias_groups :: "jstr list list" where
  "title_alias_groups = map (map tr) [
     [''Tan~i~s - Konu~s - Dans Et - (Sosyal Bulu~sma Etkinli~gi)'',
      ''Tan~i~s ~b Konu~s ~b Payla~s ~b Dans Et''],
     [''Bir ~Ishak~qs~in Bir Cemil Oyunu'', ''Bir ~Ishaks~in Bir Cemil''],
     [''DJ Can Giray - Ge~cmi~sten G~un~um~uze 90lar 2000ler T~urk~ce Pop'',
      ''Ge~cmi~sten G~un~um~uze 90~qlar 2000~qler T~urk~ce Pop''],
     [''Discman 90~rlar & 2000~rler T~urk~ce Pop Gecesi'',
      ''Discman 90lar & 2000ler T~urk~ce Pop''],
     [''Kad~ik~oy A~c~ik Mikrofon Stand-up - Comedy Lab'',
      ''Kad~ik~oy A~c~ik Mikrofon Stand-up - Comedy Lab Istanbul''],
     [''STAND UP GECES~I Taksim- Pera- Beyo~glu'', ''Beyo~glu- Taksim- Stand Up Gecesi'',
      ''Stand Up Gecesi - Taksim & Beyo~glu'', ''Beyo~glu- Taksim- Pera Stand Up Gecesi''],
     [''Stand up Taksim / Beyo~glu Gecesi | ~Infiniti Sahne'',
      ''Stand Up Taksim / Beyo~glu Gecesi - Cuma 20:30'',
      ''Stand Up Taksim - Beyo~glu Gecesi - Cuma 20:30'',
      ''Stand Up Taksim / Beyo~glu Gecesi - Cuma 22:30'',
      ''Stand Up Taksim - Beyo~glu Gecesi - Cuma 22:30'',
      ''Stand Up Taksim / Beyo~glu Gecesi - Cumartesi 19:00'',
      ''Stand Up Taksim / Beyo~glu Gecesi - Cumartesi 20:30'',
      ''Stand Up Taksim / Beyo~glu Gecesi - Pazar 19:00'',
      ''Stand Up Taksim / Beyo~glu Gecesi - Pazar 20:30''],
     [''Bo~gazi~ci Komedi Kul~ub~u: Kad~ik~oy A~c~ik Mikrofon Stand-up Gecesi'',
      ''Bo~gazi~ci Komedi Kul~ub~u - Kad~ik~oy A~c~ik Mikrofon Stand-up''],
     [''G~okhan ~Unver Stand Up'', ''G~okhan ~Unver ~q~Cok Tan~id~ik~q''],
     [''Mustafa Boz - Tek Ki~silik Stand Up'', ''Mustafa Boz Stand Up''],
     [''Operadaki Hayalet'', ''Operadaki Hayalet Tiyatro Oyunu''],
     [''K~ut~uphanedeki Ceset'', ''K~ut~uphanedeki Ceset Tiyatro Oyunu''],
     [''Su~c ve Ceza'', ''Su~c ve Ceza Oyunu''],
     [''~Ciftler ~Ciftler'', ''~Ciftler ~Ciftler Oyunu''],
     [''Sesler - Salih Bademci'', ''Salih Bademci - Sesler''],
     [''Tek H~ucreliler - A~sk~im Kap~i~smak'', ''A~sk~im Kap~i~smak - Tek H~ucreliler''],
     [''Memleket Kuma~s~i ~n Sunay Ak~in'', ''Sunay Ak~in - Memleket Kuma~s~i''],
     [''Aleksandrov Rus K~iz~ilordu Korosu ve Dans Toplulu~gu ~Ile Hayko Cepkin Konserleri'',
      ''Aleksandrov Rus K~iz~ilordu Korosu ve Dans Toplulu~gu ~Ile Hayko Cepkin''],
     [''Bir ~Idam Mahkumunun Son G~un~u'', ''Bir ~Idam Mahkumunun Son G~un~u Oyunu''],
     [''Kas~impa~sa Mevlevihanesi Semazen T~oreni'',
      ''Kas~impa~sa Mevlevihanesi~qnde Semazen T~oreni''],
     [''~Ol~u~qn Bizi Ay~irana Dek'', ''~Ol~un Bizi Ay~irana Dek'',
      ''~Ol~u~rn Bizi Ay~irana Dek'', ''~Ol~u~qn Bizi Ay~irana Dek Oyunu''],
     [''Mah~ser-i C~umb~u~s'', ''Mah~ser-i C~umb~u~s Oyunu''],
     [''Haybeden Ger~cek~ust~u A~sk'', ''Haybeden Ger~cek~ust~u A~sk Oyunu''],
     [''A~sk Hikayen D~u~sm~u~s'', ''A~sk Hikayen D~u~sm~u~s Oyunu''],
     [''Bi ~Saka Stand up Program~i'', ''Bi ~Saka Stand Up''],
     [''F~irat Tan~i~s ile Gelin Tan~i~s Olal~im'',
      ''F~irat Tan~i~s ile Gelin Tan~i~s Olal~im Oyunu''],
     [''Anna Karenina'', ''Anna Karenina Tiyatro Oyunu''],
     [''Berkay Konseri'', ''Berkay''],
     [''Ozbi Konseri'', ''Ozbi''],
     [''Kolpa'', ''Kolpa Konseri''],
     [''Duman Konseri'', ''Duman''],
     [''Simge'', ''Simge Konseri''],
     [''Mavi'', ''Mavi Konseri''],
     [''Jakuzi'', ''Jakuzi Konseri''],
     [''Malleus'', ''Malleus Oyunu''],
     [''Ahududu'', ''Ahududu Oyunu''],
     [''Alpay Erdem - Ge~cenlerde'', ''Alpay Erdem - Ge~cenlerde Stand Up''],
     [''Kad~ik~oy Stand-up Gecesi'', ''Kad~ik~oy Stand Up Gecesi Cuma 20:00'',
      ''Kad~ik~oy Stand Up Gecesi Cuma 21:45'', ''Kad~ik~oy Stand Up Gecesi Cumartesi 19:00'',
      ''Kad~ik~oy Stand up Gecesi Pazar 19:00'', ''Kad~ik~oy Stand Up Gecesi ~Car~samba 20:30'',
      ''Kad~ik~oy Stand up Gecesi Cumartesi 21:45''],
     [''Kad~ik~oy Stand Up Gecesi A~c~ik Mikrofon'',
      ''Kad~ik~oy Stand Up Gecesi Pazartesi A~c~ik Mikrofon'',
      ''Kad~ik~oy Stand Up Gecesi Sal~i A~c~ik Mikrofon''],
     [''Hikayeden Adamlar ~qMahalle~q - Youtube ~Cekimi - 3.sezon'',
      ''Hikayeden Adamlar - Mahalle - Youtube ~Cekimi''],
     [''XI. Gastromasa Istanbul Uluslararas~i Gastronomi Konferans~i & Fuar~i'',
      ''Gastromasa ~Istanbul Uluslararas~i Gastronomi Konferans~i & Fuar~i''],
     [''Burak Altuni Akustik Flamenko Konser'', ''Burak Altuni Akustik Flamenko Konseri''],
     [''Benyunusy~ilmaz - Olay Yeri ~Inceleme Stand Up'',
      ''Yunus Y~ilmaz - Olay Yeri ~Inceleme Stand Up''],
     [''Lumera Trio Sezen Aksu ~Sark~ilar~i'', ''Lumera - Sezen Aksu ~Sark~ilar~i''],
     [''Celile (Naz~im Hikmet~qin Annesi) Oyunu'', ''Celile (Naz~im Hikmet~qin Annesi)''],
     [''~Cocuklar ~I~cin Yarat~ic~i Drama E~gitimi'',
      ''~Cocuklar i~cin Yarat~ic~i Drama E~gitim''],
     [''G~uncel G~ursel Art~iktay Konseri'', ''G~uncel G~ursel Art~iktay''],
     [''Stand up A~c~ik Mikrofon Beyo~glu | ~Infiniti Sahne'',
      ''Stand Up A~c~ik Mikrofon Beyo~glu ~Car~samba'',
      ''Stand Up A~c~ik Mikrofon Beyo~glu Per~sembe'',
      ''Stand Up Taksim Gecesi & A~c~ik Mikrofon ~Car~samba'',
      ''Stand Up Taksim Gecesi & A~c~ik Mikrofon Per~sembe'']]"

text \<open>Program name first, then its titles.\<close>

definition workshop_programs :: "jstr list list" where
  "workshop_programs = map (map tr) [
     [''hat'', ''~Istanbul Workshops Hat Sanat~i At~olyesi'', ''Hat Sanat~i At~olyesi'',
      ''Pirin~c ~Cer~ceveli Cam ~Uzerine Hat/Kaligrafi Sanat~i At~olyesi''],
     [''tezhip'', ''~Istanbul Workshops Tezhip At~olyesi'', ''Tezhip At~olyesi''],
     [''cini'', ''~Istanbul Workshops ~Cini At~olyesi'', ''~Cini At~olyesi'',
      ''T~urk ~Cini Resim Sanat~i At~olyesi''],
     [''vitray'', ''~Istanbul Workshops Vitray At~olyesi'', ''Vitray At~olyesi''],
     [''parfum'', ''~Istanbul Workshops Parf~um At~olyesi'', ''Parf~um At~olyesi'',
      ''Parf~um Tasar~im~i At~olyesi''],
     [''deri'', ''~Istanbul Workshops Deri ~I~s~cili~gi At~olyesi'',
      ''Deri ~I~s~cili~gi At~olyesi''],
     [''ebru'', ''~Istanbul Workshops Ebru ile Bez ~Canta Tasar~im At~olyesi'',
      ''Ebru Bez ~Canta Sanat At~olyesi'', ''Ebru ile Bez ~Canta Tasar~im At~olyesi'']]"

text \<open>
  \<open>for (const group of GROUPS) for (const alias of group) seeds.set(normalize(alias), key)\<close>: a
  later alias replaces an earlier one.
\<close>

definition alias_map :: "(jstr \<Rightarrow> jstr) \<Rightarrow> (jstr list \<Rightarrow> jstr) \<Rightarrow> jstr list list \<Rightarrow> (jstr \<times> jstr) list" where
  "alias_map nrm key gs =
     fold (\<lambda>g m. fold (\<lambda>alias. AList.update (nrm alias) (key g)) g m) gs []"

definition venue_seed_map :: "platform \<Rightarrow> (jstr \<times> jstr) list" where
  "venue_seed_map P =
     alias_map (normalize_identity_text P)
       (\<lambda>g. u ''venue:'' @ normalize_identity_text P (hd g)) venue_alias_groups"

definition title_seed_map :: "platform \<Rightarrow> (jstr \<times> jstr) list" where
  "title_seed_map P =
     alias_map (normalize_identity_text P)
       (\<lambda>g. u ''title:'' @ normalize_identity_text P (hd g)) title_alias_groups"

text \<open>The titles of a group without its first element, which is the program.\<close>

definition workshop_title_map :: "platform \<Rightarrow> (jstr \<times> jstr) list" where
  "workshop_title_map P =
     fold (\<lambda>g m. fold (\<lambda>title. AList.update (normalize_identity_text P title) (hd g)) (tl g) m)
       workshop_programs []"

record workshop_venue =
  wv_key :: jstr
  wv_names :: "jstr list"
  wv_generic :: "jstr option"
  wv_address :: jstr

definition workshop_venues :: "platform \<Rightarrow> workshop_venue list" where
  "workshop_venues P = [
     \<lparr>wv_key = u ''venue:reviewed:fabrikafa'',
      wv_names = map tr [''Fabrikafa Make & Coffee'', ''~Istanbul Workshops - Fabrikafa Make & Coffee''],
      wv_generic = Some (tr ''~Istanbul Workshops''),
      wv_address = normalize_identity_text P
        (tr ''Aziz Mahmut H~udayi, G~ulfem Sk. No:15, 34672 ~Usk~udar/~Istanbul'')\<rparr>,
     \<lparr>wv_key = u ''venue:reviewed:bagimsiz-sanat-vakfi'',
      wv_names = map tr [''Ba~g~ims~iz Sanat Vakf~i''],
      wv_generic = None,
      wv_address = normalize_identity_text P
        (tr ''Hobyar, Ankara Cd. No;3, 34110 Fatih/~Istanbul'')\<rparr>,
     \<lparr>wv_key = u ''venue:reviewed:atolye-sahi'',
      wv_names = map tr [''At~olye Sahi''],
      wv_generic = None,
      wv_address = normalize_identity_text P
        (tr ''Aziz Mahmut H~udayi Caddesi, G~ulfem Sk. No:17A, 34762 ~Usk~udar/~Istanbul'')\<rparr>]"

text \<open>
  The loop over the reviewed workshop venues: \<open>Some r\<close> when it returns \<open>r\<close> (which may be
  undefined), \<open>None\<close> when it falls through to the aliases.
\<close>

fun workshop_venue_seed ::
  "platform \<Rightarrow> jstr \<Rightarrow> jstr \<Rightarrow> workshop_venue list \<Rightarrow> jstr option option" where
  "workshop_venue_seed P name address [] = None"
| "workshop_venue_seed P name address (seed # seeds) =
     (if list_ex (\<lambda>candidate. normalize_identity_text P candidate = name) (wv_names seed)
      then Some (if address \<noteq> [] \<and> address \<noteq> wv_address seed then None else Some (wv_key seed))
      else case wv_generic seed of
             Some g \<Rightarrow>
               if g \<noteq> [] \<and> normalize_identity_text P g = name
               then Some (if address = wv_address seed then Some (wv_key seed) else None)
               else workshop_venue_seed P name address seeds
           | None \<Rightarrow> workshop_venue_seed P name address seeds)"

definition venue_seed_identity :: "platform \<Rightarrow> identity_listing \<Rightarrow> jstr option" where
  "venue_seed_identity P l =
     (if normalize_identity_text P
           (case il_city l of Some c \<Rightarrow> c | None \<Rightarrow> tr ''~Istanbul'') \<noteq> u ''istanbul'' then None
      else
        let name = normalize_identity_text P (vn_name (il_venue l));
            address = normalize_identity_text P (or_empty (vn_address (il_venue l)))
        in case workshop_venue_seed P name address (workshop_venues P) of
             Some r \<Rightarrow> r
           | None \<Rightarrow> map_of (venue_seed_map P) name)"

definition title_seed_identity :: "platform \<Rightarrow> identity_listing \<Rightarrow> jstr option \<Rightarrow> jstr option" where
  "title_seed_identity P l venueSeed =
     (let normalized = normalize_identity_text P (il_title l);
          program = (if venueSeed = Some (u ''venue:reviewed:fabrikafa'')
                     then map_of (workshop_title_map P) normalized else None)
      in case program of
           Some p \<Rightarrow> Some (u ''title:reviewed:fabrikafa:'' @ p)
         | None \<Rightarrow>
             if venueSeed = Some (u ''venue:reviewed:bagimsiz-sanat-vakfi'')
                \<and> normalized \<in> set (map u [''istanbul workshops mozaik lamba atolyesi'',
                                           ''mozaik lamba atolyesi''])
             then Some (u ''title:reviewed:mozaik-lamba'')
             else if venueSeed = Some (u ''venue:reviewed:atolye-sahi'')
                \<and> normalized \<in> set (map u [
                    ''istanbul workshops seramik atolyesi tek seans workshop'',
                    ''seramik atolyesi tek seans workshop'', ''seramik atolyesi''])
             then
               (let description = normalize_identity_text P (il_description l) in
                if normalized = u ''seramik atolyesi''
                   \<and> (\<not> contains_text description (u ''tek oturumluk deneyim'')
                      \<or> contains_text description (u ''aylik kurs''))
                then None else Some (u ''title:reviewed:seramik-tek-seans''))
             else map_of (title_seed_map P) normalized)"

text \<open>
  Two spellings of one group have one seed: the last alias written for a normal form decides,
  so a seed is always the head of a group that contains the text.
\<close>

lemma alias_map_group:
  assumes "map_of (alias_map nrm key gs) name = Some k"
  shows "\<exists>g \<in> set gs. k = key g \<and> name \<in> nrm ` set g"
proof -
  have inner: "map_of (fold (\<lambda>alias. AList.update (nrm alias) v) as m) name = Some k \<Longrightarrow>
      map_of m name = Some k \<or> (k = v \<and> name \<in> nrm ` set as)" for as v m
    by (induction as arbitrary: m) (force simp: update_conv' split: if_splits)+
  have "map_of (fold (\<lambda>g m. fold (\<lambda>alias. AList.update (nrm alias) (key g)) g m) gs m) name = Some k
      \<Longrightarrow> map_of m name = Some k \<or> (\<exists>g \<in> set gs. k = key g \<and> name \<in> nrm ` set g)" for m
  proof (induction gs arbitrary: m)
    case (Cons g gs)
    then show ?case using inner[of "key g" g m] by fastforce
  qed simp
  from this[of "[]"] show ?thesis using assms by (simp add: alias_map_def)
qed

end
