(* ===== verification/Disjoint.thy ===== *)
theory Disjoint
  imports Prelude "HOL-Library.While_Combinator"
begin

text \<open>
  The \<open>DisjointSet\<close> of \<open>collector/identity/resolve.ts\<close>: parents with path compression, the
  smaller root wins a union, and the members of every root. Its contract is the partition of the
  indices: \<open>find\<close> changes no class, \<open>union\<close> joins two, \<open>members\<close> lists one.
\<close>

record disjoint_set =
  ds_parent :: "nat list"
  ds_members :: "nat list list"

definition ds_new :: "nat \<Rightarrow> disjoint_set" where
  "ds_new n = \<lparr>ds_parent = [0..<n], ds_members = map (\<lambda>i. [i]) [0..<n]\<rparr>"

text \<open>The two loops of \<open>find\<close>: climb to the root, then hang every node passed below it.\<close>

definition climb :: "nat list \<Rightarrow> nat \<Rightarrow> nat" where
  "climb p i = while (\<lambda>r. p ! r \<noteq> r) (\<lambda>r. p ! r) i"

definition compress :: "nat list \<Rightarrow> nat \<Rightarrow> nat \<Rightarrow> nat list" where
  "compress p i root =
     fst (while (\<lambda>(p, i). p ! i \<noteq> i) (\<lambda>(p, i). (p[i := root], p ! i)) (p, i))"

definition ds_find :: "disjoint_set \<Rightarrow> nat \<Rightarrow> nat \<times> disjoint_set" where
  "ds_find d i =
     (let root = climb (ds_parent d) i
      in (root, d\<lparr>ds_parent := compress (ds_parent d) i root\<rparr>))"

definition ds_union :: "disjoint_set \<Rightarrow> nat \<Rightarrow> nat \<Rightarrow> nat \<times> disjoint_set" where
  "ds_union d left right =
     (let (a, d1) = ds_find d left; (b, d2) = ds_find d1 right in
      if a = b then (a, d2)
      else
        let root = min a b; child = max a b
        in (root, d2\<lparr>ds_parent := (ds_parent d2)[child := root],
              ds_members := (ds_members d2)[root := ds_members d2 ! root @ ds_members d2 ! child,
                                            child := []]\<rparr>))"

definition ds_list :: "disjoint_set \<Rightarrow> nat \<Rightarrow> nat list \<times> disjoint_set" where
  "ds_list d i = (let (root, d1) = ds_find d i in (ds_members d1 ! root, d1))"

section \<open>Forests\<close>

definition forest :: "nat list \<Rightarrow> bool" where
  "forest p \<longleftrightarrow> (\<forall>i < length p. p ! i \<le> i)"

lemma climb_unfold: "climb p i = (if p ! i = i then i else climb p (p ! i))"
  unfolding climb_def by (subst while_unfold) simp

lemma climb_facts:
  assumes "forest p" "i < length p"
  shows "climb p i \<le> i \<and> p ! climb p i = climb p i"
  using assms(2)
proof (induction i rule: less_induct)
  case (less i)
  show ?case
  proof (cases "p ! i = i")
    case True
    then show ?thesis by (subst (1 2 3) climb_unfold) simp
  next
    case False
    then have "p ! i < i" using assms(1) less.prems by (simp add: forest_def le_neq_implies_less)
    then show ?thesis using less.IH[of "p ! i"] less.prems False climb_unfold[of p i] by simp
  qed
qed

lemmas climb_le = climb_facts[THEN conjunct1] and climb_root = climb_facts[THEN conjunct2]

lemma climb_less: "forest p \<Longrightarrow> i < length p \<Longrightarrow> climb p i < length p"
  using climb_le[of p i] by simp

text \<open>A change of parents that keeps the root of the changed node keeps every root.\<close>

lemma climb_update:
  assumes "forest p" "i < length p" "r = climb p i" "j < length p"
  shows "climb (p[i := r]) j = climb p j"
  using assms(4)
proof (induction j rule: less_induct)
  case (less j)
  note r = climb_le[OF assms(1,2)] climb_root[OF assms(1,2)]
  show ?case
  proof (cases "j = i")
    case True
    show ?thesis
    proof (cases "r = i")
      case True
      then show ?thesis using \<open>j = i\<close> assms(2,3) climb_unfold[of "p[i := r]" i] by simp
    next
      case False
      then have "climb (p[i := r]) r = r" using r assms(3) climb_unfold[of "p[i := r]" r] by simp
      then show ?thesis
        using \<open>j = i\<close> assms(2,3) False climb_unfold[of "p[i := r]" i] by simp
    qed
  next
    case False
    show ?thesis
    proof (cases "p ! j = j")
      case True
      then show ?thesis
        using False climb_unfold[of "p[i := r]" j] climb_unfold[of p j] by simp
    next
      case ne: False
      then have "p ! j < j" using assms(1) less.prems by (simp add: forest_def le_neq_implies_less)
      then have "climb (p[i := r]) (p ! j) = climb p (p ! j)" using less by simp
      then show ?thesis
        using False ne climb_unfold[of "p[i := r]" j] climb_unfold[of p j] by simp
    qed
  qed
qed

lemma forest_update: "forest p \<Longrightarrow> r \<le> i \<Longrightarrow> forest (p[i := r])"
  unfolding forest_def by (metis length_list_update nth_list_update_eq nth_list_update_neq)

lemma compress_unfold:
  "compress p i r = (if p ! i = i then p else compress (p[i := r]) (p ! i) r)"
  unfolding compress_def by (subst while_unfold) simp

lemma compress_spec:
  assumes "forest p" "i < length p"
  shows "length (compress p i (climb p i)) = length p \<and> forest (compress p i (climb p i))
    \<and> (\<forall>j < length p. climb (compress p i (climb p i)) j = climb p j)"
  using assms
proof (induction i arbitrary: p rule: less_induct)
  case (less i)
  show ?case
  proof (cases "p ! i = i")
    case True
    then show ?thesis using less.prems compress_unfold[of p i] by simp
  next
    case False
    let ?r = "climb p i" and ?p = "p[i := climb p i]"
    have lt: "p ! i < i" using less.prems False by (simp add: forest_def le_neq_implies_less)
    have f: "forest ?p" using less.prems climb_le by (intro forest_update) auto
    have same: "\<forall>j < length p. climb ?p j = climb p j"
      using less.prems climb_update by blast
    have "climb p (p ! i) = ?r" using False climb_unfold[of p i] by simp
    then have "climb ?p (p ! i) = ?r" using same lt less.prems(2) by simp
    then show ?thesis
      using less.IH[OF lt f] lt less.prems(2) same False compress_unfold[of p i ?r] by simp
  qed
qed

section \<open>The partition\<close>

text \<open>
  The abstraction of a disjoint set is the class of each index, named by its least member's
  root.
\<close>

definition ds_class :: "disjoint_set \<Rightarrow> nat \<Rightarrow> nat" where
  "ds_class d i = climb (ds_parent d) i"

definition ds_ok :: "nat \<Rightarrow> disjoint_set \<Rightarrow> bool" where
  "ds_ok n d \<longleftrightarrow>
     length (ds_parent d) = n \<and> length (ds_members d) = n \<and> forest (ds_parent d)
     \<and> (\<forall>r < n. distinct (ds_members d ! r))
     \<and> (\<forall>r < n. set (ds_members d ! r) = {i. i < n \<and> ds_class d i = r})"

lemma ds_new_class: "i < n \<Longrightarrow> ds_class (ds_new n) i = i"
  using climb_unfold[of "[0..<n]" i] by (simp add: ds_class_def ds_new_def)

lemma ds_new_ok: "ds_ok n (ds_new n)"
proof -
  have "\<forall>r < n. {i. i < n \<and> ds_class (ds_new n) i = r} = {r}"
    using ds_new_class[of _ n] by auto
  then show ?thesis by (simp add: ds_ok_def ds_new_def forest_def)
qed

lemma ds_class_less: "ds_ok n d \<Longrightarrow> i < n \<Longrightarrow> ds_class d i < n"
  by (auto simp: ds_ok_def ds_class_def climb_less)

lemma ds_class_idem: "ds_ok n d \<Longrightarrow> i < n \<Longrightarrow> ds_class d (ds_class d i) = ds_class d i"
  using climb_root[of "ds_parent d" i] climb_unfold[of "ds_parent d" "climb (ds_parent d) i"]
  by (auto simp: ds_ok_def ds_class_def)

lemma ds_find_spec:
  assumes "ds_ok n d" "i < n"
  shows "fst (ds_find d i) = ds_class d i" and "ds_ok n (snd (ds_find d i))"
    and "\<forall>j < n. ds_class (snd (ds_find d i)) j = ds_class d j"
    and "ds_members (snd (ds_find d i)) = ds_members d"
proof -
  have c: "length (compress (ds_parent d) i (climb (ds_parent d) i)) = n
      \<and> forest (compress (ds_parent d) i (climb (ds_parent d) i))
      \<and> (\<forall>j < n. climb (compress (ds_parent d) i (climb (ds_parent d) i)) j
                 = climb (ds_parent d) j)"
    using compress_spec[of "ds_parent d" i] assms by (simp add: ds_ok_def)
  show "fst (ds_find d i) = ds_class d i" by (simp add: ds_find_def ds_class_def Let_def)
  show cl: "\<forall>j < n. ds_class (snd (ds_find d i)) j = ds_class d j"
    using c by (simp add: ds_find_def ds_class_def Let_def)
  show m: "ds_members (snd (ds_find d i)) = ds_members d" by (simp add: ds_find_def Let_def)
  have "{j. j < n \<and> ds_class (snd (ds_find d i)) j = r} = {j. j < n \<and> ds_class d j = r}" for r
    using cl by auto
  then show "ds_ok n (snd (ds_find d i))"
    using assms(1) c m by (simp add: ds_ok_def) (simp add: ds_find_def Let_def)
qed

lemma ds_list_spec:
  assumes "ds_ok n d" "i < n"
  shows "set (fst (ds_list d i)) = {j. j < n \<and> ds_class d j = ds_class d i}"
    and "distinct (fst (ds_list d i))" and "snd (ds_list d i) = snd (ds_find d i)"
  using ds_find_spec[OF assms] assms(1) ds_class_less[OF assms]
  by (auto simp: ds_list_def ds_ok_def split_def)

lemma climb_link:
  assumes "forest p" "child < length p" "p ! child = child" "p ! root = root" "root < child"
    "j < length p"
  shows "climb (p[child := root]) j = (if climb p j = child then root else climb p j)"
  using assms(6)
proof (induction j rule: less_induct)
  case (less j)
  have root: "climb (p[child := root]) root = root"
    using assms climb_unfold[of "p[child := root]" root] by simp
  show ?case
  proof (cases "j = child")
    case True
    then show ?thesis
      using assms root climb_unfold[of "p[child := root]" child] climb_unfold[of p child] by simp
  next
    case ne: False
    show ?thesis
    proof (cases "p ! j = j")
      case True
      then show ?thesis
        using ne climb_unfold[of "p[child := root]" j] climb_unfold[of p j] by simp
    next
      case False
      then have "p ! j < j" using assms(1) less.prems by (simp add: forest_def le_neq_implies_less)
      then show ?thesis
        using less.IH[of "p ! j"] less.prems ne False climb_unfold[of "p[child := root]" j]
          climb_unfold[of p j] by simp
    qed
  qed
qed

lemma ds_union_spec:
  assumes "ds_ok n d" "i < n" "j < n"
  defines "a \<equiv> ds_class d i" and "b \<equiv> ds_class d j"
  shows "fst (ds_union d i j) = min a b" and "ds_ok n (snd (ds_union d i j))"
    and "\<forall>k < n. ds_class (snd (ds_union d i j)) k
           = (if ds_class d k = max a b then min a b else ds_class d k)"
proof -
  obtain d1 where d1: "ds_find d i = (a, d1)" "ds_ok n d1" "\<forall>k < n. ds_class d1 k = ds_class d k"
    "ds_members d1 = ds_members d"
    using ds_find_spec[OF assms(1,2)] a_def by (metis prod.collapse)
  obtain d2 where d2: "ds_find d1 j = (b, d2)" "ds_ok n d2" "\<forall>k < n. ds_class d2 k = ds_class d k"
    using ds_find_spec[OF d1(2) assms(3)] d1(3) b_def assms(3) by (metis prod.collapse)
  have u: "ds_union d i j = (if a = b then (a, d2) else (min a b,
      d2\<lparr>ds_parent := (ds_parent d2)[max a b := min a b],
         ds_members := (ds_members d2)[min a b := ds_members d2 ! min a b @ ds_members d2 ! max a b,
                                       max a b := []]\<rparr>))"
    by (simp add: ds_union_def d1(1) d2(1) Let_def)
  show f: "fst (ds_union d i j) = min a b" by (simp add: u)
  have ab: "a < n" "b < n" using ds_class_less assms by auto
  show cl: "\<forall>k < n. ds_class (snd (ds_union d i j)) k
      = (if ds_class d k = max a b then min a b else ds_class d k)"
  proof (cases "a = b")
    case True
    then show ?thesis using d2(3) by (simp add: u)
  next
    case False
    have r: "ds_parent d2 ! a = a" "ds_parent d2 ! b = b"
      using d2(2,3) assms climb_root[of "ds_parent d2"] ds_ok_def ds_class_def
      by (metis)+
    then have "climb ((ds_parent d2)[max a b := min a b]) k
        = (if climb (ds_parent d2) k = max a b then min a b else climb (ds_parent d2) k)"
      if "k < n" for k
      using that d2(2) ab False by (intro climb_link) (auto simp: ds_ok_def max_def min_def)
    then show ?thesis using False d2(3) by (simp add: u ds_class_def)
  qed
  show "ds_ok n (snd (ds_union d i j))"
  proof (cases "a = b")
    case True
    then show ?thesis using d2(2) by (simp add: u)
  next
    case False
    let ?d = "snd (ds_union d i j)"
    have mem: "set (ds_members d2 ! r) = {k. k < n \<and> ds_class d k = r}"
      "distinct (ds_members d2 ! r)" if "r < n" for r
      using that d2(2,3) by (auto simp: ds_ok_def)
    have len: "length (ds_parent ?d) = n" "length (ds_members ?d) = n" "forest (ds_parent ?d)"
      using d2(2) False by (auto simp: u ds_ok_def intro!: forest_update)
    have nth: "ds_members ?d ! r = (if r = max a b then []
        else if r = min a b then ds_members d2 ! min a b @ ds_members d2 ! max a b
        else ds_members d2 ! r)" if "r < n" for r
      using that d2(2) ab False by (auto simp: u ds_ok_def nth_list_update)
    have lt: "min a b < n" "max a b < n" "min a b \<noteq> max a b" using ab False by auto
    define lo hi where "lo = min a b" and "hi = max a b"
    note fold = lo_def[symmetric] hi_def[symmetric]
    note cl' = cl[unfolded fold] and nth' = nth[unfolded fold] and lt' = lt[unfolded fold]
    have disj: "set (ds_members d2 ! lo) \<inter> set (ds_members d2 ! hi) = {}"
      using mem(1)[OF lt'(1)] mem(1)[OF lt'(2)] lt'(3) by auto
    have "distinct (ds_members ?d ! r)
        \<and> set (ds_members ?d ! r) = {k. k < n \<and> ds_class ?d k = r}" if r: "r < n" for r
    proof -
      consider "r = hi" | "r = lo" "r \<noteq> hi" | "r \<noteq> lo" "r \<noteq> hi" by blast
      then show ?thesis
      proof cases
        case 1
        then have "ds_members ?d ! r = []" using nth'[OF r] by simp
        moreover have "{k. k < n \<and> ds_class ?d k = r} = {}" using cl' 1 lt'(3) by auto
        ultimately show ?thesis by simp
      next
        case 2
        then have "ds_members ?d ! r = ds_members d2 ! lo @ ds_members d2 ! hi"
          using nth'[OF r] by simp
        moreover have "{k. k < n \<and> ds_class ?d k = r}
            = {k. k < n \<and> ds_class d k = lo} \<union> {k. k < n \<and> ds_class d k = hi}"
          using cl' 2 by auto
        ultimately show ?thesis using mem[OF lt'(1)] mem[OF lt'(2)] disj by simp
      next
        case 3
        then have "ds_members ?d ! r = ds_members d2 ! r" using nth'[OF r] by simp
        moreover have "{k. k < n \<and> ds_class ?d k = r} = {k. k < n \<and> ds_class d k = r}"
          using cl' 3 by auto
        ultimately show ?thesis using mem[OF r] by simp
      qed
    qed
    then show ?thesis using len by (simp add: ds_ok_def)
  qed
qed

text \<open>
  The contract as an interface: classes are the kernel of a function, \<open>find\<close> is invisible and
  \<open>union\<close> identifies two classes.
\<close>

locale partition_store =
  fixes ok :: "'d \<Rightarrow> bool" and cls :: "'d \<Rightarrow> nat \<Rightarrow> nat" and dom_of :: "nat set"
    and find_op :: "'d \<Rightarrow> nat \<Rightarrow> nat \<times> 'd" and union_op :: "'d \<Rightarrow> nat \<Rightarrow> nat \<Rightarrow> nat \<times> 'd"
  assumes find_value: "ok d \<Longrightarrow> i \<in> dom_of \<Longrightarrow> fst (find_op d i) = cls d i"
    and find_ok: "ok d \<Longrightarrow> i \<in> dom_of \<Longrightarrow> ok (snd (find_op d i))"
    and find_same: "ok d \<Longrightarrow> i \<in> dom_of \<Longrightarrow> j \<in> dom_of \<Longrightarrow> cls (snd (find_op d i)) j = cls d j"
    and union_ok: "ok d \<Longrightarrow> i \<in> dom_of \<Longrightarrow> j \<in> dom_of \<Longrightarrow> ok (snd (union_op d i j))"
    and union_same: "ok d \<Longrightarrow> i \<in> dom_of \<Longrightarrow> j \<in> dom_of \<Longrightarrow> k \<in> dom_of \<Longrightarrow> l \<in> dom_of \<Longrightarrow>
      cls (snd (union_op d i j)) k = cls (snd (union_op d i j)) l \<longleftrightarrow>
        cls d k = cls d l \<or> (cls d k = cls d i \<and> cls d l = cls d j)
        \<or> (cls d k = cls d j \<and> cls d l = cls d i)"
begin

lemma union_joins:
  "ok d \<Longrightarrow> i \<in> dom_of \<Longrightarrow> j \<in> dom_of \<Longrightarrow>
     cls (snd (union_op d i j)) i = cls (snd (union_op d i j)) j"
  by (simp add: union_same)

lemma union_keeps:
  "ok d \<Longrightarrow> i \<in> dom_of \<Longrightarrow> j \<in> dom_of \<Longrightarrow> k \<in> dom_of \<Longrightarrow> l \<in> dom_of \<Longrightarrow> cls d k = cls d l \<Longrightarrow>
     cls (snd (union_op d i j)) k = cls (snd (union_op d i j)) l"
  by (simp add: union_same)

end

lemma merged_eq_iff:
  "(if k = max a b then min a b else k) = (if l = max a b then min a b else l) \<longleftrightarrow>
     k = l \<or> (k = a \<and> l = b) \<or> (k = b \<and> l = a)" for a :: nat
  by (auto simp: max_def min_def)

interpretation ds: partition_store "ds_ok n" ds_class "{i. i < n}" ds_find ds_union for n
proof
  fix d :: disjoint_set and i j k l
  assume a: "ds_ok n d" and i: "i \<in> {i. i < n}"
  show "fst (ds_find d i) = ds_class d i" "ds_ok n (snd (ds_find d i))"
    using ds_find_spec a i by auto
  assume j: "j \<in> {i. i < n}"
  show "ds_class (snd (ds_find d i)) j = ds_class d j" using ds_find_spec a i j by auto
  show "ds_ok n (snd (ds_union d i j))" using ds_union_spec a i j by auto
  assume "k \<in> {i. i < n}" "l \<in> {i. i < n}"
  then show "ds_class (snd (ds_union d i j)) k = ds_class (snd (ds_union d i j)) l \<longleftrightarrow>
        ds_class d k = ds_class d l \<or> (ds_class d k = ds_class d i \<and> ds_class d l = ds_class d j)
        \<or> (ds_class d k = ds_class d j \<and> ds_class d l = ds_class d i)"
    using ds_union_spec(3)[OF a, of i j] i j by (simp add: merged_eq_iff)
qed

section \<open>The classes as lists\<close>

text \<open>The members of every root, in index order, by first member.\<close>

definition component_lists :: "nat \<Rightarrow> disjoint_set \<Rightarrow> nat list list" where
  "component_lists n sets =
     vals (fst (fold (\<lambda>i (m, s). let (r, s1) = ds_find s i in (push_at r i m, s1))
       [0..<n] ([], sets)))"

lemma component_lists_eq:
  assumes "ds_ok n s"
  shows "component_lists n s = vals (group_by (ds_class s) [0..<n])"
proof -
  define F where "F = (\<lambda>i (m, s). let (r, s1) = ds_find s i in (push_at r i m, s1))"
  have F: "F i (m, t) = (push_at (fst (ds_find t i)) i m, snd (ds_find t i))" for i m t
    by (simp add: F_def split_def Let_def)
  have "fst (fold F is (m, t)) = fold (\<lambda>i. push_at (ds_class s i) i) is m"
    if "ds_ok n t" "\<forall>i < n. ds_class t i = ds_class s i" "\<forall>i \<in> set is. i < n" for "is" m t
    using that
  proof (induction "is" arbitrary: m t)
    case (Cons i "is")
    have i: "i < n" using Cons.prems(3) by simp
    note f = ds_find_spec[OF Cons.prems(1) i]
    have "fst (fold F is (push_at (ds_class s i) i m, snd (ds_find t i)))
      = fold (\<lambda>i. push_at (ds_class s i) i) is (push_at (ds_class s i) i m)"
      using f(2,3) Cons.prems by (intro Cons.IH) auto
    then show ?case using f(1) Cons.prems(2) i by (simp add: F)
  qed simp
  from this[of s "[0..<n]" "[]"] assms show ?thesis
    by (simp add: component_lists_def group_by_def F_def)
qed

lemma component_lists_member:
  assumes "ds_ok n s"
  shows "c \<in> set (component_lists n s) \<longleftrightarrow>
    (\<exists>r. c = filter (\<lambda>i. ds_class s i = r) [0..<n] \<and> c \<noteq> [])"
proof -
  have "c \<in> set (component_lists n s) \<longleftrightarrow> (\<exists>r. (r, c) \<in> set (group_by (ds_class s) [0..<n]))"
    by (force simp: component_lists_eq[OF assms])
  then show ?thesis by (simp add: group_by_member)
qed

lemma component_lists_cover:
  assumes "ds_ok n s" "i < n"
  shows "\<exists>c \<in> set (component_lists n s). i \<in> set c"
proof -
  have "i \<in> set (filter (\<lambda>j. ds_class s j = ds_class s i) [0..<n])" using assms(2) by simp
  moreover from this have "filter (\<lambda>j. ds_class s j = ds_class s i) [0..<n] \<noteq> []"
    by (metis empty_iff empty_set)
  ultimately show ?thesis using component_lists_member[OF assms(1)] by blast
qed

lemma component_lists_same:
  assumes "ds_ok n s" "c \<in> set (component_lists n s)" "i \<in> set c" "j \<in> set c"
  shows "i < n" "j < n" "ds_class s i = ds_class s j"
  using assms component_lists_member[OF assms(1), of c] by auto

lemma component_lists_disjoint:
  assumes "ds_ok n s" "c \<in> set (component_lists n s)" "d \<in> set (component_lists n s)"
    "i \<in> set c" "i \<in> set d"
  shows "c = d"
proof -
  obtain r q where c: "c = filter (\<lambda>i. ds_class s i = r) [0..<n]"
    and d: "d = filter (\<lambda>i. ds_class s i = q) [0..<n]"
    using assms(2,3) component_lists_member[OF assms(1)] by auto
  then have "r = q" using assms(4,5) by simp
  then show ?thesis using c d by simp
qed

lemma distinct_component_lists:
  assumes "ds_ok n s"
  shows "distinct (concat (component_lists n s))" and "set (concat (component_lists n s)) = {0..<n}"
proof -
  let ?g = "group_by (ds_class s) [0..<n]"
  have mem: "ds_class s i = fst a" if "a \<in> set ?g" "i \<in> set (snd a)" for a i
  proof -
    obtain k ys where a: "a = (k, ys)" by fastforce
    then have "ys = filter (\<lambda>x. ds_class s x = k) [0..<n]" using that(1) group_by_member by metis
    then show ?thesis using that(2) a by simp
  qed
  have ne: "snd a \<noteq> []" if "a \<in> set ?g" for a
    using that group_by_member[of "fst a" "snd a" "ds_class s" "[0..<n]"] by (metis prod.collapse)
  have "inj_on snd (set ?g)"
  proof (rule inj_onI)
    fix a b
    assume ab: "a \<in> set ?g" "b \<in> set ?g" "snd a = snd b"
    then have "fst a = fst b" using mem[OF ab(1)] mem[OF ab(2)] ne[OF ab(1)] by (metis hd_in_set)
    then show "a = b" using ab(3) by (simp add: prod_eq_iff)
  qed
  moreover have "distinct ?g" using distinct_group_by distinct_map by blast
  ultimately have dv: "distinct (component_lists n s)"
    by (simp add: distinct_map component_lists_eq[OF assms])
  have dc: "distinct c" if "c \<in> set (component_lists n s)" for c
    using that component_lists_member[OF assms] by auto
  have dd: "set c \<inter> set d = {}" if "c \<in> set (component_lists n s)" "d \<in> set (component_lists n s)" "c \<noteq> d" for c d
    using component_lists_disjoint[OF assms that(1,2)] that(3) by blast
  show "distinct (concat (component_lists n s))"
    by (rule distinct_concat) (use dv dc dd in auto)
  show "set (concat (component_lists n s)) = {0..<n}"
    using component_lists_cover[OF assms] component_lists_same(1)[OF assms] by fastforce
qed

end
