(* ===== verification/Venues.thy ===== *)
theory Venues
  imports Seeds Disjoint
begin

text \<open>
  \<open>resolveVenues\<close> of \<open>collector/identity/resolve.ts\<close>: evidence edges between listings, and the
  union of their components unless two members state conflicting locations.
\<close>

section \<open>Listings\<close>

definition listing_title_key :: "platform \<Rightarrow> identity_listing \<Rightarrow> normalized_title" where
  "listing_title_key P l =
     normalize_title_key P (strip_venue_title_prefix P (il_title l) (vn_name (il_venue l)))
       (il_category l)"

definition city_key :: "platform \<Rightarrow> identity_listing \<Rightarrow> jstr" where
  "city_key P l =
     normalize_identity_text P
       (case il_city l of Some c \<Rightarrow> if c \<noteq> [] then c else tr ''~Istanbul'' | None \<Rightarrow> tr ''~Istanbul'')"

definition europe_districts :: "jstr list" where
  "europe_districts = map u [
     ''arnavutkoy'', ''avcilar'', ''bagcilar'', ''bahcelievler'', ''bakirkoy'', ''basaksehir'',
     ''bayrampasa'', ''besiktas'', ''beylikduzu'', ''beyoglu'', ''buyukcekmece'', ''catalca'',
     ''esenler'', ''esenyurt'', ''eyupsultan'', ''fatih'', ''gaziosmanpasa'', ''gungoren'',
     ''kagithane'', ''kucukcekmece'', ''sariyer'', ''silivri'', ''sultangazi'', ''sisli'',
     ''zeytinburnu'']"

definition district_scope :: "platform \<Rightarrow> jstr \<Rightarrow> jstr" where
  "district_scope P v =
     (let district = normalize_identity_text P v in
      if district = [] then []
      else if district = u ''istanbul anadolu'' \<or> district \<in> set asia_districts
      then u ''asia:'' @ district
      else if district = u ''istanbul avrupa'' \<or> district \<in> set europe_districts
      then u ''europe:'' @ district
      else u ''district:'' @ district)"

definition listing_district_scope :: "platform \<Rightarrow> identity_listing \<Rightarrow> jstr" where
  "listing_district_scope P l =
     district_scope P
       (normalize_district_key P (vn_district (il_venue l)) (vn_address (il_venue l)))"

definition usable_istanbul_geo :: "venue_geo \<Rightarrow> bool" where
  "usable_istanbul_geo g \<longleftrightarrow>
     407 / 10 \<le> geo_lat g \<and> geo_lat g \<le> 417 / 10
     \<and> 279 / 10 \<le> geo_lon g \<and> geo_lon g \<le> 2995 / 100"

text \<open>\<open>Math.PI\<close> is this dyadic rational; the arithmetic on it is exact here.\<close>

definition radians :: rat where
  "radians = 884279719003555 / 281474976710656 / 180"

definition distance_metres :: "platform \<Rightarrow> venue_geo \<Rightarrow> venue_geo \<Rightarrow> rat" where
  "distance_metres P a b =
     (let lat = (geo_lat a + geo_lat b) / 2 * radians;
          x = (geo_lon b - geo_lon a) * radians * pl_cos P lat;
          y = (geo_lat b - geo_lat a) * radians
      in pl_sqrt P (x * x + y * y) * 6371000)"

lemma distance_sym: "distance_metres P a b = distance_metres P b a"
proof -
  have lon: "(geo_lon b - geo_lon a) * radians * c = - ((geo_lon a - geo_lon b) * radians * c)"
    for c by (simp add: algebra_simps)
  have lat: "(geo_lat b - geo_lat a) * radians = - ((geo_lat a - geo_lat b) * radians)"
    by (simp add: algebra_simps)
  show ?thesis
    unfolding distance_metres_def Let_def lon lat minus_mult_minus by (simp only: add.commute)
qed

section \<open>Edges\<close>

record venue_edge =
  ve_left :: nat
  ve_right :: nat
  ve_priority :: nat
  ve_evidence :: jstr

type_synonym edge_map = "((nat \<times> nat) \<times> venue_edge) list"

definition add_edge :: "nat \<Rightarrow> nat \<Rightarrow> nat \<Rightarrow> jstr \<Rightarrow> edge_map \<Rightarrow> edge_map" where
  "add_edge left right priority evidence m =
     (let (l, r) = (if left > right then (right, left) else (left, right));
          e = \<lparr>ve_left = l, ve_right = r, ve_priority = priority, ve_evidence = evidence\<rparr>
      in case map_of m (l, r) of
           Some current \<Rightarrow> if priority < ve_priority current then AList.update (l, r) e m else m
         | None \<Rightarrow> AList.update (l, r) e m)"

text \<open>Indexes grouped by a key that may be absent.\<close>

definition bucket_by :: "(nat \<Rightarrow> 'k option) \<Rightarrow> nat list \<Rightarrow> ('k \<times> nat list) list" where
  "bucket_by f is = fold (\<lambda>i m. case f i of Some k \<Rightarrow> push_at k i m | None \<Rightarrow> m) is []"

text \<open>Each element with all those after it, in the order of the two nested loops.\<close>

fun pairs_of :: "'a list \<Rightarrow> ('a \<times> 'a) list" where
  "pairs_of [] = []"
| "pairs_of (x # xs) = map (\<lambda>y. (x, y)) xs @ pairs_of xs"

definition provider_venue_key :: "platform \<Rightarrow> identity_listing \<Rightarrow> jstr option" where
  "provider_venue_key P l =
     (let providerVenueId = trim (or_empty (vn_providerVenueId (il_venue l))) in
      if providerVenueId \<noteq> []
      then Some (city_key P l @ [31] @ il_provider l @ [31] @ providerVenueId) else None)"

definition provider_edges :: "platform \<Rightarrow> identity_listing list \<Rightarrow> edge_map \<Rightarrow> edge_map" where
  "provider_edges P ls m =
     fold (\<lambda>is m. fold (\<lambda>i. add_edge (hd is) i 0
              (u ''provider-venue-id:'' @ il_provider (ls ! i) @ u '':''
                @ or_empty (vn_providerVenueId (il_venue (ls ! i))))) (tl is) m)
       (vals (bucket_by (\<lambda>i. provider_venue_key P (ls ! i)) [0..<length ls])) m"

definition seed_edges ::
  "platform \<Rightarrow> identity_listing list \<Rightarrow> location_evidence list \<Rightarrow> jstr option list \<Rightarrow> edge_map
     \<Rightarrow> edge_map" where
  "seed_edges P ls evidence seeds m =
     fold (\<lambda>is m. fold (\<lambda>(l, r) m.
              if location_conflict (evidence ! l) (evidence ! r) then m
              else add_edge l r 1 (u ''manual-venue-seed:'' @ or_empty (seeds ! l)) m)
            (pairs_of is) m)
       (vals (bucket_by (\<lambda>i. map_option (\<lambda>s. city_key P (ls ! i) @ [31] @ s) (seeds ! i))
               [0..<length ls])) m"

definition geo_cell :: "venue_geo \<Rightarrow> int \<times> int" where
  "geo_cell g = (\<lfloor>geo_lat g * 1000\<rfloor>, \<lfloor>geo_lon g * 1000\<rfloor>)"

type_synonym cell_map = "((jstr \<times> int \<times> int) \<times> nat list) list"

definition geo_edges :: "platform \<Rightarrow> identity_listing list \<Rightarrow> edge_map \<Rightarrow> edge_map" where
  "geo_edges P ls m =
     snd (fold (\<lambda>i (cells :: cell_map, m).
       case vn_geo (il_venue (ls ! i)) of
         None \<Rightarrow> (cells, m)
       | Some g \<Rightarrow>
           let (x, y) = geo_cell g; city = city_key P (ls ! i);
               near = concat (map (\<lambda>dx. concat (map (\<lambda>dy.
                        case map_of cells (city, x + dx, y + dy) of Some is \<Rightarrow> is | None \<Rightarrow> [])
                        [-1, 0, 1])) [-1, 0, 1]);
               tokens = venue_name_tokens P (vn_name (il_venue (ls ! i)))
           in (push_at (city, x, y) i cells,
               fold (\<lambda>j m. case vn_geo (il_venue (ls ! j)) of
                   None \<Rightarrow> m
                 | Some h \<Rightarrow>
                     if distance_metres P g h > 75 then m
                     else
                       let overlap = filter (\<lambda>t. t \<in> set tokens)
                                       (venue_name_tokens P (vn_name (il_venue (ls ! j))))
                       in if overlap \<noteq> []
                          then add_edge j i 3 (u ''geo-name-overlap:'' @ join (u '','') (sort overlap)) m
                          else m) near m))
       [0..<length ls] ([], m))"

definition compact_edges :: "platform \<Rightarrow> identity_listing list \<Rightarrow> edge_map \<Rightarrow> edge_map" where
  "compact_edges P ls m =
     fold (\<lambda>is m.
         let compact = compact_identity_key P (vn_name (il_venue (ls ! hd is)));
             reason = u ''compact-name:'' @ compact
         in fold (\<lambda>k m. add_edge (is ! (k - 1)) (is ! k) 2 reason
                        (add_edge (hd is) (is ! k) 2 reason m)) [1..<length is] m)
       (vals (bucket_by (\<lambda>i. let compact = compact_identity_key P (vn_name (il_venue (ls ! i))) in
                  if compact \<noteq> [] then Some (city_key P (ls ! i) @ [31] @ compact) else None)
               [0..<length ls])) m"

text \<open>Groups of equal distinctive names.\<close>

record name_group =
  ng_city :: jstr
  ng_key :: jstr
  ng_tokens :: "jstr list"
  ng_indexes :: "nat list"

definition name_groups :: "platform \<Rightarrow> identity_listing list \<Rightarrow> name_group list" where
  "name_groups P ls =
     vals (fold (\<lambda>i m.
       let tokens = distinctive_venue_tokens P (vn_name (il_venue (ls ! i)));
           key = concat (sort tokens); city = city_key P (ls ! i)
       in if length key < 3 \<or> list_all is_weak_venue_token tokens then m
          else case map_of m (city, key) of
                 Some g \<Rightarrow> AList.update (city, key) (g\<lparr>ng_indexes := ng_indexes g @ [i]\<rparr>) m
               | None \<Rightarrow> AList.update (city, key)
                   \<lparr>ng_city = city, ng_key = key, ng_tokens = remdups tokens, ng_indexes = [i]\<rparr> m)
       [0..<length ls] [])"

definition link_all :: "nat list \<Rightarrow> nat list \<Rightarrow> nat \<Rightarrow> jstr \<Rightarrow> edge_map \<Rightarrow> edge_map" where
  "link_all left right priority reason m =
     (if length left * length right > 4096
      then fold (\<lambda>i. add_edge i (hd right) priority reason) left
             (fold (\<lambda>k. add_edge (right ! (k - 1)) (right ! k) priority reason)
               [1..<length right] m)
      else fold (\<lambda>a m. fold (\<lambda>b m. if a \<noteq> b then add_edge a b priority reason m else m) right m)
             left m)"

definition identifying_token :: "jstr \<Rightarrow> bool" where
  "identifying_token t \<longleftrightarrow> length t \<ge> 3 \<and> \<not> is_weak_venue_token t"

definition name_extensions :: "name_group list \<Rightarrow> name_group \<Rightarrow> name_group list" where
  "name_extensions gs g =
     filter (\<lambda>other.
         ng_city other = ng_city g
         \<and> length (ng_tokens other) = length (ng_tokens g) + 1
         \<and> list_all (\<lambda>t. t \<in> set (ng_tokens other)) (ng_tokens g)
         \<and> (length (filter identifying_token (ng_tokens g)) < 2
            \<or> list_all (\<lambda>t. t \<in> set (ng_tokens g) \<or> \<not> identifying_token t) (ng_tokens other)))
       gs"

definition name_edges :: "platform \<Rightarrow> identity_listing list \<Rightarrow> edge_map \<Rightarrow> edge_map" where
  "name_edges P ls m =
     (let gs = name_groups P ls in
      fold (\<lambda>g m.
        let m1 = link_all (ng_indexes g) (ng_indexes g) 4 (u ''distinctive-name:'' @ ng_key g) m
        in if list_ex identifying_token (ng_tokens g)
           then (case name_extensions gs g of
                   [e] \<Rightarrow> link_all (ng_indexes g) (ng_indexes e) 5
                            (u ''distinctive-name-extension:'' @ ng_key g @ u ''>'' @ ng_key e) m1
                 | _ \<Rightarrow> m1)
           else m1) gs m)"

definition edge_order :: "venue_edge \<Rightarrow> venue_edge \<Rightarrow> int" where
  "edge_order a b =
     cmp_or (cmp_int (ve_priority a) (ve_priority b))
       (cmp_or (cmp_int (ve_left a) (ve_left b)) (cmp_int (ve_right a) (ve_right b)))"

definition venue_edges ::
  "platform \<Rightarrow> identity_listing list \<Rightarrow> location_evidence list \<Rightarrow> jstr option list
     \<Rightarrow> venue_edge list" where
  "venue_edges P ls evidence seeds =
     sort_by edge_order (vals
       (name_edges P ls (compact_edges P ls (geo_edges P ls
         (seed_edges P ls evidence seeds (provider_edges P ls []))))))"

section \<open>Components\<close>

text \<open>The three ways in which two listings cannot be at one venue.\<close>

definition provider_id_conflict :: "identity_listing \<Rightarrow> identity_listing \<Rightarrow> bool" where
  "provider_id_conflict l r \<longleftrightarrow>
     il_provider l = il_provider r
     \<and> or_empty (vn_providerVenueId (il_venue l)) \<noteq> []
     \<and> or_empty (vn_providerVenueId (il_venue r)) \<noteq> []
     \<and> vn_providerVenueId (il_venue l) \<noteq> vn_providerVenueId (il_venue r)"

definition geo_conflict :: "platform \<Rightarrow> identity_listing \<Rightarrow> identity_listing \<Rightarrow> bool" where
  "geo_conflict P l r =
     (case (vn_geo (il_venue l), vn_geo (il_venue r)) of
        (Some g, Some h) \<Rightarrow> distance_metres P g h > 1000 | _ \<Rightarrow> False)"

definition venue_conflict :: "platform \<Rightarrow> identity_listing \<Rightarrow> identity_listing \<Rightarrow> bool" where
  "venue_conflict P l r \<longleftrightarrow>
     location_conflict (venue_location_evidence P (il_venue l)) (venue_location_evidence P (il_venue r))
     \<or> geo_conflict P l r \<or> provider_id_conflict l r"

lemma venue_conflict_sym: "venue_conflict P l r \<longleftrightarrow> venue_conflict P r l"
  by (auto simp: venue_conflict_def location_conflict_sym geo_conflict_def provider_id_conflict_def
      distance_sym split: option.splits)

text \<open>
  What the conflicts of a listing depend on: the code renders it as JSON and keeps one listing
  per rendering in each component.
\<close>

type_synonym conflict_key =
  "jstr list \<times> shore list \<times> (rat \<times> rat) option \<times> jstr \<times> jstr option"

definition conflict_key :: "platform \<Rightarrow> identity_listing \<Rightarrow> conflict_key" where
  "conflict_key P l =
     (le_districts (venue_location_evidence P (il_venue l)),
      le_sides (venue_location_evidence P (il_venue l)),
      map_option (\<lambda>g. (geo_lat g, geo_lon g)) (vn_geo (il_venue l)),
      il_provider l, vn_providerVenueId (il_venue l))"

type_synonym representatives = "(conflict_key \<times> nat) list list"

definition merge_representatives :: "representatives \<Rightarrow> nat \<Rightarrow> nat \<Rightarrow> representatives" where
  "merge_representatives reps kept other =
     reps[kept := fold (\<lambda>(k, i) m. if map_of m k = None then AList.update k i m else m)
                    (reps ! other) (reps ! kept),
          other := []]"

definition join_edge ::
  "platform \<Rightarrow> identity_listing list \<Rightarrow> venue_edge \<Rightarrow> disjoint_set \<times> representatives
     \<Rightarrow> disjoint_set \<times> representatives" where
  "join_edge P ls e = (\<lambda>(sets, reps).
     let (leftRoot, s1) = ds_find sets (ve_left e);
         (rightRoot, s2) = ds_find s1 (ve_right e)
     in if leftRoot = rightRoot then (s2, reps)
        else if list_ex (\<lambda>i. list_ex (\<lambda>j. venue_conflict P (ls ! i) (ls ! j))
                  (vals (reps ! rightRoot))) (vals (reps ! leftRoot))
        then (s2, reps)
        else
          let (kept, s3) = ds_union s2 (ve_left e) (ve_right e);
              other = (if kept = leftRoot then rightRoot else leftRoot)
          in (s3, merge_representatives reps kept other))"

definition venue_components ::
  "platform \<Rightarrow> identity_listing list \<Rightarrow> venue_edge list \<Rightarrow> disjoint_set \<times> representatives" where
  "venue_components P ls edges =
     fold (join_edge P ls) edges
       (ds_new (length ls), map (\<lambda>i. [(conflict_key P (ls ! i), i)]) [0..<length ls])"

section \<open>Venue records\<close>

record resolved_venue =
  rv_id :: jstr
  rv_canonicalName :: jstr
  rv_listingIds :: "jstr list"
  rv_evidence :: "jstr list"

record venue_draft =
  vd_anchor :: jstr
  vd_disambiguator :: jstr
  vd_canonicalName :: jstr
  vd_listingIds :: "jstr list"
  vd_evidence :: "jstr list"

definition first_some :: "'a option list \<Rightarrow> 'a \<Rightarrow> 'a" where
  "first_some os d = (case List.map_filter (\<lambda>x. x) os of x # xs \<Rightarrow> x | [] \<Rightarrow> d)"

definition head_option :: "'a list \<Rightarrow> 'a option" where
  "head_option xs = (case xs of x # ys \<Rightarrow> Some x | [] \<Rightarrow> None)"

definition draft_venue ::
  "platform \<Rightarrow> identity_listing list \<Rightarrow> jstr option list \<Rightarrow> venue_edge list \<Rightarrow> nat list
     \<Rightarrow> venue_draft" where
  "draft_venue P ls seedsOf edges indexes =
     (let members = map ((!) ls) indexes;
          seeds = sort (remdups (List.map_filter (\<lambda>i. seedsOf ! i) indexes));
          canonicalName = vn_name (il_venue (hd (sort_by (\<lambda>a b.
            cmp_or (pl_collate_tr P (normalize_identity_text P (vn_name (il_venue a)))
                                    (normalize_identity_text P (vn_name (il_venue b))))
              (cmp_or (pl_collate_tr P (vn_name (il_venue a)) (vn_name (il_venue b)))
                (pl_collate P (il_listingId a) (il_listingId b)))) members)));
          compactKeys = sort (remdups (filter (\<lambda>k. k \<noteq> [])
            (map (\<lambda>m. compact_identity_key P (vn_name (il_venue m))) members)));
          districtScopes = sort (remdups (filter (\<lambda>s. s \<noteq> []) (map (listing_district_scope P) members)));
          precise = filter (\<lambda>s. \<not> ends_with s (u '':istanbul anadolu'')
                               \<and> \<not> ends_with s (u '':istanbul avrupa'')) districtScopes;
          providerVenueIds = sort (remdups (map
            (\<lambda>m. il_provider m @ u '':'' @ or_empty (vn_providerVenueId (il_venue m)))
            (filter (\<lambda>m. or_empty (vn_providerVenueId (il_venue m)) \<noteq> []) members)));
          geos = List.map_filter (\<lambda>m. vn_geo (il_venue m)) members;
          geoText = (\<lambda>g. u ''geo:'' @ pl_fixed4 P (geo_lat g) @ u '':'' @ pl_fixed4 P (geo_lon g));
          anchor = first_some [
            head_option seeds,
            (if length compactKeys = 1 \<and> districtScopes \<noteq> []
             then Some (u ''compact:'' @ hd compactKeys @ u '':''
                        @ (if precise \<noteq> [] then hd precise else hd districtScopes)) else None),
            head_option providerVenueIds,
            (case geos of g # gs \<Rightarrow> Some (geoText g @ u '':''
                @ (case compactKeys of k # ks \<Rightarrow> k | [] \<Rightarrow> u ''undefined'')) | [] \<Rightarrow> None)]
            (u ''isolated:'' @ il_listingId (hd members));
          evidence = sort (map ve_evidence
            (filter (\<lambda>e. ve_left e \<in> set indexes \<and> ve_right e \<in> set indexes) edges));
          listingIds = sort (map il_listingId members);
          disambiguator = first_some [
            map_option geoText (head_option geos), head_option providerVenueIds, head_option precise]
            (u ''listing:'' @ hd listingIds)
      in \<lparr>vd_anchor = anchor, vd_disambiguator = disambiguator, vd_canonicalName = canonicalName,
          vd_listingIds = listingIds, vd_evidence = evidence\<rparr>)"

definition venue_of_draft :: "platform \<Rightarrow> venue_draft list \<Rightarrow> venue_draft \<Rightarrow> resolved_venue" where
  "venue_of_draft P drafts d =
     \<lparr>rv_id = identity_hash P ''venue.v1''
        (if length (filter (\<lambda>e. vd_anchor e = vd_anchor d) drafts) = 1 then JStr (vd_anchor d)
         else JArr [JStr (vd_anchor d), JStr (vd_disambiguator d)]),
      rv_canonicalName = vd_canonicalName d, rv_listingIds = vd_listingIds d,
      rv_evidence = vd_evidence d\<rparr>"

record venue_resolution =
  vr_venues :: "resolved_venue list"
  vr_listingVenueIds :: "(jstr \<times> jstr) list"
  vr_seeds :: "(jstr \<times> jstr option) list"

definition resolve_venues :: "platform \<Rightarrow> identity_listing list \<Rightarrow> venue_resolution" where
  "resolve_venues P ls =
     (let evidence = map (\<lambda>l. venue_location_evidence P (il_venue l)) ls;
          seeds = map (venue_seed_identity P) ls;
          edges = venue_edges P ls evidence seeds;
          components = component_lists (length ls) (fst (venue_components P ls edges));
          drafts = map (draft_venue P ls seeds edges) components;
          venues = map (venue_of_draft P drafts) drafts
      in \<lparr>vr_venues = sort_by (\<lambda>a b. pl_collate P (rv_id a) (rv_id b)) venues,
          vr_listingVenueIds =
            fold (\<lambda>v m. fold (\<lambda>i. AList.update i (rv_id v)) (rv_listingIds v) m) venues [],
          vr_seeds = fold (\<lambda>l. AList.update (il_listingId l) (venue_seed_identity P l)) ls []\<rparr>)"

section \<open>No venue holds conflicting listings\<close>

lemma conflict_key_determines:
  "conflict_key P l = conflict_key P l' \<Longrightarrow> conflict_key P r = conflict_key P r' \<Longrightarrow>
     venue_conflict P l r = venue_conflict P l' r'"
proof -
  have key: "location_conflict (venue_location_evidence P (il_venue a)) e
      = location_conflict (venue_location_evidence P (il_venue b)) e"
    "geo_conflict P a c = geo_conflict P b c" "provider_id_conflict a c = provider_id_conflict b c"
    if k: "conflict_key P a = conflict_key P b" for a b c e
  proof -
    have "map_option (\<lambda>g. (geo_lat g, geo_lon g)) (vn_geo (il_venue a))
        = map_option (\<lambda>g. (geo_lat g, geo_lon g)) (vn_geo (il_venue b))"
      using k by (simp add: conflict_key_def)
    then have geo: "vn_geo (il_venue a) = vn_geo (il_venue b)"
      by (cases "vn_geo (il_venue a)"; cases "vn_geo (il_venue b)") auto
    show "location_conflict (venue_location_evidence P (il_venue a)) e
      = location_conflict (venue_location_evidence P (il_venue b)) e"
      "geo_conflict P a c = geo_conflict P b c" "provider_id_conflict a c = provider_id_conflict b c"
      using k geo
      by (simp_all add: conflict_key_def location_conflict_def geo_conflict_def provider_id_conflict_def)
  qed
  have left: "venue_conflict P a c = venue_conflict P b c" if "conflict_key P a = conflict_key P b" for a b c
    using key[OF that] by (simp add: venue_conflict_def)
  assume "conflict_key P l = conflict_key P l'" "conflict_key P r = conflict_key P r'"
  then show ?thesis using left venue_conflict_sym by metis
qed

text \<open>
  The invariant of the loop: the representatives of a root are members of its class, one for
  each conflict key of the class, and no two members of a class conflict.
\<close>

definition components_ok ::
  "platform \<Rightarrow> identity_listing list \<Rightarrow> disjoint_set \<times> representatives \<Rightarrow> bool" where
  "components_ok P ls st \<longleftrightarrow>
     ds_ok (length ls) (fst st) \<and> length (snd st) = length ls
     \<and> (\<forall>r < length ls. \<forall>(k, i) \<in> set (snd st ! r).
          k = conflict_key P (ls ! i) \<and> i < length ls \<and> ds_class (fst st) i = r)
     \<and> (\<forall>i < length ls.
          conflict_key P (ls ! i) \<in> fst ` set (snd st ! ds_class (fst st) i))
     \<and> (\<forall>i < length ls. \<forall>j < length ls. i \<noteq> j \<longrightarrow> ds_class (fst st) i = ds_class (fst st) j
          \<longrightarrow> \<not> venue_conflict P (ls ! i) (ls ! j))"

lemma components_ok_start:
  "components_ok P ls (ds_new (length ls), map (\<lambda>i. [(conflict_key P (ls ! i), i)]) [0..<length ls])"
  by (auto simp: components_ok_def ds_new_ok ds_new_class)

lemma components_ok_find:
  assumes "components_ok P ls (s, reps)" "i < length ls"
  shows "components_ok P ls (snd (ds_find s i), reps)"
proof -
  have "ds_ok (length ls) s" using assms by (simp add: components_ok_def)
  note f = ds_find_spec[OF this assms(2)]
  show ?thesis using assms(1) f(2,3) unfolding components_ok_def fst_conv snd_conv
    by (auto split: prod.splits)
qed

lemma merged_keys:
  fixes add old :: "('k \<times> 'v) list"
  defines "new \<equiv> fold (\<lambda>(k, i) m. if map_of m k = None then AList.update k i m else m) add old"
  shows "fst ` set new = fst ` set old \<union> fst ` set add" and "set new \<subseteq> set old \<union> set add"
proof -
  have "fst ` set (fold (\<lambda>(k, i) m. if map_of m k = None then AList.update k i m else m) add m)
      = fst ` set m \<union> fst ` set add
    \<and> set (fold (\<lambda>(k, i) m. if map_of m k = None then AList.update k i m else m) add m)
      \<subseteq> set m \<union> set add" for m
  proof (induction add arbitrary: m)
    case (Cons a as)
    obtain k i where a: "a = (k, i)" by fastforce
    show ?case
    proof (cases "map_of m k")
      case None
      then have "AList.update k i m = m @ [(k, i)]" by (rule update_append_fresh)
      then show ?thesis using Cons.IH[of "m @ [(k, i)]"] None a by auto
    next
      case (Some v)
      then have "k \<in> fst ` set m" by (force dest: map_of_SomeD)
      then show ?thesis using Cons.IH[of m] Some a by auto
    qed
  qed simp
  then show "fst ` set new = fst ` set old \<union> fst ` set add" "set new \<subseteq> set old \<union> set add"
    by (simp_all add: new_def)
qed

lemma join_edge_merge:
  assumes ok: "components_ok P ls (s, reps)" and i: "i < length ls" and j: "j < length ls"
    and ne: "ds_class s i \<noteq> ds_class s j"
    and free: "\<And>a b. a \<in> set (vals (reps ! ds_class s i)) \<Longrightarrow> b \<in> set (vals (reps ! ds_class s j)) \<Longrightarrow>
       \<not> venue_conflict P (ls ! a) (ls ! b)"
  shows "components_ok P ls (snd (ds_union s i j),
     merge_representatives reps (min (ds_class s i) (ds_class s j)) (max (ds_class s i) (ds_class s j)))"
proof -
  let ?n = "length ls" and ?s = "snd (ds_union s i j)"
  define lo hi where "lo = min (ds_class s i) (ds_class s j)"
    and "hi = max (ds_class s i) (ds_class s j)"
  let ?reps = "merge_representatives reps lo hi"
  have s: "ds_ok ?n s" and len: "length reps = ?n"
    and rep: "\<And>r k a. r < ?n \<Longrightarrow> (k, a) \<in> set (reps ! r) \<Longrightarrow>
        k = conflict_key P (ls ! a) \<and> a < ?n \<and> ds_class s a = r"
    and cov: "\<And>a. a < ?n \<Longrightarrow> conflict_key P (ls ! a) \<in> fst ` set (reps ! ds_class s a)"
    and nc: "\<And>a b. a < ?n \<Longrightarrow> b < ?n \<Longrightarrow> a \<noteq> b \<Longrightarrow> ds_class s a = ds_class s b \<Longrightarrow>
        \<not> venue_conflict P (ls ! a) (ls ! b)"
    using ok by (auto simp: components_ok_def)
  have lt: "lo < ?n" "hi < ?n" "lo \<noteq> hi"
    using ds_class_less[OF s i] ds_class_less[OF s j] ne by (auto simp: lo_def hi_def)
  note u = ds_union_spec(2,3)[OF s i j, folded lo_def hi_def]
  have cls: "\<And>k. k < ?n \<Longrightarrow> ds_class ?s k = (if ds_class s k = hi then lo else ds_class s k)"
    using u(2) by blast
  have rhi: "?reps ! hi = []" and roth: "\<And>r. r \<noteq> lo \<Longrightarrow> r \<noteq> hi \<Longrightarrow> ?reps ! r = reps ! r"
    using lt len by (auto simp: merge_representatives_def)
  have rlo: "fst ` set (?reps ! lo) = fst ` set (reps ! lo) \<union> fst ` set (reps ! hi)"
    "set (?reps ! lo) \<subseteq> set (reps ! lo) \<union> set (reps ! hi)"
    using lt len merged_keys[of "reps ! hi" "reps ! lo"]
    by (simp_all add: merge_representatives_def)
  have cross: "\<not> venue_conflict P (ls ! a) (ls ! b)"
    if a: "a < ?n" "ds_class s a = ds_class s i" and b: "b < ?n" "ds_class s b = ds_class s j" for a b
  proof -
    obtain a' where a': "(conflict_key P (ls ! a), a') \<in> set (reps ! ds_class s i)"
      using cov[OF a(1)] a(2) by force
    obtain b' where b': "(conflict_key P (ls ! b), b') \<in> set (reps ! ds_class s j)"
      using cov[OF b(1)] b(2) by force
    have "\<not> venue_conflict P (ls ! a') (ls ! b')" using a' b' by (intro free) force+
    moreover have "conflict_key P (ls ! a) = conflict_key P (ls ! a')"
      "conflict_key P (ls ! b) = conflict_key P (ls ! b')"
      using rep[OF ds_class_less[OF s i] a'] rep[OF ds_class_less[OF s j] b'] by simp_all
    ultimately show ?thesis using conflict_key_determines by blast
  qed
  have "k = conflict_key P (ls ! a) \<and> a < ?n \<and> ds_class ?s a = r"
    if r: "r < ?n" "(k, a) \<in> set (?reps ! r)" for r k a
  proof (cases "r = lo")
    case True
    then have "(k, a) \<in> set (reps ! lo) \<or> (k, a) \<in> set (reps ! hi)" using r(2) rlo(2) by blast
    then show ?thesis using rep[OF lt(1), of k a] rep[OF lt(2), of k a] cls[of a] True by auto
  next
    case False
    then have "r \<noteq> hi" using r(2) rhi by auto
    then show ?thesis using rep[OF r(1), of k a] r(2) roth[OF False] cls[of a] by auto
  qed
  moreover have "conflict_key P (ls ! a) \<in> fst ` set (?reps ! ds_class ?s a)" if a: "a < ?n" for a
    using cov[OF a] cls[OF a] rlo(1) roth[of "ds_class s a"] by (cases "ds_class s a = hi"; cases "ds_class s a = lo") auto
  moreover have "\<not> venue_conflict P (ls ! a) (ls ! b)"
    if ab: "a < ?n" "b < ?n" "a \<noteq> b" "ds_class ?s a = ds_class ?s b" for a b
  proof -
    have "ds_class s a = ds_class s b \<or> (ds_class s a = ds_class s i \<and> ds_class s b = ds_class s j)
        \<or> (ds_class s a = ds_class s j \<and> ds_class s b = ds_class s i)"
      using ab(4) unfolding cls[OF ab(1)] cls[OF ab(2)] lo_def hi_def merged_eq_iff .
    then show ?thesis
      using nc[OF ab(1,2,3)] cross ab(1,2) venue_conflict_sym[of P "ls ! a" "ls ! b"] by blast
  qed
  moreover have "length ?reps = ?n" using len by (simp add: merge_representatives_def)
  ultimately show ?thesis
    using u(1) unfolding components_ok_def fst_conv snd_conv lo_def[symmetric] hi_def[symmetric]
    by blast
qed

lemma join_edge_ok:
  assumes ok: "components_ok P ls st" and e: "ve_left e < length ls" "ve_right e < length ls"
  shows "components_ok P ls (join_edge P ls e st)"
proof -
  obtain s reps where st: "st = (s, reps)" by fastforce
  define s1 s2 where "s1 = snd (ds_find s (ve_left e))" and "s2 = snd (ds_find s1 (ve_right e))"
  have ok0: "components_ok P ls (s, reps)" using ok st by simp
  have ok1: "components_ok P ls (s1, reps)"
    using components_ok_find[OF ok0 e(1)] by (simp add: s1_def)
  have ok2: "components_ok P ls (s2, reps)"
    using components_ok_find[OF ok1 e(2)] by (simp add: s2_def)
  have d: "ds_ok (length ls) s" "ds_ok (length ls) s1" "ds_ok (length ls) s2"
    using ok0 ok1 ok2 by (simp_all add: components_ok_def)
  have l: "fst (ds_find s (ve_left e)) = ds_class s2 (ve_left e)"
    and r: "fst (ds_find s1 (ve_right e)) = ds_class s2 (ve_right e)"
    using ds_find_spec[OF d(1) e(1)] ds_find_spec[OF d(2) e(2)] e by (auto simp: s1_def s2_def)
  define a b where "a = ds_class s2 (ve_left e)" and "b = ds_class s2 (ve_right e)"
  have f: "ds_find s (ve_left e) = (a, s1)" "ds_find s1 (ve_right e) = (b, s2)"
    using l r by (simp_all add: a_def b_def s1_def s2_def prod_eq_iff)
  show ?thesis
  proof (cases "a = b \<or> list_ex (\<lambda>i. list_ex (\<lambda>j. venue_conflict P (ls ! i) (ls ! j))
      (vals (reps ! b))) (vals (reps ! a))")
    case True
    then have "join_edge P ls e st = (s2, reps)"
      by (auto simp: join_edge_def st f)
    then show ?thesis using ok2 by simp
  next
    case False
    obtain s3 where u: "ds_union s2 (ve_left e) (ve_right e) = (min a b, s3)"
      using ds_union_spec(1)[OF d(3) e] a_def b_def by (metis prod.collapse)
    have "(if min a b = a then b else a) = max a b" by (auto simp: min_def max_def)
    then have "join_edge P ls e st = (s3, merge_representatives reps (min a b) (max a b))"
      using False by (simp add: join_edge_def st f u)
    moreover have "components_ok P ls (snd (ds_union s2 (ve_left e) (ve_right e)),
        merge_representatives reps (min a b) (max a b))"
      unfolding a_def b_def
      by (rule join_edge_merge[OF ok2 e]) (use False in \<open>auto simp: a_def b_def list_ex_iff\<close>)
    ultimately show ?thesis by (simp add: u)
  qed
qed

lemma venue_components_ok:
  assumes "\<And>e. e \<in> set edges \<Longrightarrow> ve_left e < length ls \<and> ve_right e < length ls"
  shows "components_ok P ls (venue_components P ls edges)"
proof -
  have "components_ok P ls st \<Longrightarrow> components_ok P ls (fold (join_edge P ls) edges st)" for st
    using assms
  proof (induction edges arbitrary: st)
    case (Cons e edges)
    then show ?case using join_edge_ok[of P ls st e] by simp
  qed simp
  then show ?thesis unfolding venue_components_def using components_ok_start by blast
qed

section \<open>Every edge joins two listings\<close>

lemma fold_keeps:
  assumes "Q s" and "\<And>x s. x \<in> set xs \<Longrightarrow> Q s \<Longrightarrow> Q (f x s)"
  shows "Q (fold f xs s)"
  using assms by (induction xs arbitrary: s) auto

definition edges_within :: "nat \<Rightarrow> edge_map \<Rightarrow> bool" where
  "edges_within n m \<longleftrightarrow> (\<forall>e \<in> set (vals m). ve_left e < n \<and> ve_right e < n)"

lemma within_fold:
  "edges_within n m \<Longrightarrow> (\<And>x m. x \<in> set xs \<Longrightarrow> edges_within n m \<Longrightarrow> edges_within n (f x m)) \<Longrightarrow>
     edges_within n (fold f xs m)"
  by (rule fold_keeps)

lemma vals_update: "set (vals (AList.update k v m)) \<subseteq> insert v (set (vals m))"
  by (induction m) auto

lemma add_edge_within:
  "edges_within n m \<Longrightarrow> l < n \<Longrightarrow> r < n \<Longrightarrow> edges_within n (add_edge l r p e m)"
  using vals_update unfolding edges_within_def add_edge_def
  by (fastforce simp: Let_def split: option.splits if_splits)

lemma map_of_vals: "map_of m k = Some v \<Longrightarrow> v \<in> set (vals m)"
  by (induction m) (auto split: if_splits)

text \<open>Buckets hold indexes of the list they were made from.\<close>

definition indexes_within :: "nat set \<Rightarrow> ('k \<times> nat list) list \<Rightarrow> bool" where
  "indexes_within A m \<longleftrightarrow> (\<forall>ks \<in> set (vals m). set ks \<subseteq> A \<and> ks \<noteq> [])"

lemma push_at_within:
  assumes "indexes_within A m" "i \<in> A"
  shows "indexes_within A (push_at k i m)"
proof -
  have "set (case map_of m k of Some xs \<Rightarrow> xs | None \<Rightarrow> []) \<subseteq> A"
    using assms(1) map_of_vals[of m k] unfolding indexes_within_def by (cases "map_of m k") auto
  then have "set ((case map_of m k of Some xs \<Rightarrow> xs | None \<Rightarrow> []) @ [i]) \<subseteq> A
      \<and> (case map_of m k of Some xs \<Rightarrow> xs | None \<Rightarrow> []) @ [i] \<noteq> []"
    using assms(2) by simp
  then show ?thesis
    using assms(1) vals_update[of k "(case map_of m k of Some xs \<Rightarrow> xs | None \<Rightarrow> []) @ [i]" m]
    unfolding indexes_within_def push_at_update by blast
qed

lemma bucket_by_within: "indexes_within (set is) (bucket_by f is)"
  unfolding bucket_by_def
  by (rule fold_keeps) (auto simp: push_at_within indexes_within_def[of _ "[]"] split: option.split)

lemma bucket_index:
  assumes "ks \<in> set (vals (bucket_by f [0..<n]))"
  shows "i \<in> set ks \<Longrightarrow> i < n" and "hd ks < n"
proof -
  have "set ks \<subseteq> {0..<n} \<and> ks \<noteq> []"
    using bucket_by_within[of "[0..<n]" f] assms unfolding indexes_within_def set_upt by blast
  then show "i \<in> set ks \<Longrightarrow> i < n" "hd ks < n" by (auto dest: hd_in_set)
qed

lemma provider_edges_within:
  assumes "edges_within (length ls) m"
  shows "edges_within (length ls) (provider_edges P ls m)"
  unfolding provider_edges_def
proof (rule within_fold[OF assms], goal_cases)
  case (1 ks m)
  have "i < length ls" if "i \<in> set (tl ks)" for i
    using that bucket_index(1)[OF 1(1)] by (cases ks) auto
  then show ?case
    using bucket_index(2)[OF 1(1)] by (intro within_fold[OF 1(2)] add_edge_within)
qed

lemma pairs_of_set: "x \<in> set (pairs_of xs) \<Longrightarrow> fst x \<in> set xs \<and> snd x \<in> set xs"
  by (induction xs) auto

lemma seed_edges_within:
  assumes "edges_within (length ls) m"
  shows "edges_within (length ls) (seed_edges P ls ev seeds m)"
  unfolding seed_edges_def
proof (rule within_fold[OF assms], goal_cases)
  case (1 ks m)
  have "fst x < length ls \<and> snd x < length ls" if "x \<in> set (pairs_of ks)" for x
    using pairs_of_set[OF that] bucket_index(1)[OF 1(1)] by blast
  then show ?case
    by (intro within_fold[OF 1(2)]) (auto intro: add_edge_within split: prod.splits)
qed

lemma compact_edges_within:
  assumes "edges_within (length ls) m"
  shows "edges_within (length ls) (compact_edges P ls m)"
  unfolding compact_edges_def
proof (rule within_fold[OF assms], goal_cases)
  case (1 ks m)
  show ?case
    unfolding Let_def
    by (rule within_fold[OF 1(2)], intro add_edge_within)
       (use bucket_index[OF 1(1)] in auto)
qed

lemma link_all_within:
  assumes "edges_within n m" "\<forall>i \<in> set left. i < n" "\<forall>i \<in> set right. i < n"
  shows "edges_within n (link_all left right p e m)"
proof (cases "length left * length right > 4096")
  case True
  then have "right \<noteq> []" by auto
  then have "hd right < n" using assms(3) by simp
  moreover have "edges_within n (fold (\<lambda>k. add_edge (right ! (k - 1)) (right ! k) p e)
      [1..<length right] m)"
    by (rule within_fold[OF assms(1)], rule add_edge_within) (use assms(3) in auto)
  ultimately show ?thesis
    using True assms(2) within_fold[of n _ left] add_edge_within
    unfolding link_all_def by simp
next
  case False
  have "edges_within n (fold (\<lambda>b m. if a \<noteq> b then add_edge a b p e m else m) right m')"
    if "a < n" "edges_within n m'" for a m'
    by (rule within_fold[OF that(2)]) (use that(1) assms(3) in \<open>auto intro: add_edge_within\<close>)
  then show ?thesis
    using False assms(1,2) within_fold[of n m left] unfolding link_all_def by simp
qed

definition groups_within :: "nat \<Rightarrow> ((jstr \<times> jstr) \<times> name_group) list \<Rightarrow> bool" where
  "groups_within n m \<longleftrightarrow> (\<forall>g \<in> set (vals m). \<forall>i \<in> set (ng_indexes g). i < n)"

lemma groups_within_update:
  "groups_within n m \<Longrightarrow> \<forall>i \<in> set (ng_indexes g). i < n \<Longrightarrow> groups_within n (AList.update k g m)"
  using vals_update[of k g m] unfolding groups_within_def by blast

lemma groups_within_get:
  "groups_within n m \<Longrightarrow> map_of m k = Some g \<Longrightarrow> \<forall>i \<in> set (ng_indexes g). i < n"
  using map_of_vals[of m k] unfolding groups_within_def by blast

lemma name_groups_within:
  assumes "g \<in> set (name_groups P ls)"
  shows "\<forall>i \<in> set (ng_indexes g). i < length ls"
proof -
  have "groups_within (length ls) (fold (\<lambda>i m.
       let tokens = distinctive_venue_tokens P (vn_name (il_venue (ls ! i)));
           key = concat (sort tokens); city = city_key P (ls ! i)
       in if length key < 3 \<or> list_all is_weak_venue_token tokens then m
          else case map_of m (city, key) of
                 Some g \<Rightarrow> AList.update (city, key) (g\<lparr>ng_indexes := ng_indexes g @ [i]\<rparr>) m
               | None \<Rightarrow> AList.update (city, key)
                   \<lparr>ng_city = city, ng_key = key, ng_tokens = remdups tokens, ng_indexes = [i]\<rparr> m)
       [0..<length ls] [])"
  proof (rule fold_keeps, goal_cases)
    case 1
    show ?case by (simp add: groups_within_def)
  next
    case (2 i m)
    then have "i < length ls" by simp
    then show ?case
      using 2(2) groups_within_get[OF 2(2)]
      by (auto simp: Let_def split: option.split intro!: groups_within_update)
  qed
  then show ?thesis using assms unfolding name_groups_def groups_within_def by blast
qed

lemma name_edges_within:
  assumes "edges_within (length ls) m"
  shows "edges_within (length ls) (name_edges P ls m)"
  unfolding name_edges_def Let_def
proof (rule within_fold[OF assms], goal_cases)
  case (1 g m)
  let ?m = "link_all (ng_indexes g) (ng_indexes g) 4 (u ''distinctive-name:'' @ ng_key g) m"
  have m: "edges_within (length ls) ?m"
    using 1 name_groups_within by (blast intro: link_all_within)
  have "e \<in> set (name_groups P ls)" if "name_extensions (name_groups P ls) g = [e]" for e
  proof -
    have "e \<in> set (name_extensions (name_groups P ls) g)" using that by simp
    then show ?thesis unfolding name_extensions_def by simp
  qed
  then show ?case
    using m 1(1) name_groups_within by (auto split: list.split intro!: link_all_within)
qed

definition cells_within :: "nat \<Rightarrow> cell_map \<times> edge_map \<Rightarrow> bool" where
  "cells_within n st \<longleftrightarrow> indexes_within {0..<n} (fst st) \<and> edges_within n (snd st)"

lemma near_within:
  assumes "indexes_within {0..<n} cells"
  shows "set (case map_of cells k of Some is \<Rightarrow> is | None \<Rightarrow> []) \<subseteq> {0..<n}"
proof (cases "map_of cells k")
  case (Some ks)
  then have "set ks \<subseteq> {0..<n}" using assms map_of_vals[OF Some] unfolding indexes_within_def by blast
  then show ?thesis using Some by simp
qed simp

lemma concat_within: "(\<And>x. set (f x) \<subseteq> A) \<Longrightarrow> set (concat (map f xs)) \<subseteq> A"
  by auto

lemma geo_edges_within:
  assumes "edges_within (length ls) m"
  shows "edges_within (length ls) (geo_edges P ls m)"
proof -
  let ?n = "length ls"
  have "cells_within ?n (fold (\<lambda>i (cells :: cell_map, m).
       case vn_geo (il_venue (ls ! i)) of
         None \<Rightarrow> (cells, m)
       | Some g \<Rightarrow>
           let (x, y) = geo_cell g; city = city_key P (ls ! i);
               near = concat (map (\<lambda>dx. concat (map (\<lambda>dy.
                        case map_of cells (city, x + dx, y + dy) of Some is \<Rightarrow> is | None \<Rightarrow> [])
                        [-1, 0, 1])) [-1, 0, 1]);
               tokens = venue_name_tokens P (vn_name (il_venue (ls ! i)))
           in (push_at (city, x, y) i cells,
               fold (\<lambda>j m. case vn_geo (il_venue (ls ! j)) of
                   None \<Rightarrow> m
                 | Some h \<Rightarrow>
                     if distance_metres P g h > 75 then m
                     else
                       let overlap = filter (\<lambda>t. t \<in> set tokens)
                                       (venue_name_tokens P (vn_name (il_venue (ls ! j))))
                       in if overlap \<noteq> []
                          then add_edge j i 3 (u ''geo-name-overlap:'' @ join (u '','') (sort overlap)) m
                          else m) near m))
       [0..<?n] ([], m))"
  proof (rule fold_keeps, goal_cases)
    case 1
    show ?case using assms by (simp add: cells_within_def indexes_within_def)
  next
    case (2 i st)
    obtain cells m where st: "st = (cells, m)" by fastforce
    have i: "i < ?n" using 2(1) by simp
    have c: "indexes_within {0..<?n} cells" and m: "edges_within ?n m"
      using 2(2) by (simp_all add: st cells_within_def)
    show ?case
    proof (cases "vn_geo (il_venue (ls ! i))")
      case None
      then show ?thesis using c m by (simp add: st cells_within_def)
    next
      case (Some g)
      obtain x y where xy: "geo_cell g = (x, y)" by fastforce
      show ?thesis
        unfolding cells_within_def st Some xy prod.case option.case Let_def fst_conv snd_conv
      proof
        show "indexes_within {0..<?n} (push_at (city_key P (ls ! i), x, y) i cells)"
          using c i by (simp add: push_at_within)
      next
        show "edges_within ?n (fold (\<lambda>j m. case vn_geo (il_venue (ls ! j)) of None \<Rightarrow> m
            | Some h \<Rightarrow> if distance_metres P g h > 75 then m
              else if filter (\<lambda>t. t \<in> set (venue_name_tokens P (vn_name (il_venue (ls ! i)))))
                  (venue_name_tokens P (vn_name (il_venue (ls ! j)))) \<noteq> []
                then add_edge j i 3 (u ''geo-name-overlap:'' @ join (u '','')
                  (sort (filter (\<lambda>t. t \<in> set (venue_name_tokens P (vn_name (il_venue (ls ! i)))))
                    (venue_name_tokens P (vn_name (il_venue (ls ! j))))))) m else m)
            (concat (map (\<lambda>dx. concat (map (\<lambda>dy.
                case map_of cells (city_key P (ls ! i), x + dx, y + dy) of Some is \<Rightarrow> is | None \<Rightarrow> [])
                [-1, 0, 1])) [-1, 0, 1])) m)"
        proof (rule within_fold[OF m], goal_cases)
          case (1 j m')
          have "j \<in> {0..<?n}"
            by (rule subsetD[OF _ 1(1)]) (intro concat_within near_within[OF c])
          then have "j < ?n" by simp
          then show ?case using 1(2) i by (auto split: option.split intro!: add_edge_within)
        qed
      qed
    qed
  qed
  then show ?thesis unfolding geo_edges_def cells_within_def by blast
qed

lemma venue_edges_within:
  assumes "e \<in> set (venue_edges P ls ev seeds)"
  shows "ve_left e < length ls \<and> ve_right e < length ls"
proof -
  have "edges_within (length ls) []" by (simp add: edges_within_def)
  then have "edges_within (length ls) (name_edges P ls (compact_edges P ls (geo_edges P ls
      (seed_edges P ls ev seeds (provider_edges P ls [])))))"
    by (intro name_edges_within compact_edges_within geo_edges_within seed_edges_within
        provider_edges_within)
  then show ?thesis
    using assms unfolding venue_edges_def edges_within_def by (simp only: set_sort_by)
qed

text \<open>No component of the venue graph holds two conflicting listings.\<close>

lemma venue_component_compatible:
  assumes "c \<in> set (component_lists (length ls)
      (fst (venue_components P ls (venue_edges P ls ev seeds))))"
    and "i \<in> set c" "j \<in> set c" "i \<noteq> j"
  shows "\<not> venue_conflict P (ls ! i) (ls ! j)"
proof -
  let ?st = "venue_components P ls (venue_edges P ls ev seeds)"
  have ok: "components_ok P ls ?st"
    by (rule venue_components_ok) (rule venue_edges_within)
  then have d: "ds_ok (length ls) (fst ?st)" by (simp add: components_ok_def)
  show ?thesis
    using ok component_lists_same[OF d assms(1-3)] assms(4) unfolding components_ok_def by blast
qed

lemma resolve_venues_compatible:
  assumes ids: "distinct (map il_listingId ls)" and v: "v \<in> set (vr_venues (resolve_venues P ls))"
    and ab: "a \<in> set ls" "b \<in> set ls" "a \<noteq> b"
      "il_listingId a \<in> set (rv_listingIds v)" "il_listingId b \<in> set (rv_listingIds v)"
  shows "\<not> venue_conflict P a b"
proof -
  let ?ev = "map (\<lambda>l. venue_location_evidence P (il_venue l)) ls"
  let ?seeds = "map (venue_seed_identity P) ls"
  let ?edges = "venue_edges P ls ?ev ?seeds"
  let ?comps = "component_lists (length ls) (fst (venue_components P ls ?edges))"
  have "v \<in> set (map (venue_of_draft P (map (draft_venue P ls ?seeds ?edges) ?comps))
      (map (draft_venue P ls ?seeds ?edges) ?comps))"
    using v by (simp only: resolve_venues_def Let_def venue_resolution.simps set_sort_by)
  then obtain c where c: "c \<in> set ?comps" "rv_listingIds v = vd_listingIds (draft_venue P ls ?seeds ?edges c)"
    by (auto simp: venue_of_draft_def)
  then have sets: "set (rv_listingIds v) = (\<lambda>i. il_listingId (ls ! i)) ` set c"
    by (simp add: draft_venue_def Let_def image_image)
  have d: "ds_ok (length ls) (fst (venue_components P ls ?edges))"
    using venue_components_ok[of ?edges ls P] venue_edges_within by (simp add: components_ok_def)
  have inj: "x = y" if "x \<in> set ls" "y \<in> set ls" "il_listingId x = il_listingId y" for x y
    using that ids by (simp add: distinct_map inj_on_def)
  have "\<exists>i. i \<in> set c \<and> x = ls ! i" if x: "x \<in> set ls" "il_listingId x \<in> set (rv_listingIds v)" for x
  proof -
    obtain i where i: "i \<in> set c" "il_listingId x = il_listingId (ls ! i)" using x(2) sets by blast
    then have "i < length ls" using component_lists_same(1)[OF d c(1)] by blast
    then show ?thesis using i inj[OF x(1), of "ls ! i"] by auto
  qed
  then obtain i j where i: "i \<in> set c" "a = ls ! i" and j: "j \<in> set c" "b = ls ! j"
    using ab by meson
  then have "i \<noteq> j" using ab(3) by blast
  then show ?thesis using venue_component_compatible[OF c(1) i(1) j(1)] i j by simp
qed

end
