(* ===== verification/Sessions.thy ===== *)
theory Sessions
  imports Venues
begin

text \<open>
  Pair assessment and session resolution of \<open>collector/identity/resolve.ts\<close>: which listings of
  different providers describe one performance.
\<close>

section \<open>Titles\<close>

definition stripped_title :: "platform \<Rightarrow> identity_listing \<Rightarrow> jstr" where
  "stripped_title P l = strip_venue_title_prefix P (il_title l) (vn_name (il_venue l))"

definition titles_match :: "platform \<Rightarrow> identity_listing \<Rightarrow> identity_listing \<Rightarrow> bool" where
  "titles_match P left right \<longleftrightarrow>
     (let leftKey = nt_key (listing_title_key P left) in
      (leftKey \<noteq> [] \<and> leftKey = nt_key (listing_title_key P right))
      \<or> (normalize_identity_text P (stripped_title P left) \<noteq> []
         \<and> normalize_identity_text P (stripped_title P left)
             = normalize_identity_text P (stripped_title P right)))"

definition generic_title_words :: "jstr list" where
  "generic_title_words = map u [
     ''atolye'', ''atolyesi'', ''workshop'', ''workshops'', ''etkinlik'', ''etkinligi'',
     ''etkinlikleri'', ''takvim'', ''takvimi'', ''konser'', ''konseri'', ''concert'', ''tiyatro'',
     ''oyun'', ''oyunu'', ''stand'', ''up'', ''standup'', ''gosteri'', ''gosterisi'', ''show'',
     ''sergi'', ''sergisi'', ''festival'', ''gece'', ''gecesi'', ''night'', ''parti'', ''party'',
     ''istanbul'', ''event'', ''live'', ''canli'']"

definition specific_title :: "platform \<Rightarrow> identity_listing \<Rightarrow> bool" where
  "specific_title P l \<longleftrightarrow>
     (let venueWords = split_on 32 (normalize_identity_text P (vn_name (il_venue l))) in
      list_ex (\<lambda>w. length w \<ge> 3 \<and> w \<notin> set generic_title_words \<and> w \<notin> set venueWords)
        (split_on 32 (normalize_identity_text P (il_title l))))"

definition dash_segments_contain :: "platform \<Rightarrow> jstr \<Rightarrow> jstr \<Rightarrow> bool" where
  "dash_segments_contain P longer shorter \<longleftrightarrow>
     (let outer = normalize_identity_text P longer; inner = normalize_identity_text P shorter in
      if outer = inner \<or> length inner < 10 \<or> length (split_on 32 inner) < 2 then False
      else starts_with outer (inner @ [32]) \<or> ends_with outer ([32] @ inner))"

definition title_contains :: "platform \<Rightarrow> identity_listing \<Rightarrow> identity_listing \<Rightarrow> bool" where
  "title_contains P left right \<longleftrightarrow>
     (let (longer, shorter) =
        (if length (il_title left) \<ge> length (il_title right) then (left, right) else (right, left))
      in specific_title P shorter
         \<and> dash_segments_contain P (il_title longer) (il_title shorter))"

section \<open>Attendance and policy\<close>

datatype known_timing = Known_session | Known_window jstr jstr

definition known_attendance_timing :: "identity_listing \<Rightarrow> known_timing option" where
  "known_attendance_timing l =
     (case il_attendanceTiming l of
        None \<Rightarrow> None
      | Some UnknownTiming \<Rightarrow> None
      | Some TimedSession \<Rightarrow> Some Known_session
      | Some (AdmissionWindow f t) \<Rightarrow>
          (case (date_parse f, date_parse t) of
             (Some a, Some b) \<Rightarrow>
               if a > b then None else Some (Known_window (iso_string a) (iso_string b))
           | _ \<Rightarrow> None))"

definition attendance_timing_conflict ::
  "identity_listing \<Rightarrow> identity_listing \<Rightarrow> jstr option" where
  "attendance_timing_conflict left right =
     (case (known_attendance_timing left, known_attendance_timing right) of
        (Some Known_session, Some (Known_window f t)) \<Rightarrow>
          Some (u ''attendance:timed_session-vs-admission_window'')
      | (Some (Known_window f t), Some Known_session) \<Rightarrow>
          Some (u ''attendance:admission_window-vs-timed_session'')
      | (Some (Known_window f t), Some (Known_window g v)) \<Rightarrow>
          if f \<noteq> g \<or> t \<noteq> v
          then Some (u ''attendance:window:'' @ f @ u ''/'' @ t @ u ''-vs-'' @ g @ u ''/'' @ v)
          else None
      | _ \<Rightarrow> None)"

datatype policy = Child_only | Adult_only | Workshop_format | Performance_format | Adaptation jstr

fun policy_name :: "policy \<Rightarrow> jstr" where
  "policy_name Child_only = u ''child-only''"
| "policy_name Adult_only = u ''adult-only''"
| "policy_name Workshop_format = u ''workshop''"
| "policy_name Performance_format = u ''performance''"
| "policy_name (Adaptation a) = u ''adaptation:'' @ a"

fun is_adaptation :: "policy \<Rightarrow> bool" where
  "is_adaptation (Adaptation a) = True"
| "is_adaptation _ = False"

definition age_range_rx :: rx where
  "age_range_rx =
     seqs [Wordb, Cap 1 (Upto 1 2 Digit), Plus Space, Opt (seqs [L ''ile'', Plus Space]),
           Cap 2 (Upto 1 2 Digit), Star Space, L ''yas'', Wordb]"

text \<open>\<open>[...text.matchAll(...)].some((match) => Number(match[2]) <= 17)\<close>.\<close>

definition child_range :: "jstr \<Rightarrow> bool" where
  "child_range text \<longleftrightarrow>
     list_ex (\<lambda>m. case group m 2 of Some d \<Rightarrow> digits_value d \<le> 17 | None \<Rightarrow> False)
       (match_all age_range_rx text)"

definition child_only_text :: "jstr \<Rightarrow> bool" where
  "child_only_text text \<longleftrightarrow>
     child_range text
     \<or> test (whole (seqs [any_of [''yalnizca'', ''sadece''], L '' cocuklar icin''])) text
     \<or> test (whole (L ''cocuklara ozel'')) text"

definition adult_only_text :: "jstr \<Rightarrow> jstr \<Rightarrow> bool" where
  "adult_only_text raw text \<longleftrightarrow>
     test (seqs [Wordb, L ''18'', Star Space, L ''+'']) raw
     \<or> test (whole (seqs [L ''18'', Star Space, L ''yas'', Plus Space, L ''alti'', Plus Space,
                          any_of [''giremez'', ''kabul edilmez'']])) text
     \<or> test (whole (seqs [any_of [''yalnizca'', ''sadece''], L '' yetiskinler icin''])) text
     \<or> test (whole (L ''yetiskinlere ozel'')) text"

definition workshop_title_rx :: rx where
  "workshop_title_rx =
     whole (seqs [any_of [''atolye'', ''workshop''], Opt (any_of [''si'', ''u''])])"

definition workshop_text_rx :: rx where
  "workshop_text_rx =
     seqs [Wordb, L ''uygulamali'', Wordb,
           Upto 0 4 (seqs [L '' '', Plus (Chr (\<lambda>c. \<not> is_space_unit c))]),
           L '' '', any_of [''atolye'', ''workshop''], L '' calismasi'', Wordb]"

definition adaptation_rx :: rx where
  "adaptation_rx =
     seqs [Wordb, Ci ''uyarlama'', Star Space, L '':'', Star Space,
           Cap 1 (Upto 1 60 (Chr (\<lambda>c. c \<notin> {46, 59, 10})))]"

definition policies :: "platform \<Rightarrow> identity_listing \<Rightarrow> policy list" where
  "policies P l =
     (let raw = il_title l @ [32] @ il_description l;
          text = normalize_identity_text P raw;
          title = normalize_identity_text P (il_title l);
          credit = (case exec adaptation_rx (pl_lower_tr P raw) of
                      Some m \<Rightarrow> or_empty (group m 1) | None \<Rightarrow> []);
          adaptation = normalize_identity_text P credit
      in (if child_only_text text then [Child_only] else [])
         @ (if adult_only_text raw text then [Adult_only] else [])
         @ (if test workshop_title_rx title \<or> test workshop_text_rx text
            then [Workshop_format] else [])
         @ (if test (whole (any_of [''tiyatro oyunu'', ''canli konser''])) title
               \<or> test (whole (L ''canli sahne gosterisidir'')) text
            then [Performance_format] else [])
         @ (if adaptation \<noteq> [] then [Adaptation adaptation] else []))"

definition policy_conflict :: "platform \<Rightarrow> identity_listing \<Rightarrow> identity_listing \<Rightarrow> jstr option" where
  "policy_conflict P left right =
     (let a = policies P left; b = policies P right;
          aa = filter is_adaptation a; ba = filter is_adaptation b
      in if (Child_only \<in> set a \<and> Adult_only \<in> set b) \<or> (Adult_only \<in> set a \<and> Child_only \<in> set b)
         then Some (u ''audience:child-vs-adult'')
         else if (Workshop_format \<in> set a \<and> Performance_format \<in> set b)
                 \<or> (Performance_format \<in> set a \<and> Workshop_format \<in> set b)
         then Some (u ''format:workshop-vs-performance'')
         else if aa \<noteq> [] \<and> ba \<noteq> [] \<and> \<not> list_ex (\<lambda>p. p \<in> set b) aa
         then Some (u ''adaptation:'' @ join (u '','') (map policy_name aa) @ u ''-vs-''
                    @ join (u '','') (map policy_name ba))
         else None)"

section \<open>Decisions\<close>

datatype decision_outcome = Auto_merge | Manual_merge | Jev_merge | Never_merge | Unresolved

record identity_decision =
  idn_listingIds :: "jstr \<times> jstr"
  idn_inputHash :: jstr
  idn_ruleVersion :: jstr
  idn_outcome :: decision_outcome
  idn_rule :: jstr
  idn_evidence :: "jstr list"

definition identity_rule_version :: jstr where
  "identity_rule_version =
     u ''deterministic-identity.v5+'' @ u ''identity-seeds.2026-10-04.v2''"

definition sorted_pair :: "jstr \<Rightarrow> jstr \<Rightarrow> jstr \<times> jstr" where
  "sorted_pair a b = (if b < a then (b, a) else (a, b))"

definition pair_key :: "jstr \<Rightarrow> jstr \<Rightarrow> jstr" where
  "pair_key left right = (let (a, b) = sorted_pair left right in a @ [31] @ b)"

definition known_timing_json :: "known_timing option \<Rightarrow> json" where
  "known_timing_json t =
     (case t of
        None \<Rightarrow> Null
      | Some Known_session \<Rightarrow> JObj [(u ''kind'', JStr (u ''timed_session''))]
      | Some (Known_window f v) \<Rightarrow>
          JObj [(u ''kind'', JStr (u ''admission_window'')), (u ''validFrom'', JStr f),
                (u ''validThrough'', JStr v)])"

definition decision_member_json :: "platform \<Rightarrow> identity_listing \<Rightarrow> jstr \<Rightarrow> json" where
  "decision_member_json P l venueId =
     (let t = listing_title_key P l in
      JObj [(u ''listingId'', JStr (il_listingId l)),
            (u ''provider'', JStr (il_provider l)),
            (u ''city'', JStr (city_key P l)),
            (u ''startsAt'', JStr (il_startsAt l)),
            (u ''venueId'', JStr venueId),
            (u ''title'', JObj [(u ''key'', JStr (nt_key t)), (u ''category'', JStr (nt_category t)),
               (u ''removedGenericSuffix'', JBool (nt_removed t))]),
            (u ''attendanceTiming'', known_timing_json (known_attendance_timing l)),
            (u ''policies'', JArr (map JStr (sort (map policy_name (policies P l)))))])"

text \<open>
  \<open>decisionInput\<close>. The venue ids are looked up by listing id, so two listings with one id have the
  venue of the right one.
\<close>

definition decision_input ::
  "platform \<Rightarrow> identity_listing \<Rightarrow> identity_listing \<Rightarrow> jstr \<Rightarrow> jstr \<Rightarrow> json" where
  "decision_input P left right leftVenueId rightVenueId =
     (let venue = (\<lambda>l. if il_listingId l = il_listingId right then rightVenueId else leftVenueId) in
      JArr (map (\<lambda>l. decision_member_json P l (venue l))
        (sort_by (\<lambda>a b. pl_collate P (il_listingId a) (il_listingId b)) [left, right])))"

definition containment_rule :: jstr where
  "containment_rule = u ''same-venue-title-containment''"

definition assess_identity_pair ::
  "platform \<Rightarrow> identity_listing \<Rightarrow> identity_listing \<Rightarrow> jstr \<Rightarrow> jstr \<Rightarrow> identity_decision" where
  "assess_identity_pair P left right leftVenueId rightVenueId =
     (let decide = (\<lambda>outcome rule evidence.
            \<lparr>idn_listingIds = sorted_pair (il_listingId left) (il_listingId right),
             idn_inputHash = identity_hash P ''identity-decision-input.v2''
               (decision_input P left right leftVenueId rightVenueId),
             idn_ruleVersion = identity_rule_version, idn_outcome = outcome, idn_rule = rule, idn_evidence = evidence\<rparr>);
          leftInstant = date_parse (il_startsAt left); rightInstant = date_parse (il_startsAt right);
          leftTitle = listing_title_key P left; rightTitle = listing_title_key P right;
          leftSeed = title_seed_identity P left (venue_seed_identity P left);
          rightSeed = title_seed_identity P right (venue_seed_identity P right);
          venue = u ''venue:'' @ leftVenueId;
          leftKey = u ''title-key:'' @ nt_key leftTitle; rightKey = u ''title-key:'' @ nt_key rightTitle
      in if leftInstant = None \<or> rightInstant = None \<or> leftInstant \<noteq> rightInstant
         then decide Never_merge (u ''different-or-invalid-instant'')
                (sort [il_startsAt left, il_startsAt right])
         else if city_key P left \<noteq> city_key P right
         then decide Never_merge (u ''different-city'') (sort [city_key P left, city_key P right])
         else if il_provider left = il_provider right
         then decide Never_merge (u ''same-provider'') [u ''provider:'' @ il_provider left]
         else if leftVenueId \<noteq> rightVenueId
         then decide Never_merge (u ''different-resolved-venue'')
                (sort [u ''venue:'' @ leftVenueId, u ''venue:'' @ rightVenueId])
         else case attendance_timing_conflict left right of
           Some c \<Rightarrow> decide Never_merge (u ''attendance-timing-conflict'') [c]
         | None \<Rightarrow>
         (case policy_conflict P left right of
           Some c \<Rightarrow> decide Never_merge (u ''policy-conflict'') [c]
         | None \<Rightarrow>
             if titles_match P left right
             then decide Auto_merge (u ''same-venue-suffix-normalized-title'') [leftKey, venue]
             else if or_empty leftSeed \<noteq> [] \<and> leftSeed = rightSeed
             then decide Manual_merge (u ''guarded-title-seed'')
                    [u ''title-seed:'' @ or_empty leftSeed, venue]
             else if title_contains P left right
             then decide Auto_merge containment_rule (sort [leftKey, rightKey, venue])
             else decide Unresolved (u ''same-venue-title-ambiguous'') (sort [leftKey, rightKey])))"

definition aggregate_policy_tag ::
  "platform \<Rightarrow> identity_listing \<Rightarrow> identity_listing list \<Rightarrow> jstr option" where
  "aggregate_policy_tag P l family =
     (let fam = map (policies P) family; own = policies P l;
          has = (\<lambda>p. list_ex (\<lambda>ps. p \<in> set ps) fam);
          adaptations = uniq (filter is_adaptation (concat fam))
      in if has Child_only \<and> has Adult_only
         then Some (if Child_only \<in> set own then u ''audience:child-only''
                    else if Adult_only \<in> set own then u ''audience:adult-only''
                    else u ''audience:unspecified:'' @ il_listingId l)
         else if has Workshop_format \<and> has Performance_format
         then Some (if Workshop_format \<in> set own then u ''format:workshop''
                    else if Performance_format \<in> set own then u ''format:performance''
                    else u ''format:unspecified:'' @ il_listingId l)
         else if length adaptations > 1
         then Some (case filter (\<lambda>p. p \<in> set own) adaptations of
                      p # ps \<Rightarrow> policy_name p
                    | [] \<Rightarrow> u ''adaptation:unspecified:'' @ il_listingId l)
         else None)"

section \<open>Session resolution\<close>

definition accepted :: "identity_decision \<Rightarrow> bool" where
  "accepted d \<longleftrightarrow> idn_outcome d = Auto_merge \<or> idn_outcome d = Manual_merge"

definition session_bucket :: "platform \<Rightarrow> identity_listing \<Rightarrow> jstr" where
  "session_bucket P l =
     (case date_parse (il_startsAt l) of
        Some t \<Rightarrow> city_key P l @ [31] @ iso_string t
      | None \<Rightarrow> u ''invalid:'' @ il_listingId l)"

text \<open>What pair comparison reads besides the listings: their venue ids and venue seeds.\<close>

record venue_context =
  vc_ids :: "(jstr \<times> jstr) list"
  vc_seeds :: "(jstr \<times> jstr option) list"

definition venue_id_of :: "venue_context \<Rightarrow> identity_listing \<Rightarrow> jstr option" where
  "venue_id_of V l = map_of (vc_ids V) (il_listingId l)"

definition venue_seed_of :: "venue_context \<Rightarrow> identity_listing \<Rightarrow> jstr option" where
  "venue_seed_of V l = (case map_of (vc_seeds V) (il_listingId l) of Some s \<Rightarrow> s | None \<Rightarrow> None)"

definition exact_title :: "platform \<Rightarrow> identity_listing \<Rightarrow> identity_listing \<Rightarrow> bool" where
  "exact_title P left right \<longleftrightarrow> titles_match P left right \<or> title_contains P left right"

definition manual_title :: "platform \<Rightarrow> venue_context \<Rightarrow> identity_listing \<Rightarrow> identity_listing \<Rightarrow> bool" where
  "manual_title P V left right \<longleftrightarrow>
     (let leftSeed = title_seed_identity P left (venue_seed_of V left) in
      or_empty leftSeed \<noteq> [] \<and> leftSeed = title_seed_identity P right (venue_seed_of V right))"

definition title_family ::
  "platform \<Rightarrow> venue_context \<Rightarrow> identity_listing list \<Rightarrow> identity_listing \<Rightarrow> identity_listing list" where
  "title_family P V bucket left =
     (let leftSeed = title_seed_identity P left (venue_seed_of V left) in
      filter (\<lambda>candidate.
          venue_id_of V candidate = venue_id_of V left
          \<and> (titles_match P candidate left \<or> title_contains P candidate left
             \<or> (or_empty leftSeed \<noteq> []
                \<and> title_seed_identity P candidate (venue_seed_of V candidate) = leftSeed)))
        bucket)"

text \<open>
  One pair of a bucket: nothing when neither venue nor title relates it, otherwise its decision,
  with the policy tags of the whole title family applied.
\<close>

definition decide_pair ::
  "platform \<Rightarrow> venue_context \<Rightarrow> identity_listing list \<Rightarrow> identity_listing \<Rightarrow> identity_listing
     \<Rightarrow> identity_decision option" where
  "decide_pair P V bucket left right =
     (let exact = exact_title P left right; manual = manual_title P V left right;
          sameVenue = (venue_id_of V left = venue_id_of V right)
      in if \<not> sameVenue \<and> \<not> exact \<and> \<not> manual then None
         else
           let d = assess_identity_pair P left right (or_empty (venue_id_of V left))
                     (or_empty (venue_id_of V right));
               family = title_family P V bucket left;
               leftTag = aggregate_policy_tag P left family;
               rightTag = aggregate_policy_tag P right family
           in if sameVenue \<and> (exact \<or> manual) \<and> idn_outcome d \<noteq> Never_merge
                 \<and> or_empty leftTag \<noteq> [] \<and> leftTag \<noteq> rightTag
              then Some (d\<lparr>idn_outcome := Never_merge, idn_rule := u ''policy-conflict'',
                idn_evidence := sort [or_empty leftTag,
                  (case rightTag of Some t \<Rightarrow> t
                   | None \<Rightarrow> u ''unspecified:'' @ il_listingId right)]\<rparr>)
              else Some d)"

record decision_state =
  dst_decisions :: "identity_decision list"
  dst_byPair :: "(jstr \<times> nat) list"
  dst_accepted :: "(nat \<times> nat) list"

definition record_decision ::
  "identity_listing list \<Rightarrow> nat \<times> nat \<Rightarrow> identity_decision option \<Rightarrow> decision_state \<Rightarrow> decision_state" where
  "record_decision ls ij d st =
     (case d of
        None \<Rightarrow> st
      | Some d \<Rightarrow>
          st\<lparr>dst_decisions := dst_decisions st @ [d],
             dst_byPair := AList.update
               (pair_key (il_listingId (ls ! fst ij)) (il_listingId (ls ! snd ij)))
               (length (dst_decisions st)) (dst_byPair st),
             dst_accepted := (if accepted d then dst_accepted st @ [ij] else dst_accepted st)\<rparr>)"

definition decide_all ::
  "platform \<Rightarrow> venue_context \<Rightarrow> identity_listing list \<Rightarrow> decision_state" where
  "decide_all P V ls =
     fold (\<lambda>indexes st.
         fold (\<lambda>ij. record_decision ls ij
                 (decide_pair P V (map ((!) ls) indexes) (ls ! fst ij) (ls ! snd ij)))
           (pairs_of indexes) st)
       (vals (group_by (\<lambda>i. session_bucket P (ls ! i)) [0..<length ls]))
       \<lparr>dst_decisions = [], dst_byPair = [], dst_accepted = []\<rparr>"

definition find_decision ::
  "identity_listing list \<Rightarrow> (jstr \<times> nat) list \<Rightarrow> identity_decision list \<Rightarrow> nat \<Rightarrow> nat
     \<Rightarrow> identity_decision option" where
  "find_decision ls byPair decisions i j =
     (case map_of byPair (pair_key (il_listingId (ls ! i)) (il_listingId (ls ! j))) of
        Some k \<Rightarrow> Some (decisions ! k) | None \<Rightarrow> None)"

text \<open>Exact and reviewed matches before containment matches, then by listing ids.\<close>

definition accepted_order ::
  "platform \<Rightarrow> identity_listing list \<Rightarrow> decision_state \<Rightarrow> nat \<times> nat \<Rightarrow> nat \<times> nat \<Rightarrow> int" where
  "accepted_order P ls st a b =
     (let weak = (\<lambda>p. case find_decision ls (dst_byPair st) (dst_decisions st) (fst p) (snd p) of
                    Some d \<Rightarrow> if idn_rule d = containment_rule then 1 else 0 | None \<Rightarrow> (0::int))
      in cmp_or (weak a - weak b)
           (cmp_or (pl_collate P (il_listingId (ls ! fst a)) (il_listingId (ls ! fst b)))
                   (pl_collate P (il_listingId (ls ! snd a)) (il_listingId (ls ! snd b)))))"

definition reject_decision :: "jstr \<Rightarrow> identity_decision \<Rightarrow> identity_decision" where
  "reject_decision reason d =
     d\<lparr>idn_outcome := Never_merge, idn_rule := reason,
       idn_evidence := idn_evidence d @ [u ''transitive-merge-rejected'']\<rparr>"

text \<open>
  One accepted pair: join its components unless they repeat a provider or hold a pair that was
  not accepted; then the pair's own decision, which all readers share, becomes a rejection.
\<close>

definition join_pair ::
  "identity_listing list \<Rightarrow> (jstr \<times> nat) list \<Rightarrow> nat \<times> nat \<Rightarrow> disjoint_set \<times> identity_decision list
     \<Rightarrow> disjoint_set \<times> identity_decision list" where
  "join_pair ls byPair ij = (\<lambda>(sets, decisions).
     let (left, right) = ij;
         (leftMembers, s1) = ds_list sets left;
         (rightMembers, s2) = ds_list s1 right;
         (a, s3) = ds_find s2 left;
         (b, s4) = ds_find s3 right
     in if a = b then (s4, decisions)
        else
          let collision = list_ex (\<lambda>j. il_provider (ls ! j) \<in> set (map (\<lambda>i. il_provider (ls ! i)) leftMembers))
                            rightMembers;
              incompatible = list_ex (\<lambda>i. list_ex (\<lambda>j.
                case find_decision ls byPair decisions i j of Some d \<Rightarrow> \<not> accepted d | None \<Rightarrow> True)
                rightMembers) leftMembers
          in if collision \<or> incompatible
             then (s4,
               case map_of byPair (pair_key (il_listingId (ls ! left)) (il_listingId (ls ! right))) of
                 Some k \<Rightarrow> decisions[k := reject_decision
                   (if collision then u ''graph-same-provider-collision''
                    else u ''graph-pairwise-incompatibility'') (decisions ! k)]
               | None \<Rightarrow> decisions)
             else (snd (ds_union s4 left right), decisions))"

definition join_all ::
  "platform \<Rightarrow> identity_listing list \<Rightarrow> decision_state \<Rightarrow> disjoint_set \<times> identity_decision list" where
  "join_all P ls st =
     fold (join_pair ls (dst_byPair st)) (sort_by (accepted_order P ls st) (dst_accepted st))
       (ds_new (length ls), dst_decisions st)"

section \<open>Session records\<close>

record resolved_session =
  rs_id :: jstr
  rs_listingIds :: "jstr list"
  rs_startsAt :: jstr
  rs_city :: jstr
  rs_venueId :: jstr

record session_draft =
  sd_baseAnchor :: "jstr list"
  sd_listingIds :: "jstr list"
  sd_startsAt :: jstr
  sd_city :: jstr
  sd_venueId :: jstr

definition draft_session :: "platform \<Rightarrow> venue_context \<Rightarrow> identity_listing list \<Rightarrow> session_draft" where
  "draft_session P V component =
     (let members = sort_by (\<lambda>a b. pl_collate P (il_listingId a) (il_listingId b)) component;
          first = hd members;
          titleAnchors = sort (map (\<lambda>m.
            case title_seed_identity P m (venue_seed_of V m) of
              Some s \<Rightarrow> s | None \<Rightarrow> nt_key (listing_title_key P m)) members);
          city = city_key P first;
          startsAt = (case date_parse (il_startsAt first) of
                        Some t \<Rightarrow> iso_string t | None \<Rightarrow> il_startsAt first);
          venueId = or_empty (venue_id_of V first)
      in \<lparr>sd_baseAnchor = [city, startsAt, venueId, hd titleAnchors],
          sd_listingIds = map il_listingId members, sd_startsAt = startsAt, sd_city = city,
          sd_venueId = venueId\<rparr>)"

definition session_of_draft :: "platform \<Rightarrow> session_draft list \<Rightarrow> session_draft \<Rightarrow> resolved_session" where
  "session_of_draft P drafts d =
     (let key = (\<lambda>d. stringify P (JArr (map JStr (sd_baseAnchor d)))) in
      \<lparr>rs_id = identity_hash P ''session.v1''
         (JArr (map JStr (if length (filter (\<lambda>e. key e = key d) drafts) = 1 then sd_baseAnchor d
            else sd_baseAnchor d @ [u ''disambiguator:'' @ hd (sd_listingIds d)]))),
       rs_listingIds = sd_listingIds d, rs_startsAt = sd_startsAt d, rs_city = sd_city d,
       rs_venueId = sd_venueId d\<rparr>)"

definition resolve_sessions ::
  "platform \<Rightarrow> venue_context \<Rightarrow> identity_listing list
     \<Rightarrow> resolved_session list \<times> identity_decision list" where
  "resolve_sessions P V ls =
     (let st = decide_all P V ls;
          (sets, decisions) = join_all P ls st;
          drafts = map (\<lambda>c. draft_session P V (map ((!) ls) c)) (component_lists (length ls) sets);
          sessions = map (session_of_draft P drafts) drafts
      in (sort_by (\<lambda>a b. cmp_or (pl_collate P (rs_startsAt a) (rs_startsAt b))
                                (pl_collate P (rs_id a) (rs_id b))) sessions,
          sort_by (\<lambda>a b. cmp_or (pl_collate P (fst (idn_listingIds a)) (fst (idn_listingIds b)))
                                (pl_collate P (snd (idn_listingIds a)) (snd (idn_listingIds b))))
            decisions))"

record identity_resolution =
  ir_venues :: "resolved_venue list"
  ir_listingVenueIds :: "(jstr \<times> jstr) list"
  ir_sessions :: "resolved_session list"
  ir_decisions :: "identity_decision list"

definition drop_unusable_geo :: "identity_listing \<Rightarrow> identity_listing" where
  "drop_unusable_geo l =
     (case vn_geo (il_venue l) of
        Some g \<Rightarrow> if usable_istanbul_geo g then l
                  else l\<lparr>il_venue := (il_venue l)\<lparr>vn_geo := None\<rparr>\<rparr>
      | None \<Rightarrow> l)"

definition resolve_identity :: "platform \<Rightarrow> identity_listing list \<Rightarrow> identity_resolution res" where
  "resolve_identity P listings =
     (if list_ex (\<lambda>l. il_listingId l = []) listings \<or> \<not> distinct (map il_listingId listings)
      then throw ''Duplicate or empty listingId''
      else
        let ordered = sort_by (\<lambda>a b. pl_collate P (il_listingId a) (il_listingId b))
                        (map drop_unusable_geo listings);
            v = resolve_venues P ordered;
            (sessions, decisions) = resolve_sessions P
              \<lparr>vc_ids = vr_listingVenueIds v, vc_seeds = vr_seeds v\<rparr> ordered
        in Inr \<lparr>ir_venues = vr_venues v, ir_listingVenueIds = vr_listingVenueIds v,
                ir_sessions = sessions, ir_decisions = decisions\<rparr>)"

end
