(* ===== verification/Session_Facts.thy ===== *)
theory Session_Facts
  imports Sessions
begin

text \<open>
  What identity resolution guarantees: sessions partition the listings, two listings share a
  session only when every guard let their pair through, and the result does not depend on the
  order of the input.
\<close>

section \<open>Pairs\<close>

lemma sorted_pair_sym: "sorted_pair a b = sorted_pair b a"
  by (auto simp: sorted_pair_def)

lemma pair_key_sym: "pair_key a b = pair_key b a"
  by (simp add: pair_key_def sorted_pair_sym[of a b])

lemma append_sep_inj:
  "x \<notin> set a \<Longrightarrow> x \<notin> set c \<Longrightarrow> a @ x # b = c @ x # d \<Longrightarrow> a = c \<and> b = d"
proof (induction a arbitrary: c)
  case Nil
  then show ?case by (cases c) auto
next
  case (Cons y a)
  then show ?case by (cases c) auto
qed

lemma pair_key_inj:
  assumes "31 \<notin> set a" "31 \<notin> set b" "31 \<notin> set c" "31 \<notin> set d" "pair_key a b = pair_key c d"
  shows "(a = c \<and> b = d) \<or> (a = d \<and> b = c)"
  using assms append_sep_inj[of 31 a c b d] append_sep_inj[of 31 a d b c]
    append_sep_inj[of 31 b c a d] append_sep_inj[of 31 b d a c]
  by (auto simp: pair_key_def sorted_pair_def split: if_splits)

text \<open>
  What \<open>assessIdentityPair\<close> accepts as evidence that two titles name one performance: equal titles,
  one reviewed seed, or a title that contains the other. Of two titles of the same length either
  may be taken for the longer one.
\<close>

definition title_seed :: "platform \<Rightarrow> identity_listing \<Rightarrow> jstr" where
  "title_seed P l = or_empty (title_seed_identity P l (venue_seed_identity P l))"

definition same_title_evidence :: "platform \<Rightarrow> identity_listing \<Rightarrow> identity_listing \<Rightarrow> bool" where
  "same_title_evidence P l r \<longleftrightarrow>
     titles_match P l r \<or> (title_seed P l \<noteq> [] \<and> title_seed P l = title_seed P r)
     \<or> title_contains P l r \<or> title_contains P r l"

text \<open>
  The guards that a merged pair has passed and the evidence that it has; they do not depend on the
  order of the pair.
\<close>

definition may_merge :: "platform \<Rightarrow> jstr option \<Rightarrow> jstr option \<Rightarrow> identity_listing \<Rightarrow> identity_listing \<Rightarrow> bool" where
  "may_merge P lv rv l r \<longleftrightarrow>
     date_parse (il_startsAt l) \<noteq> None \<and> date_parse (il_startsAt l) = date_parse (il_startsAt r)
     \<and> city_key P l = city_key P r \<and> il_provider l \<noteq> il_provider r
     \<and> or_empty lv = or_empty rv
     \<and> attendance_timing_conflict l r = None \<and> policy_conflict P l r = None
     \<and> same_title_evidence P l r"

lemma attendance_conflict_sym:
  "attendance_timing_conflict l r = None \<longleftrightarrow> attendance_timing_conflict r l = None"
  by (auto simp: attendance_timing_conflict_def split: option.splits known_timing.splits)

lemma policy_conflict_sym: "policy_conflict P l r = None \<longleftrightarrow> policy_conflict P r l = None"
  by (auto simp: policy_conflict_def Let_def list_ex_iff split: if_splits)

lemma titles_match_sym: "titles_match P l r \<longleftrightarrow> titles_match P r l"
  unfolding titles_match_def Let_def by metis

lemma same_title_evidence_sym: "same_title_evidence P l r \<longleftrightarrow> same_title_evidence P r l"
  unfolding same_title_evidence_def using titles_match_sym[of P l r] by metis

lemma may_merge_sym: "may_merge P lv rv l r \<longleftrightarrow> may_merge P rv lv r l"
  unfolding may_merge_def
  using attendance_conflict_sym[of l r] policy_conflict_sym[of P l r] same_title_evidence_sym[of P l r]
  by metis

lemma assess_accepted:
  assumes "accepted (assess_identity_pair P l r (or_empty lv) (or_empty rv))"
  shows "may_merge P lv rv l r"
  using assms
  by (auto simp: assess_identity_pair_def may_merge_def same_title_evidence_def title_seed_def
      accepted_def Let_def split: if_splits option.splits)

lemma decide_pair_accepted:
  assumes "decide_pair P V bucket l r = Some d" "accepted d"
  shows "may_merge P (venue_id_of V l) (venue_id_of V r) l r"
proof -
  let ?d = "assess_identity_pair P l r (or_empty (venue_id_of V l)) (or_empty (venue_id_of V r))"
  have "d = ?d \<or> idn_outcome d = Never_merge"
    using assms(1) by (auto simp: decide_pair_def Let_def split: if_splits)
  then have "d = ?d" using assms(2) by (auto simp: accepted_def)
  then show ?thesis using assms(2) assess_accepted by blast
qed

section \<open>The decisions of all pairs\<close>

definition decisions_ok ::
  "platform \<Rightarrow> venue_context \<Rightarrow> identity_listing list \<Rightarrow> decision_state \<Rightarrow> bool" where
  "decisions_ok P V ls st \<longleftrightarrow>
     (\<forall>(key, k) \<in> set (dst_byPair st). k < length (dst_decisions st) \<and>
        (\<exists>i j bucket. i < length ls \<and> j < length ls
           \<and> key = pair_key (il_listingId (ls ! i)) (il_listingId (ls ! j))
           \<and> decide_pair P V bucket (ls ! i) (ls ! j) = Some (dst_decisions st ! k)))
     \<and> (\<forall>ij \<in> set (dst_accepted st). fst ij < length ls \<and> snd ij < length ls)"

lemma record_decision_ok:
  assumes "decisions_ok P V ls st" "fst ij < length ls" "snd ij < length ls"
  shows "decisions_ok P V ls
     (record_decision ls ij (decide_pair P V bucket (ls ! fst ij) (ls ! snd ij)) st)"
proof (cases "decide_pair P V bucket (ls ! fst ij) (ls ! snd ij)")
  case None
  then show ?thesis using assms by (simp add: record_decision_def)
next
  case (Some d)
  let ?st = "record_decision ls ij (Some d) st"
  have acc: "\<forall>ij \<in> set (dst_accepted ?st). fst ij < length ls \<and> snd ij < length ls"
    using assms by (auto simp: record_decision_def decisions_ok_def)
  have "k < length (dst_decisions ?st) \<and>
        (\<exists>i j bucket. i < length ls \<and> j < length ls
           \<and> key = pair_key (il_listingId (ls ! i)) (il_listingId (ls ! j))
           \<and> decide_pair P V bucket (ls ! i) (ls ! j) = Some (dst_decisions ?st ! k))"
    if mem: "(key, k) \<in> set (dst_byPair ?st)" for key k
  proof -
    consider "(key, k) \<in> set (dst_byPair st)"
      | "key = pair_key (il_listingId (ls ! fst ij)) (il_listingId (ls ! snd ij))"
        "k = length (dst_decisions st)"
      using subsetD[OF set_AList_update] mem by (fastforce simp: record_decision_def)
    then show ?thesis
    proof cases
      case 1
      then have "k < length (dst_decisions st)"
        and ex: "\<exists>i j bucket. i < length ls \<and> j < length ls
           \<and> key = pair_key (il_listingId (ls ! i)) (il_listingId (ls ! j))
           \<and> decide_pair P V bucket (ls ! i) (ls ! j) = Some (dst_decisions st ! k)"
        using assms(1) by (auto simp: decisions_ok_def)
      moreover have "dst_decisions ?st ! k = dst_decisions st ! k"
        using \<open>k < _\<close> by (simp add: record_decision_def nth_append)
      ultimately show ?thesis by (simp add: record_decision_def)
    next
      case 2
      then show ?thesis using Some assms(2,3) by (auto simp: record_decision_def)
    qed
  qed
  then show ?thesis using acc Some by (auto simp: decisions_ok_def)
qed

lemma decide_all_ok: "decisions_ok P V ls (decide_all P V ls)"
  unfolding decide_all_def
proof (rule fold_keeps, goal_cases)
  case 1
  show ?case by (simp add: decisions_ok_def)
next
  case (2 ks st)
  have ks: "i < length ls" if "i \<in> set ks" for i
    using 2(1) that by (auto simp: group_by_member)
  show ?case
  proof (rule fold_keeps[where Q = "decisions_ok P V ls", OF 2(2)], goal_cases)
    case (1 ij st)
    then show ?case using pairs_of_set ks by (intro record_decision_ok) blast+
  qed
qed

section \<open>Joining\<close>

definition joined_ok ::
  "identity_listing list \<Rightarrow> (jstr \<times> nat) list \<Rightarrow> identity_decision list
     \<Rightarrow> disjoint_set \<times> identity_decision list \<Rightarrow> bool" where
  "joined_ok ls byPair start st \<longleftrightarrow>
     ds_ok (length ls) (fst st)
     \<and> (\<forall>k. accepted (snd st ! k) \<longrightarrow> snd st ! k = start ! k)
     \<and> (\<forall>i < length ls. \<forall>j < length ls. i \<noteq> j \<longrightarrow> ds_class (fst st) i = ds_class (fst st) j \<longrightarrow>
          il_provider (ls ! i) \<noteq> il_provider (ls ! j)
          \<and> (\<exists>k. map_of byPair (pair_key (il_listingId (ls ! i)) (il_listingId (ls ! j))) = Some k
                \<and> accepted (start ! k)))"

lemma joined_ok_class:
  assumes "joined_ok ls byPair start (s, ds)" "ds_ok (length ls) t"
    "\<forall>i < length ls. ds_class t i = ds_class s i"
  shows "joined_ok ls byPair start (t, ds)"
  using assms unfolding joined_ok_def by auto

lemma accepted_reject:
  "accepted (ds[x := reject_decision reason (ds ! x)] ! k) \<Longrightarrow>
     ds[x := reject_decision reason (ds ! x)] ! k = ds ! k"
  by (cases "k = x \<and> x < length ds") (auto simp: reject_decision_def accepted_def nth_list_update
      list_update_beyond)

lemma join_pair_ok:
  assumes ok: "joined_ok ls byPair start st" and l: "fst ij < length ls" and r: "snd ij < length ls"
  shows "joined_ok ls byPair start (join_pair ls byPair ij st)"
proof -
  let ?n = "length ls"
  obtain s ds where st: "st = (s, ds)" by fastforce
  obtain i j where ij: "ij = (i, j)" by fastforce
  have i: "i < ?n" and j: "j < ?n" using l r ij by simp_all
  define s1 s2 s3 s4 where "s1 = snd (ds_find s i)" and "s2 = snd (ds_find s1 j)"
    and "s3 = snd (ds_find s2 i)" and "s4 = snd (ds_find s3 j)"
  have o: "ds_ok ?n s" using ok by (simp add: joined_ok_def st)
  have o1: "ds_ok ?n s1" and c1: "\<forall>k < ?n. ds_class s1 k = ds_class s k"
    using ds_find_spec[OF o i] by (auto simp: s1_def)
  have o2: "ds_ok ?n s2" and c2: "\<forall>k < ?n. ds_class s2 k = ds_class s k"
    using ds_find_spec[OF o1 j] c1 by (auto simp: s2_def)
  have o3: "ds_ok ?n s3" and c3: "\<forall>k < ?n. ds_class s3 k = ds_class s k"
    using ds_find_spec[OF o2 i] c2 by (auto simp: s3_def)
  have o4: "ds_ok ?n s4" and c4: "\<forall>k < ?n. ds_class s4 k = ds_class s k"
    using ds_find_spec[OF o3 j] c3 by (auto simp: s4_def)
  define L R where "L = fst (ds_list s i)" and "R = fst (ds_list s1 j)"
  have L: "set L = {k. k < ?n \<and> ds_class s k = ds_class s i}"
    and R: "set R = {k. k < ?n \<and> ds_class s k = ds_class s j}"
    using ds_list_spec[OF o i] ds_list_spec[OF o1 j] c1 j by (auto simp: L_def R_def)
  have f: "ds_list s i = (L, s1)" "ds_list s1 j = (R, s2)" "ds_find s2 i = (ds_class s i, s3)"
    "ds_find s3 j = (ds_class s j, s4)"
    using ds_list_spec(3)[OF o i] ds_list_spec(3)[OF o1 j] ds_find_spec(1)[OF o2 i]
      ds_find_spec(1)[OF o3 j] c2 c3 i j
    by (auto simp: prod_eq_iff L_def R_def s1_def s2_def s3_def s4_def)
  have ok4: "joined_ok ls byPair start (s4, ds)"
    using joined_ok_class[OF _ o4 c4] ok st by simp
  define collision where "collision \<longleftrightarrow>
    list_ex (\<lambda>j. il_provider (ls ! j) \<in> set (map (\<lambda>i. il_provider (ls ! i)) L)) R"
  define incompatible where "incompatible \<longleftrightarrow> list_ex (\<lambda>i. list_ex (\<lambda>j.
    case find_decision ls byPair ds i j of Some d \<Rightarrow> \<not> accepted d | None \<Rightarrow> True) R) L"
  consider (same) "ds_class s i = ds_class s j"
    | (reject) "ds_class s i \<noteq> ds_class s j" "collision \<or> incompatible"
    | (join) "ds_class s i \<noteq> ds_class s j" "\<not> collision" "\<not> incompatible"
    by blast
  then show ?thesis
  proof cases
    case same
    then have "join_pair ls byPair ij st = (s4, ds)"
      by (simp add: join_pair_def st ij f)
    then show ?thesis using ok4 by simp
  next
    case reject
    let ?reason = "if collision then u ''graph-same-provider-collision''
      else u ''graph-pairwise-incompatibility''"
    let ?ds = "case map_of byPair (pair_key (il_listingId (ls ! i)) (il_listingId (ls ! j))) of
      Some k \<Rightarrow> ds[k := reject_decision ?reason (ds ! k)] | None \<Rightarrow> ds"
    have e: "join_pair ls byPair ij st = (s4, ?ds)"
      using reject unfolding join_pair_def st ij f prod.case Let_def
        collision_def[symmetric] incompatible_def[symmetric] by simp
    have "accepted (?ds ! k) \<longrightarrow> ?ds ! k = start ! k" for k
      using ok accepted_reject[of ds _ _ k] by (simp add: joined_ok_def st split: option.split)
    then show ?thesis using ok4 unfolding e joined_ok_def fst_conv snd_conv by blast
  next
    case join
    have e: "join_pair ls byPair ij st = (snd (ds_union s4 i j), ds)"
      using join unfolding join_pair_def st ij f prod.case Let_def
        collision_def[symmetric] incompatible_def[symmetric] by simp
    note u = ds_union_spec[OF o4 i j]
    have u3: "ds_class (snd (ds_union s4 i j)) k = (if ds_class s k = max (ds_class s i) (ds_class s j)
        then min (ds_class s i) (ds_class s j) else ds_class s k)" if "k < ?n" for k
      using u(3) c4 i j that by simp
    have cross: "il_provider (ls ! a) \<noteq> il_provider (ls ! b)
        \<and> (\<exists>k. map_of byPair (pair_key (il_listingId (ls ! a)) (il_listingId (ls ! b))) = Some k
              \<and> accepted (start ! k))"
      if a: "a < ?n" "ds_class s a = ds_class s i" and b: "b < ?n" "ds_class s b = ds_class s j" for a b
    proof -
      have ab: "a \<in> set L" "b \<in> set R" using L R a b by simp_all
      have p: "il_provider (ls ! a) \<noteq> il_provider (ls ! b)"
      proof
        assume "il_provider (ls ! a) = il_provider (ls ! b)"
        then have "il_provider (ls ! b) \<in> set (map (\<lambda>i. il_provider (ls ! i)) L)"
          using ab(1) by (metis (mono_tags, lifting) image_eqI list.set_map)
        then have collision unfolding collision_def list_ex_iff using ab(2) by blast
        then show False using join(2) by simp
      qed
      have "\<not> (case find_decision ls byPair ds a b of Some d \<Rightarrow> \<not> accepted d | None \<Rightarrow> True)"
        using join(3) ab unfolding incompatible_def list_ex_iff by blast
      then obtain k where "map_of byPair (pair_key (il_listingId (ls ! a)) (il_listingId (ls ! b))) = Some k"
        "accepted (ds ! k)"
        by (auto simp: find_decision_def split: option.splits)
      moreover from this(2) have "accepted (start ! k)"
        using ok by (simp add: joined_ok_def st)
      ultimately show ?thesis using p by blast
    qed
    have "il_provider (ls ! a) \<noteq> il_provider (ls ! b)
        \<and> (\<exists>k. map_of byPair (pair_key (il_listingId (ls ! a)) (il_listingId (ls ! b))) = Some k
              \<and> accepted (start ! k))"
      if ab: "a < ?n" "b < ?n" "a \<noteq> b"
        "ds_class (snd (ds_union s4 i j)) a = ds_class (snd (ds_union s4 i j)) b" for a b
    proof -
      have "ds_class s a = ds_class s b \<or> (ds_class s a = ds_class s i \<and> ds_class s b = ds_class s j)
        \<or> (ds_class s a = ds_class s j \<and> ds_class s b = ds_class s i)"
        using ab(4) unfolding u3[OF ab(1)] u3[OF ab(2)] merged_eq_iff .
      then show ?thesis
      proof (elim disjE conjE)
        assume "ds_class s a = ds_class s b"
        then show ?thesis using ok ab by (auto simp: joined_ok_def st)
      next
        assume "ds_class s a = ds_class s i" "ds_class s b = ds_class s j"
        then show ?thesis using cross ab by blast
      next
        assume "ds_class s a = ds_class s j" "ds_class s b = ds_class s i"
        then show ?thesis using cross[of b a] ab pair_key_sym by metis
      qed
    qed
    note pairs = this
    have "\<forall>k. accepted (ds ! k) \<longrightarrow> ds ! k = start ! k" using ok by (simp add: joined_ok_def st)
    then show ?thesis
      unfolding e joined_ok_def fst_conv snd_conv by (intro conjI allI impI u(2)) (use pairs in blast)+
  qed
qed

lemma join_all_ok:
  assumes "decisions_ok P V ls st"
  shows "joined_ok ls (dst_byPair st) (dst_decisions st) (join_all P ls st)"
  unfolding join_all_def
proof (rule fold_keeps, goal_cases)
  case 1
  show ?case by (auto simp: joined_ok_def ds_new_ok ds_new_class)
next
  case (2 ij s)
  then have "ij \<in> set (dst_accepted st)" by simp
  then show ?case using assms 2(2) by (intro join_pair_ok) (auto simp: decisions_ok_def)
qed

lemma session_classes:
  assumes ids: "distinct (map il_listingId ls)" "\<forall>l \<in> set ls. 31 \<notin> set (il_listingId l)"
    and ij: "i < length ls" "j < length ls" "i \<noteq> j"
    and same: "ds_class (fst (join_all P ls (decide_all P V ls))) i
      = ds_class (fst (join_all P ls (decide_all P V ls))) j"
  shows "may_merge P (venue_id_of V (ls ! i)) (venue_id_of V (ls ! j)) (ls ! i) (ls ! j)"
proof -
  let ?st = "decide_all P V ls"
  have dec: "decisions_ok P V ls ?st" by (rule decide_all_ok)
  then have "joined_ok ls (dst_byPair ?st) (dst_decisions ?st) (join_all P ls ?st)"
    by (rule join_all_ok)
  then obtain k where k: "map_of (dst_byPair ?st)
      (pair_key (il_listingId (ls ! i)) (il_listingId (ls ! j))) = Some k"
    "accepted (dst_decisions ?st ! k)"
    using ij same unfolding joined_ok_def by blast
  then obtain a b bucket where ab: "a < length ls" "b < length ls"
    "pair_key (il_listingId (ls ! i)) (il_listingId (ls ! j))
       = pair_key (il_listingId (ls ! a)) (il_listingId (ls ! b))"
    "decide_pair P V bucket (ls ! a) (ls ! b) = Some (dst_decisions ?st ! k)"
    using dec map_of_SomeD[OF k(1)] unfolding decisions_ok_def by blast
  have m: "may_merge P (venue_id_of V (ls ! a)) (venue_id_of V (ls ! b)) (ls ! a) (ls ! b)"
    using decide_pair_accepted[OF ab(4) k(2)] .
  have inj: "x = y" if "x < length ls" "y < length ls" "il_listingId (ls ! x) = il_listingId (ls ! y)" for x y
    using that ids(1) by (simp add: distinct_conv_nth) (metis length_map nth_map)
  have "(i = a \<and> j = b) \<or> (i = b \<and> j = a)"
    using pair_key_inj[OF _ _ _ _ ab(3)] ids(2) ij ab(1,2) inj by (metis nth_mem)
  then show ?thesis using m may_merge_sym by blast
qed

section \<open>Sessions partition the listings\<close>

lemma mset_concat_cong:
  "mset (map mset xs) = mset (map mset ys) \<Longrightarrow> mset (concat xs) = mset (concat ys)"
  by (metis mset_concat sum_mset_sum_list)

lemma draft_session_ids:
  "mset (sd_listingIds (draft_session P V c)) = mset (map il_listingId c)"
  by (simp add: draft_session_def Let_def)

lemma resolve_sessions_ids:
  fixes P V ls
  defines "comps \<equiv> component_lists (length ls) (fst (join_all P ls (decide_all P V ls)))"
  shows "mset (map (mset \<circ> rs_listingIds) (fst (resolve_sessions P V ls)))
    = mset (map (\<lambda>c. mset (map il_listingId (map ((!) ls) c))) comps)"
proof -
  define drafts where "drafts = map (\<lambda>c. draft_session P V (map ((!) ls) c)) comps"
  have "mset (map (mset \<circ> rs_listingIds) (fst (resolve_sessions P V ls)))
      = image_mset (mset \<circ> rs_listingIds) (mset (map (session_of_draft P drafts) drafts))"
    by (simp add: resolve_sessions_def Let_def split_def comps_def drafts_def)
  also have "\<dots> = image_mset (mset \<circ> rs_listingIds \<circ> session_of_draft P drafts) (mset drafts)"
    by (simp add: image_mset.compositionality)
  also have "mset \<circ> rs_listingIds \<circ> session_of_draft P drafts = mset \<circ> sd_listingIds"
    by (rule ext) (simp add: session_of_draft_def Let_def)
  also have "image_mset (mset \<circ> sd_listingIds) (mset drafts)
      = mset (map (\<lambda>c. mset (map il_listingId (map ((!) ls) c))) comps)"
    unfolding drafts_def mset_map[symmetric] map_map comp_def draft_session_ids by simp
  finally show ?thesis .
qed

lemma join_all_class_ok: "ds_ok (length ls) (fst (join_all P ls (decide_all P V ls)))"
  using join_all_ok[OF decide_all_ok] by (simp add: joined_ok_def)

lemma resolve_sessions_partition:
  "mset (concat (map rs_listingIds (fst (resolve_sessions P V ls)))) = mset (map il_listingId ls)"
proof -
  let ?comps = "component_lists (length ls) (fst (join_all P ls (decide_all P V ls)))"
  have idx: "mset (concat ?comps) = mset [0..<length ls]"
  proof -
    have "set (concat ?comps) = set [0..<length ls]"
      using distinct_component_lists(2)[OF join_all_class_ok] by simp
    then show ?thesis
      using distinct_component_lists(1)[OF join_all_class_ok] set_eq_iff_mset_eq_distinct distinct_upt
      by blast
  qed
  have "mset (concat (map rs_listingIds (fst (resolve_sessions P V ls))))
      = mset (concat (map (\<lambda>c. map il_listingId (map ((!) ls) c)) ?comps))"
    by (rule mset_concat_cong) (use resolve_sessions_ids[of P V ls] in \<open>simp add: o_def\<close>)
  also have "\<dots> = mset (map (\<lambda>i. il_listingId (ls ! i)) (concat ?comps))"
    by (simp add: map_concat o_def)
  also have "\<dots> = image_mset (\<lambda>i. il_listingId (ls ! i)) (mset [0..<length ls])"
    using idx by simp
  also have "\<dots> = mset (map (\<lambda>i. il_listingId (ls ! i)) [0..<length ls])" by simp
  also have "map (\<lambda>i. il_listingId (ls ! i)) [0..<length ls] = map il_listingId ls"
    by (rule nth_equalityI) simp_all
  finally show ?thesis .
qed

lemma resolve_sessions_compatible:
  assumes ids: "distinct (map il_listingId ls)" "\<forall>l \<in> set ls. 31 \<notin> set (il_listingId l)"
    and s: "s \<in> set (fst (resolve_sessions P V ls))"
    and ab: "a \<in> set ls" "b \<in> set ls" "a \<noteq> b" "il_listingId a \<in> set (rs_listingIds s)"
      "il_listingId b \<in> set (rs_listingIds s)"
  shows "may_merge P (venue_id_of V a) (venue_id_of V b) a b"
proof -
  let ?comps = "component_lists (length ls) (fst (join_all P ls (decide_all P V ls)))"
  have "mset (rs_listingIds s) \<in># mset (map (mset \<circ> rs_listingIds) (fst (resolve_sessions P V ls)))"
    using s by simp
  then obtain c where c: "c \<in> set ?comps" "mset (rs_listingIds s) = mset (map il_listingId (map ((!) ls) c))"
    unfolding resolve_sessions_ids by auto
  then have sets: "set (rs_listingIds s) = (\<lambda>i. il_listingId (ls ! i)) ` set c"
    using mset_eq_setD[OF c(2)] by (simp add: image_image)
  have inj: "x = y" if "x \<in> set ls" "y \<in> set ls" "il_listingId x = il_listingId y" for x y
    using that ids(1) by (simp add: distinct_map inj_on_def)
  have "\<exists>i. i \<in> set c \<and> x = ls ! i" if x: "x \<in> set ls" "il_listingId x \<in> set (rs_listingIds s)" for x
  proof -
    obtain i where i: "i \<in> set c" "il_listingId x = il_listingId (ls ! i)" using x(2) sets by blast
    then have "i < length ls" using component_lists_same(1)[OF join_all_class_ok c(1)] by blast
    then show ?thesis using i inj[OF x(1), of "ls ! i"] by auto
  qed
  then obtain i j where i: "i \<in> set c" "a = ls ! i" and j: "j \<in> set c" "b = ls ! j"
    using ab by meson
  then have "i \<noteq> j" using ab(3) by blast
  then show ?thesis
    using session_classes[OF ids] component_lists_same[OF join_all_class_ok c(1) i(1) j(1)] i j
    by blast
qed

section \<open>Resolution of any input\<close>

lemma drop_geo_same [simp]:
  "il_listingId (drop_unusable_geo l) = il_listingId l"
  "il_provider (drop_unusable_geo l) = il_provider l"
  "il_startsAt (drop_unusable_geo l) = il_startsAt l"
  "il_title (drop_unusable_geo l) = il_title l"
  "il_description (drop_unusable_geo l) = il_description l"
  "il_city (drop_unusable_geo l) = il_city l"
  "il_attendanceTiming (drop_unusable_geo l) = il_attendanceTiming l"
  by (simp_all add: drop_unusable_geo_def split: option.split)

lemma drop_geo_venue [simp]:
  "vn_name (il_venue (drop_unusable_geo l)) = vn_name (il_venue l)"
  "vn_address (il_venue (drop_unusable_geo l)) = vn_address (il_venue l)"
  "il_category (drop_unusable_geo l) = il_category l"
  by (simp_all add: drop_unusable_geo_def split: option.split)

lemma drop_geo_title_evidence:
  "same_title_evidence P (drop_unusable_geo a) (drop_unusable_geo b) \<longleftrightarrow> same_title_evidence P a b"
proof -
  have seed: "title_seed P (drop_unusable_geo l) = title_seed P l" for l
  proof -
    have "venue_seed_identity P (drop_unusable_geo l) = venue_seed_identity P l"
      by (simp only: venue_seed_identity_def drop_geo_same drop_geo_venue)
    then show ?thesis by (simp only: title_seed_def title_seed_identity_def drop_geo_same)
  qed
  have key: "listing_title_key P (drop_unusable_geo l) = listing_title_key P l" for l
    by (simp add: listing_title_key_def)
  have "title_contains P (drop_unusable_geo a) (drop_unusable_geo b) \<longleftrightarrow> title_contains P a b" for a b
    unfolding title_contains_def specific_title_def by (cases "length (il_title a) \<ge> length (il_title b)") simp_all
  moreover have "titles_match P (drop_unusable_geo a) (drop_unusable_geo b) \<longleftrightarrow> titles_match P a b" for a b
    by (simp add: titles_match_def stripped_title_def key)
  ultimately show ?thesis by (simp add: same_title_evidence_def seed)
qed

lemma drop_geo_may_merge:
  "may_merge P lv rv (drop_unusable_geo a) (drop_unusable_geo b) \<longleftrightarrow> may_merge P lv rv a b"
  by (simp add: may_merge_def city_key_def attendance_timing_conflict_def
      known_attendance_timing_def policy_conflict_def policies_def drop_geo_title_evidence)

lemma resolve_identity_Inr:
  assumes "resolve_identity P ls = Inr r"
  obtains V ordered where "ordered = sort_by (\<lambda>a b. pl_collate P (il_listingId a) (il_listingId b))
      (map drop_unusable_geo ls)"
    "vc_ids V = ir_listingVenueIds r" "ir_sessions r = fst (resolve_sessions P V ordered)"
    "distinct (map il_listingId ls)" "[] \<notin> set (map il_listingId ls)"
    "ir_decisions r = snd (resolve_sessions P V ordered)"
proof -
  define ordered where "ordered = sort_by (\<lambda>a b. pl_collate P (il_listingId a) (il_listingId b))
      (map drop_unusable_geo ls)"
  have d: "distinct (map il_listingId ls)" "[] \<notin> set (map il_listingId ls)"
    using assms unfolding resolve_identity_def by (auto simp: list_ex_iff split: if_splits)
  let ?V = "\<lparr>vc_ids = vr_listingVenueIds (resolve_venues P ordered),
    vc_seeds = vr_seeds (resolve_venues P ordered)\<rparr>"
  have "vc_ids ?V = ir_listingVenueIds r \<and> ir_sessions r = fst (resolve_sessions P ?V ordered)
      \<and> ir_decisions r = snd (resolve_sessions P ?V ordered)"
    using assms unfolding resolve_identity_def Let_def ordered_def[symmetric]
    by (auto split: if_splits prod.splits)
  then show thesis using that[OF ordered_def] d by blast
qed

lemma resolve_identity_error:
  "(\<exists>r. resolve_identity P ls = Inr r) \<longleftrightarrow>
     distinct (map il_listingId ls) \<and> [] \<notin> set (map il_listingId ls)"
  by (force simp: resolve_identity_def list_ex_iff Let_def split: prod.split)

text \<open>A consistent collation orders distinct ids in one way only.\<close>

lemma sort_by_unique:
  assumes c: "comparator_fn c" and strict: "\<And>x y. x \<in> set xs \<Longrightarrow> y \<in> set xs \<Longrightarrow> c x y = 0 \<Longrightarrow> x = y"
    and m: "mset xs = mset ys"
  shows "sort_by c xs = sort_by c ys"
proof -
  have s: "sorted_wrt (\<lambda>a b. c a b \<le> 0) (sort_by c zs)" for zs
    by (rule comparator_fn.sorted_sort_by[OF c])
  have "as = bs" if "sorted_wrt (\<lambda>a b. c a b \<le> 0) as" "sorted_wrt (\<lambda>a b. c a b \<le> 0) bs"
    "mset as = mset bs" "set as \<subseteq> set xs" for as bs
    using that
  proof (induction as arbitrary: bs)
    case Nil
    then show ?case by simp
  next
    case (Cons a as)
    then obtain b bs' where bs: "bs = b # bs'" by (cases bs) auto
    have "a \<in> set bs" "b \<in> set (a # as)" using Cons.prems(3) bs
      by (metis list.set_intros(1) mset_eq_setD)+
    then have "c a b \<le> 0" "c b a \<le> 0"
      using Cons.prems(1,2) bs comparator_fn.le_refl[OF c] by auto
    then have "c a b = 0" using comparator_fn.sign_flip[OF c, of b a] by simp
    then have "a = b" using strict \<open>b \<in> set (a # as)\<close> Cons.prems(4) by (meson list.set_intros(1) subsetD)
    then show ?case using Cons.IH[of bs'] Cons.prems bs by simp
  qed
  from this[OF s s] m show ?thesis by simp
qed

lemma resolve_identity_order:
  assumes c: "comparator_fn (pl_collate P)"
      "\<forall>a \<in> set ls. \<forall>b \<in> set ls. pl_collate P (il_listingId a) (il_listingId b) = 0
         \<longrightarrow> il_listingId a = il_listingId b"
    and m: "mset ls = mset ls'"
  shows "resolve_identity P ls = resolve_identity P ls'"
proof -
  have d: "distinct (map il_listingId ls) = distinct (map il_listingId ls')"
    using m by (metis mset_eq_imp_distinct_iff mset_map)
  have e: "list_ex (\<lambda>l. il_listingId l = []) ls = list_ex (\<lambda>l. il_listingId l = []) ls'"
    using mset_eq_setD[OF m] by (simp add: list_ex_iff)
  show ?thesis
  proof (cases "distinct (map il_listingId ls)")
    case True
    have "comparator_fn (\<lambda>a b. pl_collate P (il_listingId a) (il_listingId b))"
      using c(1) by (simp add: comparator_fn_def) blast
    moreover have "x = y" if "x \<in> set (map drop_unusable_geo ls)" "y \<in> set (map drop_unusable_geo ls)"
      "pl_collate P (il_listingId x) (il_listingId y) = 0" for x y
    proof -
      note xy = that
      obtain a b where "a \<in> set ls" "x = drop_unusable_geo a" "b \<in> set ls" "y = drop_unusable_geo b"
        using xy(1,2) by auto
      moreover from this have "il_listingId a = il_listingId b" using c(2) xy(3) by auto
      ultimately show ?thesis using True by (metis distinct_map inj_onD)
    qed
    ultimately have "sort_by (\<lambda>a b. pl_collate P (il_listingId a) (il_listingId b)) (map drop_unusable_geo ls)
        = sort_by (\<lambda>a b. pl_collate P (il_listingId a) (il_listingId b)) (map drop_unusable_geo ls')"
      using m by (intro sort_by_unique) auto
    then show ?thesis using d e by (simp add: resolve_identity_def)
  next
    case False
    then show ?thesis using d by (simp add: resolve_identity_def)
  qed
qed

lemma resolve_identity_sessions:
  assumes "resolve_identity P ls = Inr r"
  shows "mset (concat (map rs_listingIds (ir_sessions r))) = mset (map il_listingId ls)"
  using assms
proof (rule resolve_identity_Inr)
  fix V ordered
  assume o: "ordered = sort_by (\<lambda>a b. pl_collate P (il_listingId a) (il_listingId b))
      (map drop_unusable_geo ls)" "ir_sessions r = fst (resolve_sessions P V ordered)"
  have "mset (map il_listingId ordered) = image_mset il_listingId (image_mset drop_unusable_geo (mset ls))"
    by (simp add: o(1))
  also have "\<dots> = image_mset il_listingId (mset ls)"
    by (simp add: image_mset.compositionality o_def)
  finally show ?thesis by (simp add: o(2) resolve_sessions_partition)
qed

lemma resolve_identity_compatible:
  assumes r: "resolve_identity P ls = Inr r"
    and hex: "\<forall>l \<in> set ls. 31 \<notin> set (il_listingId l)"
    and s: "s \<in> set (ir_sessions r)"
    and ab: "a \<in> set ls" "b \<in> set ls" "a \<noteq> b" "il_listingId a \<in> set (rs_listingIds s)"
      "il_listingId b \<in> set (rs_listingIds s)"
  shows "may_merge P (map_of (ir_listingVenueIds r) (il_listingId a))
     (map_of (ir_listingVenueIds r) (il_listingId b)) a b"
proof -
  obtain V ordered where o: "ordered = sort_by (\<lambda>a b. pl_collate P (il_listingId a) (il_listingId b))
      (map drop_unusable_geo ls)" "vc_ids V = ir_listingVenueIds r"
    "ir_sessions r = fst (resolve_sessions P V ordered)" "distinct (map il_listingId ls)"
    using r by (rule resolve_identity_Inr) blast
  have d: "distinct (map il_listingId ordered)" using o(1,4) by (simp add: o_def)
  have h: "\<forall>l \<in> set ordered. 31 \<notin> set (il_listingId l)" using o(1) hex by auto
  have ne: "drop_unusable_geo a \<noteq> drop_unusable_geo b"
    using ab o(4) by (metis distinct_map drop_geo_same(1) inj_onD)
  have "may_merge P (venue_id_of V (drop_unusable_geo a)) (venue_id_of V (drop_unusable_geo b))
      (drop_unusable_geo a) (drop_unusable_geo b)"
    using s ab ne unfolding o(3)
    by (intro resolve_sessions_compatible[OF d h]) (auto simp: o(1))
  then show ?thesis by (simp add: drop_geo_may_merge venue_id_of_def o(2))
qed

end
