(* ===== verification/Evidence.thy ===== *)
theory Evidence
  imports Identity_Text Timing
begin

text \<open>
  What a listing's own text states against its structured fields: door times
  (\<open>contracts/timing.ts\<close>), another venue or a sold-out session (\<open>contracts/source-evidence.ts\<close>),
  and the Biletix rules for attendance timing. Instants are shown in Istanbul with the offset the
  platform knows.
\<close>

section \<open>Istanbul wall time\<close>

definition istanbul_time :: "platform \<Rightarrow> int \<Rightarrow> int" where
  "istanbul_time P t = t + pl_zone P t * 60000"

text \<open>The \<open>en-CA\<close> date, for years of four digits, and the \<open>h23\<close> clock of an instant.\<close>

definition istanbul_day :: "platform \<Rightarrow> int \<Rightarrow> jstr" where
  "istanbul_day P t = take 10 (iso_string (istanbul_time P t))"

definition istanbul_clock :: "platform \<Rightarrow> int \<Rightarrow> jstr" where
  "istanbul_clock P t =
     pad 2 (t_hour (istanbul_time P t)) @ u '':'' @ pad 2 (t_minute (istanbul_time P t))"

section \<open>Door times\<close>

text \<open>
  Case folding of the \<open>iu\<close> flags, for the letters that the patterns compare: a unit matches a
  letter when both fold to it.
\<close>

definition simple_fold :: "nat \<Rightarrow> nat" where
  "simple_fold c =
     (if is_upper_unit c then c + 32 else if c = 383 then 115 else if c = 8490 then 107
      else if c = 350 then 351 else if c = 199 then 231 else c)"

definition Cu :: "string \<Rightarrow> rx" where
  "Cu s = foldr (\<lambda>c. Seq (Chr (\<lambda>d. simple_fold d = simple_fold c))) (tr s) Eps"

definition Cus :: "string list \<Rightarrow> rx" where
  "Cus ws = alts (map Cu ws)"

definition Between :: "char \<Rightarrow> char \<Rightarrow> rx" where
  "Between a b = Chr (\<lambda>c. cu a \<le> c \<and> c \<le> cu b)"

definition event_time_label :: rx where
  "event_time_label =
     alts [seqs [Cu ''etkinlik'', Plus Space, Cu ''saati''],
           seqs [Cu ''etkinlik'', Plus Space, Cu ''ba~slang~i~c'',
                 Opt (seqs [Plus Space, Cu ''saati''])]]"

definition door_time_label :: rx where
  "door_time_label =
     seqs [Cu ''kap'', Cus [''~i'', ''i''], Plus Space, Cu ''a'', Cus [''~c'', ''c''],
           Cus [''~i'', ''i''], Cu ''l'', Cus [''~i'', ''i''], Cus [''~s'', ''s''],
           Opt (seqs [Plus Space, Cu ''saati''])]"

definition clock_rx :: "rx \<Rightarrow> rx" where
  "clock_rx label =
     seqs [label, alts [seqs [Star Space, L '':'', Star Space], Plus Space],
           Cap 1 (alts [seqs [Opt (Between CHR ''0'' CHR ''1''), Digit],
                        seqs [L ''2'', Between CHR ''0'' CHR ''3'']]),
           Chr (\<lambda>c. c = 46 \<or> c = 58),
           Cap 2 (seqs [Between CHR ''0'' CHR ''5'', Digit]),
           Ahead (alts [Finishes, Chr (\<lambda>c. \<not> is_digit_unit c)])]"

definition labelled_clock :: "jstr \<Rightarrow> rx \<Rightarrow> jstr option" where
  "labelled_clock description label =
     (case exec (clock_rx label) description of
        None \<Rightarrow> None
      | Some m \<Rightarrow>
          (case (group m 1, group m 2) of
             (Some h, Some mm) \<Rightarrow>
               Some (replicate (2 - length h) 48 @ h @ u '':'' @ mm)
           | _ \<Rightarrow> None))"

definition doors_only_rx :: rx where
  "doors_only_rx =
     seqs [Cu ''belirtilen'', Plus Space, Cu ''saat'', Star Space, Opt (L '',''), Star Space,
           Cu ''kap'', Cus [''~i'', ''i''], Plus Space, Cu ''a'', Cus [''~c'', ''c''], Cu ''~il'',
           Cus [''~i'', ''i''], Cu ''~s'', Plus Space, Cu ''saatidir'']"

definition source_time_is_doors_only :: "jstr \<Rightarrow> bool" where
  "source_time_is_doors_only description = test doors_only_rx description"

definition explicit_door_time_start_conflict :: "platform \<Rightarrow> jstr \<Rightarrow> jstr \<Rightarrow> bool" where
  "explicit_door_time_start_conflict P description startsAt \<longleftrightarrow>
     (case (labelled_clock description event_time_label,
            labelled_clock description door_time_label) of
        (Some eventTime, Some doorTime) \<Rightarrow>
          if eventTime = doorTime then False
          else (case date_parse startsAt of
                  None \<Rightarrow> False
                | Some t \<Rightarrow> istanbul_clock P t = doorTime \<and> istanbul_clock P t \<noteq> eventTime)
      | _ \<Rightarrow> False)"

section \<open>Biletix attendance timing\<close>

record biletix_timing_input =
  bt_category :: jstr
  bt_description :: jstr
  bt_flexible :: json
  bt_startShowDate :: json
  bt_endShowDate :: json
  bt_performanceDates :: "json list"

definition word_unit_iu :: "nat \<Rightarrow> bool" where
  "word_unit_iu c \<longleftrightarrow> is_word_unit c \<or> c = 383 \<or> c = 8490"

definition session_word_rx :: rx where
  "session_word_rx =
     seqs [Bound word_unit_iu, Cu ''seans'',
           Opt (Cus [''lar'', ''~i'', ''in'', ''iniz'', '' saati'', '' saatinden'']), Bound word_unit_iu]"

definition late_rx :: rx where
  "late_rx =
     alts [seqs [Cu ''ge'', Cus [''~c'', ''c''], Star Space, Cu ''kal''],
           seqs [Cu ''ge'', Cus [''~c'', ''c''], Cu '' kal'']]"

definition biletix_attendance_timing ::
  "platform \<Rightarrow> biletix_timing_input \<Rightarrow> attendance_timing option" where
  "biletix_attendance_timing P i =
     (let validFrom = exact_instant (bt_startShowDate i);
          validThrough = exact_instant (bt_endShowDate i);
          flexible = (bt_flexible i = JBool True);
          window = (case (validFrom, validThrough) of
                      (Some f, Some t) \<Rightarrow>
                        if the (date_parse f) \<le> the (date_parse t) then Some (AdmissionWindow f t) else None
                    | _ \<Rightarrow> None)
      in if flexible \<and> window \<noteq> None then window
         else if flexible then Some UnknownTiming
         else if bt_category i \<notin> {tr ''M~uze'', tr ''Sergi''} then None
         else
           let instants = List.map_filter exact_instant (bt_performanceDates i);
               times = map (\<lambda>s. let t = the (date_parse s) in (istanbul_day P t, istanbul_clock P t))
                           instants;
               multiple = list_ex (\<lambda>g. length (remdups (map snd (snd g))) > 1) (group_by fst times)
           in if multiple \<and> test session_word_rx (bt_description i) \<and> test late_rx (bt_description i)
              then Some TimedSession else Some UnknownTiming)"

section \<open>Venue and availability conflicts\<close>

definition evidence_venue_tokens :: "jstr list" where
  "evidence_venue_tokens = map u [
     ''acik'', ''hava'', ''arena'', ''etkinlik'', ''gosteri'', ''istanbul'', ''kultur'',
     ''merkez'', ''merkezi'', ''mekan'', ''performans'', ''salon'', ''salonu'', ''sahne'',
     ''sahnesi'', ''sanat'', ''tiyatro'', ''tiyatrosu'', ''yer'']"

definition evidence_tokens :: "platform \<Rightarrow> jstr \<Rightarrow> jstr list" where
  "evidence_tokens P s =
     uniq (filter (\<lambda>t. length t > 1 \<and> t \<notin> set evidence_venue_tokens)
       (split_on 32 (evidence_text P s)))"

definition month_names :: "jstr list" where
  "month_names = map tr [
     ''Ocak'', ''~Subat'', ''Mart'', ''Nisan'', ''May~is'', ''Haziran'', ''Temmuz'',
     ''A~gustos'', ''Eyl~ul'', ''Ekim'', ''Kas~im'', ''Aral~ik'']"

definition local_day_month :: "platform \<Rightarrow> jstr \<Rightarrow> jstr option" where
  "local_day_month P startsAt =
     (case date_parse startsAt of
        None \<Rightarrow> None
      | Some t \<Rightarrow>
          let l = istanbul_time P t in
          Some (int_digits (t_mday l) @ [32] @ evidence_text P (month_names ! (t_month l - 1))))"

definition weekday_rx :: rx where
  "weekday_rx =
     Opt (seqs [any_of [''pazartesi'', ''sali'', ''carsamba'', ''persembe'', ''cuma'',
                        ''cumartesi'', ''pazar''], Plus Space])"

definition stated_place_rx :: rx where
  "stated_place_rx =
     seqs [Cap 1 (seqs [Plus (Chr key_unit),
                        Rep False 0 (Some 11) (seqs [Plus Space, Plus (Chr key_unit)])]),
           Star Space, any_of [''nda'', ''nde'']]"

definition exact_title_programme :: "jstr \<Rightarrow> jstr \<Rightarrow> rx" where
  "exact_title_programme title date =
     seqs [Wordb, Lit title, Wordb,
           Opt (seqs [Plus Space, any_of [''konseri'', ''gosterisi'', ''oyunu'', ''muzikali'',
                                          ''etkinligi'', ''programi'']]),
           Plus Space, Lit date, Plus Space, weekday_rx, L ''gunu'', Plus Space,
           stated_place_rx, Wordb]"

definition dated_current_programme :: "jstr \<Rightarrow> rx" where
  "dated_current_programme date =
     seqs [Wordb, Lit date, Wordb, Plus Space, weekday_rx,
           Opt (seqs [alts [L ''aksami'', seqs [L ''sabah'', Opt (L ''i'')],
                            seqs [L ''ogleden'', Plus Space, L ''sonra'']], Plus Space]),
           stated_place_rx, Plus Space, L ''gerceklesecek'', Plus Space, L ''bu'', Plus Space,
           L ''bulusma'', Wordb]"

definition group_one :: "rx_match option \<Rightarrow> jstr" where
  "group_one m = (case m of Some m \<Rightarrow> (case group m 1 of Some s \<Rightarrow> s | None \<Rightarrow> []) | None \<Rightarrow> [])"

definition same_event_venue_conflict ::
  "platform \<Rightarrow> jstr \<Rightarrow> jstr \<Rightarrow> jstr \<Rightarrow> jstr \<Rightarrow> jstr \<Rightarrow> bool" where
  "same_event_venue_conflict P rawTitle rawDescription startsAt venue city \<longleftrightarrow>
     evidence_text P city = u ''istanbul''
     \<and> (let title = evidence_text P rawTitle; description = evidence_text P rawDescription in
        case local_day_month P startsAt of
          None \<Rightarrow> False
        | Some date \<Rightarrow>
            if title = [] \<or> description = [] then False
            else
              let leadingTitle = evidence_text P
                    (takeWhile (\<lambda>c. c \<notin> {8220, 8221, 34, 8216, 8217}) rawTitle);
                  titleEvidence = list_ex (\<lambda>candidate.
                    length candidate \<ge> 5 \<and> length (split_on 32 candidate) \<ge> 2
                    \<and> contains_text description candidate) [title, leadingTitle];
                  exact = exec (exact_title_programme title date) description;
                  statedVenue =
                    (if exact \<noteq> None then group_one exact
                     else if titleEvidence then group_one (exec (dated_current_programme date) description)
                     else []);
                  structuredTokens = evidence_tokens P venue;
                  statedTokens = evidence_tokens P statedVenue
              in statedVenue \<noteq> [] \<and> structuredTokens \<noteq> [] \<and> statedTokens \<noteq> []
                 \<and> \<not> list_ex (\<lambda>t. t \<in> set statedTokens) structuredTokens)"

definition sold_out_rx :: "jstr \<Rightarrow> jstr \<Rightarrow> rx" where
  "sold_out_rx date venue =
     seqs [Wordb, Lit date, Wordb, Opt (seqs [Plus Space, any_of [''de'', ''da'']]), Plus Space,
           Lit venue, Opt (seqs [Plus Space, any_of [''ta'', ''te'', ''da'', ''de'']]),
           Plus Space, L ''gerceklesecek'', Plus Space, L ''istanbul'', Plus Space,
           L ''konserinin'', Plus Space, L ''biletleri'',
           Opt (seqs [Plus Space, L ''kisa'', Plus Space, L ''surede'']), Plus Space,
           L ''tukendi'', Wordb]"

text \<open>The availability is the parameter \<open>available\<close>: the field equals \<open>available\<close>.\<close>

definition same_event_sold_out_conflict ::
  "platform \<Rightarrow> bool \<Rightarrow> jstr \<Rightarrow> jstr \<Rightarrow> jstr \<Rightarrow> jstr \<Rightarrow> jstr \<Rightarrow> bool" where
  "same_event_sold_out_conflict P available rawTitle rawDescription startsAt rawVenue city \<longleftrightarrow>
     available \<and> evidence_text P city = u ''istanbul''
     \<and> (let description = evidence_text P rawDescription; title = evidence_text P rawTitle;
            venue = evidence_text P rawVenue
        in if title = [] \<or> venue = [] \<or> \<not> contains_text description title then False
           else case local_day_month P startsAt of
                  None \<Rightarrow> False
                | Some date \<Rightarrow> test (sold_out_rx date venue) description)"

section \<open>What the Biletix rule reports\<close>

text \<open>A window it reports is well formed, and only a flexible listing has one.\<close>

lemma biletix_timing_ok:
  assumes "biletix_attendance_timing P i = Some t"
  shows "timing_ok t" and "\<And>f v. t = AdmissionWindow f v \<Longrightarrow> bt_flexible i = JBool True"
  using assms exact_instant_canonical
  by (auto simp: biletix_attendance_timing_def Let_def split: if_splits option.splits)

end
