(* ===== verification/Sha256_Reference.thy ===== *)
theory Sha256_Reference
  imports Sha256 Complex_Main
begin

unbundle bit_operations_syntax

text \<open>
  SHA-256 as the standard specifies it, to compare \<open>contracts/hash.ts\<close> with: the constants are the
  fractional parts of roots of primes, the padding is given by its length, a message word is read
  as a number in base 256, the schedule is a recurrence over the index of a word, and rotations are
  the word rotations. Nothing of the routine is used here except the text of a hexadecimal digit.
\<close>

section \<open>Constants\<close>

definition small_primes :: "nat \<Rightarrow> nat list" where
  "small_primes n = filter (\<lambda>p. list_all (\<lambda>d. \<not> d dvd p) [2..<p]) [2..<n]"

text \<open>The first 32 bits of the fractional part: a word keeps the value modulo \<open>2 ^ 32\<close>.\<close>

definition root_bits :: "nat \<Rightarrow> nat \<Rightarrow> u32" where
  "root_bits k p = word_of_int \<lfloor>root k (real p) * 2 ^ 32\<rfloor>"

definition std_constant :: "nat \<Rightarrow> u32" where
  "std_constant t = root_bits 3 (small_primes 312 ! t)"

definition std_initial :: "u32 list" where
  "std_initial = map (root_bits 2) (take 8 (small_primes 312))"

section \<open>Functions\<close>

definition std_choose :: "u32 \<Rightarrow> u32 \<Rightarrow> u32 \<Rightarrow> u32" where
  "std_choose x y z = (x AND y) OR (NOT x AND z)"

definition std_majority :: "u32 \<Rightarrow> u32 \<Rightarrow> u32 \<Rightarrow> u32" where
  "std_majority x y z = (x AND y) OR (x AND z) OR (y AND z)"

definition std_big_sigma0 :: "u32 \<Rightarrow> u32" where
  "std_big_sigma0 x = word_rotr 2 x XOR word_rotr 13 x XOR word_rotr 22 x"

definition std_big_sigma1 :: "u32 \<Rightarrow> u32" where
  "std_big_sigma1 x = word_rotr 6 x XOR word_rotr 11 x XOR word_rotr 25 x"

definition std_sigma0 :: "u32 \<Rightarrow> u32" where
  "std_sigma0 x = word_rotr 7 x XOR word_rotr 18 x XOR drop_bit 3 x"

definition std_sigma1 :: "u32 \<Rightarrow> u32" where
  "std_sigma1 x = word_rotr 17 x XOR word_rotr 19 x XOR drop_bit 10 x"

section \<open>Preprocessing\<close>

text \<open>The bit 1, the fewest zeros that leave room for 64 bits, and the length in bits.\<close>

definition std_padding :: "nat \<Rightarrow> nat list" where
  "std_padding n =
     [128] @ replicate ((119 - n mod 64) mod 64) 0 @ map (\<lambda>i. n * 8 div 256 ^ (7 - i) mod 256) [0..<8]"

definition std_word :: "nat list \<Rightarrow> nat \<Rightarrow> u32" where
  "std_word M j =
     of_nat (((M ! (4 * j) * 256 + M ! (4 * j + 1)) * 256 + M ! (4 * j + 2)) * 256 + M ! (4 * j + 3))"

section \<open>The digest\<close>

function std_schedule :: "nat list \<Rightarrow> nat \<Rightarrow> u32" where
  "std_schedule M t =
     (if t < 16 then std_word M t
      else std_sigma1 (std_schedule M (t - 2)) + std_schedule M (t - 7)
           + std_sigma0 (std_schedule M (t - 15)) + std_schedule M (t - 16))"
  by pat_completeness auto
termination by (relation "measure snd") auto

declare std_schedule.simps [simp del]

fun std_step :: "nat list \<Rightarrow> nat \<Rightarrow> regs \<Rightarrow> regs" where
  "std_step M t (Regs a b c d e f g h) =
     (let T1 = h + std_big_sigma1 e + std_choose e f g + std_constant t + std_schedule M t;
          T2 = std_big_sigma0 a + std_majority a b c
      in Regs (T1 + T2) a b c (d + T1) e f g)"

definition std_block :: "u32 list \<Rightarrow> nat list \<Rightarrow> u32 list" where
  "std_block H M = map2 (+) H (regs_list (fold (std_step M) [0..<64] (list_regs H)))"

text \<open>The \<open>N\<close> blocks of the padded message, one after the other.\<close>

definition std_digest :: "nat list \<Rightarrow> u32 list" where
  "std_digest bytes =
     (let padded = bytes @ std_padding (length bytes)
      in foldl std_block std_initial
           (map (\<lambda>i. take 64 (drop (64 * i) padded)) [0..<length padded div 64]))"

definition std_hex :: "nat list \<Rightarrow> jstr" where
  "std_hex bytes =
     concat (map (\<lambda>w. map (\<lambda>i. hex_digit (unat w div 16 ^ (7 - i) mod 16)) [0..<8]) (std_digest bytes))"

section \<open>The tables of the routine\<close>

lemma root_bits_eq:
  assumes "0 < k" and "n ^ k \<le> p * (2 ^ 32) ^ k" and "p * (2 ^ 32) ^ k < (n + 1) ^ k"
  shows "root_bits k p = of_nat n"
proof -
  let ?r = "root k (real p) * 2 ^ 32"
  have pow: "?r ^ k = real (p * (2 ^ 32) ^ k)"
    using assms(1) by (simp add: power_mult_distrib)
  have nonneg: "0 \<le> ?r" using assms(1) by simp
  have "real (n ^ k) \<le> real (p * (2 ^ 32) ^ k)" by (rule of_nat_mono[OF assms(2)])
  then have "real n ^ k \<le> ?r ^ k" by (simp only: pow of_nat_power)
  then have low: "real n \<le> ?r"
    by (rule power_mono_iff[OF of_nat_0_le_iff nonneg assms(1), THEN iffD1])
  have "real (p * (2 ^ 32) ^ k) < real ((n + 1) ^ k)" using assms(3) by (simp only: of_nat_less_iff)
  then have "?r ^ k < (real n + 1) ^ k" by (simp only: pow of_nat_power of_nat_add of_nat_1)
  then have high: "?r < real n + 1" by (rule power_less_imp_less_base) simp
  have "\<lfloor>?r\<rfloor> = int n" using low high by (intro floor_unique) simp_all
  then show ?thesis by (simp add: root_bits_def)
qed

text \<open>The integer parts of the scaled roots: of the primes, and of their cubes.\<close>

definition cube_roots :: "nat list" where
  "cube_roots = [
    5411319704, 6194414737, 7344290767, 8215976869, 9551921755, 10098905585, 11043570340,
    11460697813, 12214315672, 13195500289, 13492127166, 14311783875, 14809980276, 15046980094,
    15499789991, 16133124468, 16720292289, 16907126662, 17444216262, 17784676812, 17950125167,
    18429019306, 18734950876, 19175934170, 19734090066, 20001703533, 20132865992, 20390182855,
    20516441075, 20764397895, 21588763473, 21813078375, 22141143685, 22248366392, 22769593852,
    22871018771, 23170020180, 23461497531, 23651862830, 23931792517, 24205322401, 24295138891,
    24734567280, 24820601251, 24990902297, 25075189284, 25569408389, 26045227120, 26200031510,
    26276752392, 26428864332, 26653801653, 26727943347, 27092625994, 27306805839, 27517677555,
    27725365998, 27793908591, 27997534228, 28131656200, 28198240250, 28526537963, 28973835255,
    29099129074]"

definition square_roots :: "nat list" where
  "square_roots = [
    6074000999, 7439101573, 9603838834, 11363415354, 14244795007, 15485724812, 17708603819,
    18721328409]"

text \<open>Below \<open>18 * 18\<close>, a number with a divisor has one below 18.\<close>

lemma small_divisor:
  fixes p :: nat
  assumes "p < 324"
  shows "list_all (\<lambda>d. \<not> d dvd p) [2..<p] \<longleftrightarrow> list_all (\<lambda>d. \<not> d dvd p \<or> p \<le> d) [2..<18]"
proof -
  have "\<exists>e \<in> {2..<18}. e dvd p \<and> e < p" if d: "d dvd p" "2 \<le> d" "d < p" for d
  proof -
    obtain e where e: "p = d * e" using d(1) by blast
    have "e \<noteq> 0" "e \<noteq> 1" using e d by auto
    then have e2: "2 \<le> e" "e < p" using e d(2) by simp_all
    show ?thesis
    proof (cases "d < 18")
      case True
      then show ?thesis using d by auto
    next
      case False
      have "e < 18"
      proof (rule ccontr)
        assume "\<not> e < 18"
        then have "18 * 18 \<le> d * e" using False by (intro mult_le_mono) simp_all
        then show False using assms e by simp
      qed
      then show ?thesis using e e2 by (intro bexI[of _ e]) simp_all
    qed
  qed
  then have "(\<exists>d \<in> {2..<p}. d dvd p) \<longleftrightarrow> (\<exists>d \<in> {2..<18}. d dvd p \<and> d < p)"
    by (meson atLeastLessThan_iff)
  then show ?thesis unfolding list_all_iff set_upt by (meson not_less)
qed

lemma small_primes_312: "small_primes 312 = [2, 3, 5, 7, 11, 13, 17, 19, 23, 29, 31, 37, 41, 43, 47, 53, 59, 61, 67, 71, 73, 79,
    83, 89, 97, 101, 103, 107, 109, 113, 127, 131, 137, 139, 149, 151, 157, 163, 167, 173, 179, 181, 191, 193,
    197, 199, 211, 223, 227, 229, 233, 239, 241, 251, 257, 263, 269, 271, 277, 281, 283, 293, 307, 311]"
proof -
  have "small_primes 312 = filter (\<lambda>p. list_all (\<lambda>d. \<not> d dvd p \<or> p \<le> d) [2..<18]) [2..<312]"
    unfolding small_primes_def by (rule filter_cong[OF refl]) (simp add: small_divisor del: upt_rec_numeral)
  also have "\<dots> = [2, 3, 5, 7, 11, 13, 17, 19, 23, 29, 31, 37, 41, 43, 47, 53, 59, 61, 67, 71, 73, 79,
    83, 89, 97, 101, 103, 107, 109, 113, 127, 131, 137, 139, 149, 151, 157, 163, 167, 173, 179, 181, 191, 193,
    197, 199, 211, 223, 227, 229, 233, 239, 241, 251, 257, 263, 269, 271, 277, 281, 283, 293, 307, 311]" by simp
  finally show ?thesis .
qed

lemma roots_exact:
  "list_all2 (\<lambda>p n. n ^ 3 \<le> p * (2 ^ 32) ^ 3 \<and> p * (2 ^ 32) ^ 3 < (n + 1) ^ 3) (small_primes 312) cube_roots"
  "list_all2 (\<lambda>p n. n ^ 2 \<le> p * (2 ^ 32) ^ 2 \<and> p * (2 ^ 32) ^ 2 < (n + 1) ^ 2)
     (take 8 (small_primes 312)) square_roots"
  unfolding small_primes_312 by (simp_all add: cube_roots_def square_roots_def)

lemma tables_reduced:
  "sha_constants = map of_nat cube_roots" "initial_state = map of_nat square_roots"
  by (simp_all add: sha_constants_def cube_roots_def initial_state_def square_roots_def)

lemma table_roots:
  "list_all2 (\<lambda>p n. n ^ k \<le> p * (2 ^ 32) ^ k \<and> p * (2 ^ 32) ^ k < (n + 1) ^ k) ps ns \<Longrightarrow> 0 < k \<Longrightarrow>
     map (root_bits k) ps = map of_nat ns"
  by (induction ps ns rule: list_all2_induct) (simp_all add: root_bits_eq)

lemma initial_state_std: "initial_state = std_initial"
  using table_roots[OF roots_exact(2)] by (simp add: std_initial_def tables_reduced)

lemma sha_constants_std: "sha_constants = map std_constant [0..<64]"
proof -
  have "sha_constants = map (root_bits 3) (small_primes 312)"
    using table_roots[OF roots_exact(1)] by (simp add: tables_reduced)
  also have "\<dots> = map std_constant [0..<64]"
  proof -
    have "64 = length (small_primes 312)" by (simp add: small_primes_312)
    then have "map std_constant [0..<64] = map (root_bits 3) (map ((!) (small_primes 312)) [0..<length (small_primes 312)])"
      by (simp only: map_map o_def std_constant_def[abs_def])
    then show ?thesis by (simp only: map_nth)
  qed
  finally show ?thesis .
qed

section \<open>Functions and rotations\<close>

lemma choose_std: "(x AND y) XOR (NOT x AND z) = std_choose x y z"
  unfolding std_choose_def by (rule bit_word_eqI) (auto simp: bit_simps)

lemma majority_std: "(x AND y) XOR (x AND z) XOR (y AND z) = std_majority x y z"
  unfolding std_majority_def by (rule bit_word_eqI) (auto simp: bit_simps)

lemma rotations_std:
  "rotate_bits x 2 XOR rotate_bits x 13 XOR rotate_bits x 22 = std_big_sigma0 x"
  "rotate_bits x 6 XOR rotate_bits x 11 XOR rotate_bits x 25 = std_big_sigma1 x"
  "rotate_bits x 7 XOR rotate_bits x 18 XOR drop_bit 3 x = std_sigma0 x"
  "rotate_bits x 17 XOR rotate_bits x 19 XOR drop_bit 10 x = std_sigma1 x"
  by (simp_all add: std_big_sigma0_def std_big_sigma1_def std_sigma0_def std_sigma1_def
      rotate_bits_word_rotr)

section \<open>Padding\<close>

lemma div_mod_bytes:
  fixes m :: nat
  shows "0 < a \<Longrightarrow> m mod (a * (b * c)) div a mod b = m div a mod b"
  by (simp add: mod_mult2_eq mod_mod_cancel)

lemma be_bytes_plain:
  "be_bytes m = [m div 16777216 mod 256, m div 65536 mod 256, m div 256 mod 256, m mod 256]"
proof -
  have "m mod 4294967296 div 16777216 mod 256 = m div 16777216 mod 256"
    using div_mod_bytes[of 16777216 m 256 1] by simp
  moreover have "m mod 4294967296 div 65536 mod 256 = m div 65536 mod 256"
    using div_mod_bytes[of 65536 m 256 256] by simp
  moreover have "m mod 4294967296 div 256 mod 256 = m div 256 mod 256"
    using div_mod_bytes[of 256 m 256 65536] by simp
  moreover have "m mod 4294967296 mod 256 = m mod 256"
    using div_mod_bytes[of 1 m 256 16777216] by simp
  ultimately show ?thesis by (simp add: be_bytes_def)
qed

lemma be_bytes_low: "be_bytes (m mod 4294967296) = be_bytes m"
  unfolding be_bytes_def mod_mod_trivial ..

lemma be_bytes_std:
  "be_bytes (m div 4294967296) @ be_bytes (m mod 4294967296) = map (\<lambda>i. m div 256 ^ (7 - i) mod 256) [0..<8]"
  unfolding be_bytes_low unfolding be_bytes_plain
  by (simp add: upt_rec div_mult2_eq[symmetric] del: upt_rec_numeral)

lemma pad_message_std: "pad_message bs = bs @ std_padding (length bs)"
proof -
  have "(120 - Suc n mod 64) mod 64 = (119 - n mod 64) mod 64" for n :: nat
    by (cases "n mod 64 = 63") (simp_all add: mod_Suc)
  then show ?thesis
    by (simp add: pad_message_def std_padding_def Let_def push_zeros_replicate be_bytes_std del: upt_rec_numeral)
qed

section \<open>Message words and the schedule\<close>

lemma append_byte:
  fixes w :: u32
  assumes "d < 256"
  shows "push_bit 8 w OR of_nat d = w * 256 + of_nat d"
proof -
  have "\<not> bit d n" if "8 \<le> n" for n
  proof -
    have "(2 :: nat) ^ 8 \<le> 2 ^ n" using that by (rule power_increasing) simp
    then have "d div 2 ^ n = 0" using assms by simp
    then show ?thesis by (simp add: bit_iff_odd)
  qed
  then have "push_bit 8 w + of_nat d = push_bit 8 w OR of_nat d"
    by (intro disjunctive_add) (auto simp: bit_simps not_le)
  then show ?thesis by (simp add: push_bit_eq_mult)
qed

lemma word_at_std:
  assumes "list_all (\<lambda>b. b < 256) M" and "4 * j + 3 < length M"
  shows "word_at M (j * 4) = std_word M j"
proof -
  have lt: "M ! (4 * j + k) < 256" if "k \<le> 3" for k
    using assms that by (simp add: list_all_length)
  have "word_at M (j * 4) =
      push_bit 8 (push_bit 8 (push_bit 8 (of_nat (M ! (4 * j))) OR of_nat (M ! (4 * j + 1)))
        OR of_nat (M ! (4 * j + 2))) OR of_nat (M ! (4 * j + 3))"
    by (simp add: word_at_def push_bit_or push_bit_push_bit mult.commute[of j] or.assoc)
  also have "\<dots> = std_word M j"
    using lt[of 1] lt[of 2] lt[of 3] by (simp add: append_byte std_word_def)
  finally show ?thesis .
qed

lemma extend_word_std:
  assumes "16 \<le> k"
  shows "extend_word (map (std_schedule M) [0..<k]) = std_schedule M k"
  using assms std_schedule.simps[of M k]
  by (simp add: extend_word_def Let_def rotations_std algebra_simps)

lemma extend_words_std:
  "16 \<le> k \<Longrightarrow> extend_words n (map (std_schedule M) [0..<k]) = map (std_schedule M) [0..<k + n]"
proof (induction n arbitrary: k)
  case (Suc n)
  then show ?case using Suc.IH[of "Suc k"] by (simp add: extend_word_std)
qed simp

lemma schedule_words_std:
  assumes "list_all (\<lambda>b. b < 256) M" and "length M = 64"
  shows "schedule_words M = map (std_schedule M) [0..<64]"
proof -
  have "map (\<lambda>i. word_at M (i * 4)) [0..<16] = map (std_schedule M) [0..<16]"
    using word_at_std[OF assms(1)] assms(2) by (intro map_cong refl) (simp add: std_schedule.simps)
  then show ?thesis
    unfolding schedule_words_def using extend_words_std[of 16 48 M] by (simp only: order_refl) simp
qed

section \<open>Blocks\<close>

lemma sha_round_std: "sha_round r (std_constant t) (std_schedule M t) = std_step M t r"
  by (cases r) (simp add: Let_def rotations_std choose_std majority_std)

lemma compress_block_std:
  assumes "list_all (\<lambda>b. b < 256) M" and "length M = 64"
  shows "compress_block H M = std_block H M"
proof -
  have "zip sha_constants (schedule_words M) = map (\<lambda>t. (std_constant t, std_schedule M t)) [0..<64]"
    unfolding sha_constants_std schedule_words_std[OF assms] by (simp add: zip_map_map zip_same_conv_map)
  then have "fold (\<lambda>(k, w) r. sha_round r k w) (zip sha_constants (schedule_words M)) r
      = fold (std_step M) [0..<64] r" for r
    by (simp add: fold_map o_def sha_round_std[abs_def] del: upt_rec_numeral)
  then show ?thesis by (simp add: compress_block_def std_block_def)
qed

lemma compress_blocks_foldl:
  "length bs = 64 * n \<Longrightarrow>
     compress_blocks H bs = foldl compress_block H (map (\<lambda>i. take 64 (drop (64 * i) bs)) [0..<n])"
proof (induction n arbitrary: H bs)
  case 0
  then show ?case by (simp add: compress_blocks.simps)
next
  case (Suc n)
  have "bs \<noteq> []" using Suc.prems by auto
  then have "compress_blocks H bs = compress_blocks (compress_block H (take 64 bs)) (drop 64 bs)"
    by (subst compress_blocks.simps) simp
  also have "\<dots> = foldl compress_block (compress_block H (take 64 bs))
      (map (\<lambda>i. take 64 (drop (64 * i) (drop 64 bs))) [0..<n])"
    using Suc.prems by (intro Suc.IH) simp
  also have "\<dots> = foldl compress_block H (map (\<lambda>i. take 64 (drop (64 * i) bs)) [0..<Suc n])"
    by (simp add: upt_conv_Cons map_Suc_upt[symmetric] o_def add.commute del: upt_Suc)
  finally show ?case .
qed

lemma foldl_cong_set:
  "(\<And>x a. x \<in> set xs \<Longrightarrow> f a x = g a x) \<Longrightarrow> foldl f a xs = foldl g a xs"
  by (induction xs arbitrary: a) auto

lemma digest_std:
  assumes "list_all (\<lambda>b. b < 256) bs"
  shows "compress_blocks initial_state (pad_message bs) = std_digest bs"
proof -
  define padded where "padded = bs @ std_padding (length bs)"
  have p: "pad_message bs = padded" by (simp add: pad_message_std padded_def)
  have len: "length padded = 64 * (length padded div 64)"
    using length_pad_message[of bs] unfolding p by auto
  have small: "list_all (\<lambda>b. b < 256) padded"
    using assms by (auto simp: padded_def std_padding_def list_all_iff)
  have block: "compress_block H (take 64 (drop (64 * i) padded)) = std_block H (take 64 (drop (64 * i) padded))"
    if "i < length padded div 64" for H i
  proof (rule compress_block_std)
    show "list_all (\<lambda>b. b < 256) (take 64 (drop (64 * i) padded))"
      using small by (auto simp: list_all_iff dest: in_set_takeD in_set_dropD)
    show "length (take 64 (drop (64 * i) padded)) = 64" using that len by simp
  qed
  show ?thesis
    unfolding p compress_blocks_foldl[OF len] std_digest_def Let_def padded_def[symmetric] initial_state_std
    by (rule foldl_cong_set) (auto simp: block)
qed

section \<open>The text\<close>

lemma word_hex_std: "word_hex w = map (\<lambda>i. hex_digit (unat w div 16 ^ (7 - i) mod 16)) [0..<8]"
proof -
  have "unat (drop_bit (4 * i) w) = unat w div 16 ^ i" for i
  proof -
    have "(2 :: nat) ^ (4 * i) = 16 ^ i" by (simp add: power_mult)
    moreover have "unat (drop_bit (4 * i) w) = drop_bit (4 * i) (unat w)" by (rule unat_drop_bit_eq)
    ultimately show ?thesis by (simp only: drop_bit_eq_div)
  qed
  then show ?thesis by (simp add: word_hex_def upt_rec del: upt_rec_numeral)
qed

lemma low_six: "128 + x mod 64 < (256 :: nat)"
proof -
  have "x mod 64 < 64" by simp
  then show ?thesis by linarith
qed

lemma high_bits: "x < a * b \<Longrightarrow> c + a \<le> 256 \<Longrightarrow> c + x div b < (256 :: nat)"
  using less_mult_imp_div_less[of x a b] by linarith

lemma utf8_sequence_bytes:
  "c < 65536 \<Longrightarrow> list_all (\<lambda>b. b < 256) (utf8_three c)"
  "c < 2097152 \<Longrightarrow> list_all (\<lambda>b. b < 256) (utf8_four c)"
  using high_bits[of c 16 4096 224] high_bits[of c 8 262144 240]
  by (simp_all add: utf8_three_def utf8_four_def low_six)

lemma utf8_bytes: "list_all (\<lambda>c. c < 65536) s \<Longrightarrow> list_all (\<lambda>b. b < 256) (utf8 s)"
proof (induction s rule: utf8.induct)
  case (2 c r)
  have two: "c < 2048 \<Longrightarrow> 192 + c div 64 < 256" by (rule high_bits[of c 32 64 192]) simp_all
  have pair: "list_all (\<lambda>b. b < 256) (utf8_four (65536 + (c - 55296) * 1024 + (d - 56320)))"
    if "high_surrogate c" "low_surrogate d" for d
  proof (rule utf8_sequence_bytes(2))
    have "(c - 55296) * 1024 \<le> 1023 * 1024" "d - 56320 < 1024"
      using that by (auto simp: high_surrogate_def low_surrogate_def intro!: mult_le_mono1)
    then show "65536 + (c - 55296) * 1024 + (d - 56320) < 2097152" by simp
  qed
  have small: "c < 65536" "list_all (\<lambda>c. c < 65536) r" using "2.prems" by simp_all
  consider (low) "c < 2048" | (high) "\<not> c < 2048" "high_surrogate c" | (other) "\<not> c < 2048" "\<not> high_surrogate c"
    by blast
  then show ?case
  proof cases
    case low
    then show ?thesis using "2.IH"(1,2) small two by (cases "c < 128") (simp_all add: low_six)
  next
    case high
    show ?thesis
    proof (cases r)
      case Nil
      then show ?thesis using high by (simp add: utf8_sequence_bytes)
    next
      case (Cons d r')
      show ?thesis
        using "2.IH" high small Cons pair[of d]
        by (cases "low_surrogate d") (simp_all add: utf8_sequence_bytes)
    qed
  next
    case other
    then show ?thesis
      using "2.IH"(5,6) small by (cases "low_surrogate c") (simp_all add: utf8_sequence_bytes)
  qed
qed simp

lemma sha256_hex_std: "list_all (\<lambda>c. c < 65536) s \<Longrightarrow> sha256_hex s = std_hex (utf8 s)"
  by (simp add: sha256_hex_def std_hex_def digest_std utf8_bytes word_hex_std[abs_def])

end
