(* ===== verification/Identity_Properties.thy ===== *)
theory Identity_Properties
  imports Session_Facts Evidence Sha256_Reference
begin

text \<open>
  What identity resolution promises to its callers, stated over \<open>resolveIdentity\<close> and
  \<open>resolveVenues\<close> as a whole, with the properties of the parts it is built from: the
  disjoint-set forest, the text keys, the reviewed seeds and the hash that makes the ids.
\<close>

section \<open>Two listings to try the properties on\<close>

definition sample_venue :: listing_venue where
  "sample_venue = \<lparr>vn_name = u ''Moda Sahnesi'', vn_providerVenueId = None, vn_address = None,
     vn_district = None, vn_geo = None\<rparr>"

definition sample_listing :: "string \<Rightarrow> string \<Rightarrow> identity_listing" where
  "sample_listing i provider = \<lparr>il_listingId = u i, il_provider = u provider, il_title = u ''Hamlet'',
     il_description = [], il_category = u ''Tiyatro'', il_startsAt = u ''2026-10-05T17:30:00.000Z'',
     il_attendanceTiming = None, il_venue = sample_venue, il_city = None\<rparr>"

lemma sample_listing_simps [simp]:
  "il_listingId (sample_listing i p) = u i"
  "il_provider (sample_listing i p) = u p"
  "il_venue (sample_listing i p) = sample_venue"
  "sample_listing i p = sample_listing j q \<longleftrightarrow> i = j \<and> p = q"
  by (auto simp: sample_listing_def)

section \<open>Sessions\<close>

text \<open>
  C24: two listings that \<open>resolveIdentity\<close> puts into one session could be merged on their own
  evidence: the same instant, city and venue, different providers, no conflict of attendance
  timing or of policy, and titles that are equal, have one reviewed seed, or contain one another.
  The closure under transitivity never joins a pair that the rules reject or leave unresolved.
  The separator of the pair keys (unit 31) must not occur in the ids.
\<close>

theorem resolve_identity_sound:
  assumes "resolve_identity P ls = Inr r" and "\<forall>l \<in> set ls. 31 \<notin> set (il_listingId l)"
  shows "\<forall>s \<in> set (ir_sessions r).
     pairwise (\<lambda>a b. may_merge P (map_of (ir_listingVenueIds r) (il_listingId a))
                               (map_of (ir_listingVenueIds r) (il_listingId b)) a b)
       {l \<in> set ls. il_listingId l \<in> set (rs_listingIds s)}"
  using resolve_identity_compatible[OF assms] by (auto simp: pairwise_def)

theorem resolve_identity_sound_witness:
  "\<exists>r. resolve_identity turkish_platform [sample_listing ''a'' ''p'', sample_listing ''b'' ''q''] = Inr r
     \<and> (\<forall>s \<in> set (ir_sessions r).
          pairwise (\<lambda>a b. may_merge turkish_platform (map_of (ir_listingVenueIds r) (il_listingId a))
                        (map_of (ir_listingVenueIds r) (il_listingId b)) a b)
            {l \<in> {sample_listing ''a'' ''p'', sample_listing ''b'' ''q''}.
               il_listingId l \<in> set (rs_listingIds s)})"
proof -
  let ?ls = "[sample_listing ''a'' ''p'', sample_listing ''b'' ''q'']"
  obtain r where r: "resolve_identity turkish_platform ?ls = Inr r"
    using resolve_identity_error[of turkish_platform ?ls] by (auto simp: u_def)
  have "\<forall>l \<in> set ?ls. 31 \<notin> set (il_listingId l)" by (simp add: u_def cu_def)
  from resolve_identity_sound[OF r this] r show ?thesis by auto
qed


text \<open>
  C33: the result of \<open>resolveIdentity\<close> does not depend on the order in which the listings
  arrive, when the platform's collation is a consistent comparison and holds no two of their ids
  for equal that differ. (The collation may do that for other texts: it holds canonically
  equivalent ones for equal.)
\<close>

theorem resolve_identity_order_free:
  assumes "comparator_fn (pl_collate P)"
    and "\<forall>a \<in> set ls. \<forall>b \<in> set ls. pl_collate P (il_listingId a) (il_listingId b) = 0
           \<longrightarrow> il_listingId a = il_listingId b"
    and "mset ls = mset ls'"
  shows "resolve_identity P ls = resolve_identity P ls'"
  using assms by (rule resolve_identity_order)

text \<open>A platform whose collation does not see combining marks.\<close>

definition markless_platform :: platform where
  "markless_platform = turkish_platform\<lparr>pl_collate :=
     (\<lambda>a b. cmp_int (filter (\<lambda>c. c < 768 \<or> 879 < c) a) (filter (\<lambda>c. c < 768 \<or> 879 < c) b))\<rparr>"

theorem resolve_identity_order_free_witness:
  "pl_collate markless_platform [101] [101, 769] = 0
   \<and> resolve_identity markless_platform [sample_listing ''a'' ''p'', sample_listing ''b'' ''q'']
       = resolve_identity markless_platform [sample_listing ''b'' ''q'', sample_listing ''a'' ''p'']"
proof
  show "pl_collate markless_platform [101] [101, 769] = 0"
    by (simp add: markless_platform_def cmp_int_def)
  show "resolve_identity markless_platform [sample_listing ''a'' ''p'', sample_listing ''b'' ''q'']
       = resolve_identity markless_platform [sample_listing ''b'' ''q'', sample_listing ''a'' ''p'']"
  proof (rule resolve_identity_order_free)
    show "comparator_fn (pl_collate markless_platform)"
      using comparator_cmp_int[of "filter (\<lambda>c. c < 768 \<or> 879 < c) :: jstr \<Rightarrow> jstr"]
      by (simp add: markless_platform_def)
  qed (simp_all add: markless_platform_def cmp_int_def u_def cu_def)
qed

section \<open>Venues\<close>

text \<open>
  C26: \<open>resolveVenues\<close> never puts conflicting listings into one venue: for any two of its members
  the stated districts and shores agree, coordinates are at most a kilometre apart and one
  provider's venue ids are equal, although the code compares only one representative per
  evidence and joins venues transitively.
\<close>

theorem resolve_venues_no_conflict:
  assumes "distinct (map il_listingId ls)"
  shows "\<forall>v \<in> set (vr_venues (resolve_venues P ls)).
     pairwise (\<lambda>a b. \<not> venue_conflict P a b) {l \<in> set ls. il_listingId l \<in> set (rv_listingIds v)}"
  using resolve_venues_compatible[OF assms] by (auto simp: pairwise_def)

theorem resolve_venues_no_conflict_witness:
  "list_all (\<lambda>v. pairwise (\<lambda>a b. \<not> venue_conflict turkish_platform a b)
       {l \<in> {sample_listing ''a'' ''p'', sample_listing ''b'' ''q''}.
          il_listingId l \<in> set (rv_listingIds v)})
     (vr_venues (resolve_venues turkish_platform
        [sample_listing ''a'' ''p'', sample_listing ''b'' ''q'']))"
  using resolve_venues_no_conflict[of "[sample_listing ''a'' ''p'', sample_listing ''b'' ''q'']"
      turkish_platform] by (simp add: list_all_iff)

text \<open>
  C34: the disjoint-set forest refines a partition: \<open>find\<close> returns the class and changes no class,
  and \<open>union\<close> merges exactly the two classes, naming the result by the smaller root.
\<close>

theorem disjoint_set_refines_partition:
  assumes "ds_ok n d" "i < n" "j < n"
  shows "fst (ds_find d i) = ds_class d i
    \<and> (\<forall>k < n. ds_class (snd (ds_find d i)) k = ds_class d k)
    \<and> fst (ds_union d i j) = min (ds_class d i) (ds_class d j)
    \<and> (\<forall>k < n. ds_class (snd (ds_union d i j)) k =
           (if ds_class d k = max (ds_class d i) (ds_class d j)
            then min (ds_class d i) (ds_class d j) else ds_class d k))
    \<and> ds_ok n (snd (ds_union d i j))"
  using ds_find_spec[OF assms(1,2)] ds_union_spec[OF assms] by blast

theorem disjoint_set_refines_partition_witness:
  "fst (ds_union (snd (ds_union (ds_new 4) 1 2)) 3 2) = 1
     \<and> ds_class (snd (ds_union (snd (ds_union (ds_new 4) 1 2)) 3 2)) 3 = 1"
proof -
  have o: "ds_ok 4 (ds_new 4)" by (rule ds_new_ok)
  have s: "\<forall>k < 4. ds_class (snd (ds_union (ds_new 4) 1 2)) k = (if k = 2 then 1 else k)"
    "ds_ok 4 (snd (ds_union (ds_new 4) 1 2))"
    using disjoint_set_refines_partition[OF o, of 1 2] by (simp_all add: ds_new_class)
  show ?thesis using disjoint_set_refines_partition[OF s(2), of 3 2] s(1) by simp
qed

section \<open>Keys\<close>

text \<open>
  Every normalised text is canonical, whatever the platform's case mapping and decomposition
  do: lower-case letters and digits in words separated by single spaces, none at the ends.
\<close>

theorem normalized_text_canonical:
  "spaced (normalize_identity_text P s) \<and> spaced (evidence_text P s)"
  using identity_text_spaced merge_normalize_spaced[of P s] merge_normalize_eq_evidence[of P s]
  by simp_all

text \<open>
  The venue seed of a listing is a reviewed one: an alias group that contains the normalised
  venue name, or one of the reviewed workshop venues.
\<close>

theorem venue_seed_reviewed:
  assumes "venue_seed_identity P l = Some k"
  shows "(\<exists>g \<in> set venue_alias_groups. k = u ''venue:'' @ normalize_identity_text P (hd g)
            \<and> normalize_identity_text P (vn_name (il_venue l)) \<in> normalize_identity_text P ` set g)
       \<or> k \<in> wv_key ` set (workshop_venues P)"
proof -
  have w: "workshop_venue_seed P n a vs = Some (Some k) \<Longrightarrow> k \<in> wv_key ` set vs" for n a vs
    by (induction vs) (auto split: if_splits option.splits)
  show ?thesis
    using assms w alias_map_group
    by (fastforce simp: venue_seed_identity_def venue_seed_map_def Let_def
        split: if_splits option.splits)
qed

theorem venue_seed_reviewed_witness:
  fixes fabrikafa :: identity_listing
  defines "fabrikafa \<equiv> sample_listing ''a'' ''p''
     \<lparr>il_venue := sample_venue\<lparr>vn_name := tr ''Fabrikafa Make & Coffee''\<rparr>\<rparr>"
  shows "venue_seed_identity turkish_platform fabrikafa = Some (u ''venue:reviewed:fabrikafa'')
    \<and> u ''venue:reviewed:fabrikafa'' \<in> wv_key ` set (workshop_venues turkish_platform)"
proof -
  have city: "normalize_identity_text turkish_platform (tr ''~Istanbul'') = u ''istanbul''"
    and empty: "normalize_identity_text turkish_platform [] = []" by code_simp+
  have "workshop_venue_seed P (normalize_identity_text P (tr ''Fabrikafa Make & Coffee'')) []
      (workshop_venues P) = Some (Some (u ''venue:reviewed:fabrikafa''))" for P
    by (simp only: workshop_venues_def workshop_venue_seed.simps workshop_venue.simps list.map
        list_ex_iff list.set bex_simps if_True simp_thms if_False)
  then have e: "venue_seed_identity turkish_platform fabrikafa = Some (u ''venue:reviewed:fabrikafa'')"
    by (simp only: venue_seed_identity_def fabrikafa_def sample_listing_def sample_venue_def city empty
        or_empty_def Let_def option.case identity_listing.simps listing_venue.simps simp_thms if_False)
  show ?thesis using venue_seed_reviewed[OF e] e by (auto simp: workshop_venues_def)
qed

text \<open>
  C35: the hash of \<open>contracts/hash.ts\<close> is SHA-256. For every text of UTF-16 code units it is the
  hexadecimal digest that the standard defines for the UTF-8 bytes of the text: the constants of
  the source are the roots of the primes, and its padding, schedule, rounds and rotations are those
  of the reference.
\<close>

theorem sha256_hex_is_standard:
  assumes "list_all (\<lambda>c. c < 65536) s"
  shows "sha256_hex s = std_hex (utf8 s)"
  using assms by (rule sha256_hex_std)

theorem sha256_hex_is_standard_witness:
  "sha256_hex [8364, 55357, 56832] = std_hex [226, 130, 172, 240, 159, 152, 128]"
proof -
  have "utf8 [8364, 55357, 56832] = [226, 130, 172, 240, 159, 152, 128]"
    by (simp add: utf8_three_def utf8_four_def high_surrogate_def low_surrogate_def)
  then show ?thesis using sha256_hex_is_standard[of "[8364, 55357, 56832]"] by simp
qed

section \<open>Attendance timing\<close>

text \<open>
  Persisted timing metadata: writing a well-formed timing and parsing it gives it back, and
  whatever the parser accepts is well formed.
\<close>

theorem attendance_timing_roundtrip:
  "timing_ok t \<longleftrightarrow> parse_attendance_timing (timing_json t) = Inr (Some t)"
  using parse_timing_roundtrip parse_timing_ok by blast

text \<open>
  A timing that the Biletix rules report is well formed, and an admission window comes from a
  flexible listing only, with its bounds in order.
\<close>

theorem biletix_timing_well_formed:
  "case biletix_attendance_timing P i of
     None \<Rightarrow> bt_flexible i \<noteq> JBool True
   | Some t \<Rightarrow> timing_ok t \<and> (case t of AdmissionWindow f v \<Rightarrow>
       bt_flexible i = JBool True \<and> the (date_parse f) \<le> the (date_parse v) | _ \<Rightarrow> True)"
proof (cases "biletix_attendance_timing P i")
  case None
  then show ?thesis by (auto simp: biletix_attendance_timing_def Let_def split: if_splits)
next
  case (Some t)
  then show ?thesis using biletix_timing_ok[OF Some] by (cases t) auto
qed

end
