(* ===== verification/Types.thy ===== *)
theory Types
  imports Timing
begin

text \<open>
  \<open>web/lib/types.ts\<close>: the event record that the collector writes, the store keeps and the search
  returns. Optional fields are options; a price is a rational; labels and the retained provider
  listing stay untrusted values until their validators read them.
\<close>

datatype availability = Available | Sold_out | Cancelled | Unknown_availability

record event_offer =
  of_id :: jstr
  of_session_ids :: "jstr list option"
  of_source :: "jstr option"
  of_url :: jstr
  of_price :: "rat option"
  of_currency :: jstr
  of_checkedAt :: jstr
  of_category :: jstr
  of_venue :: jstr
  of_availability :: availability

text \<open>
  The two shores. A table of shores that is a plain object also answers a name that every object
  inherits, with the inherited member: \<open>Inherited\<close> is that member, known by its name.
\<close>

datatype side = Europe | Asia | Inherited jstr
datatype precision = Precise_district | Precise_side | Precise_unknown

record event_location =
  loc_district :: "jstr option"
  loc_side :: "side option"
  loc_precision :: precision

record prepared_search =
  ps_documentText :: jstr
  ps_documentHash :: jstr
  ps_lexicalTokens :: "jstr list"
  ps_location :: "event_location option"

record event =
  ev_id :: jstr
  ev_title :: jstr
  ev_description :: jstr
  ev_startsAt :: jstr
  ev_venue :: jstr
  ev_city :: jstr
  ev_district :: jstr
  ev_address :: jstr
  ev_price :: "rat option"
  ev_currency :: jstr
  ev_url :: jstr
  ev_imageUrl :: jstr
  ev_advertisedPrice :: "json option"
  ev_category :: jstr
  ev_availability :: availability
  ev_source :: "jstr option"
  ev_sourceVersion :: "jstr option"
  ev_extraction :: "jstr option"
  ev_attendanceTiming :: "attendance_timing option"
  ev_sourceCategory :: "jstr option"
  ev_sourceSessionIds :: "jstr list option"
  ev_providerListing :: "json option"
  ev_productionKey :: "jstr option"
  ev_offers :: "event_offer list option"
  ev_mergedIds :: "jstr list option"
  ev_canonicalProductionKey :: "jstr option"
  ev_canonicalShowKey :: "jstr option"
  ev_preparedSearch :: "prepared_search option"
  ev_labels :: "json option"
  ev_checkedAt :: jstr

text \<open>An event with every optional field absent, from which examples are built.\<close>

definition blank_event :: event where
  "blank_event = \<lparr>
     ev_id = [], ev_title = [], ev_description = [], ev_startsAt = [], ev_venue = [],
     ev_city = [], ev_district = [], ev_address = [], ev_price = None, ev_currency = [],
     ev_url = [], ev_imageUrl = [], ev_advertisedPrice = None, ev_category = [],
     ev_availability = Unknown_availability, ev_source = None, ev_sourceVersion = None,
     ev_extraction = None, ev_attendanceTiming = None, ev_sourceCategory = None,
     ev_sourceSessionIds = None, ev_providerListing = None, ev_productionKey = None,
     ev_offers = None, ev_mergedIds = None, ev_canonicalProductionKey = None,
     ev_canonicalShowKey = None, ev_preparedSearch = None, ev_labels = None, ev_checkedAt = []\<rparr>"

end
