(* ===== verification/Operations.thy ===== *)
theory Operations
  imports Types
begin

text \<open>
  \<open>web/lib/operations.ts\<close> and \<open>web/lib/source-page.ts\<close>: the collection report and the
  checkpoint pointer as they arrive from outside, the readiness reasons of the health route, and
  the time stamps of a staged source page. A value that the code reads with \<open>JSON.parse\<close> is
  the parsed \<^typ>\<open>json\<close> here.
\<close>

section \<open>Reports and pointers\<close>

definition max_checkpoint_bytes :: int where
  "max_checkpoint_bytes = 32 * 1024 * 1024"

definition max_checkpoint_events :: int where
  "max_checkpoint_events = 20000"

record collection_report =
  rep_finishedAt :: jstr
  rep_summary :: json

record checkpoint_pointer =
  ptr_key :: jstr
  ptr_savedAt :: jstr
  ptr_finishedAt :: jstr
  ptr_events :: int
  ptr_bytes :: int
  ptr_summary :: json

definition summary_count :: "json \<Rightarrow> string \<Rightarrow> int option" where
  "summary_count summary key =
     (case as_integer (jget summary key) of
        Some n \<Rightarrow> if 0 \<le> n then Some n else None | None \<Rightarrow> None)"

definition parse_collection_report :: "json \<Rightarrow> int \<Rightarrow> collection_report res" where
  "parse_collection_report envelope now =
     (let report = jget envelope ''report'' in
      if jget envelope ''schemaVersion'' \<noteq> jint 1 \<or> \<not> truthy report
      then throw ''Invalid report''
      else
        let summary = jget report ''summary'' in
        case jget report ''finishedAt'' of
          JStr finishedAt \<Rightarrow>
            if \<not> canonical_iso finishedAt
               \<or> the (date_parse finishedAt) > now + 300000
               \<or> \<not> is_obj summary
               \<or> truthy (jget summary ''blocked'')
            then throw ''Invalid or blocked report''
            else (case (summary_count summary ''events'', summary_count summary ''available'',
                        summary_count summary ''refreshedPages'') of
                    (Some events, Some available, Some refreshedPages) \<Rightarrow>
                      if available > events \<or> refreshedPages < 1
                      then throw ''Invalid report summary''
                      else Inr \<lparr>rep_finishedAt = finishedAt, rep_summary = summary\<rparr>
                  | _ \<Rightarrow> throw ''Invalid report summary'')
        | _ \<Rightarrow> throw ''Invalid or blocked report'')"

text \<open>\<open>/^collection\/[A-Za-z0-9-]+\.json$/\<close>.\<close>

definition is_key_unit :: "nat \<Rightarrow> bool" where
  "is_key_unit c \<longleftrightarrow> is_upper_unit c \<or> is_lower_unit c \<or> is_digit_unit c \<or> c = 45"

definition checkpoint_key_ok :: "jstr \<Rightarrow> bool" where
  "checkpoint_key_ok key =
     (let body = drop 11 key; mid = take (length body - 5) body
      in take 11 key = u ''collection/'' \<and> drop (length body - 5) body = u ''.json''
         \<and> mid \<noteq> [] \<and> list_all is_key_unit mid)"

text \<open>The argument is the value \<open>JSON.parse\<close> makes of the text, if it makes one.\<close>

definition parse_checkpoint_pointer :: "json option \<Rightarrow> checkpoint_pointer option" where
  "parse_checkpoint_pointer value =
     (case value of
        None \<Rightarrow> None
      | Some parsed \<Rightarrow>
          (case (jget parsed ''key'', jget parsed ''savedAt'', jget parsed ''finishedAt'',
                 as_integer (jget parsed ''events''), as_integer (jget parsed ''bytes'')) of
             (JStr key, JStr savedAt, JStr finishedAt, Some events, Some bytes) \<Rightarrow>
               if jget parsed ''schemaVersion'' = jint 1 \<and> checkpoint_key_ok key
                  \<and> canonical_iso savedAt \<and> canonical_iso finishedAt
                  \<and> 0 \<le> events \<and> 0 < bytes \<and> bytes \<le> max_checkpoint_bytes
                  \<and> is_obj (jget parsed ''summary'')
               then Some \<lparr>ptr_key = key, ptr_savedAt = savedAt, ptr_finishedAt = finishedAt,
                          ptr_events = events, ptr_bytes = bytes,
                          ptr_summary = jget parsed ''summary''\<rparr>
               else None
           | _ \<Rightarrow> None))"

definition pointer_json :: "checkpoint_pointer \<Rightarrow> json" where
  "pointer_json p =
     JObj [(u ''schemaVersion'', jint 1), (u ''key'', JStr (ptr_key p)),
           (u ''savedAt'', JStr (ptr_savedAt p)), (u ''finishedAt'', JStr (ptr_finishedAt p)),
           (u ''events'', jint (ptr_events p)), (u ''bytes'', jint (ptr_bytes p)),
           (u ''summary'', ptr_summary p)]"

definition pointer_ok :: "checkpoint_pointer \<Rightarrow> bool" where
  "pointer_ok p \<longleftrightarrow>
     checkpoint_key_ok (ptr_key p) \<and> canonical_iso (ptr_savedAt p)
     \<and> canonical_iso (ptr_finishedAt p) \<and> 0 \<le> ptr_events p \<and> 0 < ptr_bytes p
     \<and> ptr_bytes p \<le> max_checkpoint_bytes \<and> is_obj (ptr_summary p)"

lemma parse_pointer_json:
  "parse_checkpoint_pointer (Some (pointer_json p)) = (if pointer_ok p then Some p else None)"
  by (simp add: parse_checkpoint_pointer_def pointer_json_def pointer_ok_def)

lemma parse_pointer_ok: "parse_checkpoint_pointer v = Some p \<Longrightarrow> pointer_ok p"
  by (auto simp: parse_checkpoint_pointer_def pointer_ok_def
      split: option.splits json.splits if_splits)

lemma checkpoint_key_form:
  "checkpoint_key_ok key \<longleftrightarrow>
     (\<exists>mid. key = u ''collection/'' @ mid @ u ''.json'' \<and> mid \<noteq> [] \<and> list_all is_key_unit mid)"
proof
  assume a: "checkpoint_key_ok key"
  define body where "body = drop 11 key"
  have "key = u ''collection/'' @ take (length body - 5) body @ u ''.json''"
    using a append_take_drop_id[of 11 key] append_take_drop_id[of "length body - 5" body]
    by (simp add: checkpoint_key_ok_def Let_def body_def[symmetric])
  then show "\<exists>mid. key = u ''collection/'' @ mid @ u ''.json'' \<and> mid \<noteq> [] \<and> list_all is_key_unit mid"
    using a by (auto simp: checkpoint_key_ok_def Let_def body_def)
next
  assume "\<exists>mid. key = u ''collection/'' @ mid @ u ''.json'' \<and> mid \<noteq> [] \<and> list_all is_key_unit mid"
  then show "checkpoint_key_ok key" by (auto simp: checkpoint_key_ok_def)
qed

lemma parse_report_iff:
  "parse_collection_report e now = Inr r \<longleftrightarrow>
     jget e ''schemaVersion'' = jint 1
     \<and> truthy (jget e ''report'')
     \<and> jget (jget e ''report'') ''finishedAt'' = JStr (rep_finishedAt r)
     \<and> jget (jget e ''report'') ''summary'' = rep_summary r
     \<and> canonical_iso (rep_finishedAt r)
     \<and> the (date_parse (rep_finishedAt r)) \<le> now + 300000
     \<and> is_obj (rep_summary r) \<and> \<not> truthy (jget (rep_summary r) ''blocked'')
     \<and> (\<exists>ev av rp. jget (rep_summary r) ''events'' = jint ev
          \<and> jget (rep_summary r) ''available'' = jint av
          \<and> jget (rep_summary r) ''refreshedPages'' = jint rp
          \<and> 0 \<le> av \<and> av \<le> ev \<and> 1 \<le> rp)"
  (is "?L \<longleftrightarrow> ?R")
proof
  assume ?L
  then show ?R
    by (auto simp: parse_collection_report_def Let_def summary_count_def as_integer_Some
        split: if_split_asm json.split_asm option.split_asm)
next
  assume ?R
  then show ?L
    by (cases r) (auto simp: parse_collection_report_def Let_def summary_count_def)
qed

section \<open>Readiness\<close>

datatype catalog_state = Ready | Stale | Empty

text \<open>
  \<open>Number(v)\<close>. The parameter \<open>sn\<close> is the language's conversion of strings and objects, whose
  number syntax nothing here depends on.
\<close>

fun to_number :: "(json \<Rightarrow> jnum) \<Rightarrow> json \<Rightarrow> jnum" where
  "to_number sn Undefined = NaN"
| "to_number sn Null = Fin 0"
| "to_number sn (JBool b) = Fin (if b then 1 else 0)"
| "to_number sn (JNum n) = n"
| "to_number sn v = sn v"

fun num_ge :: "jnum \<Rightarrow> rat \<Rightarrow> bool" where
  "num_ge (Fin r) b = (b \<le> r)"
| "num_ge PosInf b = True"
| "num_ge _ b = False"

fun num_greater_than :: "jnum \<Rightarrow> rat \<Rightarrow> bool" where
  "num_greater_than (Fin r) a = (a < r)"
| "num_greater_than PosInf a = True"
| "num_greater_than _ a = False"

datatype readiness_reason =
  Catalog_not_ready | Checkpoint_missing | Checkpoint_stale | Source_absence | Major_catalog_drop

definition checkpoint_readiness ::
  "(json \<Rightarrow> jnum) \<Rightarrow> catalog_state \<Rightarrow> int \<Rightarrow> int \<Rightarrow> checkpoint_pointer option \<Rightarrow> int
     \<Rightarrow> readiness_reason list" where
  "checkpoint_readiness sn status stored eligible pointer now =
     (if status \<noteq> Ready \<or> eligible \<le> 0 then [Catalog_not_ready] else []) @
     (case pointer of
        None \<Rightarrow> [Checkpoint_missing]
      | Some p \<Rightarrow>
          (case (date_parse (ptr_savedAt p), date_parse (ptr_finishedAt p)) of
             (Some saved, Some finished) \<Rightarrow>
               if now - min saved finished \<ge> 24 * 3600000 then [Checkpoint_stale] else []
           | _ \<Rightarrow> []) @
          (case jget (ptr_summary p) ''missingSources'' of
             JArr xs \<Rightarrow> if xs \<noteq> [] then [Source_absence] else [] | _ \<Rightarrow> []) @
          (let previousAvailable = to_number sn (jget (ptr_summary p) ''available'')
           in if (ptr_events p \<ge> 100 \<and> stored * 2 < ptr_events p)
                 \<or> (num_ge previousAvailable 100
                    \<and> num_greater_than previousAvailable (of_int (eligible * 2)))
              then [Major_catalog_drop] else []))"

lemma readiness_clear_iff:
  assumes "pointer_ok p" and "jget (ptr_summary p) ''available'' = jint av"
  shows "checkpoint_readiness sn status stored eligible (Some p) now = [] \<longleftrightarrow>
     status = Ready \<and> 0 < eligible
     \<and> now < the (date_parse (ptr_savedAt p)) + 86400000
     \<and> now < the (date_parse (ptr_finishedAt p)) + 86400000
     \<and> (\<forall>xs. jget (ptr_summary p) ''missingSources'' = JArr xs \<longrightarrow> xs = [])
     \<and> (ptr_events p < 100 \<or> ptr_events p \<le> stored * 2)
     \<and> (av < 100 \<or> av \<le> eligible * 2)"
proof -
  from assms(1) obtain s f where t: "date_parse (ptr_savedAt p) = Some s"
    "date_parse (ptr_finishedAt p) = Some f"
    unfolding pointer_ok_def by (metis canonical_iso_parse)
  have n: "to_number sn (jint av) = Fin (of_int av)" by (simp add: jint_def)
  have c: "(rat_of_int (eligible * 2) < rat_of_int av) = (eligible * 2 < av)"
    "(100 \<le> rat_of_int av) = (100 \<le> av)"
    by (simp_all only: of_int_less_iff) simp
  have drop: "(if (ptr_events p \<ge> 100 \<and> stored * 2 < ptr_events p)
      \<or> (num_ge (to_number sn (jint av)) 100
          \<and> num_greater_than (to_number sn (jint av)) (of_int (eligible * 2)))
      then [Major_catalog_drop] else []) = [] \<longleftrightarrow>
    (ptr_events p < 100 \<or> ptr_events p \<le> stored * 2) \<and> (av < 100 \<or> av \<le> eligible * 2)"
    unfolding n num_ge.simps num_greater_than.simps c by auto
  have absent: "(case v of JArr xs \<Rightarrow> if xs \<noteq> [] then [Source_absence] else [] | _ \<Rightarrow> []) = []
      \<longleftrightarrow> (\<forall>xs. v = JArr xs \<longrightarrow> xs = [])" for v
    by (cases v) simp_all
  show ?thesis
    unfolding checkpoint_readiness_def Let_def assms(2) append_is_Nil_conv option.case
      absent drop t prod.case option.sel
    by auto
qed

section \<open>Source pages\<close>

record source_page =
  pg_url :: jstr
  pg_events :: "event list"
  pg_retiredAt :: "jstr option"
  pg_quarantinedAt :: "jstr option"
  pg_quarantineReason :: "jstr option"

datatype source_kind = Active_source | Retired_source | Quarantined_source

definition is_source_quarantine_reason :: "jstr option \<Rightarrow> bool" where
  "is_source_quarantine_reason r =
     (r \<in> set (map (Some \<circ> u)
        [''session_time_conflict'', ''session_availability_conflict'', ''venue_conflict'']))"

definition source_page_times :: "source_page \<Rightarrow> (jstr \<times> jstr \<times> source_kind) res" where
  "source_page_times page =
     (if list_ex (\<lambda>e. ev_url e \<noteq> pg_url page) (pg_events page)
      then throw ''Invalid source page''
      else if pg_events page = [] then
        let retired = pg_retiredAt page \<noteq> None;
            quarantined = pg_quarantinedAt page \<noteq> None \<or> pg_quarantineReason page \<noteq> None
        in if \<not> retired \<and> \<not> quarantined then throw ''Invalid source retirement''
           else if retired \<and> quarantined then throw ''Invalid empty source page''
           else if quarantined \<and> \<not> is_source_quarantine_reason (pg_quarantineReason page)
           then throw ''Invalid source quarantine''
           else
             let value = (if retired then pg_retiredAt page else pg_quarantinedAt page)
             in (case value of
                   Some stamp \<Rightarrow>
                     if canonical_iso stamp
                     then Inr (stamp, stamp, if retired then Retired_source else Quarantined_source)
                     else throw (if retired then ''Invalid source retirement''
                                 else ''Invalid source quarantine'')
                 | None \<Rightarrow> throw (if retired then ''Invalid source retirement''
                                  else ''Invalid source quarantine''))
      else if pg_retiredAt page \<noteq> None \<or> pg_quarantinedAt page \<noteq> None
              \<or> pg_quarantineReason page \<noteq> None
      then throw ''Nonempty inactive source''
      else
        let stamps = sort (map ev_checkedAt (pg_events page))
        in Inr (hd stamps, last stamps, Active_source))"

lemma page_times_cases:
  assumes "source_page_times page = Inr (checked, latest, kind)"
  shows "(\<forall>e \<in> set (pg_events page). ev_url e = pg_url page)
    \<and> (kind = Active_source \<longleftrightarrow> pg_events page \<noteq> [])
    \<and> (kind \<noteq> Active_source \<longrightarrow> checked = latest \<and> canonical_iso latest)"
  using assms
  by (auto simp: source_page_times_def Let_def list_ex_iff
      split: if_split_asm option.split_asm)

lemma page_times_active:
  assumes "source_page_times page = Inr (checked, latest, kind)" "e \<in> set (pg_events page)"
  shows "checked \<le> ev_checkedAt e \<and> ev_checkedAt e \<le> latest
    \<and> checked \<in> ev_checkedAt ` set (pg_events page)
    \<and> latest \<in> ev_checkedAt ` set (pg_events page)"
proof -
  define stamps where "stamps = sort (map ev_checkedAt (pg_events page))"
  have ne: "pg_events page \<noteq> []" using assms(2) by auto
  have r: "checked = hd stamps" "latest = last stamps"
    using assms(1) ne
    by (auto simp: source_page_times_def Let_def stamps_def split: if_split_asm)
  have "length stamps = length (pg_events page)" by (simp add: stamps_def)
  then have ne': "stamps \<noteq> []" using ne by auto
  have set: "set stamps = ev_checkedAt ` set (pg_events page)" by (simp add: stamps_def)
  have so: "sorted stamps" by (simp add: stamps_def)
  have m: "ev_checkedAt e \<in> set stamps" using assms(2) set by simp
  have "hd stamps \<le> ev_checkedAt e"
    using so m by (cases stamps) auto
  moreover have "ev_checkedAt e \<le> last stamps"
    using so m ne' by (induction stamps) auto
  ultimately show ?thesis using r ne' set hd_in_set last_in_set by metis
qed

end
