(* ===== verification/Labels.thy ===== *)
theory Labels
  imports Types
begin

text \<open>
  \<open>web/lib/event-labels.ts\<close>, the part the store uses: the structural check of labels read back
  from storage and the labels of a document whose answers were invalid, with the district names
  of \<open>web/parser/lexicon.ts\<close> and the categories of \<open>web/lib/types.ts\<close>.
\<close>

definition DISTRICTS :: "jstr list" where
  "DISTRICTS = map tr [
     ''Adalar'', ''Arnavutk~oy'', ''Ata~sehir'', ''Avc~ilar'', ''Ba~gc~ilar'',
     ''Bah~celievler'', ''Bak~irk~oy'', ''Ba~sak~sehir'', ''Bayrampa~sa'', ''Be~sikta~s'',
     ''Beykoz'', ''Beylikd~uz~u'', ''Beyo~glu'', ''B~uy~uk~cekmece'', ''~Catalca'',
     ''~Cekmek~oy'', ''Esenler'', ''Esenyurt'', ''Ey~upsultan'', ''Fatih'', ''Gaziosmanpa~sa'',
     ''G~ung~oren'', ''Kad~ik~oy'', ''Ka~g~ithane'', ''Kartal'', ''K~u~c~uk~cekmece'',
     ''Maltepe'', ''Pendik'', ''Sancaktepe'', ''Sar~iyer'', ''Silivri'', ''Sultanbeyli'',
     ''Sultangazi'', ''~Sile'', ''~Si~sli'', ''Tuzla'', ''~Umraniye'', ''~Usk~udar'',
     ''Zeytinburnu'']"

definition CATEGORIES :: "jstr list" where
  "CATEGORIES = map tr [
     ''Konser'', ''Tiyatro'', ''Stand-up'', ''Workshop'', ''Sergi'', ''Festival'', ''Spor'',
     ''Sinema'', ''S~oyle~si'', ''Dans'', ''G~osteri'', ''E~gitim'', ''Gezi'', ''M~uze'',
     ''Di~ger'']"

definition event_label_profile :: jstr where
  "event_label_profile = u ''event-labels-v1''"

definition probability_value :: "json \<Rightarrow> bool" where
  "probability_value x = (case as_fin x of Some r \<Rightarrow> 0 \<le> r \<and> r \<le> 1 | None \<Rightarrow> False)"

definition age_value :: "json \<Rightarrow> bool" where
  "age_value x \<longleftrightarrow>
     x = Null \<or> (case as_integer x of Some n \<Rightarrow> 0 \<le> n \<and> n \<le> 99 | None \<Rightarrow> False)"

definition one_of :: "json \<Rightarrow> jstr list \<Rightarrow> bool" where
  "one_of x options = (case x of JStr s \<Rightarrow> s \<in> set options | _ \<Rightarrow> False)"

fun is_object_type :: "json \<Rightarrow> bool" where
  "is_object_type (JObj ps) = True"
| "is_object_type (JArr xs) = True"
| "is_object_type _ = False"

definition valid_labels :: "json \<Rightarrow> bool" where
  "valid_labels v \<longleftrightarrow>
     is_object_type v
     \<and> jget v ''profile'' = JStr event_label_profile
     \<and> one_of (jget v ''audience'')
          (map u [''general'', ''adult_only'', ''family'', ''children'', ''unknown''])
     \<and> probability_value (jget v ''childSuitable'')
     \<and> age_value (jget v ''minAge'')
     \<and> age_value (jget v ''maxAge'')
     \<and> one_of (jget v ''place'') (map u [''istanbul'', ''other_city'', ''online'', ''unknown''])
     \<and> (jget v ''district'' = Null \<or> one_of (jget v ''district'') DISTRICTS)
     \<and> (jget v ''category'' = Null \<or> one_of (jget v ''category'') CATEGORIES)
     \<and> truthy (jget v ''formats'')
     \<and> probability_value (jget (jget v ''formats'') ''handsOn'')
     \<and> probability_value (jget (jget v ''formats'') ''outdoor'')
     \<and> probability_value (jget (jget v ''formats'') ''seated'')
     \<and> truthy (jget v ''evidence'')
     \<and> is_object_type (jget v ''evidence'')"

definition unknown_labels :: json where
  "unknown_labels = JObj [
     (u ''profile'', JStr event_label_profile),
     (u ''audience'', JStr (u ''unknown'')),
     (u ''childSuitable'', JNum (Fin (1 / 2))),
     (u ''minAge'', Null),
     (u ''maxAge'', Null),
     (u ''place'', JStr (u ''unknown'')),
     (u ''district'', Null),
     (u ''category'', Null),
     (u ''formats'', JObj [(u ''handsOn'', jint 0), (u ''outdoor'', jint 0), (u ''seated'', jint 0)]),
     (u ''evidence'', JObj [])]"

lemma valid_unknown_labels: "valid_labels unknown_labels"
  by (simp add: valid_labels_def unknown_labels_def one_of_def probability_value_def age_value_def
      jint_def)

end
