(* ===== verification/Control.thy ===== *)
theory Control
  imports Operations Labels Text
begin

text \<open>
  The storage contract of \<open>web/lib/storage-contract.ts\<close> as the snapshot store uses it: the
  control documents (leases, limits, source heads, the catalog head, the publication attempt,
  vector and label heads), the immutable blobs, and the clock. \<open>web/lib/gcp-clients.node.ts\<close>
  provides transactions and immutable puts; \<open>web/lib/store.gcp.ts\<close> builds leases and request
  limits on them, and \<open>web/lib/rate-limit.ts\<close> uses the limits.
\<close>

section \<open>Documents and objects\<close>

record lease =
  ls_key :: jstr
  ls_token :: jstr
  ls_expiresAt :: int

record limit_counter =
  lc_count :: int
  lc_expiresAt :: int

record source_head =
  sh_url :: jstr
  sh_key :: jstr
  sh_hash :: jstr
  sh_checkedAt :: jstr
  sh_events :: int
  sh_kind :: "source_kind option"

record search_pointer =
  sp_key :: jstr
  sp_hash :: jstr
  sp_bytes :: int
  sp_profile :: "jstr option"
  sp_dimensions :: "int option"
  sp_checkpoint :: "checkpoint_pointer option"

record catalog_head =
  ch_revision :: jstr
  ch_hash :: jstr
  ch_pointer :: checkpoint_pointer
  ch_search :: "search_pointer option"
  ch_pendingSearch :: "search_pointer option"

record vector_head =
  vh_profile :: jstr
  vh_revision :: jstr
  vh_key :: jstr
  vh_hash :: jstr

record catalog_version =
  cv_from :: int
  cv_events :: "event list"

record search_catalog =
  sc_materializedAt :: jstr
  sc_sourceStatus :: "(jstr \<times> jstr \<times> availability) list"
  sc_groups :: "catalog_version list list"

record checkpoint =
  cp_savedAt :: jstr
  cp_events :: "event list"
  cp_report :: collection_report

type_synonym vector = "jnum list"

record 'a snapshot =
  sn_profile :: jstr
  sn_entries :: "(jstr \<times> 'a) list"

text \<open>
  The text of an object, by the value that \<open>JSON.stringify\<close> wrote. A text that no writer of the
  store produced is \<open>Raw_body\<close>; parsing it as any of the others fails.
\<close>

datatype body =
    Page_body source_page
  | Search_body search_catalog
  | Checkpoint_body checkpoint
  | Vector_body "vector snapshot"
  | Label_body "json snapshot"
  | Raw_body jstr

text \<open>An object as \<open>blobs.get\<close> returns it: the text and the byte count the store declares.\<close>

record blob =
  bl_body :: body
  bl_bytes :: int

record control =
  leases :: "jstr \<rightharpoonup> lease"
  limits :: "jstr \<rightharpoonup> limit_counter"
  sources :: "(jstr \<times> source_head) list"
  catalog :: "catalog_head option"
  publication :: "json option"
  vector_heads :: "jstr \<rightharpoonup> vector_head"
  label_head :: "vector_head option"

record world =
  ctl :: control
  blobs :: "jstr \<rightharpoonup> blob"
  clock :: int

text \<open>
  What the store is configured with and what it takes from its platform: SHA-256 of a text and of
  an object's text, UTF-8 sizes, \<open>JSON.parse\<close>, and the collation of \<open>localeCompare\<close>.
\<close>

record env =
  en_namespace :: jstr
  en_profile :: "(jstr \<times> int) option"
  en_sha :: "jstr \<Rightarrow> jstr"
  en_digest :: "body \<Rightarrow> jstr"
  en_size :: "body \<Rightarrow> int"
  en_event_size :: "event \<Rightarrow> int"
  en_parse :: "jstr \<Rightarrow> json option"
  en_collate :: "jstr \<Rightarrow> jstr \<Rightarrow> int"
  en_max_blob :: int

definition base_path :: "env \<Rightarrow> jstr" where
  "base_path E = u ''biplan/'' @ en_namespace E"

definition lease_path :: "env \<Rightarrow> jstr \<Rightarrow> jstr" where
  "lease_path E key = base_path E @ u ''/leases/'' @ en_sha E key"

definition profile_path :: "env \<Rightarrow> jstr \<Rightarrow> jstr" where
  "profile_path E profile = base_path E @ u ''/vectorProfiles/'' @ en_sha E profile"

section \<open>The document interface\<close>

text \<open>
  One collection of documents of the control store, with the laws that \<open>get\<close>, \<open>set\<close> and
  \<open>delete\<close> promise. Every collection of the store below is an instance.
\<close>

locale document_collection =
  fixes get :: "'p \<Rightarrow> 's \<Rightarrow> 'd option"
    and set_doc :: "'p \<Rightarrow> 'd \<Rightarrow> 's \<Rightarrow> 's"
    and delete_doc :: "'p \<Rightarrow> 's \<Rightarrow> 's"
  assumes get_set: "get p (set_doc q d s) = (if p = q then Some d else get p s)"
    and get_delete: "get p (delete_doc q s) = (if p = q then None else get p s)"
begin

lemma get_set_same [simp]: "get p (set_doc p d s) = Some d"
  by (simp add: get_set)

lemma get_set_other [simp]: "p \<noteq> q \<Longrightarrow> get p (set_doc q d s) = get p s"
  by (simp add: get_set)

text \<open>A compare-and-set keeps every other document, whatever its guard decides.\<close>

lemma compare_and_set_frame:
  "p \<noteq> q \<Longrightarrow> get p (if ok (get q s) then set_doc q d s else s) = get p s"
  by simp

lemma compare_and_set_result:
  "get q (if ok (get q s) then set_doc q d s else s) = (if ok (get q s) then Some d else get q s)"
  by simp

end

definition get_lease :: "jstr \<Rightarrow> control \<Rightarrow> lease option" where
  "get_lease p c = leases c p"
definition set_lease :: "jstr \<Rightarrow> lease \<Rightarrow> control \<Rightarrow> control" where
  "set_lease p d c = c\<lparr>leases := (leases c)(p \<mapsto> d)\<rparr>"
definition delete_lease :: "jstr \<Rightarrow> control \<Rightarrow> control" where
  "delete_lease p c = c\<lparr>leases := (leases c)(p := None)\<rparr>"

interpretation lease_docs: document_collection get_lease set_lease delete_lease
  by unfold_locales (auto simp: get_lease_def set_lease_def delete_lease_def)

definition get_limit :: "jstr \<Rightarrow> control \<Rightarrow> limit_counter option" where
  "get_limit p c = limits c p"
definition set_limit :: "jstr \<Rightarrow> limit_counter \<Rightarrow> control \<Rightarrow> control" where
  "set_limit p d c = c\<lparr>limits := (limits c)(p \<mapsto> d)\<rparr>"
definition delete_limit :: "jstr \<Rightarrow> control \<Rightarrow> control" where
  "delete_limit p c = c\<lparr>limits := (limits c)(p := None)\<rparr>"

interpretation limit_docs: document_collection get_limit set_limit delete_limit
  by unfold_locales (auto simp: get_limit_def set_limit_def delete_limit_def)

definition get_source :: "jstr \<Rightarrow> control \<Rightarrow> source_head option" where
  "get_source p c = map_of (sources c) p"
definition set_source :: "jstr \<Rightarrow> source_head \<Rightarrow> control \<Rightarrow> control" where
  "set_source p d c = c\<lparr>sources := AList.update p d (sources c)\<rparr>"
definition delete_source :: "jstr \<Rightarrow> control \<Rightarrow> control" where
  "delete_source p c = c\<lparr>sources := AList.delete p (sources c)\<rparr>"

interpretation source_docs: document_collection get_source set_source delete_source
  by unfold_locales
     (auto simp: get_source_def set_source_def delete_source_def update_conv' delete_conv')

section \<open>Transactions and immutable objects\<close>

definition storage_failure :: js_error where
  "storage_failure = Err ''GCP storage operation failed.''"

text \<open>
  \<open>control.transaction\<close>: the callback runs on the documents as they are; if it throws, nothing
  is written and the client sees the generic storage failure.
\<close>

definition transaction :: "(world, 'a) op \<Rightarrow> (world, 'a) op" where
  "transaction f w =
     (case f w of (Inl e, _) \<Rightarrow> (Inl storage_failure, w) | (Inr x, w') \<Rightarrow> (Inr x, w'))"

definition modify_control :: "(control \<Rightarrow> control) \<Rightarrow> (world, unit) op" where
  "modify_control f w = (Inr (), w\<lparr>ctl := f (ctl w)\<rparr>)"

text \<open>
  \<open>blobs.putImmutable\<close>: create only. An existing object must have the same digest; otherwise the
  put fails and the object stays.
\<close>

definition put_immutable :: "env \<Rightarrow> jstr \<Rightarrow> body \<Rightarrow> (world, unit) op" where
  "put_immutable E key b w =
     (if en_size E b > en_max_blob E then (Inl storage_failure, w)
      else case blobs w key of
        None \<Rightarrow> (Inr (), w\<lparr>blobs := (blobs w)(key \<mapsto> \<lparr>bl_body = b, bl_bytes = en_size E b\<rparr>)\<rparr>)
      | Some existing \<Rightarrow>
          if en_digest E (bl_body existing) = en_digest E b then (Inr (), w)
          else (throw ''Immutable object collision.'', w))"

lemma transaction_abort: "transaction f w = (Inl e, w') \<Longrightarrow> w' = w"
  by (auto simp: transaction_def split: prod.splits sum.splits)

lemma transaction_Inr: "transaction f w = (Inr x, w') \<longleftrightarrow> f w = (Inr x, w')"
  by (auto simp: transaction_def split: prod.splits sum.splits)

lemma put_immutable_keeps: "put_immutable E k b w = (r, w') \<Longrightarrow> blobs w \<subseteq>\<^sub>m blobs w'"
  by (auto simp: put_immutable_def map_le_def split: option.splits if_splits)

lemma put_immutable_control:
  "put_immutable E k b w = (r, w') \<Longrightarrow> ctl w' = ctl w \<and> clock w' = clock w"
  by (auto simp: put_immutable_def split: option.splits if_splits)

lemma put_immutable_stored:
  "put_immutable E k b w = (Inr (), w') \<Longrightarrow>
     \<exists>bl. blobs w' k = Some bl \<and> en_digest E (bl_body bl) = en_digest E b
       \<and> (blobs w k = None \<longrightarrow> bl_body bl = b \<and> bl_bytes bl = en_size E b)"
  by (auto simp: put_immutable_def split: option.splits if_splits)

section \<open>Leases\<close>

definition live_lease :: "int \<Rightarrow> control \<Rightarrow> lease \<Rightarrow> jstr \<Rightarrow> bool" where
  "live_lease now c l path =
     (case get_lease path c of
        None \<Rightarrow> False
      | Some current \<Rightarrow>
          ls_key current = ls_key l \<and> ls_token current = ls_token l
          \<and> ls_expiresAt current = ls_expiresAt l \<and> now < ls_expiresAt current)"

definition require_live :: "lease \<Rightarrow> jstr \<Rightarrow> (world, unit) op" where
  "require_live l path w =
     ((if live_lease (clock w) (ctl w) l path then Inr ()
       else throw ''Storage lease expired or replaced''), w)"

definition require_lease_kind :: "lease \<Rightarrow> string list \<Rightarrow> unit res" where
  "require_lease_kind l kinds = guard (ls_key l \<in> set (map u kinds)) ''Wrong storage lease''"

text \<open>The parameter \<open>token\<close> is what \<open>crypto.randomUUID\<close> returns for this call.\<close>

definition acquire_lease :: "env \<Rightarrow> jstr \<Rightarrow> jstr \<Rightarrow> int \<Rightarrow> (world, lease option) op" where
  "acquire_lease E token key ttlMs =
     (if key = [] \<or> ttlMs \<le> 0 \<or> ttlMs > 3600000 then olift (throw ''Invalid storage lease'')
      else transaction (\<lambda>w.
        let path = lease_path E key; time = clock w in
        case get_lease path (ctl w) of
          Some previous \<Rightarrow>
            if ls_expiresAt previous > time then (Inr None, w)
            else (let l = \<lparr>ls_key = key, ls_token = token, ls_expiresAt = time + ttlMs\<rparr>
                  in (Inr (Some l), w\<lparr>ctl := set_lease path l (ctl w)\<rparr>))
        | None \<Rightarrow>
            (let l = \<lparr>ls_key = key, ls_token = token, ls_expiresAt = time + ttlMs\<rparr>
             in (Inr (Some l), w\<lparr>ctl := set_lease path l (ctl w)\<rparr>))))"

definition release_lease :: "env \<Rightarrow> lease \<Rightarrow> (world, unit) op" where
  "release_lease E l =
     transaction (\<lambda>w.
       let path = lease_path E (ls_key l) in
       case get_lease path (ctl w) of
         Some current \<Rightarrow>
           if ls_token current = ls_token l
           then (Inr (), w\<lparr>ctl := delete_lease path (ctl w)\<rparr>) else (Inr (), w)
       | None \<Rightarrow> (Inr (), w))"

lemma acquire_lease_Some:
  assumes "acquire_lease E token key ttl w = (Inr (Some l), w')"
  shows "l = \<lparr>ls_key = key, ls_token = token, ls_expiresAt = clock w + ttl\<rparr>"
    and "w' = w\<lparr>ctl := set_lease (lease_path E key) l (ctl w)\<rparr>"
    and "\<forall>previous. get_lease (lease_path E key) (ctl w) = Some previous
           \<longrightarrow> ls_expiresAt previous \<le> clock w"
    and "0 < ttl" "ttl \<le> 3600000"
  using assms
  by (auto simp: acquire_lease_def transaction_Inr Let_def split: if_splits option.splits)

lemma acquire_lease_other:
  assumes "acquire_lease E token key ttl w = (r, w')" "\<And>l. r \<noteq> Inr (Some l)"
  shows "w' = w"
  using assms
  by (auto simp: acquire_lease_def transaction_def Let_def split: if_splits option.splits)

lemma acquired_is_live:
  assumes "acquire_lease E token key ttl w = (Inr (Some l), w')"
  shows "live_lease (clock w') (ctl w') l (lease_path E key)"
  using acquire_lease_Some[OF assms] by (simp add: live_lease_def)

lemma acquire_refused_iff:
  assumes "key \<noteq> []" "0 < ttl" "ttl \<le> 3600000"
  shows "fst (acquire_lease E token key ttl w) = Inr None \<longleftrightarrow>
    (\<exists>previous. get_lease (lease_path E key) (ctl w) = Some previous \<and> clock w < ls_expiresAt previous)"
  using assms
  by (auto simp: acquire_lease_def transaction_def Let_def split: option.splits)

lemma release_lease_result:
  "release_lease E l w =
     (Inr (), w\<lparr>ctl := (case get_lease (lease_path E (ls_key l)) (ctl w) of
        Some current \<Rightarrow> if ls_token current = ls_token l
          then delete_lease (lease_path E (ls_key l)) (ctl w) else ctl w
      | None \<Rightarrow> ctl w)\<rparr>)"
  by (auto simp: release_lease_def transaction_def Let_def split: option.splits)

section \<open>Request limits\<close>

definition limit_path :: "env \<Rightarrow> jstr \<Rightarrow> jstr" where
  "limit_path E key = base_path E @ u ''/limits/'' @ en_sha E key"

text \<open>\<open>previous && previous.expiresAt > time ? previous.count : 0\<close>.\<close>

definition current_count :: "env \<Rightarrow> jstr \<Rightarrow> world \<Rightarrow> int" where
  "current_count E key w =
     (case get_limit (limit_path E key) (ctl w) of
        Some previous \<Rightarrow> if lc_expiresAt previous > clock w then lc_count previous else 0
      | None \<Rightarrow> 0)"

definition consume_limit :: "env \<Rightarrow> jstr \<Rightarrow> int \<Rightarrow> int \<Rightarrow> (world, bool) op" where
  "consume_limit E key limit expiresAt =
     (if \<bar>limit\<bar> > max_safe_integer \<or> limit < 1 then olift (throw ''Invalid request limit'')
      else transaction (\<lambda>w.
        if expiresAt \<le> clock w then (Inr False, w)
        else
          let cnt = current_count E key w
          in if \<bar>cnt\<bar> > max_safe_integer \<or> cnt < 0
             then (throw ''Invalid request counter'', w)
             else if cnt \<ge> limit then (Inr False, w)
             else (Inr True, w\<lparr>ctl := set_limit (limit_path E key)
               \<lparr>lc_count = cnt + 1, lc_expiresAt = expiresAt\<rparr> (ctl w)\<rparr>)))"

datatype limit_scope = Minute | Hour | Daily

record limit_bucket =
  lb_key :: jstr
  lb_limit :: int
  lb_expiresAt :: int
  lb_scope :: limit_scope

record rate_limit_result =
  rl_allowed :: bool
  rl_retryAfter :: int
  rl_scope :: "limit_scope option"

definition visitor_rate_limit_enabled :: "jstr option \<Rightarrow> jstr option \<Rightarrow> bool" where
  "visitor_rate_limit_enabled deploymentEnv previewTesting \<longleftrightarrow>
     \<not> (deploymentEnv = Some (u ''staging'') \<and> previewTesting = Some (u ''true''))"

definition request_limit_buckets :: "jstr \<Rightarrow> bool \<Rightarrow> int \<Rightarrow> limit_bucket list" where
  "request_limit_buckets ip paid now =
     (let minute = now div 60000; hour = now div 3600000 in
      (if paid
       then [\<lparr>lb_key = u ''ip-minute:'' @ ip @ u '':'' @ int_digits minute, lb_limit = 5,
              lb_expiresAt = (minute + 1) * 60000, lb_scope = Minute\<rparr>]
       else []) @
      [\<lparr>lb_key = u ''ip-hour:'' @ ip @ u '':'' @ int_digits hour,
        lb_limit = (if paid then 20 else 60),
        lb_expiresAt = (hour + 1) * 3600000, lb_scope = Hour\<rparr>])"

text \<open>\<open>Math.ceil(n / 1000)\<close> is \<open>- (- n div 1000)\<close>.\<close>

fun consume_buckets ::
  "limit_bucket list \<Rightarrow> int \<Rightarrow> (jstr \<Rightarrow> int \<Rightarrow> int \<Rightarrow> (world, bool) op)
     \<Rightarrow> (world, rate_limit_result) op" where
  "consume_buckets [] now consume = oreturn \<lparr>rl_allowed = True, rl_retryAfter = 0, rl_scope = None\<rparr>"
| "consume_buckets (b # bs) now consume =
     obind (consume (lb_key b) (lb_limit b) (lb_expiresAt b)) (\<lambda>ok.
       if \<not> ok
       then oreturn \<lparr>rl_allowed = False,
                     rl_retryAfter = max 1 (- (- (lb_expiresAt b - now) div 1000)),
                     rl_scope = Some (lb_scope b)\<rparr>
       else consume_buckets bs now consume)"

lemma consume_limit_True:
  assumes "consume_limit E key limit expiresAt w = (Inr True, w')"
  shows "clock w < expiresAt" "0 \<le> current_count E key w" "current_count E key w < limit"
    and "w' = w\<lparr>ctl := set_limit (limit_path E key)
           \<lparr>lc_count = current_count E key w + 1, lc_expiresAt = expiresAt\<rparr> (ctl w)\<rparr>"
  using assms
  by (auto simp: consume_limit_def transaction_Inr Let_def split: if_splits)

lemma consume_limit_not_True:
  assumes "consume_limit E key limit expiresAt w = (r, w')" "r \<noteq> Inr True"
  shows "w' = w"
  using assms
  by (auto simp: consume_limit_def transaction_def Let_def split: if_splits)

text \<open>
  One window: requests of the same key with the same limit and expiry, at any times. The calls
  that were admitted are counted by the stored counter, which never passes the limit.
\<close>

fun admitted :: "env \<Rightarrow> jstr \<Rightarrow> int \<Rightarrow> int \<Rightarrow> int list \<Rightarrow> world \<Rightarrow> nat \<times> world" where
  "admitted E key limit expiresAt [] w = (0, w)"
| "admitted E key limit expiresAt (t # ts) w =
     (let (r, w1) = consume_limit E key limit expiresAt (w\<lparr>clock := t\<rparr>);
          (n, w2) = admitted E key limit expiresAt ts w1
      in ((if r = Inr True then Suc n else n), w2))"

definition window_count :: "env \<Rightarrow> jstr \<Rightarrow> int \<Rightarrow> world \<Rightarrow> int" where
  "window_count E key expiresAt w =
     (case get_limit (limit_path E key) (ctl w) of
        Some c \<Rightarrow> if lc_expiresAt c = expiresAt then lc_count c else 0 | None \<Rightarrow> 0)"

lemma admitted_count:
  assumes "1 \<le> limit"
    and "\<forall>c. get_limit (limit_path E key) (ctl w) = Some c \<longrightarrow>
           (if lc_expiresAt c = expiresAt then 0 \<le> lc_count c \<and> lc_count c \<le> limit
            else \<forall>t \<in> set ts. lc_expiresAt c \<le> t)"
  shows "window_count E key expiresAt w + int (fst (admitted E key limit expiresAt ts w)) \<le> limit"
  using assms(2)
proof (induction ts arbitrary: w)
  case Nil
  then show ?case using assms(1)
    by (auto simp: window_count_def split: option.splits)
next
  case (Cons t ts)
  obtain r w1 where s: "consume_limit E key limit expiresAt (w\<lparr>clock := t\<rparr>) = (r, w1)"
    by fastforce
  show ?case
  proof (cases "r = Inr True")
    case False
    then have "w1 = w\<lparr>clock := t\<rparr>" using consume_limit_not_True[OF s] by blast
    moreover have "window_count E key expiresAt (w\<lparr>clock := t\<rparr>) = window_count E key expiresAt w"
      by (simp add: window_count_def)
    ultimately show ?thesis using Cons.IH[of w1] Cons.prems s False
      by (simp add: Let_def split: prod.split)
  next
    case True
    define n where "n = current_count E key (w\<lparr>clock := t\<rparr>)"
    from True s have s': "consume_limit E key limit expiresAt (w\<lparr>clock := t\<rparr>) = (Inr True, w1)"
      by simp
    note n = consume_limit_True(2-4)[OF s', folded n_def]
    have lt: "t < expiresAt" using consume_limit_True(1)[OF s'] by simp
    have "window_count E key expiresAt w = n"
      using n_def Cons.prems lt
      by (auto simp: window_count_def current_count_def split: option.splits)
    moreover have "window_count E key expiresAt w1 = n + 1"
      by (simp add: window_count_def n(3))
    moreover have "window_count E key expiresAt w1
        + int (fst (admitted E key limit expiresAt ts w1)) \<le> limit"
      using n by (intro Cons.IH) simp
    ultimately show ?thesis using s True
      by (cases "admitted E key limit expiresAt ts w1") (simp add: Let_def)
  qed
qed

end
