(* ===== verification/Snapshots.thy ===== *)
theory Snapshots
  imports Control
begin

text \<open>
  The vector and label snapshots of \<open>web/lib/store.gcp.ts\<close>: whole-profile objects behind a
  revisioned head document, the per-instance cache, and the two-transaction save. A save reads
  the head in a first transaction, writes a new object, and replaces the head in a second
  transaction that fails when the revision changed in between. Other instances may run between
  the two, so each save is a \<open>prepare\<close> and a \<open>commit\<close>.
\<close>

section \<open>Reading a snapshot\<close>

definition max_vector_bytes :: int where "max_vector_bytes = 128 * 1024 * 1024"
definition max_vectors :: nat where "max_vectors = 20000"
definition max_label_bytes :: int where "max_label_bytes = 64 * 1024 * 1024"

fun is_fin :: "jnum \<Rightarrow> bool" where
  "is_fin (Fin r) = True"
| "is_fin _ = False"

text \<open>\<open>validVector\<close> of \<open>web/lib/providers.ts\<close>; an absent value is no array.\<close>

definition valid_vector :: "vector option \<Rightarrow> int \<Rightarrow> bool" where
  "valid_vector value dimensions =
     (case value of
        None \<Rightarrow> False
      | Some v \<Rightarrow> int (length v) = dimensions \<and> list_all is_fin v \<and> list_ex (\<lambda>n. n \<noteq> Fin 0) v)"

definition same_revision :: "('h \<Rightarrow> jstr) \<Rightarrow> 'h option \<Rightarrow> 'h option \<Rightarrow> bool" where
  "same_revision revision_of a b \<longleftrightarrow> map_option revision_of a = map_option revision_of b"

lemma same_revision_eq:
  assumes "same_revision revision_of a b"
    and "\<And>h h'. a = Some h \<Longrightarrow> b = Some h' \<Longrightarrow> revision_of h = revision_of h' \<Longrightarrow> h = h'"
  shows "a = b"
proof (cases a)
  case None
  then show ?thesis using assms(1) by (simp add: same_revision_def)
next
  case (Some h)
  then obtain h' where "b = Some h'" "revision_of h = revision_of h'"
    using assms(1) by (cases b) (auto simp: same_revision_def)
  then show ?thesis using Some assms(2)[of h h'] by simp
qed

text \<open>
  The object a head names, when it is undamaged: within the byte bound, of the size it declares,
  with the digest the head records.
\<close>

definition intact_body :: "env \<Rightarrow> world \<Rightarrow> jstr \<Rightarrow> jstr \<Rightarrow> int \<Rightarrow> body option" where
  "intact_body E w key hash limit =
     (case blobs w key of
        None \<Rightarrow> None
      | Some object \<Rightarrow>
          if bl_bytes object \<le> limit \<and> en_size E (bl_body object) = bl_bytes object
             \<and> en_digest E (bl_body object) = hash
          then Some (bl_body object) else None)"

text \<open>\<open>for (const entry of snapshot.entries) if (ok) entries.set(entry.hash, entry.value)\<close>.\<close>

definition collect_entries ::
  "(jstr \<times> 'a \<Rightarrow> bool) \<Rightarrow> (jstr \<times> 'a) list \<Rightarrow> (jstr \<times> 'a) list" where
  "collect_entries ok es =
     fold (\<lambda>(h, v) m. if ok (h, v) then AList.update h v m else m) es []"

definition vector_entries :: "env \<Rightarrow> world \<Rightarrow> jstr \<Rightarrow> jstr \<Rightarrow> jstr \<Rightarrow> (jstr \<times> vector) list" where
  "vector_entries E w key hash profile =
     (case intact_body E w key hash max_vector_bytes of
        Some (Vector_body snapshot) \<Rightarrow>
          if sn_profile snapshot = profile \<and> length (sn_entries snapshot) \<le> max_vectors
          then collect_entries (\<lambda>(h, v). is_hex64 h) (sn_entries snapshot) else []
      | _ \<Rightarrow> [])"

definition label_entries :: "env \<Rightarrow> world \<Rightarrow> jstr \<Rightarrow> jstr \<Rightarrow> (jstr \<times> json) list" where
  "label_entries E w key hash =
     (case intact_body E w key hash max_label_bytes of
        Some (Label_body snapshot) \<Rightarrow>
          if sn_profile snapshot = event_label_profile \<and> length (sn_entries snapshot) \<le> max_vectors
          then collect_entries (\<lambda>(h, l). is_hex64 h \<and> valid_labels l) (sn_entries snapshot)
          else []
      | _ \<Rightarrow> [])"

record 'a snapshot_cache =
  sc_key :: jstr
  sc_hash :: jstr
  sc_profile :: jstr
  sc_entries :: "(jstr \<times> 'a) list"

definition read_vectors ::
  "env \<Rightarrow> world \<Rightarrow> vector snapshot_cache option \<Rightarrow> vector_head option \<Rightarrow> jstr
     \<Rightarrow> (jstr \<times> vector) list res \<times> vector snapshot_cache option" where
  "read_vectors E w cache head profile =
     (case head of
        None \<Rightarrow> (Inr [], cache)
      | Some h \<Rightarrow>
          if vh_profile h \<noteq> profile \<or> \<not> is_hex64 (vh_hash h)
          then (throw ''Invalid vector publication'', cache)
          else
            let load = (let entries = vector_entries E w (vh_key h) (vh_hash h) profile
                        in (Inr entries, Some \<lparr>sc_key = vh_key h, sc_hash = vh_hash h,
                                               sc_profile = profile, sc_entries = entries\<rparr>))
            in (case cache of
                  Some c \<Rightarrow>
                    if sc_key c = vh_key h \<and> sc_hash c = vh_hash h \<and> sc_profile c = profile
                    then (Inr (sc_entries c), cache) else load
                | None \<Rightarrow> load))"

definition read_labels ::
  "env \<Rightarrow> world \<Rightarrow> json snapshot_cache option \<Rightarrow> vector_head option
     \<Rightarrow> (jstr \<times> json) list res \<times> json snapshot_cache option" where
  "read_labels E w cache head =
     (case head of
        None \<Rightarrow> (Inr [], cache)
      | Some h \<Rightarrow>
          if vh_profile h \<noteq> event_label_profile \<or> \<not> is_hex64 (vh_hash h)
          then (throw ''Invalid label publication'', cache)
          else
            let load = (let entries = label_entries E w (vh_key h) (vh_hash h)
                        in (Inr entries, Some \<lparr>sc_key = vh_key h, sc_hash = vh_hash h,
                              sc_profile = event_label_profile, sc_entries = entries\<rparr>))
            in (case cache of
                  Some c \<Rightarrow>
                    if sc_key c = vh_key h \<and> sc_hash c = vh_hash h
                    then (Inr (sc_entries c), cache) else load
                | None \<Rightarrow> load))"

text \<open>A cache is coherent when it holds what its object holds, and the object exists.\<close>

definition vector_cache_ok :: "env \<Rightarrow> world \<Rightarrow> vector snapshot_cache option \<Rightarrow> bool" where
  "vector_cache_ok E w cache =
     (case cache of
        None \<Rightarrow> True
      | Some c \<Rightarrow> sc_key c \<in> dom (blobs w)
          \<and> sc_entries c = vector_entries E w (sc_key c) (sc_hash c) (sc_profile c))"

definition label_cache_ok :: "env \<Rightarrow> world \<Rightarrow> json snapshot_cache option \<Rightarrow> bool" where
  "label_cache_ok E w cache =
     (case cache of
        None \<Rightarrow> True
      | Some c \<Rightarrow> sc_key c \<in> dom (blobs w)
          \<and> sc_entries c = label_entries E w (sc_key c) (sc_hash c))"

lemma intact_body_mono:
  "blobs w \<subseteq>\<^sub>m blobs w' \<Longrightarrow> key \<in> dom (blobs w) \<Longrightarrow>
     intact_body E w' key hash limit = intact_body E w key hash limit"
  by (auto simp: intact_body_def map_le_def dom_def split: option.splits)

lemma vector_entries_mono:
  "blobs w \<subseteq>\<^sub>m blobs w' \<Longrightarrow> key \<in> dom (blobs w) \<Longrightarrow>
     vector_entries E w' key hash p = vector_entries E w key hash p"
  by (simp add: vector_entries_def intact_body_mono)

lemma label_entries_mono:
  "blobs w \<subseteq>\<^sub>m blobs w' \<Longrightarrow> key \<in> dom (blobs w) \<Longrightarrow>
     label_entries E w' key hash = label_entries E w key hash"
  by (simp add: label_entries_def intact_body_mono)

lemma vector_cache_ok_mono:
  "blobs w \<subseteq>\<^sub>m blobs w' \<Longrightarrow> vector_cache_ok E w cache \<Longrightarrow> vector_cache_ok E w' cache"
  by (auto simp: vector_cache_ok_def vector_entries_mono map_le_def split: option.splits)
     (metis domI)

lemma read_vectors_cached:
  assumes "vector_cache_ok E w cache"
  shows "fst (read_vectors E w cache head profile) = fst (read_vectors E w None head profile)"
  using assms
  by (auto simp: read_vectors_def vector_cache_ok_def Let_def split: option.splits)

lemma read_labels_cached:
  assumes "label_cache_ok E w cache"
  shows "fst (read_labels E w cache head) = fst (read_labels E w None head)"
  using assms
  by (auto simp: read_labels_def label_cache_ok_def Let_def split: option.splits)

lemma read_vectors_cache_ok:
  assumes "vector_cache_ok E w cache"
    and "\<And>h. head = Some h \<Longrightarrow> vh_key h \<in> dom (blobs w)"
  shows "vector_cache_ok E w (snd (read_vectors E w cache head profile))"
  using assms
  by (auto simp: read_vectors_def vector_cache_ok_def Let_def split: option.splits)

lemma distinct_collect_entries: "distinct (keys (collect_entries ok es))"
proof -
  have "distinct (keys m) \<Longrightarrow>
      distinct (keys (fold (\<lambda>(h, v) m. if ok (h, v) then AList.update h v m else m) es m))" for m
    by (induction es arbitrary: m) (auto simp: distinct_update)
  then show ?thesis by (simp add: collect_entries_def)
qed

text \<open>An undamaged snapshot with distinct valid entries is read back as it is.\<close>

lemma collect_entries_id:
  assumes "distinct (keys es)" "\<forall>e \<in> set es. ok e"
  shows "collect_entries ok es = es"
proof -
  have "distinct (keys (m @ es)) \<Longrightarrow> \<forall>e \<in> set es. ok e \<Longrightarrow>
      fold (\<lambda>(h, v) m. if ok (h, v) then AList.update h v m else m) es m = m @ es" for m
  proof (induction es arbitrary: m)
    case Nil
    then show ?case by simp
  next
    case (Cons e es)
    obtain h v where e: "e = (h, v)" by fastforce
    have "map_of m h = None" using Cons.prems(1) e by (simp add: map_of_eq_None_iff)
    then have "AList.update h v m = m @ [(h, v)]" by (rule update_append_fresh)
    then show ?case using Cons.IH[of "m @ [(h, v)]"] Cons.prems e by simp
  qed
  from this[of "[]"] show ?thesis using assms by (simp add: collect_entries_def)
qed

section \<open>Profiles\<close>

text \<open>\<open>(?:^|\|)dimensions=(\d+)(?:\||$)\<close>: a whole part between bars.\<close>

definition dimension_part :: "jstr \<Rightarrow> nat option" where
  "dimension_part part =
     (let ds = drop 11 part
      in if take 11 part = u ''dimensions='' \<and> ds \<noteq> [] \<and> list_all is_digit_unit ds
         then Some (digits_value ds) else None)"

definition profile_dimensions :: "env \<Rightarrow> jstr \<Rightarrow> int option" where
  "profile_dimensions E profile =
     (case List.map_filter dimension_part (split_on 124 profile) of
        n # _ \<Rightarrow> Some (int n)
      | [] \<Rightarrow>
          (case en_parse E profile of
             Some (JArr legacy) \<Rightarrow>
               if length legacy > 3 \<and> legacy ! 0 = JStr (u ''embedding-v2'')
               then as_safe_integer (legacy ! 3) else None
           | _ \<Rightarrow> None))"

section \<open>Saving vectors\<close>

record 'a prepared_save =
  pv_previous :: "vector_head option"
  pv_next :: vector_head
  pv_combined :: "(jstr \<times> 'a) list"

definition merge_entries :: "(jstr \<times> 'a) list \<Rightarrow> (jstr \<times> 'a) list \<Rightarrow> (jstr \<times> 'a) list" where
  "merge_entries old es = fold (\<lambda>(h, v). AList.update h v) es old"

definition valid_vector_entry :: "env \<Rightarrow> jstr \<Rightarrow> jstr \<times> vector \<Rightarrow> bool" where
  "valid_vector_entry E profile e \<longleftrightarrow>
     is_hex64 (fst e)
     \<and> valid_vector (Some (snd e))
          (case profile_dimensions E profile of Some d \<Rightarrow> d | None \<Rightarrow> int (length (snd e)))
     \<and> length (snd e) \<le> 16384"

text \<open>
  \<open>saveVoyageVectors\<close> up to the put of the new object; \<open>None\<close> is the early return. The two
  UUIDs name the object and the revision.
\<close>

definition prepare_vectors ::
  "env \<Rightarrow> jstr \<Rightarrow> jstr \<Rightarrow> vector snapshot_cache option \<Rightarrow> jstr \<Rightarrow> (jstr \<times> vector) list \<Rightarrow> lease
     \<Rightarrow> (world, vector prepared_save option) op" where
  "prepare_vectors E keyId revisionId cache profile entries l =
     obind (olift (require_lease_kind l [''voyage_index_lock'', ''sync_lock''])) (\<lambda>_.
     if profile = [] \<or> entries = [] then oreturn None
     else if \<not> list_all (valid_vector_entry E profile) entries
     then olift (throw ''Invalid vector entry'')
     else
       let path = profile_path E profile; lockPath = lease_path E (ls_key l) in
       obind (transaction (obind (require_live l lockPath)
                (\<lambda>_ w. (Inr (vector_heads (ctl w) path), w)))) (\<lambda>previous.
       obind (\<lambda>w. (fst (read_vectors E w cache previous profile), w)) (\<lambda>existing.
       let combined = merge_entries existing entries;
           snapshot = Vector_body \<lparr>sn_profile = profile, sn_entries = combined\<rparr>;
           key = u ''vectors/'' @ en_namespace E @ u ''/'' @ en_sha E profile @ u ''/''
                   @ keyId @ u ''.json''
       in if length combined > max_vectors
          then olift (throw ''Vector snapshot entry limit exceeded'')
          else if en_size E snapshot > max_vector_bytes
          then olift (throw ''Vector snapshot byte limit exceeded'')
          else obind (put_immutable E key snapshot) (\<lambda>_.
            oreturn (Some \<lparr>pv_previous = previous,
              pv_next = \<lparr>vh_profile = profile, vh_revision = revisionId, vh_key = key,
                         vh_hash = en_digest E snapshot\<rparr>,
              pv_combined = combined\<rparr>)))))"

definition set_vector_head :: "jstr \<Rightarrow> vector_head \<Rightarrow> control \<Rightarrow> control" where
  "set_vector_head path h c = c\<lparr>vector_heads := (vector_heads c)(path \<mapsto> h)\<rparr>"

definition commit_vectors ::
  "env \<Rightarrow> jstr \<Rightarrow> lease \<Rightarrow> vector prepared_save \<Rightarrow> (world, unit) op" where
  "commit_vectors E profile l p =
     (let path = profile_path E profile in
      transaction (obind (require_live l (lease_path E (ls_key l))) (\<lambda>_ w.
        if same_revision vh_revision (vector_heads (ctl w) path) (pv_previous p)
        then (Inr (), w\<lparr>ctl := set_vector_head path (pv_next p) (ctl w)\<rparr>)
        else (throw ''Vector publication changed'', w))))"

definition save_voyage_vectors ::
  "env \<Rightarrow> jstr \<Rightarrow> jstr \<Rightarrow> vector snapshot_cache option \<Rightarrow> jstr \<Rightarrow> (jstr \<times> vector) list \<Rightarrow> lease
     \<Rightarrow> (world, unit) op" where
  "save_voyage_vectors E keyId revisionId cache profile entries l =
     obind (prepare_vectors E keyId revisionId cache profile entries l) (\<lambda>p.
       case p of None \<Rightarrow> oreturn () | Some p \<Rightarrow> commit_vectors E profile l p)"

definition voyage_vectors_by_hash ::
  "env \<Rightarrow> world \<Rightarrow> vector snapshot_cache option \<Rightarrow> jstr \<Rightarrow> jstr list \<Rightarrow> int
     \<Rightarrow> (jstr \<times> vector) list res" where
  "voyage_vectors_by_hash E w cache profile hashes dimensions =
     rbind (fst (read_vectors E w cache (vector_heads (ctl w) (profile_path E profile)) profile))
       (\<lambda>entries. Inr (fold (\<lambda>h result.
          case map_of entries h of
            Some v \<Rightarrow> if valid_vector (Some v) dimensions then AList.update h v result else result
          | None \<Rightarrow> result) hashes []))"

section \<open>Saving labels\<close>

definition prepare_labels ::
  "env \<Rightarrow> jstr \<Rightarrow> jstr \<Rightarrow> json snapshot_cache option \<Rightarrow> (jstr \<times> json) list \<Rightarrow> lease
     \<Rightarrow> (world, json prepared_save option) op" where
  "prepare_labels E keyId revisionId cache entries l =
     obind (olift (require_lease_kind l [''label_index_lock''])) (\<lambda>_.
     if entries = [] then oreturn None
     else if \<not> list_all (\<lambda>e. is_hex64 (fst e) \<and> valid_labels (snd e)) entries
     then olift (throw ''Invalid label entry'')
     else
       let lockPath = lease_path E (ls_key l) in
       obind (transaction (obind (require_live l lockPath)
                (\<lambda>_ w. (Inr (label_head (ctl w)), w)))) (\<lambda>previous.
       obind (\<lambda>w. (fst (read_labels E w cache previous), w)) (\<lambda>existing.
       let combined = merge_entries existing entries;
           snapshot = Label_body \<lparr>sn_profile = event_label_profile, sn_entries = combined\<rparr>;
           key = u ''labels/'' @ en_namespace E @ u ''/'' @ keyId @ u ''.json''
       in if length combined > max_vectors
          then olift (throw ''Label snapshot entry limit exceeded'')
          else if en_size E snapshot > max_label_bytes
          then olift (throw ''Label snapshot byte limit exceeded'')
          else obind (put_immutable E key snapshot) (\<lambda>_.
            oreturn (Some \<lparr>pv_previous = previous,
              pv_next = \<lparr>vh_profile = event_label_profile, vh_revision = revisionId,
                         vh_key = key, vh_hash = en_digest E snapshot\<rparr>,
              pv_combined = combined\<rparr>)))))"

definition set_label_head :: "vector_head \<Rightarrow> control \<Rightarrow> control" where
  "set_label_head h c = c\<lparr>label_head := Some h\<rparr>"

definition commit_labels :: "env \<Rightarrow> lease \<Rightarrow> json prepared_save \<Rightarrow> (world, unit) op" where
  "commit_labels E l p =
     transaction (obind (require_live l (lease_path E (ls_key l))) (\<lambda>_ w.
       if same_revision vh_revision (label_head (ctl w)) (pv_previous p)
       then (Inr (), w\<lparr>ctl := set_label_head (pv_next p) (ctl w)\<rparr>)
       else (throw ''Label publication changed'', w)))"

definition save_event_labels ::
  "env \<Rightarrow> jstr \<Rightarrow> jstr \<Rightarrow> json snapshot_cache option \<Rightarrow> (jstr \<times> json) list \<Rightarrow> lease
     \<Rightarrow> (world, unit) op" where
  "save_event_labels E keyId revisionId cache entries l =
     obind (prepare_labels E keyId revisionId cache entries l) (\<lambda>p.
       case p of None \<Rightarrow> oreturn () | Some p \<Rightarrow> commit_labels E l p)"

definition event_labels_by_hash ::
  "env \<Rightarrow> world \<Rightarrow> json snapshot_cache option \<Rightarrow> jstr list \<Rightarrow> (jstr \<times> json) list res" where
  "event_labels_by_hash E w cache hashes =
     rbind (fst (read_labels E w cache (label_head (ctl w))))
       (\<lambda>entries. Inr (fold (\<lambda>h result.
          case map_of entries h of Some l \<Rightarrow> AList.update h l result | None \<Rightarrow> result) hashes []))"

text \<open>
  \<open>withLabels\<close>: attach cached labels. A label read that fails leaves the events as they are. The
  label hash of an event is the parameter \<open>hash_of\<close>.
\<close>

definition with_labels ::
  "env \<Rightarrow> world \<Rightarrow> json snapshot_cache option \<Rightarrow> (event \<Rightarrow> jstr) \<Rightarrow> event list \<Rightarrow> event list" where
  "with_labels E w cache hash_of events =
     (case fst (read_labels E w cache (label_head (ctl w))) of
        Inl _ \<Rightarrow> events
      | Inr entries \<Rightarrow>
          if entries = [] then events
          else map (\<lambda>e. case map_of entries (hash_of e) of
                          Some found \<Rightarrow> e\<lparr>ev_labels := Some found\<rparr> | None \<Rightarrow> e) events)"

section \<open>What a save preserves\<close>

lemma map_of_merge_entries:
  "map_of (merge_entries old es) h =
     (case map_of (rev es) h of Some v \<Rightarrow> Some v | None \<Rightarrow> map_of old h)"
proof (induction es arbitrary: old)
  case Nil
  then show ?case by (simp add: merge_entries_def)
next
  case (Cons e es)
  obtain k v where e: "e = (k, v)" by fastforce
  have "merge_entries old (e # es) = merge_entries (AList.update k v old) es"
    by (simp add: merge_entries_def e)
  then show ?case
    using Cons.IH[of "AList.update k v old"]
    by (simp add: e update_conv' map_add_def split: option.split)
qed

lemma merge_entries_distinct: "distinct (keys old) \<Longrightarrow> distinct (keys (merge_entries old es))"
  unfolding merge_entries_def
  by (induction es arbitrary: old) (auto simp: distinct_update)

lemma merge_entries_all:
  assumes "\<forall>e \<in> set old. ok e" "\<forall>e \<in> set es. ok e"
  shows "\<forall>e \<in> set (merge_entries old es). ok e"
  using assms unfolding merge_entries_def
proof (induction es arbitrary: old)
  case (Cons e es)
  obtain k v where e: "e = (k, v)" by fastforce
  have "\<forall>e \<in> set (AList.update k v old). ok e"
    using Cons.prems set_AList_update[of k v old] e by auto
  then show ?case using Cons.IH Cons.prems(2) e by simp
qed simp

lemma collect_entries_step:
  assumes "\<forall>e \<in> set m. ok e"
  shows "\<forall>e \<in> set (fold (\<lambda>(h, v) m. if ok (h, v) then AList.update h v m else m) es m). ok e"
  using assms
proof (induction es arbitrary: m)
  case (Cons a es)
  obtain k v where a: "a = (k, v)" by fastforce
  have "\<forall>e \<in> set (if ok (k, v) then AList.update k v m else m). ok e"
    using Cons.prems set_AList_update[of k v m] by auto
  then show ?case unfolding a fold_Cons comp_apply prod.case by (rule Cons.IH)
qed simp

lemma collect_entries_subset: "e \<in> set (collect_entries ok es) \<Longrightarrow> ok e"
  unfolding collect_entries_def by (rule bspec[OF collect_entries_step]) simp_all

lemma vector_entries_hex: "e \<in> set (vector_entries E w key hash p) \<Longrightarrow> is_hex64 (fst e)"
  by (auto simp: vector_entries_def split: option.splits body.splits if_splits
      dest: collect_entries_subset)

lemma vector_entries_distinct: "distinct (keys (vector_entries E w key hash p))"
  by (simp add: vector_entries_def distinct_collect_entries split: option.split body.split)

text \<open>The entries a head makes visible.\<close>

definition visible_vectors :: "env \<Rightarrow> world \<Rightarrow> jstr \<Rightarrow> jstr \<rightharpoonup> vector" where
  "visible_vectors E w profile =
     (case vector_heads (ctl w) (profile_path E profile) of
        None \<Rightarrow> Map.empty
      | Some h \<Rightarrow> map_of (vector_entries E w (vh_key h) (vh_hash h) profile))"

lemma prepare_vectors_Some:
  assumes "prepare_vectors E k r cache profile entries l w = (Inr (Some p), w1)"
  obtains existing where
    "pv_previous p = vector_heads (ctl w) (profile_path E profile)"
    "fst (read_vectors E w cache (pv_previous p) profile) = Inr existing"
    "pv_combined p = merge_entries existing entries"
    "vh_profile (pv_next p) = profile" "vh_revision (pv_next p) = r"
    "vh_key (pv_next p) = u ''vectors/'' @ en_namespace E @ u ''/'' @ en_sha E profile @ u ''/''
       @ k @ u ''.json''"
    "vh_hash (pv_next p)
       = en_digest E (Vector_body \<lparr>sn_profile = profile, sn_entries = pv_combined p\<rparr>)"
    "length (pv_combined p) \<le> max_vectors"
    "en_size E (Vector_body \<lparr>sn_profile = profile, sn_entries = pv_combined p\<rparr>) \<le> max_vector_bytes"
    "list_all (valid_vector_entry E profile) entries"
    "put_immutable E (vh_key (pv_next p))
       (Vector_body \<lparr>sn_profile = profile, sn_entries = pv_combined p\<rparr>) w = (Inr (), w1)"
    "live_lease (clock w) (ctl w) l (lease_path E (ls_key l))"
  using assms
  by (auto simp: prepare_vectors_def obind_eq_Inr transaction_Inr require_live_def Let_def
      split: if_split_asm)

lemma commit_vectors_Inr:
  "commit_vectors E profile l p w = (Inr (), w') \<longleftrightarrow>
     live_lease (clock w) (ctl w) l (lease_path E (ls_key l))
     \<and> same_revision vh_revision (vector_heads (ctl w) (profile_path E profile)) (pv_previous p)
     \<and> w' = w\<lparr>ctl := set_vector_head (profile_path E profile) (pv_next p) (ctl w)\<rparr>"
  by (auto simp: commit_vectors_def Let_def transaction_Inr obind_eq_Inr require_live_def
      split: if_split_asm)

text \<open>
  A committed save: whatever ran between its two transactions, the vectors visible afterwards are
  the ones visible at the commit, overridden by the entries of the save. The revision hypothesis
  is what \<open>crypto.randomUUID\<close> gives; the publication system below establishes it for its heads.
\<close>

lemma commit_vectors_merges:
  assumes prep: "prepare_vectors E k r cache profile entries l w = (Inr (Some p), w1)"
    and cache: "vector_cache_ok E w cache"
    and fresh: "blobs w (u ''vectors/'' @ en_namespace E @ u ''/'' @ en_sha E profile @ u ''/''
       @ k @ u ''.json'') = None"
    and hex: "\<And>h. pv_previous p = Some h \<Longrightarrow> vh_key h \<in> dom (blobs w)"
    and grow: "blobs w1 \<subseteq>\<^sub>m blobs w2"
    and rev: "\<And>h h'. vector_heads (ctl w2) (profile_path E profile) = Some h \<Longrightarrow>
       pv_previous p = Some h' \<Longrightarrow> vh_revision h = vh_revision h' \<Longrightarrow> h = h'"
    and commit: "commit_vectors E profile l p w2 = (Inr (), w3)"
  shows "visible_vectors E w3 profile = visible_vectors E w2 profile ++ map_of (rev entries)"
proof -
  let ?path = "profile_path E profile"
  let ?b = "Vector_body \<lparr>sn_profile = profile, sn_entries = pv_combined p\<rparr>"
  obtain existing where p: "pv_previous p = vector_heads (ctl w) ?path"
    "fst (read_vectors E w cache (pv_previous p) profile) = Inr existing"
    "pv_combined p = merge_entries existing entries" "vh_profile (pv_next p) = profile"
    and key: "vh_key (pv_next p) = u ''vectors/'' @ en_namespace E @ u ''/'' @ en_sha E profile
       @ u ''/'' @ k @ u ''.json''"
    and hash: "vh_hash (pv_next p) = en_digest E ?b"
    and bounds: "length (pv_combined p) \<le> max_vectors" "en_size E ?b \<le> max_vector_bytes"
    and valid: "list_all (valid_vector_entry E profile) entries"
    and put: "put_immutable E (vh_key (pv_next p)) ?b w = (Inr (), w1)"
    using prep by (rule prepare_vectors_Some) blast
  have same: "vector_heads (ctl w2) ?path = pv_previous p"
    and w3: "w3 = w2\<lparr>ctl := set_vector_head ?path (pv_next p) (ctl w2)\<rparr>"
    using commit by (auto simp: commit_vectors_Inr intro: same_revision_eq rev)
  have le: "blobs w \<subseteq>\<^sub>m blobs w2"
    using put_immutable_keeps[OF put] grow by (rule map_le_trans)
  have ex: "map_of existing = visible_vectors E w2 profile
      \<and> distinct (keys existing) \<and> (\<forall>e \<in> set existing. is_hex64 (fst e))"
  proof (cases "pv_previous p")
    case None
    then show ?thesis using p(2) same by (simp add: read_vectors_def visible_vectors_def)
  next
    case (Some h)
    then have "existing = vector_entries E w (vh_key h) (vh_hash h) profile"
      using p(2) read_vectors_cached[OF cache, of "Some h" profile]
      by (auto simp: read_vectors_def Let_def split: if_splits)
    then show ?thesis
      using Some same hex[OF Some] vector_entries_mono[OF le]
      by (auto simp: visible_vectors_def vector_entries_distinct dest: vector_entries_hex)
  qed
  have comb: "distinct (keys (pv_combined p))" "\<forall>e \<in> set (pv_combined p). is_hex64 (fst e)"
    using ex valid merge_entries_distinct[of existing entries]
      merge_entries_all[of existing "\<lambda>e. is_hex64 (fst e)" entries]
    by (auto simp: p(3) list_all_iff valid_vector_entry_def)
  have "blobs w1 (vh_key (pv_next p)) = Some \<lparr>bl_body = ?b, bl_bytes = en_size E ?b\<rparr>"
    using put fresh key by (auto simp: put_immutable_def split: if_splits)
  then have "blobs w2 (vh_key (pv_next p)) = Some \<lparr>bl_body = ?b, bl_bytes = en_size E ?b\<rparr>"
    using grow by (metis domI map_le_def)
  then have "vector_entries E w3 (vh_key (pv_next p)) (vh_hash (pv_next p)) profile = pv_combined p"
    using bounds comb hash
    by (simp add: vector_entries_def intact_body_def w3 collect_entries_id split_def)
  then have "visible_vectors E w3 profile = map_of (pv_combined p)"
    by (simp add: visible_vectors_def w3 set_vector_head_def)
  also have "\<dots> = visible_vectors E w2 profile ++ map_of (rev entries)"
    using ex by (auto simp: p(3) map_of_merge_entries map_add_def fun_eq_iff split: option.split)
  finally show ?thesis .
qed

end
