(* ===== verification/Store_Properties.thy ===== *)
theory Store_Properties
  imports Snapshots
begin

text \<open>
  What the snapshot store promises about request limits, leases, immutable objects and embedding
  vectors, and what its readers of reports, pointers and source pages accept.
\<close>

section \<open>A store to try the properties on\<close>

definition sample_env :: env where
  "sample_env = \<lparr>en_namespace = u ''n'', en_profile = None, en_sha = (\<lambda>s. s),
     en_digest = (\<lambda>b. replicate 64 48), en_size = (\<lambda>b. 10), en_event_size = (\<lambda>e. 10),
     en_parse = (\<lambda>s. None), en_collate = cmp_int, en_max_blob = 100\<rparr>"

definition sample_lease :: "string \<Rightarrow> lease" where
  "sample_lease key = \<lparr>ls_key = u key, ls_token = u ''t'', ls_expiresAt = 60000\<rparr>"

definition empty_world :: world where
  "empty_world = \<lparr>ctl = \<lparr>leases = Map.empty, limits = Map.empty, sources = [], catalog = None,
       publication = None, vector_heads = Map.empty, label_head = None\<rparr>,
     blobs = Map.empty, clock = 0\<rparr>"

definition leased_world :: "string \<Rightarrow> world" where
  "leased_world key = empty_world\<lparr>ctl :=
     set_lease (lease_path sample_env (u key)) (sample_lease key) (ctl empty_world)\<rparr>"

lemma leased_world_live:
  "live_lease 0 (ctl (leased_world key)) (sample_lease key) (lease_path sample_env (u key))"
  "clock (leased_world key) = 0" "blobs (leased_world key) = Map.empty"
  "vector_heads (ctl (leased_world key)) = Map.empty"
  by (simp_all add: leased_world_def live_lease_def sample_lease_def empty_world_def set_lease_def
      get_lease_def)

section \<open>Request limits and leases\<close>

text \<open>
  C32: a request window admits at most its limit: however many requests arrive, at whatever
  times, the admitted ones together with those counted before stay within the limit.
\<close>

theorem window_admits_at_most_limit:
  assumes "1 \<le> limit" and "get_limit (limit_path E key) (ctl w) = None"
  shows "int (fst (admitted E key limit expiresAt ts w)) \<le> limit"
  using admitted_count[of limit E key w expiresAt ts] assms
  by (simp add: window_count_def)

theorem window_admits_at_most_limit_witness:
  "int (fst (admitted sample_env (u ''k'') 1 60000 [0, 5, 10] empty_world)) \<le> 1
     \<and> consume_limit sample_env (u ''k'') 1 60000 empty_world
         = (Inr True, snd (consume_limit sample_env (u ''k'') 1 60000 empty_world))"
proof -
  have l: "(1::int) \<le> 1" by simp
  have n: "get_limit (limit_path sample_env (u ''k'')) (ctl empty_world) = None"
    by (simp add: get_limit_def empty_world_def)
  show ?thesis using window_admits_at_most_limit[OF l n] n
    by (simp add: consume_limit_def transaction_def current_count_def max_safe_integer_def
        empty_world_def)
qed

text \<open>
  C28: a lease is granted only when no lease of its key is unexpired, is live when granted, and
  an attempt that grants nothing leaves the store as it was.
\<close>

theorem lease_granted_exclusively:
  "case acquire_lease E token key ttl w of
     (Inr (Some l), w') \<Rightarrow>
       live_lease (clock w') (ctl w') l (lease_path E key) \<and> ls_expiresAt l = clock w + ttl
       \<and> (case get_lease (lease_path E key) (ctl w) of
            Some previous \<Rightarrow> ls_expiresAt previous \<le> clock w | None \<Rightarrow> True)
   | (_, w') \<Rightarrow> w' = w"
proof -
  obtain r w' where a: "acquire_lease E token key ttl w = (r, w')" by fastforce
  show ?thesis
  proof (cases "\<exists>l. r = Inr (Some l)")
    case True
    then obtain l where l: "acquire_lease E token key ttl w = (Inr (Some l), w')" using a by blast
    show ?thesis
      using acquire_lease_Some[OF l] acquired_is_live[OF l]
      unfolding l by (simp split: option.split)
  next
    case False
    then have "w' = w" using acquire_lease_other[OF a] by blast
    then show ?thesis using a False by (simp split: sum.split option.split)
  qed
qed

section \<open>Objects and vectors\<close>

text \<open>
  \<open>putImmutable\<close> never changes or removes an object, and after a successful put the key holds
  an object with the digest of the text that was put.
\<close>

theorem put_immutable_is_immutable:
  "case put_immutable E key b w of (r, w') \<Rightarrow>
     blobs w \<subseteq>\<^sub>m blobs w' \<and> ctl w' = ctl w
     \<and> (case r of Inr _ \<Rightarrow> (case blobs w' key of
            Some bl \<Rightarrow> en_digest E (bl_body bl) = en_digest E b | None \<Rightarrow> False)
        | Inl _ \<Rightarrow> w' = w)"
  by (auto simp: put_immutable_def map_le_def split: option.split if_split)

text \<open>
  C27: no vector update is lost. When \<open>saveVoyageVectors\<close> commits, the vectors visible afterwards
  are those visible at the commit, overridden by the saved entries, whatever other writers did
  between its two transactions; revisions identify heads, as \<open>crypto.randomUUID\<close> makes them.
\<close>

theorem committed_vectors_merge:
  assumes "prepare_vectors E k r cache profile entries l w = (Inr (Some p), w1)"
    and "vector_cache_ok E w cache"
    and "blobs w (u ''vectors/'' @ en_namespace E @ u ''/'' @ en_sha E profile @ u ''/''
       @ k @ u ''.json'') = None"
    and "\<And>h. pv_previous p = Some h \<Longrightarrow> vh_key h \<in> dom (blobs w)"
    and "blobs w1 \<subseteq>\<^sub>m blobs w2"
    and "\<And>h h'. vector_heads (ctl w2) (profile_path E profile) = Some h \<Longrightarrow>
       pv_previous p = Some h' \<Longrightarrow> vh_revision h = vh_revision h' \<Longrightarrow> h = h'"
    and "commit_vectors E profile l p w2 = (Inr (), w3)"
  shows "visible_vectors E w3 profile = visible_vectors E w2 profile ++ map_of (rev entries)"
  using assms by (rule commit_vectors_merges)

theorem committed_vectors_merge_witness:
  "\<exists>w3. save_voyage_vectors sample_env (u ''k'') (u ''r'') None (u ''p'')
        [(replicate 64 48, [Fin 1])] (sample_lease ''sync_lock'') (leased_world ''sync_lock'')
          = (Inr (), w3)
     \<and> visible_vectors sample_env w3 (u ''p'') = [replicate 64 48 \<mapsto> [Fin 1]]"
proof -
  let ?w = "leased_world ''sync_lock''" and ?l = "sample_lease ''sync_lock''"
  let ?es = "[(replicate 64 48, [Fin 1])] :: (jstr \<times> vector) list"
  have valid: "valid_vector_entry sample_env (u ''p'') (replicate 64 48, [Fin 1])"
    by (simp add: valid_vector_entry_def is_hex64_def valid_vector_def profile_dimensions_def
        dimension_part_def sample_env_def is_hex_unit_def is_digit_unit_def u_def cu_def
        map_filter_simps list_all_iff)
  obtain p w1 where p: "prepare_vectors sample_env (u ''k'') (u ''r'') None (u ''p'') ?es ?l ?w
      = (Inr (Some p), w1)" "pv_previous p = None" "blobs ?w \<subseteq>\<^sub>m blobs w1" "ctl w1 = ctl ?w"
    "clock w1 = 0"
    using valid leased_world_live[of "''sync_lock''"]
    by (simp add: prepare_vectors_def require_lease_kind_def sample_lease_def transaction_def
        obind_def require_live_def Let_def read_vectors_def merge_entries_def max_vectors_def
        max_vector_bytes_def put_immutable_def sample_env_def)
  obtain w3 where c: "commit_vectors sample_env (u ''p'') ?l p w1 = (Inr (), w3)"
    using leased_world_live[of "''sync_lock''"] p
    by (simp add: commit_vectors_Inr same_revision_def sample_lease_def)
  have "visible_vectors sample_env w3 (u ''p'')
      = visible_vectors sample_env w1 (u ''p'') ++ map_of (rev ?es)"
    using committed_vectors_merge[OF p(1) _ _ _ _ _ c] p leased_world_live[of "''sync_lock''"]
    by (simp add: vector_cache_ok_def)
  then show ?thesis
    using p c leased_world_live[of "''sync_lock''"]
    by (simp add: save_voyage_vectors_def obind_def visible_vectors_def)
qed

section \<open>Reports, pointers and pages\<close>

text \<open>
  A checkpoint pointer survives being written and read back exactly when it is well formed,
  and the reader accepts nothing that is not.
\<close>

theorem checkpoint_pointer_roundtrip:
  "parse_checkpoint_pointer (Some (pointer_json p)) = (if pointer_ok p then Some p else None)
   \<and> (case parse_checkpoint_pointer v of Some q \<Rightarrow> pointer_ok q | None \<Rightarrow> True)"
  using parse_pointer_json[of p] parse_pointer_ok[of v] by (simp split: option.split)

text \<open>
  The report parser accepts exactly the reports of schema 1 that are not blocked, finished
  at most five minutes in the future, with at least one refreshed page and no more available
  events than events.
\<close>

theorem collection_report_accepted_iff:
  "parse_collection_report e now = Inr r \<longleftrightarrow>
     jget e ''schemaVersion'' = jint 1
     \<and> truthy (jget e ''report'')
     \<and> jget (jget e ''report'') ''finishedAt'' = JStr (rep_finishedAt r)
     \<and> jget (jget e ''report'') ''summary'' = rep_summary r
     \<and> canonical_iso (rep_finishedAt r)
     \<and> the (date_parse (rep_finishedAt r)) \<le> now + 300000
     \<and> is_obj (rep_summary r) \<and> \<not> truthy (jget (rep_summary r) ''blocked'')
     \<and> (\<exists>ev av rp. jget (rep_summary r) ''events'' = jint ev
          \<and> jget (rep_summary r) ''available'' = jint av
          \<and> jget (rep_summary r) ''refreshedPages'' = jint rp
          \<and> 0 \<le> av \<and> av \<le> ev \<and> 1 \<le> rp)"
  by (rule parse_report_iff)

text \<open>
  The health route reports no reason exactly when the catalog is ready with an eligible
  event, the checkpoint is younger than a day, no source is missing and neither the stored nor
  the eligible events fell below half of a substantial checkpoint.
\<close>

theorem readiness_reports_nothing_iff:
  assumes "pointer_ok p" and "jget (ptr_summary p) ''available'' = jint av"
  shows "checkpoint_readiness sn status stored eligible (Some p) now = [] \<longleftrightarrow>
     status = Ready \<and> 0 < eligible
     \<and> now < the (date_parse (ptr_savedAt p)) + 86400000
     \<and> now < the (date_parse (ptr_finishedAt p)) + 86400000
     \<and> (\<forall>xs. jget (ptr_summary p) ''missingSources'' = JArr xs \<longrightarrow> xs = [])
     \<and> (ptr_events p < 100 \<or> ptr_events p \<le> stored * 2)
     \<and> (av < 100 \<or> av \<le> eligible * 2)"
  using assms by (rule readiness_clear_iff)

definition sample_pointer :: checkpoint_pointer where
  "sample_pointer = \<lparr>ptr_key = u ''collection/a.json'', ptr_savedAt = u ''2026-10-05T17:30:00.000Z'',
     ptr_finishedAt = u ''2026-10-05T17:30:00.000Z'', ptr_events = 5, ptr_bytes = 10,
     ptr_summary = JObj [(u ''available'', jint 5)]\<rparr>"

theorem readiness_reports_nothing_iff_witness:
  "checkpoint_readiness (\<lambda>_. NaN) Stale 5 5 (Some sample_pointer) 0 \<noteq> []"
proof -
  have "pointer_ok sample_pointer"
    by (simp add: pointer_ok_def sample_pointer_def max_checkpoint_bytes_def) code_simp
  moreover have "jget (ptr_summary sample_pointer) ''available'' = jint 5"
    by (simp add: sample_pointer_def)
  ultimately show ?thesis by (simp add: readiness_reports_nothing_iff)
qed

text \<open>
  The times of a source page: events of an active page are bracketed by the reported stamps,
  which are stamps of its events; an empty page is accepted only with an explicit canonical
  stamp; every event of an accepted page has the page's address.
\<close>

theorem source_page_times_sound:
  "case source_page_times page of
     Inl e \<Rightarrow> True
   | Inr (checked, latest, kind) \<Rightarrow>
       list_all (\<lambda>e. ev_url e = pg_url page \<and> checked \<le> ev_checkedAt e \<and> ev_checkedAt e \<le> latest
                   \<and> checked \<in> ev_checkedAt ` set (pg_events page)
                   \<and> latest \<in> ev_checkedAt ` set (pg_events page)) (pg_events page)
       \<and> (kind = Active_source \<longleftrightarrow> pg_events page \<noteq> [])
       \<and> (kind = Active_source \<or> checked = latest \<and> canonical_iso latest)"
proof (cases "source_page_times page")
  case (Inr t)
  obtain checked latest kind where t: "t = (checked, latest, kind)" by (cases t)
  show ?thesis
    using Inr page_times_cases[of page checked latest kind] page_times_active[of page checked latest kind]
    unfolding t by (simp add: list_all_iff)
qed simp

end
