(* ===== verification/Regex_Syntax.thy ===== *)
theory Regex_Syntax
  imports Regex
begin

text \<open>
  The pattern syntax of the sources, so that a definition can quote a pattern as it is written
  there: \<open>re\<close> reads a pattern and gives its \<^typ>\<open>rx\<close>. A backslash is written \<open>%\<close>, and letters
  outside ASCII are written as in \<open>tr\<close>. The syntax covers what the sources use: alternation,
  groups (capturing or not), look-ahead, look-behind over a class or a literal, classes with
  ranges and escapes, the quantifiers with their lazy forms, anchors and word boundaries.
  A text that is no pattern reads as one that never matches.
\<close>

section \<open>Flags\<close>

text \<open>
  What depends on the flags of a pattern: when two units count as the same character, what
  \<open>\\w\<close> and \<open>\\b\<close> take for word characters, and the classes of the Unicode properties. The
  letters, numbers and marks are those of the text's alphabet, given as predicates.
\<close>

record rx_syntax =
  sx_same :: "nat \<Rightarrow> nat \<Rightarrow> bool"
  sx_word :: "nat \<Rightarrow> bool"
  sx_property :: "char \<Rightarrow> nat \<Rightarrow> bool"

definition ascii_fold :: "nat \<Rightarrow> nat" where
  "ascii_fold c = (if is_upper_unit c then c + 32 else c)"

text \<open>
  The letters of \<open>\\p{L}\<close> (tag \<open>L\<close>) in ASCII, Latin-1 and Latin Extended-A, the digits of
  \<open>\\p{N}\<close>, and the combining marks of \<open>\\p{M}\<close> up to U+036F. Text in other scripts is outside
  the model.
\<close>

definition letter_unit :: "nat \<Rightarrow> bool" where
  "letter_unit c \<longleftrightarrow>
     is_lower_unit c \<or> is_upper_unit c \<or> c = 170 \<or> c = 181 \<or> c = 186
     \<or> (192 \<le> c \<and> c \<le> 383 \<and> c \<noteq> 215 \<and> c \<noteq> 247)"

definition number_unit :: "nat \<Rightarrow> bool" where
  "number_unit c \<longleftrightarrow> is_digit_unit c \<or> c \<in> {178, 179, 185, 188, 189, 190}"

definition mark_unit :: "nat \<Rightarrow> bool" where
  "mark_unit c \<longleftrightarrow> 768 \<le> c \<and> c \<le> 879"

definition property_unit :: "char \<Rightarrow> nat \<Rightarrow> bool" where
  "property_unit tag c =
     (if tag = CHR ''L'' then letter_unit c
      else if tag = CHR ''N'' then number_unit c
      else if tag = CHR ''M'' then mark_unit c else False)"

definition plain :: rx_syntax where
  "plain = \<lparr>sx_same = (=), sx_word = is_word_unit, sx_property = property_unit\<rparr>"

text \<open>The flag \<open>i\<close> without \<open>u\<close>, on the ASCII letters.\<close>

definition ignore_case :: rx_syntax where
  "ignore_case = plain\<lparr>sx_same := (\<lambda>c d. ascii_fold c = ascii_fold d)\<rparr>"

section \<open>Reading a pattern\<close>

text \<open>One unit of a pattern: a character, or a tilde and the letter that names it.\<close>

definition read_unit :: "char \<Rightarrow> string \<Rightarrow> nat \<times> string" where
  "read_unit c r =
     (if c = CHR ''~'' then (case r of d # r' \<Rightarrow> (tr_unit d, r') | [] \<Rightarrow> (cu c, []))
      else (cu c, r))"

text \<open>Escapes: a class of units, or a unit that stands for itself.\<close>

definition escape_class :: "rx_syntax \<Rightarrow> char \<Rightarrow> (nat \<Rightarrow> bool) option" where
  "escape_class F c =
     (if c = CHR ''d'' then Some is_digit_unit
      else if c = CHR ''D'' then Some (\<lambda>x. \<not> is_digit_unit x)
      else if c = CHR ''s'' then Some is_space_unit
      else if c = CHR ''S'' then Some (\<lambda>x. \<not> is_space_unit x)
      else if c = CHR ''w'' then Some (sx_word F)
      else if c = CHR ''W'' then Some (\<lambda>x. \<not> sx_word F x)
      else None)"

definition escape_unit :: "char \<Rightarrow> nat" where
  "escape_unit c =
     (if c = CHR ''n'' then 10 else if c = CHR ''t'' then 9 else if c = CHR ''r'' then 13 else cu c)"

text \<open>After the backslash: a property \<open>p{X}\<close> or \<open>P{X}\<close>, a class, or a unit.\<close>

fun read_escape :: "rx_syntax \<Rightarrow> string \<Rightarrow> (((nat \<Rightarrow> bool) + nat) \<times> string) option" where
  "read_escape F [] = None"
| "read_escape F (c # r) =
     (if (c = CHR ''p'' \<or> c = CHR ''P'') \<and> take 1 r = ''{'' \<and> take 1 (drop 2 r) = ''}''
      then Some (Inl (\<lambda>x. sx_property F (hd (drop 1 r)) x = (c = CHR ''p'')), drop 3 r)
      else case escape_class F c of
             Some k \<Rightarrow> Some (Inl k, r)
           | None \<Rightarrow> Some (Inr (escape_unit c), r))"

text \<open>One member of a bracketed class.\<close>

fun read_member :: "rx_syntax \<Rightarrow> string \<Rightarrow> (((nat \<Rightarrow> bool) + nat) \<times> string) option" where
  "read_member F [] = None"
| "read_member F (c # r) =
     (if c = CHR ''%'' then read_escape F r
      else case read_unit c r of (x, r') \<Rightarrow> Some (Inr x, r'))"

fun read_class :: "nat \<Rightarrow> rx_syntax \<Rightarrow> (nat \<Rightarrow> bool) \<Rightarrow> string \<Rightarrow> ((nat \<Rightarrow> bool) \<times> string) option" where
  "read_class 0 F k s = None"
| "read_class (Suc n) F k s =
     (if take 1 s = '']'' then Some (k, drop 1 s)
      else case read_member F s of
        None \<Rightarrow> None
      | Some (Inl p, r) \<Rightarrow> read_class n F (\<lambda>x. k x \<or> p x) r
      | Some (Inr a, r) \<Rightarrow>
          if take 1 r = ''-'' \<and> take 1 (drop 1 r) \<noteq> '']''
          then (case read_member F (drop 1 r) of
                  Some (Inr b, r') \<Rightarrow>
                    read_class n F
                      (\<lambda>x. k x \<or> (a \<le> x \<and> x \<le> b)
                           \<or> (\<exists>y \<in> set [a..<Suc b]. sx_same F x y)) r'
                | _ \<Rightarrow> None)
          else read_class n F (\<lambda>x. k x \<or> sx_same F x a) r)"

text \<open>A bracketed class after its opening bracket, with its negation.\<close>

definition read_bracket :: "nat \<Rightarrow> rx_syntax \<Rightarrow> string \<Rightarrow> ((nat \<Rightarrow> bool) \<times> string) option" where
  "read_bracket n F s =
     (if take 1 s = ''^''
      then map_option (\<lambda>(k, r). (\<lambda>x. \<not> k x, r)) (read_class n F (\<lambda>x. False) (drop 1 s))
      else read_class n F (\<lambda>x. False) s)"

definition digit_char :: "char \<Rightarrow> bool" where
  "digit_char c \<longleftrightarrow> c \<in> set ''0123456789''"

definition read_number :: "string \<Rightarrow> (nat \<times> string) option" where
  "read_number s =
     (let ds = takeWhile digit_char s
      in if ds = [] then None
         else Some (foldl (\<lambda>n c. 10 * n + (cu c - 48)) 0 ds, dropWhile digit_char s))"

definition quantify :: "nat \<Rightarrow> nat option \<Rightarrow> rx \<Rightarrow> string \<Rightarrow> rx \<times> string" where
  "quantify low high a s =
     (if take 1 s = ''?'' then (Rep False low high a, drop 1 s) else (Rep True low high a, s))"

fun read_quantifier :: "rx \<Rightarrow> string \<Rightarrow> (rx \<times> string) option" where
  "read_quantifier a [] = Some (a, [])"
| "read_quantifier a (c # r) =
     (if c = CHR ''?'' then Some (quantify 0 (Some 1) a r)
      else if c = CHR ''*'' then Some (quantify 0 None a r)
      else if c = CHR ''+'' then Some (quantify 1 None a r)
      else if c = CHR ''{''
      then (case read_number r of
              None \<Rightarrow> None
            | Some (m, r1) \<Rightarrow>
                if take 1 r1 = ''}'' then Some (quantify m (Some m) a (drop 1 r1))
                else if take 1 r1 \<noteq> '','' then None
                else if take 1 (drop 1 r1) = ''}'' then Some (quantify m None a (drop 2 r1))
                else (case read_number (drop 1 r1) of
                        Some (k, r2) \<Rightarrow>
                          if take 1 r2 = ''}'' then Some (quantify m (Some k) a (drop 1 r2))
                          else None
                      | None \<Rightarrow> None))
      else Some (a, c # r))"

text \<open>
  A look-behind reads a single class or escape, or a literal up to the closing parenthesis, which
  may begin with a word boundary.
\<close>

definition read_behind :: "nat \<Rightarrow> rx_syntax \<Rightarrow> string \<Rightarrow> ((jstr \<Rightarrow> bool) \<times> string) option" where
  "read_behind n F s =
     (let closed = (\<lambda>k r. if take 1 r = '')'' then Some (unit_ahead k, drop 1 r) else None)
      in if take 1 s = ''[''
      then (case read_bracket n F (drop 1 s) of Some (k, r) \<Rightarrow> closed k r | None \<Rightarrow> None)
      else if take 1 s = ''%'' \<and> take 2 s \<noteq> ''%b''
      then (case read_escape F (drop 1 s) of
              Some (Inl k, r) \<Rightarrow> closed k r
            | Some (Inr c, r) \<Rightarrow> closed (sx_same F c) r
            | None \<Rightarrow> None)
      else
        let bounded = (take 2 s = ''%b'');
            body = (if bounded then drop 2 s else s);
            w = tr (takeWhile (\<lambda>c. c \<noteq> CHR '')'') body);
            r = dropWhile (\<lambda>c. c \<noteq> CHR '')'') body
        in if r = [] then None
           else Some (\<lambda>past. take (length w) past = rev w
                  \<and> (\<not> bounded
                     \<or> unit_ahead (sx_word F) (drop (length w) past) \<noteq> unit_ahead (sx_word F) w),
                drop 1 r))"

text \<open>
  The parser: alternatives, sequences and terms, with the number of the next capturing group.
  Each call consumes a character or goes one level down, so three times the length is enough fuel.
\<close>

fun close_group :: "(rx \<Rightarrow> rx) \<Rightarrow> (rx \<times> nat \<times> string) option \<Rightarrow> (rx \<times> nat \<times> string) option" where
  "close_group f None = None"
| "close_group f (Some (a, k, r)) =
     (if take 1 r = '')''
      then map_option (\<lambda>(q, r1). (q, k, r1)) (read_quantifier (f a) (drop 1 r)) else None)"

definition atom :: "nat \<Rightarrow> (nat \<Rightarrow> bool) \<Rightarrow> string \<Rightarrow> (rx \<times> nat \<times> string) option" where
  "atom k ok r = map_option (\<lambda>(q, r1). (q, k, r1)) (read_quantifier (Chr ok) r)"

fun read_alternatives :: "nat \<Rightarrow> rx_syntax \<Rightarrow> nat \<Rightarrow> string \<Rightarrow> (rx \<times> nat \<times> string) option"
  and read_sequence :: "nat \<Rightarrow> rx_syntax \<Rightarrow> nat \<Rightarrow> string \<Rightarrow> (rx \<times> nat \<times> string) option"
  and read_term :: "nat \<Rightarrow> rx_syntax \<Rightarrow> nat \<Rightarrow> string \<Rightarrow> (rx \<times> nat \<times> string) option" where
  "read_alternatives 0 F k s = None"
| "read_alternatives (Suc n) F k s =
     (case read_sequence n F k s of
        None \<Rightarrow> None
      | Some (a, k1, r) \<Rightarrow>
          if take 1 r = ''|''
          then map_option (\<lambda>(b, k2, r2). (Alt a b, k2, r2)) (read_alternatives n F k1 (drop 1 r))
          else Some (a, k1, r))"
| "read_sequence 0 F k s = None"
| "read_sequence (Suc n) F k s =
     (if s = [] \<or> take 1 s = '')'' \<or> take 1 s = ''|'' then Some (Eps, k, s)
      else case read_term n F k s of
        None \<Rightarrow> None
      | Some (a, k1, r) \<Rightarrow> map_option (\<lambda>(b, k2, r2). (Seq a b, k2, r2)) (read_sequence n F k1 r))"
| "read_term 0 F k s = None"
| "read_term (Suc n) F k s =
     (case s of [] \<Rightarrow> None | c # r \<Rightarrow>
      if c = CHR ''('' then
        (if take 2 r = ''?:'' then close_group (\<lambda>a. a) (read_alternatives n F k (drop 2 r))
         else if take 2 r = ''?='' then close_group Ahead (read_alternatives n F k (drop 2 r))
         else if take 2 r = ''?!'' then close_group Unless (read_alternatives n F k (drop 2 r))
         else if take 3 r = ''?<='' then
           map_option (\<lambda>(ok, r1). (Behind ok, k, r1)) (read_behind n F (drop 3 r))
         else if take 3 r = ''?<!'' then
           map_option (\<lambda>(ok, r1). (Behind (\<lambda>b. \<not> ok b), k, r1)) (read_behind n F (drop 3 r))
         else close_group (Cap k) (read_alternatives n F (Suc k) r))
      else if c = CHR ''['' then
        (case read_bracket n F r of None \<Rightarrow> None | Some (ok, r1) \<Rightarrow> atom k ok r1)
      else if c = CHR ''.'' then atom k (\<lambda>x. x \<notin> {10, 13, 8232, 8233}) r
      else if c = CHR ''^'' then Some (Begins, k, r)
      else if c = CHR ''$'' then Some (Finishes, k, r)
      else if c = CHR ''%'' then
        (if take 1 r = ''b'' then Some (Bound (sx_word F), k, drop 1 r)
         else case read_escape F r of
                None \<Rightarrow> None
              | Some (Inl ok, r1) \<Rightarrow> atom k ok r1
              | Some (Inr d, r1) \<Rightarrow> atom k (\<lambda>x. sx_same F x d) r1)
      else case read_unit c r of (d, r1) \<Rightarrow> atom k (\<lambda>x. sx_same F x d) r1)"

definition read_pattern :: "rx_syntax \<Rightarrow> string \<Rightarrow> rx option" where
  "read_pattern F s =
     (case read_alternatives (3 * length s + 3) F 1 s of
        Some (r, k, []) \<Rightarrow> Some r | _ \<Rightarrow> None)"

definition pattern_of :: "rx_syntax \<Rightarrow> string \<Rightarrow> rx" where
  "pattern_of F s = (case read_pattern F s of Some r \<Rightarrow> r | None \<Rightarrow> Chr (\<lambda>x. False))"

definition re :: "string \<Rightarrow> rx" where
  "re s = pattern_of plain s"

definition re_i :: "string \<Rightarrow> rx" where
  "re_i s = pattern_of ignore_case s"

definition well_formed :: "string \<Rightarrow> bool" where
  "well_formed s \<longleftrightarrow> read_pattern plain s \<noteq> None"

end
