(* ===== verification/Categories.thy ===== *)
theory Categories
  imports Regex_Syntax Text Labels
begin

text \<open>
  \<open>contracts/category.ts\<close> and its copy in \<open>web/lib/event-format.ts\<close>: the category of a
  provider's label, the format that an event's own text states, and whether a stored category
  agrees with it. A category is its name.
\<close>

section \<open>Provider labels\<close>

definition category_formats :: "(string \<times> string) list" where
  "category_formats = [
     (''%b(?:stand up|standup)%b'', ''Stand-up''),
     (''%b(?:atolye%w*|workshop%w*)%b'', ''Workshop''),
     (''%b(?:tiyatro|theatre|theater|musical|muzikal)%b'', ''Tiyatro''),
     (''%b(?:sinema|film|cinema)%b'', ''Sinema''),
     (''%b(?:sergi|exhibition)%b'', ''Sergi''),
     (''%b(?:muze|museum)%b'', ''M~uze''),
     (''%b(?:spor|sport|sports|basketbol|basketball|futbol|football|tenis|voleybol)%b'', ''Spor''),
     (''%b(?:soylesi|seminer|konferans|panel|talk|conference)%b'', ''S~oyle~si''),
     (''%b(?:egitim|mebonayliegitim|kurs|education|course)%b'', ''E~gitim''),
     (''%b(?:konser|muzik|music|pop|rock|jazz|caz|klasik|rap|hiphop|party)%b'', ''Konser''),
     (''%b(?:festival)%b'', ''Festival''),
     (''%b(?:bale|dans|dance)%b'', ''Dans''),
     (''%b(?:opera|gosteri|sirk|show|circus|sahne sanatlari)%b'', ''G~osteri''),
     (''%b(?:gezi|tur|tour)%b'', ''Gezi'')]"

definition category_from_source :: "platform \<Rightarrow> jstr \<Rightarrow> jstr option" where
  "category_from_source P label =
     (let t = evidence_text P label in
      map_option (\<lambda>f. tr (snd f)) (find (\<lambda>f. test (re (fst f)) t) category_formats))"

section \<open>What the text of an event states\<close>

text \<open>\<open>search\<close>: the index of the first match.\<close>

definition search_index :: "rx \<Rightarrow> jstr \<Rightarrow> nat option" where
  "search_index r s = map_option rm_index (exec r s)"

definition performance_rx :: string where
  "performance_rx = ''%b(?:tiyatro oyunu|stand up gosterisi|canli konser)%b''"

definition workshop_term_rx :: string where
  "workshop_term_rx = ''%b(?:atolye(?:si|de|den|ye|nin|miz(?:de)?)?|workshop)%b''"

definition participation_rx :: string where
  "participation_rx =
     ''%b(?:katilimci|katilimcilar|egitmen|ogren|uretir|uretecek|yapacak|tasarla|uygulama'' @
     ''|malzeme|kontenjan|kayit)%w*%b''"

definition talk_rx :: string where
  "talk_rx = ''%b(?:soylesi(?:si|de)?|panel(?:ist(?:ler)?)?|moderator|seminer)%b''"

definition instruction_rx :: string where
  "instruction_rx = ''%b(?:kurs|egitim programi)%b''"

definition guided_programme_rx :: string where
  "guided_programme_rx = ''%b(?:uzman|profesyonel) rehber%w*%b|%bguided (?:tour|visit|walk)%b''"

definition multi_stop_visit_rx :: string where
  "multi_stop_visit_rx =
     ''%b(?:kiliseler%w*|yapilar%w*|mekanlar%w*|duraklar%w*|churches|sites|venues)%b'' @
     ''.{0,80}%b(?:ziyaret|visit)%w*%b|%b(?:ziyaret edilecek|visiting)%b.{0,80}'' @
     ''%b(?:kiliseler%w*|yapilar%w*|mekanlar%w*|duraklar%w*|churches|sites|venues)%b''"

definition itinerary_rx :: string where
  "itinerary_rx = ''%b(?:program|tur) boyunca%b|%b(?:ozel aracla ulasim|meeting point)%b''"

definition concert_title_rx :: string where
  "concert_title_rx = ''%b(?:konser(?:i)?|concert)%b''"

definition play_title_rx :: string where
  "play_title_rx =
     ''%b(?:tiyatro oyunu|cocuk oyunu|muzikal(?:i)?|theatre play|theater play)%b''"

definition standup_title_rx :: string where
  "standup_title_rx = ''%b(?:stand up|standup)%b''"

definition workshop_title_form_rx :: string where
  "workshop_title_form_rx = ''%b(?:atolye(?:si|leri)?|workshop)%b''"

definition talk_title_rx :: string where
  "talk_title_rx = ''%b(?:soylesi(?:si)?|seminer|konferans)%b''"

text \<open>
  A workshop term counts only with a term of participation nearby: 80 units before it, 120 after.
\<close>

definition workshop_index :: "jstr \<Rightarrow> nat option" where
  "workshop_index leading =
     (case exec (re workshop_term_rx) leading of
        None \<Rightarrow> None
      | Some m \<Rightarrow>
          let from = rm_index m - 80; until = rm_index m + length (rm_text m) + 120
          in if test (re participation_rx) (take (until - from) (drop from leading))
             then Some (rm_index m) else None)"

text \<open>The earliest of the terms that stand before a performance is named.\<close>

definition earliest_format :: "nat option \<Rightarrow> (nat option \<times> string) list \<Rightarrow> string option" where
  "earliest_format performance formats =
     (case sort_by (\<lambda>a b. int (fst a) - int (fst b))
             (List.map_filter (\<lambda>f. case fst f of
                None \<Rightarrow> None
              | Some i \<Rightarrow> (case performance of
                            Some p \<Rightarrow> if i < p then Some (i, snd f) else None
                          | None \<Rightarrow> Some (i, snd f))) formats) of
        f # fs \<Rightarrow> Some (snd f) | [] \<Rightarrow> None)"

definition explicit_program_format :: "platform \<Rightarrow> jstr \<Rightarrow> jstr \<Rightarrow> jstr option" where
  "explicit_program_format P rawTitle description =
     (let title = evidence_text P rawTitle;
          leading = take 240 (evidence_text P (take 512 description));
          programme = evidence_text P (take 4096 description);
          standaloneStandup = (title \<noteq> [] \<and> (starts_with leading (title @ u '' stand up gosterisi'')
                                             \<or> starts_with leading (title @ u '' stand up show'')));
          performance = search_index (re performance_rx) leading;
          formats = [(workshop_index leading, ''Workshop''),
                     (search_index (re talk_rx) leading, ''S~oyle~si''),
                     (search_index (re instruction_rx) leading, ''E~gitim'')]
      in case earliest_format performance formats of
           Some f \<Rightarrow> Some (tr f)
         | None \<Rightarrow>
             if standaloneStandup then Some (tr ''Stand-up'')
             else if test (re guided_programme_rx) programme \<and> test (re multi_stop_visit_rx) programme
                     \<and> test (re itinerary_rx) programme then Some (tr ''Gezi'')
             else if test (re concert_title_rx) title then Some (tr ''Konser'')
             else if test (re play_title_rx) title then Some (tr ''Tiyatro'')
             else if test (re standup_title_rx) title then Some (tr ''Stand-up'')
             else if performance \<noteq> None then None
             else if test (re workshop_title_form_rx) title then Some (tr ''Workshop'')
             else if test (re talk_title_rx) title then Some (tr ''S~oyle~si'')
             else None)"

definition category_for_event :: "platform \<Rightarrow> jstr \<Rightarrow> jstr \<Rightarrow> jstr \<Rightarrow> jstr" where
  "category_for_event P sourceLabel title description =
     (case explicit_program_format P title description of
        Some c \<Rightarrow> c
      | None \<Rightarrow>
          (case category_from_source P sourceLabel of
             Some c \<Rightarrow> c
           | None \<Rightarrow> if sourceLabel \<in> set CATEGORIES then sourceLabel else tr ''Di~ger''))"

text \<open>The cache by event is not observable: it is used only while its inputs are unchanged.\<close>

definition has_supported_event_format :: "platform \<Rightarrow> event \<Rightarrow> bool" where
  "has_supported_event_format P e \<longleftrightarrow>
     (case explicit_program_format P (ev_title e) (ev_description e) of
        None \<Rightarrow> True
      | Some f \<Rightarrow> ev_category e = [] \<or> ev_category e = f)"

section \<open>Every category is one of the taxonomy\<close>

lemma category_formats_known: "\<forall>f \<in> set category_formats. tr (snd f) \<in> set CATEGORIES"
  by code_simp

lemma earliest_format_member: "earliest_format p fs = Some w \<Longrightarrow> w \<in> snd ` set fs"
proof -
  assume e: "earliest_format p fs = Some w"
  define pick where "pick = (\<lambda>f :: nat option \<times> string. case fst f of
              None \<Rightarrow> None
            | Some i \<Rightarrow> (case p of
                          Some p \<Rightarrow> if i < p then Some (i, snd f) else None
                        | None \<Rightarrow> Some (i, snd f)))"
  obtain f gs where f: "sort_by (\<lambda>a b. int (fst a) - int (fst b)) (List.map_filter pick fs) = f # gs"
    "w = snd f"
    using e unfolding earliest_format_def pick_def[symmetric] by (auto split: list.splits)
  then have "f \<in> set (List.map_filter pick fs)" by (metis list.set_intros(1) set_sort_by)
  then show ?thesis using f(2)
    by (force simp: map_filter_def pick_def split: option.splits if_splits)
qed

lemma stated_formats_known:
  "tr ''Workshop'' \<in> set CATEGORIES" "tr ''S~oyle~si'' \<in> set CATEGORIES"
  "tr ''E~gitim'' \<in> set CATEGORIES" "tr ''Stand-up'' \<in> set CATEGORIES"
  "tr ''Gezi'' \<in> set CATEGORIES" "tr ''Konser'' \<in> set CATEGORIES"
  "tr ''Tiyatro'' \<in> set CATEGORIES" "tr ''Di~ger'' \<in> set CATEGORIES"
  by code_simp+

lemma explicit_format_known:
  assumes "explicit_program_format P title description = Some c"
  shows "c \<in> set CATEGORIES"
  using assms stated_formats_known unfolding explicit_program_format_def Let_def
  by (auto simp del: tr.simps dest!: earliest_format_member split: option.splits if_splits)

lemma category_from_source_known:
  "category_from_source P label = Some c \<Longrightarrow> c \<in> set CATEGORIES"
proof -
  assume "category_from_source P label = Some c"
  then obtain f where f: "find (\<lambda>f. test (re (fst f)) (evidence_text P label)) category_formats = Some f"
    "c = tr (snd f)" by (auto simp: category_from_source_def Let_def)
  have "find Q xs = Some x \<Longrightarrow> x \<in> set xs" for Q :: "string \<times> string \<Rightarrow> bool" and xs x
    by (induction xs) (auto split: if_splits)
  then show ?thesis using f category_formats_known by blast
qed

lemma category_for_event_known: "category_for_event P sourceLabel title description \<in> set CATEGORIES"
  using explicit_format_known category_from_source_known stated_formats_known(8)
  by (auto simp del: tr.simps simp: category_for_event_def split: option.splits)

text \<open>What \<open>categoryForEvent\<close> assigns is a supported format of the same event.\<close>

lemma assigned_category_supported:
  "has_supported_event_format P
     (e\<lparr>ev_category := category_for_event P label (ev_title e) (ev_description e)\<rparr>)"
  by (simp add: has_supported_event_format_def category_for_event_def split: option.split)

end
