(* ===== verification/Locations.thy ===== *)
theory Locations
  imports Regex_Syntax Identity_Text Types Categories Sha256
begin

text \<open>
  \<open>contracts/district.ts\<close>, \<open>contracts/location.ts\<close> and \<open>contracts/search.ts\<close>: the district and
  shore that an event's district label and address support, and the search record prepared for
  a resolved session. Labels reach the tables after \<open>normalize\<close>, which is \<open>fold_text\<close>.
\<close>

section \<open>Districts\<close>

definition contract_districts :: "string list" where
  "contract_districts = [
     ''adalar'', ''arnavutkoy'', ''atasehir'', ''avcilar'', ''bagcilar'', ''bahcelievler'', ''bakirkoy'',
     ''basaksehir'', ''bayrampasa'', ''besiktas'', ''beykoz'', ''beylikduzu'', ''beyoglu'',
     ''buyukcekmece'', ''catalca'', ''cekmekoy'', ''esenler'', ''esenyurt'', ''eyupsultan'', ''fatih'',
     ''gaziosmanpasa'', ''gungoren'', ''kadikoy'', ''kagithane'', ''kartal'', ''kucukcekmece'',
     ''maltepe'', ''pendik'', ''sancaktepe'', ''sariyer'', ''silivri'', ''sultanbeyli'',
     ''sultangazi'', ''sile'', ''sisli'', ''tuzla'', ''umraniye'', ''uskudar'', ''zeytinburnu'']"

definition is_istanbul_district :: "jstr \<Rightarrow> bool" where
  "is_istanbul_district d \<longleftrightarrow> d \<in> set (map u contract_districts)"

text \<open>A name before \<open>/Istanbul\<close> or \<open>, Istanbul\<close>, or at the end of the text.\<close>

definition address_pattern :: "string \<Rightarrow> rx" where
  "address_pattern name = seqs [Wordb, L name, re ''%b%s*(?:(?:/|,)%s*istanbul%b|$)'']"

definition address_district :: "platform \<Rightarrow> jstr \<Rightarrow> jstr option" where
  "address_district P address =
     (case filter (\<lambda>d. test (address_pattern d) (fold_text P address)) contract_districts of
        [d] \<Rightarrow> Some (u d) | _ \<Rightarrow> None)"

section \<open>Places\<close>

definition asian_districts :: "string list" where
  "asian_districts = [
     ''adalar'', ''atasehir'', ''beykoz'', ''cekmekoy'', ''kadikoy'', ''kartal'', ''maltepe'', ''pendik'',
     ''sancaktepe'', ''sultanbeyli'', ''sile'', ''tuzla'', ''umraniye'', ''uskudar'']"

definition district_side :: "jstr \<Rightarrow> side option" where
  "district_side d =
     (if \<not> is_istanbul_district d then None
      else if d \<in> set (map u asian_districts) then Some Asia else Some Europe)"

text \<open>The shore of a place is undefined for a member that the table of places inherits.\<close>

record place =
  pc_district :: "jstr option"
  pc_side :: "side option"

definition neighborhoods :: "(string \<times> string option \<times> side) list" where
  "neighborhoods = [
     (''moda'', Some ''kadikoy'', Asia), (''taksim'', Some ''beyoglu'', Europe),
     (''karakoy'', Some ''beyoglu'', Europe), (''galata'', Some ''beyoglu'', Europe),
     (''cihangir'', Some ''beyoglu'', Europe), (''nisantasi'', Some ''sisli'', Europe),
     (''bebek'', Some ''besiktas'', Europe), (''ortakoy'', Some ''besiktas'', Europe),
     (''etiler'', Some ''besiktas'', Europe), (''levent'', None, Europe),
     (''maslak'', Some ''sariyer'', Europe), (''bomonti'', Some ''sisli'', Europe),
     (''harbiye'', Some ''sisli'', Europe), (''mecidiyekoy'', Some ''sisli'', Europe),
     (''kurtulus'', Some ''sisli'', Europe), (''ferikoy'', Some ''sisli'', Europe),
     (''tophane'', Some ''beyoglu'', Europe), (''balat'', Some ''fatih'', Europe),
     (''fener'', Some ''fatih'', Europe), (''sultanahmet'', Some ''fatih'', Europe),
     (''tarihi yarimada'', Some ''fatih'', Europe), (''eminonu'', Some ''fatih'', Europe),
     (''kuzguncuk'', Some ''uskudar'', Asia), (''cengelkoy'', Some ''uskudar'', Asia),
     (''caddebostan'', Some ''kadikoy'', Asia), (''suadiye'', Some ''kadikoy'', Asia),
     (''bostanci'', Some ''kadikoy'', Asia), (''fenerbahce'', Some ''kadikoy'', Asia),
     (''goztepe'', Some ''kadikoy'', Asia), (''erenkoy'', Some ''kadikoy'', Asia),
     (''yeldegirmeni'', Some ''kadikoy'', Asia), (''bagdat caddesi'', None, Asia),
     (''istiklal'', Some ''beyoglu'', Europe), (''cevahir'', Some ''sisli'', Europe),
     (''kozyatagi'', Some ''kadikoy'', Asia), (''florya'', Some ''bakirkoy'', Europe),
     (''yesilkoy'', Some ''bakirkoy'', Europe), (''emirgan'', Some ''sariyer'', Europe),
     (''arnavutkoy koyu'', Some ''besiktas'', Europe), (''rumelihisari'', Some ''sariyer'', Europe),
     (''anadoluhisari'', Some ''beykoz'', Asia), (''kanlica'', Some ''beykoz'', Asia),
     (''tarabya'', Some ''sariyer'', Europe), (''zorlu'', Some ''besiktas'', Europe),
     (''kalamis'', Some ''kadikoy'', Asia), (''acibadem'', None, Asia),
     (''altunizade'', Some ''uskudar'', Asia), (''tesvikiye'', Some ''sisli'', Europe),
     (''gayrettepe'', Some ''besiktas'', Europe), (''esentepe'', Some ''sisli'', Europe),
     (''pera'', Some ''beyoglu'', Europe), (''sishane'', Some ''beyoglu'', Europe),
     (''tunel'', Some ''beyoglu'', Europe), (''kumkapi'', Some ''fatih'', Europe),
     (''cagaloglu'', Some ''fatih'', Europe), (''beyazit'', Some ''fatih'', Europe),
     (''vefa'', Some ''fatih'', Europe), (''balmumcu'', Some ''besiktas'', Europe),
     (''dolapdere'', None, Europe), (''kasimpasa'', Some ''beyoglu'', Europe),
     (''haskoy'', Some ''beyoglu'', Europe), (''sutluce'', Some ''beyoglu'', Europe),
     (''kemerburgaz'', Some ''eyupsultan'', Europe), (''ayazaga'', Some ''sariyer'', Europe),
     (''bahariye'', Some ''kadikoy'', Asia), (''kucukyali'', Some ''maltepe'', Asia),
     (''yenibosna'', Some ''bahcelievler'', Europe)]"

definition place_of_entry :: "string option \<times> side \<Rightarrow> place" where
  "place_of_entry e = \<lparr>pc_district = map_option u (fst e), pc_side = Some (snd e)\<rparr>"

text \<open>
  The tables are plain objects, so a name of \<open>Object.prototype\<close> is found in them as well: there
  is an object or a function under it, which counts as true and has neither a district nor a shore.
\<close>

definition inherited_names :: "jstr list" where
  "inherited_names = map u [
     ''constructor'', ''hasOwnProperty'', ''isPrototypeOf'', ''propertyIsEnumerable'',
     ''toLocaleString'', ''toString'', ''valueOf'', ''__proto__'', ''__defineGetter__'',
     ''__defineSetter__'', ''__lookupGetter__'', ''__lookupSetter__'']"

definition neighborhood :: "jstr \<Rightarrow> place option" where
  "neighborhood name =
     (case map_of (map (\<lambda>e. (u (fst e), snd e)) neighborhoods) name of
        Some e \<Rightarrow> Some (place_of_entry e)
      | None \<Rightarrow> if name \<in> set inherited_names
                then Some \<lparr>pc_district = None, pc_side = None\<rparr> else None)"

definition address_neighborhood :: "platform \<Rightarrow> jstr \<Rightarrow> place option" where
  "address_neighborhood P address =
     (case filter (\<lambda>e. test (address_pattern (fst e)) (trim (fold_text P address))) neighborhoods of
        [e] \<Rightarrow> Some (place_of_entry (snd e)) | _ \<Rightarrow> None)"

definition side_labels :: "(jstr \<times> side) list" where
  "side_labels = [
     (u ''istanbul avrupa'', Europe), (u ''istanbul anadolu'', Asia),
     (u ''avrupa yakasi'', Europe), (u ''anadolu yakasi'', Asia)]"

definition side_named :: "jstr \<Rightarrow> side option" where
  "side_named label =
     (case map_of side_labels label of
        Some s \<Rightarrow> Some s
      | None \<Rightarrow> if label \<in> set inherited_names then Some (Inherited label) else None)"

definition place_of :: "jstr \<Rightarrow> place option" where
  "place_of name =
     (case district_side name of
        Some s \<Rightarrow> Some \<lparr>pc_district = Some name, pc_side = Some s\<rparr>
      | None \<Rightarrow> neighborhood name)"

section \<open>The location of an event\<close>

definition unknown_location :: event_location where
  "unknown_location = \<lparr>loc_district = None, loc_side = None, loc_precision = Precise_unknown\<rparr>"

definition at_district :: "jstr \<Rightarrow> event_location" where
  "at_district d =
     \<lparr>loc_district = Some d, loc_side = district_side d, loc_precision = Precise_district\<rparr>"

definition at_side :: "side option \<Rightarrow> event_location" where
  "at_side s = \<lparr>loc_district = None, loc_side = s, loc_precision = Precise_side\<rparr>"

text \<open>A label of several places, like \<open>Kadikoy / Moda\<close>, names a shore when all of them do.\<close>

definition shared_side :: "jstr \<Rightarrow> side option" where
  "shared_side label =
     (let parts = map trim (split_on 47 label)
      in if length parts < 2 then None
         else case uniq (map (\<lambda>p. Option.bind (place_of p) pc_side) parts) of
                [Some s] \<Rightarrow> Some s | _ \<Rightarrow> None)"

definition location_of_place :: "place \<Rightarrow> event_location" where
  "location_of_place p =
     (case pc_district p of Some d \<Rightarrow> at_district d | None \<Rightarrow> at_side (pc_side p))"

definition location_candidates :: "platform \<Rightarrow> jstr \<Rightarrow> jstr \<Rightarrow> event_location list" where
  "location_candidates P district address =
     (let label = trim (fold_text P district);
          fromAddress = address_district P address;
          labelSide = (case side_named label of Some s \<Rightarrow> Some s | None \<Rightarrow> shared_side label);
          labelPlace = (if labelSide \<noteq> None then None else place_of label);
          addressPlace = (if fromAddress \<noteq> None then None else address_neighborhood P address)
      in map location_of_place (List.map_filter (\<lambda>p. p) [labelPlace, addressPlace])
         @ (case fromAddress of Some d \<Rightarrow> [at_district d] | None \<Rightarrow> [])
         @ (case labelSide of Some s \<Rightarrow> [at_side (Some s)] | None \<Rightarrow> []))"

definition agreed_location :: "event_location list \<Rightarrow> event_location" where
  "agreed_location candidates =
     (let sides = uniq (map loc_side candidates);
          districts = uniq (List.map_filter loc_district candidates)
      in if candidates = [] \<or> length sides \<noteq> 1 \<or> length districts > 1 then unknown_location
         else case districts of
                [d] \<Rightarrow> at_district d
              | _ \<Rightarrow> at_side (hd sides))"

definition resolve_event_location :: "platform \<Rightarrow> jstr \<Rightarrow> jstr \<Rightarrow> event_location" where
  "resolve_event_location P district address =
     agreed_location (location_candidates P district address)"

definition prepare_event_location :: "platform \<Rightarrow> jstr option \<Rightarrow> jstr option \<Rightarrow> event_location" where
  "prepare_event_location P district address =
     resolve_event_location P (case district of Some d \<Rightarrow> d | None \<Rightarrow> [])
       (case address of Some a \<Rightarrow> a | None \<Rightarrow> [])"

text \<open>
  \<open>eventLocation\<close> of \<open>web/lib/istanbul-location.ts\<close>: the prepared location, or the one resolved
  from the record. The cache of resolved locations is not observable.
\<close>

definition event_location_of :: "platform \<Rightarrow> event \<Rightarrow> event_location" where
  "event_location_of P e =
     (case ev_preparedSearch e of
        Some p \<Rightarrow> (case ps_location p of
                     Some l \<Rightarrow> l | None \<Rightarrow> resolve_event_location P (ev_district e) (ev_address e))
      | None \<Rightarrow> resolve_event_location P (ev_district e) (ev_address e))"

section \<open>Search records\<close>

definition stop_words :: "jstr list" where
  "stop_words = split_on 32 (u (''bir biraz icin olsun bana gore olan var neler ne bu ve ile etkinlik'' @
     '' istiyorum plan daha tl lira hafta sonu''))"

definition search_tokens :: "platform \<Rightarrow> jstr \<Rightarrow> jstr list" where
  "search_tokens P s =
     filter (\<lambda>w. length w > 2 \<and> w \<notin> set stop_words) (split_on 32 (squash key_unit (fold_text P s)))"

record search_fields =
  sf_title :: jstr
  sf_category :: jstr
  sf_venue :: jstr
  sf_description :: jstr

definition voyage_document_text :: "search_fields \<Rightarrow> jstr" where
  "voyage_document_text f =
     take 10000 (join [10] [u ''Title: '' @ trim (sf_title f), u ''Category: '' @ trim (sf_category f),
       u ''Venue: '' @ trim (sf_venue f), u ''Description: '' @ trim (sf_description f)])"

definition prepare_lexical_tokens :: "platform \<Rightarrow> search_fields \<Rightarrow> jstr list" where
  "prepare_lexical_tokens P f =
     search_tokens P (join [32] [sf_title f, sf_category f, sf_venue f, sf_description f])"

record search_member =
  sm_title :: jstr
  sm_category :: jstr
  sm_description :: jstr
  sm_venue :: jstr
  sm_district :: "jstr option"
  sm_address :: "jstr option"

definition prepare_search_record :: "platform \<Rightarrow> search_member list \<Rightarrow> prepared_search res" where
  "prepare_search_record P members =
     (case members of
        [] \<Rightarrow> throw ''Search record requires at least one listing''
      | first # _ \<Rightarrow>
          let category = category_for_event P (sm_category first) (sm_title first) (sm_description first);
              f = \<lparr>sf_title = sm_title first, sf_category = category, sf_venue = sm_venue first,
                   sf_description = sm_description first\<rparr>;
              documentText = voyage_document_text f
          in Inr \<lparr>ps_documentText = documentText, ps_documentHash = sha256_hex documentText,
                  ps_lexicalTokens = prepare_lexical_tokens P f,
                  ps_location = Some (prepare_event_location P (sm_district first) (sm_address first))\<rparr>)"

section \<open>Consistent locations\<close>

text \<open>The three forms a location can have.\<close>

definition location_ok :: "event_location \<Rightarrow> bool" where
  "location_ok l \<longleftrightarrow>
     (case loc_precision l of
        Precise_district \<Rightarrow> (\<exists>d. loc_district l = Some d \<and> is_istanbul_district d
                                 \<and> loc_side l = district_side d \<and> loc_side l \<noteq> None)
      | Precise_side \<Rightarrow> loc_district l = None \<and> loc_side l \<noteq> None
      | Precise_unknown \<Rightarrow> loc_district l = None \<and> loc_side l = None)"

text \<open>The tables agree: a neighbourhood's district is on its shore.\<close>

lemma neighborhoods_consistent:
  "\<forall>e \<in> set neighborhoods. case fst (snd e) of
     None \<Rightarrow> True
   | Some d \<Rightarrow> d \<in> set contract_districts
       \<and> snd (snd e) = (if d \<in> set asian_districts then Asia else Europe)"
  by (simp add: neighborhoods_def contract_districts_def asian_districts_def)

lemma districts_agree: "set (map u contract_districts) = set istanbul_districts"
  unfolding contract_districts_def istanbul_districts_def list.map list.set by (rule set_eqI) blast

lemma asian_shore_agrees: "set (map u asian_districts) = set asia_districts"
  unfolding asian_districts_def asia_districts_def list.map list.set by (rule set_eqI) blast

lemma district_side_known: "is_istanbul_district d \<longleftrightarrow> district_side d \<noteq> None"
  by (simp add: district_side_def)

lemma at_district_ok: "is_istanbul_district d \<Longrightarrow> location_ok (at_district d)"
  by (simp add: at_district_def location_ok_def district_side_def)

lemma at_side_ok: "location_ok (at_side (Some s))"
  by (simp add: at_side_def location_ok_def)

lemma filter_singleton: "filter Q xs = [x] \<Longrightarrow> x \<in> set xs"
  by (drule arg_cong[where f = set]) auto

text \<open>A place of the tables: its district, if it has one, is known and lies on its shore.\<close>

definition place_ok :: "place \<Rightarrow> bool" where
  "place_ok p \<longleftrightarrow> pc_side p \<noteq> None
     \<and> (case pc_district p of None \<Rightarrow> True | Some d \<Rightarrow> district_side d = pc_side p)"

lemma district_side_u:
  "d \<in> set contract_districts \<Longrightarrow>
     district_side (u d) = Some (if d \<in> set asian_districts then Asia else Europe)"
  by (simp add: district_side_def is_istanbul_district_def image_iff)

lemma entry_ok: "e \<in> set neighborhoods \<Longrightarrow> place_ok (place_of_entry (snd e))"
  using neighborhoods_consistent
  by (cases "fst (snd e)") (auto simp: place_ok_def place_of_entry_def district_side_u)

lemma neighborhood_ok: "neighborhood name = Some p \<Longrightarrow> name \<notin> set inherited_names \<Longrightarrow> place_ok p"
  using entry_ok by (fastforce simp: neighborhood_def dest: map_of_SomeD split: option.splits if_splits)

lemma place_of_ok: "place_of name = Some p \<Longrightarrow> name \<notin> set inherited_names \<Longrightarrow> place_ok p"
  using neighborhood_ok[of name p] by (auto simp: place_of_def place_ok_def split: option.splits)

text \<open>A name that the tables inherit names a shore first, so its place is never asked for.\<close>

lemma unsided_not_inherited: "side_named name = None \<Longrightarrow> name \<notin> set inherited_names"
  by (auto simp: side_named_def split: option.splits if_splits)

lemma address_neighborhood_ok: "address_neighborhood P address = Some p \<Longrightarrow> place_ok p"
proof -
  assume a: "address_neighborhood P address = Some p"
  then obtain e where "filter (\<lambda>e. test (address_pattern (fst e)) (trim (fold_text P address)))
      neighborhoods = [e]" "p = place_of_entry (snd e)"
    by (auto simp: address_neighborhood_def split: list.splits)
  then show ?thesis using entry_ok[of e] filter_singleton by metis
qed

lemma address_district_known: "address_district P address = Some d \<Longrightarrow> is_istanbul_district d"
proof -
  assume a: "address_district P address = Some d"
  then obtain w where "filter (\<lambda>d. test (address_pattern d) (fold_text P address)) contract_districts
      = [w]" "d = u w"
    by (auto simp: address_district_def split: list.splits)
  then have "w \<in> set contract_districts" using filter_singleton by metis
  then show ?thesis using \<open>d = u w\<close> by (simp add: is_istanbul_district_def)
qed

lemma location_of_place_ok:
  assumes "place_ok p"
  shows "location_ok (location_of_place p) \<and> loc_side (location_of_place p) = pc_side p"
proof (cases "pc_district p")
  case None
  then show ?thesis using assms
    by (cases "pc_side p") (simp_all add: location_of_place_def place_ok_def at_side_ok, simp add: at_side_def)
next
  case (Some d)
  then have s: "district_side d = pc_side p" "pc_side p \<noteq> None"
    using assms by (simp_all add: place_ok_def)
  then have "is_istanbul_district d" by (simp add: district_side_known)
  then show ?thesis
    using s by (simp add: location_of_place_def Some at_district_ok) (simp add: at_district_def)
qed

text \<open>The parts of the evidence, in the order of the source.\<close>

lemma candidate_cases:
  assumes "c \<in> set (location_candidates P district address)"
  obtains (label) p where "c = location_of_place p" "side_named (trim (fold_text P district)) = None"
      "place_of (trim (fold_text P district)) = Some p"
    | (address) p where "c = location_of_place p" "address_neighborhood P address = Some p"
    | (district) d where "c = at_district d" "address_district P address = Some d"
    | (side) s where "c = at_side (Some s)"
  using assms
  by (auto simp: location_candidates_def Let_def map_filter_def split: option.splits if_splits)

lemma candidates_ok:
  assumes "c \<in> set (location_candidates P district address)"
  shows "location_ok c \<and> loc_side c \<noteq> None"
  using assms
proof (cases rule: candidate_cases)
  case (label p)
  then have "place_ok p" using unsided_not_inherited place_of_ok by blast
  then show ?thesis using label(1) location_of_place_ok by (simp add: place_ok_def)
next
  case (address p)
  then have "place_ok p" using address_neighborhood_ok by blast
  then show ?thesis using address(1) location_of_place_ok by (simp add: place_ok_def)
next
  case (district d)
  then have "is_istanbul_district d" using address_district_known by blast
  then show ?thesis
    using district(1) district_side_known by (simp add: at_district_ok) (simp add: at_district_def)
next
  case (side s)
  then show ?thesis by (simp add: at_side_ok) (simp add: at_side_def)
qed

text \<open>
  When the candidates agree: there is one, they name one shore, and at most one district.
\<close>

definition location_agreed :: "event_location list \<Rightarrow> bool" where
  "location_agreed cs \<longleftrightarrow>
     cs \<noteq> [] \<and> (\<forall>c \<in> set cs. \<forall>c' \<in> set cs. loc_side c = loc_side c'
       \<and> (loc_district c = None \<or> loc_district c' = None \<or> loc_district c = loc_district c'))"

lemma length_uniq_le_1: "length (uniq xs) \<le> 1 \<longleftrightarrow> (\<forall>x \<in> set xs. \<forall>y \<in> set xs. x = y)"
proof
  assume "length (uniq xs) \<le> 1"
  then have "uniq xs = [] \<or> (\<exists>a. uniq xs = [a])" by (cases "uniq xs") auto
  then show "\<forall>x \<in> set xs. \<forall>y \<in> set xs. x = y" by (metis empty_iff empty_set list.set_cases set_ConsD set_uniq)
next
  assume all: "\<forall>x \<in> set xs. \<forall>y \<in> set xs. x = y"
  show "length (uniq xs) \<le> 1"
  proof (rule ccontr)
    assume "\<not> length (uniq xs) \<le> 1"
    then obtain x y ys where c: "uniq xs = x # y # ys" by (cases "uniq xs"; cases "tl (uniq xs)") auto
    have "distinct (x # y # ys)" unfolding c[symmetric] by simp
    moreover have "x \<in> set (uniq xs)" "y \<in> set (uniq xs)" by (simp_all add: c del: set_uniq)
    then have "x = y" using all by simp
    ultimately show False by simp
  qed
qed

lemma agreed_guard:
  "cs = [] \<or> length (uniq (map loc_side cs)) \<noteq> 1 \<or> length (uniq (List.map_filter loc_district cs)) > 1
     \<longleftrightarrow> \<not> location_agreed cs"
proof (cases "cs = []")
  case False
  then have "uniq (map loc_side cs) \<noteq> []" by (metis map_is_Nil_conv set_empty set_uniq)
  then have one: "length (uniq (map loc_side cs)) = 1 \<longleftrightarrow> length (uniq (map loc_side cs)) \<le> 1"
    by (cases "uniq (map loc_side cs)") auto
  have districts: "set (List.map_filter loc_district cs) = {d. \<exists>c \<in> set cs. loc_district c = Some d}"
    by (force simp: map_filter_def)
  have "length (uniq (map loc_side cs)) = 1 \<longleftrightarrow> (\<forall>c \<in> set cs. \<forall>c' \<in> set cs. loc_side c = loc_side c')"
    unfolding one length_uniq_le_1 by simp
  moreover have "length (uniq (List.map_filter loc_district cs)) \<le> 1 \<longleftrightarrow>
      (\<forall>c \<in> set cs. \<forall>c' \<in> set cs. loc_district c = None \<or> loc_district c' = None
         \<or> loc_district c = loc_district c')"
    unfolding length_uniq_le_1 districts
  proof (intro iffI ballI)
    fix c c' assume "\<forall>x \<in> {d. \<exists>c \<in> set cs. loc_district c = Some d}.
        \<forall>y \<in> {d. \<exists>c \<in> set cs. loc_district c = Some d}. x = y" and "c \<in> set cs" "c' \<in> set cs"
    then show "loc_district c = None \<or> loc_district c' = None \<or> loc_district c = loc_district c'"
      by (cases "loc_district c"; cases "loc_district c'") auto
  next
    fix x y
    assume all: "\<forall>c \<in> set cs. \<forall>c' \<in> set cs. loc_district c = None \<or> loc_district c' = None
         \<or> loc_district c = loc_district c'"
      and "x \<in> {d. \<exists>c \<in> set cs. loc_district c = Some d}" "y \<in> {d. \<exists>c \<in> set cs. loc_district c = Some d}"
    then obtain c c' where "c \<in> set cs" "loc_district c = Some x" "c' \<in> set cs" "loc_district c' = Some y"
      by auto
    then show "x = y" using all by fastforce
  qed
  ultimately show ?thesis using False unfolding location_agreed_def not_less[symmetric] by blast
qed (simp add: location_agreed_def)

text \<open>The agreed location, in terms of what its candidates name.\<close>

lemma agreed_location_sound:
  assumes "\<forall>c \<in> set cs. location_ok c \<and> loc_side c \<noteq> None" and "location_agreed cs"
  shows "location_ok (agreed_location cs)"
    and "\<forall>c \<in> set cs. loc_side (agreed_location cs) = loc_side c"
    and "loc_district (agreed_location cs) = Some d \<longleftrightarrow> (\<exists>c \<in> set cs. loc_district c = Some d)"
proof -
  have g: "cs \<noteq> []" "length (uniq (map loc_side cs)) = 1" "\<not> length (uniq (List.map_filter loc_district cs)) > 1"
    using assms(2) agreed_guard[of cs] by blast+
  then obtain s where s: "uniq (map loc_side cs) = [s]" by (auto simp: length_Suc_conv)
  have sides: "loc_side c = s" if "c \<in> set cs" for c
  proof -
    have "loc_side c \<in> set (map loc_side cs)" using that by simp
    then show ?thesis unfolding set_uniq[of "map loc_side cs", symmetric] s by simp
  qed
  then obtain t where t: "s = Some t" using g(1) assms(1) by (metis hd_in_set not_None_eq)
  have ds: "set (uniq (List.map_filter loc_district cs)) = {d. \<exists>c \<in> set cs. loc_district c = Some d}"
    by (force simp: map_filter_def)
  have "location_ok (agreed_location cs) \<and> (\<forall>c \<in> set cs. loc_side (agreed_location cs) = loc_side c)
      \<and> (loc_district (agreed_location cs) = Some d \<longleftrightarrow> (\<exists>c \<in> set cs. loc_district c = Some d))"
  proof (cases "uniq (List.map_filter loc_district cs)")
    case Nil
    then have "loc_district c = None" if "c \<in> set cs" for c
      using ds that by (cases "loc_district c") auto
    moreover have "agreed_location cs = at_side (Some t)"
      using g s t Nil by (simp add: agreed_location_def)
    ultimately show ?thesis using sides t by (simp add: at_side_ok) (simp add: at_side_def)
  next
    case (Cons e rest)
    then have e: "uniq (List.map_filter loc_district cs) = [e]" using g(3) by (cases rest) auto
    then obtain c where c: "c \<in> set cs" "loc_district c = Some e" using ds by auto
    have "location_ok c" using assms(1) c(1) by blast
    then have k: "is_istanbul_district e" "loc_side c = district_side e"
      using c(2) by (cases "loc_precision c"; simp add: location_ok_def)+
    have a: "agreed_location cs = at_district e"
      using g s e by (simp add: agreed_location_def)
    have "loc_side e' = district_side e" if "e' \<in> set cs" for e'
      using sides[OF that] sides[OF c(1)] k(2) by simp
    moreover have "e = d \<longleftrightarrow> (\<exists>c \<in> set cs. loc_district c = Some d)"
      using ds unfolding e by auto
    ultimately show ?thesis
      unfolding a using k(1) by (simp add: at_district_ok) (simp add: at_district_def)
  qed
  then show "location_ok (agreed_location cs)"
    and "\<forall>c \<in> set cs. loc_side (agreed_location cs) = loc_side c"
    and "loc_district (agreed_location cs) = Some d \<longleftrightarrow> (\<exists>c \<in> set cs. loc_district c = Some d)"
    by blast+
qed

lemma disagreed_location: "\<not> location_agreed cs \<Longrightarrow> agreed_location cs = unknown_location"
  using agreed_guard[of cs] by (simp add: agreed_location_def)

lemma resolve_event_location_spec:
  fixes P district address
  defines "cs \<equiv> location_candidates P district address"
  shows "location_ok (resolve_event_location P district address)"
    and "location_agreed cs \<Longrightarrow> c \<in> set cs \<Longrightarrow>
      loc_side (resolve_event_location P district address) = loc_side c \<and> loc_side c \<noteq> None"
    and "location_agreed cs \<Longrightarrow> loc_district (resolve_event_location P district address) = Some d
      \<longleftrightarrow> (\<exists>c \<in> set cs. loc_district c = Some d)"
    and "\<not> location_agreed cs \<Longrightarrow> resolve_event_location P district address = unknown_location"
proof -
  have ok: "\<forall>c \<in> set cs. location_ok c \<and> loc_side c \<noteq> None"
    using candidates_ok unfolding cs_def by blast
  have r: "resolve_event_location P district address = agreed_location cs"
    by (simp add: resolve_event_location_def cs_def)
  show "location_ok (resolve_event_location P district address)"
    unfolding r using agreed_location_sound(1)[OF ok] disagreed_location
    by (cases "location_agreed cs") (simp_all add: unknown_location_def location_ok_def)
  show "location_agreed cs \<Longrightarrow> c \<in> set cs \<Longrightarrow>
      loc_side (resolve_event_location P district address) = loc_side c \<and> loc_side c \<noteq> None"
    unfolding r using agreed_location_sound(2)[OF ok] ok by simp
  show "location_agreed cs \<Longrightarrow> loc_district (resolve_event_location P district address) = Some d
      \<longleftrightarrow> (\<exists>c \<in> set cs. loc_district c = Some d)"
    unfolding r by (rule agreed_location_sound(3)[OF ok])
  show "\<not> location_agreed cs \<Longrightarrow> resolve_event_location P district address = unknown_location"
    unfolding r by (rule disagreed_location)
qed

text \<open>The two neighbourhood tables of the repository name the same district where they overlap.\<close>

lemma neighbourhood_tables_agree:
  assumes "map_of neighbourhood_districts name = Some d" and "neighborhood name = Some p"
  shows "pc_district p = Some d"
proof -
  have "\<forall>e \<in> set neighbourhood_districts. case neighborhood (fst e) of
      None \<Rightarrow> True | Some p \<Rightarrow> pc_district p = Some (snd e)"
    by (simp add: neighbourhood_districts_def neighborhood_def neighborhoods_def place_of_entry_def inherited_names_def)
  then show ?thesis using assms by (fastforce dest: map_of_SomeD)
qed

end
