(* ===== verification/Eligibility.thy ===== *)
theory Eligibility
  imports Locations Evidence
begin

text \<open>
  \<open>web/lib/search.ts\<close>, the part that does not read the user's text: the filters and their
  validation, \<open>isEligible\<close>, the lexical and vector ranking and the choice of one event per
  production. \<open>web/lib/types.ts\<close> declares the filters.
\<close>

section \<open>Days\<close>

definition today_in_istanbul :: "platform \<Rightarrow> int \<Rightarrow> jstr" where
  "today_in_istanbul P now = istanbul_day P now"

definition add_days :: "jstr \<Rightarrow> int \<Rightarrow> jstr" where
  "add_days day cnt =
     (case date_parse (day @ u ''T12:00:00Z'') of
        Some t \<Rightarrow> take 10 (iso_string (t + cnt * 86400000)) | None \<Rightarrow> [])"

definition valid_day :: "json \<Rightarrow> bool" where
  "valid_day v \<longleftrightarrow>
     (case v of
        JStr s \<Rightarrow> test (re ''^%d{4}-%d{2}-%d{2}$'') s
          \<and> (case date_parse s of Some t \<Rightarrow> take 10 (iso_string t) = s | None \<Rightarrow> False)
      | _ \<Rightarrow> False)"

section \<open>Filters\<close>

record filters =
  fl_dateFrom :: "jstr option"
  fl_dateTo :: "jstr option"
  fl_maxPrice :: "rat option"
  fl_maxPriceExclusive :: "bool option"
  fl_partySize :: "int option"
  fl_totalBudget :: "rat option"
  fl_category :: "jstr option"
  fl_excludedCategories :: "jstr list option"
  fl_district :: "jstr option"
  fl_startTimeFrom :: "jstr option"
  fl_startTimeTo :: "jstr option"
  fl_startTimeFromExclusive :: "bool option"
  fl_startTimeToExclusive :: "bool option"
  fl_categories :: "jstr list option"

definition empty_filters :: filters where
  "empty_filters = \<lparr>
     fl_dateFrom = None, fl_dateTo = None, fl_maxPrice = None, fl_maxPriceExclusive = None,
     fl_partySize = None, fl_totalBudget = None, fl_category = None,
     fl_excludedCategories = None, fl_district = None, fl_startTimeFrom = None,
     fl_startTimeTo = None, fl_startTimeFromExclusive = None, fl_startTimeToExclusive = None,
     fl_categories = None\<rparr>"

text \<open>\<open>v != null\<close>: neither undefined nor null.\<close>

definition present :: "json \<Rightarrow> bool" where
  "present v \<longleftrightarrow> v \<noteq> Undefined \<and> v \<noteq> Null"

definition number_in :: "rat \<Rightarrow> rat \<Rightarrow> json \<Rightarrow> bool" where
  "number_in low high v = (case as_fin v of Some r \<Rightarrow> low \<le> r \<and> r \<le> high | None \<Rightarrow> False)"

definition is_bool :: "json \<Rightarrow> bool" where
  "is_bool v \<longleftrightarrow> (case v of JBool b \<Rightarrow> True | _ \<Rightarrow> False)"

definition bool_field :: "json \<Rightarrow> bool option" where
  "bool_field v = (case v of JBool b \<Rightarrow> Some b | _ \<Rightarrow> None)"

definition category_list :: "json \<Rightarrow> jstr list option" where
  "category_list v =
     (case v of
        JArr xs \<Rightarrow> if list_all (\<lambda>x. one_of x CATEGORIES) xs
                   then Some (List.map_filter as_str xs) else None
      | _ \<Rightarrow> None)"

text \<open>\<open>/^(?:[01]\\d|2[0-3]):[0-5]\\d$/\<close>.\<close>

definition clock_text :: "jstr \<Rightarrow> bool" where
  "clock_text s \<longleftrightarrow>
     (case s of
        [a, b, c, d, e] \<Rightarrow>
          (((a = 48 \<or> a = 49) \<and> is_digit_unit b) \<or> (a = 50 \<and> 48 \<le> b \<and> b \<le> 51))
          \<and> c = 58 \<and> 48 \<le> d \<and> d \<le> 53 \<and> is_digit_unit e
      | _ \<Rightarrow> False)"

definition clock_field :: "json \<Rightarrow> bool" where
  "clock_field v \<longleftrightarrow> \<not> present v \<or> (case v of JStr s \<Rightarrow> clock_text s | _ \<Rightarrow> False)"

text \<open>The first group of checks of \<open>validateFilters\<close>, in the order of the source.\<close>

definition check_filters :: "json \<Rightarrow> unit res" where
  "check_filters f =
     (let get = jget f in
      rbind (guard (is_obj f) ''Filtreler gecersiz.'') (\<lambda>_.
      rbind (guard (\<not> (present (get ''dateFrom'') \<and> \<not> valid_day (get ''dateFrom''))
                    \<and> \<not> (present (get ''dateTo'') \<and> \<not> valid_day (get ''dateTo'')))
               ''Tarih bicimi gecersiz.'') (\<lambda>_.
      rbind (guard (\<not> (present (get ''maxPrice'') \<and> \<not> number_in 0 100000 (get ''maxPrice'')))
               ''Butce 0-100.000 TL arasinda olmali.'') (\<lambda>_.
      rbind (guard (\<not> (present (get ''maxPriceExclusive'')
                       \<and> (\<not> is_bool (get ''maxPriceExclusive'') \<or> \<not> present (get ''maxPrice''))))
               ''Butce siniri gecersiz.'') (\<lambda>_.
      rbind (guard (\<not> (present (get ''partySize'')
                       \<and> (as_integer (get ''partySize'') = None
                          \<or> \<not> number_in 1 100 (get ''partySize''))))
               ''Kisi sayisi 1-100 arasinda olmali.'') (\<lambda>_.
      rbind (guard (\<not> (present (get ''totalBudget'') \<and> \<not> number_in 1 100000 (get ''totalBudget'')))
               ''Toplam butce 1-100.000 TL arasinda olmali.'') (\<lambda>_.
      rbind (guard (\<not> (present (get ''totalBudget'') \<and> \<not> present (get ''partySize'')))
               ''Toplam butce icin kisi sayisi gerekli.'') (\<lambda>_.
      rbind (guard (case (as_integer (get ''partySize''), as_fin (get ''totalBudget'')) of
                      (Some n, Some budget) \<Rightarrow>
                        (case as_fin (get ''maxPrice'') of
                           Some price \<Rightarrow> \<bar>price - budget / of_int n\<bar> \<le> 1 / 1000 | None \<Rightarrow> False)
                    | _ \<Rightarrow> True)
               ''Toplam butce kisi basi sinirla uyusmuyor.'') (\<lambda>_.
      rbind (guard (\<not> (present (get ''category'') \<and> \<not> one_of (get ''category'') CATEGORIES))
               ''Kategori gecersiz.'') (\<lambda>_.
      rbind (guard (\<not> (present (get ''categories'')
                       \<and> (case category_list (get ''categories'') of
                            Some cs \<Rightarrow> cs = [] | None \<Rightarrow> True)))
               ''Kategoriler gecersiz.'') (\<lambda>_.
      guard (\<not> (present (get ''excludedCategories'')
                \<and> category_list (get ''excludedCategories'') = None))
        ''Haric tutulan kategori gecersiz.'')))))))))))"

definition district_field :: "json \<Rightarrow> jstr option res" where
  "district_field v =
     (case v of
        JStr s \<Rightarrow> if trim s \<noteq> [] then Inr (Some (take 80 (trim s))) else throw ''Ilce gecersiz.''
      | _ \<Rightarrow> if present v then throw ''Ilce gecersiz.'' else Inr None)"

text \<open>The result that is assembled from checked fields.\<close>

definition read_filters :: "json \<Rightarrow> jstr option \<Rightarrow> filters" where
  "read_filters f district =
     (let get = jget f;
          categories = map_option uniq (category_list (get ''categories''));
          category = (if categories \<noteq> None then None else as_str (get ''category''));
          excluded = filter (\<lambda>c. Some c \<noteq> category)
            (uniq (case category_list (get ''excludedCategories'') of Some cs \<Rightarrow> cs | None \<Rightarrow> []))
      in \<lparr>fl_dateFrom = as_str (get ''dateFrom''), fl_dateTo = as_str (get ''dateTo''),
          fl_maxPrice = as_fin (get ''maxPrice''),
          fl_maxPriceExclusive = bool_field (get ''maxPriceExclusive''),
          fl_partySize = as_integer (get ''partySize''),
          fl_totalBudget = as_fin (get ''totalBudget''), fl_category = category,
          fl_excludedCategories = (if excluded = [] then None else Some excluded),
          fl_district = district, fl_startTimeFrom = as_str (get ''startTimeFrom''),
          fl_startTimeTo = as_str (get ''startTimeTo''),
          fl_startTimeFromExclusive = bool_field (get ''startTimeFromExclusive''),
          fl_startTimeToExclusive = bool_field (get ''startTimeToExclusive''),
          fl_categories = categories\<rparr>)"

text \<open>The texts of the errors are written without the Turkish letters.\<close>

definition validate_filters :: "json \<Rightarrow> filters res" where
  "validate_filters f =
     rbind (check_filters f) (\<lambda>_.
     rbind (district_field (jget f ''district'')) (\<lambda>district.
     rbind (guard (clock_field (jget f ''startTimeFrom'') \<and> clock_field (jget f ''startTimeTo''))
              ''Saat bicimi gecersiz.'') (\<lambda>_.
     rbind (guard ((present (jget f ''startTimeFromExclusive'')
                      \<longrightarrow> is_bool (jget f ''startTimeFromExclusive''))
                   \<and> (present (jget f ''startTimeToExclusive'')
                      \<longrightarrow> is_bool (jget f ''startTimeToExclusive'')))
              ''Kesinlik alani gecersiz.'') (\<lambda>_.
     let result = read_filters f district
     in rbind (guard (case (fl_dateFrom result, fl_dateTo result) of
                        (Some a, Some b) \<Rightarrow> \<not> a > b | _ \<Rightarrow> True)
                 ''Bitis tarihi baslangictan once olamaz.'') (\<lambda>_.
        Inr result)))))"

text \<open>The filters as the request of a client: absent fields are null.\<close>

definition opt_json :: "('a \<Rightarrow> json) \<Rightarrow> 'a option \<Rightarrow> json" where
  "opt_json to v = (case v of Some x \<Rightarrow> to x | None \<Rightarrow> Null)"

definition str_list_json :: "jstr list \<Rightarrow> json" where
  "str_list_json xs = JArr (map JStr xs)"

definition filters_fields :: "filters \<Rightarrow> (jstr \<times> json) list" where
  "filters_fields f = [
     (u ''dateFrom'', opt_json JStr (fl_dateFrom f)),
     (u ''dateTo'', opt_json JStr (fl_dateTo f)),
     (u ''maxPrice'', opt_json (\<lambda>r. JNum (Fin r)) (fl_maxPrice f)),
     (u ''maxPriceExclusive'', opt_json JBool (fl_maxPriceExclusive f)),
     (u ''partySize'', opt_json jint (fl_partySize f)),
     (u ''totalBudget'', opt_json (\<lambda>r. JNum (Fin r)) (fl_totalBudget f)),
     (u ''category'', opt_json JStr (fl_category f)),
     (u ''excludedCategories'', opt_json str_list_json (fl_excludedCategories f)),
     (u ''district'', opt_json JStr (fl_district f)),
     (u ''startTimeFrom'', opt_json JStr (fl_startTimeFrom f)),
     (u ''startTimeTo'', opt_json JStr (fl_startTimeTo f)),
     (u ''startTimeFromExclusive'', opt_json JBool (fl_startTimeFromExclusive f)),
     (u ''startTimeToExclusive'', opt_json JBool (fl_startTimeToExclusive f)),
     (u ''categories'', opt_json str_list_json (fl_categories f))]"

definition filters_json :: "filters \<Rightarrow> json" where
  "filters_json f = JObj (filters_fields f)"

section \<open>Eligibility\<close>

definition tl_currency :: jstr where "tl_currency = u ''TRY''"

text \<open>The guards that hold for every search.\<close>

definition current_event :: "platform \<Rightarrow> event \<Rightarrow> int \<Rightarrow> bool" where
  "current_event P e now \<longleftrightarrow>
     (case (date_parse (ev_startsAt e), date_parse (ev_checkedAt e)) of
        (Some start, Some checked) \<Rightarrow>
          \<not> (start < now \<or> checked < now - 72 * 3600000 \<or> checked > now + 300000
             \<or> ev_city e \<noteq> tr ''~Istanbul'' \<or> ev_availability e \<noteq> Available
             \<or> \<not> has_supported_event_format P e)
      | _ \<Rightarrow> False)"

definition category_and_price_allowed :: "event \<Rightarrow> filters \<Rightarrow> bool" where
  "category_and_price_allowed e f \<longleftrightarrow>
     \<not> ((case fl_category f of Some c \<Rightarrow> c \<noteq> [] \<and> ev_category e \<noteq> c | None \<Rightarrow> False)
        \<or> (case fl_categories f of Some cs \<Rightarrow> ev_category e \<notin> set cs | None \<Rightarrow> False)
        \<or> (case fl_excludedCategories f of Some cs \<Rightarrow> ev_category e \<in> set cs | None \<Rightarrow> False)
        \<or> (case fl_maxPrice f of
             None \<Rightarrow> False
           | Some bound \<Rightarrow>
               (case ev_price e of
                  None \<Rightarrow> True
                | Some price \<Rightarrow> ev_currency e \<noteq> tl_currency \<or> price > bound
                    \<or> (fl_maxPriceExclusive f = Some True \<and> price = bound))))"

text \<open>
  The dates. The bounds of an admission window are canonical time stamps: they were validated
  when the event was read.
\<close>

definition date_allowed :: "platform \<Rightarrow> event \<Rightarrow> int \<Rightarrow> filters \<Rightarrow> bool" where
  "date_allowed P e start f =
     (let from = or_empty (fl_dateFrom f); until = or_empty (fl_dateTo f);
          (first, last) = (case ev_attendanceTiming e of
             Some (AdmissionWindow a b) \<Rightarrow>
               (today_in_istanbul P (the (date_parse a)), today_in_istanbul P (the (date_parse b)))
           | _ \<Rightarrow> (today_in_istanbul P start, today_in_istanbul P start))
      in \<not> ((from \<noteq> [] \<and> last < from) \<or> (until \<noteq> [] \<and> first > until)))"

definition time_allowed :: "platform \<Rightarrow> event \<Rightarrow> int \<Rightarrow> filters \<Rightarrow> bool" where
  "time_allowed P e start f =
     (let from = or_empty (fl_startTimeFrom f); until = or_empty (fl_startTimeTo f);
          localTime = istanbul_clock P start
      in if from = [] \<and> until = [] then True
         else if source_time_is_doors_only (ev_description e)
              \<or> (case ev_attendanceTiming e of Some t \<Rightarrow> t \<noteq> TimedSession | None \<Rightarrow> False)
         then False
         else \<not> ((from \<noteq> [] \<and> (if fl_startTimeFromExclusive f = Some True then localTime \<le> from
                                else localTime < from))
                 \<or> (until \<noteq> [] \<and> (if fl_startTimeToExclusive f = Some True then localTime \<ge> until
                                   else localTime > until))))"

text \<open>
  The code builds a pattern from the requested district without escaping it; the model reads the
  district as a literal, which is what the code does for a name of letters, digits and spaces.
\<close>

definition venue_names_district :: "jstr \<Rightarrow> jstr \<Rightarrow> bool" where
  "venue_names_district venue district = test (seqs [Wordb, Lit district, Wordb]) venue"

definition district_allowed :: "platform \<Rightarrow> event \<Rightarrow> filters \<Rightarrow> bool" where
  "district_allowed P e f =
     (if or_empty (fl_district f) = [] then True
      else
        let eventDistrict = fold_text P (ev_district e);
            requested = fold_text P (or_empty (fl_district f));
            specific = is_istanbul_district eventDistrict;
            fromAddress = address_district P (ev_address e);
            conflict = (specific \<and> fromAddress \<noteq> None \<and> fromAddress \<noteq> Some eventDistrict)
        in \<not> conflict
           \<and> (eventDistrict = requested
              \<or> (\<not> specific
                 \<and> (case fromAddress of
                      Some d \<Rightarrow> d = requested
                    | None \<Rightarrow> venue_names_district (fold_text P (ev_venue e)) requested))))"

definition is_eligible :: "platform \<Rightarrow> event \<Rightarrow> filters \<Rightarrow> int \<Rightarrow> bool" where
  "is_eligible P e f now \<longleftrightarrow>
     current_event P e now \<and> category_and_price_allowed e f
     \<and> date_allowed P e (the (date_parse (ev_startsAt e))) f
     \<and> time_allowed P e (the (date_parse (ev_startsAt e))) f
     \<and> district_allowed P e f"

section \<open>Ranking\<close>

definition dot_product :: "rat list \<Rightarrow> rat list \<Rightarrow> rat" where
  "dot_product a b = sum_list (map (\<lambda>(x, y). x * y) (zip a b))"

definition cosine :: "platform \<Rightarrow> rat list \<Rightarrow> rat list \<Rightarrow> rat" where
  "cosine P a b =
     (if a = [] \<or> length a \<noteq> length b then 0
      else
        let aa = dot_product a a; bb = dot_product b b
        in if aa \<noteq> 0 \<and> bb \<noteq> 0 then dot_product a b / pl_sqrt P (aa * bb) else 0)"

definition ranking_text :: "platform \<Rightarrow> event \<Rightarrow> jstr" where
  "ranking_text P e =
     fold_text P (join [32] [ev_title e, ev_description e, ev_venue e, ev_category e])"

definition event_score ::
  "platform \<Rightarrow> jstr list \<Rightarrow> rat list option \<Rightarrow> (jstr \<times> rat list) list \<Rightarrow> event \<Rightarrow> rat" where
  "event_score P tokens queryVector vectors e =
     (let t = ranking_text P e;
          lexical = of_nat (length (filter (\<lambda>w. contains_text t w) tokens))
                    / of_nat (max (length tokens) 1)
      in lexical * (35 / 100) +
         (case (queryVector, map_of vectors (ev_id e)) of
            (Some q, Some v) \<Rightarrow> cosine P q v * (65 / 100) | _ \<Rightarrow> 0))"

definition score_order :: "platform \<Rightarrow> rat \<times> event \<Rightarrow> rat \<times> event \<Rightarrow> int" where
  "score_order P a b =
     cmp_or (cmp_int (fst b) (fst a)) (pl_collate P (ev_startsAt (snd a)) (ev_startsAt (snd b)))"

definition rank_events ::
  "platform \<Rightarrow> event list \<Rightarrow> jstr \<Rightarrow> rat list option \<Rightarrow> (jstr \<times> rat list) list \<Rightarrow> event list" where
  "rank_events P events query queryVector vectors =
     (let tokens = search_tokens P query
      in map snd (sort_by (score_order P)
           (map (\<lambda>e. (event_score P tokens queryVector vectors e, e)) events)))"

definition production_identity :: "event \<Rightarrow> jstr" where
  "production_identity e =
     (if or_empty (ev_canonicalProductionKey e) \<noteq> [] then or_empty (ev_canonicalProductionKey e)
      else if or_empty (ev_productionKey e) \<noteq> [] then or_empty (ev_productionKey e)
      else ev_url e)"

fun first_of_each :: "('a \<Rightarrow> 'k) \<Rightarrow> 'k list \<Rightarrow> 'a list \<Rightarrow> 'a list" where
  "first_of_each key seen [] = []"
| "first_of_each key seen (x # xs) =
     (if key x \<in> set seen then first_of_each key seen xs
      else x # first_of_each key (key x # seen) xs)"

definition unique_events :: "event list \<Rightarrow> nat \<Rightarrow> event list" where
  "unique_events events limit = take limit (first_of_each production_identity [] events)"

definition source_reason :: "event \<Rightarrow> filters \<Rightarrow> jstr" where
  "source_reason e f =
     join [32] (List.map_filter (\<lambda>x. x)
       [Some (ev_category e @ (if or_empty (fl_category f) \<noteq> [] then tr '' tercihinle e~sle~siyor.''
                               else tr '' kategorisinden bir se~cenek.'')),
        (if fl_maxPrice f \<noteq> None
         then Some (tr ''~Ilan edilen ba~slang~i~c fiyat~i ki~si ba~s~i b~ut~cene uyuyor.'') else None),
        (if or_empty (fl_dateFrom f) \<noteq> [] then Some (tr ''Se~cti~gin tarih aral~i~g~inda.'') else None)])"

end
