(* ===== verification/Search_Properties.thy ===== *)
theory Search_Properties
  imports Eligibility "HOL-Library.Sublist"
begin

text \<open>
  What the filters, the eligibility rules, the ranking and the choice of productions of
  \<open>web/lib/search.ts\<close> guarantee.
\<close>

section \<open>Accepted filters\<close>

definition filters_ok :: "filters \<Rightarrow> bool" where
  "filters_ok f \<longleftrightarrow>
     pred_option (\<lambda>d. valid_day (JStr d)) (fl_dateFrom f)
     \<and> pred_option (\<lambda>d. valid_day (JStr d)) (fl_dateTo f)
     \<and> (case (fl_dateFrom f, fl_dateTo f) of (Some a, Some b) \<Rightarrow> a \<le> b | _ \<Rightarrow> True)
     \<and> pred_option (\<lambda>p. 0 \<le> p \<and> p \<le> 100000) (fl_maxPrice f)
     \<and> (fl_maxPriceExclusive f \<noteq> None \<longrightarrow> fl_maxPrice f \<noteq> None)
     \<and> pred_option (\<lambda>n. 1 \<le> n \<and> n \<le> 100) (fl_partySize f)
     \<and> (case fl_totalBudget f of
          None \<Rightarrow> True
        | Some budget \<Rightarrow>
            1 \<le> budget \<and> budget \<le> 100000
            \<and> (case (fl_partySize f, fl_maxPrice f) of
                 (Some n, Some price) \<Rightarrow> \<bar>price - budget / of_int n\<bar> \<le> 1 / 1000 | _ \<Rightarrow> False))
     \<and> pred_option (\<lambda>c. c \<in> set CATEGORIES) (fl_category f)
     \<and> pred_option (\<lambda>cs. cs \<noteq> [] \<and> distinct cs \<and> set cs \<subseteq> set CATEGORIES \<and> fl_category f = None)
         (fl_categories f)
     \<and> pred_option (\<lambda>cs. cs \<noteq> [] \<and> distinct cs \<and> set cs \<subseteq> set CATEGORIES
           \<and> (\<forall>c. fl_category f = Some c \<longrightarrow> c \<notin> set cs)) (fl_excludedCategories f)
     \<and> pred_option (\<lambda>d. trim d \<noteq> [] \<and> length d \<le> 80) (fl_district f)
     \<and> pred_option clock_text (fl_startTimeFrom f)
     \<and> pred_option clock_text (fl_startTimeTo f)"

lemma filters_json_get:
  "jget (filters_json f) ''dateFrom'' = opt_json JStr (fl_dateFrom f)"
  "jget (filters_json f) ''dateTo'' = opt_json JStr (fl_dateTo f)"
  "jget (filters_json f) ''maxPrice'' = opt_json (\<lambda>r. JNum (Fin r)) (fl_maxPrice f)"
  "jget (filters_json f) ''maxPriceExclusive'' = opt_json JBool (fl_maxPriceExclusive f)"
  "jget (filters_json f) ''partySize'' = opt_json jint (fl_partySize f)"
  "jget (filters_json f) ''totalBudget'' = opt_json (\<lambda>r. JNum (Fin r)) (fl_totalBudget f)"
  "jget (filters_json f) ''category'' = opt_json JStr (fl_category f)"
  "jget (filters_json f) ''excludedCategories'' = opt_json str_list_json (fl_excludedCategories f)"
  "jget (filters_json f) ''district'' = opt_json JStr (fl_district f)"
  "jget (filters_json f) ''startTimeFrom'' = opt_json JStr (fl_startTimeFrom f)"
  "jget (filters_json f) ''startTimeTo'' = opt_json JStr (fl_startTimeTo f)"
  "jget (filters_json f) ''startTimeFromExclusive'' = opt_json JBool (fl_startTimeFromExclusive f)"
  "jget (filters_json f) ''startTimeToExclusive'' = opt_json JBool (fl_startTimeToExclusive f)"
  "jget (filters_json f) ''categories'' = opt_json str_list_json (fl_categories f)"
  by (simp_all add: filters_json_def filters_fields_def)

lemma present_cases:
  "present (JStr s)" "present (JNum n)" "present (JBool b)" "present (JArr xs)" "present (jint k)"
  "\<not> present Null" "\<not> present Undefined"
  by (simp_all add: present_def jint_def)

lemma as_fin_Some: "as_fin v = Some r \<longleftrightarrow> v = JNum (Fin r)"
  by (cases v rule: as_fin.cases) auto

lemma one_of_iff: "one_of v xs \<longleftrightarrow> (\<exists>s. v = JStr s \<and> s \<in> set xs)"
  by (cases v) (auto simp: one_of_def)

lemma category_list_Some:
  "category_list v = Some cs \<longleftrightarrow> v = str_list_json cs \<and> set cs \<subseteq> set CATEGORIES"
proof (cases v)
  case (JArr xs)
  have "xs = map JStr (List.map_filter as_str xs)" if "list_all (\<lambda>x. one_of x CATEGORIES) xs"
    using that by (induction xs) (auto simp: one_of_iff map_filter_simps)
  moreover have "set (List.map_filter as_str xs) \<subseteq> set CATEGORIES"
    if "list_all (\<lambda>x. one_of x CATEGORIES) xs"
    using that by (induction xs) (auto simp: one_of_iff map_filter_simps)
  moreover have "list_all (\<lambda>x. one_of x CATEGORIES) (map JStr cs) \<longleftrightarrow> set cs \<subseteq> set CATEGORIES" for cs
    by (auto simp: list_all_iff one_of_def)
  moreover have "List.map_filter as_str (map JStr cs) = cs" for cs
    by (induction cs) (auto simp: map_filter_simps)
  ultimately show ?thesis using JArr
    by (auto simp: category_list_def str_list_json_def)
qed (auto simp: category_list_def str_list_json_def)

lemma uniq_id: "distinct xs \<Longrightarrow> uniq xs = xs"
  by (simp add: uniq_def remdups_id_iff_distinct[THEN iffD2])

lemma opt_json_present: "present (opt_json JStr a) \<longleftrightarrow> a \<noteq> None"
  "present (opt_json JBool b) \<longleftrightarrow> b \<noteq> None"
  "present (opt_json jint c) \<longleftrightarrow> c \<noteq> None"
  "present (opt_json (\<lambda>r. JNum (Fin r)) d) \<longleftrightarrow> d \<noteq> None"
  "present (opt_json str_list_json e) \<longleftrightarrow> e \<noteq> None"
  by (auto simp: opt_json_def present_cases str_list_json_def split: option.split)

lemma check_filters_iff:
  "check_filters v = Inr x \<longleftrightarrow>
     is_obj v
     \<and> \<not> (present (jget v ''dateFrom'') \<and> \<not> valid_day (jget v ''dateFrom''))
     \<and> \<not> (present (jget v ''dateTo'') \<and> \<not> valid_day (jget v ''dateTo''))
     \<and> \<not> (present (jget v ''maxPrice'') \<and> \<not> number_in 0 100000 (jget v ''maxPrice''))
     \<and> \<not> (present (jget v ''maxPriceExclusive'')
          \<and> (\<not> is_bool (jget v ''maxPriceExclusive'') \<or> \<not> present (jget v ''maxPrice'')))
     \<and> \<not> (present (jget v ''partySize'')
          \<and> (as_integer (jget v ''partySize'') = None \<or> \<not> number_in 1 100 (jget v ''partySize'')))
     \<and> \<not> (present (jget v ''totalBudget'') \<and> \<not> number_in 1 100000 (jget v ''totalBudget''))
     \<and> \<not> (present (jget v ''totalBudget'') \<and> \<not> present (jget v ''partySize''))
     \<and> (case (as_integer (jget v ''partySize''), as_fin (jget v ''totalBudget'')) of
           (Some n, Some budget) \<Rightarrow>
             (case as_fin (jget v ''maxPrice'') of
                Some price \<Rightarrow> \<bar>price - budget / of_int n\<bar> \<le> 1 / 1000 | None \<Rightarrow> False)
         | _ \<Rightarrow> True)
     \<and> \<not> (present (jget v ''category'') \<and> \<not> one_of (jget v ''category'') CATEGORIES)
     \<and> \<not> (present (jget v ''categories'')
          \<and> (case category_list (jget v ''categories'') of Some cs \<Rightarrow> cs = [] | None \<Rightarrow> True))
     \<and> \<not> (present (jget v ''excludedCategories'')
          \<and> category_list (jget v ''excludedCategories'') = None)"
  by (simp add: check_filters_def Let_def rbind_eq_Inr conj_assoc)

lemma rbind_guard: "b \<Longrightarrow> rbind (guard b m) k = k ()"
  by simp

lemma validate_filters_iff:
  "validate_filters v = Inr f \<longleftrightarrow>
     check_filters v = Inr () \<and> district_field (jget v ''district'') = Inr (fl_district f)
     \<and> clock_field (jget v ''startTimeFrom'') \<and> clock_field (jget v ''startTimeTo'')
     \<and> (present (jget v ''startTimeFromExclusive'') \<longrightarrow> is_bool (jget v ''startTimeFromExclusive''))
     \<and> (present (jget v ''startTimeToExclusive'') \<longrightarrow> is_bool (jget v ''startTimeToExclusive''))
     \<and> (case (fl_dateFrom f, fl_dateTo f) of (Some a, Some b) \<Rightarrow> \<not> a > b | _ \<Rightarrow> True)
     \<and> f = read_filters v (fl_district f)" (is "_ \<longleftrightarrow> ?rhs")
proof -
  have d: "fl_district (read_filters v d) = d" for d by (simp add: read_filters_def Let_def)
  show ?thesis
  proof
    assume "validate_filters v = Inr f"
    then obtain x where "check_filters v = Inr ()" "district_field (jget v ''district'') = Inr x"
      "f = read_filters v x" and rest: "clock_field (jget v ''startTimeFrom'') \<and> clock_field (jget v ''startTimeTo'')"
      "(present (jget v ''startTimeFromExclusive'') \<longrightarrow> is_bool (jget v ''startTimeFromExclusive''))
       \<and> (present (jget v ''startTimeToExclusive'') \<longrightarrow> is_bool (jget v ''startTimeToExclusive''))"
      "case (fl_dateFrom f, fl_dateTo f) of (Some a, Some b) \<Rightarrow> \<not> a > b | _ \<Rightarrow> True"
      unfolding validate_filters_def Let_def rbind_eq_Inr guard_eq_Inr by auto
    then show "?rhs" using d[of x] by simp
  next
    assume r: "?rhs"
    then have e: "read_filters v (fl_district f) = f" by simp
    show "validate_filters v = Inr f"
      unfolding validate_filters_def using r
      by (elim conjE) (simp only: rbind_guard rbind_simps Let_def e)
  qed
qed

lemma present_iff: "present v \<longleftrightarrow> v \<noteq> Undefined \<and> v \<noteq> Null"
  by (simp add: present_def)

lemma absent_values:
  assumes "\<not> present v"
  shows "as_str v = None" "as_fin v = None" "as_integer v = None" "category_list v = None"
    "bool_field v = None"
  using assms by (auto simp: present_iff as_integer_def category_list_def bool_field_def)

lemma clock_field_cases:
  "clock_field v \<Longrightarrow> pred_option clock_text (as_str v)"
  by (cases v) (auto simp: clock_field_def present_iff)

lemma valid_day_text: "valid_day v \<Longrightarrow> \<exists>s. v = JStr s"
  by (cases v) (auto simp: valid_day_def)

lemma read_filters_fields:
  "fl_dateFrom (read_filters v d) = as_str (jget v ''dateFrom'')"
  "fl_dateTo (read_filters v d) = as_str (jget v ''dateTo'')"
  "fl_maxPrice (read_filters v d) = as_fin (jget v ''maxPrice'')"
  "fl_maxPriceExclusive (read_filters v d) = bool_field (jget v ''maxPriceExclusive'')"
  "fl_partySize (read_filters v d) = as_integer (jget v ''partySize'')"
  "fl_totalBudget (read_filters v d) = as_fin (jget v ''totalBudget'')"
  "fl_categories (read_filters v d) = map_option uniq (category_list (jget v ''categories''))"
  "fl_category (read_filters v d) =
     (if category_list (jget v ''categories'') \<noteq> None then None else as_str (jget v ''category''))"
  "fl_startTimeFrom (read_filters v d) = as_str (jget v ''startTimeFrom'')"
  "fl_startTimeTo (read_filters v d) = as_str (jget v ''startTimeTo'')"
  "fl_startTimeFromExclusive (read_filters v d) = bool_field (jget v ''startTimeFromExclusive'')"
  "fl_startTimeToExclusive (read_filters v d) = bool_field (jget v ''startTimeToExclusive'')"
  "fl_district (read_filters v d) = d"
  by (simp_all add: read_filters_def Let_def)

lemma read_filters_excluded:
  "fl_excludedCategories (read_filters v d) =
     (let cs = filter (\<lambda>c. Some c \<noteq> fl_category (read_filters v d))
        (uniq (case category_list (jget v ''excludedCategories'') of Some cs \<Rightarrow> cs | None \<Rightarrow> []))
      in if cs = [] then None else Some cs)"
  by (simp add: read_filters_def Let_def)

lemma excluded_ok:
  "pred_option (\<lambda>cs. cs \<noteq> [] \<and> distinct cs \<and> set cs \<subseteq> set CATEGORIES
      \<and> (\<forall>c. fl_category (read_filters v d) = Some c \<longrightarrow> c \<notin> set cs))
     (fl_excludedCategories (read_filters v d))"
proof -
  have "category_list w = Some cs \<Longrightarrow> set cs \<subseteq> set CATEGORIES" for w cs
    by (simp add: category_list_Some)
  then show ?thesis
    unfolding read_filters_excluded Let_def by (auto split: option.splits)
qed

lemma take_trim_ne: "trim s \<noteq> [] \<Longrightarrow> 0 < n \<Longrightarrow> trim (take n (trim s)) \<noteq> []"
proof -
  assume s: "trim s \<noteq> []" and n: "0 < n"
  obtain c r where c: "take n (trim s) = c # r" using s n by (cases "trim s"; cases n) auto
  have "c = hd (trim s)" using c n by (metis hd_take list.sel(1))
  then have "\<not> is_space_unit c" using trim_ends(1)[OF s] by simp
  then have "trim (c # r) \<noteq> []"
    by (simp add: trim_def dropWhile_append3)
  then show ?thesis using c by simp
qed

lemma district_field_ok:
  "district_field v = Inr d \<Longrightarrow> pred_option (\<lambda>d. trim d \<noteq> [] \<and> length d \<le> 80) d"
  using take_trim_ne by (auto simp: district_field_def split: json.splits if_splits)

lemma number_in_iff: "number_in lo hi v \<longleftrightarrow> (\<exists>r. v = JNum (Fin r) \<and> lo \<le> r \<and> r \<le> hi)"
  by (auto simp: number_in_def as_fin_Some split: option.splits)

text \<open>What one check of a field says of the value that is read from it.\<close>

lemma day_checked:
  "\<not> (present w \<and> \<not> valid_day w) \<Longrightarrow> pred_option (\<lambda>d. valid_day (JStr d)) (as_str w)"
  by (cases w) (auto simp: present_iff)

lemma number_checked:
  "\<not> (present w \<and> \<not> number_in lo hi w) \<Longrightarrow> pred_option (\<lambda>r. lo \<le> r \<and> r \<le> hi) (as_fin w)"
  by (cases w rule: as_fin.cases) (auto simp: present_iff number_in_iff)

lemma exclusive_checked:
  assumes "\<not> (present w \<and> (\<not> is_bool w \<or> \<not> present v))" and "\<not> (present v \<and> \<not> number_in lo hi v)"
  shows "bool_field w \<noteq> None \<longrightarrow> as_fin v \<noteq> None"
proof
  assume "bool_field w \<noteq> None"
  then have "present w" by (metis absent_values(5))
  then have "number_in lo hi v" using assms by blast
  then show "as_fin v \<noteq> None" by (auto simp: number_in_iff)
qed

lemma party_checked:
  assumes "\<not> (present w \<and> (as_integer w = None \<or> \<not> number_in 1 100 w))"
  shows "pred_option (\<lambda>n. 1 \<le> n \<and> n \<le> 100) (as_integer w)" and "present w \<longrightarrow> as_integer w \<noteq> None"
proof -
  show "pred_option (\<lambda>n. 1 \<le> n \<and> n \<le> 100) (as_integer w)"
  proof (cases "as_integer w")
    case (Some n)
    then have w: "w = jint n" by (simp add: as_integer_Some)
    then have "number_in 1 100 w" using assms by (simp add: present_cases)
    then show ?thesis using Some w by (simp add: number_in_iff jint_def)
  qed simp
  show "present w \<longrightarrow> as_integer w \<noteq> None" using assms by simp
qed

lemma budget_checked:
  assumes "\<not> (present b \<and> \<not> number_in 1 100000 b)" and "\<not> (present b \<and> \<not> present n)"
    and "present n \<longrightarrow> as_integer n \<noteq> None"
    and "case (as_integer n, as_fin b) of
           (Some n, Some budget) \<Rightarrow>
             (case as_fin m of Some price \<Rightarrow> \<bar>price - budget / of_int n\<bar> \<le> 1 / 1000 | None \<Rightarrow> False)
         | _ \<Rightarrow> True"
  shows "case as_fin b of
          None \<Rightarrow> True
        | Some budget \<Rightarrow>
            1 \<le> budget \<and> budget \<le> 100000
            \<and> (case (as_integer n, as_fin m) of
                 (Some n, Some price) \<Rightarrow> \<bar>price - budget / of_int n\<bar> \<le> 1 / 1000 | _ \<Rightarrow> False)"
proof (cases "as_fin b")
  case (Some budget)
  then have b: "present b" by (auto simp: as_fin_Some present_iff)
  then have "number_in 1 100000 b" using assms(1) by blast
  then have r: "1 \<le> budget" "budget \<le> 100000" using Some by (auto simp: number_in_iff)
  obtain k where k: "as_integer n = Some k" using assms(2,3) b by blast
  show ?thesis using assms(4) r unfolding Some k by (cases "as_fin m") simp_all
qed simp

lemma category_checked:
  "\<not> (present w \<and> \<not> one_of w cs) \<Longrightarrow> pred_option (\<lambda>c. c \<in> set cs) (as_str w)"
  by (cases w) (auto simp: present_iff one_of_iff)

lemma categories_checked:
  assumes "\<not> (present w \<and> (case category_list w of Some cs \<Rightarrow> cs = [] | None \<Rightarrow> True))"
  shows "pred_option (\<lambda>cs. cs \<noteq> [] \<and> set cs \<subseteq> set CATEGORIES) (category_list w)"
proof (cases "category_list w")
  case (Some cs)
  then have "present w" by (metis absent_values(4) option.distinct(1))
  then have "cs \<noteq> []" using assms Some by simp
  moreover have "set cs \<subseteq> set CATEGORIES" using Some by (simp add: category_list_Some)
  ultimately show ?thesis using Some by simp
qed simp

lemma uniq_ne: "xs \<noteq> [] \<Longrightarrow> uniq xs \<noteq> []"
  by (metis set_empty set_uniq)

lemma accepted_filters_ok:
  assumes "validate_filters v = Inr f"
  shows "filters_ok f"
proof -
  from assms have c: "check_filters v = Inr ()"
    and d: "district_field (jget v ''district'') = Inr (fl_district f)"
    and t: "clock_field (jget v ''startTimeFrom'')" "clock_field (jget v ''startTimeTo'')"
    and dates: "case (fl_dateFrom f, fl_dateTo f) of (Some a, Some b) \<Rightarrow> \<not> a > b | _ \<Rightarrow> True"
    and f: "read_filters v (fl_district f) = f"
    unfolding validate_filters_iff by auto
  note fields = read_filters_fields[of v "fl_district f", unfolded f]
  note c = c[unfolded check_filters_iff]
  have cats: "pred_option (\<lambda>cs. cs \<noteq> [] \<and> set cs \<subseteq> set CATEGORIES) (category_list (jget v ''categories''))"
    by (rule categories_checked) (simp only: c simp_thms)
  have several: "pred_option (\<lambda>cs. cs \<noteq> [] \<and> distinct cs \<and> set cs \<subseteq> set CATEGORIES \<and> fl_category f = None)
         (fl_categories f)"
    unfolding fields(7,8) using cats by (cases "category_list (jget v ''categories'')") (auto simp: uniq_ne)
  have "pred_option (\<lambda>c. c \<in> set CATEGORIES) (as_str (jget v ''category''))"
    by (rule category_checked) (simp only: c simp_thms)
  then have one: "pred_option (\<lambda>c. c \<in> set CATEGORIES) (fl_category f)"
    unfolding fields(8) by simp
  have order: "case (fl_dateFrom f, fl_dateTo f) of (Some a, Some b) \<Rightarrow> a \<le> b | _ \<Rightarrow> True"
    using dates by (cases "fl_dateFrom f"; cases "fl_dateTo f") (simp_all add: not_less)
  have days: "pred_option (\<lambda>d. valid_day (JStr d)) (fl_dateFrom f)"
    "pred_option (\<lambda>d. valid_day (JStr d)) (fl_dateTo f)"
    unfolding fields by (rule day_checked, simp only: c simp_thms)+
  have price: "pred_option (\<lambda>p. 0 \<le> p \<and> p \<le> 100000) (fl_maxPrice f)"
    unfolding fields by (rule number_checked) (simp only: c simp_thms)
  have exclusive: "fl_maxPriceExclusive f \<noteq> None \<longrightarrow> fl_maxPrice f \<noteq> None"
    unfolding fields by (rule exclusive_checked[where lo = 0 and hi = 100000]; simp only: c simp_thms)
  have party: "pred_option (\<lambda>n. 1 \<le> n \<and> n \<le> 100) (fl_partySize f)"
    "present (jget v ''partySize'') \<longrightarrow> as_integer (jget v ''partySize'') \<noteq> None"
    unfolding fields by (rule party_checked, simp only: c simp_thms)+
  have budget: "case fl_totalBudget f of
          None \<Rightarrow> True
        | Some budget \<Rightarrow>
            1 \<le> budget \<and> budget \<le> 100000
            \<and> (case (fl_partySize f, fl_maxPrice f) of
                 (Some n, Some price) \<Rightarrow> \<bar>price - budget / of_int n\<bar> \<le> 1 / 1000 | _ \<Rightarrow> False)"
    unfolding fields by (rule budget_checked[OF _ _ party(2)]) (simp_all only: c simp_thms)
  have clocks: "pred_option clock_text (fl_startTimeFrom f)" "pred_option clock_text (fl_startTimeTo f)"
    unfolding fields by (rule clock_field_cases, rule t)+
  show ?thesis
    unfolding filters_ok_def
    by (intro conjI days order price exclusive party(1) budget one several clocks
        excluded_ok[of v "fl_district f", unfolded f] district_field_ok[OF d])
qed

definition sample_filters :: filters where
  "sample_filters = empty_filters\<lparr>fl_dateFrom := Some (u ''2026-05-02''), fl_maxPrice := Some 400,
     fl_maxPriceExclusive := Some True, fl_category := Some (u ''Konser''),
     fl_startTimeFrom := Some (u ''19:00''), fl_district := Some (tr ''Kad~ik~oy'')\<rparr>"

definition wider_filters :: filters where
  "wider_filters = empty_filters\<lparr>fl_dateFrom := Some (u ''2026-05-01''), fl_maxPrice := Some 400,
     fl_startTimeFrom := Some (u ''18:30'')\<rparr>"

lemma sample_accepted: "validate_filters (filters_json sample_filters) = Inr sample_filters"
  by code_simp

text \<open>
  C37: filters that the validation accepts satisfy every rule that the rest of the search relies
  on: real dates in order, a price between 0 and 100,000, a party of 1 to 100, a total budget
  that agrees with the price per person, known and distinct categories, exclusions that do not
  name the chosen category, a district of at most 80 units that is not blank, and clock times.
\<close>

theorem validate_filters_sound:
  assumes "validate_filters v = Inr f"
  shows "filters_ok f"
  using assms by (rule accepted_filters_ok)

theorem validate_filters_sound_witness: "filters_ok sample_filters"
  by (rule validate_filters_sound[OF sample_accepted])

text \<open>Reading back what was written.\<close>

lemma opt_json_read [simp]:
  "as_str (opt_json JStr a) = a" "bool_field (opt_json JBool b) = b"
  "as_integer (opt_json jint c) = c" "as_fin (opt_json (\<lambda>r. JNum (Fin r)) d) = d"
  by (simp_all add: opt_json_def bool_field_def split: option.split) (simp_all add: as_integer_def)

lemma opt_json_categories [simp]:
  "category_list (opt_json str_list_json e) =
     (case e of Some cs \<Rightarrow> if set cs \<subseteq> set CATEGORIES then Some cs else None | None \<Rightarrow> None)"
proof (cases e)
  case (Some cs)
  show ?thesis
  proof (cases "set cs \<subseteq> set CATEGORIES")
    case True
    then have "category_list (str_list_json cs) = Some cs" by (simp add: category_list_Some)
    then show ?thesis using Some True by (simp add: opt_json_def)
  next
    case False
    have "str_list_json cs = str_list_json ds \<Longrightarrow> cs = ds" for ds
      by (simp add: str_list_json_def inj_map_eq_map inj_def)
    then have "category_list (str_list_json cs) = None"
      using False by (metis category_list_Some not_None_eq)
    then show ?thesis using Some False by (simp add: opt_json_def)
  qed
qed (simp add: opt_json_def category_list_def)

lemma trim_trim [simp]: "trim (trim s) = trim s"
proof (cases "trim s = []")
  case False
  obtain c r where c: "trim s = c # r" using False by (cases "trim s") auto
  obtain q d where d: "trim s = q @ [d]" using False by (metis rev_exhaust)
  have "\<not> is_space_unit c" "\<not> is_space_unit d" using trim_ends[OF False] c d by (simp_all, metis last_snoc)
  then have "dropWhile is_space_unit (rev (trim s)) = rev (trim s)" using d by simp
  moreover have "dropWhile is_space_unit (trim s) = trim s" using c \<open>\<not> is_space_unit c\<close> by simp
  ultimately show ?thesis by (subst trim_def) simp
next
  case True
  then show ?thesis by (metis dropWhile.simps(1) rev.simps(1) trim_def)
qed

lemma trim_shorter: "length (trim s) \<le> length s"
proof -
  obtain xs ys where "s = xs @ trim s @ ys" using trim_infix by blast
  then have "length s = length xs + length (trim s) + length ys" by (metis length_append add.assoc)
  then show ?thesis by simp
qed

lemma district_read:
  "pred_option (\<lambda>d. trim d \<noteq> [] \<and> length d \<le> 80) a \<Longrightarrow>
     district_field (opt_json JStr a) = Inr (map_option trim a)"
  using trim_shorter by (cases a) (auto simp: district_field_def opt_json_def present_cases intro: le_trans)

lemma clock_read: "pred_option clock_text a \<Longrightarrow> clock_field (opt_json JStr a)"
  by (cases a) (simp_all add: clock_field_def opt_json_def present_cases)

lemma bool_read: "present (opt_json JBool b) \<longrightarrow> is_bool (opt_json JBool b)"
  by (cases b) (simp_all add: opt_json_def present_cases is_bool_def)

lemma filters_ok_checks:
  assumes "filters_ok f"
  shows "check_filters (filters_json f) = Inr ()"
  unfolding check_filters_iff filters_json_get opt_json_present opt_json_read opt_json_categories
  apply (intro conjI)
  subgoal by (simp add: filters_json_def filters_fields_def)
  subgoal using assms by (cases "fl_dateFrom f") (simp_all add: filters_ok_def opt_json_def)
  subgoal using assms by (cases "fl_dateTo f") (simp_all add: filters_ok_def opt_json_def)
  subgoal using assms by (cases "fl_maxPrice f") (simp_all add: filters_ok_def opt_json_def number_in_iff)
  subgoal using assms by (cases "fl_maxPriceExclusive f") (simp_all add: filters_ok_def opt_json_def is_bool_def)
  subgoal using assms
    by (cases "fl_partySize f") (simp_all add: filters_ok_def opt_json_def number_in_iff jint_def)
  subgoal using assms by (cases "fl_totalBudget f") (simp_all add: filters_ok_def opt_json_def number_in_iff)
  subgoal using assms
    by (cases "fl_totalBudget f"; cases "fl_partySize f") (simp_all add: filters_ok_def)
  subgoal using assms
    by (cases "fl_totalBudget f"; cases "fl_partySize f"; cases "fl_maxPrice f") (simp_all add: filters_ok_def)
  subgoal using assms by (cases "fl_category f") (simp_all add: filters_ok_def opt_json_def one_of_def)
  subgoal using assms by (cases "fl_categories f") (simp_all add: filters_ok_def)
  subgoal using assms by (cases "fl_excludedCategories f") (simp_all add: filters_ok_def)
  done

lemma filters_ok_read:
  assumes "filters_ok f"
  shows "read_filters (filters_json f) d = f\<lparr>fl_district := d\<rparr>"
proof -
  have several: "map_option uniq (category_list (opt_json str_list_json (fl_categories f))) = fl_categories f"
    using assms by (cases "fl_categories f") (simp_all add: filters_ok_def uniq_id)
  have one: "(if fl_categories f \<noteq> None then None else fl_category f) = fl_category f"
    using assms by (cases "fl_categories f") (simp_all add: filters_ok_def)
  have excluded: "(let cs = filter (\<lambda>c. Some c \<noteq> fl_category f)
        (uniq (case category_list (opt_json str_list_json (fl_excludedCategories f)) of
                 Some cs \<Rightarrow> cs | None \<Rightarrow> []))
      in if cs = [] then None else Some cs) = fl_excludedCategories f"
  proof (cases "fl_excludedCategories f")
    case (Some cs)
    then have cs: "cs \<noteq> []" "distinct cs" "set cs \<subseteq> set CATEGORIES"
      "\<forall>c. fl_category f = Some c \<longrightarrow> c \<notin> set cs"
      using assms by (simp_all add: filters_ok_def)
    then have "filter (\<lambda>c. Some c \<noteq> fl_category f) cs = cs" by (auto simp: filter_id_conv)
    then show ?thesis using Some cs by (simp add: uniq_id)
  qed (simp add: uniq_def)
  show ?thesis
    unfolding read_filters_def Let_def filters_json_get several one opt_json_read
    using excluded[unfolded Let_def] by simp
qed

lemma ok_filters_roundtrip:
  assumes ok: "filters_ok f"
  shows "validate_filters (filters_json f) = Inr (f\<lparr>fl_district := map_option trim (fl_district f)\<rparr>)"
proof -
  define d where "d = map_option trim (fl_district f)"
  define g where "g = f\<lparr>fl_district := d\<rparr>"
  note parts = ok[unfolded filters_ok_def]
  show ?thesis
    unfolding d_def[symmetric] g_def[symmetric] validate_filters_iff
    apply (intro conjI)
    subgoal by (rule filters_ok_checks[OF ok])
    subgoal using district_read parts by (simp add: g_def d_def filters_json_get)
    subgoal unfolding filters_json_get by (rule clock_read) (simp only: parts)
    subgoal unfolding filters_json_get by (rule clock_read) (simp only: parts)
    subgoal unfolding filters_json_get by (rule bool_read)
    subgoal unfolding filters_json_get by (rule bool_read)
    subgoal using parts by (cases "fl_dateFrom f"; cases "fl_dateTo f") (simp_all add: g_def not_less)
    subgoal by (simp add: g_def filters_ok_read[OF ok])
    done
qed

text \<open>
  C38: accepted filters survive being sent back by the client: written as a request and validated
  again they are accepted, and only the district may change, losing the white space that the cut
  at 80 units left at its end.
\<close>

theorem accepted_filters_roundtrip:
  assumes "validate_filters v = Inr f"
  shows "validate_filters (filters_json f) = Inr (f\<lparr>fl_district := map_option trim (fl_district f)\<rparr>)"
  using accepted_filters_ok[OF assms] by (rule ok_filters_roundtrip)

theorem accepted_filters_roundtrip_witness:
  "validate_filters (filters_json sample_filters)
     = Inr (sample_filters\<lparr>fl_district := map_option trim (fl_district sample_filters)\<rparr>)"
  by (rule accepted_filters_roundtrip[OF sample_accepted])

section \<open>Dropping a constraint\<close>

text \<open>
  \<open>relaxes g f\<close>: every constraint of \<open>g\<close> is absent, or is one of \<open>f\<close> made no stricter.
\<close>

definition relaxes :: "filters \<Rightarrow> filters \<Rightarrow> bool" where
  "relaxes g f \<longleftrightarrow>
     (or_empty (fl_category g) = [] \<or> fl_category g = fl_category f)
     \<and> (case fl_categories g of
          None \<Rightarrow> True
        | Some cs \<Rightarrow> (case fl_categories f of Some ds \<Rightarrow> set ds \<subseteq> set cs | None \<Rightarrow> False))
     \<and> (case fl_excludedCategories g of
          None \<Rightarrow> True
        | Some cs \<Rightarrow> (case fl_excludedCategories f of Some ds \<Rightarrow> set cs \<subseteq> set ds | None \<Rightarrow> cs = []))
     \<and> (case fl_maxPrice g of
          None \<Rightarrow> True
        | Some p \<Rightarrow>
            (case fl_maxPrice f of
               None \<Rightarrow> False
             | Some q \<Rightarrow> q < p \<or> (q = p \<and> (fl_maxPriceExclusive g = Some True
                                         \<longrightarrow> fl_maxPriceExclusive f = Some True))))
     \<and> (or_empty (fl_dateFrom g) = []
        \<or> (or_empty (fl_dateFrom f) \<noteq> [] \<and> or_empty (fl_dateFrom g) \<le> or_empty (fl_dateFrom f)))
     \<and> (or_empty (fl_dateTo g) = []
        \<or> (or_empty (fl_dateTo f) \<noteq> [] \<and> or_empty (fl_dateTo f) \<le> or_empty (fl_dateTo g)))
     \<and> (or_empty (fl_startTimeFrom g) = []
        \<or> (or_empty (fl_startTimeFrom f) \<noteq> []
           \<and> (or_empty (fl_startTimeFrom g) < or_empty (fl_startTimeFrom f)
              \<or> (or_empty (fl_startTimeFrom g) = or_empty (fl_startTimeFrom f)
                 \<and> (fl_startTimeFromExclusive g = Some True \<longrightarrow> fl_startTimeFromExclusive f = Some True)))))
     \<and> (or_empty (fl_startTimeTo g) = []
        \<or> (or_empty (fl_startTimeTo f) \<noteq> []
           \<and> (or_empty (fl_startTimeTo f) < or_empty (fl_startTimeTo g)
              \<or> (or_empty (fl_startTimeTo g) = or_empty (fl_startTimeTo f)
                 \<and> (fl_startTimeToExclusive g = Some True \<longrightarrow> fl_startTimeToExclusive f = Some True)))))
     \<and> (or_empty (fl_district g) = [] \<or> fl_district g = fl_district f)"

lemma relaxes_category_and_price:
  assumes "relaxes g f" "category_and_price_allowed e f"
  shows "category_and_price_allowed e g"
proof -
  note r = assms(1)[unfolded relaxes_def] and a = assms(2)[unfolded category_and_price_allowed_def de_Morgan_disj]
  have "\<not> (case fl_category g of Some c \<Rightarrow> c \<noteq> [] \<and> ev_category e \<noteq> c | None \<Rightarrow> False)"
    using conjunct1[OF r] conjunct1[OF a] by (cases "fl_category g"; cases "fl_category f") (auto simp: or_empty_def)
  moreover have "\<not> (case fl_categories g of Some cs \<Rightarrow> ev_category e \<notin> set cs | None \<Rightarrow> False)"
  proof (cases "fl_categories g"; cases "fl_categories f")
    fix cs ds
    assume "fl_categories g = Some cs" "fl_categories f = Some ds"
    then show ?thesis using r a by auto
  qed (use r in simp_all)
  moreover have "\<not> (case fl_excludedCategories g of Some cs \<Rightarrow> ev_category e \<in> set cs | None \<Rightarrow> False)"
  proof (cases "fl_excludedCategories g"; cases "fl_excludedCategories f")
    fix cs ds
    assume "fl_excludedCategories g = Some cs" "fl_excludedCategories f = Some ds"
    then show ?thesis using r a by auto
  qed (use r in simp_all)
  moreover have "\<not> (case fl_maxPrice g of
             None \<Rightarrow> False
           | Some bound \<Rightarrow>
               (case ev_price e of
                  None \<Rightarrow> True
                | Some price \<Rightarrow> ev_currency e \<noteq> tl_currency \<or> price > bound
                    \<or> (fl_maxPriceExclusive g = Some True \<and> price = bound)))"
  proof (cases "fl_maxPrice g")
    case (Some p)
    then obtain q where q: "fl_maxPrice f = Some q"
      "q < p \<or> (q = p \<and> (fl_maxPriceExclusive g = Some True \<longrightarrow> fl_maxPriceExclusive f = Some True))"
      using r by (cases "fl_maxPrice f") simp_all
    show ?thesis using a q Some by (cases "ev_price e") auto
  qed simp
  ultimately show ?thesis by (simp only: category_and_price_allowed_def de_Morgan_disj simp_thms)
qed

text \<open>One bound, on any linear order; \<open>n\<close> stands for no bound.\<close>

lemma lower_bound_relaxed:
  fixes b :: "'a::linorder"
  assumes "g = n \<or> (f \<noteq> n \<and> g \<le> f)" and "\<not> (f \<noteq> n \<and> b < f)"
  shows "\<not> (g \<noteq> n \<and> b < g)"
  using assms by auto

lemma upper_bound_relaxed:
  fixes b :: "'a::linorder"
  assumes "g = n \<or> (f \<noteq> n \<and> f \<le> g)" and "\<not> (f \<noteq> n \<and> f < b)"
  shows "\<not> (g \<noteq> n \<and> g < b)"
  using assms by auto

lemma strict_lower_relaxed:
  fixes t :: "'a::linorder"
  assumes "g = n \<or> (f \<noteq> n \<and> (g < f \<or> (g = f \<and> (G \<longrightarrow> F))))"
    and "\<not> (f \<noteq> n \<and> (if F then t \<le> f else t < f))"
  shows "\<not> (g \<noteq> n \<and> (if G then t \<le> g else t < g))"
  using assms by (auto split: if_splits)

lemma strict_upper_relaxed:
  fixes t :: "'a::linorder"
  assumes "g = n \<or> (f \<noteq> n \<and> (f < g \<or> (g = f \<and> (G \<longrightarrow> F))))"
    and "\<not> (f \<noteq> n \<and> (if F then f \<le> t else f < t))"
  shows "\<not> (g \<noteq> n \<and> (if G then g \<le> t else g < t))"
  using assms by (auto split: if_splits)

lemma if_False_iff: "(if X then False else R) \<longleftrightarrow> \<not> X \<and> R"
  by simp

lemma relaxes_date:
  assumes "relaxes g f" "date_allowed P e start f"
  shows "date_allowed P e start g"
proof -
  obtain a b where ab: "(case ev_attendanceTiming e of
             Some (AdmissionWindow a b) \<Rightarrow>
               (today_in_istanbul P (the (date_parse a)), today_in_istanbul P (the (date_parse b)))
           | _ \<Rightarrow> (today_in_istanbul P start, today_in_istanbul P start)) = (a, b)" by fastforce
  have "or_empty (fl_dateFrom g) = []
        \<or> (or_empty (fl_dateFrom f) \<noteq> [] \<and> or_empty (fl_dateFrom g) \<le> or_empty (fl_dateFrom f))"
    "or_empty (fl_dateTo g) = []
        \<or> (or_empty (fl_dateTo f) \<noteq> [] \<and> or_empty (fl_dateTo f) \<le> or_empty (fl_dateTo g))"
    using assms(1) unfolding relaxes_def by blast+
  then show ?thesis using assms(2) unfolding date_allowed_def Let_def ab prod.case de_Morgan_disj
    by (meson lower_bound_relaxed upper_bound_relaxed)
qed

lemma relaxes_time:
  assumes "relaxes g f" "time_allowed P e start f"
  shows "time_allowed P e start g"
proof -
  have bounds: "or_empty (fl_startTimeFrom g) = []
        \<or> (or_empty (fl_startTimeFrom f) \<noteq> []
           \<and> (or_empty (fl_startTimeFrom g) < or_empty (fl_startTimeFrom f)
              \<or> (or_empty (fl_startTimeFrom g) = or_empty (fl_startTimeFrom f)
                 \<and> (fl_startTimeFromExclusive g = Some True \<longrightarrow> fl_startTimeFromExclusive f = Some True))))"
    "or_empty (fl_startTimeTo g) = []
        \<or> (or_empty (fl_startTimeTo f) \<noteq> []
           \<and> (or_empty (fl_startTimeTo f) < or_empty (fl_startTimeTo g)
              \<or> (or_empty (fl_startTimeTo g) = or_empty (fl_startTimeTo f)
                 \<and> (fl_startTimeToExclusive g = Some True \<longrightarrow> fl_startTimeToExclusive f = Some True))))"
    using assms(1) unfolding relaxes_def by blast+
  note from_ok = strict_lower_relaxed[OF bounds(1)] and until_ok = strict_upper_relaxed[OF bounds(2)]
  show ?thesis
  proof (cases "or_empty (fl_startTimeFrom g) = [] \<and> or_empty (fl_startTimeTo g) = []")
    case True
    then show ?thesis by (simp add: time_allowed_def)
  next
    case False
    then have some: "\<not> (or_empty (fl_startTimeFrom f) = [] \<and> or_empty (fl_startTimeTo f) = [])"
      using bounds by blast
    let ?t = "istanbul_clock P start"
    have f: "\<not> (source_time_is_doors_only (ev_description e)
        \<or> (case ev_attendanceTiming e of Some t \<Rightarrow> t \<noteq> TimedSession | None \<Rightarrow> False))"
      "\<not> (or_empty (fl_startTimeFrom f) \<noteq> []
          \<and> (if fl_startTimeFromExclusive f = Some True then ?t \<le> or_empty (fl_startTimeFrom f)
             else ?t < or_empty (fl_startTimeFrom f)))"
      "\<not> (or_empty (fl_startTimeTo f) \<noteq> []
          \<and> (if fl_startTimeToExclusive f = Some True then or_empty (fl_startTimeTo f) \<le> ?t
             else or_empty (fl_startTimeTo f) < ?t))"
      using assms(2) unfolding time_allowed_def Let_def if_not_P[OF some] if_False_iff de_Morgan_disj by (blast, blast, blast)
    show ?thesis
      unfolding time_allowed_def Let_def if_not_P[OF False] if_not_P[OF f(1)]
      using from_ok[OF f(2)] until_ok[OF f(3)] by blast
  qed
qed

lemma relaxes_district: "relaxes g f \<Longrightarrow> district_allowed P e f \<Longrightarrow> district_allowed P e g"
  unfolding relaxes_def district_allowed_def by (metis (no_types))

lemma relaxes_eligible: "relaxes g f \<Longrightarrow> is_eligible P e f now \<Longrightarrow> is_eligible P e g now"
  unfolding is_eligible_def
  using relaxes_category_and_price relaxes_date relaxes_time relaxes_district by blast

section \<open>Ranking and choice\<close>

lemma sorted_insert_score:
  assumes "sorted_wrt (\<lambda>a b. (s b :: rat) \<le> s a) xs"
  shows "sorted_wrt (\<lambda>a b. s b \<le> s a) (insert_by (\<lambda>a b. cmp_or (cmp_int (s b) (s a)) (d a b)) x xs)"
  using assms
proof (induction xs)
  case Nil
  then show ?case by simp
next
  case (Cons y ys)
  let ?c = "\<lambda>a b. cmp_or (cmp_int (s b) (s a)) (d a b)"
  show ?case
  proof (cases "?c x y \<le> 0")
    case True
    then have "s y \<le> s x" by (auto simp: cmp_or_def cmp_int_def split: if_splits)
    then show ?thesis using True Cons.prems by auto
  next
    case False
    then have "s x \<le> s y" by (auto simp: cmp_or_def cmp_int_def split: if_splits)
    moreover have "set (insert_by ?c x ys) = insert x (set ys)"
      by (metis mset_insert_by set_mset_add_mset_insert set_mset_mset)
    ultimately show ?thesis using False Cons by auto
  qed
qed

lemma sorted_by_score:
  "sorted_wrt (\<lambda>a b. (s b :: rat) \<le> s a) (sort_by (\<lambda>a b. cmp_or (cmp_int (s b) (s a)) (d a b)) xs)"
  by (induction xs) (simp_all add: sorted_insert_score)

lemma first_of_each_keys: "key ` set (first_of_each key seen xs) = key ` set xs - set seen"
  by (induction key seen xs rule: first_of_each.induct) auto

lemma first_of_each_distinct: "distinct (map key (first_of_each key seen xs))"
proof (induction key seen xs rule: first_of_each.induct)
  case (2 key seen x xs)
  then show ?case using first_of_each_keys[of key "key x # seen" xs] by auto
qed simp

lemma first_of_each_subseq: "subseq (first_of_each key seen xs) xs"
  by (induction key seen xs rule: first_of_each.induct) auto

lemma first_of_each_length: "length (first_of_each key [] xs) = card (key ` set xs)"
  using first_of_each_keys[of key "[]" xs] distinct_card[OF first_of_each_distinct[of key "[]" xs]]
  by simp

section \<open>The properties\<close>

text \<open>
  C36: relaxing a filter never loses an event: what is eligible under a filter is eligible under
  every filter whose constraints are dropped or made no stricter.
\<close>

theorem relaxing_keeps_eligible:
  assumes "relaxes g f"
  shows "{e. is_eligible P e f now} \<subseteq> {e. is_eligible P e g now}"
  using relaxes_eligible[OF assms] by blast

theorem relaxing_keeps_eligible_witness:
  "{e. is_eligible turkish_platform e sample_filters 0} \<subseteq> {e. is_eligible turkish_platform e wider_filters 0}
   \<and> \<not> relaxes sample_filters wider_filters"
proof -
  have "relaxes wider_filters sample_filters" by code_simp
  then show ?thesis
    using relaxing_keeps_eligible[of wider_filters sample_filters turkish_platform 0]
    by (simp add: relaxes_def sample_filters_def wider_filters_def empty_filters_def or_empty_def)
qed

text \<open>
  The choice of events keeps their order, takes one event per production, and misses no
  production unless the limit is reached.
\<close>

theorem unique_events_sound:
  "distinct (map production_identity (unique_events es n)) \<and> subseq (unique_events es n) es
   \<and> length (unique_events es n) = min n (card (production_identity ` set es))"
proof -
  let ?all = "first_of_each production_identity [] es"
  have "distinct (map production_identity (take n ?all))"
    using distinct_take[OF first_of_each_distinct, of n] by (simp add: take_map)
  moreover have "subseq (take n ?all) ?all" by (metis append_take_drop_id list_emb_prefix subseq_order.refl)
  then have "subseq (take n ?all) es" using first_of_each_subseq subseq_order.trans by blast
  ultimately show ?thesis by (simp add: unique_events_def first_of_each_length min.commute)
qed

text \<open>
  Ranking returns the same events, each as often as before, best score first.
\<close>

theorem rank_events_sorted:
  "mset (rank_events P events query v vs) = mset events
   \<and> sorted_wrt (\<lambda>a b. event_score P (search_tokens P query) v vs b \<le> event_score P (search_tokens P query) v vs a)
       (rank_events P events query v vs)"
proof -
  let ?s = "event_score P (search_tokens P query) v vs"
  let ?xs = "sort_by (score_order P) (map (\<lambda>e. (?s e, e)) events)"
  have r: "rank_events P events query v vs = map snd ?xs" by (simp add: rank_events_def Let_def)
  have "mset (map snd ?xs) = image_mset snd (mset (map (\<lambda>e. (?s e, e)) events))"
    by (simp only: mset_map mset_sort_by)
  then have "mset (map snd ?xs) = mset events" by (simp add: image_mset.compositionality comp_def)
  moreover have "sorted_wrt (\<lambda>a b. ?s (snd b) \<le> ?s (snd a)) ?xs"
  proof (rule sorted_wrt_mono_rel)
    show "sorted_wrt (\<lambda>a b. fst b \<le> fst a) ?xs"
      by (subst score_order_def[abs_def]) (rule sorted_by_score)
  qed auto
  ultimately show ?thesis unfolding r sorted_wrt_map by blast
qed

text \<open>
  Every category that the program assigns is one of the taxonomy, and the event it is
  assigned to passes the format check of the search.
\<close>

theorem assigned_category_known:
  "category_for_event P label (ev_title e) (ev_description e) \<in> set CATEGORIES
   \<and> has_supported_event_format P
       (e\<lparr>ev_category := category_for_event P label (ev_title e) (ev_description e)\<rparr>)"
  using category_for_event_known assigned_category_supported by simp

text \<open>
  C40: the location of an event is what its label and its address agree on. A known place named by
  the label, a shore named by the label, a district and a neighbourhood named by the address are its
  candidates; if there are any, all on one shore and with no two districts, the location reports
  that shore, and exactly the district that a candidate names; otherwise it is unknown. What is
  reported has one of three forms: a district of the city with its shore, a shore alone, or nothing.
\<close>

theorem resolved_location_consistent:
  "let candidates = location_candidates P district address;
       location = resolve_event_location P district address
   in location_ok location
     \<and> (if location_agreed candidates
        then list_all (\<lambda>c. loc_side location = loc_side c \<and> loc_side c \<noteq> None) candidates
          \<and> (\<forall>d. loc_district location = Some d \<longleftrightarrow> list_ex (\<lambda>c. loc_district c = Some d) candidates)
        else location = unknown_location)"
  using resolve_event_location_spec[of P district address]
  by (simp add: Let_def list_all_iff list_ex_iff)

text \<open>
  A label that is the name of an inherited property of the table of shores is taken for a shore,
  which is none of the two; it is then reported unless an address contradicts it.
\<close>

lemma inherited_name_is_a_shore:
  "side_named (u ''constructor'') = Some (Inherited (u ''constructor''))"
  by (simp add: side_named_def side_labels_def inherited_names_def)

text \<open>
  The search places a neighbourhood in the district where the identity rules place it: the two
  tables agree on every name they share.
\<close>

theorem neighbourhoods_consistent:
  assumes "map_of neighbourhood_districts name = Some d" and "neighborhood name = Some p"
  shows "pc_district p = Some d"
  using assms by (rule neighbourhood_tables_agree)

theorem neighbourhoods_consistent_witness:
  "\<exists>p. neighborhood (u ''bahariye'') = Some p \<and> pc_district p = Some (u ''kadikoy'')"
proof -
  have d: "map_of neighbourhood_districts (u ''bahariye'') = Some (u ''kadikoy'')"
    by (simp add: neighbourhood_districts_def)
  obtain p where p: "neighborhood (u ''bahariye'') = Some p"
    by (simp add: neighborhood_def neighborhoods_def)
  show ?thesis using p neighbourhoods_consistent[OF d p] by blast
qed

end
