(* ===== verification/Intent.thy ===== *)
theory Intent
  imports Regex_Syntax Identity_Text Types Categories
begin

text \<open>
  \<open>web/lib/intent.ts\<close>: whether a message starts over or asks for alternatives, and which
  categories it asks for or rejects. The patterns are those of the source; text is matched after
  \<open>normalizedIntentText\<close>, which is \<open>fold_text\<close>.
\<close>

section \<open>Starting over and alternatives\<close>

definition reset_denied_rx :: string where
  "reset_denied_rx =
     ''%b(?:her seyi|herseyi|tumunu) unutma%b|%b(?:don~qt|dont|do not) forget everything%b''"

definition reset_rx :: string where
  "reset_rx =
     ''%b(?:bastan basla(?:yalim)?|onceki (?:sartlari|kosullari|tercihleri) unut|(?:her seyi|'' @
     ''herseyi|tumunu) unut|start (?:over|again)|forget everything|forget (?:the )?(?:previou'' @
     ''s|earlier) (?:preferences|constraints|conditions))%b''"

definition is_full_preference_reset :: "platform \<Rightarrow> jstr \<Rightarrow> bool" where
  "is_full_preference_reset P message =
     (let t = fold_text P message
      in if test (re reset_denied_rx) t then False else test (re reset_rx) t)"

definition alternatives_rx :: string where
  "alternatives_rx =
     ''%b(?:baska var mi|baska oner(?:i|ir misin)?|baska goster|bunlari begenmedim|bunlar(?:i'' @
     '')? olmadi baska|baska bir sey oner|something else|anything else)%b|^baska$|%b(?:other|'' @
     ''different|more)%s+(?:options|events|suggestions|recommendations)%b|%b(?:show|suggest)'' @
     ''%s+(?:me%s+)?alternatives%b|%b(?:baska|diger|alternatif)%b[^.!?%n]{0,32}%b(?:secenek|e'' @
     ''tkinlik|oneri|alternatif)(?:ler|leri)?%b''"

definition is_alternatives_request :: "platform \<Rightarrow> jstr \<Rightarrow> bool" where
  "is_alternatives_request P message = test (re alternatives_rx) (evidence_text P message)"

definition standalone_rx :: string where
  "standalone_rx =
     ''^(?:(?:bunlari begenmedim|bunlar olmadi)%s+)?(?:baska|baska (?:var mi|goster|oneri|one'' @
     ''rir misin)|baska (?:secenekler|etkinlikler|oneriler)(?: var mi)?|baska bir sey oner|an'' @
     ''ything else|something else|(?:show|suggest)(?: me)? alternatives|(?:other|different|mo'' @
     ''re) (?:options|events|suggestions|recommendations)(?: please)?)$''"

definition is_standalone_alternatives_request :: "platform \<Rightarrow> jstr \<Rightarrow> bool" where
  "is_standalone_alternatives_request P message = test (re standalone_rx) (evidence_text P message)"

section \<open>Rejected categories\<close>

definition category_negation :: string where
  "category_negation =
     ''(?:istemiyorum|istemiyoruz|istemem|istemeyiz|aramiyorum|aramayiz|olmasin|olmasinlar|de'' @
     ''gil|haric|disi|disinda|disindaki|yerine|bosver)''"

text \<open>
  The rejection terms: the name, the pattern between its two word boundaries, and the category.
\<close>

definition rejection_terms :: "(string \<times> string \<times> string option) list" where
  "rejection_terms = [
     (''workshop'', ''(?:workshops?|atolye(?:ler)?)'', Some ''Workshop''),
     (''sergi'', ''(?:sergi(?:ler)?|exhibitions?)'', Some ''Sergi''),
     (''festival'', ''festivals?'', Some ''Festival''),
     (''spor'', ''(?:spor(?:%s+etkinligi)?|sports?(?:%s+events?)?)'', Some ''Spor''),
     (''sinema'', ''(?:sinema|cinema|movie%s+screenings?|film%s+gosterimi)'', Some ''Sinema''),
     (''soylesi'', ''(?:soylesi(?:ler)?|talks?)'', Some ''S~oyle~si''),
     (''dans'', ''(?:dans%s+gosterisi|dance%s+performances?)'', Some ''Dans''),
     (''gosteri'', ''(?:gosteri(?:ler)?|stage%s+shows?)'', Some ''G~osteri''),
     (''egitim'', ''(?:egitim%s+etkinligi|training%s+events?|classes|courses)'', Some ''E~gitim''),
     (''gezi'', ''(?:gezi(?:ler)?|guided%s+tours?)'', Some ''Gezi''),
     (''muze'', ''(?:muze(?:ler)?|museums?)'', Some ''M~uze''),
     (''diger'', ''(?:diger%s+kategori|other%s+category)'', Some ''Di~ger''),
     (''elektronik muzik'', ''elektronik%s+muzik'', None),
     (''cocuk tiyatrosu'', ''cocuk%s+tiyatro(?:su(?:na|nda|nu)?|ya|yu)?'', None),
     (''cocuk etkinligi'', ''cocuk%s+etkinligi'', None),
     (''cocuk oyunu'', ''cocuk%s+oyunu'', None),
     (''sahne oyunu'', ''sahne%s+oyunu'', None),
     (''stand-up'', ''stand[ -]?up'', Some ''Stand-up''),
     (''akustik'', ''akustik'', None),
     (''techno'', ''techno'', None),
     (''rock'', ''rock'', None),
     (''jazz'', ''jazz'', None),
     (''caz'', ''caz'', None),
     (''comedy'', ''comedy'', None),
     (''komedi'', ''komedi'', None),
     (''konser'', ''(?:konser(?:ler(?:e|i|in|den|de)?|e|i|in|den|de)?|concerts?)'', Some ''Konser''),
     (''tiyatro'', ''(?:tiyatro(?:lar(?:a|i|in|dan|da)?|ya|yu|nun|dan|da|su(?:na|nda|nu)?)?'' @
        ''|theatre|theater)'', Some ''Tiyatro''),
     (''muzik'', ''(?:muzik|music)'', Some ''Konser'')]"

definition term_rx :: "string \<Rightarrow> rx" where
  "term_rx source = re (''%b'' @ source @ ''%b'')"

text \<open>
  The state of the loop over the clauses: the terms and categories rejected so far, and the
  clauses that remain.
\<close>

record rejection =
  rj_rejected :: "jstr list"
  rj_excluded :: "jstr list"
  rj_clauses :: "jstr list"

definition reject_term :: "string \<Rightarrow> string option \<Rightarrow> rejection \<Rightarrow> rejection" where
  "reject_term name category st =
     st\<lparr>rj_rejected := set_add (if starts_with (u name) (u ''cocuk '') then u ''cocuk'' else u name)
          (rj_rejected st),
        rj_excluded := (case category of Some c \<Rightarrow> set_add (tr c) (rj_excluded st) | None \<Rightarrow> rj_excluded st)\<rparr>"

definition last_index_of :: "jstr \<Rightarrow> jstr \<Rightarrow> int" where
  "last_index_of s w =
     (case rev (filter (\<lambda>i. starts_with (drop i s) w) [0..<Suc (length s)]) of
        i # is \<Rightarrow> int i | [] \<Rightarrow> - 1)"

definition coordinated_rx :: string where
  "coordinated_rx =
     ''^%s*(?:da|de)?%s*$|^%s*(?:ve|veya|ya da|and|or|,)%s+(?:cocuk%s+etkinligi|cocuk%s+tiyat'' @
     ''ro(?:su(?:na|nda|nu)?|ya|yu)?|cocuk%s+oyunu|konser(?:ler(?:e|i|in|den|de)?|e|i|in|den|'' @
     ''de)?|concerts?|muzik|music|tiyatro(?:lar|ya|yu|su(?:na|nda|nu)?)?|theatre|theater|stan'' @
     ''d[ -]?up|workshops?|atolye(?:ler)?|sergi(?:ler)?|exhibitions?|festivals?|spor(?:%s+etk'' @
     ''inligi)?|sports?(?:%s+events?)?|sinema|cinema|movie%s+screenings?|film%s+gosterimi|soy'' @
     ''lesi(?:ler)?|talks?|dans%s+gosterisi|dance%s+performances?|gosteri(?:ler)?|stage%s+sho'' @
     ''ws?|egitim%s+etkinligi|training%s+events?|classes|courses|gezi(?:ler)?|guided%s+tours?'' @
     ''|muze(?:ler)?|museums?|diger%s+kategori|other%s+category)%s*$''"

definition genre_concert_rx :: string where
  "genre_concert_rx = ''^%s+konser(?:ler(?:e|i|in|den|de)?|e|i|in|den|de)?%s*$''"

text \<open>A more specific term of the same text takes the place of a general one.\<close>

definition has_specific_term :: "string \<Rightarrow> string \<Rightarrow> jstr \<Rightarrow> bool" where
  "has_specific_term genre name candidate \<longleftrightarrow>
     (name = ''muzik'' \<and> test (re ''%belektronik%s+muzik%b'') candidate)
     \<or> (name = ''tiyatro'' \<and> test (re ''%bcocuk%s+tiyatro'') candidate)
     \<or> (name = ''konser'' \<and> test (re genre) candidate)"

definition suffix_rx :: string where
  "suffix_rx = ''%b(?:gitmek|izlemek|dinlemek)?%s*'' @ category_negation @ ''%b''"

definition english_prefix :: string where
  "english_prefix =
     ''%b(?:anything%s+except|we do not want|we don~qt want|we dont want|do not want|don~qt w'' @
     ''ant|dont want|no|not|without|excluding?|except)%s+(?:any%s+)?''"

text \<open>A term that stands right before a Turkish negation.\<close>

definition suffix_term ::
  "jstr \<Rightarrow> nat \<Rightarrow> string \<times> string \<times> string option \<Rightarrow> rejection \<times> nat option \<Rightarrow> rejection \<times> nat option"
where
  "suffix_term candidate start t acc =
     (case t of (name, source, category) \<Rightarrow>
        case exec (term_rx source) candidate of
          None \<Rightarrow> acc
        | Some m \<Rightarrow>
            let tail = rm_after m;
                genre = (name \<in> {''rock'', ''caz'', ''jazz'', ''akustik'', ''techno''}
                         \<and> test (re genre_concert_rx) tail)
            in if \<not> test (re coordinated_rx) tail \<and> \<not> genre then acc
               else if has_specific_term ''%b(?:rock|caz|jazz|akustik|techno)%s+konser'' name candidate
               then acc
               else (reject_term name category (fst acc),
                     Some (case snd acc of
                             Some f \<Rightarrow> min f (start + rm_index m) | None \<Rightarrow> start + rm_index m)))"

definition mask_suffix :: "jstr \<Rightarrow> rejection \<Rightarrow> rejection \<times> jstr" where
  "mask_suffix clause st =
     (case exec (re suffix_rx) clause of
        None \<Rightarrow> (st, clause)
      | Some m \<Rightarrow>
          let beforeMarker = take (rm_index m) clause;
              lastPositive = max (last_index_of beforeMarker (u '' istiyorum ''))
                (max (last_index_of beforeMarker (u '' olsun ''))
                     (last_index_of beforeMarker (u '' please '')));
              start = (if lastPositive \<ge> 0 then nat lastPositive + 1 else 0)
          in case fold (suffix_term (drop start beforeMarker) start) rejection_terms (st, None) of
               (st', Some f) \<Rightarrow> (st', take f clause @ [32] @ rm_after m)
             | (st', None) \<Rightarrow> (st', clause))"

text \<open>The list after an English negation.\<close>

definition english_list_rx :: string where
  "english_list_rx =
     english_prefix @ ''([^,;.!]+?)(?=%b(?:please|recommend|show|find)%b|[,;.!]|$)''"

definition english_term ::
  "jstr \<Rightarrow> string \<times> string \<times> string option \<Rightarrow> rejection \<Rightarrow> rejection" where
  "english_term listed t st =
     (case t of (name, source, category) \<Rightarrow>
        if \<not> test (term_rx source) listed
           \<or> has_specific_term ''%b(?:rock|jazz|acoustic|techno)%s+concerts?%b'' name listed
        then st else reject_term name category st)"

definition mask_english_list :: "rejection \<times> jstr \<Rightarrow> rejection \<times> jstr" where
  "mask_english_list sm =
     (case exec (re_i english_list_rx) (snd sm) of
        None \<Rightarrow> sm
      | Some m \<Rightarrow>
          (fold (english_term (or_empty (group m 1))) rejection_terms (fst sm),
           replace_first (Lit (rm_text m)) [32] (snd sm)))"

text \<open>A term right after an English negation.\<close>

definition mask_prefixed :: "string \<times> string \<times> string option \<Rightarrow> rejection \<times> jstr \<Rightarrow> rejection \<times> jstr" where
  "mask_prefixed t sm =
     (case t of (name, source, category) \<Rightarrow>
        let prefixed = re (english_prefix @ ''(?:'' @ source @ '')%b'')
        in if test prefixed (snd sm)
           then (reject_term name category (fst sm), replace_all prefixed [32] (snd sm)) else sm)"

definition delimiter_rx :: string where
  "delimiter_rx = ''^(?:ama|fakat|ancak|but|,|;|%.|!|%?)$''"

definition analyse_clause :: "jstr \<Rightarrow> rejection \<Rightarrow> rejection" where
  "analyse_clause clause st =
     (if test (re delimiter_rx) (trim clause) then st\<lparr>rj_clauses := rj_clauses st @ [clause]\<rparr>
      else
        let (st', masked) =
              fold mask_prefixed rejection_terms (mask_english_list (mask_suffix clause st))
        in st'\<lparr>rj_clauses := rj_clauses st' @ [masked]\<rparr>)"

text \<open>\<open>split\<close> at a pattern that is one group: the matches stay in the result.\<close>

fun split_keeping_from :: "rx_match list \<Rightarrow> nat \<Rightarrow> jstr \<Rightarrow> jstr list" where
  "split_keeping_from [] start s = [drop start s]"
| "split_keeping_from (m # ms) start s =
     take (rm_index m - start) (drop start s) # rm_text m
       # split_keeping_from ms (rm_index m + length (rm_text m)) s"

definition split_keeping :: "rx \<Rightarrow> jstr \<Rightarrow> jstr list" where
  "split_keeping r s = split_keeping_from (match_all r s) 0 s"

definition no_rejection :: rejection where
  "no_rejection = \<lparr>rj_rejected = [], rj_excluded = [], rj_clauses = []\<rparr>"

definition rejection_analysis :: "platform \<Rightarrow> jstr \<Rightarrow> rejection" where
  "rejection_analysis P message =
     fold analyse_clause
       (split_keeping (re ''(%b(?:ama|fakat|ancak|but)%b|[,;.!?%n])'') (fold_text P message))
       no_rejection"

definition remaining_text :: "rejection \<Rightarrow> jstr" where
  "remaining_text r = join [32] (rj_clauses r)"

section \<open>Requested categories\<close>

definition theatre_play_rx :: string where
  "theatre_play_rx =
     ''%b(?:ciddi|dramatik|yetiskin(?:ler|lere)?(?:%s+(?:uygun|yonelik))?|sahne(?:de|ye)?|per'' @
     ''de|bilet|izle(?:mek|yelim)?|seyret(?:mek|yelim)?)%b[^.!?%n]{0,48}%boyun(?:u|lar|lari)?'' @
     ''%b|%boyun(?:u|lar|lari)?%b[^.!?%n]{0,48}%b(?:ciddi|dramatik|yetiskin(?:ler|lere)?(?:%s'' @
     ''+(?:uygun|yonelik))?|sahne(?:de|ye)?|perde|bilet|izle(?:mek|yelim)?|seyret(?:mek|yelim'' @
     '')?)%b''"

definition tabletop_game_rx :: string where
  "tabletop_game_rx = ''%b(?:kutu|masa|kart|video|bilgisayar|konsol)%s+oyun(?:u|lari?)?%b''"

definition category_patterns :: "(string \<times> string) list" where
  "category_patterns = [
     (''Konser'', ''%b(?:konser(?:ler(?:e|i|in|den|de)?|e|i|in|den|de)?|concerts?|music|muzik|rock|caz|jaz'' @
        ''z|akustik|techno|elektronik)%b''),
     (''Tiyatro'', ''%b(?:tiyatro(?:ya|da|yu|lar|su(?:na|nda|nu)?)?|theatre|theater|sahne oyunu|comedy play'' @
        '')%b''),
     (''Stand-up'', ''%b(?:stand[ -]?up)%b''),
     (''Workshop'', ''%b(?:workshops?|atolye(?:ler)?)%b''),
     (''Sergi'', ''%b(?:sergi(?:ler)?|exhibitions?)%b''),
     (''Festival'', ''%bfestivals?%b''),
     (''Spor'', ''%b(?:spor(?:%s+etkinligi)?|sports?(?:%s+events?)?)%b''),
     (''Sinema'', ''%b(?:sinema|cinema|movie%s+screenings?|film%s+gosterimi)%b''),
     (''S~oyle~si'', ''%b(?:soylesi(?:ler)?|talks?)%b''),
     (''Dans'', ''%b(?:dans%s+gosterisi|dance%s+performances?)%b''),
     (''G~osteri'', ''%b(?:stage%s+shows?|sahne%s+gosteri(?:si|ye|ler)?|gosteri(?:ye|ler)?%s+(?:olsun|istiyo'' @
        ''rum|isterim|gidelim|izlemek|oner%w*|bul%w*))%b''),
     (''E~gitim'', ''%b(?:egitim%s+etkinligi|training%s+events?|classes|courses)%b''),
     (''Gezi'', ''%b(?:gezi(?:ler)?|guided%s+tours?)%b''),
     (''M~uze'', ''%b(?:muze(?:ler)?|museums?)%b''),
     (''Di~ger'', ''%b(?:diger%s+kategori|other%s+category)%b'')]"

definition adult_play_rejected_rx :: string where
  "adult_play_rejected_rx =
     ''%b(?:ciddi|dramatik|yetiskin(?:ler|lere)?(?:%s+(?:uygun|yonelik))?|sahne(?:de|ye)?|perde)'' @
     ''%b[^,.!?;%n]{0,48}%boyun(?:u|lar|lari)?%s+'' @ category_negation @ ''%b''"

definition coordinated_rejection_rx :: string where
  "coordinated_rejection_rx =
     ''%b(?:no|without|excluding?|except)%s+(?:any%s+)?(?:concerts?|music|theatre|theater|pla'' @
     ''ys?|stand[ -]?up)(?:%s*(?:and|or)%s*(?:children(?:[~q~r]s)?%s+)?(?:shows?|concerts?|mu'' @
     ''sic|theatre|theater|plays?|stand[ -]?up))*''"

definition positive_category_text :: "platform \<Rightarrow> jstr \<Rightarrow> jstr" where
  "positive_category_text P message =
     join [32]
       (map (\<lambda>clause. replace_all (re coordinated_rejection_rx) [32]
               (replace_all (re adult_play_rejected_rx) [32] clause))
          (split_keeping (re ''(%b(?:ama|fakat|ancak|but)%b)'')
             (remaining_text (rejection_analysis P message))))"

definition tentative_workshop_rx :: string where
  "tentative_workshop_rx =
     ''%b(?:workshops?|atolye(?:ler)?)%s+(?:olabilir|de olabilir|could be (?:nice|good|fine)|'' @
     ''would be (?:nice|good|fine))%b''"

definition requested_categories :: "platform \<Rightarrow> jstr \<Rightarrow> jstr list" where
  "requested_categories P message =
     (let positiveText = replace_all (re tentative_workshop_rx) [32] (positive_category_text P message);
          named = map (\<lambda>c. tr (fst c))
            (filter (\<lambda>c. test (re (snd c)) positiveText) category_patterns);
          play = (if \<not> test (re tabletop_game_rx) positiveText \<and> test (re theatre_play_rx) positiveText
                  then [tr ''Tiyatro''] else []);
          comedy = (if test (re ''%b(?:komedi oyunu|comedy play|comic play)%b'') positiveText
                    then [tr ''Tiyatro''] else [])
      in uniq (named @ play @ comedy))"

section \<open>The intent of a message\<close>

definition term_category :: "jstr \<Rightarrow> jstr option" where
  "term_category name =
     (if name = u ''konser'' \<or> name = u ''muzik'' then Some (tr ''Konser'')
      else if name = u ''tiyatro'' then Some (tr ''Tiyatro'')
      else if name = u ''stand-up'' then Some (tr ''Stand-up'')
      else case find (\<lambda>t. u (fst t) = name) rejection_terms of
             Some t \<Rightarrow> map_option tr (snd (snd t)) | None \<Rightarrow> None)"

text \<open>The state of the loop over the clauses: \<open>True\<close> is \<open>'positive'\<close>.\<close>

record intent_state =
  is_categories :: "(jstr \<times> bool) list"
  is_rejected :: "jstr list"
  is_parts :: "jstr list"

definition intent_clause :: "platform \<Rightarrow> jstr \<Rightarrow> intent_state \<Rightarrow> intent_state" where
  "intent_clause P clause st =
     (let analysis = rejection_analysis P clause;
          kept = remaining_text analysis;
          positive = requested_categories P kept;
          rejected = fold set_add (rj_rejected analysis) (is_rejected st)
      in \<lparr>is_categories = fold (\<lambda>c. AList.update c True) positive
            (fold (\<lambda>c. AList.update c False) (rj_excluded analysis) (is_categories st)),
          is_rejected = filter (\<lambda>t. \<not> ((case term_category t of
                                         Some c \<Rightarrow> c \<in> set positive | None \<Rightarrow> False)
                                      \<or> test (seqs [Wordb, Lit t, Wordb]) kept)) rejected,
          is_parts = is_parts st @ [kept]\<rparr>)"

record category_intent =
  ct_positiveText :: jstr
  ct_requested :: "jstr list"
  ct_excluded :: "jstr list"
  ct_rejected :: "jstr list"

definition category_intent_of :: "platform \<Rightarrow> jstr \<Rightarrow> category_intent" where
  "category_intent_of P message =
     (let st = fold (intent_clause P)
            (split_rx (re ''%b(?:ama|fakat|ancak|but)%b|[,;.!?%n]'') (fold_text P message))
            \<lparr>is_categories = [], is_rejected = [], is_parts = []\<rparr>;
          positiveText = join [32] (is_parts st);
          states = fold (\<lambda>c m. if map_of m c = None then AList.update c True m else m)
            (requested_categories P positiveText) (is_categories st)
      in \<lparr>ct_positiveText = positiveText,
          ct_requested = map fst (filter snd states),
          ct_excluded = map fst (filter (\<lambda>s. \<not> snd s) states),
          ct_rejected = is_rejected st\<rparr>)"

section \<open>The categories of an intent\<close>

abbreviation known_categories :: "jstr list \<Rightarrow> bool" where
  "known_categories cs \<equiv> set cs \<subseteq> set CATEGORIES"

lemma fold_preserves:
  assumes "P s" and "\<And>x s. x \<in> set xs \<Longrightarrow> P s \<Longrightarrow> P (f x s)"
  shows "P (fold f xs s)"
  using assms by (induction xs arbitrary: s) auto


lemma rejection_terms_known:
  "\<forall>t \<in> set rejection_terms. case snd (snd t) of Some c \<Rightarrow> tr c \<in> set CATEGORIES | None \<Rightarrow> True"
  by code_simp

lemma category_patterns_known: "\<forall>c \<in> set category_patterns. tr (fst c) \<in> set CATEGORIES"
  by code_simp

lemma reject_term_known:
  assumes "(name, source, category) \<in> set rejection_terms" and "known_categories (rj_excluded st)"
  shows "known_categories (rj_excluded (reject_term name category st))"
  using assms bspec[OF rejection_terms_known assms(1)]
  by (cases category) (simp_all add: reject_term_def)

lemma fst_of_cut:
  "Q (rj_excluded (fst x)) \<Longrightarrow>
     Q (rj_excluded (fst (case x of (st, Some f) \<Rightarrow> (st, g f) | (st, None) \<Rightarrow> (st, c))))"
  by (cases x; cases "snd x") simp_all

lemma mask_suffix_known:
  assumes "known_categories (rj_excluded st)"
  shows "known_categories (rj_excluded (fst (mask_suffix clause st)))"
proof -
  have "known_categories (rj_excluded (fst (fold (suffix_term c k) rejection_terms (st, None))))" for c k
  proof (rule fold_preserves[where P = "\<lambda>a. known_categories (rj_excluded (fst a))"])
    fix t and a :: "rejection \<times> nat option"
    assume "t \<in> set rejection_terms" and a: "known_categories (rj_excluded (fst a))"
    moreover obtain name source category where t: "t = (name, source, category)" by (rule prod_cases3)
    ultimately have "known_categories (rj_excluded (reject_term name category (fst a)))"
      using reject_term_known by blast
    then show "known_categories (rj_excluded (fst (suffix_term c k t a)))"
      using a by (simp add: t suffix_term_def Let_def split: option.split)
  qed (simp add: assms)
  note folded = this
  show ?thesis
  proof (cases "exec (re suffix_rx) clause")
    case (Some m)
    show ?thesis
      unfolding mask_suffix_def Some option.case Let_def by (rule fst_of_cut) (rule folded)
  qed (simp add: mask_suffix_def assms)
qed

lemma mask_english_list_known:
  assumes "known_categories (rj_excluded (fst sm))"
  shows "known_categories (rj_excluded (fst (mask_english_list sm)))"
proof -
  have "known_categories (rj_excluded (fold (english_term c) rejection_terms (fst sm)))" for c
  proof (rule fold_preserves[where P = "\<lambda>a. known_categories (rj_excluded a)"])
    fix t and a :: rejection
    assume "t \<in> set rejection_terms" and a: "known_categories (rj_excluded a)"
    moreover obtain name source category where t: "t = (name, source, category)" by (rule prod_cases3)
    ultimately have "known_categories (rj_excluded (reject_term name category a))"
      using reject_term_known by blast
    then show "known_categories (rj_excluded (english_term c t a))"
      using a by (simp add: t english_term_def)
  qed (rule assms)
  then show ?thesis by (simp add: mask_english_list_def assms split: option.split)
qed

lemma mask_prefixed_known:
  assumes "known_categories (rj_excluded (fst sm))"
  shows "known_categories (rj_excluded (fst (fold mask_prefixed rejection_terms sm)))"
proof (rule fold_preserves[where P = "\<lambda>a. known_categories (rj_excluded (fst a))"])
  fix t and a :: "rejection \<times> jstr"
  assume "t \<in> set rejection_terms" and a: "known_categories (rj_excluded (fst a))"
  moreover obtain name source category where t: "t = (name, source, category)" by (rule prod_cases3)
  ultimately have "known_categories (rj_excluded (reject_term name category (fst a)))"
    using reject_term_known by blast
  then show "known_categories (rj_excluded (fst (mask_prefixed t a)))"
    using a by (simp add: t mask_prefixed_def Let_def)
qed (rule assms)

lemma analyse_clause_known:
  "known_categories (rj_excluded st) \<Longrightarrow> known_categories (rj_excluded (analyse_clause clause st))"
  using mask_prefixed_known[OF mask_english_list_known[OF mask_suffix_known], of st clause]
  by (simp add: analyse_clause_def split_beta)

lemma rejection_analysis_known: "known_categories (rj_excluded (rejection_analysis P message))"
  unfolding rejection_analysis_def
  by (rule fold_preserves[where P = "\<lambda>a. known_categories (rj_excluded a)"])
     (simp_all only: analyse_clause_known, simp add: no_rejection_def)

lemma requested_categories_known: "known_categories (requested_categories P message)"
  using bspec[OF category_patterns_known] stated_formats_known(7)
  by (auto simp del: tr.simps simp: requested_categories_def Let_def)

definition states_ok :: "(jstr \<times> bool) list \<Rightarrow> bool" where
  "states_ok m \<longleftrightarrow> distinct (keys m) \<and> known_categories (keys m)"

lemma states_ok_update:
  "states_ok m \<Longrightarrow> c \<in> set CATEGORIES \<Longrightarrow> states_ok (AList.update c b m)"
  using set_AList_update[of c b m] by (fastforce simp: states_ok_def distinct_update)

lemma states_ok_updates:
  "states_ok m \<Longrightarrow> known_categories cs \<Longrightarrow> states_ok (fold (\<lambda>c. AList.update c b) cs m)"
  by (induction cs arbitrary: m) (simp_all add: states_ok_update)

lemma intent_clause_ok:
  "states_ok (is_categories st) \<Longrightarrow> states_ok (is_categories (intent_clause P clause st))"
  by (simp add: intent_clause_def Let_def states_ok_updates rejection_analysis_known
      requested_categories_known)

lemma intent_states_ok:
  "states_ok (is_categories (fold (intent_clause P) clauses
     \<lparr>is_categories = [], is_rejected = [], is_parts = []\<rparr>))"
  by (rule fold_preserves[where P = "\<lambda>st. states_ok (is_categories st)"])
     (simp_all add: intent_clause_ok, simp add: states_ok_def)

lemma late_states_ok:
  "states_ok m \<Longrightarrow> known_categories cs \<Longrightarrow>
     states_ok (fold (\<lambda>c m. if map_of m c = None then AList.update c True m else m) cs m)"
  by (induction cs arbitrary: m) (simp_all add: states_ok_update)

lemma states_split:
  assumes "states_ok m"
  shows "distinct (map fst (filter snd m) @ map fst (filter (\<lambda>s. \<not> snd s) m))"
    and "known_categories (map fst (filter snd m) @ map fst (filter (\<lambda>s. \<not> snd s) m))"
proof -
  have d: "distinct (map fst m)" and k: "known_categories (map fst m)"
    using assms by (simp_all add: states_ok_def)
  have "fst p \<noteq> fst q" if "p \<in> set m" "snd p" "q \<in> set m" "\<not> snd q" for p q
    using that d by (metis eq_key_imp_eq_value prod.collapse)
  then have "set (map fst (filter snd m)) \<inter> set (map fst (filter (\<lambda>s. \<not> snd s) m)) = {}" by fastforce
  then show "distinct (map fst (filter snd m) @ map fst (filter (\<lambda>s. \<not> snd s) m))"
    using d by (simp add: distinct_map_filter)
  show "known_categories (map fst (filter snd m) @ map fst (filter (\<lambda>s. \<not> snd s) m))"
    using k by auto
qed

lemma category_intent_categories:
  "distinct (ct_requested (category_intent_of P message) @ ct_excluded (category_intent_of P message))"
  "known_categories (ct_requested (category_intent_of P message) @ ct_excluded (category_intent_of P message))"
  unfolding category_intent_of_def Let_def category_intent.select_convs
  by (rule states_split, rule late_states_ok, rule intent_states_ok, rule requested_categories_known)+

end
