(* ===== verification/Constraints.thy ===== *)
theory Constraints
  imports Intent Eligibility
begin

text \<open>
  \<open>web/lib/search.ts\<close>, the part that reads the user's text: the category, budget, party, district,
  time and date that a message states, whether a constraint is ambiguous, and
  \<open>interpretConstraints\<close>, which returns the new filters or the issue.
\<close>

section \<open>The text of the constraints\<close>

definition quotation_rx :: string where
  "quotation_rx = ''(?:~q[^~q]*~q|~l[^~r]*~r|~([^~)]*~)|~d[^~d]*~d)''"

definition constraint_text :: "platform \<Rightarrow> jstr \<Rightarrow> jstr" where
  "constraint_text P message =
     (let t = fold_text P message
      in if test (re ''%b(?:aciklama(?:da|sinda)?|description|metin|text|alinti|quote)%b'') t
            \<and> test (re ''%b(?:talimat|instruction|veri|data)%b'') t
         then replace_all (re quotation_rx) [32] t else t)"

datatype constraint_issue =
  Budget_ambiguous | Date_ambiguous | Unsupported_location | Constraint_ambiguous

section \<open>Categories\<close>

definition is_exclusive_category_choice :: "platform \<Rightarrow> jstr \<Rightarrow> jstr \<Rightarrow> bool" where
  "is_exclusive_category_choice P t category \<longleftrightarrow>
     list_ex (\<lambda>m. category \<in> set (ct_requested (category_intent_of P (or_empty (group m 1)))))
       (match_all (re ''%b(?:sadece|yalniz|only)%b([^,.!?;%n]*)'') t)"

record parsed_categories =
  pg_category :: "jstr option"
  pg_categories :: "jstr list option"
  pg_excluded :: "jstr list"
  pg_ambiguous :: bool

definition any_category_rx :: string where
  "any_category_rx = ''her (?:tur|kategori)|kategori.*(?:kaldir|fark etmez|onemli degil)''"

definition parse_categories :: "platform \<Rightarrow> jstr \<Rightarrow> filters \<Rightarrow> parsed_categories" where
  "parse_categories P q previous =
     (if test (re any_category_rx) q
      then \<lparr>pg_category = None, pg_categories = None, pg_excluded = [], pg_ambiguous = False\<rparr>
      else
        let interpreted = category_intent_of P q;
            negated = ct_excluded interpreted;
            kept = (case fl_category previous of
                      Some c \<Rightarrow> if c \<in> set negated then None else Some c | None \<Rightarrow> None);
            excluded = fold set_add negated
              (uniq (case fl_excludedCategories previous of Some cs \<Rightarrow> cs | None \<Rightarrow> []));
            asked = ct_requested interpreted;
            hasChoice = test (re ''%b(?:veya|ya da|yahut|or)%b'') (ct_positiveText interpreted);
            (category, remaining) = (case asked of
               [c] \<Rightarrow> (Some c, if is_exclusive_category_choice P (ct_positiveText interpreted) c then []
                              else removeAll c excluded)
             | _ \<Rightarrow> (kept, excluded))
        in \<lparr>pg_category = category,
            pg_categories = (if length asked > 1 \<and> hasChoice then Some asked else None),
            pg_excluded = remaining,
            pg_ambiguous = (length asked > 1 \<and> \<not> hasChoice \<and> negated = [])\<rparr>)"

section \<open>The party\<close>

definition number_words :: "(string \<times> int) list" where
  "number_words = [
     (''bir'', 1), (''iki'', 2), (''uc'', 3), (''dort'', 4), (''bes'', 5), (''alti'', 6),
     (''yedi'', 7), (''sekiz'', 8), (''dokuz'', 9), (''on'', 10), (''one'', 1), (''two'', 2),
     (''three'', 3), (''four'', 4), (''five'', 5), (''six'', 6), (''seven'', 7), (''eight'', 8),
     (''nine'', 9), (''ten'', 10)]"

definition word_value :: "(string \<times> int) list \<Rightarrow> jstr \<Rightarrow> int option" where
  "word_value table w = map_of (map (\<lambda>e. (u (fst e), snd e)) table) w"

definition counted_people_rx :: string where
  "counted_people_rx = ''%b([1-9]%d?)%s*(?:kisi(?:yiz|lik)?|people|persons?|of us)%b''"

definition worded_people_rx :: string where
  "worded_people_rx =
     ''%b(bir|iki|uc|dort|bes|alti|yedi|sekiz|dokuz|on|one|two|three|four|five|six|seven|eigh'' @
     ''t|nine|ten)%s+(?:kisi(?:yiz|lik)?|people|persons?|of us)%b''"

definition companion_absent_rx :: string where
  "companion_absent_rx =
     ''%b(?:without|excluding|not with|never with)%s+(?:my%s+)?(?:girlfriend|boyfriend|wife|h'' @
     ''usband|partner|date)%b|%b(?:do not|don~qt|dont)%b[^.!?]{0,32}%b(?:go|attend|join)[^.!?'' @
     '']{0,24}%bwith%s+(?:my%s+)?(?:girlfriend|boyfriend|wife|husband|partner|date)%b|%b(?:my'' @
     ''%s+)?(?:girlfriend|boyfriend|wife|husband|partner|date)%b[^.!?]{0,24}%b(?:is not|isn~q'' @
     ''t|not)%s+(?:coming|attending|joining)%b|%b(?:broke|broken)%s+up%s+with%s+(?:my%s+)?(?:'' @
     ''girlfriend|boyfriend|wife|husband|partner|date)%b|%b(?:sevgilim|partnerim|esim|kiz ark'' @
     ''adasim|erkek arkadasim)%b[^.!?]{0,24}%b(?:gelmiyor|katilmiyor|gelemeyecek)%b|%b(?:sevg'' @
     ''ilim|partnerim|esim|kiz arkadasim|erkek arkadasim)%s+olmadan%b|%b(?:sevgilimle|partner'' @
     ''imle|esimle|kiz arkadasimla|erkek arkadasimla)%b[^.!?]{0,24}%b(?:ayrildik|kavga ettim)'' @
     ''%b''"

definition extra_companions_rx :: string where
  "extra_companions_rx =
     ''%b(?:and|plus)%s+(?:(?:[1-9]%d?|one|two|three|four|five|six|seven|eight|nine|ten)%s+)?'' @
     ''(?:my%s+)?friends?%b|%bve%s+(?:(?:[1-9]%d?|bir|iki|uc|dort|bes|alti|yedi|sekiz|dokuz|o'' @
     ''n)%s+)?(?:arkadasimla|arkadaslarimla)%b''"

definition companion_rx :: string where
  "companion_rx =
     ''%b(?:with|together with)%s+(?:my%s+)?(?:girlfriend|boyfriend|wife|husband|partner)%b|'' @
     ''%b(?:with|together with)%s+my%s+date%b|%b(?:sevgilimle|partnerimle|esimle|kiz arkadasi'' @
     ''mla|erkek arkadasimla)%b''"

definition party_size :: "jstr \<Rightarrow> int option" where
  "party_size q =
     (case exec (re ''%b(ikimiz|ucumuz|dordumuz|both of us)%b'') q of
        Some m \<Rightarrow>
          word_value [(''ikimiz'', 2), (''ucumuz'', 3), (''dordumuz'', 4), (''both of us'', 2)]
            (or_empty (group m 1))
      | None \<Rightarrow>
          (case exec (re counted_people_rx) q of
             Some m \<Rightarrow> Some (int (digits_value (or_empty (group m 1))))
           | None \<Rightarrow>
               (case exec (re worded_people_rx) q of
                  Some m \<Rightarrow> word_value number_words (or_empty (group m 1))
                | None \<Rightarrow>
                    if test (re companion_rx) q \<and> \<not> test (re companion_absent_rx) q
                       \<and> \<not> test (re extra_companions_rx) q
                    then Some 2 else None)))"

section \<open>The budget\<close>

definition exclusive_after_rx :: string where
  "exclusive_after_rx = ''^%s*(?:[~q~r]?(?:den|dan|nin))?%s*(?:daha%s+)?(?:az|alti|altinda)%b''"

definition lower_after_rx :: string where
  "lower_after_rx =
     ''^%s*(?:[~q~r]?(?:den|dan|nin))?%s*(?:daha%s+)?(?:az|alti|altinda)%s+degil%b''"

text \<open>The text around a match, at most so many units of it.\<close>

definition text_before :: "nat \<Rightarrow> rx_match \<Rightarrow> jstr" where
  "text_before n m = rev (take n (rm_before m))"

definition is_unsupported_lower_budget :: "rx_match \<Rightarrow> bool" where
  "is_unsupported_lower_budget money \<longleftrightarrow>
     test (re ''%b(?:not%s+(?:under|below)|no%s+less than)%s*$'') (text_before 32 money)
     \<or> test (re lower_after_rx) (take 32 (rm_after money))"

definition is_exclusive_budget :: "rx_match \<Rightarrow> bool" where
  "is_exclusive_budget money \<longleftrightarrow>
     \<not> is_unsupported_lower_budget money
     \<and> (test (re ''%b(?:under|below|less than)%s*$'') (text_before 24 money)
        \<or> test (re exclusive_after_rx) (take 24 (rm_after money)))"

text \<open>
  \<open>Number\<close> on a text of digits, points and commas: an empty text is zero, at most one point may
  stand in it, and it needs a digit.
\<close>

definition decimal_number :: "jstr \<Rightarrow> jnum" where
  "decimal_number s =
     (if s = [] then Fin 0
      else case split_on 46 s of
             [a] \<Rightarrow> if list_all is_digit_unit a then Fin (of_nat (digits_value a)) else NaN
           | [a, b] \<Rightarrow>
               if list_all is_digit_unit (a @ b) \<and> a @ b \<noteq> []
               then Fin (of_nat (digits_value (a @ b)) / 10 ^ length b) else NaN
           | _ \<Rightarrow> NaN)"

definition parse_money_amount :: "jstr \<Rightarrow> jnum" where
  "parse_money_amount raw =
     (let numeric = replace_first (re ''%s*(?:tl|try|turkish liras?|lira|~t).*$'') []
            (replace_first (re ''^~t%s*'') [] raw)
      in decimal_number
           (if test (re '',%d{3}(?:%D|$)'') numeric then removeAll 44 numeric
            else replace_first (L '','') (u ''.'') (removeAll 46 numeric)))"

definition free_waived_rx :: string where
  "free_waived_rx =
     ''(?:ucretsiz|bedava)[^.!?]{0,32}(?:sart degil|zorunlu degil|gerekli degil|gerekmez|gere'' @
     ''kmiyor)''"

definition no_budget_rx :: string where
  "no_budget_rx =
     ''butce(?:yi)?.*(?:yok|sinir.*yok|kaldir|bosver)|fiyat.*(?:onemli degil|fark etmez)|para'' @
     ''%s+sinir(?:i|ini)?%s+(?:kaldir|olmasin)%b|(?:no budget limit|without a budget limit)|b'' @
     ''utcesiz''"

definition currency_amount_rx :: string where
  "currency_amount_rx =
     ''(?:~t%s*%d[%d.,]*|%d[%d.,]*%s*(?:tl|try|turkish liras?|lira|~t))(?=%s|$|[.,!?~d~q~r])''"

definition bare_budget_rx :: string where
  "bare_budget_rx =
     ''%bbutce(?:m|miz)?%s*(%d[%d.,]*)|%b(?:bilet|fiyat)[^.!?]{0,24}?(%d[%d.,]*)[~q~r]?(?:yi|'' @
     ''i)?%s+(?:asmasin|gecmesin)''"

definition total_rx :: string where
  "total_rx =
     ''%b(?:toplam(?=%b|%d)|toplamda%b|butun grup%b|hepimiz icin%b|total%b|altogether%b|for ('' @
     ''?:the )?(?:whole )?group%b)''"

definition budget_amounts :: "jstr \<Rightarrow> jstr list" where
  "budget_amounts q =
     (case match_all (re currency_amount_rx) q of
        [] \<Rightarrow>
          (case exec (re bare_budget_rx) q of
             Some m \<Rightarrow> [case group m 1 of Some a \<Rightarrow> a | None \<Rightarrow> or_empty (group m 2)]
           | None \<Rightarrow> [])
      | ms \<Rightarrow> map rm_text ms)"

definition budget_issue :: "jstr \<Rightarrow> filters \<Rightarrow> constraint_issue option" where
  "budget_issue q previous =
     (let amounts = budget_amounts q;
          total = test (re total_rx) q;
          perPerson = test (re ''%b(?:kisi basi|per[ -]?person|each|per ticket)%b'') q;
          hasParty = (party_size q \<noteq> None)
      in if test (re no_budget_rx) q
            \<or> (\<not> test (re free_waived_rx) q \<and> test (re ''ucretsiz|bedava'') q) then None
         else if test (re ''%bbutce(?:m|miz)?%s*-%s*%d'') q then Some Budget_ambiguous
         else if amounts = [] \<and> hasParty
                 \<and> test (re ''%b(?:toplam(?=%b|%d)|toplamda%b|total%b|altogether%b)'') q
                 \<and> test (re ''%b(?:ayni|same)%b'') q
         then if fl_totalBudget previous \<noteq> None then None else Some Budget_ambiguous
         else
           case amounts of
             [] \<Rightarrow> None
           | [a] \<Rightarrow>
               if (case match_all (re currency_amount_rx) q of
                     [m] \<Rightarrow> is_unsupported_lower_budget m | _ \<Rightarrow> False) then Some Constraint_ambiguous
               else if (case parse_money_amount a of
                          Fin r \<Rightarrow> r < 0 \<or> r > 100000 | _ \<Rightarrow> True) then Some Budget_ambiguous
               else if test (re ''-%s*%d[%d.]*(?:,%d{1,2})?%s*(?:tl|lira|~t)'') q
               then Some Budget_ambiguous
               else if total \<and> perPerson then Some Budget_ambiguous
               else if total
               then if hasParty \<or> fl_partySize previous \<noteq> None then None else Some Budget_ambiguous
               else if hasParty \<and> \<not> perPerson then Some Budget_ambiguous
               else None
           | _ \<Rightarrow> Some Budget_ambiguous)"

section \<open>The district\<close>

text \<open>
  \<open>displayDistrict\<close> on the names of the table, which are ASCII: the first letter of every word in
  the Turkish upper case.
\<close>

definition turkish_upper_unit :: "nat \<Rightarrow> nat" where
  "turkish_upper_unit c = (if c = 105 then 304 else if is_lower_unit c then c - 32 else c)"

definition display_district :: "jstr \<Rightarrow> jstr" where
  "display_district d = replace_with (re ''%b%p{L}'') (\<lambda>m. map turkish_upper_unit (rm_text m)) d"

definition district_mention_rx :: "string \<Rightarrow> rx" where
  "district_mention_rx name =
     re (''%b'' @ name @ ''(?=%b|[~q~r]?(?:da|de|ta|te|dan|den|tan|ten)%b)'')"

definition district_negated :: "rx_match \<Rightarrow> bool" where
  "district_negated m \<longleftrightarrow>
     test (re ''^(?:[~q~r]?[a-z]{0,8})?%s*(?:degil|olmasin|haric|disinda|istemiyorum|istemem)%b'')
       (take 32 (rm_after m))"

record parsed_district =
  pd_district :: "jstr option"
  pd_ambiguous :: bool
  pd_negativeOnly :: bool

text \<open>\<open>some\<close> stops at the first mention that is not negated.\<close>

definition parsed_district_of :: "jstr \<Rightarrow> parsed_district" where
  "parsed_district_of q =
     (let mentions = map (\<lambda>name. (name, match_all (district_mention_rx name) q)) contract_districts;
          hasNegative = list_ex (\<lambda>e. takeWhile district_negated (snd e) \<noteq> []) mentions;
          positive = map fst (filter (\<lambda>e. list_ex (\<lambda>m. \<not> district_negated m) (snd e)) mentions)
      in \<lparr>pd_district = (case positive of [d] \<Rightarrow> Some (display_district (u d)) | _ \<Rightarrow> None),
          pd_ambiguous = (length positive > 1),
          pd_negativeOnly = (hasNegative \<and> positive = [])\<rparr>)"

section \<open>Clock times\<close>

definition local_clock :: string where
  "local_clock = ''(?:[01]?%d|2[0-3])(?:[:.]?[0-5]%d)''"

definition clock_suffix_rx :: string where
  "clock_suffix_rx =
     ''%b(?:saat%s*)?'' @ local_clock @ ''[~q~r]?(?:dan|den|tan|ten)%s+(?:sonra|once)%b''"

definition clock_prefix_rx :: string where
  "clock_prefix_rx =
     ''%b(?:after|before|once|until|by|sonra|itibaren|from)%s+(?:saat%s*)?'' @ local_clock @ ''%b''"

definition without_recognized_local_times :: "jstr \<Rightarrow> jstr" where
  "without_recognized_local_times q =
     replace_all (re clock_prefix_rx) [32] (replace_all (re clock_suffix_rx) [32] q)"

definition pad_start2 :: "jstr \<Rightarrow> jstr" where
  "pad_start2 s = replicate (2 - length s) 48 @ s"

text \<open>
  The wall-clock time of a match: \<open>raw.replace('.', ':')\<close>, its hour and minute, and the hour of
  the meridiem.
\<close>

definition format_time :: "jstr \<Rightarrow> jstr option \<Rightarrow> jstr" where
  "format_time raw meridiem =
     (let digits = replace_first (L ''.'') (u '':'') raw;
          (initialHour, minute) =
            (case split_on 58 digits of
               h # m # _ \<Rightarrow> (h, m)
             | _ \<Rightarrow> if list_all is_digit_unit digits \<and> (length digits = 3 \<or> length digits = 4)
                    then (take (length digits - 2) digits, drop (length digits - 2) digits)
                    else (digits, u ''00''));
          hour = (case meridiem of
                    None \<Rightarrow> initialHour
                  | Some half \<Rightarrow>
                      if half = [] then initialHour
                      else
                        let n = digits_value initialHour
                        in nat_digits (if half = u ''pm'' then n mod 12 + 12 else if n = 12 then 0 else n))
      in pad_start2 hour @ u '':'' @ minute)"

definition from_rx :: string where
  "from_rx =
     ''%b(after|sonra|itibaren|from)%s+(?:saat%s*)?('' @ local_clock @ '')(?:%s*(am|pm))?%b''"

definition from_meridiem_rx :: string where
  "from_meridiem_rx = ''%b(after|from)%s+([1-9]|1[0-2])%s*(am|pm)%b''"

definition from_prefix_rx :: string where
  "from_prefix_rx =
     ''%b(?:saat%s*)?('' @ local_clock @ '')[~q~r]?(?:dan|den|tan|ten)%s+sonra%b''"

definition evening_from_rx :: string where
  "evening_from_rx = ''%b(?:aksam|gece)%s+([1-9]|1[01])[~q~r]?(?:dan|den|tan|ten)%s+sonra%b''"

definition to_rx :: string where
  "to_rx = ''%b(before|once|until|by)%s+(?:saat%s*)?('' @ local_clock @ '')(?:%s*(am|pm))?%b''"

definition to_meridiem_rx :: string where
  "to_meridiem_rx = ''%b(before|until|by)%s+([1-9]|1[0-2])%s*(am|pm)%b''"

definition to_prefix_rx :: string where
  "to_prefix_rx =
     ''%b(?:saat%s*)?('' @ local_clock @ '')[~q~r]?(?:dan|den|tan|ten)%s+once%b''"

text \<open>\<open>a && (!b || a.index <= b.index)\<close>: the first match is there and stands no later.\<close>

definition stands_first :: "rx_match option \<Rightarrow> rx_match option \<Rightarrow> bool" where
  "stands_first a b \<longleftrightarrow>
     (case a of
        None \<Rightarrow> False
      | Some m \<Rightarrow> (case b of Some n \<Rightarrow> rm_index m \<le> rm_index n | None \<Rightarrow> True))"

definition group_of :: "rx_match option \<Rightarrow> nat \<Rightarrow> jstr option" where
  "group_of m k = (case m of Some n \<Rightarrow> group n k | None \<Rightarrow> None)"

record local_times =
  lt_from :: "(jstr \<times> bool) option"
  lt_to :: "(jstr \<times> bool) option"

text \<open>Each bound with whether it is strict.\<close>

definition parse_local_times :: "jstr \<Rightarrow> local_times" where
  "parse_local_times q =
     (let from = exec (re from_rx) q;
          fromMeridiem = exec (re from_meridiem_rx) q;
          fromPrefix = exec (re from_prefix_rx) q;
          eveningFrom = exec (re evening_from_rx) q;
          until = exec (re to_rx) q;
          toMeridiem = exec (re to_meridiem_rx) q;
          toPrefix = exec (re to_prefix_rx) q;
          evening = stands_first eveningFrom fromPrefix;
          chosenFromPrefix = (if evening then eveningFrom else fromPrefix);
          fromUsesPrefix = stands_first chosenFromPrefix from;
          toUsesPrefix = stands_first toPrefix until;
          chosenFrom = (if stands_first fromMeridiem from then fromMeridiem else from);
          chosenTo = (if stands_first toMeridiem until then toMeridiem else until);
          fromMatch = or_empty
            (if fromUsesPrefix
             then if evening
                  then map_option (\<lambda>h. nat_digits (digits_value h + 12)) (group_of chosenFromPrefix 1)
                  else group_of chosenFromPrefix 1
             else group_of chosenFrom 2);
          toMatch = or_empty (if toUsesPrefix then group_of toPrefix 1 else group_of chosenTo 2)
      in \<lparr>lt_from =
            (if fromMatch = [] then None
             else Some (format_time fromMatch (if fromUsesPrefix then None else group_of chosenFrom 3),
                        fromUsesPrefix
                        \<or> test (re ''%b(?:after|sonra)%b'') (or_empty (group_of chosenFrom 1)))),
          lt_to =
            (if toMatch = [] then None
             else Some (format_time toMatch (if toUsesPrefix then None else group_of chosenTo 3),
                        toUsesPrefix
                        \<or> test (re ''%b(?:before|once)%b'') (or_empty (group_of chosenTo 1))))\<rparr>)"

section \<open>Other cities\<close>

definition other_cities :: "string list" where
  "other_cities = [
     ''adana'', ''adiyaman'', ''afyon'', ''afyonkarahisar'', ''agri'', ''aksaray'', ''amasya'',
     ''ankara'', ''antalya'', ''ardahan'', ''artvin'', ''aydin'', ''balikesir'', ''bartin'',
     ''batman'', ''bayburt'', ''bilecik'', ''bingol'', ''bitlis'', ''bolu'', ''burdur'', ''bursa'',
     ''canakkale'', ''cankiri'', ''corum'', ''denizli'', ''diyarbakir'', ''duzce'', ''edirne'',
     ''elazig'', ''erzincan'', ''erzurum'', ''eskisehir'', ''gaziantep'', ''giresun'', ''gumushane'',
     ''hakkari'', ''hatay'', ''igdir'', ''isparta'', ''izmir'', ''kahramanmaras'', ''karabuk'',
     ''karaman'', ''kars'', ''kastamonu'', ''kayseri'', ''kilis'', ''kirikkale'', ''kirklareli'',
     ''kirsehir'', ''kocaeli'', ''konya'', ''kutahya'', ''malatya'', ''manisa'', ''maras'', ''mardin'',
     ''mersin'', ''mugla'', ''mus'', ''nevsehir'', ''nigde'', ''ordu'', ''osmaniye'', ''rize'',
     ''sakarya'', ''samsun'', ''siirt'', ''sinop'', ''sivas'', ''sanliurfa'', ''sirnak'', ''tekirdag'',
     ''tokat'', ''trabzon'', ''tunceli'', ''urfa'', ''usak'', ''van'', ''yalova'', ''yozgat'',
     ''zonguldak'']"

definition city_requested :: "string \<Rightarrow> rx_match \<Rightarrow> bool" where
  "city_requested city m \<longleftrightarrow>
     (let after = take 24 (rm_after m)
      in \<not> (city = ''van'' \<and> test (re ''^%s+gogh%b'') after)
         \<and> \<not> test (re ''^(?:[~q~r]?[a-z]{0,5})?%s*(?:degil|haric|disinda|istemiyorum)%b'') after
         \<and> \<not> test (re ''(?:degil|haric|disinda)%s*$'') (text_before 14 m))"

definition unsupported_location :: "jstr \<Rightarrow> bool" where
  "unsupported_location q \<longleftrightarrow>
     list_ex (\<lambda>city. list_ex (city_requested city) (match_all (seqs [Wordb, L city, Wordb]) q))
       other_cities"

section \<open>Dates\<close>

definition recognized_date_token :: string where
  "recognized_date_token =
     ''(?:hafta sonu|haftasonu|(?:this )?weekend|yarin|tomorrow|bugun|today|tonight|pazartesi'' @
     ''|monday|sali|tuesday|carsamba|wednesday|persembe|thursday|cuma|friday|cumartesi'' @
     ''|saturday|pazar|sunday)''"

text \<open>The text without the dates that the message rejects, and whether there were any.\<close>

definition mask_negated_recognized_dates :: "jstr \<Rightarrow> jstr \<times> bool" where
  "mask_negated_recognized_dates q =
     (let front = re (''%bnot%s+'' @ recognized_date_token @ ''%b'');
          back = re (''%b'' @ recognized_date_token @ ''%s+(?:degil|not)%b'');
          masked = replace_all front [32] q
      in (replace_all back [32] masked, test front q \<or> test back masked))"

text \<open>
  The second pattern of the source doubles its backslashes, so it asks for a literal backslash;
  its other alternatives are covered by the first pattern.
\<close>

definition has_recognized_date :: "jstr \<Rightarrow> bool" where
  "has_recognized_date q \<longleftrightarrow>
     test (re (''%b'' @ recognized_date_token @ ''%b'')) q
     \<or> test (re ''hafta sonu|haftasonu|%%b(?:this )?weekend%%b'') q"

definition bare_hour_rx :: string where
  "bare_hour_rx =
     ''%b(?:saat%s*)?(?:[1-9]|1[0-2])[~q~r]?(?:dan|den|tan|ten)%s+(?:sonra|once)%b''"

definition has_ambiguous_bare_hour_bound :: "jstr \<Rightarrow> bool" where
  "has_ambiguous_bare_hour_bound q \<longleftrightarrow>
     list_ex (\<lambda>m. \<not> test (re ''%b(?:aksam|gece)%s*$'') (text_before 12 m)
                 \<and> \<not> test (re ''^%s*(?:am|pm)%b'') (take 4 (rm_after m)))
       (match_all (re bare_hour_rx) q)"

definition month_numbers :: "(string \<times> int) list" where
  "month_numbers = [
     (''ocak'', 1), (''january'', 1), (''subat'', 2), (''february'', 2), (''mart'', 3), (''march'', 3),
     (''nisan'', 4), (''april'', 4), (''mayis'', 5), (''may'', 5), (''haziran'', 6), (''june'', 6),
     (''temmuz'', 7), (''july'', 7), (''agustos'', 8), (''august'', 8), (''eylul'', 9),
     (''september'', 9), (''ekim'', 10), (''october'', 10), (''kasim'', 11), (''november'', 11),
     (''aralik'', 12), (''december'', 12)]"

definition month_names :: string where
  "month_names = tl (concat (map (\<lambda>e. CHR ''|'' # fst e) month_numbers))"

definition date_text :: "nat \<Rightarrow> int \<Rightarrow> nat \<Rightarrow> jstr" where
  "date_text year month day =
     nat_digits year @ u ''-'' @ pad_start2 (int_digits month) @ u ''-'' @ pad_start2 (nat_digits day)"

definition day_first_rx :: string where
  "day_first_rx = ''%b(%d{1,2})%s+('' @ month_names @ '')(?:%s+(%d{4}))?%b''"

definition month_first_rx :: string where
  "month_first_rx = ''%b('' @ month_names @ '')%s+(%d{1,2})(?:,?%s+(%d{4}))?%b''"

definition is_day :: "jstr \<Rightarrow> bool" where
  "is_day s \<longleftrightarrow> valid_day (JStr s)"

definition named_month_date :: "jstr \<Rightarrow> jstr \<Rightarrow> jstr option" where
  "named_month_date q today =
     (let dayFirst = exec (re day_first_rx) q
      in case (if dayFirst \<noteq> None then dayFirst else exec (re month_first_rx) q) of
           None \<Rightarrow> None
         | Some m \<Rightarrow>
             let day = digits_value (or_empty (group m (if dayFirst \<noteq> None then 1 else 2)));
                 name = or_empty (group m (if dayFirst \<noteq> None then 2 else 1));
                 year = digits_value (case group m 3 of Some y \<Rightarrow> y | None \<Rightarrow> take 4 today);
                 month = (case word_value month_numbers name of Some n \<Rightarrow> n | None \<Rightarrow> 0);
                 candidate = date_text year month day;
                 chosen = (if group m 3 = None \<and> is_day candidate \<and> candidate < today
                           then date_text (year + 1) month day else candidate)
             in if is_day chosen then Some chosen else None)"

definition named_date_like_rx :: string where
  "named_date_like_rx =
     ''%b(?:%d{1,2}%s+(?:'' @ month_names @ '')|(?:'' @ month_names @ '')%s+%d{1,2})%b''"

definition same_date_rx :: string where
  "same_date_rx =
     ''%b(?:ayni (?:tarih(?:te)?|gun(?:de)?)|(?:tarih|gun)[^.!?]{0,48}%b(?:ayni|kalsin|degism'' @
     ''esin)|same (?:date|day)|(?:date|day)[^.!?]{0,48}%b(?:same|unchanged|keep))%b''"

definition date_salient_rx :: string where
  "date_salient_rx =
     ''%b(?:tarih|gun|hafta|haftasonu|ay|ayin|bugun|yarin|pazartesi|sali|carsamba|persembe|cu'' @
     ''ma|cumartesi|pazar)%b''"

definition any_date_rx :: string where
  "any_date_rx = ''tarih.*(?:fark etmez|kaldir)|herhangi bir gun|any date (?:is )?fine''"

definition supported_date_rx :: string where
  "supported_date_rx =
     ''%b(?:bugun|bu aksam|yarin|hafta sonu|haftasonu|bu hafta|pazartesi|sali|carsamba|persem'' @
     ''be|cuma|cumartesi|pazar)%b''"

definition date_issue :: "platform \<Rightarrow> jstr \<Rightarrow> filters \<Rightarrow> int \<Rightarrow> constraint_issue option" where
  "date_issue P message previous now =
     (let (q, hadNegatedDate) = mask_negated_recognized_dates (without_recognized_local_times message);
          iso = map rm_text (match_all (re ''%b%d{4}-%d{2}-%d{2}%b'') q);
          namedDateLike = test (re named_date_like_rx) q;
          sameDate = test (re same_date_rx) q;
          rest = (if sameDate then replace_all (re same_date_rx) [32] q else q)
      in if iso \<noteq> []
         then if length iso \<le> 2 \<and> list_all is_day iso then None else Some Date_ambiguous
         else if test (re ''%b%d{1,2}[./]%d{1,2}(?:[./]%d{2,4})?%b'') q then Some Date_ambiguous
         else if namedDateLike \<and> named_month_date q (today_in_istanbul P now) = None
         then Some Date_ambiguous
         else if test (re ''%bgelecek hafta%b'') q then Some Date_ambiguous
         else if hadNegatedDate \<and> \<not> has_recognized_date q then Some Date_ambiguous
         else if sameDate \<and> or_empty (fl_dateFrom previous) = [] \<and> or_empty (fl_dateTo previous) = []
         then Some Date_ambiguous
         else if namedDateLike
                 \<or> \<not> (test (re date_salient_rx) rest \<or> test (re ''%bbu aksam%b'') rest) then None
         else if test (re any_date_rx) rest then None
         else if test (re supported_date_rx) rest then None else Some Date_ambiguous)"

section \<open>The filters of a message\<close>

text \<open>
  The filters while they are read: the price and the total may hold \<open>NaN\<close> until the final
  validation rejects it.
\<close>

record draft =
  dr_filters :: filters
  dr_price :: "jnum option"
  dr_total :: "jnum option"

definition draft_of :: "filters \<Rightarrow> draft" where
  "draft_of f = \<lparr>dr_filters = f, dr_price = map_option Fin (fl_maxPrice f),
                 dr_total = map_option Fin (fl_totalBudget f)\<rparr>"

definition draft_json :: "draft \<Rightarrow> json" where
  "draft_json d =
     JObj ([(u ''maxPrice'', opt_json JNum (dr_price d)), (u ''totalBudget'', opt_json JNum (dr_total d))]
           @ filters_fields (dr_filters d))"

definition drop_budget_rx :: string where
  "drop_budget_rx =
     ''butce(?:yi)?.*(yok|sinir.*yok|kaldir|bosver)|fiyat.*(onemli degil|fark etmez)|para%s+s'' @
     ''inir(?:i|ini)?%s+(?:kaldir|olmasin)%b|no budget limit|without a budget limit|butcesiz''"

definition same_total_rx :: string where
  "same_total_rx =
     ''%b(?:toplam(?: para| butce)?|total)(?:[^.!?]{0,24})%b(?:ayni|same|degismedi|unchanged)'' @
     ''%b|%b(?:ayni|same|unchanged)%b[^.!?]{0,24}%b(?:toplam|total)%b''"

text \<open>The first of the money patterns that matches.\<close>

definition stated_money :: "jstr \<Rightarrow> rx_match option" where
  "stated_money q =
     (case exec (re ''~t%s*(%d[%d.,]*)'') q of
        Some m \<Rightarrow> Some m
      | None \<Rightarrow>
          (case exec (re ''(%d[%d.,]*)%s*(?:tl|try|turkish liras?|~t|lira)'') q of
             Some m \<Rightarrow> Some m
           | None \<Rightarrow>
               (case exec (re ''butce(?:m|miz)?(?:%s+de)?%s*(%d[%d.,]*)'') q of
                  Some m \<Rightarrow> Some m
                | None \<Rightarrow>
                    exec (re (''(?:bilet|fiyat)[^.!?]{0,24}?(%d[%d.,]*)[~q~r]?(?:yi|i)?%s+'' @
                              ''(?:asmasin|gecmesin)'')) q)))"

definition divided :: "jnum \<Rightarrow> int \<Rightarrow> jnum" where
  "divided amount n = (case amount of Fin r \<Rightarrow> Fin (r / of_int n) | _ \<Rightarrow> amount)"

definition read_money :: "jstr \<Rightarrow> rx_match \<Rightarrow> draft \<Rightarrow> draft" where
  "read_money q money d =
     (let amount = parse_money_amount (or_empty (group money 1));
          f = dr_filters d;
          exclusive = (if is_exclusive_budget money then Some True else None)
      in if test (re total_rx) q
         then
           (case (case party_size q of Some n \<Rightarrow> Some n | None \<Rightarrow> fl_partySize f) of
              Some n \<Rightarrow>
                if n = 0 then d\<lparr>dr_price := Some amount,
                                dr_filters := f\<lparr>fl_maxPriceExclusive := exclusive\<rparr>\<rparr>
                else \<lparr>dr_filters = f\<lparr>fl_partySize := Some n, fl_maxPriceExclusive := exclusive\<rparr>,
                      dr_price = Some (divided amount n), dr_total = Some amount\<rparr>
            | None \<Rightarrow> d\<lparr>dr_price := Some amount,
                        dr_filters := f\<lparr>fl_maxPriceExclusive := exclusive\<rparr>\<rparr>)
         else \<lparr>dr_filters = f\<lparr>fl_partySize := None, fl_maxPriceExclusive := exclusive\<rparr>,
               dr_price = Some amount, dr_total = None\<rparr>)"

definition read_same_total :: "jstr \<Rightarrow> draft \<Rightarrow> draft" where
  "read_same_total q d =
     (case (party_size q, dr_total d) of
        (Some n, Some groupTotal) \<Rightarrow>
          if n \<noteq> 0 \<and> test (re same_total_rx) q
          then d\<lparr>dr_filters := (dr_filters d)\<lparr>fl_partySize := Some n\<rparr>, dr_price := Some (divided groupTotal n)\<rparr>
          else d
      | _ \<Rightarrow> d)"

definition read_budget :: "jstr \<Rightarrow> draft \<Rightarrow> draft" where
  "read_budget q d =
     (if test (re drop_budget_rx) q
      then d\<lparr>dr_filters := (dr_filters d)\<lparr>fl_maxPriceExclusive := None\<rparr>,
             dr_price := None, dr_total := None\<rparr>
      else
        let stated = (case stated_money q of
                        Some m \<Rightarrow> if \<not> is_unsupported_lower_budget m then read_money q m d
                                  else read_same_total q d
                      | None \<Rightarrow> read_same_total q d)
        in if test (re ''ucretsiz|bedava'') q \<and> \<not> test (re free_waived_rx) q
           then \<lparr>dr_filters = (dr_filters stated)\<lparr>fl_maxPriceExclusive := None, fl_partySize := None\<rparr>,
                 dr_price = Some (Fin 0), dr_total = None\<rparr>
           else stated)"

definition read_categories :: "platform \<Rightarrow> jstr \<Rightarrow> filters \<Rightarrow> filters" where
  "read_categories P q f =
     (let parsed = parse_categories P q f
      in f\<lparr>fl_category := pg_category parsed,
           fl_excludedCategories := Some (pg_excluded parsed),
           fl_categories :=
             (case pg_categories parsed of
                Some cs \<Rightarrow> Some cs
              | None \<Rightarrow> if or_empty (pg_category parsed) \<noteq> [] \<or> test (re any_category_rx) q then None
                        else fl_categories f)\<rparr>)"

definition any_place_rx :: string where
  "any_place_rx =
     ''%b(?:(?:mekan|venue)%s+(?:ve|and)%s+(?:tarih|date)|(?:tarih|date)%s+(?:ve|and)%s+(?:me'' @
     ''kan|venue))[^,.!?;]{0,48}%b(?:fark etmez|onemli degil|kaldir|anywhere)%b|%b(?:konum|il'' @
     ''ce|district|location)%b[^,.!?;]{0,80}%b(?:fark etmez|onemli degil|kaldir|anywhere)%b|'' @
     ''%b(?:mekan|venue)%b(?![^,.!?;]*%b(?:tarih|date)%b)[^,.!?;]{0,80}%b(?:fark etmez|onemli'' @
     '' degil|kaldir|anywhere)%b|%banywhere in istanbul%b''"

definition read_district :: "jstr \<Rightarrow> filters \<Rightarrow> filters res" where
  "read_district q f =
     (if test (re any_place_rx) q then Inr (f\<lparr>fl_district := None\<rparr>)
      else
        let parsed = parsed_district_of q
        in if pd_ambiguous parsed then throw ''Ilce secimi belirsiz.''
           else Inr (case pd_district parsed of
                       Some d \<Rightarrow> if d = [] then f else f\<lparr>fl_district := Some d\<rparr> | None \<Rightarrow> f))"

definition read_times :: "jstr \<Rightarrow> filters \<Rightarrow> filters" where
  "read_times q f =
     (if test (re ''%b(?:saat|time).*(?:fark etmez|onemli degil|kaldir|anytime)%b'') q
      then f\<lparr>fl_startTimeFrom := None, fl_startTimeTo := None,
             fl_startTimeFromExclusive := None, fl_startTimeToExclusive := None\<rparr>
      else
        let times = parse_local_times q;
            g = (case lt_from times of
                   Some (t, strict) \<Rightarrow>
                     f\<lparr>fl_startTimeFrom := Some t, fl_startTimeFromExclusive := Some strict\<rparr>
                 | None \<Rightarrow> f)
        in case lt_to times of
             Some (t, strict) \<Rightarrow> g\<lparr>fl_startTimeTo := Some t, fl_startTimeToExclusive := Some strict\<rparr>
           | None \<Rightarrow> g)"

text \<open>\<open>getUTCDay\<close> of a day at noon: Sunday is 0, and 1 January 1970 was a Thursday.\<close>

definition week_day :: "jstr \<Rightarrow> int" where
  "week_day day =
     (case date_parse (day @ u ''T12:00:00Z'') of
        Some t \<Rightarrow> (t div 86400000 + 4) mod 7 | None \<Rightarrow> 0)"

definition weekdays :: "string list" where
  "weekdays = [
     ''(?:pazar|sunday)'', ''(?:pazartesi|monday)'', ''(?:sali|tuesday)'', ''(?:carsamba|wednesday)'',
     ''(?:persembe|thursday)'', ''(?:cuma|friday)'', ''(?:cumartesi|saturday)'']"

definition find_index :: "('a \<Rightarrow> bool) \<Rightarrow> 'a list \<Rightarrow> int option" where
  "find_index p xs =
     (case filter (\<lambda>i. p (xs ! i)) [0..<length xs] of i # is \<Rightarrow> Some (int i) | [] \<Rightarrow> None)"

text \<open>The days a message names, as the first and the last day, or nothing.\<close>

definition weekend_days :: "jstr \<Rightarrow> jstr \<Rightarrow> jstr \<times> jstr" where
  "weekend_days q today =
     (let day = week_day today
      in if test (re ''gelecek|onumuzdeki'') q \<and> day \<ge> 6
         then let delta = (6 - day + 7) mod 7; start = add_days today (if delta = 0 then 7 else delta)
              in (start, add_days start 1)
         else let start = add_days today (if day = 0 then 0 else (6 - day + 7) mod 7)
              in (start, add_days start (if day = 0 then 0 else 1)))"

definition stated_days :: "jstr \<Rightarrow> jstr \<Rightarrow> (jstr \<times> jstr) option" where
  "stated_days q today =
     (let iso = map rm_text (match_all (re ''%b(%d{4}-%d{2}-%d{2})%b'') q)
      in if iso \<noteq> [] \<and> list_all is_day iso
         then Some (hd iso, if length iso > 1 then iso ! 1 else hd iso)
         else map_option (\<lambda>d. (d, d)) (named_month_date q today))"

definition read_dates :: "jstr \<Rightarrow> jstr \<Rightarrow> filters \<Rightarrow> filters" where
  "read_dates q today f =
     (let positive = fst (mask_negated_recognized_dates q);
          between = (\<lambda>(a, b). f\<lparr>fl_dateFrom := Some a, fl_dateTo := Some b\<rparr>)
      in if test (re ''tarih.*(fark etmez|kaldir)|herhangi bir gun|any date (?:is )?fine'') q
         then f\<lparr>fl_dateFrom := None, fl_dateTo := None\<rparr>
         else if test (re ''%b(?:yarin|tomorrow)%b'') positive
         then between (add_days today 1, add_days today 1)
         else if test (re ''%b(?:bugun|bu aksam|today|tonight)%b'') positive then between (today, today)
         else if test (re ''hafta sonu|haftasonu|%b(?:this )?weekend%b'') positive
         then between (weekend_days q today)
         else if test (re ''bu hafta'') positive
         then between (today, add_days today ((7 - week_day today) mod 7))
         else
           case stated_days q today of
             Some days \<Rightarrow> between days
           | None \<Rightarrow>
               (case find_index (\<lambda>d. test (re (''%b'' @ d @ ''%b'')) positive) weekdays of
                  Some i \<Rightarrow>
                    let day = add_days today ((i - week_day today + 7) mod 7) in between (day, day)
                | None \<Rightarrow> f))"

definition parse_filters :: "platform \<Rightarrow> jstr \<Rightarrow> filters \<Rightarrow> int \<Rightarrow> filters res" where
  "parse_filters P message previous now =
     (let q = constraint_text P message;
          d = read_budget q (draft_of previous)
      in rbind (read_district q (read_categories P q (dr_filters d))) (\<lambda>f.
           validate_filters
             (draft_json
               (d\<lparr>dr_filters := read_dates q (today_in_istanbul P now) (read_times q f)\<rparr>))))"

section \<open>Interpretation\<close>

definition first_issue ::
  "platform \<Rightarrow> jstr \<Rightarrow> filters \<Rightarrow> int \<Rightarrow> constraint_issue option" where
  "first_issue P q previous now =
     (if unsupported_location q then Some Unsupported_location
      else case budget_issue q previous of
             Some issue \<Rightarrow> Some issue
           | None \<Rightarrow>
               if has_ambiguous_bare_hour_bound q then Some Constraint_ambiguous
               else if date_issue P q previous now \<noteq> None then Some Date_ambiguous
               else if pd_negativeOnly (parsed_district_of q) \<or> pd_ambiguous (parsed_district_of q)
                       \<or> pg_ambiguous (parse_categories P q previous)
               then Some Constraint_ambiguous else None)"

text \<open>Two clock bounds that leave no time between them.\<close>

definition empty_time_range :: "filters \<Rightarrow> bool" where
  "empty_time_range f \<longleftrightarrow>
     (let from = or_empty (fl_startTimeFrom f); until = or_empty (fl_startTimeTo f)
      in from \<noteq> [] \<and> until \<noteq> []
         \<and> (from > until
            \<or> (from = until \<and> (fl_startTimeFromExclusive f = Some True
                              \<or> fl_startTimeToExclusive f = Some True))))"

definition rejected_issue :: "jstr \<Rightarrow> constraint_issue" where
  "rejected_issue q =
     (if test (re (''%b(?:tarih|gun|hafta|ay|bugun|yarin|pazartesi|sali|carsamba|persembe|cuma|cumart'' @
                   ''esi|pazar)%b'')) q
         \<or> test (re ''%b%d{4}-%d{2}-%d{2}%b'') q
      then Date_ambiguous
      else if test (re ''%b(?:butce|fiyat|tl|lira|ucretsiz|bedava)%b|~t'') q then Budget_ambiguous
      else Constraint_ambiguous)"

text \<open>The answer, given the previous filters that are kept.\<close>

definition answer_message ::
  "platform \<Rightarrow> jstr \<Rightarrow> filters \<Rightarrow> int \<Rightarrow> filters \<times> constraint_issue option" where
  "answer_message P message kept now =
     (case first_issue P (constraint_text P message) kept now of
        Some issue \<Rightarrow> (kept, Some issue)
      | None \<Rightarrow>
          (case parse_filters P message kept now of
             Inr f \<Rightarrow> if empty_time_range f then (kept, Some Constraint_ambiguous) else (f, None)
           | Inl e \<Rightarrow> (kept, Some (rejected_issue (constraint_text P message)))))"

definition interpret_constraints ::
  "platform \<Rightarrow> jstr \<Rightarrow> filters \<Rightarrow> int \<Rightarrow> (filters \<times> constraint_issue option) res" where
  "interpret_constraints P message previous now =
     rbind (if is_full_preference_reset P message then Inr empty_filters
            else validate_filters (filters_json previous))
       (\<lambda>kept. Inr (answer_message P message kept now))"

end
