(* ===== verification/Conversation_Properties.thy ===== *)
theory Conversation_Properties
  imports Constraints Search_Properties
begin

text \<open>
  What the interpretation of messages guarantees, for one message and for a conversation, in
  which the filters of a turn are the previous filters of the next.
\<close>

section \<open>Interpretation keeps filters well formed\<close>

lemma empty_filters_ok: "filters_ok empty_filters"
  by (simp add: filters_ok_def empty_filters_def)

lemma parse_filters_ok: "parse_filters P message previous now = Inr f \<Longrightarrow> filters_ok f"
  by (auto simp: parse_filters_def Let_def rbind_eq_Inr intro: accepted_filters_ok)

lemma ok_filters_accepted:
  assumes "filters_ok f"
  obtains g where "validate_filters (filters_json f) = Inr g" and "filters_ok g"
proof -
  have "validate_filters (filters_json f) = Inr (f\<lparr>fl_district := map_option trim (fl_district f)\<rparr>)"
    using assms by (rule ok_filters_roundtrip)
  then show thesis using that accepted_filters_ok by blast
qed

lemma answer_message_cases:
  obtains (issue) issue where "answer_message P message kept now = (kept, Some issue)"
  | (filters) f where "answer_message P message kept now = (f, None)"
      and "parse_filters P message kept now = Inr f" and "\<not> empty_time_range f"
proof (cases "first_issue P (constraint_text P message) kept now")
  case (Some issue)
  then show thesis by (intro that(1)) (simp add: answer_message_def)
next
  case None
  note first = this
  show thesis
  proof (cases "parse_filters P message kept now")
    case (Inl e)
    then show thesis using first by (intro that(1)) (simp add: answer_message_def)
  next
    case (Inr f)
    show thesis
    proof (cases "empty_time_range f")
      case True
      then show thesis using first Inr by (intro that(1)) (simp add: answer_message_def)
    next
      case False
      then show thesis using first Inr by (intro that(2)) (simp_all add: answer_message_def)
    qed
  qed
qed

lemma answer_message_ok: "filters_ok kept \<Longrightarrow> filters_ok (fst (answer_message P message kept now))"
  by (cases rule: answer_message_cases[of P message kept now]) (auto dest: parse_filters_ok)

text \<open>The filters that a turn starts from: none after a full reset, else the previous ones.\<close>

definition kept_filters :: "platform \<Rightarrow> jstr \<Rightarrow> filters \<Rightarrow> filters res" where
  "kept_filters P message previous =
     (if is_full_preference_reset P message then Inr empty_filters
      else validate_filters (filters_json previous))"

lemma interpretation_kept:
  assumes "interpret_constraints P message previous now = Inr r"
  obtains kept where "r = answer_message P message kept now" and "filters_ok kept"
    and "kept_filters P message previous = Inr kept"
proof -
  obtain kept where "kept_filters P message previous = Inr kept" "r = answer_message P message kept now"
    using assms by (auto simp: interpret_constraints_def kept_filters_def rbind_eq_Inr)
  moreover from this have "filters_ok kept"
    using empty_filters_ok accepted_filters_ok by (auto simp: kept_filters_def split: if_splits)
  ultimately show thesis using that by blast
qed

lemma interpretation_ok:
  assumes "interpret_constraints P message previous now = Inr (f, issue)"
  shows "filters_ok f"
  using interpretation_kept[OF assms] answer_message_ok by (metis fst_conv)

lemma interpretation_returns:
  assumes "filters_ok previous"
  shows "\<exists>f issue. interpret_constraints P message previous now = Inr (f, issue) \<and> filters_ok f"
proof -
  obtain g where "validate_filters (filters_json previous) = Inr g"
    using ok_filters_accepted[OF assms] by blast
  then have "\<exists>r. interpret_constraints P message previous now = Inr r"
    by (simp add: interpret_constraints_def)
  then show ?thesis using interpretation_ok by (metis prod.collapse)
qed

section \<open>Conversations\<close>

definition converse :: "platform \<Rightarrow> (jstr \<times> int) list \<Rightarrow> filters \<Rightarrow> filters res" where
  "converse P turns f =
     rfold (\<lambda>turn g. rbind (interpret_constraints P (fst turn) g (snd turn)) (\<lambda>r. Inr (fst r))) turns f"

text \<open>
  C22: a conversation never fails: whatever the messages are and whenever they are sent, every turn
  returns filters, and they satisfy every rule of the validation.
\<close>

theorem conversation_never_fails:
  "\<exists>f. converse P turns empty_filters = Inr f \<and> filters_ok f"
proof -
  have "\<exists>f. converse P turns g = Inr f \<and> filters_ok f" if "filters_ok g" for g
    using that
  proof (induction turns arbitrary: g)
    case Nil
    then show ?case by (simp add: converse_def)
  next
    case (Cons t ts)
    then obtain f issue where "interpret_constraints P (fst t) g (snd t) = Inr (f, issue)" "filters_ok f"
      using interpretation_returns by blast
    then show ?case using Cons.IH[of f] by (simp add: converse_def)
  qed
  then show ?thesis using empty_filters_ok by blast
qed

text \<open>
  C23: an interpretation is all or nothing. Let the kept filters be the empty ones after a message
  that resets all preferences, and the validated previous ones after every other message. Without
  an issue the result is what the whole message makes of the kept filters, with a time range that
  is not empty; with an issue the result is the kept filters themselves. Either way it satisfies
  every rule of the validation.
\<close>

theorem interpretation_all_or_nothing:
  assumes "interpret_constraints P message previous now = Inr (f, issue)"
  shows "\<exists>kept. (if is_full_preference_reset P message then kept = empty_filters
                else validate_filters (filters_json previous) = Inr kept)
    \<and> (if issue = None then parse_filters P message kept now = Inr f \<and> \<not> empty_time_range f
       else f = kept)
    \<and> filters_ok f"
proof -
  obtain kept where kept: "(f, issue) = answer_message P message kept now"
    "kept_filters P message previous = Inr kept"
    using interpretation_kept[OF assms] by metis
  have "if issue = None then parse_filters P message kept now = Inr f \<and> \<not> empty_time_range f else f = kept"
    using kept(1) by (cases rule: answer_message_cases[of P message kept now]) auto
  moreover have "if is_full_preference_reset P message then kept = empty_filters
      else validate_filters (filters_json previous) = Inr kept"
    using kept(2) by (simp add: kept_filters_def split: if_splits)
  ultimately show ?thesis using interpretation_ok[OF assms] by blast
qed

text \<open>A city that is not served is an issue, and the concerts asked for before stay.\<close>

definition concerts_before :: filters where
  "concerts_before = empty_filters\<lparr>fl_categories := Some [tr ''Konser'']\<rparr>"

theorem interpretation_all_or_nothing_witness:
  "interpret_constraints turkish_platform (u ''ankara'') concerts_before 0
     = Inr (concerts_before, Some Unsupported_location)
   \<and> filters_ok concerts_before \<and> concerts_before \<noteq> empty_filters"
proof -
  have reset: "\<not> is_full_preference_reset turkish_platform (u ''ankara'')"
    and city: "unsupported_location (constraint_text turkish_platform (u ''ankara''))" by code_simp+
  have previous: "validate_filters (filters_json concerts_before) = Inr concerts_before" by code_simp
  have i: "interpret_constraints turkish_platform (u ''ankara'') concerts_before 0
      = Inr (concerts_before, Some Unsupported_location)"
    by (simp add: interpret_constraints_def reset previous answer_message_def first_issue_def city)
  show ?thesis using i interpretation_all_or_nothing[OF i] by (simp add: concerts_before_def empty_filters_def)
qed

section \<open>Categories of a message\<close>

text \<open>What the last clause with something to say says.\<close>

definition last_said :: "('a \<Rightarrow> bool option) \<Rightarrow> 'a list \<Rightarrow> bool option" where
  "last_said says clauses =
     (case List.map_filter says clauses of [] \<Rightarrow> None | v # vs \<Rightarrow> Some (last (v # vs)))"

lemma last_said_Nil [simp]: "last_said says [] = None"
  by (simp add: last_said_def)

lemma last_said_snoc [simp]:
  "last_said says (clauses @ [c]) = (case says c of Some b \<Rightarrow> Some b | None \<Rightarrow> last_said says clauses)"
proof -
  have "List.map_filter says (clauses @ [c]) =
      List.map_filter says clauses @ (case says c of Some b \<Rightarrow> [b] | None \<Rightarrow> [])"
    by (simp add: map_filter_def split: option.split)
  then show ?thesis by (cases "says c"; cases "List.map_filter says clauses") (simp_all add: last_said_def)
qed

definition intent_clauses :: "platform \<Rightarrow> jstr \<Rightarrow> jstr list" where
  "intent_clauses P message =
     split_rx (re ''%b(?:ama|fakat|ancak|but)%b|[,;.!?%n]'') (fold_text P message)"

text \<open>
  A clause asks for a category, or else rejects it, or is silent; it names a term in its positive
  part (or the category of the term), or else rejects the term, or is silent.
\<close>

definition category_said :: "platform \<Rightarrow> jstr \<Rightarrow> jstr \<Rightarrow> bool option" where
  "category_said P c clause =
     (if c \<in> set (requested_categories P (remaining_text (rejection_analysis P clause))) then Some True
      else if c \<in> set (rj_excluded (rejection_analysis P clause)) then Some False else None)"

definition term_said :: "platform \<Rightarrow> jstr \<Rightarrow> jstr \<Rightarrow> bool option" where
  "term_said P t clause =
     (let kept = remaining_text (rejection_analysis P clause)
      in if (case term_category t of Some c \<Rightarrow> c \<in> set (requested_categories P kept) | None \<Rightarrow> False)
            \<or> test (seqs [Wordb, Lit t, Wordb]) kept then Some True
         else if t \<in> set (rj_rejected (rejection_analysis P clause)) then Some False else None)"

lemma map_of_updates:
  "map_of (fold (\<lambda>c. AList.update c b) cs m) x = (if x \<in> set cs then Some b else map_of m x)"
  by (induction cs arbitrary: m) (auto simp: update_conv')

lemma map_of_late_updates:
  "map_of (fold (\<lambda>c m. if map_of m c = None then AList.update c True m else m) cs m) x =
     (case map_of m x of Some b \<Rightarrow> Some b | None \<Rightarrow> if x \<in> set cs then Some True else None)"
  by (induction cs arbitrary: m) (auto simp: update_conv' split: option.splits)

lemma set_fold_add: "set (fold set_add xs ids) = set xs \<union> set ids"
  by (induction xs arbitrary: ids) auto

lemma intent_clause_step:
  "map_of (is_categories (intent_clause P clause st)) c =
     (case category_said P c clause of Some b \<Rightarrow> Some b | None \<Rightarrow> map_of (is_categories st) c)"
  "t \<in> set (is_rejected (intent_clause P clause st)) \<longleftrightarrow>
     (case term_said P t clause of Some b \<Rightarrow> \<not> b | None \<Rightarrow> t \<in> set (is_rejected st))"
  "is_parts (intent_clause P clause st) = is_parts st @ [remaining_text (rejection_analysis P clause)]"
  by (simp_all add: intent_clause_def Let_def map_of_updates category_said_def set_fold_add term_said_def)

lemma intent_clauses_said:
  defines "start \<equiv> \<lparr>is_categories = [], is_rejected = [], is_parts = []\<rparr>"
  shows "map_of (is_categories (fold (intent_clause P) clauses start)) c
      = last_said (category_said P c) clauses"
    and "t \<in> set (is_rejected (fold (intent_clause P) clauses start))
      \<longleftrightarrow> last_said (term_said P t) clauses = Some False"
    and "is_parts (fold (intent_clause P) clauses start)
      = map (\<lambda>clause. remaining_text (rejection_analysis P clause)) clauses"
proof (induction clauses rule: rev_induct)
  case Nil
  show "map_of (is_categories (fold (intent_clause P) [] start)) c = last_said (category_said P c) []"
    and "t \<in> set (is_rejected (fold (intent_clause P) [] start)) \<longleftrightarrow> last_said (term_said P t) [] = Some False"
    and "is_parts (fold (intent_clause P) [] start)
      = map (\<lambda>clause. remaining_text (rejection_analysis P clause)) []"
    by (simp_all add: start_def)
next
  case (snoc x xs)
  show "map_of (is_categories (fold (intent_clause P) (xs @ [x]) start)) c
      = last_said (category_said P c) (xs @ [x])"
    using snoc.IH(1) by (simp add: intent_clause_step split: option.split)
  show "t \<in> set (is_rejected (fold (intent_clause P) (xs @ [x]) start))
      \<longleftrightarrow> last_said (term_said P t) (xs @ [x]) = Some False"
    using snoc.IH(2) by (simp add: intent_clause_step split: option.split)
  show "is_parts (fold (intent_clause P) (xs @ [x]) start)
      = map (\<lambda>clause. remaining_text (rejection_analysis P clause)) (xs @ [x])"
    using snoc.IH(3) by (simp add: intent_clause_step)
qed

lemma states_listed:
  assumes "distinct (map fst m)"
  shows "c \<in> set (map fst (filter snd m)) \<longleftrightarrow> map_of m c = Some True"
    and "c \<in> set (map fst (filter (\<lambda>s. \<not> snd s) m)) \<longleftrightarrow> map_of m c = Some False"
  using assms by (auto simp: image_iff intro: rev_bexI dest: map_of_SomeD)

lemma category_intent_said:
  fixes P message
  defines "said \<equiv> \<lambda>c. last_said (category_said P c) (intent_clauses P message)"
    and "intent \<equiv> category_intent_of P message"
  shows "ct_positiveText intent
      = join [32] (map (\<lambda>clause. remaining_text (rejection_analysis P clause)) (intent_clauses P message))"
    and "c \<in> set (ct_requested intent) \<longleftrightarrow>
      said c = Some True \<or> said c = None \<and> c \<in> set (requested_categories P (ct_positiveText intent))"
    and "c \<in> set (ct_excluded intent) \<longleftrightarrow> said c = Some False"
    and "t \<in> set (ct_rejected intent) \<longleftrightarrow> last_said (term_said P t) (intent_clauses P message) = Some False"
proof -
  define st where "st = fold (intent_clause P) (intent_clauses P message)
    \<lparr>is_categories = [], is_rejected = [], is_parts = []\<rparr>"
  define kept_text where "kept_text = join [32] (is_parts st)"
  define states where "states = fold (\<lambda>c m. if map_of m c = None then AList.update c True m else m)
    (requested_categories P kept_text) (is_categories st)"
  have i: "intent = \<lparr>ct_positiveText = kept_text, ct_requested = map fst (filter snd states),
      ct_excluded = map fst (filter (\<lambda>s. \<not> snd s) states), ct_rejected = is_rejected st\<rparr>"
    by (simp add: intent_def category_intent_of_def Let_def st_def intent_clauses_def kept_text_def states_def)
  have "states_ok states"
    unfolding states_def st_def by (intro late_states_ok intent_states_ok requested_categories_known)
  then have d: "distinct (map fst states)" by (simp add: states_ok_def)
  have m: "map_of states c = (case said c of Some b \<Rightarrow> Some b
      | None \<Rightarrow> if c \<in> set (requested_categories P kept_text) then Some True else None)"
    unfolding states_def map_of_late_updates st_def intent_clauses_said(1) said_def ..
  show "ct_positiveText intent
      = join [32] (map (\<lambda>clause. remaining_text (rejection_analysis P clause)) (intent_clauses P message))"
    by (simp add: i kept_text_def st_def intent_clauses_said(3))
  show "c \<in> set (ct_requested intent) \<longleftrightarrow>
      said c = Some True \<or> said c = None \<and> c \<in> set (requested_categories P (ct_positiveText intent))"
    using states_listed(1)[OF d] m by (simp add: i del: set_map split: option.splits if_splits)
  show "c \<in> set (ct_excluded intent) \<longleftrightarrow> said c = Some False"
    using states_listed(2)[OF d] m by (simp add: i del: set_map split: option.splits if_splits)
  show "t \<in> set (ct_rejected intent) \<longleftrightarrow> last_said (term_said P t) (intent_clauses P message) = Some False"
    by (simp add: i st_def intent_clauses_said(2))
qed

text \<open>
  C39: the last word counts. A message is cut into clauses at its punctuation and its words for
  \<open>but\<close>, and each clause asks for a category, or else rejects it, or is silent about it. A category is
  excluded exactly when the last clause that is not silent rejects it, and requested exactly when
  that clause asks for it, or no clause speaks of it and the clauses together do. A term stays
  rejected exactly when the last clause about it rejects it. All categories are of the taxonomy,
  each is named once, and none is on both lists.
\<close>

theorem category_intent_consistent:
  "(c \<in> set (ct_requested (category_intent_of P message)) \<longleftrightarrow>
      last_said (category_said P c) (intent_clauses P message) = Some True
      \<or> last_said (category_said P c) (intent_clauses P message) = None
        \<and> c \<in> set (requested_categories P (ct_positiveText (category_intent_of P message))))
   \<and> (c \<in> set (ct_excluded (category_intent_of P message)) \<longleftrightarrow>
      last_said (category_said P c) (intent_clauses P message) = Some False)
   \<and> (t \<in> set (ct_rejected (category_intent_of P message)) \<longleftrightarrow>
      last_said (term_said P t) (intent_clauses P message) = Some False)
   \<and> ct_positiveText (category_intent_of P message)
      = join [32] (map (\<lambda>clause. remaining_text (rejection_analysis P clause)) (intent_clauses P message))
   \<and> distinct (ct_requested (category_intent_of P message) @ ct_excluded (category_intent_of P message))
   \<and> set (ct_requested (category_intent_of P message) @ ct_excluded (category_intent_of P message))
       \<subseteq> set CATEGORIES"
  using category_intent_said category_intent_categories by blast

end
