(* ===== verification/Projection.thy ===== *)
theory Projection
  imports Types Text Regex_Syntax Seeds
begin

text \<open>
  What \<open>web/lib/event-merge.ts\<close> and \<open>web/lib/materialized-catalog.ts\<close> share when they turn the
  listings of one session into one card: the order of listings, the stand-up evidence that
  chooses the representative, the offers of a listing, their union, and the offer whose price
  the card shows.
\<close>

section \<open>Order and evidence\<close>

definition event_order :: "platform \<Rightarrow> event \<Rightarrow> event \<Rightarrow> int" where
  "event_order P a b =
     cmp_or (pl_collate P (or_empty (ev_source a)) (or_empty (ev_source b)))
       (cmp_or (pl_collate P (ev_url a) (ev_url b)) (pl_collate P (ev_id a) (ev_id b)))"

text \<open>The scan of a normalised text: some mention of stand-up that is not negated around it.\<close>

definition standup_stated :: "jstr \<Rightarrow> bool" where
  "standup_stated text =
     list_ex (\<lambda>m.
       let i = rm_index m;
           j = i + length (rm_text m);
           preceding = drop (i - 16) (take i text);
           following = take 18 (drop j text)
       in \<not> test (re ''%b(ne|degil|olmayan)%s*$'') preceding
          \<and> \<not> test (re ''^%s*(degil|degildir|olmayan)%b'') following)
       (match_all (re ''%bstand ?up%b'') text)"

definition has_positive_standup_evidence :: "platform \<Rightarrow> event \<Rightarrow> bool" where
  "has_positive_standup_evidence P e =
     standup_stated (merge_normalize P (ev_title e @ [32] @ ev_description e))"

text \<open>\<open>selectRepresentative\<close> and \<open>representativeOf\<close>: the two files differ in the evidence test.\<close>

definition standup_first :: "(event \<Rightarrow> bool) \<Rightarrow> event list \<Rightarrow> event list" where
  "standup_first stated events =
     (let hasStandup = list_ex stated events;
          categorized = (\<lambda>e. ev_category e = u ''Stand-up'');
          both = (if hasStandup then filter (\<lambda>e. categorized e \<and> stated e) events else []);
          labelled = (if hasStandup then filter categorized events else []);
          evidenced = (if hasStandup then filter stated events else [])
      in if both \<noteq> [] then both else if labelled \<noteq> [] then labelled
         else if evidenced \<noteq> [] then evidenced else events)"

definition select_representative :: "platform \<Rightarrow> event list \<Rightarrow> event" where
  "select_representative P events =
     hd (sort_by (event_order P) (standup_first (has_positive_standup_evidence P) events))"

section \<open>Offers\<close>

fun availability_text :: "availability \<Rightarrow> jstr" where
  "availability_text Available = u ''available''"
| "availability_text Sold_out = u ''sold_out''"
| "availability_text Cancelled = u ''cancelled''"
| "availability_text Unknown_availability = u ''unknown''"

text \<open>An offer as \<open>JSON.stringify\<close> reads it, with the keys in the order in which it is built.\<close>

definition offer_json :: "event_offer \<Rightarrow> json" where
  "offer_json o' = JObj [
     (u ''id'', JStr (of_id o')),
     (u ''source'', case of_source o' of Some s \<Rightarrow> JStr s | None \<Rightarrow> Undefined),
     (u ''url'', JStr (of_url o')),
     (u ''price'', case of_price o' of Some p \<Rightarrow> JNum (Fin p) | None \<Rightarrow> Null),
     (u ''currency'', JStr (of_currency o')),
     (u ''sourceSessionIds'',
        case of_session_ids o' of Some ids \<Rightarrow> JArr (map JStr ids) | None \<Rightarrow> Undefined),
     (u ''checkedAt'', JStr (of_checkedAt o')),
     (u ''category'', JStr (of_category o')),
     (u ''venue'', JStr (of_venue o')),
     (u ''availability'', JStr (availability_text (of_availability o')))]"

definition own_offer :: "event \<Rightarrow> event_offer" where
  "own_offer e = \<lparr>
     of_id = ev_id e, of_session_ids = ev_sourceSessionIds e, of_source = ev_source e,
     of_url = ev_url e, of_price = ev_price e, of_currency = ev_currency e,
     of_checkedAt = ev_checkedAt e, of_category = ev_category e, of_venue = ev_venue e,
     of_availability = ev_availability e\<rparr>"

definition offers_of :: "event \<Rightarrow> event_offer list" where
  "offers_of e =
     (case ev_offers e of Some (x # xs) \<Rightarrow> x # xs | _ \<Rightarrow> [own_offer e])"

text \<open>The later check of one offer wins; of two at the same time, the smaller text.\<close>

definition supersedes :: "platform \<Rightarrow> event_offer \<Rightarrow> event_offer \<Rightarrow> bool" where
  "supersedes P new old \<longleftrightarrow>
     of_checkedAt new > of_checkedAt old
     \<or> (of_checkedAt new = of_checkedAt old
        \<and> stringify P (offer_json new) < stringify P (offer_json old))"

definition put_offer ::
  "platform \<Rightarrow> event_offer \<Rightarrow> (jstr \<times> event_offer) list \<Rightarrow> (jstr \<times> event_offer) list" where
  "put_offer P new m =
     (case map_of m (of_id new) of
        None \<Rightarrow> AList.update (of_id new) new m
      | Some old \<Rightarrow> if supersedes P new old then AList.update (of_id new) new m else m)"

definition price_order :: "event_offer \<Rightarrow> event_offer \<Rightarrow> int" where
  "price_order a b =
     cmp_int (case of_price a of Some p \<Rightarrow> p | None \<Rightarrow> 0) (case of_price b of Some p \<Rightarrow> p | None \<Rightarrow> 0)"

definition offer_order :: "platform \<Rightarrow> event_offer \<Rightarrow> event_offer \<Rightarrow> int" where
  "offer_order P a b =
     cmp_or (pl_collate P (of_currency a) (of_currency b))
       (cmp_or (cmp_int (of_price a = None) (of_price b = None))
         (cmp_or (price_order a b) (pl_collate P (of_id a) (of_id b))))"

definition unique_offers :: "platform \<Rightarrow> event list \<Rightarrow> event_offer list" where
  "unique_offers P events =
     sort_by (offer_order P) (vals (fold (put_offer P) (concat (map offers_of events)) []))"

text \<open>
  The offer that the card shows. \<open>selectable[0]\<close> of an empty list would be undefined; a session
  always has an offer.
\<close>

definition or_else :: "'a option \<Rightarrow> 'a option \<Rightarrow> 'a option" where
  "or_else a b = (case a of Some x \<Rightarrow> Some x | None \<Rightarrow> b)"

definition selectable_offers :: "event_offer list \<Rightarrow> event_offer list" where
  "selectable_offers offers =
     (let available = filter (\<lambda>o'. of_availability o' = Available) offers
      in if available \<noteq> [] then available else offers)"

definition preferred_offer :: "event_offer list \<Rightarrow> event \<Rightarrow> event_offer option" where
  "preferred_offer selectable representative =
     or_else (find (\<lambda>o'. of_id o' = ev_id representative) selectable)
       (or_else (find (\<lambda>o'. of_url o' = ev_url representative
                     \<and> of_currency o' = ev_currency representative
                     \<and> of_source o' = ev_source representative) selectable)
         (or_else (find (\<lambda>o'. of_currency o' = ev_currency representative) selectable)
           (case selectable of x # xs \<Rightarrow> Some x | [] \<Rightarrow> None)))"

definition cheaper :: "platform \<Rightarrow> event_offer \<Rightarrow> event_offer \<Rightarrow> int" where
  "cheaper P a b = cmp_or (price_order a b) (pl_collate P (of_id a) (of_id b))"

definition comparable_offers :: "event_offer list \<Rightarrow> event_offer \<Rightarrow> event_offer list" where
  "comparable_offers selectable preferred =
     filter (\<lambda>o'. of_availability o' = of_availability preferred
               \<and> of_currency o' = of_currency preferred \<and> of_price o' \<noteq> None) selectable"

definition select_offer :: "platform \<Rightarrow> event_offer list \<Rightarrow> event \<Rightarrow> event_offer option" where
  "select_offer P offers representative =
     (let selectable = selectable_offers offers
      in case preferred_offer selectable representative of
           None \<Rightarrow> None
         | Some preferred \<Rightarrow>
             (case sort_by (cheaper P) (comparable_offers selectable preferred) of
                x # xs \<Rightarrow> Some x | [] \<Rightarrow> Some preferred))"

section \<open>The card\<close>

text \<open>The address of the representative, or the only one that its session states.\<close>

definition stated_addresses :: "(jstr \<Rightarrow> jstr) \<Rightarrow> event list \<Rightarrow> (jstr \<times> jstr) list" where
  "stated_addresses nrm events =
     fold (\<lambda>e. AList.update (nrm (ev_address e)) (ev_address e))
       (filter (\<lambda>e. trim (ev_address e) \<noteq> []) events) []"

definition session_address :: "(jstr \<Rightarrow> jstr) \<Rightarrow> event list \<Rightarrow> event \<Rightarrow> jstr" where
  "session_address nrm events representative =
     (if ev_address representative \<noteq> [] then ev_address representative
      else case stated_addresses nrm events of [(_, a)] \<Rightarrow> a | _ \<Rightarrow> [])"

definition merged_ids :: "jstr \<Rightarrow> event list \<Rightarrow> jstr list" where
  "merged_ids sessionId events =
     sort (fold (\<lambda>e ids. fold set_add (case ev_mergedIds e of Some xs \<Rightarrow> xs | None \<Rightarrow> [])
                           (set_add (ev_id e) ids)) events [sessionId])"

text \<open>The order of the cards.\<close>

definition card_order :: "platform \<Rightarrow> event \<Rightarrow> event \<Rightarrow> int" where
  "card_order P a b = cmp_or (pl_collate P (ev_startsAt a) (ev_startsAt b)) (event_order P a b)"

section \<open>The representative\<close>

text \<open>
  A choice among the listings of a session that depends on an order and on a test of evidence.
  Both projections instantiate it; what they share is proved once.
\<close>

lemma set_standup_first: "set (standup_first stated events) \<subseteq> set events"
  by (auto simp: standup_first_def Let_def)

lemma standup_first_Nil_iff [simp]: "standup_first stated events = [] \<longleftrightarrow> events = []"
  by (auto simp: standup_first_def Let_def filter_empty_conv)

lemma representative_member:
  "events \<noteq> [] \<Longrightarrow> hd (sort_by c (standup_first stated events)) \<in> set events"
  by (metis hd_in_set set_sort_by set_standup_first sort_by_eq_Nil standup_first_Nil_iff subsetD)

lemma select_representative_member: "events \<noteq> [] \<Longrightarrow> select_representative P events \<in> set events"
  unfolding select_representative_def by (rule representative_member)

lemma comparator_event_order:
  assumes "comparator_fn (pl_collate P)"
  shows "comparator_fn (event_order P)"
  unfolding event_order_def by (intro comparator_cmp_or comparator_on[OF assms])

section \<open>The offers of a session\<close>

lemma offers_of_nonempty [simp]: "offers_of e \<noteq> []"
  by (simp add: offers_of_def split: option.split list.split)

text \<open>The map holds, under the id of each offer, an offer of the input with that id.\<close>

definition offers_indexed :: "event_offer set \<Rightarrow> (jstr \<times> event_offer) list \<Rightarrow> bool" where
  "offers_indexed X m \<longleftrightarrow>
     distinct (keys m) \<and> (\<forall>(k, x) \<in> set m. k = of_id x \<and> x \<in> X)"

lemma put_offer_indexed:
  "offers_indexed X m \<Longrightarrow> new \<in> X \<Longrightarrow> offers_indexed X (put_offer P new m)"
  using set_AList_update[of "of_id new" new m]
  by (fastforce simp: offers_indexed_def put_offer_def distinct_update split: option.split)

lemma put_offer_keys: "fst ` set (put_offer P new m) = insert (of_id new) (fst ` set m)"
  by (auto simp: put_offer_def dom_update image_iff split: option.split dest: map_of_SomeD
      intro: rev_image_eqI)

lemma fold_put_offer_indexed:
  "offers_indexed X m \<Longrightarrow> set xs \<subseteq> X \<Longrightarrow> offers_indexed X (fold (put_offer P) xs m)"
  by (induction xs arbitrary: m) (simp_all add: put_offer_indexed)

lemma fold_put_offer_keys:
  "fst ` set (fold (put_offer P) xs m) = of_id ` set xs \<union> fst ` set m"
  by (induction xs arbitrary: m) (auto simp: put_offer_keys)

lemma offer_map_indexed:
  "offers_indexed (\<Union>e \<in> set events. set (offers_of e))
     (fold (put_offer P) (concat (map offers_of events)) [])"
  by (rule fold_put_offer_indexed) (auto simp: offers_indexed_def)

lemma unique_offers_sound:
  "set (unique_offers P events) \<subseteq> (\<Union>e \<in> set events. set (offers_of e))"
  using offer_map_indexed[of events P]
  by (fastforce simp: unique_offers_def offers_indexed_def)

lemma indexed_ids: "offers_indexed X m \<Longrightarrow> map of_id (vals m) = keys m"
  by (induction m) (auto simp: offers_indexed_def)

lemma unique_offers_ids:
  "of_id ` set (unique_offers P events) = (\<Union>e \<in> set events. of_id ` set (offers_of e))"
proof -
  let ?m = "fold (put_offer P) (concat (map offers_of events)) []"
  have "of_id ` set (unique_offers P events) = set (map of_id (vals ?m))"
    by (simp only: unique_offers_def set_sort_by set_map)
  also have "\<dots> = set (keys ?m)" by (simp only: indexed_ids[OF offer_map_indexed])
  also have "\<dots> = of_id ` set (concat (map offers_of events))"
    by (simp only: set_map fold_put_offer_keys) simp
  finally show ?thesis by (simp add: image_UN)
qed

lemma unique_offers_distinct: "distinct (map of_id (unique_offers P events))"
  unfolding unique_offers_def distinct_map_sort_by indexed_ids[OF offer_map_indexed]
  using offer_map_indexed[of events P] by (simp add: offers_indexed_def)

text \<open>Of the offers with one id, none supersedes the one that is kept.\<close>

lemma supersedes_trans:
  "\<not> supersedes P x y \<Longrightarrow> supersedes P z y \<Longrightarrow> \<not> supersedes P x z"
  unfolding supersedes_def by (metis less_trans not_less_iff_gr_or_eq)

lemma not_supersedes_self: "\<not> supersedes P x x"
  by (simp add: supersedes_def)

definition newest_kept :: "platform \<Rightarrow> event_offer set \<Rightarrow> (jstr \<times> event_offer) list \<Rightarrow> bool" where
  "newest_kept P X m \<longleftrightarrow> (\<forall>x \<in> X. \<exists>y. map_of m (of_id x) = Some y \<and> \<not> supersedes P x y)"

lemma put_offer_newest:
  assumes "newest_kept P X m"
  shows "newest_kept P (insert new X) (put_offer P new m)"
  unfolding newest_kept_def
proof (intro ballI)
  fix x assume x: "x \<in> insert new X"
  show "\<exists>y. map_of (put_offer P new m) (of_id x) = Some y \<and> \<not> supersedes P x y"
  proof (cases "map_of m (of_id new)")
    case None
    then show ?thesis
      using x assms by (auto simp: newest_kept_def put_offer_def update_conv' not_supersedes_self)
  next
    case (Some old)
    have kept: "\<exists>y. map_of m (of_id x) = Some y \<and> \<not> supersedes P x y" if "x \<noteq> new"
      using x that assms by (simp add: newest_kept_def)
    show ?thesis
    proof (cases "supersedes P new old")
      case True
      have "\<not> supersedes P x new" if "of_id x = of_id new"
      proof (cases "x = new")
        case False
        then have "\<not> supersedes P x old" using kept that Some by simp
        then show ?thesis using True by (rule supersedes_trans)
      qed (simp add: not_supersedes_self)
      then show ?thesis using kept True Some
        by (cases "of_id x = of_id new") (auto simp: put_offer_def update_conv')
    next
      case False
      then show ?thesis using kept Some by (cases "x = new") (simp_all add: put_offer_def)
    qed
  qed
qed

lemma fold_put_offer_newest:
  "newest_kept P X m \<Longrightarrow> newest_kept P (X \<union> set xs) (fold (put_offer P) xs m)"
proof (induction xs arbitrary: X m)
  case (Cons x xs)
  show ?case using Cons.IH[OF put_offer_newest[OF Cons.prems, of x]] by simp
qed simp

lemma unique_offers_newest:
  assumes "e \<in> set events" and "x \<in> set (offers_of e)"
  shows "\<exists>y \<in> set (unique_offers P events). of_id y = of_id x \<and> \<not> supersedes P x y"
proof -
  let ?m = "fold (put_offer P) (concat (map offers_of events)) []"
  have "newest_kept P ({} \<union> set (concat (map offers_of events))) ?m"
    by (rule fold_put_offer_newest) (simp add: newest_kept_def)
  then obtain y where y: "map_of ?m (of_id x) = Some y" "\<not> supersedes P x y"
    using assms unfolding newest_kept_def by fastforce
  then have "(of_id x, y) \<in> set ?m" by (simp add: map_of_SomeD)
  then have "of_id x = of_id y" "y \<in> set (unique_offers P events)"
    using offer_map_indexed[of events P] by (auto simp: offers_indexed_def unique_offers_def rev_image_eqI)
  then show ?thesis using y(2) by auto
qed

lemma unique_offers_nonempty: "events \<noteq> [] \<Longrightarrow> unique_offers P events \<noteq> []"
  using unique_offers_ids[of P events] by (cases events) auto

text \<open>The chosen offer is offered, available if any is, and not undercut by a comparable one.\<close>

lemma or_else_SomeD: "or_else a b = Some x \<Longrightarrow> a = Some x \<or> b = Some x"
  by (simp add: or_else_def split: option.splits)

lemma find_SomeD: "find p xs = Some x \<Longrightarrow> x \<in> set xs \<and> p x"
  by (metis find_Some_iff in_set_conv_nth)

lemma preferred_member:
  assumes "preferred_offer xs r = Some x"
  shows "x \<in> set xs"
  using assms unfolding preferred_offer_def
  by (elim or_else_SomeD[THEN disjE]) (auto dest: find_SomeD simp del: find.simps split: list.splits)

lemma preferred_exists: "xs \<noteq> [] \<Longrightarrow> preferred_offer xs r \<noteq> None"
  by (auto simp: preferred_offer_def or_else_def split: option.splits list.splits)

lemma selectable_subset: "set (selectable_offers offers) \<subseteq> set offers"
  by (auto simp: selectable_offers_def Let_def)

lemma selectable_nonempty: "offers \<noteq> [] \<Longrightarrow> selectable_offers offers \<noteq> []"
  by (auto simp: selectable_offers_def Let_def)

lemma selectable_available:
  assumes "y \<in> set offers" "of_availability y = Available"
  shows "y \<in> set (selectable_offers offers)"
    and "x \<in> set (selectable_offers offers) \<Longrightarrow> of_availability x = Available"
proof -
  have ne: "filter (\<lambda>o'. of_availability o' = Available) offers \<noteq> []"
    using assms by (auto simp: filter_empty_conv)
  show "y \<in> set (selectable_offers offers)"
    using assms ne by (simp add: selectable_offers_def)
  show "x \<in> set (selectable_offers offers) \<Longrightarrow> of_availability x = Available"
    using ne by (simp add: selectable_offers_def)
qed

lemma comparator_price_order: "comparator_fn price_order"
  unfolding price_order_def
  by (rule comparator_cmp_int[where f = "\<lambda>x. case of_price x of Some p \<Rightarrow> p | None \<Rightarrow> 0"])

lemma comparator_cheaper:
  assumes "comparator_fn (pl_collate P)"
  shows "comparator_fn (cheaper P)"
  unfolding cheaper_def
  by (intro comparator_cmp_or comparator_price_order comparator_on[OF assms])

lemma select_offer_cases:
  assumes "select_offer P offers r = Some x"
  obtains preferred where "preferred_offer (selectable_offers offers) r = Some preferred"
    and "x = preferred \<and> comparable_offers (selectable_offers offers) preferred = []
      \<or> x = hd (sort_by (cheaper P) (comparable_offers (selectable_offers offers) preferred))
        \<and> x \<in> set (comparable_offers (selectable_offers offers) preferred)"
proof -
  obtain p where p: "preferred_offer (selectable_offers offers) r = Some p"
    using assms by (auto simp: select_offer_def Let_def split: option.splits)
  let ?c = "comparable_offers (selectable_offers offers) p"
  show thesis
  proof (rule that[OF p], cases "sort_by (cheaper P) ?c")
    case Nil
    then have "x = p" and "?c = []" using assms p by (simp_all add: select_offer_def)
    then show "x = p \<and> ?c = [] \<or> x = hd (sort_by (cheaper P) ?c) \<and> x \<in> set ?c" by blast
  next
    case (Cons y ys)
    then have "x = y" using assms p by (simp add: select_offer_def)
    moreover have "y \<in> set ?c" using Cons by (metis list.set_intros(1) set_sort_by)
    ultimately show "x = p \<and> ?c = [] \<or> x = hd (sort_by (cheaper P) ?c) \<and> x \<in> set ?c"
      using Cons by simp
  qed
qed

lemma comparable_subset: "set (comparable_offers xs p) \<subseteq> set xs"
  by (auto simp: comparable_offers_def)

lemma select_offer_member: "select_offer P offers r = Some x \<Longrightarrow> x \<in> set (selectable_offers offers)"
  by (erule select_offer_cases) (use preferred_member comparable_subset in blast)

lemma select_offer_exists: "offers \<noteq> [] \<Longrightarrow> \<exists>x. select_offer P offers r = Some x"
  using preferred_exists[OF selectable_nonempty]
  by (auto simp: select_offer_def Let_def split: option.splits list.splits)

lemma select_offer_available:
  assumes "select_offer P offers r = Some x" "y \<in> set offers" "of_availability y = Available"
  shows "of_availability x = Available"
  using selectable_available(2)[OF assms(2,3)] select_offer_member[OF assms(1)] by blast

text \<open>
  Among the offers in the availability and currency of the chosen one, none has a lower price, and
  it has a price if one of them has.
\<close>

lemma select_offer_cheapest:
  assumes "comparator_fn (pl_collate P)"
    and x: "select_offer P offers r = Some x"
    and y: "y \<in> set offers" "of_availability y = of_availability x"
    and same: "of_currency y = of_currency x" and price: "of_price y = Some p"
  shows "\<exists>q. of_price x = Some q \<and> q \<le> p"
  using x
proof (cases rule: select_offer_cases)
  case (1 preferred)
  let ?s = "selectable_offers offers"
  have y_in: "y \<in> set ?s"
  proof (cases "filter (\<lambda>o'. of_availability o' = Available) offers = []")
    case True
    then show ?thesis using y(1) by (simp add: selectable_offers_def)
  next
    case False
    then have "of_availability x = Available"
      using select_offer_member[OF x] by (auto simp: selectable_offers_def)
    then show ?thesis using y selectable_available(1) by simp
  qed
  from 1(2) show ?thesis
  proof
    assume e: "x = preferred \<and> comparable_offers ?s preferred = []"
    have "y \<in> set (comparable_offers ?s x)"
      using y_in y(2) same price by (simp add: comparable_offers_def)
    then show ?thesis using e by (metis empty_iff empty_set)
  next
    assume x: "x = hd (sort_by (cheaper P) (comparable_offers ?s preferred))
        \<and> x \<in> set (comparable_offers ?s preferred)"
    then obtain q where q: "of_price x = Some q" "of_currency x = of_currency preferred"
      "of_availability x = of_availability preferred"
      by (auto simp: comparable_offers_def)
    then have "y \<in> set (comparable_offers ?s preferred)"
      using y_in y(2) same price by (simp add: comparable_offers_def)
    then have "cheaper P x y \<le> 0"
      using comparator_fn.hd_sort_by_least[OF comparator_cheaper[OF assms(1)]] x by metis
    then have "q \<le> p"
      using q price by (auto simp: cheaper_def cmp_or_def price_order_def cmp_int_def split: if_splits)
    then show ?thesis using q by blast
  qed
qed

lemma merged_ids_members:
  "set (merged_ids sid es) = insert sid (\<Union>e \<in> set es. insert (ev_id e)
     (set (case ev_mergedIds e of Some xs \<Rightarrow> xs | None \<Rightarrow> [])))"
proof -
  have add: "set (fold set_add xs ids) = set xs \<union> set ids" for xs ids :: "jstr list"
    by (induction xs arbitrary: ids) auto
  have "set (fold (\<lambda>e ids. fold set_add (case ev_mergedIds e of Some xs \<Rightarrow> xs | None \<Rightarrow> [])
      (set_add (ev_id e) ids)) es ids) = set ids \<union> (\<Union>e \<in> set es. insert (ev_id e)
     (set (case ev_mergedIds e of Some xs \<Rightarrow> xs | None \<Rightarrow> [])))" for ids
  proof (induction es arbitrary: ids)
    case (Cons e es)
    show ?case by (simp only: fold_simps Cons.IH add) auto
  qed simp
  then show ?thesis by (simp add: merged_ids_def)
qed

lemma mset_push_at:
  "distinct (keys m) \<Longrightarrow>
     mset (concat (vals (push_at k x m))) = add_mset x (mset (concat (vals m)))"
proof (induction m)
  case Nil
  then show ?case by (simp add: push_at_def)
next
  case (Cons p m)
  then show ?case
    by (cases p) (auto simp: push_at_update update_append_fresh split: option.splits)
qed

lemma mset_group_by: "mset (concat (vals (group_by f xs))) = mset xs"
  by (induction xs rule: rev_induct) (simp_all add: group_by_snoc mset_push_at)

end
