(* ===== verification/EventMerge.thy ===== *)
theory EventMerge
  imports Projection
begin

text \<open>
  \<open>web/lib/event-merge.ts\<close>: the listings of one performance become one card. The reviewed
  aliases of venues and titles, the reviewed workshop locations, the policies that a listing
  states about its audience and format, the identity key of a session, and
  \<open>mergeEventSessions\<close> itself. \<open>normalize\<close> of the file is \<^const>\<open>merge_normalize\<close>.
\<close>

section \<open>Reviewed aliases\<close>

definition merge_venue_groups :: "jstr list list" where
  "merge_venue_groups = map (map tr) [
     [''Ay~i Pub & Disko R~iht~im'', ''Ay~i Pub & Disko R~iht~im Kad~ik~oy''],
     [''Cafe Theatre'', ''Cafe Theatre Ko~suyolu''],
     [''Ada Bar Kad~ik~oy'', ''Ada Bar''],
     [''HoP Sahne'', ''House of Performance - HoP''],
     [''Biletinial Torium Sahne'', ''Torium Sahne''],
     [''Kartal Sanat Tiyatrosu'', ''Kartal Sanat Tiyatro Salonu''],
     [''Maltepe Dragos Sahne'', ''Sahne Dragos''],
     [''Watergarden Performans Merkezi Duru Tiyatro [Ata~sehir]'',
      ''Duru Tiyatro Watergarden Performans Merkezi''],
     [''~Inal Ayd~ino~glu KM'', ''~Inal Ayd~ino~glu K~ult~ur Merkezi''],
     [''L~utfi K~irdar Anadolu Auditorium'', ''~Istanbul L~utfi Kirdar Anadolu Oditoryum Salonu''],
     [''Paribu Vadi A~c~ikhava'', ''Paribu Vadi A~c~ik Hava''],
     [''Jolly Joker Kartal'', ''Jolly Joker Kartal ~IstMarina''],
     [''JJ Arena'', ''JJ Arena Ata~sehir''],
     [''Dorock XL Kad~ik~oy'', ''Dorock XL''],
     [''AKM T~urk Telekom Opera Salonu'', ''T~urk Telekom Opera Salonu''],
     [''Mall Of ~Istanbul Biletinial Moi Sahne'', ''Mall of ~Istanbul MO~I Sahne''],
     [''Bah~ce~sehir K~ult~ur Sanat Merkezi'', ''Bah~ce~sehir K~ult~ur Merkezi'']]"
definition merge_title_groups :: "jstr list list" where
  "merge_title_groups = map (map tr) [
     [''Tan~i~s - Konu~s - Dans Et - (Sosyal Bulu~sma Etkinli~gi)'',
      ''Tan~i~s ~b Konu~s ~b Payla~s ~b Dans Et''],
     [''Bir ~Ishak~qs~in Bir Cemil Oyunu'', ''Bir ~Ishaks~in Bir Cemil''],
     [''DJ Can Giray - Ge~cmi~sten G~un~um~uze 90lar 2000ler T~urk~ce Pop'',
      ''Ge~cmi~sten G~un~um~uze 90~qlar 2000~qler T~urk~ce Pop''],
     [''Discman 90~rlar & 2000~rler T~urk~ce Pop Gecesi'',
      ''Discman 90lar & 2000ler T~urk~ce Pop''],
     [''Kad~ik~oy A~c~ik Mikrofon Stand-up - Comedy Lab'',
      ''Kad~ik~oy A~c~ik Mikrofon Stand-up - Comedy Lab Istanbul''],
     [''STAND UP GECES~I Taksim- Pera- Beyo~glu'', ''Beyo~glu- Taksim- Stand Up Gecesi'',
      ''Stand Up Gecesi - Taksim & Beyo~glu'', ''Beyo~glu- Taksim- Pera Stand Up Gecesi''],
     [''Stand up Taksim / Beyo~glu Gecesi | ~Infiniti Sahne'',
      ''Stand Up Taksim / Beyo~glu Gecesi - Cuma 20:30'',
      ''Stand Up Taksim - Beyo~glu Gecesi - Cuma 20:30'',
      ''Stand Up Taksim / Beyo~glu Gecesi - Cuma 22:30'',
      ''Stand Up Taksim - Beyo~glu Gecesi - Cuma 22:30'',
      ''Stand Up Taksim / Beyo~glu Gecesi - Cumartesi 19:00'',
      ''Stand Up Taksim / Beyo~glu Gecesi - Cumartesi 20:30'',
      ''Stand Up Taksim / Beyo~glu Gecesi - Pazar 19:00'',
      ''Stand Up Taksim / Beyo~glu Gecesi - Pazar 20:30''],
     [''Bo~gazi~ci Komedi Kul~ub~u: Kad~ik~oy A~c~ik Mikrofon Stand-up Gecesi'',
      ''Bo~gazi~ci Komedi Kul~ub~u - Kad~ik~oy A~c~ik Mikrofon Stand-up''],
     [''G~okhan ~Unver Stand Up'', ''G~okhan ~Unver ~q~Cok Tan~id~ik~q''],
     [''Mustafa Boz - Tek Ki~silik Stand Up'', ''Mustafa Boz Stand Up''],
     [''Operadaki Hayalet'', ''Operadaki Hayalet Tiyatro Oyunu''],
     [''K~ut~uphanedeki Ceset'', ''K~ut~uphanedeki Ceset Tiyatro Oyunu''],
     [''Su~c ve Ceza'', ''Su~c ve Ceza Oyunu''],
     [''~Ciftler ~Ciftler'', ''~Ciftler ~Ciftler Oyunu''],
     [''Sesler - Salih Bademci'', ''Salih Bademci - Sesler''],
     [''Tek H~ucreliler - A~sk~im Kap~i~smak'', ''A~sk~im Kap~i~smak - Tek H~ucreliler''],
     [''Memleket Kuma~s~i ~n Sunay Ak~in'', ''Sunay Ak~in - Memleket Kuma~s~i''],
     [''Aleksandrov Rus K~iz~ilordu Korosu ve Dans Toplulu~gu ~Ile Hayko Cepkin Konserleri'',
      ''Aleksandrov Rus K~iz~ilordu Korosu ve Dans Toplulu~gu ~Ile Hayko Cepkin''],
     [''Bir ~Idam Mahkumunun Son G~un~u'', ''Bir ~Idam Mahkumunun Son G~un~u Oyunu''],
     [''Kas~impa~sa Mevlevihanesi Semazen T~oreni'',
      ''Kas~impa~sa Mevlevihanesi~qnde Semazen T~oreni''],
     [''~Ol~u~qn Bizi Ay~irana Dek'', ''~Ol~un Bizi Ay~irana Dek'',
      ''~Ol~u~rn Bizi Ay~irana Dek'', ''~Ol~u~qn Bizi Ay~irana Dek Oyunu''],
     [''Mah~ser-i C~umb~u~s'', ''Mah~ser-i C~umb~u~s Oyunu''],
     [''Haybeden Ger~cek~ust~u A~sk'', ''Haybeden Ger~cek~ust~u A~sk Oyunu''],
     [''A~sk Hikayen D~u~sm~u~s'', ''A~sk Hikayen D~u~sm~u~s Oyunu''],
     [''Bi ~Saka Stand up Program~i'', ''Bi ~Saka Stand Up''],
     [''F~irat Tan~i~s ile Gelin Tan~i~s Olal~im'',
      ''F~irat Tan~i~s ile Gelin Tan~i~s Olal~im Oyunu''],
     [''Anna Karenina'', ''Anna Karenina Tiyatro Oyunu''],
     [''Berkay Konseri'', ''Berkay''],
     [''Ozbi Konseri'', ''Ozbi''],
     [''Kolpa'', ''Kolpa Konseri''],
     [''Duman Konseri'', ''Duman''],
     [''Simge'', ''Simge Konseri''],
     [''Mavi'', ''Mavi Konseri''],
     [''Jakuzi'', ''Jakuzi Konseri''],
     [''Malleus'', ''Malleus Oyunu''],
     [''Ahududu'', ''Ahududu Oyunu''],
     [''Son Lux'', ''%100 M~uzik Sunar: Son Lux''],
     [''Alpay Erdem - Ge~cenlerde'', ''Alpay Erdem - Ge~cenlerde Stand Up''],
     [''Kad~ik~oy Stand-up Gecesi'', ''Kad~ik~oy Stand Up Gecesi Cuma 20:00'',
      ''Kad~ik~oy Stand Up Gecesi Cuma 21:45'', ''Kad~ik~oy Stand Up Gecesi Cumartesi 19:00'',
      ''Kad~ik~oy Stand up Gecesi Pazar 19:00'', ''Kad~ik~oy Stand Up Gecesi ~Car~samba 20:30'',
      ''Kad~ik~oy Stand up Gecesi Cumartesi 21:45''],
     [''Kad~ik~oy Stand Up Gecesi A~c~ik Mikrofon'',
      ''Kad~ik~oy Stand Up Gecesi Pazartesi A~c~ik Mikrofon'',
      ''Kad~ik~oy Stand Up Gecesi Sal~i A~c~ik Mikrofon''],
     [''Hikayeden Adamlar ~qMahalle~q - Youtube ~Cekimi - 3.sezon'',
      ''Hikayeden Adamlar - Mahalle - Youtube ~Cekimi''],
     [''XI. Gastromasa Istanbul Uluslararas~i Gastronomi Konferans~i & Fuar~i'',
      ''Gastromasa ~Istanbul Uluslararas~i Gastronomi Konferans~i & Fuar~i''],
     [''Burak Altuni Akustik Flamenko Konser'', ''Burak Altuni Akustik Flamenko Konseri''],
     [''Benyunusy~ilmaz - Olay Yeri ~Inceleme Stand Up'',
      ''Yunus Y~ilmaz - Olay Yeri ~Inceleme Stand Up''],
     [''Lumera Trio Sezen Aksu ~Sark~ilar~i'', ''Lumera - Sezen Aksu ~Sark~ilar~i''],
     [''Celile (Naz~im Hikmet~qin Annesi) Oyunu'', ''Celile (Naz~im Hikmet~qin Annesi)''],
     [''~Cocuklar ~I~cin Yarat~ic~i Drama E~gitimi'',
      ''~Cocuklar i~cin Yarat~ic~i Drama E~gitim''],
     [''G~uncel G~ursel Art~iktay Konseri'', ''G~uncel G~ursel Art~iktay'']]"
definition venue_aliases :: "platform \<Rightarrow> (jstr \<times> jstr) list" where
  "venue_aliases P =
     alias_map (merge_normalize P) (\<lambda>g. merge_normalize P (hd g)) merge_venue_groups"

definition title_aliases :: "platform \<Rightarrow> (jstr \<times> jstr) list" where
  "title_aliases P =
     alias_map (merge_normalize P) (\<lambda>g. merge_normalize P (hd g)) merge_title_groups"

definition generic_venues :: "jstr list" where
  "generic_venues = map u [
     '''', ''istanbul'', ''cesitli mekanlar'', ''cesitli yerler'', ''mekan belli degil'', ''online'']"

text \<open>The operator \<open>??\<close>.\<close>

definition nullish :: "'a option \<Rightarrow> 'a \<Rightarrow> 'a" where
  "nullish a b = (case a of Some x \<Rightarrow> x | None \<Rightarrow> b)"

definition canonical_show_title :: "platform \<Rightarrow> jstr \<Rightarrow> jstr" where
  "canonical_show_title P title =
     (let normalized = merge_normalize P title
      in nullish (map_of (title_aliases P) normalized) normalized)"

definition venue_key :: "platform \<Rightarrow> jstr \<Rightarrow> jstr" where
  "venue_key P venue =
     (let normalized = merge_normalize P venue
      in nullish (map_of (venue_aliases P) normalized) normalized)"

section \<open>Reviewed workshops\<close>

definition fabrikafa_titles :: "(jstr \<times> jstr list) list" where
  "fabrikafa_titles = [
     (u ''hat'', map tr [''~Istanbul Workshops Hat Sanat~i At~olyesi'',
       ''Hat Sanat~i At~olyesi'',
       ''Pirin~c ~Cer~ceveli Cam ~Uzerine Hat/Kaligrafi Sanat~i At~olyesi'']),
     (u ''tezhip'', map tr [''~Istanbul Workshops Tezhip At~olyesi'',
       ''Tezhip At~olyesi'']),
     (u ''cini'', map tr [''~Istanbul Workshops C~,ini Ato~:lyesi'',
       ''~Cini At~olyesi'',
       ''T~urk ~Cini Resim Sanat~i At~olyesi'']),
     (u ''vitray'', map tr [''~Istanbul Workshops Vitray At~olyesi'',
       ''Vitray At~olyesi'']),
     (u ''parfum'', map tr [''~Istanbul Workshops Parf~um At~olyesi'',
       ''Parf~um At~olyesi'',
       ''Parf~um Tasar~im~i At~olyesi'']),
     (u ''deri'', map tr [''~Istanbul Workshops Deri ~I~s~cili~gi At~olyesi'',
       ''Deri ~I~s~cili~gi At~olyesi'']),
     (u ''ebru'', map tr [''~Istanbul Workshops Ebru ile Bez ~Canta Tasar~im At~olyesi'',
       ''Ebru Bez ~Canta Sanat At~olyesi'',
       ''Ebru ile Bez ~Canta Tasar~im At~olyesi''])]"

definition fabrikafa_programs :: "platform \<Rightarrow> (jstr \<times> jstr) list" where
  "fabrikafa_programs P =
     fold (\<lambda>(program, titles) m. fold (\<lambda>t. AList.update (merge_normalize P t) program) titles m)
       fabrikafa_titles []"

definition fabrikafa_address :: "platform \<Rightarrow> jstr" where
  "fabrikafa_address P =
     merge_normalize P (tr ''Aziz Mahmut H~udayi, G~ulfem Sk. No:15, 34672 ~Usk~udar/~Istanbul'')"

definition fabrikafa_bare_venue :: "platform \<Rightarrow> jstr" where
  "fabrikafa_bare_venue P = merge_normalize P (tr ''~Istanbul Workshops'')"

definition fabrikafa_named_venues :: "platform \<Rightarrow> jstr list" where
  "fabrikafa_named_venues P =
     [merge_normalize P (tr ''~Istanbul Workshops - Fabrikafa Make & Coffee''),
      merge_normalize P (tr ''Fabrikafa Make & Coffee'')]"

definition fabrikafa_districts :: "platform \<Rightarrow> jstr list" where
  "fabrikafa_districts P =
     [[], merge_normalize P (tr ''~Usk~udar''), merge_normalize P (tr ''~Istanbul Anadolu'')]"

record reviewed_workshop =
  rw_key :: jstr
  rw_program :: jstr
  rw_venue :: jstr
  rw_address :: jstr
  rw_districts :: "jstr list"
  rw_prefixedTitle :: jstr
  rw_genericTitle :: "jstr option"
  rw_titles :: "jstr list"

definition reviewed_workshop_venues :: "platform \<Rightarrow> reviewed_workshop list" where
  "reviewed_workshop_venues P = (let nrm = \<lambda>s. merge_normalize P (tr s) in [
     \<lparr>rw_key = u ''reviewed:bagimsiz-sanat-vakfi'', rw_program = u ''mozaik-lamba'',
      rw_venue = nrm ''Ba~g~ims~iz Sanat Vakf~i'',
      rw_address = nrm ''Hobyar, Ankara Cd. No;3, 34110 Fatih/~Istanbul'',
      rw_districts = [[], nrm ''Fatih'', nrm ''~Istanbul Avrupa''],
      rw_prefixedTitle = nrm ''~Istanbul Workshops Mozaik Lamba At~olyesi'',
      rw_genericTitle = None,
      rw_titles = [nrm ''~Istanbul Workshops Mozaik Lamba At~olyesi'',
                   nrm ''Mozaik Lamba At~olyesi'']\<rparr>,
     \<lparr>rw_key = u ''reviewed:atolye-sahi'', rw_program = u ''seramik-tek-seans'',
      rw_venue = nrm ''At~olye Sahi'',
      rw_address = nrm ''Aziz Mahmut H~udayi Caddesi, G~ulfem Sk. No:17A, 34762 ~Usk~udar/~Istanbul'',
      rw_districts = [[], nrm ''~Usk~udar'', nrm ''~Istanbul Anadolu''],
      rw_prefixedTitle = nrm ''~Istanbul Workshops Seramik At~olyesi (Tek Seans Workshop)'',
      rw_genericTitle = Some (nrm ''Seramik At~olyesi''),
      rw_titles = [nrm ''~Istanbul Workshops Seramik At~olyesi (Tek Seans Workshop)'',
                   nrm ''Seramik At~olyesi ( Tek Seans Workshop )'',
                   nrm ''Seramik At~olyesi'']\<rparr>])"

definition is_istanbul_workshop :: "platform \<Rightarrow> event \<Rightarrow> bool" where
  "is_istanbul_workshop P e \<longleftrightarrow>
     ev_category e = u ''Workshop'' \<and> merge_normalize P (ev_city e) = u ''istanbul''"

definition fabrikafa_program :: "platform \<Rightarrow> event \<Rightarrow> jstr option" where
  "fabrikafa_program P e =
     (if \<not> is_istanbul_workshop P e then None
      else case map_of (fabrikafa_programs P) (merge_normalize P (ev_title e)) of
             None \<Rightarrow> None
           | Some program \<Rightarrow>
               let venue = merge_normalize P (ev_venue e);
                   address = merge_normalize P (ev_address e);
                   district = merge_normalize P (ev_district e)
               in if district \<notin> set (fabrikafa_districts P) then None
                  else if venue = fabrikafa_bare_venue P
                  then (if address = fabrikafa_address P then Some program else None)
                  else if venue \<notin> set (fabrikafa_named_venues P) then None
                  else if address = [] \<or> address = fabrikafa_address P then Some program else None)"

text \<open>The conditions under which the loop of \<open>reviewedWorkshopIdentity\<close> does not \<open>continue\<close>.\<close>

definition matches_reviewed ::
  "platform \<Rightarrow> event \<Rightarrow> jstr \<Rightarrow> jstr \<Rightarrow> jstr \<Rightarrow> jstr \<Rightarrow> reviewed_workshop \<Rightarrow> bool" where
  "matches_reviewed P e title venue address district r \<longleftrightarrow>
     \<not> (venue \<noteq> rw_venue r \<or> title \<notin> set (rw_titles r) \<or> district \<notin> set (rw_districts r)
        \<or> (address \<noteq> [] \<and> address \<noteq> rw_address r)
        \<or> (title = rw_prefixedTitle r \<and> address \<noteq> rw_address r)
        \<or> (rw_genericTitle r = Some title
           \<and> (\<not> test (re ''%bseramik workshop tek oturumluk deneyim%b'')
                   (merge_normalize P (ev_description e))
              \<or> test (re ''%baylik kurs%b'') (merge_normalize P (ev_description e)))))"

definition reviewed_candidate :: "platform \<Rightarrow> event \<Rightarrow> reviewed_workshop option" where
  "reviewed_candidate P e =
     find (matches_reviewed P e (merge_normalize P (ev_title e)) (merge_normalize P (ev_venue e))
             (merge_normalize P (ev_address e)) (merge_normalize P (ev_district e)))
       (reviewed_workshop_venues P)"

definition reviewed_workshop_identity :: "platform \<Rightarrow> event \<Rightarrow> (jstr \<times> jstr) option" where
  "reviewed_workshop_identity P e =
     (case fabrikafa_program P e of
        Some program \<Rightarrow>
          Some (u ''reviewed:fabrikafa-program:'' @ program, u ''reviewed:fabrikafa-make-and-coffee'')
      | None \<Rightarrow>
          if \<not> is_istanbul_workshop P e then None
          else map_option (\<lambda>r. (rw_key r @ u '':program:'' @ rw_program r, rw_key r))
                 (reviewed_candidate P e))"

definition identity_title :: "platform \<Rightarrow> event \<Rightarrow> jstr" where
  "identity_title P e =
     (case reviewed_workshop_identity P e of
        Some (title, venue) \<Rightarrow> title
      | None \<Rightarrow>
          let canonical = canonical_show_title P (ev_title e);
              bare = replace_first (re ''%s+konseri?$'') [] canonical
          in if ev_category e = u ''Konser'' \<and> bare \<noteq> [] then bare else canonical)"

section \<open>Policies\<close>

text \<open>A policy is its text; a set of policies lists them in the order of insertion.\<close>

definition child_only :: jstr where "child_only = u ''child-only''"
definition adult_only :: jstr where "adult_only = u ''adult-only''"
definition workshop_policy :: jstr where "workshop_policy = u ''workshop''"
definition performance_policy :: jstr where "performance_policy = u ''performance''"
definition adaptation_prefix :: jstr where "adaptation_prefix = u ''adaptation:''"

definition merge_child_only :: "jstr \<Rightarrow> bool" where
  "merge_child_only text \<longleftrightarrow>
     list_ex (\<lambda>m. digits_value (or_empty (group m 2)) \<le> 17)
       (match_all (re ''%b(%d{1,2})%s+(?:ile%s+)?(%d{1,2})%s*yas%b'') text)
     \<or> test (re ''%b(?:yalnizca|sadece)%s+cocuklar%s+icin%b'') text
     \<or> test (re ''%bcocuklara%s+ozel%b'') text"

definition merge_adult_only :: "jstr \<Rightarrow> jstr \<Rightarrow> bool" where
  "merge_adult_only raw text \<longleftrightarrow>
     test (re ''%b18%s*%+'') raw
     \<or> test (re ''%b18%s*yas%s+alti%s+(?:giremez|kabul edilmez)%b'') text
     \<or> test (re ''%b(?:yalnizca|sadece)%s+yetiskinler%s+icin%b'') text
     \<or> test (re ''%byetiskinlere%s+ozel%b'') text"

definition merge_workshop :: "jstr \<Rightarrow> jstr \<Rightarrow> bool" where
  "merge_workshop title text \<longleftrightarrow>
     test (re ''%b(?:atolye|workshop)(?:si|u)?%b'') title
     \<or> test (re ''%buygulamali%b[^.!?%n]{0,32}%b(?:atolye|workshop)%s+calismasi%b'') text"

definition merge_performance :: "jstr \<Rightarrow> jstr \<Rightarrow> bool" where
  "merge_performance title text \<longleftrightarrow>
     test (re ''%b(?:tiyatro%s+oyunu|canli%s+konser)%b'') title
     \<or> test (re ''%bcanli%s+sahne%s+gosterisidir%b'') text"

definition merge_adaptation :: "jstr \<Rightarrow> jstr" where
  "merge_adaptation raw =
     (case exec (re ''%buyarlama%s*:%s*([^.;%n]{1,60})'') raw of
        Some m \<Rightarrow> trim (or_empty (group m 1)) | None \<Rightarrow> [])"

definition strong_policies :: "platform \<Rightarrow> event \<Rightarrow> jstr list" where
  "strong_policies P e =
     (let raw = fold_text P (ev_title e @ [32] @ ev_description e);
          text = squash (\<lambda>c. \<not> is_space_unit c) (trim (squash key_unit raw));
          title = merge_normalize P (ev_title e);
          adaptation = merge_adaptation raw
      in (if merge_child_only text then [child_only] else [])
         @ (if merge_adult_only raw text then [adult_only] else [])
         @ (if merge_workshop title text then [workshop_policy] else [])
         @ (if merge_performance title text then [performance_policy] else [])
         @ (if adaptation \<noteq> [] then [adaptation_prefix @ adaptation] else []))"

text \<open>The first dimension in which the members conflict, with its two values.\<close>

definition conflicting_policy_dimension ::
  "('a \<Rightarrow> jstr list) \<Rightarrow> 'a list \<Rightarrow> (jstr \<times> jstr \<times> jstr) option" where
  "conflicting_policy_dimension policiesFor members =
     (if length members < 2 then None
      else
        let policies = map policiesFor members;
            stated = (\<lambda>p. list_ex (\<lambda>ps. p \<in> set ps) policies);
            adaptations = uniq (concat (map (filter (\<lambda>p. starts_with p adaptation_prefix)) policies))
        in if stated child_only \<and> stated adult_only
           then Some (u ''audience'', child_only, adult_only)
           else if stated workshop_policy \<and> stated performance_policy
           then Some (u ''format'', workshop_policy, performance_policy)
           else case adaptations of
                  a # b # _ \<Rightarrow> Some (u ''format'', a, b)
                | _ \<Rightarrow> None)"

section \<open>The identity of a session\<close>

definition parsed_instant :: "jstr \<Rightarrow> jstr option" where
  "parsed_instant startsAt = map_option iso_string (date_parse startsAt)"

record merge_identity =
  mi_title :: jstr
  mi_city :: jstr
  mi_venue :: jstr
  mi_instant :: "jstr option"

definition identity_of :: "platform \<Rightarrow> event \<Rightarrow> merge_identity" where
  "identity_of P e =
     (let reviewed = reviewed_workshop_identity P e
      in \<lparr>mi_title = nullish (map_option fst reviewed) (identity_title P e),
          mi_city = merge_normalize P (ev_city e),
          mi_venue = nullish (map_option snd reviewed) (venue_key P (ev_venue e)),
          mi_instant = parsed_instant (ev_startsAt e)\<rparr>)"

definition isolated_key :: "event \<Rightarrow> jstr" where
  "isolated_key e = u ''isolated'' @ [31] @ ev_id e"

definition event_session_identity_key :: "platform \<Rightarrow> event \<Rightarrow> jstr" where
  "event_session_identity_key P e =
     (let v = identity_of P e;
          hasSpecificVenue = (mi_venue v \<noteq> [] \<and> mi_venue v \<notin> set generic_venues)
      in case mi_instant v of
           Some instant \<Rightarrow>
             if mi_title v \<noteq> [] \<and> mi_city v \<noteq> [] \<and> hasSpecificVenue
             then join [31] [mi_title v, mi_city v, mi_venue v, instant]
             else isolated_key e
         | None \<Rightarrow> isolated_key e)"

definition merge_hash :: "string \<Rightarrow> jstr \<Rightarrow> jstr" where
  "merge_hash kind v = u kind @ u ''-'' @ take 32 (sha256_hex v)"

section \<open>The groups\<close>

text \<open>
  A candidate group whose members conflict is split: by the policy of the conflicting dimension
  that a member states, and into singletons where it states neither.
\<close>

definition guard_key ::
  "('a \<Rightarrow> jstr list) \<Rightarrow> ('a \<Rightarrow> jstr) \<Rightarrow> (jstr \<times> jstr \<times> jstr) option \<Rightarrow> jstr \<Rightarrow> 'a \<Rightarrow> jstr" where
  "guard_key policiesFor idOf conflict key member =
     (case conflict of
        None \<Rightarrow> key
      | Some (dimension, p, q) \<Rightarrow>
          let policies = policiesFor member;
              policy = (if p \<in> set policies then p else if q \<in> set policies then q
                        else u ''unspecified-'' @ idOf member)
          in key @ [31] @ dimension @ u '':'' @ policy)"

definition guarded_members ::
  "('a \<Rightarrow> jstr list) \<Rightarrow> ('a \<Rightarrow> jstr) \<Rightarrow> (jstr \<times> 'a list) list \<Rightarrow> (jstr \<times> 'a) list" where
  "guarded_members policiesFor idOf candidates =
     concat (map (\<lambda>(key, members).
       let conflict = conflicting_policy_dimension policiesFor members
       in map (\<lambda>m. (guard_key policiesFor idOf conflict key m, m)) members) candidates)"

definition session_groups ::
  "('a \<Rightarrow> jstr list) \<Rightarrow> ('a \<Rightarrow> jstr) \<Rightarrow> ('a \<Rightarrow> jstr) \<Rightarrow> 'a list \<Rightarrow> (jstr \<times> 'a list) list" where
  "session_groups policiesFor idOf keyOf events =
     fold (\<lambda>(k, m). push_at k m) (guarded_members policiesFor idOf (group_by keyOf events)) []"

section \<open>The card of a session\<close>

definition merged_attendance_timing :: "platform \<Rightarrow> event list \<Rightarrow> attendance_timing option" where
  "merged_attendance_timing P events =
     (case List.map_filter ev_attendanceTiming events of
        [] \<Rightarrow> None
      | t # ts \<Rightarrow>
          if list_all (\<lambda>v. stringify P (timing_json v) = stringify P (timing_json t)) (t # ts)
          then Some t else Some UnknownTiming)"

definition generic_show_titles :: "jstr list" where
  "generic_show_titles = map u [
     ''etkinlik'', ''konser'', ''tiyatro'', ''stand up'', ''komedi'', ''acik mikrofon'', ''open mic'']"

definition sanat_dance_night :: "platform \<Rightarrow> event \<Rightarrow> jstr list \<Rightarrow> bool" where
  "sanat_dance_night P e policies \<longleftrightarrow>
     merge_normalize P (ev_city e) = u ''istanbul''
     \<and> merge_normalize P (ev_venue e) = u ''sanat performance''
     \<and> (ev_category e = u ''Konser'' \<or> ev_category e = u ''Dans'')
     \<and> (merge_normalize P (ev_title e) = u ''90lar dans gecesi ekim etkinlikleri''
        \<or> merge_normalize P (ev_title e) = u ''90 lar dans gecesi'')
     \<and> child_only \<notin> set policies \<and> workshop_policy \<notin> set policies"

definition rossi_social_night :: "platform \<Rightarrow> event \<Rightarrow> jstr list \<Rightarrow> bool" where
  "rossi_social_night P e policies \<longleftrightarrow>
     merge_normalize P (ev_city e) = u ''istanbul''
     \<and> merge_normalize P (ev_venue e) = u ''rossi suadiye''
     \<and> (ev_category e = tr ''G~osteri'' \<or> ev_category e = tr ''Di~ger'')
     \<and> identity_title P e = canonical_show_title P (tr ''Tan~i~s ~b Konu~s ~b Payla~s ~b Dans Et'')
     \<and> child_only \<notin> set policies \<and> workshop_policy \<notin> set policies"

definition show_identity_with :: "platform \<Rightarrow> event \<Rightarrow> jstr list \<Rightarrow> jstr option" where
  "show_identity_with P e policies =
     (let title = identity_title P e
      in if rossi_social_night P e policies
         then Some (join [31] [u ''istanbul'', u ''rossi suadiye'', u ''reviewed:social-night''])
         else if sanat_dance_night P e policies
         then Some (join [31] [u ''istanbul'', u ''sanat performance'', u ''reviewed:90lar-dans-gecesi''])
         else if title = [] \<or> title \<in> set generic_show_titles then None
         else Some (join [31] [merge_normalize P (ev_city e), ev_category e, title,
                               join (u ''|'') (sort policies)]))"

definition display_show_identity :: "platform \<Rightarrow> event \<Rightarrow> jstr option" where
  "display_show_identity P e = show_identity_with P e (strong_policies P e)"

definition canonical_production_key :: "platform \<Rightarrow> event \<Rightarrow> jstr option" where
  "canonical_production_key P representative =
     (let v = identity_of P representative
      in if mi_title v \<noteq> [] \<and> mi_city v \<noteq> [] \<and> mi_venue v \<noteq> [] \<and> mi_venue v \<notin> set generic_venues
         then Some (merge_hash ''production''
           (join [31] [mi_title v, mi_city v, mi_venue v,
                       join (u ''|'') (sort (strong_policies P representative))]))
         else None)"

definition merge_session :: "platform \<Rightarrow> jstr \<times> event list \<Rightarrow> event" where
  "merge_session P keyed =
     (let (key, members) = keyed;
          ordered = sort_by (event_order P) members;
          representative = select_representative P ordered;
          offers = unique_offers P ordered;
          offer = the (select_offer P offers representative);
          sessionId = merge_hash ''session'' key;
          showKey = map_option (merge_hash ''show'') (display_show_identity P representative)
      in representative\<lparr>
           ev_address := session_address (merge_normalize P) ordered representative,
           ev_id := (if length members = 1 then ev_id representative else sessionId),
           ev_source := of_source offer, ev_url := of_url offer, ev_price := of_price offer,
           ev_currency := of_currency offer, ev_availability := of_availability offer,
           ev_checkedAt := of_checkedAt offer, ev_offers := Some offers,
           ev_mergedIds := Some (merged_ids sessionId ordered),
           ev_attendanceTiming :=
             or_else (merged_attendance_timing P ordered) (ev_attendanceTiming representative),
           ev_canonicalProductionKey :=
             or_else (canonical_production_key P representative)
               (ev_canonicalProductionKey representative),
           ev_canonicalShowKey := or_else showKey (ev_canonicalShowKey representative)\<rparr>)"

definition merge_groups :: "platform \<Rightarrow> event list \<Rightarrow> (jstr \<times> event list) list" where
  "merge_groups P events =
     session_groups (strong_policies P) ev_id (event_session_identity_key P) events"

definition merge_event_sessions :: "platform \<Rightarrow> event list \<Rightarrow> event list" where
  "merge_event_sessions P events =
     sort_by (card_order P) (map (merge_session P) (merge_groups P events))"

section \<open>The caches\<close>

text \<open>
  The identity of a display depends on seven fields. The cache keeps, for an object, the fields
  it saw last and their identity; a card may be bound to the object of its source. Objects are
  known by a number.
\<close>

record display_fields =
  df_title :: jstr
  df_description :: jstr
  df_venue :: jstr
  df_district :: jstr
  df_address :: jstr
  df_city :: jstr
  df_category :: jstr

definition display_fields_of :: "event \<Rightarrow> display_fields" where
  "display_fields_of e = \<lparr>
     df_title = ev_title e, df_description = ev_description e, df_venue = ev_venue e,
     df_district = ev_district e, df_address = ev_address e, df_city = ev_city e,
     df_category = ev_category e\<rparr>"

record display_cache =
  dc_source :: "(nat \<times> nat) list"
  dc_entries :: "(nat \<times> display_fields \<times> jstr option) list"

definition bind_display_identity_source :: "nat \<Rightarrow> nat \<Rightarrow> display_cache \<Rightarrow> display_cache" where
  "bind_display_identity_source shown source c =
     c\<lparr>dc_source := AList.update shown source (dc_source c)\<rparr>"

definition cached_display_show_identity ::
  "platform \<Rightarrow> nat \<Rightarrow> event \<Rightarrow> jstr list option \<Rightarrow> display_cache \<Rightarrow> jstr option \<times> display_cache" where
  "cached_display_show_identity P shown e policies c =
     (let source = nullish (map_of (dc_source c) shown) shown;
          identity = show_identity_with P e (nullish policies (strong_policies P e));
          fresh = (identity,
            c\<lparr>dc_entries := AList.update source (display_fields_of e, identity) (dc_entries c)\<rparr>)
      in case map_of (dc_entries c) source of
           Some (seen, known) \<Rightarrow> if seen = display_fields_of e then (known, c) else fresh
         | None \<Rightarrow> fresh)"

text \<open>
  \<open>SessionMergeCache\<close> of \<open>web/lib/session-merge-cache.ts\<close>: one retained merge, found by the
  serialised input. \<open>write\<close> and \<open>parse\<close> stand for the JSON functions of the language on the
  lists of events, \<open>merge\<close> for the merge it was constructed with.
\<close>

record merge_cache =
  mc_entry :: "(jstr \<times> jstr) option"
  mc_maxRetainedBytes :: nat

definition session_merge_read ::
  "('e list \<Rightarrow> jstr) \<Rightarrow> (jstr \<Rightarrow> 'e list) \<Rightarrow> ('e list \<Rightarrow> 'e list) \<Rightarrow> 'e list \<Rightarrow> merge_cache
     \<Rightarrow> 'e list \<times> merge_cache" where
  "session_merge_read write parse merge events c =
     (let input = write events;
          fresh =
            (let merged = merge events;
                 output = write merged;
                 empty = c\<lparr>mc_entry := None\<rparr>
             in if length input * 2 > mc_maxRetainedBytes c then (merged, empty)
                else if (length input + length output) * 2 \<le> mc_maxRetainedBytes c
                then (merged, c\<lparr>mc_entry := Some (input, output)\<rparr>)
                else (merged, empty))
      in case mc_entry c of
           Some (known, output) \<Rightarrow> if known = input then (parse output, c) else fresh
         | None \<Rightarrow> fresh)"

end
