(* ===== verification/Merge_Properties.thy ===== *)
theory Merge_Properties
  imports EventMerge
begin

text \<open>
  What \<open>mergeEventSessions\<close> guarantees: it loses no listing and no offer, one card holds listings of
  one performance that stand on one side of their first conflict of policies, a card shows the
  cheapest offer, and its caches are not observable.
\<close>

section \<open>The groups\<close>

lemma push_at_mapped:
  "push_at k (f x) (map (\<lambda>(k, ys). (k, map f ys)) m) =
     map (\<lambda>(k, ys). (k, map f ys)) (push_at k x m)"
proof -
  have lookup: "map_of (map (\<lambda>(k, ys). (k, map f ys)) m) k = map_option (map f) (map_of m k)"
    by (induction m) auto
  have update: "AList.update k (map f ys) (map (\<lambda>(k, ys). (k, map f ys)) m) =
      map (\<lambda>(k, ys). (k, map f ys)) (AList.update k ys m)" for ys
    by (induction m) auto
  show ?thesis
  proof (cases "map_of m k")
    case (Some ys)
    then show ?thesis using update[of "ys @ [x]"] by (simp add: push_at_def lookup)
  qed (simp add: push_at_def lookup)
qed

lemma fold_push_at_group_by:
  "fold (\<lambda>(k, x). push_at k x) xs [] = map (\<lambda>(k, ys). (k, map snd ys)) (group_by fst xs)"
proof (induction xs rule: rev_induct)
  case (snoc x xs)
  then show ?case
    using push_at_mapped[of "fst x" snd x "group_by fst xs"]
    by (cases x) (simp add: group_by_snoc)
qed simp

lemma session_groups_group_by:
  "session_groups pol idOf keyOf events =
     map (\<lambda>(k, ys). (k, map snd ys)) (group_by fst (guarded_members pol idOf (group_by keyOf events)))"
  by (simp add: session_groups_def fold_push_at_group_by)

lemma vals_mapped: "vals (map (\<lambda>(k, ys). (k, map f ys)) m) = map (map f) (vals m)"
  by (induction m) auto

lemma snd_guarded_members: "map snd (guarded_members pol idOf cs) = concat (vals cs)"
  by (induction cs) (auto simp: guarded_members_def Let_def comp_def split_def)

lemma mset_session_groups: "mset (concat (vals (session_groups pol idOf keyOf events))) = mset events"
proof -
  let ?g = "guarded_members pol idOf (group_by keyOf events)"
  have "mset (concat (vals (session_groups pol idOf keyOf events)))
      = image_mset snd (mset (concat (vals (group_by fst ?g))))"
    by (simp only: session_groups_group_by vals_mapped map_concat mset_map[symmetric])
  also have "\<dots> = mset (map snd ?g)" by (simp add: mset_group_by)
  also have "\<dots> = mset events" by (simp only: snd_guarded_members mset_group_by)
  finally show ?thesis .
qed

lemma session_group_member:
  "(k, ms) \<in> set (session_groups pol idOf keyOf events) \<Longrightarrow>
     ms \<noteq> [] \<and> ms = map snd (filter (\<lambda>p. fst p = k) (guarded_members pol idOf (group_by keyOf events)))"
  by (auto simp: session_groups_group_by group_by_member)

text \<open>A member comes from the candidate group of its identity key.\<close>

lemma guarded_member:
  assumes "(k, ms) \<in> set (session_groups pol idOf keyOf events)" and "a \<in> set ms"
  shows "\<exists>members. members = filter (\<lambda>x. keyOf x = keyOf a) events \<and> a \<in> set events
    \<and> k = guard_key pol idOf (conflicting_policy_dimension pol members) (keyOf a) a"
  using assms session_group_member[OF assms(1)]
  by (auto simp: guarded_members_def group_by_member Let_def)

section \<open>Nothing is lost\<close>

lemma event_in_group:
  assumes "e \<in> set events"
  obtains k ms where "(k, ms) \<in> set (merge_groups P events)" "e \<in> set ms"
proof -
  have "set (concat (vals (merge_groups P events))) = set events"
    unfolding merge_groups_def by (metis mset_session_groups set_mset_mset)
  then show thesis using assms that by fastforce
qed

lemma merge_session_ids:
  "set (the (ev_mergedIds (merge_session P (k, ms)))) =
     insert (merge_hash ''session'' k) (\<Union>e \<in> set ms. insert (ev_id e)
       (set (case ev_mergedIds e of Some xs \<Rightarrow> xs | None \<Rightarrow> [])))"
  by (simp add: merge_session_def Let_def merged_ids_members)

lemma merge_session_offers: "ev_offers (merge_session P (k, ms)) = Some (unique_offers P (sort_by (event_order P) ms))"
  by (simp add: merge_session_def Let_def)

lemma card_of_group:
  "(k, ms) \<in> set (merge_groups P events) \<Longrightarrow> merge_session P (k, ms) \<in> set (merge_event_sessions P events)"
  by (auto simp: merge_event_sessions_def intro: image_eqI)

lemma group_subset: "(k, ms) \<in> set (merge_groups P events) \<Longrightarrow> set ms \<subseteq> set events"
  using guarded_member unfolding merge_groups_def by fast

lemma listing_kept:
  assumes "(k, ms) \<in> set (merge_groups P events)" and "e \<in> set ms" and "x \<in> set (offers_of e)"
  shows "ev_id e \<in> set (the (ev_mergedIds (merge_session P (k, ms))))
    \<and> (\<exists>y \<in> set (the (ev_offers (merge_session P (k, ms)))). of_id y = of_id x \<and> \<not> supersedes P x y)
    \<and> set (the (ev_offers (merge_session P (k, ms)))) \<subseteq> (\<Union>a \<in> set ms. set (offers_of a))"
proof (intro conjI)
  let ?card = "merge_session P (k, ms)"
  show "ev_id e \<in> set (the (ev_mergedIds ?card))"
    using assms(2) unfolding merge_session_ids by blast
  show "\<exists>y \<in> set (the (ev_offers ?card)). of_id y = of_id x \<and> \<not> supersedes P x y"
    using unique_offers_newest[of e "sort_by (event_order P) ms" x P] assms(2,3)
    by (simp add: merge_session_offers)
  show "set (the (ev_offers ?card)) \<subseteq> (\<Union>a \<in> set ms. set (offers_of a))"
    using unique_offers_sound[of P "sort_by (event_order P) ms"] by (simp add: merge_session_offers)
qed

section \<open>The identity of a card\<close>

text \<open>The separator of the keys occurs in no part of an identity.\<close>

abbreviation plain_part :: "jstr \<Rightarrow> bool" where
  "plain_part s \<equiv> count_list s 31 = 0"

lemma plain_part_iff: "plain_part s \<longleftrightarrow> 31 \<notin> set s"
  by (simp add: count_list_0_iff)

lemma plain_spaced: "spaced s \<Longrightarrow> plain_part s"
  by (auto simp: plain_part_iff spaced_iff list_all_iff key_unit_def is_lower_unit_def is_digit_unit_def)

lemma plain_normalize [simp]: "plain_part (merge_normalize P s)"
  by (rule plain_spaced) (rule merge_normalize_spaced)

lemma plain_pad [simp]: "plain_part (pad k n)"
  by (induction k arbitrary: n) auto

lemma plain_iso [simp]: "plain_part (iso_string t)"
  by (simp add: iso_string_def iso_year_def iso_rest_def u_def)

lemma plain_alias:
  assumes "map_of (alias_map (merge_normalize P) (\<lambda>g. merge_normalize P (hd g)) gs) x = Some v"
  shows "plain_part v"
  using alias_map_group[OF assms] by auto

lemma plain_title [simp]: "plain_part (canonical_show_title P t)"
  by (auto simp: canonical_show_title_def nullish_def title_aliases_def Let_def plain_alias
      split: option.split)

lemma plain_venue [simp]: "plain_part (venue_key P v)"
  by (auto simp: venue_key_def nullish_def venue_aliases_def Let_def plain_alias split: option.split)

lemma plain_replace: "plain_part s \<Longrightarrow> plain_part (replace_first r [] s)"
proof (cases "exec r s")
  case (Some m)
  assume "plain_part s"
  then have "plain_part (rev (rm_before m) @ rm_text m @ rm_after m)"
    using exec_split[OF Some] by simp
  then show ?thesis using Some by (simp add: replace_first_def)
qed (simp add: replace_first_def)

lemma fold_update_values:
  "map_of (fold (\<lambda>t. AList.update (f t) v) ts m) x = Some w \<Longrightarrow> w = v \<or> map_of m x = Some w"
  by (induction ts arbitrary: m) (force simp: update_conv' split: if_splits)+

lemma fabrikafa_values:
  "map_of (fabrikafa_programs P) x = Some w \<Longrightarrow> w \<in> set (map fst fabrikafa_titles)"
proof -
  have "map_of (fold (\<lambda>(p, ts) m. fold (\<lambda>t. AList.update (merge_normalize P t) p) ts m) gs m) x = Some w
      \<Longrightarrow> w \<in> set (map fst gs) \<or> map_of m x = Some w" for gs :: "(jstr \<times> jstr list) list" and m
  proof (induction gs arbitrary: m)
    case (Cons g gs)
    then show ?case using fold_update_values by (cases g) fastforce
  qed simp
  from this[of fabrikafa_titles "[]"] show "map_of (fabrikafa_programs P) x = Some w \<Longrightarrow> ?thesis"
    by (simp add: fabrikafa_programs_def)
qed

lemma plain_fabrikafa: "fabrikafa_program P e = Some p \<Longrightarrow> plain_part p"
proof -
  assume "fabrikafa_program P e = Some p"
  then have "p \<in> set (map fst fabrikafa_titles)"
    using fabrikafa_values[of P _ p] unfolding fabrikafa_program_def Let_def
    by (simp split: if_splits option.splits)
  then show "plain_part p" by (auto simp: fabrikafa_titles_def u_def simp del: tr.simps)
qed

lemma plain_reviewed:
  "reviewed_workshop_identity P e = Some (t, v) \<Longrightarrow> plain_part t \<and> plain_part v"
proof -
  assume r: "reviewed_workshop_identity P e = Some (t, v)"
  have "plain_part (rw_key r @ u '':program:'' @ rw_program r) \<and> plain_part (rw_key r)"
    if "r \<in> set (reviewed_workshop_venues P)" for r
    using that by (auto simp: reviewed_workshop_venues_def Let_def u_def)
  note reviewed = this
  show ?thesis
  proof (cases "fabrikafa_program P e")
    case None
    then obtain w where "reviewed_candidate P e = Some w"
      and tv: "t = rw_key w @ u '':program:'' @ rw_program w" "v = rw_key w"
      using r by (auto simp: reviewed_workshop_identity_def split: if_splits)
    then have "w \<in> set (reviewed_workshop_venues P)"
      unfolding reviewed_candidate_def by (blast dest: find_SomeD)
    then show ?thesis unfolding tv by (rule reviewed)
  next
    case (Some p)
    then show ?thesis
      using r plain_fabrikafa[OF Some] by (auto simp: reviewed_workshop_identity_def u_def)
  qed
qed

lemma plain_if: "plain_part s \<Longrightarrow> plain_part t \<Longrightarrow> plain_part (if b then s else t)"
  by simp

lemma plain_identity_title [simp]: "plain_part (identity_title P e)"
proof (cases "reviewed_workshop_identity P e")
  case None
  show ?thesis unfolding identity_title_def Let_def None
    by (simp only: option.case) (rule plain_if[OF plain_replace[OF plain_title] plain_title])
next
  case (Some tv)
  then show ?thesis using plain_reviewed by (cases tv) (simp add: identity_title_def)
qed

lemma plain_identity:
  "plain_part (mi_title (identity_of P e))" "plain_part (mi_city (identity_of P e))"
  "plain_part (mi_venue (identity_of P e))"
proof -
  show "plain_part (mi_city (identity_of P e))" by (simp add: identity_of_def Let_def)
  have "plain_part (mi_title (identity_of P e)) \<and> plain_part (mi_venue (identity_of P e))"
  proof (cases "reviewed_workshop_identity P e")
    case None
    then show ?thesis by (simp add: identity_of_def Let_def nullish_def)
  next
    case (Some tv)
    then show ?thesis
      using plain_reviewed by (cases tv) (simp add: identity_of_def Let_def nullish_def)
  qed
  then show "plain_part (mi_title (identity_of P e))" "plain_part (mi_venue (identity_of P e))"
    by blast+
qed

definition isolated :: "platform \<Rightarrow> event \<Rightarrow> bool" where
  "isolated P e \<longleftrightarrow> event_session_identity_key P e = isolated_key e"

lemma separators_of_key:
  "count_list (event_session_identity_key P e) 31 = 3 \<or> isolated P e"
proof (cases "isolated P e")
  case False
  then obtain i where i: "mi_instant (identity_of P e) = Some i"
    and k: "event_session_identity_key P e = join [31] [mi_title (identity_of P e),
      mi_city (identity_of P e), mi_venue (identity_of P e), i]"
    by (auto simp: isolated_def event_session_identity_key_def Let_def split: option.splits if_splits)
  have "plain_part i" using i by (auto simp: identity_of_def parsed_instant_def Let_def)
  then show ?thesis by (simp add: k plain_identity)
qed simp

lemma separators_isolated: "plain_part (ev_id e) \<Longrightarrow> count_list (isolated_key e) 31 = 1"
  by (simp add: isolated_key_def u_def)

lemma prefix_by_separators:
  "count_list k x = count_list l x \<Longrightarrow> k @ x # r = l @ x # s \<Longrightarrow> k = l"
proof (induction k arbitrary: l)
  case Nil
  then show ?case by (cases l) auto
next
  case (Cons a k)
  then show ?case by (cases l) (auto split: if_splits)
qed

lemma guard_key_extends:
  "guard_key pol idOf c key m = key \<and> c = None
   \<or> (\<exists>d. guard_key pol idOf c key m = key @ 31 # d \<and> c \<noteq> None)"
  by (auto simp: guard_key_def Let_def split: option.split)

lemma conflict_needs_two: "conflicting_policy_dimension pol ms \<noteq> None \<Longrightarrow> 2 \<le> length ms"
  by (simp add: conflicting_policy_dimension_def split: if_splits)

text \<open>With distinct ids, a listing that is isolated is alone under its key.\<close>

lemma isolated_alone:
  assumes ids: "distinct (map ev_id events)" "\<forall>e \<in> set events. plain_part (ev_id e)"
    and a: "a \<in> set events" "isolated P a"
    and x: "x \<in> set events" "event_session_identity_key P x = event_session_identity_key P a"
  shows "x = a"
proof -
  have "count_list (event_session_identity_key P x) 31 = 1"
    using a x(2) ids(2) separators_isolated by (simp add: isolated_def)
  then have "isolated P x" using separators_of_key[of P x] by simp
  then have "ev_id x = ev_id a" using a(2) x(2) by (simp add: isolated_def isolated_key_def)
  then show ?thesis using ids(1) a(1) x(1) by (metis distinct_map inj_onD)
qed

lemma conflict_not_isolated:
  assumes ids: "distinct (map ev_id events)" "\<forall>e \<in> set events. plain_part (ev_id e)"
    and a: "a \<in> set events"
    and c: "conflicting_policy_dimension pol
      (filter (\<lambda>x. event_session_identity_key P x = event_session_identity_key P a) events) \<noteq> None"
  shows "count_list (event_session_identity_key P a) 31 = 3"
proof (rule ccontr)
  assume "\<not> ?thesis"
  then have i: "isolated P a" using separators_of_key by blast
  let ?ms = "filter (\<lambda>x. event_session_identity_key P x = event_session_identity_key P a) events"
  have "set ?ms \<subseteq> {a}" using isolated_alone[OF ids a i] by auto
  moreover have "distinct ?ms" using ids(1) by (simp add: distinct_map)
  ultimately have "length ?ms \<le> 1" by (metis card_mono card.empty card_insert_disjoint distinct_card
        empty_iff finite.emptyI finite.insertI One_nat_def)
  then show False using conflict_needs_two[OF c] by simp
qed

lemma one_identity_key:
  assumes ids: "distinct (map ev_id events)" "\<forall>e \<in> set events. plain_part (ev_id e)"
    and g: "(k, ms) \<in> set (merge_groups P events)" and ab: "a \<in> set ms" "b \<in> set ms"
  shows "event_session_identity_key P a = event_session_identity_key P b"
proof -
  let ?key = "event_session_identity_key P" and ?pol = "strong_policies P"
  let ?conflict = "\<lambda>a. conflicting_policy_dimension ?pol (filter (\<lambda>x. ?key x = ?key a) events)"
  have member: "x \<in> set events \<and> k = guard_key ?pol ev_id (?conflict x) (?key x) x" if "x \<in> set ms" for x
    using guarded_member[OF g[unfolded merge_groups_def] that] by blast
  have small: "count_list (?key x) 31 \<le> 3" if "x \<in> set events" for x
    using separators_of_key[of P x] separators_isolated[of x] ids(2) that by (auto simp: isolated_def)
  have three: "count_list (?key x) 31 = 3" if "x \<in> set events" "?conflict x \<noteq> None" for x
    using conflict_not_isolated[OF ids that] .
  have shape: "k = ?key x \<and> ?conflict x = None
      \<or> (\<exists>d. k = ?key x @ 31 # d) \<and> count_list (?key x) 31 = 3 \<and> 3 < count_list k 31" if "x \<in> set ms" for x
    using guard_key_extends[of ?pol ev_id "?conflict x" "?key x" x] member[OF that] three[of x]
    by auto
  show ?thesis
    using shape[OF ab(1)] shape[OF ab(2)] small member ab prefix_by_separators
    by (metis leD)
qed

text \<open>
  Two listings clash when one is for children and the other for adults, one a workshop and the
  other a performance, or they name different adaptations. In a conflict of \<open>p\<close> and \<open>q\<close> a listing
  stands for the first of them that it states.
\<close>

definition policies_clash :: "jstr list \<Rightarrow> jstr list \<Rightarrow> bool" where
  "policies_clash ps qs \<longleftrightarrow>
     child_only \<in> set ps \<and> adult_only \<in> set qs
     \<or> workshop_policy \<in> set ps \<and> performance_policy \<in> set qs
     \<or> list_ex (\<lambda>x. list_ex (\<lambda>y. starts_with x adaptation_prefix \<and> starts_with y adaptation_prefix
                                     \<and> x \<noteq> y) qs) ps"

definition policy_stand :: "jstr \<Rightarrow> jstr \<Rightarrow> jstr list \<Rightarrow> jstr option" where
  "policy_stand p q ps = (if p \<in> set ps then Some p else if q \<in> set ps then Some q else None)"

lemma two_members: "a \<in> set ms \<Longrightarrow> b \<in> set ms \<Longrightarrow> a \<noteq> b \<Longrightarrow> 2 \<le> length ms"
  by (cases ms; cases "tl ms") auto

lemma no_conflict_no_clash:
  assumes none: "conflicting_policy_dimension pol ms = None" and "2 \<le> length ms"
    and ab: "a \<in> set ms" "b \<in> set ms"
  shows "\<not> policies_clash (pol a) (pol b)"
proof -
  let ?adaptations = "uniq (concat (map (filter (\<lambda>p. starts_with p adaptation_prefix)) (map pol ms)))"
  have n: "\<not> (list_ex (\<lambda>ps. child_only \<in> set ps) (map pol ms) \<and> list_ex (\<lambda>ps. adult_only \<in> set ps) (map pol ms))"
    "\<not> (list_ex (\<lambda>ps. workshop_policy \<in> set ps) (map pol ms)
        \<and> list_ex (\<lambda>ps. performance_policy \<in> set ps) (map pol ms))"
    "length ?adaptations \<le> 1"
    using none assms(2)
    by (auto simp: conflicting_policy_dimension_def Let_def not_less split: if_splits list.splits)
  have "x = y" if "x \<in> set (pol a)" "y \<in> set (pol b)" "starts_with x adaptation_prefix" "starts_with y adaptation_prefix" for x y
  proof -
    have "x \<in> set ?adaptations" "y \<in> set ?adaptations" using that ab by auto
    with n(3) show ?thesis by (cases ?adaptations) (simp_all del: set_uniq)
  qed
  then show ?thesis
    using n(1,2) ab unfolding policies_clash_def by (auto simp: list_ex_iff)
qed

lemma conflict_policies:
  "conflicting_policy_dimension pol ms = Some (d, p, q) \<Longrightarrow>
     (p, q) \<in> {(child_only, adult_only), (workshop_policy, performance_policy)}
     \<or> starts_with p adaptation_prefix \<and> starts_with q adaptation_prefix"
proof -
  let ?adaptations = "uniq (concat (map (filter (\<lambda>p. starts_with p adaptation_prefix)) (map pol ms)))"
  assume c: "conflicting_policy_dimension pol ms = Some (d, p, q)"
  then consider "(p, q) \<in> {(child_only, adult_only), (workshop_policy, performance_policy)}"
    | r where "?adaptations = p # q # r"
    unfolding conflicting_policy_dimension_def Let_def by (auto split: if_splits list.splits)
  then show ?thesis
  proof cases
    case (2 r)
    then have "p \<in> set ?adaptations" "q \<in> set ?adaptations" by (simp_all del: set_uniq)
    then show ?thesis by auto
  qed blast
qed

lemma stated_policy_named:
  assumes "conflicting_policy_dimension pol ms = Some (d, p, q)"
  shows "p \<noteq> u ''unspecified-'' @ s" "q \<noteq> u ''unspecified-'' @ s"
  using conflict_policies[OF assms]
  by (auto simp: child_only_def adult_only_def workshop_policy_def performance_policy_def
      adaptation_prefix_def starts_with_def u_def cu_def dest: arg_cong[where f = "take 1"])

lemma group_stands_together:
  assumes ids: "distinct (map ev_id events)"
    and g: "(k, ms) \<in> set (merge_groups P events)" and ab: "a \<in> set ms" "b \<in> set ms" "a \<noteq> b"
    and same: "event_session_identity_key P a = event_session_identity_key P b"
  shows "case conflicting_policy_dimension (strong_policies P)
           (filter (\<lambda>x. event_session_identity_key P x = event_session_identity_key P a) events) of
      None \<Rightarrow> \<not> policies_clash (strong_policies P a) (strong_policies P b)
    | Some (d, p, q) \<Rightarrow> policy_stand p q (strong_policies P a) \<noteq> None
        \<and> policy_stand p q (strong_policies P a) = policy_stand p q (strong_policies P b)"
proof -
  let ?pol = "strong_policies P"
  let ?ms = "filter (\<lambda>x. event_session_identity_key P x = event_session_identity_key P a) events"
  note member = guarded_member[OF g[unfolded merge_groups_def]]
  have in_ms: "a \<in> set ?ms" "b \<in> set ?ms" using member ab same by auto
  have ne: "ev_id a \<noteq> ev_id b" using in_ms ab(3) ids by (auto simp: distinct_map dest: inj_onD)
  have k: "k = guard_key ?pol ev_id (conflicting_policy_dimension ?pol ?ms)
      (event_session_identity_key P a) x" if "x = a \<or> x = b" for x
    using member[of x] that ab same by auto
  show ?thesis
  proof (cases "conflicting_policy_dimension ?pol ?ms")
    case None
    have "\<not> policies_clash (?pol a) (?pol b)"
      by (rule no_conflict_no_clash[OF None two_members[OF in_ms ab(3)] in_ms])
    then show ?thesis by (simp add: None)
  next
    case (Some c)
    obtain d p q where c: "c = (d, p, q)" by (cases c)
    define stand where "stand = (\<lambda>x. case policy_stand p q (?pol x) of
      Some s \<Rightarrow> s | None \<Rightarrow> u ''unspecified-'' @ ev_id x)"
    have "guard_key ?pol ev_id (Some (d, p, q)) key x = key @ [31] @ d @ u '':'' @ stand x" for key x
      by (simp add: guard_key_def stand_def policy_stand_def Let_def)
    then have stands: "stand a = stand b" using k[of a] k[of b] by (simp add: Some c)
    have named: "policy_stand p q (?pol x) = Some s \<Longrightarrow> s \<noteq> u ''unspecified-'' @ t" for x s t
      using stated_policy_named[OF Some[unfolded c]] by (auto simp: policy_stand_def split: if_splits)
    have "policy_stand p q (?pol a) \<noteq> None \<and> policy_stand p q (?pol a) = policy_stand p q (?pol b)"
      using stands ne named[of a] named[of b]
      by (cases "policy_stand p q (?pol a)"; cases "policy_stand p q (?pol b)") (auto simp: stand_def)
    then show ?thesis unfolding Some c option.case prod.case .
  qed
qed

text \<open>
  Only the first conflict of a group splits it. Two listings whose formats conflict stay apart
  on their own, and share a card as soon as a third listing adds a conflict of audience.
\<close>

lemma later_conflict_not_split:
  defines "pol \<equiv> \<lambda>n :: nat. if n = 0 then [child_only, workshop_policy]
                          else if n = 1 then [child_only, performance_policy] else [adult_only]"
  shows "vals (session_groups pol (\<lambda>n. [n]) (\<lambda>_. u ''k'') [0, 1]) = [[0], [1]]"
    and "vals (session_groups pol (\<lambda>n. [n]) (\<lambda>_. u ''k'') [0, 1, 2]) = [[0, 1], [2]]"
  unfolding pol_def by code_simp+

section \<open>The properties\<close>

subsection \<open>Listings to try the properties on\<close>

definition hamlet :: "string \<Rightarrow> string \<Rightarrow> event" where
  "hamlet i d = blank_event\<lparr>ev_id := u i, ev_title := u ''Hamlet'', ev_description := u d,
     ev_startsAt := u ''2026-10-05T17:30:00.000Z'', ev_venue := u ''Moda Sahnesi'',
     ev_city := u ''Istanbul'', ev_category := u ''Tiyatro''\<rparr>"

lemma hamlet_fields [simp]:
  "ev_id (hamlet i d) = u i" "ev_offers (hamlet i d) = None" "ev_mergedIds (hamlet i d) = None"
  by (simp_all add: hamlet_def blank_event_def)

lemma hamlet_parts:
  "parsed_instant (u ''2026-10-05T17:30:00.000Z'') \<noteq> None"
  "merge_normalize turkish_platform (u ''Istanbul'') \<noteq> []"
  "venue_key turkish_platform (u ''Moda Sahnesi'') = u ''moda sahnesi''"
  "merge_normalize turkish_platform (u ''Hamlet'') \<noteq> []"
  by code_simp+

lemma title_groups_named: "list_all (\<lambda>g. merge_normalize turkish_platform (hd g) \<noteq> []) merge_title_groups"
  by code_simp

lemma hamlet_title: "canonical_show_title turkish_platform (u ''Hamlet'') \<noteq> []"
proof (cases "map_of (title_aliases turkish_platform) (merge_normalize turkish_platform (u ''Hamlet''))")
  case None
  then show ?thesis using hamlet_parts(4) by (simp add: canonical_show_title_def Let_def nullish_def)
next
  case (Some t)
  then have "t \<noteq> []"
    using alias_map_group title_groups_named unfolding title_aliases_def list_all_iff by metis
  then show ?thesis using Some by (simp add: canonical_show_title_def Let_def nullish_def)
qed

lemma hamlet_identity:
  obtains i where "\<And>l d. event_session_identity_key turkish_platform (hamlet l d) =
    join [31] [canonical_show_title turkish_platform (u ''Hamlet''),
      merge_normalize turkish_platform (u ''Istanbul''), u ''moda sahnesi'', i]"
proof -
  obtain i where i: "parsed_instant (u ''2026-10-05T17:30:00.000Z'') = Some i"
    using hamlet_parts(1) by blast
  have f: "ev_title (hamlet l d) = u ''Hamlet''" "ev_city (hamlet l d) = u ''Istanbul''"
    "ev_venue (hamlet l d) = u ''Moda Sahnesi''" "ev_startsAt (hamlet l d) = u ''2026-10-05T17:30:00.000Z''"
    "ev_category (hamlet l d) = u ''Tiyatro''" for l d
    by (simp_all add: hamlet_def)
  have cat: "u ''Tiyatro'' \<noteq> u ''Workshop''" "u ''Tiyatro'' \<noteq> u ''Konser''" by (simp_all add: u_def cu_def)
  have r: "reviewed_workshop_identity turkish_platform (hamlet l d) = None" for l d
    by (simp add: reviewed_workshop_identity_def fabrikafa_program_def is_istanbul_workshop_def f cat)
  have v: "identity_of turkish_platform (hamlet l d) = \<lparr>
      mi_title = canonical_show_title turkish_platform (u ''Hamlet''),
      mi_city = merge_normalize turkish_platform (u ''Istanbul''), mi_venue = u ''moda sahnesi'',
      mi_instant = Some i\<rparr>" for l d
    by (simp add: identity_of_def Let_def r f i identity_title_def nullish_def hamlet_parts(3) cat)
  have venue: "u ''moda sahnesi'' \<noteq> []" "u ''moda sahnesi'' \<notin> set generic_venues"
    by (simp_all add: generic_venues_def u_def cu_def)
  show thesis
    by (rule that[of i])
       (simp add: event_session_identity_key_def Let_def v hamlet_title hamlet_parts(2) venue)
qed

text \<open>Two listings for children, and one for adults.\<close>

lemma hamlet_policies:
  "strong_policies turkish_platform (hamlet ''a'' ''Cocuklara ozel'') = [child_only]"
  "strong_policies turkish_platform (hamlet ''b'' ''Cocuklara ozel'') = [child_only]"
  "strong_policies turkish_platform (hamlet ''c'' ''18+'') = [adult_only]"
  by code_simp+

lemma hamlet_groups:
  obtains k l where "merge_groups turkish_platform
      [hamlet ''a'' ''Cocuklara ozel'', hamlet ''c'' ''18+'', hamlet ''b'' ''Cocuklara ozel''] =
    [(k, [hamlet ''a'' ''Cocuklara ozel'', hamlet ''b'' ''Cocuklara ozel'']), (l, [hamlet ''c'' ''18+''])]"
proof -
  let ?a = "hamlet ''a'' ''Cocuklara ozel''" and ?b = "hamlet ''b'' ''Cocuklara ozel''" and ?c = "hamlet ''c'' ''18+''"
  obtain key where key: "\<And>l d. event_session_identity_key turkish_platform (hamlet l d) = key"
    using hamlet_identity by metis
  have c: "conflicting_policy_dimension (strong_policies turkish_platform) [?a, ?c, ?b]
      = Some (u ''audience'', child_only, adult_only)"
    by (simp add: conflicting_policy_dimension_def hamlet_policies)
  have ne: "adult_only \<noteq> child_only" by (simp add: adult_only_def child_only_def u_def cu_def)
  show thesis
    by (rule that[of "key @ [31] @ u ''audience'' @ u '':'' @ child_only" "key @ [31] @ u ''audience'' @ u '':'' @ adult_only"])
       (simp add: merge_groups_def session_groups_def guarded_members_def group_by_def push_at_def key c
          guard_key_def Let_def hamlet_policies ne ne[symmetric])
qed

text \<open>
  C29: merging loses no listing and no offer, and alters none. The groups hold every listing exactly
  once. Every offer of a listing is found on the card that lists the id of the listing, under the id
  of the offer: unaltered, unless an offer of the same session with the same id supersedes it (it
  was checked later, or at the same time with a smaller text). Every offer of the card is an
  unaltered offer of one of its listings.
\<close>

theorem merge_loses_nothing:
  assumes "e \<in> set events" and "x \<in> set (offers_of e)"
  shows "mset (concat (vals (merge_groups P events))) = mset events
    \<and> (\<exists>(k, ms) \<in> set (merge_groups P events). \<exists>card \<in> set (merge_event_sessions P events).
        e \<in> set ms \<and> ev_id e \<in> set (the (ev_mergedIds card))
        \<and> (\<exists>y \<in> set (the (ev_offers card)). of_id y = of_id x \<and> \<not> supersedes P x y)
        \<and> set (the (ev_offers card)) \<subseteq> (\<Union>a \<in> set ms. set (offers_of a)))"
proof -
  from assms(1) obtain k ms where g: "(k, ms) \<in> set (merge_groups P events)" "e \<in> set ms"
    by (rule event_in_group)
  have "mset (concat (vals (merge_groups P events))) = mset events"
    unfolding merge_groups_def by (rule mset_session_groups)
  then show ?thesis using g card_of_group[OF g(1)] listing_kept[OF g assms(2)] by blast
qed

theorem merge_loses_nothing_witness:
  fixes a b c :: event
  defines "a \<equiv> hamlet ''a'' ''Cocuklara ozel''" and "b \<equiv> hamlet ''b'' ''Cocuklara ozel''"
    and "c \<equiv> hamlet ''c'' ''18+''"
  shows "\<exists>card \<in> set (merge_event_sessions turkish_platform [a, c, b]).
     own_offer b \<in> set (the (ev_offers card)) \<and> own_offer c \<notin> set (the (ev_offers card))"
proof -
  obtain k l where groups: "merge_groups turkish_platform [a, c, b] = [(k, [a, b]), (l, [c])]"
    unfolding a_def b_def c_def by (rule hamlet_groups)
  have own: "set (offers_of a) = {own_offer a}" "set (offers_of b) = {own_offer b}" "set (offers_of c) = {own_offer c}"
    by (simp_all add: offers_of_def a_def b_def c_def)
  have ids: "of_id (own_offer a) = u ''a''" "of_id (own_offer b) = u ''b''" "of_id (own_offer c) = u ''c''"
    by (simp_all add: own_offer_def a_def b_def c_def)
  have ne: "a \<noteq> b" "b \<noteq> c" using ids by (auto simp: u_def cu_def)
  have "b \<in> set [a, c, b]" "own_offer b \<in> set (offers_of b)" using own by simp_all
  from merge_loses_nothing[OF this, of turkish_platform] obtain k' ms card y where
    m: "(k', ms) \<in> set (merge_groups turkish_platform [a, c, b])" "b \<in> set ms"
    and card: "card \<in> set (merge_event_sessions turkish_platform [a, c, b])"
    and y: "y \<in> set (the (ev_offers card))" "of_id y = of_id (own_offer b)"
    and sub: "set (the (ev_offers card)) \<subseteq> (\<Union>e \<in> set ms. set (offers_of e))"
    by blast
  have "ms = [a, b]" using m ne by (auto simp: groups)
  then have offers: "set (the (ev_offers card)) \<subseteq> {own_offer a, own_offer b}" using sub own by auto
  have distinct_ids: "u ''a'' \<noteq> u ''b''" "u ''c'' \<noteq> u ''a''" "u ''c'' \<noteq> u ''b''" by (simp_all add: u_def cu_def)
  have "y = own_offer a \<or> y = own_offer b" using y(1) offers by blast
  then have "y = own_offer b" using y(2) ids distinct_ids by metis
  moreover have "own_offer c \<notin> {own_offer a, own_offer b}"
    using ids distinct_ids by (metis insertE singletonD)
  ultimately show ?thesis using card y(1) offers by blast
qed

text \<open>
  C20: the listings of one card describe one performance. For listings with distinct ids that do
  not contain the separator of the keys (unit 31), any two of them have the same identity key
  (title, city, venue and instant). If the listings with that key have no conflict of policies, the
  two do not clash: not one for children and the other for adults, not a workshop and a performance,
  no two adaptations. If they have one, then in the first of their conflicts both stand for the same
  policy (a listing that states both stands for the first, so one for children may share its card
  with one that states both audiences), and a listing that states neither is alone on its card.
\<close>

theorem merged_listings_agree:
  assumes "distinct (map ev_id events)" and "list_all (\<lambda>e. 31 \<notin> set (ev_id e)) events"
    and "(k, ms) \<in> set (merge_groups P events)" and "a \<in> set ms" and "b \<in> set ms" and "a \<noteq> b"
  shows "event_session_identity_key P a = event_session_identity_key P b
    \<and> (case conflicting_policy_dimension (strong_policies P)
           (filter (\<lambda>x. event_session_identity_key P x = event_session_identity_key P a) events) of
         None \<Rightarrow> \<not> policies_clash (strong_policies P a) (strong_policies P b)
       | Some (d, p, q) \<Rightarrow> policy_stand p q (strong_policies P a) \<noteq> None
           \<and> policy_stand p q (strong_policies P a) = policy_stand p q (strong_policies P b))"
proof -
  have "\<forall>e \<in> set events. plain_part (ev_id e)"
    using assms(2) by (simp add: list_all_iff count_list_0_iff)
  from one_identity_key[OF assms(1) this assms(3-5)] show ?thesis
    using group_stands_together[OF assms(1,3-6)] by blast
qed

theorem merged_listings_agree_witness:
  fixes a b c :: event
  defines "a \<equiv> hamlet ''a'' ''Cocuklara ozel''" and "b \<equiv> hamlet ''b'' ''Cocuklara ozel''"
    and "c \<equiv> hamlet ''c'' ''18+''"
  shows "\<exists>k. (k, [a, b]) \<in> set (merge_groups turkish_platform [a, c, b])
     \<and> event_session_identity_key turkish_platform a = event_session_identity_key turkish_platform b
     \<and> policy_stand child_only adult_only (strong_policies turkish_platform a) = Some child_only
     \<and> policy_stand child_only adult_only (strong_policies turkish_platform b) = Some child_only"
proof -
  obtain k l where groups: "merge_groups turkish_platform [a, c, b] = [(k, [a, b]), (l, [c])]"
    unfolding a_def b_def c_def by (rule hamlet_groups)
  then have g: "(k, [a, b]) \<in> set (merge_groups turkish_platform [a, c, b])" by simp
  have ids: "distinct (map ev_id [a, c, b])" "list_all (\<lambda>e. 31 \<notin> set (ev_id e)) [a, c, b]" "a \<noteq> b"
    by (auto simp: a_def b_def c_def u_def cu_def dest: arg_cong[where f = ev_id])
  obtain key where key: "\<And>l d. event_session_identity_key turkish_platform (hamlet l d) = key"
    using hamlet_identity by metis
  have same: "filter (\<lambda>x. event_session_identity_key turkish_platform x
      = event_session_identity_key turkish_platform a) [a, c, b] = [a, c, b]"
    by (simp add: a_def b_def c_def key)
  have conflict: "conflicting_policy_dimension (strong_policies turkish_platform) [a, c, b]
      = Some (u ''audience'', child_only, adult_only)"
    by (simp add: conflicting_policy_dimension_def a_def b_def c_def hamlet_policies)
  have stand: "policy_stand child_only adult_only (strong_policies turkish_platform a) = Some child_only"
    by (simp add: policy_stand_def a_def hamlet_policies)
  show ?thesis
    using g merged_listings_agree[OF ids(1,2) g _ _ ids(3)] unfolding same conflict by (auto simp: stand)
qed

text \<open>
  C30: a card shows one of its offers: price, currency, availability, time of the check, source and
  link are those of the offer. The offer is available if any offer of the card is, and no offer of
  the card in its availability and currency has a lower price.
\<close>

theorem card_shows_lowest_price:
  assumes "comparator_fn (pl_collate P)" and "ms \<noteq> []"
  shows "let card = merge_session P (k, ms)
    in \<exists>x \<in> set (the (ev_offers card)).
      ev_price card = of_price x \<and> ev_currency card = of_currency x
      \<and> ev_availability card = of_availability x \<and> ev_checkedAt card = of_checkedAt x
      \<and> ev_source card = of_source x \<and> ev_url card = of_url x
      \<and> (\<forall>y \<in> set (the (ev_offers card)).
           (of_availability y = Available \<longrightarrow> of_availability x = Available)
           \<and> (of_availability y = of_availability x \<and> of_currency y = of_currency x
              \<longrightarrow> (case of_price y of None \<Rightarrow> True
                   | Some p \<Rightarrow> (case of_price x of None \<Rightarrow> False | Some q \<Rightarrow> q \<le> p))))"
proof -
  let ?ordered = "sort_by (event_order P) ms"
  let ?offers = "unique_offers P ?ordered" and ?r = "select_representative P ?ordered"
  have "?offers \<noteq> []" using assms(2) by (simp add: unique_offers_nonempty)
  then obtain x where x: "select_offer P ?offers ?r = Some x" using select_offer_exists by blast
  then have x_in: "x \<in> set ?offers" using select_offer_member selectable_subset by blast
  have card: "ev_price (merge_session P (k, ms)) = of_price x" "ev_currency (merge_session P (k, ms)) = of_currency x"
    "ev_availability (merge_session P (k, ms)) = of_availability x"
    "ev_checkedAt (merge_session P (k, ms)) = of_checkedAt x"
    "ev_source (merge_session P (k, ms)) = of_source x" "ev_url (merge_session P (k, ms)) = of_url x"
    "the (ev_offers (merge_session P (k, ms))) = ?offers"
    by (simp_all add: merge_session_def Let_def x)
  have available: "of_availability y = Available \<longrightarrow> of_availability x = Available" if "y \<in> set ?offers" for y
    using select_offer_available[OF x that] by blast
  have cheapest: "of_availability y = of_availability x \<and> of_currency y = of_currency x \<longrightarrow>
      (case of_price y of None \<Rightarrow> True | Some p \<Rightarrow> (case of_price x of None \<Rightarrow> False | Some q \<Rightarrow> q \<le> p))"
    if "y \<in> set ?offers" for y
    using select_offer_cheapest[OF assms(1) x that] by (auto split: option.split)
  show ?thesis
    unfolding Let_def card
    by (rule bexI[OF _ x_in]) (intro conjI ballI refl available cheapest; assumption)
qed

text \<open>An available offer at 7 and one at 6 beside a cheaper one that is sold out.\<close>

definition offer_at :: "string \<Rightarrow> availability \<Rightarrow> rat \<Rightarrow> event_offer" where
  "offer_at i a p = \<lparr>of_id = u i, of_session_ids = None, of_source = None, of_url = u i, of_price = Some p,
     of_currency = u ''TRY'', of_checkedAt = [], of_category = [], of_venue = [], of_availability = a\<rparr>"

theorem card_shows_lowest_price_witness:
  "ev_price (merge_session turkish_platform (u ''k'', [blank_event\<lparr>ev_offers :=
     Some [offer_at ''a'' Available 7, offer_at ''b'' Sold_out 5, offer_at ''c'' Available 6]\<rparr>])) = Some 6"
proof -
  let ?a = "offer_at ''a'' Available 7" and ?b = "offer_at ''b'' Sold_out 5" and ?c = "offer_at ''c'' Available 6"
  let ?e = "blank_event\<lparr>ev_offers := Some [?a, ?b, ?c]\<rparr>"
  let ?card = "merge_session turkish_platform (u ''k'', [?e])"
  have collate: "comparator_fn (pl_collate turkish_platform)"
    using comparator_cmp_int[of "\<lambda>s. s :: jstr"] by (simp add: turkish_platform_def)
  have ids: "of_id ?a = u ''a''" "of_id ?b = u ''b''" "of_id ?c = u ''c''" by (simp_all add: offer_at_def)
  have "set (the (ev_offers ?card)) = set (unique_offers turkish_platform [?e])"
    by (simp add: merge_session_offers)
  also have "\<dots> = {?a, ?b, ?c}"
    unfolding unique_offers_def set_sort_by by (simp add: put_offer_def offers_of_def ids)
  finally have offers: "set (the (ev_offers ?card)) = {?a, ?b, ?c}" .
  from card_shows_lowest_price[OF collate, of "[?e]" "u ''k''"] obtain x where
    x: "x \<in> {?a, ?b, ?c}" "ev_price ?card = of_price x"
    and least: "\<forall>y \<in> {?a, ?b, ?c}. (of_availability y = Available \<longrightarrow> of_availability x = Available)
       \<and> (of_availability y = of_availability x \<and> of_currency y = of_currency x
          \<longrightarrow> (case of_price y of None \<Rightarrow> True
               | Some p \<Rightarrow> (case of_price x of None \<Rightarrow> False | Some q \<Rightarrow> q \<le> p)))"
    unfolding Let_def offers by auto
  have facts: "of_availability ?a = Available" "of_availability ?b = Sold_out" "of_availability ?c = Available"
    "of_currency ?a = of_currency ?c" "of_price ?a = Some 7" "of_price ?c = Some 6"
    by (simp_all add: offer_at_def)
  have "x \<noteq> ?b" using least facts by auto
  moreover have "x \<noteq> ?a"
  proof
    assume "x = ?a"
    then show False using bspec[OF least, of ?c] facts by simp
  qed
  ultimately have "x = ?c" using x(1) by blast
  then show ?thesis using x(2) by (simp add: offer_at_def)
qed

section \<open>The caches\<close>

lemma show_identity_fields:
  "display_fields_of a = display_fields_of b \<Longrightarrow>
     show_identity_with P a p = show_identity_with P b p \<and> strong_policies P a = strong_policies P b"
proof -
  assume "display_fields_of a = display_fields_of b"
  then have f: "ev_title a = ev_title b" "ev_description a = ev_description b"
    "ev_venue a = ev_venue b" "ev_district a = ev_district b" "ev_address a = ev_address b"
    "ev_city a = ev_city b" "ev_category a = ev_category b"
    by (simp_all add: display_fields_of_def)
  have pol: "strong_policies P a = strong_policies P b"
    unfolding strong_policies_def f ..
  have w: "is_istanbul_workshop P a = is_istanbul_workshop P b"
    unfolding is_istanbul_workshop_def f ..
  have fab: "fabrikafa_program P a = fabrikafa_program P b"
    unfolding fabrikafa_program_def f w ..
  have m: "matches_reviewed P a = matches_reviewed P b"
    by (intro ext) (simp only: matches_reviewed_def f)
  have r: "reviewed_workshop_identity P a = reviewed_workshop_identity P b"
    unfolding reviewed_workshop_identity_def reviewed_candidate_def f w fab m ..
  have t: "identity_title P a = identity_title P b"
    unfolding identity_title_def f r ..
  have "show_identity_with P a p = show_identity_with P b p"
    unfolding show_identity_with_def rossi_social_night_def sanat_dance_night_def f t ..
  then show ?thesis using pol by blast
qed

text \<open>Every entry of the cache holds the identity of any event with its fields.\<close>

definition display_cache_ok :: "platform \<Rightarrow> display_cache \<Rightarrow> bool" where
  "display_cache_ok P c \<longleftrightarrow>
     (\<forall>(k, f, i) \<in> set (dc_entries c). \<forall>e. display_fields_of e = f \<longrightarrow> i = display_show_identity P e)"

lemma display_cache_empty: "display_cache_ok P \<lparr>dc_source = s, dc_entries = []\<rparr>"
  by (simp add: display_cache_ok_def)

lemma display_cache_bound:
  "display_cache_ok P c \<Longrightarrow> display_cache_ok P (bind_display_identity_source a b c)"
  by (simp add: display_cache_ok_def bind_display_identity_source_def)

lemma display_cache_read:
  assumes ok: "display_cache_ok P c" and pol: "nullish policies (strong_policies P e) = strong_policies P e"
  shows "fst (cached_display_show_identity P k e policies c) = display_show_identity P e
    \<and> display_cache_ok P (snd (cached_display_show_identity P k e policies c))"
proof -
  let ?s = "nullish (map_of (dc_source c) k) k"
  let ?i = "display_show_identity P e"
  let ?c = "c\<lparr>dc_entries := AList.update ?s (display_fields_of e, ?i) (dc_entries c)\<rparr>"
  have same: "display_show_identity P e' = ?i" if "display_fields_of e' = display_fields_of e" for e'
    using show_identity_fields[OF that] by (simp add: display_show_identity_def)
  have fresh: "display_cache_ok P ?c"
  proof -
    let ?Q = "\<lambda>(k :: nat, f, i). \<forall>e. display_fields_of e = f \<longrightarrow> i = display_show_identity P e"
    have "?Q (?s, display_fields_of e, ?i)" unfolding prod.case using same by metis
    then have "\<forall>x \<in> insert (?s, display_fields_of e, ?i) (set (dc_entries c)). ?Q x"
      using ok unfolding display_cache_ok_def by blast
    then have "\<forall>x \<in> set (AList.update ?s (display_fields_of e, ?i) (dc_entries c)). ?Q x"
      using set_AList_update by (meson subsetD)
    then show ?thesis by (simp add: display_cache_ok_def)
  qed
  have read: "cached_display_show_identity P k e policies c =
    (case map_of (dc_entries c) ?s of
       Some (seen, known) \<Rightarrow> if seen = display_fields_of e then (known, c) else (?i, ?c)
     | None \<Rightarrow> (?i, ?c))"
    unfolding cached_display_show_identity_def Let_def pol display_show_identity_def ..
  show ?thesis
  proof (cases "map_of (dc_entries c) ?s")
    case None
    then show ?thesis using fresh by (simp add: read)
  next
    case (Some entry)
    obtain seen known where entry: "entry = (seen, known)" by (cases entry)
    then have "(?s, seen, known) \<in> set (dc_entries c)" using Some by (simp add: map_of_SomeD)
    then have "seen = display_fields_of e \<Longrightarrow> known = ?i" using ok unfolding display_cache_ok_def by fastforce
    then show ?thesis using Some entry fresh ok by (simp add: read)
  qed
qed

definition merge_cache_ok :: "('e list \<Rightarrow> jstr) \<Rightarrow> ('e list \<Rightarrow> 'e list) \<Rightarrow> merge_cache \<Rightarrow> bool" where
  "merge_cache_ok write merge c \<longleftrightarrow>
     (case mc_entry c of
        None \<Rightarrow> True
      | Some (input, output) \<Rightarrow>
          (\<exists>events. input = write events \<and> output = write (merge events))
          \<and> (length input + length output) * 2 \<le> mc_maxRetainedBytes c)"

lemma merge_cache_read:
  assumes ok: "merge_cache_ok write merge c" and json: "\<And>xs. parse (write xs) = xs"
  shows "fst (session_merge_read write parse merge events c) = merge events
    \<and> merge_cache_ok write merge (snd (session_merge_read write parse merge events c))"
proof -
  have inj: "write xs = write ys \<Longrightarrow> xs = ys" for xs ys using json by metis
  show ?thesis
  proof (cases "\<exists>written. mc_entry c = Some (write events, written)")
    case True
    then obtain written where hit: "mc_entry c = Some (write events, written)" by blast
    then have "written = write (merge events)"
      using ok inj unfolding merge_cache_ok_def by fastforce
    then show ?thesis using hit ok by (simp add: session_merge_read_def Let_def json)
  next
    case False
    then have "session_merge_read write parse merge events c =
      (let input = write events; merged = merge events; written = write merged; empty = c\<lparr>mc_entry := None\<rparr>
       in if length input * 2 > mc_maxRetainedBytes c then (merged, empty)
          else if (length input + length written) * 2 \<le> mc_maxRetainedBytes c
          then (merged, c\<lparr>mc_entry := Some (input, written)\<rparr>) else (merged, empty))"
      by (auto simp: session_merge_read_def Let_def split: option.split)
    then show ?thesis by (auto simp: merge_cache_ok_def Let_def)
  qed
qed

text \<open>A sequence of requests through the cache.\<close>

fun session_merge_reads ::
  "('e list \<Rightarrow> jstr) \<Rightarrow> (jstr \<Rightarrow> 'e list) \<Rightarrow> ('e list \<Rightarrow> 'e list) \<Rightarrow> 'e list list \<Rightarrow> merge_cache
     \<Rightarrow> 'e list list \<times> merge_cache" where
  "session_merge_reads write parse merge [] c = ([], c)"
| "session_merge_reads write parse merge (events # later) c =
     (let (merged, c1) = session_merge_read write parse merge events c;
          (rest, c2) = session_merge_reads write parse merge later c1
      in (merged # rest, c2))"

lemma merge_cache_reads:
  assumes "merge_cache_ok write merge c" and "\<And>xs. parse (write xs) = xs"
  shows "fst (session_merge_reads write parse merge requests c) = map merge requests
    \<and> merge_cache_ok write merge (snd (session_merge_reads write parse merge requests c))"
  using assms(1)
proof (induction requests arbitrary: c)
  case (Cons events requests)
  obtain merged c1 where m: "session_merge_read write parse merge events c = (merged, c1)" by fastforce
  then have "merged = merge events" "merge_cache_ok write merge c1"
    using merge_cache_read[OF Cons.prems assms(2), of events] by simp_all
  then show ?case using Cons.IH[of c1] m by (simp add: split_beta)
qed simp

text \<open>
  The retained merge is not observable. Whatever lists of events are read one after the
  other through a new cache, every answer is the merge of its own events, and what the cache
  retains afterwards is within its limit. What the cache relies on is that JSON text reads back
  as the value it was written from.
\<close>

theorem merge_cache_not_observable:
  assumes "\<And>xs. parse (write xs) = xs"
  shows "fst (session_merge_reads write parse merge requests \<lparr>mc_entry = None, mc_maxRetainedBytes = limit\<rparr>)
      = map merge requests
    \<and> (case mc_entry (snd (session_merge_reads write parse merge requests
               \<lparr>mc_entry = None, mc_maxRetainedBytes = limit\<rparr>)) of
         None \<Rightarrow> True | Some (input, output) \<Rightarrow> (length input + length output) * 2 \<le> limit)"
proof -
  let ?c = "\<lparr>mc_entry = None, mc_maxRetainedBytes = limit\<rparr> :: merge_cache"
  let ?r = "session_merge_reads write parse merge requests ?c"
  have limit: "mc_maxRetainedBytes (snd (session_merge_reads write parse merge rs c)) = mc_maxRetainedBytes c"
    for rs c
  proof (induction rs arbitrary: c)
    case (Cons r rs)
    have "mc_maxRetainedBytes (snd (session_merge_read write parse merge r c)) = mc_maxRetainedBytes c"
      by (simp add: session_merge_read_def Let_def split: option.split)
    then show ?case using Cons.IH by (simp add: split_beta)
  qed simp
  have "merge_cache_ok write merge ?c" by (simp add: merge_cache_ok_def)
  from merge_cache_reads[OF this assms, of requests] show ?thesis
    using limit[of requests ?c]
    by (auto simp: merge_cache_ok_def split: option.splits)
qed

theorem merge_cache_not_observable_witness:
  "fst (session_merge_reads (\<lambda>xs. xs) (\<lambda>s. s) rev [[1, 2], [1, 2], [3]]
     \<lparr>mc_entry = None, mc_maxRetainedBytes = 24\<rparr>) = [[2, 1], [2, 1], [3 :: nat]]"
  using merge_cache_not_observable[of "\<lambda>s. s" "\<lambda>xs. xs" rev "[[1, 2], [1, 2], [3]]" 24] by simp

end
