(* ===== verification/Families.thy ===== *)
theory Families
  imports Projection Sessions Session_Facts "HOL-Library.While_Combinator"
begin

text \<open>
  \<open>identityFamilies\<close> of \<open>web/lib/materialized-catalog.ts\<close>: the events that may ever share a
  session form one family. The families are the classes of a parent map over the ids; its two
  loops are \<^const>\<open>while_option\<close>, so that a loop that does not end has no result, and it is
  proved that they end. \<open>collector/identity/event-record.ts\<close> reads an event as the listing that
  identity resolution compares.
\<close>

section \<open>Joining pairs\<close>

fun link_pairs :: "('a \<Rightarrow> 'a \<Rightarrow> 's \<Rightarrow> 's option) \<Rightarrow> ('a \<times> 'a) list \<Rightarrow> 's \<Rightarrow> 's option" where
  "link_pairs link [] s = Some s"
| "link_pairs link ((a, b) # ps) s = Option.bind (link a b s) (link_pairs link ps)"

text \<open>
  The contract of a structure that joins classes: joining two members ends, keeps the structure,
  puts them into one class and separates nothing that was together.
\<close>

locale class_forest =
  fixes ok :: "'s \<Rightarrow> bool" and members :: "'s \<Rightarrow> 'a set"
    and rep :: "'s \<Rightarrow> 'a \<Rightarrow> 'r" and link :: "'a \<Rightarrow> 'a \<Rightarrow> 's \<Rightarrow> 's option"
  assumes link_works: "ok s \<Longrightarrow> a \<in> members s \<Longrightarrow> b \<in> members s \<Longrightarrow>
      \<exists>t. link a b s = Some t \<and> ok t \<and> members t = members s \<and> rep t a = rep t b
        \<and> (\<forall>x \<in> members s. \<forall>y \<in> members s. rep s x = rep s y \<longrightarrow> rep t x = rep t y)"
begin

lemma link_pairs_works:
  assumes "ok s" and "\<forall>(a, b) \<in> set ps. a \<in> members s \<and> b \<in> members s"
  shows "\<exists>t. link_pairs link ps s = Some t \<and> ok t \<and> members t = members s
      \<and> (\<forall>(a, b) \<in> set ps. rep t a = rep t b)
      \<and> (\<forall>x \<in> members s. \<forall>y \<in> members s. rep s x = rep s y \<longrightarrow> rep t x = rep t y)"
  using assms
proof (induction ps arbitrary: s)
  case Nil
  then show ?case by simp
next
  case (Cons p ps)
  obtain a b where p: "p = (a, b)" by (cases p)
  with Cons.prems have ab: "a \<in> members s" "b \<in> members s" by auto
  from link_works[OF Cons.prems(1) ab] obtain t where
    t: "link a b s = Some t" "ok t" "members t = members s" "rep t a = rep t b"
      "\<forall>x \<in> members s. \<forall>y \<in> members s. rep s x = rep s y \<longrightarrow> rep t x = rep t y" by blast
  have "\<forall>(a, b) \<in> set ps. a \<in> members t \<and> b \<in> members t" using Cons.prems(2) t(3) by auto
  from Cons.IH[OF t(2) this] obtain v where
    v: "link_pairs link ps t = Some v" "ok v" "members v = members t"
      "\<forall>(a, b) \<in> set ps. rep v a = rep v b"
      "\<forall>x \<in> members t. \<forall>y \<in> members t. rep t x = rep t y \<longrightarrow> rep v x = rep v y" by blast
  have "rep v a = rep v b" using v(5) t(3,4) ab by blast
  then have "\<forall>(a, b) \<in> set (p # ps). rep v a = rep v b" using v(4) p by simp
  moreover have "\<forall>x \<in> members s. \<forall>y \<in> members s. rep s x = rep s y \<longrightarrow> rep v x = rep v y"
    using t(3,5) v(5) by blast
  moreover have "link_pairs link (p # ps) s = Some v" using v(1) t(1) p by simp
  moreover have "members v = members s" using v(3) t(3) by simp
  ultimately show ?case using v(2) by blast
qed

end

section \<open>The parent map\<close>

type_synonym parents = "(jstr \<times> jstr) list"

definition id_root :: "parents \<Rightarrow> jstr \<Rightarrow> jstr option" where
  "id_root parent x =
     while_option (\<lambda>r. map_of parent r \<noteq> Some r) (\<lambda>r. the (map_of parent r)) x"

definition id_compress :: "parents \<Rightarrow> jstr \<Rightarrow> jstr \<Rightarrow> parents option" where
  "id_compress parent found x =
     map_option snd (while_option (\<lambda>(i, m). map_of m i \<noteq> Some i)
       (\<lambda>(i, m). (the (map_of m i), AList.update i found m)) (x, parent))"

definition id_find :: "parents \<Rightarrow> jstr \<Rightarrow> (jstr \<times> parents) option" where
  "id_find parent x =
     Option.bind (id_root parent x) (\<lambda>r. map_option (Pair r) (id_compress parent r x))"

definition id_union :: "jstr \<Rightarrow> jstr \<Rightarrow> parents \<Rightarrow> parents option" where
  "id_union left right parent =
     Option.bind (id_find parent left) (\<lambda>(a, p1).
     Option.bind (id_find p1 right) (\<lambda>(b, p2).
       Some (if a \<noteq> b
             then AList.update (if a < b then b else a) (if a < b then a else b) p2 else p2)))"

text \<open>Every parent is known and not greater than its child.\<close>

definition parents_ok :: "parents \<Rightarrow> bool" where
  "parents_ok m \<longleftrightarrow> (\<forall>x p. map_of m x = Some p \<longrightarrow> p \<le> x \<and> p \<in> dom (map_of m))"

lemma parents_okD: "parents_ok m \<Longrightarrow> map_of m x = Some p \<Longrightarrow> p \<le> x \<and> p \<in> dom (map_of m)"
  by (simp add: parents_ok_def)

lemma smaller_ids:
  assumes "p \<in> dom (map_of m)" and "p < (x :: jstr)"
  shows "card {y \<in> dom (map_of m). y < p} < card {y \<in> dom (map_of m). y < x}"
proof (rule psubset_card_mono)
  show "finite {y \<in> dom (map_of m). y < x}" by (simp add: finite_dom_map_of)
  show "{y \<in> dom (map_of m). y < p} \<subset> {y \<in> dom (map_of m). y < x}" using assms by auto
qed

lemma climbing_induct [consumes 2, case_names climb]:
  assumes ok: "parents_ok m" and x: "x \<in> dom (map_of m)"
    and climb: "\<And>x p. map_of m x = Some p \<Longrightarrow> (p \<noteq> x \<Longrightarrow> p < x \<Longrightarrow> P p) \<Longrightarrow> P x"
  shows "P x"
  using x
proof (induction "card {y \<in> dom (map_of m). y < x}" arbitrary: x rule: less_induct)
  case less
  then obtain p where p: "map_of m x = Some p" by auto
  have "P p" if "p \<noteq> x" "p < x"
    using less.hyps[OF smaller_ids[of p m x]] parents_okD[OF ok p] that by blast
  then show ?case using climb[OF p] by blast
qed

lemma id_root_step:
  "map_of m x = Some p \<Longrightarrow> id_root m x = (if p = x then Some x else id_root m p)"
  unfolding id_root_def by (subst while_option_unfold) simp

lemma id_root_works:
  assumes "parents_ok m" and "x \<in> dom (map_of m)"
  shows "\<exists>r. id_root m x = Some r \<and> map_of m r = Some r \<and> r \<le> x"
  using assms
proof (induction rule: climbing_induct)
  case (climb x p)
  show ?case
  proof (cases "p = x")
    case True
    then show ?thesis using climb(1) id_root_step[OF climb(1)] by simp
  next
    case False
    then have "p < x" using parents_okD[OF assms(1) climb(1)] by (simp add: less_le)
    then show ?thesis using climb(2) False id_root_step[OF climb(1)] by force
  qed
qed

lemma id_root_same_after:
  assumes ok: "parents_ok m" and i: "id_root m i = Some r" "i \<in> dom (map_of m)"
    and m1: "m1 = AList.update i r m"
  shows "parents_ok m1 \<and> dom (map_of m1) = dom (map_of m)
    \<and> (\<forall>y \<in> dom (map_of m). id_root m1 y = id_root m y)"
proof -
  obtain r' where r': "id_root m i = Some r'" "map_of m r' = Some r'" "r' \<le> i"
    using id_root_works[OF ok i(2)] by blast
  then have r: "map_of m r = Some r" "r \<le> i" using i(1) by simp_all
  have lookup: "map_of m1 = (map_of m)(i \<mapsto> r)" by (simp add: m1 update_conv')
  have same: "id_root m1 y = id_root m y" if "y \<in> dom (map_of m)" for y
    using ok that
  proof (induction rule: climbing_induct)
    case (climb x p)
    have root: "id_root m1 r = Some r" using id_root_step[of m1 r r] lookup r(1) by simp
    show ?case
    proof (cases "x = i")
      case True
      then have "map_of m1 x = Some r" by (simp add: lookup)
      then have "id_root m1 x = Some r" using id_root_step[of m1 x r] root by auto
      then show ?thesis using True i(1) by simp
    next
      case False
      then have m1x: "map_of m1 x = Some p" using climb(1) by (simp add: lookup)
      have "p \<noteq> x \<Longrightarrow> p < x" using parents_okD[OF ok climb(1)] by (simp add: less_le)
      then show ?thesis
        using climb(2) id_root_step[OF m1x] id_root_step[OF climb(1)] by auto
    qed
  qed
  have "parents_ok m1" using ok r i(2) by (auto simp: parents_ok_def lookup)
  moreover have "dom (map_of m1) = dom (map_of m)" using i(2) by (auto simp: lookup)
  ultimately show ?thesis using same by blast
qed

lemma id_compress_works:
  assumes "parents_ok m" and "id_root m i = Some r" and "i \<in> dom (map_of m)"
  shows "\<exists>m1. id_compress m r i = Some m1 \<and> parents_ok m1 \<and> dom (map_of m1) = dom (map_of m)
    \<and> (\<forall>y \<in> dom (map_of m). id_root m1 y = id_root m y)"
  using assms
proof (induction "card {y \<in> dom (map_of m). y < i}" arbitrary: m i rule: less_induct)
  case less
  obtain p where p: "map_of m i = Some p" using less.prems(3) by auto
  have unfold: "id_compress m r i =
      (if p = i then Some m else id_compress (AList.update i r m) r p)"
    unfolding id_compress_def by (subst while_option_unfold) (simp add: p)
  show ?case
  proof (cases "p = i")
    case True
    then show ?thesis using unfold less.prems by simp
  next
    case False
    then have pi: "p < i" "p \<in> dom (map_of m)" using parents_okD[OF less.prems(1) p] by auto
    let ?m1 = "AList.update i r m"
    note m1 = id_root_same_after[OF less.prems(1-3) refl]
    have "id_root ?m1 p = Some r"
      using m1 pi(2) id_root_step[OF p] False less.prems(2) by simp
    moreover have "card {y \<in> dom (map_of ?m1). y < p} < card {y \<in> dom (map_of m). y < i}"
      using smaller_ids[OF pi(2,1)] m1 by simp
    ultimately obtain m2 where "id_compress ?m1 r p = Some m2" "parents_ok m2"
        "dom (map_of m2) = dom (map_of ?m1)" "\<forall>y \<in> dom (map_of ?m1). id_root m2 y = id_root ?m1 y"
      using less.hyps[of ?m1 p] m1 pi(2) by blast
    then show ?thesis using unfold False m1 by auto
  qed
qed

lemma id_find_works:
  assumes "parents_ok m" and "i \<in> dom (map_of m)"
  shows "\<exists>r m1. id_find m i = Some (r, m1) \<and> id_root m i = Some r \<and> map_of m r = Some r
    \<and> parents_ok m1 \<and> dom (map_of m1) = dom (map_of m)
    \<and> (\<forall>y \<in> dom (map_of m). id_root m1 y = id_root m y)"
proof -
  obtain r where r: "id_root m i = Some r" "map_of m r = Some r"
    using id_root_works[OF assms] by blast
  with id_compress_works[OF assms(1) r(1) assms(2)] show ?thesis
    by (auto simp: id_find_def)
qed

text \<open>Joining two roots: the class of the greater one gets the smaller one.\<close>

lemma id_root_joined:
  assumes ok: "parents_ok m" and hi: "map_of m hi = Some hi" and lo: "map_of m lo = Some lo"
    and "lo < hi" and m1: "m1 = AList.update hi lo m"
  shows "parents_ok m1 \<and> dom (map_of m1) = dom (map_of m)
    \<and> (\<forall>y \<in> dom (map_of m). id_root m1 y = (if id_root m y = Some hi then Some lo else id_root m y))"
proof -
  have lookup: "map_of m1 = (map_of m)(hi \<mapsto> lo)" by (simp add: m1 update_conv')
  have ends: "id_root m hi = Some hi" "id_root m1 hi = Some lo"
    using id_root_step[OF hi] id_root_step[of m1 hi lo] id_root_step[of m1 lo lo] lookup lo \<open>lo < hi\<close>
    by auto
  have "id_root m1 y = (if id_root m y = Some hi then Some lo else id_root m y)"
    if "y \<in> dom (map_of m)" for y
    using ok that
  proof (induction rule: climbing_induct)
    case (climb x p)
    show ?case
    proof (cases "x = hi")
      case True
      then show ?thesis using ends by simp
    next
      case False
      then have m1x: "map_of m1 x = Some p" using climb(1) by (simp add: lookup)
      have "p \<noteq> x \<Longrightarrow> p < x" using parents_okD[OF ok climb(1)] by (simp add: less_le)
      then show ?thesis
        using climb(2) id_root_step[OF m1x] id_root_step[OF climb(1)] False by auto
    qed
  qed
  moreover have "parents_ok m1" using ok lo \<open>lo < hi\<close> by (auto simp: parents_ok_def lookup)
  moreover have "dom (map_of m1) = dom (map_of m)" using hi by (auto simp: lookup)
  ultimately show ?thesis by blast
qed

lemma id_union_works:
  assumes ok: "parents_ok m" and "a \<in> dom (map_of m)" and "b \<in> dom (map_of m)"
  shows "\<exists>t. id_union a b m = Some t \<and> parents_ok t \<and> dom (map_of t) = dom (map_of m)
    \<and> id_root t a = id_root t b
    \<and> (\<forall>x \<in> dom (map_of m). \<forall>y \<in> dom (map_of m). id_root m x = id_root m y \<longrightarrow> id_root t x = id_root t y)"
proof -
  obtain ra m1 where a: "id_find m a = Some (ra, m1)" "id_root m a = Some ra" "map_of m ra = Some ra"
    and m1: "parents_ok m1" "dom (map_of m1) = dom (map_of m)"
      "\<forall>y \<in> dom (map_of m). id_root m1 y = id_root m y"
    using id_find_works[OF ok assms(2)] by blast
  obtain rb m2 where b: "id_find m1 b = Some (rb, m2)" "id_root m1 b = Some rb" "map_of m1 rb = Some rb"
    and m2': "parents_ok m2" "dom (map_of m2) = dom (map_of m)"
      "\<forall>y \<in> dom (map_of m). id_root m2 y = id_root m1 y"
    using id_find_works[OF m1(1), of b] assms(3) unfolding m1(2) by blast
  have m2: "parents_ok m2" "dom (map_of m2) = dom (map_of m)"
      "\<forall>y \<in> dom (map_of m). id_root m2 y = id_root m y"
    using m2' m1(3) by simp_all
  have roots: "id_root m2 a = Some ra" "id_root m2 b = Some rb"
    using m2(3) m1(3) a(2) b(2) assms by auto
  have fixed: "map_of m2 ra = Some ra" "map_of m2 rb = Some rb"
    using id_root_works[OF m2(1)] roots m2(2) assms by (metis option.inject)+
  define hi lo where hl: "hi = (if ra < rb then rb else ra)" "lo = (if ra < rb then ra else rb)"
  define t where "t = (if ra \<noteq> rb then AList.update hi lo m2 else m2)"
  have t: "id_union a b m = Some t"
    by (simp add: id_union_def a(1) b(1) t_def hl)
  show ?thesis
  proof (cases "ra = rb")
    case True
    then show ?thesis using t t_def m2 roots by auto
  next
    case False
    then have "lo < hi" by (cases ra rb rule: linorder_cases) (simp_all add: hl)
    have ends: "map_of m2 hi = Some hi" "map_of m2 lo = Some lo" using fixed by (simp_all add: hl)
    note j = id_root_joined[OF m2(1) ends \<open>lo < hi\<close> refl]
    have tt: "t = AList.update hi lo m2" using False by (simp add: t_def)
    have "id_root t a = id_root t b"
      using j roots m2(2) assms False unfolding tt by (auto simp: hl)
    moreover have "id_root t x = id_root t y"
      if "x \<in> dom (map_of m)" "y \<in> dom (map_of m)" "id_root m x = id_root m y" for x y
      using j m2(2,3) that unfolding tt by simp
    moreover have "parents_ok t" "dom (map_of t) = dom (map_of m)" using j m2(2) unfolding tt by auto
    ultimately show ?thesis using t by blast
  qed
qed

interpretation ids: class_forest parents_ok "\<lambda>m. dom (map_of m)" id_root id_union
  by unfold_locales (rule id_union_works)

section \<open>Events as listings\<close>

definition json_text :: "json \<Rightarrow> string \<Rightarrow> jstr" where
  "json_text v k = or_empty (as_str (jget v k))"

definition json_geo :: "json \<Rightarrow> venue_geo option" where
  "json_geo v =
     (case (as_fin (jget v ''lat''), as_fin (jget v ''lon'')) of
        (Some la, Some lo) \<Rightarrow> Some \<lparr>geo_lat = la, geo_lon = lo\<rparr> | _ \<Rightarrow> None)"

definition json_timing :: "json \<Rightarrow> attendance_timing option" where
  "json_timing v = (case parse_attendance_timing v of Inr t \<Rightarrow> t | Inl _ \<Rightarrow> None)"

text \<open>The listing of an event: the retained provider listing, which was validated, or the event.\<close>

definition listing_of_event :: "event \<Rightarrow> identity_listing" where
  "listing_of_event e =
     (case ev_providerListing e of
        Some v \<Rightarrow>
          let venue = jget v ''venue'' in
          \<lparr>il_listingId = ev_id e, il_provider = json_text v ''provider'',
           il_title = json_text v ''title'', il_description = json_text v ''description'',
           il_category = json_text v ''category'', il_startsAt = json_text v ''startsAt'',
           il_attendanceTiming = json_timing (jget v ''attendanceTiming''),
           il_venue = \<lparr>vn_name = json_text venue ''name'',
             vn_providerVenueId = as_str (jget venue ''providerVenueId''),
             vn_address = as_str (jget venue ''address''),
             vn_district = as_str (jget venue ''district''), vn_geo = json_geo (jget venue ''geo'')\<rparr>,
           il_city = as_str (jget v ''city'')\<rparr>
      | None \<Rightarrow>
          \<lparr>il_listingId = ev_id e,
           il_provider = (case ev_source e of Some s \<Rightarrow> s | None \<Rightarrow> u ''legacy-unknown''),
           il_title = ev_title e, il_description = ev_description e, il_category = ev_category e,
           il_startsAt = ev_startsAt e, il_attendanceTiming = ev_attendanceTiming e,
           il_venue = \<lparr>vn_name = ev_venue e, vn_providerVenueId = None,
             vn_address = Some (ev_address e), vn_district = Some (ev_district e), vn_geo = None\<rparr>,
           il_city = Some (ev_city e)\<rparr>)"

definition resolve_event_record_identity :: "platform \<Rightarrow> event list \<Rightarrow> identity_resolution res" where
  "resolve_event_record_identity P events = resolve_identity P (map listing_of_event events)"

section \<open>Families\<close>

definition session_links :: "resolved_session list \<Rightarrow> (jstr \<times> jstr) list" where
  "session_links sessions =
     concat (map (\<lambda>s. map (Pair (hd (rs_listingIds s))) (tl (rs_listingIds s))) sessions)"

definition joins_family :: "identity_decision \<Rightarrow> bool" where
  "joins_family d \<longleftrightarrow> idn_rule d = u ''policy-conflict'' \<or> starts_with (idn_rule d) (u ''graph-'')"

definition decision_links :: "identity_decision list \<Rightarrow> (jstr \<times> jstr) list" where
  "decision_links decisions = map idn_listingIds (filter joins_family decisions)"

fun group_families ::
  "event list \<Rightarrow> parents \<Rightarrow> (jstr \<times> event list) list \<Rightarrow> (jstr \<times> event list) list option" where
  "group_families [] parent acc = Some acc"
| "group_families (e # es) parent acc =
     Option.bind (id_find parent (ev_id e)) (\<lambda>(r, p). group_families es p (push_at r e acc))"

definition families_of :: "event list \<Rightarrow> identity_resolution \<Rightarrow> event list list option" where
  "families_of events resolution =
     Option.bind (link_pairs id_union
         (session_links (ir_sessions resolution) @ decision_links (ir_decisions resolution))
         (fold (\<lambda>e. AList.update (ev_id e) (ev_id e)) events []))
       (\<lambda>parent. map_option vals (group_families events parent []))"

text \<open>\<open>None\<close> inside the result is a loop that does not end.\<close>

definition identity_families :: "platform \<Rightarrow> event list \<Rightarrow> event list list option res" where
  "identity_families P events =
     rbind (resolve_event_record_identity P events) (\<lambda>r. Inr (families_of events r))"

section \<open>The ids of decisions\<close>

lemma sorted_pair_ids: "fst (sorted_pair a b) \<in> {a, b} \<and> snd (sorted_pair a b) \<in> {a, b}"
  by (simp add: sorted_pair_def)

lemma assess_ids:
  "idn_listingIds (assess_identity_pair P l r lv rv) = sorted_pair (il_listingId l) (il_listingId r)"
  unfolding assess_identity_pair_def Let_def by (simp split: option.split)

lemma decide_pair_ids:
  "decide_pair P V bucket l r = Some d \<Longrightarrow> idn_listingIds d = sorted_pair (il_listingId l) (il_listingId r)"
  unfolding decide_pair_def Let_def by (auto simp: assess_ids split: if_splits)

definition ids_within :: "jstr set \<Rightarrow> identity_decision list \<Rightarrow> bool" where
  "ids_within X ds \<longleftrightarrow> set (map idn_listingIds ds) \<subseteq> X \<times> X"

lemma decide_all_ids:
  "ids_within (il_listingId ` set ls) (dst_decisions (decide_all P V ls))"
  unfolding decide_all_def
proof (rule fold_keeps, goal_cases)
  case 1
  show ?case by (simp add: ids_within_def)
next
  case (2 ks st)
  have ks: "i < length ls" if "i \<in> set ks" for i
    using 2(1) that by (auto simp: group_by_member)
  show ?case
  proof (rule fold_keeps[where Q = "\<lambda>st. ids_within (il_listingId ` set ls) (dst_decisions st)", OF 2(2)], goal_cases)
    case (1 ij st)
    let ?l = "ls ! fst ij" and ?r = "ls ! snd ij"
    have "?l \<in> set ls" "?r \<in> set ls" using pairs_of_set[OF 1(1)] ks by auto
    then have "idn_listingIds d \<in> il_listingId ` set ls \<times> il_listingId ` set ls"
      if "decide_pair P V (map ((!) ls) ks) ?l ?r = Some d" for d
      using decide_pair_ids[OF that] sorted_pair_ids[of "il_listingId ?l" "il_listingId ?r"]
      by (auto simp: mem_Times_iff)
    then show ?case
      using 1(2) by (auto simp: record_decision_def ids_within_def split: option.split)
  qed
qed

lemma join_pair_ids:
  "map idn_listingIds (snd (join_pair ls byPair ij st)) = map idn_listingIds (snd st)"
proof -
  have "map idn_listingIds (ds[k := reject_decision c (ds ! k)]) = map idn_listingIds ds" for ds k c
    by (cases "k < length ds")
       (simp_all add: map_update reject_decision_def list_update_same_conv list_update_beyond)
  then show ?thesis
    by (cases ij; cases st) (simp add: join_pair_def Let_def split: prod.split option.split)
qed

lemma join_all_ids:
  "map idn_listingIds (snd (join_all P ls st)) = map idn_listingIds (dst_decisions st)"
proof -
  have "map idn_listingIds (snd (fold (join_pair ls keyed) ps s)) = map idn_listingIds (snd s)"
    for keyed ps s
    by (induction ps arbitrary: s) (simp_all add: join_pair_ids)
  then show ?thesis by (simp add: join_all_def)
qed

lemma resolve_identity_decision_ids:
  assumes "resolve_identity P ls = Inr r"
  shows "ids_within (il_listingId ` set ls) (ir_decisions r)"
proof -
  obtain V ordered where ordered: "ordered = sort_by (\<lambda>a b. pl_collate P (il_listingId a) (il_listingId b))
      (map drop_unusable_geo ls)" and r: "ir_decisions r = snd (resolve_sessions P V ordered)"
    using assms by (rule resolve_identity_Inr) blast
  have o: "set (map il_listingId ordered) = il_listingId ` set ls"
    by (simp add: ordered image_image)
  have "set (map idn_listingIds (ir_decisions r)) = set (map idn_listingIds (snd (join_all P ordered (decide_all P V ordered))))"
    by (simp add: r resolve_sessions_def Let_def split: prod.split)
  then show ?thesis
    using decide_all_ids[of ordered P V] o unfolding ids_within_def join_all_ids by simp
qed

section \<open>Families are classes\<close>

lemma own_parents:
  assumes "\<forall>x p. map_of m x = Some p \<longrightarrow> p = x"
  shows "let m' = fold (\<lambda>e. AList.update (ev_id e) (ev_id e)) events m
    in (\<forall>x p. map_of m' x = Some p \<longrightarrow> p = x) \<and> dom (map_of m') = dom (map_of m) \<union> ev_id ` set events"
  using assms
proof (induction events arbitrary: m)
  case (Cons e es)
  have "\<forall>x p. map_of (AList.update (ev_id e) (ev_id e) m) x = Some p \<longrightarrow> p = x"
    using Cons.prems by (simp add: update_conv')
  from Cons.IH[OF this] show ?case 
    by (simp only: Let_def update_conv' dom_fun_upd fold_simps comp_def option.distinct if_False
        list.set image_insert) blast
qed simp

lemma initial_parents:
  "parents_ok (fold (\<lambda>e. AList.update (ev_id e) (ev_id e)) events [])
   \<and> dom (map_of (fold (\<lambda>e. AList.update (ev_id e) (ev_id e)) events [])) = ev_id ` set events"
proof -
  let ?m = "fold (\<lambda>e. AList.update (ev_id e) (ev_id e)) events []"
  have own: "\<forall>x p. map_of ?m x = Some p \<longrightarrow> p = x" and dom: "dom (map_of ?m) = ev_id ` set events"
    using own_parents[of "[]" events] by (simp_all add: Let_def)
  have "p \<le> x \<and> p \<in> dom (map_of ?m)" if "map_of ?m x = Some p" for x p
    using own that by (metis domI order_refl)
  then show ?thesis using dom unfolding parents_ok_def by blast
qed

lemma group_families_works:
  assumes "parents_ok m" and "ev_id ` set es \<subseteq> dom (map_of m)"
  shows "group_families es m g = Some (fold (\<lambda>e. push_at (the (id_root m (ev_id e))) e) es g)"
  using assms
proof (induction es arbitrary: m g)
  case (Cons e es)
  obtain r m1 where f: "id_find m (ev_id e) = Some (r, m1)" "id_root m (ev_id e) = Some r"
    and m1: "parents_ok m1" "dom (map_of m1) = dom (map_of m)"
      "\<forall>y \<in> dom (map_of m). id_root m1 y = id_root m y"
    using id_find_works[OF Cons.prems(1), of "ev_id e"] Cons.prems(2) by auto
  have "fold (\<lambda>e. push_at (the (id_root m1 (ev_id e))) e) es h
      = fold (\<lambda>e. push_at (the (id_root m (ev_id e))) e) es h" for h
  proof (rule fold_cong[OF refl refl])
    fix x assume "x \<in> set es"
    then have "ev_id x \<in> dom (map_of m)" using Cons.prems(2) by (simp add: image_subset_iff)
    then show "push_at (the (id_root m1 (ev_id x))) x = push_at (the (id_root m (ev_id x))) x"
      using m1(3) by simp
  qed
  then show ?case using Cons.IH[of m1] f m1(1,2) Cons.prems(2) by simp
qed simp

lemma families_of_works:
  assumes "\<forall>(a, b) \<in> set (session_links (ir_sessions r) @ decision_links (ir_decisions r)).
      a \<in> ev_id ` set events \<and> b \<in> ev_id ` set events"
  obtains f :: "jstr \<Rightarrow> jstr" where "families_of events r = Some (vals (group_by (\<lambda>e. f (ev_id e)) events))"
    and "\<forall>(a, b) \<in> set (session_links (ir_sessions r) @ decision_links (ir_decisions r)). f a = f b"
proof -
  let ?m = "fold (\<lambda>e. AList.update (ev_id e) (ev_id e)) events []"
  let ?links = "session_links (ir_sessions r) @ decision_links (ir_decisions r)"
  note m = initial_parents[of events]
  obtain t where t: "link_pairs id_union ?links ?m = Some t" "parents_ok t"
      "dom (map_of t) = ev_id ` set events" "\<forall>(a, b) \<in> set ?links. id_root t a = id_root t b"
    using ids.link_pairs_works[of ?m ?links] m assms by auto
  have "group_families events t [] = Some (group_by (\<lambda>e. the (id_root t (ev_id e))) events)"
    using group_families_works[OF t(2), of events "[]"] t(3) by (simp add: group_by_def)
  then have "families_of events r = Some (vals (group_by (\<lambda>e. the (id_root t (ev_id e))) events))"
    by (simp add: families_of_def t(1))
  moreover have "\<forall>(a, b) \<in> set ?links. the (id_root t a) = the (id_root t b)" using t(4) by fastforce
  ultimately show thesis by (rule that[of "\<lambda>x. the (id_root t x)"])
qed

lemma il_listingId_of_event [simp]: "il_listingId (listing_of_event e) = ev_id e"
  by (simp add: listing_of_event_def Let_def split: option.split)

lemma ids_of_listings: "map il_listingId (map listing_of_event events) = map ev_id events"
  by simp

lemma resolve_sessions_nonempty:
  assumes "s \<in> set (fst (resolve_sessions P V ls))"
  shows "rs_listingIds s \<noteq> []"
proof -
  let ?comps = "component_lists (length ls) (fst (join_all P ls (decide_all P V ls)))"
  have "mset (rs_listingIds s) \<in># mset (map (mset \<circ> rs_listingIds) (fst (resolve_sessions P V ls)))"
    using assms by auto
  then obtain c where c: "c \<in> set ?comps" "mset (rs_listingIds s) = mset (map il_listingId (map ((!) ls) c))"
    unfolding resolve_sessions_ids by auto
  then have "c \<noteq> []" using component_lists_member[OF join_all_class_ok] by blast
  then show ?thesis using c(2) by auto
qed

lemma resolve_identity_nonempty:
  assumes "resolve_identity P ls = Inr r" and "s \<in> set (ir_sessions r)"
  shows "rs_listingIds s \<noteq> []"
  using assms(1)
proof (rule resolve_identity_Inr)
  fix V ordered
  assume "ir_sessions r = fst (resolve_sessions P V ordered)"
  then show ?thesis using assms(2) resolve_sessions_nonempty by metis
qed

lemma session_links_joined:
  assumes "s \<in> set sessions" and "x \<in> set (rs_listingIds s)"
    and "\<forall>(a, b) \<in> set (session_links sessions). f a = f b"
  shows "f x = f (hd (rs_listingIds s))"
proof (cases "rs_listingIds s")
  case (Cons y ys)
  then have "x = y \<or> (y, x) \<in> set (session_links sessions)"
    using assms(1,2) by (fastforce simp: session_links_def)
  then show ?thesis using assms(3) Cons by fastforce
qed (use assms(2) in simp)

lemma session_links_ids:
  "(a, b) \<in> set (session_links sessions) \<Longrightarrow> a \<in> set (concat (map rs_listingIds sessions))
     \<and> b \<in> set (concat (map rs_listingIds sessions))"
proof -
  assume "(a, b) \<in> set (session_links sessions)"
  then obtain s where s: "s \<in> set sessions" "a = hd (rs_listingIds s)" "b \<in> set (tl (rs_listingIds s))"
    by (auto simp: session_links_def)
  then have "a \<in> set (rs_listingIds s)" "b \<in> set (rs_listingIds s)"
    by (cases "rs_listingIds s"; simp)+
  then show ?thesis using s(1) by auto
qed

lemma identity_families_works:
  assumes "resolve_event_record_identity P events = Inr r"
  obtains f :: "jstr \<Rightarrow> jstr" where "identity_families P events = Inr (Some (vals (group_by (\<lambda>e. f (ev_id e)) events)))"
    and "\<forall>s \<in> set (ir_sessions r). \<forall>x \<in> set (rs_listingIds s). f x = f (hd (rs_listingIds s))"
proof -
  note r = assms[unfolded resolve_event_record_identity_def]
  have ids: "set (concat (map rs_listingIds (ir_sessions r))) = ev_id ` set events"
    using resolve_identity_sessions[OF r] by (metis ids_of_listings set_map set_mset_mset)
  have decisions: "ids_within (ev_id ` set events) (ir_decisions r)"
    using resolve_identity_decision_ids[OF r] by (simp add: image_image)
  have "a \<in> ev_id ` set events \<and> b \<in> ev_id ` set events"
    if "(a, b) \<in> set (session_links (ir_sessions r) @ decision_links (ir_decisions r))" for a b
    using that session_links_ids[of a b "ir_sessions r"] ids decisions
    by (auto simp: decision_links_def ids_within_def)
  then have "\<forall>(a, b) \<in> set (session_links (ir_sessions r) @ decision_links (ir_decisions r)).
      a \<in> ev_id ` set events \<and> b \<in> ev_id ` set events" by blast
  then obtain f :: "jstr \<Rightarrow> jstr" where f: "families_of events r = Some (vals (group_by (\<lambda>e. f (ev_id e)) events))"
    and links: "\<forall>(a, b) \<in> set (session_links (ir_sessions r) @ decision_links (ir_decisions r)). f a = f b"
    by (rule families_of_works)
  have "\<forall>s \<in> set (ir_sessions r). \<forall>x \<in> set (rs_listingIds s). f x = f (hd (rs_listingIds s))"
    using session_links_joined[of _ "ir_sessions r" _ f] links by simp
  moreover have "identity_families P events = Inr (Some (vals (group_by (\<lambda>e. f (ev_id e)) events)))"
    using f assms by (simp add: identity_families_def)
  ultimately show thesis using that by blast
qed

end
