(* ===== verification/Materialized.thy ===== *)
theory Materialized
  imports Families Control Eligibility
begin

text \<open>
  \<open>web/lib/materialized-catalog.ts\<close>: the search catalog that a publication prepares. Every
  family of listings gets the versions of its cards for every instant made which the eligibility
  of a member changes; a request selects the version of its time. \<open>JSON.stringify\<close> of a list of
  cards is the parameter \<open>encode\<close>.
\<close>

section \<open>The card of a resolved session\<close>

definition has_standup_evidence :: "platform \<Rightarrow> event \<Rightarrow> bool" where
  "has_standup_evidence P e =
     standup_stated (normalized_evidence P (ev_title e @ [32] @ ev_description e))"

definition representative_of :: "platform \<Rightarrow> event list \<Rightarrow> event" where
  "representative_of P events =
     hd (sort_by (event_order P) (standup_first (has_standup_evidence P) events))"

definition attendance_of :: "platform \<Rightarrow> event list \<Rightarrow> attendance_timing option" where
  "attendance_of P events =
     (case List.map_filter ev_attendanceTiming events of
        [] \<Rightarrow> if list_ex (\<lambda>e. source_time_is_doors_only (ev_description e)) events
              then Some UnknownTiming else None
      | t # ts \<Rightarrow>
          if list_all (\<lambda>v. stringify P (timing_json v) = stringify P (timing_json t)) (t # ts)
          then Some t else Some UnknownTiming)"

definition canonical_hash :: "platform \<Rightarrow> string \<Rightarrow> jstr list \<Rightarrow> jstr" where
  "canonical_hash P kind parts =
     u kind @ u ''-'' @ take 32 (sha256_hex (stringify P (JArr (map JStr parts))))"

definition selected_source :: "event list \<Rightarrow> event_offer \<Rightarrow> event option" where
  "selected_source events offer =
     find (\<lambda>e. ev_id e = of_id offer \<and> ev_source e = of_source offer \<and> ev_url e = of_url offer) events"

definition project_resolved_session :: "platform \<Rightarrow> event list \<Rightarrow> jstr \<Rightarrow> jstr \<Rightarrow> event" where
  "project_resolved_session P events sessionId venueId =
     (let ordered = sort_by (event_order P) events;
          representative = representative_of P ordered;
          offers = unique_offers P ordered;
          offer = the (select_offer P offers representative);
          source = selected_source ordered offer;
          from_source = (\<lambda>f. case source of Some e \<Rightarrow> f e | None \<Rightarrow> None);
          title = normalize_title_key P (ev_title representative) (ev_category representative);
          city = normalize_identity_text P (ev_city representative)
      in representative\<lparr>
           ev_providerListing := None, ev_sourceSessionIds := of_session_ids offer,
           ev_sourceCategory := from_source ev_sourceCategory,
           ev_sourceVersion := from_source ev_sourceVersion,
           ev_extraction := from_source ev_extraction,
           ev_address := session_address (normalized_evidence P) ordered representative,
           ev_id := (if length events = 1 then ev_id representative
                     else u ''session-'' @ take 32 sessionId),
           ev_source := of_source offer, ev_url := of_url offer, ev_price := of_price offer,
           ev_currency := of_currency offer, ev_availability := of_availability offer,
           ev_checkedAt := of_checkedAt offer, ev_offers := Some offers,
           ev_mergedIds := Some (merged_ids sessionId ordered),
           ev_attendanceTiming :=
             or_else (attendance_of P ordered) (ev_attendanceTiming representative),
           ev_canonicalProductionKey :=
             Some (canonical_hash P ''production'' [city, venueId, nt_key title]),
           ev_canonicalShowKey := Some (canonical_hash P ''show'' [city, nt_category title, nt_key title])\<rparr>)"

text \<open>The search record of a card, and the unknown timing of a museum or an exhibition.\<close>

definition prepare_card :: "platform \<Rightarrow> event \<Rightarrow> event" where
  "prepare_card P e =
     (let f = \<lparr>sf_title = ev_title e, sf_category = ev_category e, sf_venue = ev_venue e,
               sf_description = ev_description e\<rparr>;
          documentText = voyage_document_text f
      in e\<lparr>
           ev_attendanceTiming :=
             (if ev_attendanceTiming e = None \<and> ev_category e \<in> {tr ''M~uze'', tr ''Sergi''}
              then Some UnknownTiming else ev_attendanceTiming e),
           ev_preparedSearch := Some \<lparr>ps_documentText = documentText,
             ps_documentHash = sha256_hex documentText,
             ps_lexicalTokens = prepare_lexical_tokens P f,
             ps_location = Some (prepare_event_location P (Some (ev_district e)) (Some (ev_address e)))\<rparr>\<rparr>)"

section \<open>The events of a catalog\<close>

definition contradicts_itself :: "platform \<Rightarrow> event \<Rightarrow> bool" where
  "contradicts_itself P e \<longleftrightarrow>
     explicit_door_time_start_conflict P (ev_description e) (ev_startsAt e)
     \<or> same_event_sold_out_conflict P (ev_availability e = Available) (ev_title e) (ev_description e)
         (ev_startsAt e) (ev_venue e) (ev_city e)
     \<or> same_event_venue_conflict P (ev_title e) (ev_description e) (ev_startsAt e)
         (ev_venue e) (ev_city e)"

definition ambiguous_source_evidence_ids :: "platform \<Rightarrow> event list \<Rightarrow> jstr list res" where
  "ambiguous_source_evidence_ids P events =
     (let conflicts = uniq (map ev_id (filter (contradicts_itself P) events))
      in if conflicts = [] then Inr []
         else rbind (resolve_event_record_identity P events) (\<lambda>r.
           Inr (fold (\<lambda>s ids. if list_ex (\<lambda>i. i \<in> set conflicts) (rs_listingIds s)
                              then fold set_add (rs_listingIds s) ids else ids)
                 (ir_sessions r) conflicts)))"

definition verified_category :: "platform \<Rightarrow> event \<Rightarrow> event" where
  "verified_category P e =
     (let c = category_for_event P (case ev_sourceCategory e of Some s \<Rightarrow> s | None \<Rightarrow> ev_category e)
                (ev_title e) (ev_description e)
      in if c \<in> {tr ''Stand-up'', tr ''Gezi''} \<and> ev_category e \<noteq> c then e\<lparr>ev_category := c\<rparr> else e)"

definition eligible_at_activation :: "platform \<Rightarrow> int \<Rightarrow> event \<Rightarrow> bool" where
  "eligible_at_activation P made e \<longleftrightarrow>
     (case date_parse (ev_checkedAt e) of
        Some checked \<Rightarrow> is_eligible P e empty_filters (max made (checked - 300000))
      | None \<Rightarrow> False)"

definition catalog_events :: "platform \<Rightarrow> int \<Rightarrow> jstr list \<Rightarrow> event list \<Rightarrow> event list" where
  "catalog_events P made ambiguous events =
     filter (eligible_at_activation P made)
       (map (verified_category P) (filter (\<lambda>e. ev_id e \<notin> set ambiguous) events))"

section \<open>The versions of a family\<close>

definition member_boundaries :: "event \<Rightarrow> int list" where
  "member_boundaries e =
     (case date_parse (ev_checkedAt e) of
        Some checked \<Rightarrow> [checked - 300000, checked + 72 * 3600000 + 1] | None \<Rightarrow> [])
     @ (case date_parse (ev_startsAt e) of Some start \<Rightarrow> [start + 1] | None \<Rightarrow> [])"

definition family_boundaries :: "int \<Rightarrow> event list \<Rightarrow> int list" where
  "family_boundaries made members =
     sort (fold set_add (filter (\<lambda>b. b > made) (concat (map member_boundaries members))) [made])"

definition project_active :: "platform \<Rightarrow> event list \<Rightarrow> int \<Rightarrow> event list res" where
  "project_active P members from =
     (let active = filter (\<lambda>e. is_eligible P e empty_filters from) members;
          byId = fold (\<lambda>e. AList.update (ev_id e) e) active []
      in rbind (resolve_event_record_identity P active) (\<lambda>r.
           Inr (map (\<lambda>s. prepare_card P (project_resolved_session P
                      (map (\<lambda>i. the (map_of byId i)) (rs_listingIds s)) (rs_id s) (rs_venueId s)))
                 (ir_sessions r))))"

text \<open>The versions so far, the text of the last projection, and the bytes of all versions.\<close>

type_synonym version_state = "catalog_version list \<times> jstr \<times> nat"

definition max_projection_bytes :: nat where
  "max_projection_bytes = 128 * 1024 * 1024"

definition add_version ::
  "(event list \<Rightarrow> jstr) \<Rightarrow> platform \<Rightarrow> event list \<Rightarrow> int \<Rightarrow> version_state \<Rightarrow> version_state res" where
  "add_version encode P members from = (\<lambda>(versions, previous, size).
     rbind (project_active P members from) (\<lambda>merged.
       let serialized = encode merged;
           size' = size + length (utf8 serialized) + 64
       in if serialized \<noteq> previous
          then if size' > max_projection_bytes then throw ''Search catalog exceeds limit''
               else Inr (versions @ [\<lparr>cv_from = from, cv_events = merged\<rparr>], serialized, size')
          else Inr (versions, serialized, size)))"

definition family_versions ::
  "(event list \<Rightarrow> jstr) \<Rightarrow> platform \<Rightarrow> int \<Rightarrow> event list \<Rightarrow> catalog_version list list \<times> nat
     \<Rightarrow> (catalog_version list list \<times> nat) res" where
  "family_versions encode P made members = (\<lambda>(groups, size).
     rbind (rfold (add_version encode P members) (family_boundaries made members) ([], [], size))
       (\<lambda>(versions, previous, size'). Inr (groups @ [versions], size')))"

text \<open>\<open>None\<close> inside the result is a loop that does not end; the properties show it is not reached.\<close>

definition build_search_catalog ::
  "(event list \<Rightarrow> jstr) \<Rightarrow> platform \<Rightarrow> event list \<Rightarrow> int \<Rightarrow> search_catalog option res" where
  "build_search_catalog encode P events made =
     rbind (ambiguous_source_evidence_ids P events) (\<lambda>ambiguous.
     rbind (identity_families P (catalog_events P made ambiguous events)) (\<lambda>found.
       case found of
         None \<Rightarrow> Inr None
       | Some families \<Rightarrow>
           rbind (rfold (family_versions encode P made) families ([], 0)) (\<lambda>(groups, size).
             case to_iso made of
               None \<Rightarrow> throw ''Invalid time value''
             | Some materializedAt \<Rightarrow>
                 Inr (Some \<lparr>sc_materializedAt = materializedAt,
                   sc_sourceStatus = map (\<lambda>e. (ev_startsAt e, ev_checkedAt e, ev_availability e)) events,
                   sc_groups = groups\<rparr>))))"

section \<open>Selecting\<close>

fun select_version :: "int \<Rightarrow> catalog_version list \<Rightarrow> event list \<Rightarrow> event list" where
  "select_version time [] selected = selected"
| "select_version time (v # vs) selected =
     (if cv_from v > time then selected else select_version time vs (cv_events v))"

definition search_catalog_candidates ::
  "platform \<Rightarrow> search_catalog \<Rightarrow> filters \<Rightarrow> int \<Rightarrow> event list res" where
  "search_catalog_candidates P c f time =
     (if (case date_parse (sc_materializedAt c) of Some m \<Rightarrow> time < m | None \<Rightarrow> False)
      then throw ''Search catalog predates requested time''
      else Inr (sort_by (card_order P)
        (concat (map (\<lambda>versions. filter (\<lambda>e. is_eligible P e f time) (select_version time versions []))
          (sc_groups c)))))"

end
