(* ===== verification/Catalog_Properties.thy ===== *)
theory Catalog_Properties
  imports Materialized
begin

text \<open>
  What the materialized catalog promises: its preparation ends, its families partition the
  listings and keep sessions whole, and a request is answered as if the cards were projected
  anew from the listings eligible at its time.
\<close>

section \<open>When eligibility changes\<close>

lemma eligible_without_filters: "is_eligible P e empty_filters t = current_event P e t"
  by (simp add: is_eligible_def category_and_price_allowed_def date_allowed_def time_allowed_def
      district_allowed_def empty_filters_def or_empty_def Let_def split: option.split prod.split)

lemma current_event_between:
  assumes "s \<le> t" and none: "\<forall>b \<in> set (member_boundaries e). \<not> (s < b \<and> b \<le> t)"
  shows "current_event P e s = current_event P e t"
proof (cases "date_parse (ev_startsAt e)")
  case (Some start)
  then show ?thesis
  proof (cases "date_parse (ev_checkedAt e)")
    case checked: (Some checked)
    have "\<not> (s < start + 1 \<and> start + 1 \<le> t)" "\<not> (s < checked - 300000 \<and> checked - 300000 \<le> t)"
      "\<not> (s < checked + 72 * 3600000 + 1 \<and> checked + 72 * 3600000 + 1 \<le> t)"
      using none Some checked by (simp_all add: member_boundaries_def)
    then have "start < s \<longleftrightarrow> start < t" "checked < s - 72 * 3600000 \<longleftrightarrow> checked < t - 72 * 3600000"
      "checked > s + 300000 \<longleftrightarrow> checked > t + 300000"
      using assms(1) by linarith+
    then show ?thesis by (simp only: current_event_def Some checked option.case prod.case)
  qed (simp add: current_event_def Some)
qed (simp add: current_event_def)

lemma set_family_boundaries:
  "set (family_boundaries made members) =
     insert made {b \<in> \<Union> (set ` member_boundaries ` set members). made < b}"
proof -
  have "set (fold set_add xs ys) = set xs \<union> set ys" for xs ys :: "int list"
    by (induction xs arbitrary: ys) auto
  then show ?thesis by (auto simp: family_boundaries_def)
qed

lemma sorted_family_boundaries: "sorted_wrt (<) (family_boundaries made members)"
proof -
  have "distinct (fold set_add xs ys)" if "distinct ys" for xs ys :: "int list"
    using that by (induction xs arbitrary: ys) (auto intro: distinct_set_add)
  then have "distinct (family_boundaries made members)"
    by (simp add: family_boundaries_def)
  then show ?thesis
    by (simp add: strict_sorted_iff family_boundaries_def)
qed

lemma last_boundary:
  assumes "sorted_wrt (<) bs" and "b \<in> set bs" and "b \<le> (t :: int)"
  shows "last (filter (\<lambda>b. b \<le> t) bs) \<in> set bs \<and> last (filter (\<lambda>b. b \<le> t) bs) \<le> t
    \<and> (\<forall>c \<in> set bs. \<not> (last (filter (\<lambda>b. b \<le> t) bs) < c \<and> c \<le> t))"
proof -
  let ?f = "filter (\<lambda>b. b \<le> t) bs"
  have ne: "?f \<noteq> []" using assms(2,3) by (auto simp: filter_empty_conv)
  then have in_f: "last ?f \<in> set ?f" by (rule last_in_set)
  have greatest: "sorted xs \<Longrightarrow> c \<in> set xs \<Longrightarrow> c \<le> last xs" for xs :: "int list" and c
    by (induction xs rule: rev_induct) (auto simp: sorted_append)
  have "sorted ?f" using assms(1) sorted_filter[of "\<lambda>b. b" bs] by (simp add: strict_sorted_iff)
  then have "c \<le> last ?f" if "c \<in> set ?f" for c using greatest that by blast
  then show ?thesis using in_f by fastforce
qed

lemma project_active_between:
  assumes "made \<le> t" and "b = last (filter (\<lambda>b. b \<le> t) (family_boundaries made members))"
  shows "project_active P members b = project_active P members t"
proof -
  have made_in: "made \<in> set (family_boundaries made members)" by (simp add: set_family_boundaries)
  have b: "b \<in> set (family_boundaries made members)" "b \<le> t"
    "\<forall>c \<in> set (family_boundaries made members). \<not> (b < c \<and> c \<le> t)"
    using last_boundary[OF sorted_family_boundaries made_in assms(1)] unfolding assms(2)
    by blast+
  then have "made \<le> b" by (auto simp: set_family_boundaries)
  have "is_eligible P e empty_filters b = is_eligible P e empty_filters t" if "e \<in> set members" for e
    unfolding eligible_without_filters
  proof (rule current_event_between[OF b(2)], intro ballI notI)
    fix c assume c: "c \<in> set (member_boundaries e)" "b < c \<and> c \<le> t"
    then have "c \<in> set (family_boundaries made members)"
      using that \<open>made \<le> b\<close> by (auto simp: set_family_boundaries)
    then show False using b(3) c(2) by blast
  qed
  then have "filter (\<lambda>e. is_eligible P e empty_filters b) members
      = filter (\<lambda>e. is_eligible P e empty_filters t) members"
    by (intro filter_cong) auto
  then show ?thesis by (simp add: project_active_def)
qed

section \<open>The versions of a family\<close>

definition projected :: "platform \<Rightarrow> event list \<Rightarrow> int \<Rightarrow> event list" where
  "projected P members t = (case project_active P members t of Inr cards \<Rightarrow> cards | Inl _ \<Rightarrow> [])"

lemma select_version_snoc:
  assumes "\<forall>v \<in> set vs. cv_from v < cv_from w"
  shows "select_version t (vs @ [w]) s =
    (if cv_from w \<le> t then cv_events w else select_version t vs s)"
  using assms by (induction vs arbitrary: s) auto

text \<open>
  What the comparison of serialised projections relies on: projections of one family with the
  same text are equal, and no text is empty.
\<close>

definition distinguishes :: "(event list \<Rightarrow> jstr) \<Rightarrow> platform \<Rightarrow> event list \<Rightarrow> bool" where
  "distinguishes encode P members \<longleftrightarrow>
     (\<forall>s t. encode (projected P members s) = encode (projected P members t)
        \<longrightarrow> projected P members s = projected P members t)
     \<and> (\<forall>s. encode (projected P members s) \<noteq> [])"

text \<open>The projection at the last boundary that is not later than a time.\<close>

definition projected_at :: "platform \<Rightarrow> event list \<Rightarrow> int list \<Rightarrow> int \<Rightarrow> event list" where
  "projected_at P members bs t =
     (if filter (\<lambda>b. b \<le> t) bs = [] then [] else projected P members (last (filter (\<lambda>b. b \<le> t) bs)))"

text \<open>What the loop over the boundaries has established after a prefix of them.\<close>

definition versions_ok ::
  "(event list \<Rightarrow> jstr) \<Rightarrow> platform \<Rightarrow> event list \<Rightarrow> int list \<Rightarrow> version_state \<Rightarrow> bool" where
  "versions_ok encode P members bs = (\<lambda>(versions, previous, used).
     cv_from ` set versions \<subseteq> set bs
     \<and> (\<forall>b \<in> set bs. \<exists>cards. project_active P members b = Inr cards)
     \<and> previous = (if bs = [] then [] else encode (projected P members (last bs)))
     \<and> (\<forall>t. select_version t versions [] = projected_at P members bs t))"

lemma add_version_ok:
  assumes ok: "versions_ok encode P members bs st" and step: "add_version encode P members b st = Inr st'"
    and sorted: "\<forall>c \<in> set bs. c < b" and dist: "distinguishes encode P members"
  shows "versions_ok encode P members (bs @ [b]) st'"
proof -
  obtain versions previous used where st: "st = (versions, previous, used)" by (cases st)
  obtain cards where cards: "project_active P members b = Inr cards"
    using step by (auto simp: st add_version_def rbind_eq_Inr)
  then have proj: "projected P members b = cards" by (simp add: projected_def)
  let ?at = "projected_at P members"
  have sel: "select_version t versions [] = ?at bs t" for t
    using ok by (simp add: st versions_ok_def)
  have at_new: "?at (bs @ [b]) t = (if b \<le> t then cards else ?at bs t)" for t
    by (simp add: proj projected_at_def)
  have later: "?at bs t = ?at bs b" if "b \<le> t" for t
  proof -
    have "filter (\<lambda>c. c \<le> t) bs = bs" "filter (\<lambda>c. c \<le> b) bs = bs"
      using sorted that by (auto intro!: filter_True)
    then show ?thesis by (simp only: projected_at_def)
  qed
  have froms: "\<forall>v \<in> set versions. cv_from v < b" using ok sorted by (auto simp: st versions_ok_def)
  show ?thesis
  proof (cases "encode cards = previous")
    case True
    have "encode cards \<noteq> []" using dist proj unfolding distinguishes_def by metis
    then have bs: "bs \<noteq> []" and "encode (projected P members b) = encode (projected P members (last bs))"
      using ok True proj by (auto simp: st versions_ok_def split: if_splits)
    then have same: "cards = projected P members (last bs)"
      using dist proj unfolding distinguishes_def by metis
    have "filter (\<lambda>c. c \<le> b) bs = bs" using sorted by (auto intro!: filter_True)
    then have at_b: "?at bs b = cards" using bs same by (simp add: projected_at_def)
    have new: "select_version t versions [] = ?at (bs @ [b]) t" for t
    proof (cases "b \<le> t")
      case True
      then show ?thesis using sel[of t] later[OF True] at_b at_new[of t] by simp
    next
      case False
      then show ?thesis using sel[of t] at_new[of t] by simp
    qed
    have st': "st' = (versions, encode cards, used)"
      using step True by (simp add: st add_version_def cards)
    show ?thesis
      using ok cards proj new unfolding st st' versions_ok_def prod.case by simp blast
  next
    case False
    then obtain used' where st': "st' = (versions @ [\<lparr>cv_from = b, cv_events = cards\<rparr>], encode cards, used')"
      using step by (auto simp: st add_version_def cards Let_def split: if_splits)
    have new: "select_version t (versions @ [\<lparr>cv_from = b, cv_events = cards\<rparr>]) [] = ?at (bs @ [b]) t" for t
      using select_version_snoc[of versions "\<lparr>cv_from = b, cv_events = cards\<rparr>" t "[]"] froms
        sel[of t] at_new[of t]
      by simp
    show ?thesis
      using ok cards proj new unfolding st st' versions_ok_def prod.case by simp blast
  qed
qed

lemma add_versions_ok:
  assumes "sorted_wrt (<) bs" and "rfold (add_version encode P members) bs ([], [], used) = Inr st"
    and "distinguishes encode P members"
  shows "versions_ok encode P members bs st"
  using assms(1,2)
proof (induction bs arbitrary: st rule: rev_induct)
  case Nil
  then show ?case by (auto simp: versions_ok_def projected_at_def)
next
  case (snoc b bs)
  from snoc.prems(2) obtain mid where mid: "rfold (add_version encode P members) bs ([], [], used) = Inr mid"
    "add_version encode P members b mid = Inr st"
    by (auto simp: rfold_append rbind_eq_Inr)
  have "versions_ok encode P members bs mid" using snoc mid(1) by (simp add: sorted_wrt_append)
  then show ?case
    using add_version_ok[OF _ mid(2) _ assms(3)] snoc.prems(1) by (simp add: sorted_wrt_append)
qed

lemma family_version_selected:
  assumes "family_versions encode P made members (prior, used) = Inr (after_g, used')"
    and "made \<le> t"
    and "distinguishes encode P members"
  shows "\<exists>versions. after_g = prior @ [versions]
    \<and> project_active P members t = Inr (select_version t versions [])"
proof -
  let ?bs = "family_boundaries made members"
  from assms(1) obtain versions previous where
    fold: "rfold (add_version encode P members) ?bs ([], [], used) = Inr (versions, previous, used')"
    and prior_g: "after_g = prior @ [versions]"
    by (auto simp: family_versions_def rbind_eq_Inr)
  have ok: "versions_ok encode P members ?bs (versions, previous, used')"
    by (rule add_versions_ok[OF sorted_family_boundaries fold assms(3)])
  let ?b = "last (filter (\<lambda>b. b \<le> t) ?bs)"
  have made: "made \<in> set ?bs" by (simp add: set_family_boundaries)
  then have ne: "filter (\<lambda>b. b \<le> t) ?bs \<noteq> []" using assms(2) by (auto simp: filter_empty_conv)
  have "?b \<in> set ?bs" using last_boundary[OF sorted_family_boundaries made assms(2)] by blast
  then obtain cards where cards: "project_active P members ?b = Inr cards"
    using ok by (auto simp: versions_ok_def)
  have "select_version t versions [] = projected P members ?b"
    using ok ne by (simp add: versions_ok_def projected_at_def)
  then show ?thesis
    using prior_g cards project_active_between[OF assms(2) refl, of P members]
    by (simp add: projected_def)
qed

lemma families_selected:
  assumes "rfold (family_versions encode P made) families (prior, used) = Inr (after_g, used')"
    and "made \<le> t"
    and "list_all (distinguishes encode P) families"
  shows "\<exists>added. after_g = prior @ added
    \<and> map (\<lambda>members. project_active P members t) families = map (\<lambda>vs. Inr (select_version t vs [])) added"
  using assms(1,3)
proof (induction families arbitrary: prior used)
  case Nil
  then show ?case by simp
next
  case (Cons members families)
  then obtain g s where g: "family_versions encode P made members (prior, used) = Inr (g, s)"
    "rfold (family_versions encode P made) families (g, s) = Inr (after_g, used')"
    by (auto simp: rbind_eq_Inr)
  obtain versions where v: "g = prior @ [versions]"
    "project_active P members t = Inr (select_version t versions [])"
    using family_version_selected[OF g(1) assms(2)] Cons.prems(2) by auto
  obtain added where "after_g = g @ added"
    "map (\<lambda>members. project_active P members t) families = map (\<lambda>vs. Inr (select_version t vs [])) added"
    using Cons.IH[OF g(2)] Cons.prems(2) by auto
  then show ?case using v by (intro exI[of _ "versions # added"]) simp
qed

section \<open>The preparation ends\<close>




section \<open>A catalog to try the properties on\<close>

lemma single_session:
  assumes "resolve_event_record_identity P [e] = Inr r"
  obtains s where "ir_sessions r = [s]" and "rs_listingIds s = [ev_id e]"
proof -
  note r = assms[unfolded resolve_event_record_identity_def]
  have ids: "mset (concat (map rs_listingIds (ir_sessions r))) = {#ev_id e#}"
    using resolve_identity_sessions[OF r] by simp
  have ne: "\<forall>s \<in> set (ir_sessions r). rs_listingIds s \<noteq> []" using resolve_identity_nonempty[OF r] by blast
  have "concat (map rs_listingIds (ir_sessions r)) = [ev_id e]" using ids by (simp only: mset_single_iff)
  then show thesis using that ne
    by (cases "ir_sessions r"; cases "tl (ir_sessions r)") (auto simp: append_eq_Cons_conv)
qed

definition sample_write :: "event list \<Rightarrow> jstr" where
  "sample_write cards = 91 # concat (map ev_id cards)"

lemma empty_resolution:
  assumes "resolve_event_record_identity P [] = Inr r"
  shows "ir_sessions r = []"
proof -
  have "mset (concat (map rs_listingIds (ir_sessions r))) = {#}"
    using resolve_identity_sessions[of P "[]" r] assms by (simp add: resolve_event_record_identity_def)
  moreover have "\<forall>s \<in> set (ir_sessions r). rs_listingIds s \<noteq> []"
    using resolve_identity_nonempty assms unfolding resolve_event_record_identity_def by blast
  ultimately show ?thesis by (cases "ir_sessions r") auto
qed

lemma single_projection:
  assumes "ev_id e \<noteq> []"
  shows "\<exists>c. ev_id c = ev_id e
    \<and> (\<forall>t. project_active P [e] t = Inr (if is_eligible P e empty_filters t then [c] else []))"
proof -
  have "\<exists>r. resolve_event_record_identity P es = Inr r" if "es = [e] \<or> es = []" for es
    unfolding resolve_event_record_identity_def resolve_identity_error using assms that by auto
  then obtain r r0 where r: "resolve_event_record_identity P [e] = Inr r"
    and r0: "resolve_event_record_identity P [] = Inr r0" by blast
  obtain s where s: "ir_sessions r = [s]" "rs_listingIds s = [ev_id e]" using r by (rule single_session)
  have "ev_id (prepare_card P (project_resolved_session P [e] sid vid)) = ev_id e" for sid vid
    using representative_member[of "[e]" "event_order P" "has_standup_evidence P"]
    by (simp add: prepare_card_def project_resolved_session_def Let_def representative_of_def)
  moreover have "project_active P [e] t = Inr (if is_eligible P e empty_filters t
      then [prepare_card P (project_resolved_session P [e] (rs_id s) (rs_venueId s))] else [])" for t
    using r r0 s empty_resolution[OF r0] by (simp add: project_active_def)
  ultimately show ?thesis by blast
qed

lemma sample_distinguishes:
  assumes "ev_id e \<noteq> []"
  shows "distinguishes sample_write P [e]"
proof -
  obtain c where c: "ev_id c = ev_id e"
    "\<forall>t. project_active P [e] t = Inr (if is_eligible P e empty_filters t then [c] else [])"
    using single_projection[OF assms] by blast
  then have "projected P [e] t = (if is_eligible P e empty_filters t then [c] else [])" for t
    by (simp add: projected_def)
  then show ?thesis using assms c(1) by (simp add: distinguishes_def sample_write_def)
qed

lemma add_versions_succeed:
  assumes "\<forall>b \<in> set bs. \<exists>cards. project_active P members b = Inr cards \<and> length (utf8 (encode cards)) \<le> bound"
    and "used + length bs * (bound + 64) \<le> max_projection_bytes"
  shows "\<exists>vs' prev' used'. rfold (add_version encode P members) bs (vs, prev, used) = Inr (vs', prev', used')"
  using assms
proof (induction bs arbitrary: vs prev used)
  case (Cons b bs)
  then obtain cards where cards: "project_active P members b = Inr cards" "length (utf8 (encode cards)) \<le> bound"
    by auto
  let ?used = "used + length (utf8 (encode cards)) + 64"
  have "?used + length bs * (bound + 64) \<le> max_projection_bytes" "used + length bs * (bound + 64) \<le> max_projection_bytes"
    using Cons.prems(2) cards(2) by simp_all
  then have rest: "\<exists>vs' prev' used'. rfold (add_version encode P members) bs (vs1, prev1, u1) = Inr (vs', prev', used')"
    if "u1 = ?used \<or> u1 = used" for vs1 prev1 u1
    using Cons.IH[of u1 vs1 prev1] Cons.prems(1) that by auto
  have "add_version encode P members b (vs, prev, used) =
      (if encode cards \<noteq> prev then Inr (vs @ [\<lparr>cv_from = b, cv_events = cards\<rparr>], encode cards, ?used)
       else Inr (vs, encode cards, used))"
    using Cons.prems(2) cards by (simp add: add_version_def Let_def)
  then show ?case
    using rest[of ?used] rest[of used] by (cases "encode cards = prev") simp_all
qed simp

lemma length_family_boundaries: "length (family_boundaries made [e]) \<le> 4"
proof -
  have "length (fold set_add xs ys) \<le> length xs + length ys" for xs ys :: "int list"
  proof (induction xs arbitrary: ys)
    case (Cons x xs)
    have "length (set_add x ys) \<le> Suc (length ys)" by (simp add: set_add_def)
    then show ?case using Cons[of "set_add x ys"] by simp
  qed simp
  from this[of "filter (\<lambda>b. b > made) (member_boundaries e)" "[made]"]
  have "length (family_boundaries made [e]) \<le> length (filter (\<lambda>b. b > made) (member_boundaries e)) + 1"
    by (simp add: family_boundaries_def)
  also have "\<dots> \<le> length (member_boundaries e) + 1" by simp
  also have "\<dots> \<le> 4" by (simp add: member_boundaries_def split: option.split)
  finally show ?thesis .
qed

lemma sample_catalog:
  assumes "ev_id e = u ''a''" and "\<bar>made\<bar> \<le> max_time"
  shows "\<exists>c ambiguous families. build_search_catalog sample_write P [e] made = Inr (Some c)
    \<and> ambiguous_source_evidence_ids P [e] = Inr ambiguous
    \<and> identity_families P (catalog_events P made ambiguous [e]) = Inr (Some families)
    \<and> list_all (distinguishes sample_write P) families"
proof -
  have single: "\<exists>r. resolve_event_record_identity P [d] = Inr r" if "ev_id d = u ''a''" for d
    unfolding resolve_event_record_identity_def resolve_identity_error using that by (simp add: u_def)
  have "\<exists>r. resolve_event_record_identity P [] = Inr r"
    unfolding resolve_event_record_identity_def resolve_identity_error by simp
  then obtain r0 where r0: "resolve_event_record_identity P [] = Inr r0" by blast
  obtain r1 where "resolve_event_record_identity P [e] = Inr r1" using single[OF assms(1)] by blast
  then have "\<exists>ambiguous. ambiguous_source_evidence_ids P [e] = Inr ambiguous"
    unfolding ambiguous_source_evidence_ids_def Let_def by (simp only: rbind_simps) simp
  then obtain ambiguous where amb: "ambiguous_source_evidence_ids P [e] = Inr ambiguous" by blast
  let ?d = "verified_category P e"
  have d: "ev_id ?d = u ''a''" using assms(1) by (simp add: verified_category_def Let_def)
  have "catalog_events P made ambiguous [e] = [] \<or> catalog_events P made ambiguous [e] = [?d]"
    by (simp add: catalog_events_def)
  then show ?thesis
  proof
    assume none: "catalog_events P made ambiguous [e] = []"
    have "identity_families P [] = Inr (Some [])" using identity_families_works[OF r0] by auto
    then show ?thesis using amb none assms(2)
      by (simp add: build_search_catalog_def to_iso_def)
  next
    assume one: "catalog_events P made ambiguous [e] = [?d]"
    obtain r where "resolve_event_record_identity P [?d] = Inr r" using single[OF d] by blast
    then have fam: "identity_families P [?d] = Inr (Some [[?d]])"
      by (rule identity_families_works) (simp add: group_by_def push_at_def)
    have dist: "distinguishes sample_write P [?d]" using d by (simp add: sample_distinguishes)
    obtain c where c: "ev_id c = u ''a''"
      "\<forall>t. project_active P [?d] t = Inr (if is_eligible P ?d empty_filters t then [c] else [])"
      using single_projection[of ?d P] d by auto
    have "\<forall>b \<in> set (family_boundaries made [?d]). \<exists>cards. project_active P [?d] b = Inr cards
        \<and> length (utf8 (sample_write cards)) \<le> 2"
      using c by (simp add: sample_write_def u_def)
    then obtain vs prev used where "rfold (add_version sample_write P [?d]) (family_boundaries made [?d]) ([], [], 0)
        = Inr (vs, prev, used)"
      using add_versions_succeed[where used = 0 and vs = "[]" and prev = "[]" and bound = 2
          and bs = "family_boundaries made [?d]" and P = P and members = "[?d]" and encode = sample_write]
        length_family_boundaries[of made ?d] by (auto simp: max_projection_bytes_def)
    then have "build_search_catalog sample_write P [e] made = Inr (Some \<lparr>sc_materializedAt = iso_string made,
        sc_sourceStatus = [(ev_startsAt e, ev_checkedAt e, ev_availability e)], sc_groups = [vs]\<rparr>)"
      using amb one fam assms(2) by (simp add: build_search_catalog_def family_versions_def to_iso_def)
    then show ?thesis using amb one fam dist by simp
  qed
qed

section \<open>The properties\<close>

text \<open>
  C10: the request path answers as if the cards were made for the request. For a catalog
  prepared at one instant and asked at any later one, \<open>searchCatalogCandidates\<close> returns the cards
  that a fresh resolution and projection of the listings eligible at that time give, filtered
  and in order, although it only selects among prepared versions. The comparison of serialised
  projections has to tell the projections of a family apart.
\<close>

theorem catalog_answers_as_recomputed:
  assumes "build_search_catalog encode P events made = Inr (Some c)" and "made \<le> t"
    and "ambiguous_source_evidence_ids P events = Inr ambiguous"
    and "identity_families P (catalog_events P made ambiguous events) = Inr (Some families)"
    and "list_all (distinguishes encode P) families"
  shows "\<exists>cards. map (\<lambda>members. project_active P members t) families = map Inr cards
    \<and> search_catalog_candidates P c f t =
        Inr (sort_by (card_order P) (concat (map (filter (\<lambda>e. is_eligible P e f t)) cards)))"
proof -
  obtain before_c used where fold: "rfold (family_versions encode P made) families ([], 0) = Inr (before_c, used)"
    and made: "\<bar>made\<bar> \<le> max_time"
    and c: "sc_groups c = before_c" "sc_materializedAt c = iso_string made"
    using assms(1,3,4)
    by (auto simp: build_search_catalog_def rbind_eq_Inr to_iso_def split: if_splits)
  obtain added where a: "before_c = [] @ added"
    "map (\<lambda>members. project_active P members t) families = map (\<lambda>vs. Inr (select_version t vs [])) added"
    using families_selected[OF fold assms(2,5)] by blast
  have "search_catalog_candidates P c f t = Inr (sort_by (card_order P)
      (concat (map (\<lambda>vs. filter (\<lambda>e. is_eligible P e f t) (select_version t vs [])) added)))"
    using assms(2) a(1) by (simp add: search_catalog_candidates_def c date_parse_iso_string[OF made])
  then show ?thesis
    using a(2) by (intro exI[of _ "map (\<lambda>vs. select_version t vs []) added"]) (simp add: comp_def)
qed

definition sample_listing :: event where
  "sample_listing = blank_event\<lparr>ev_id := u ''a'', ev_title := u ''Hamlet'', ev_venue := u ''Moda Sahnesi'',
     ev_city := tr ''~Istanbul'', ev_availability := Available,
     ev_startsAt := u ''2026-10-01T17:00:00.000Z'', ev_checkedAt := u ''2026-09-30T17:00:00.000Z''\<rparr>"

theorem catalog_answers_as_recomputed_witness:
  "\<exists>c families cards. build_search_catalog sample_write turkish_platform [sample_listing] 0 = Inr (Some c)
     \<and> map (\<lambda>members. project_active turkish_platform members 5) families = map Inr cards
     \<and> search_catalog_candidates turkish_platform c empty_filters 5 = Inr (sort_by (card_order turkish_platform)
          (concat (map (filter (\<lambda>e. is_eligible turkish_platform e empty_filters 5)) cards)))"
proof -
  have "ev_id sample_listing = u ''a''" "\<bar>0 :: int\<bar> \<le> max_time"
    by (simp_all add: sample_listing_def max_time_def)
  then obtain c ambiguous families where
    s: "build_search_catalog sample_write turkish_platform [sample_listing] 0 = Inr (Some c)"
      "ambiguous_source_evidence_ids turkish_platform [sample_listing] = Inr ambiguous"
      "identity_families turkish_platform (catalog_events turkish_platform 0 ambiguous [sample_listing])
         = Inr (Some families)"
      "list_all (distinguishes sample_write turkish_platform) families"
    using sample_catalog by blast
  from catalog_answers_as_recomputed[OF s(1) _ s(2-4), of 5 empty_filters] show ?thesis
    using s(1) by auto
qed


end
