(* ===== verification/Listing.thy ===== *)
theory Listing
  imports Timing Text Regex_Syntax
begin

text \<open>
  \<open>contracts/listing.ts\<close>: the validation of an untrusted provider listing. Parsing a URL is the
  parameter \<open>parse\<close>: \<open>new URL(s)\<close> with the parts the validator reads, \<open>None\<close> where it throws.
\<close>

record url_parts =
  up_protocol :: jstr
  up_hostname :: jstr
  up_username :: jstr
  up_password :: jstr

definition provider_names :: "string list" where
  "provider_names = [''biletinial'', ''biletix'', ''bubilet'']"

definition availability_names :: "string list" where
  "availability_names = [''available'', ''sold_out'', ''cancelled'', ''unknown'']"

definition max_raw_bytes :: int where
  "max_raw_bytes = 32 * 1024 * 1024"

section \<open>Shared checks\<close>

definition allowed_keys :: "json \<Rightarrow> string list \<Rightarrow> string list \<Rightarrow> bool" where
  "allowed_keys v required optional \<longleftrightarrow>
     list_all (\<lambda>k. u k \<in> set (own_keys v)) required
     \<and> list_all (\<lambda>k. k \<in> u ` set (required @ optional)) (own_keys v)"

definition bounded_string :: "nat \<Rightarrow> bool \<Rightarrow> json \<Rightarrow> bool" where
  "bounded_string bound allowEmpty v =
     (case v of JStr s \<Rightarrow> length s \<le> bound \<and> (allowEmpty \<or> length s > 0) | _ \<Rightarrow> False)"

definition absent_or :: "(json \<Rightarrow> bool) \<Rightarrow> json \<Rightarrow> bool" where
  "absent_or p v \<longleftrightarrow> v = Undefined \<or> p v"

definition number_between :: "rat \<Rightarrow> rat \<Rightarrow> json \<Rightarrow> bool" where
  "number_between low high v = (case as_fin v of Some r \<Rightarrow> low \<le> r \<and> r \<le> high | None \<Rightarrow> False)"

definition matches_text :: "rx \<Rightarrow> json \<Rightarrow> bool" where
  "matches_text r v = (case v of JStr s \<Rightarrow> test r s | _ \<Rightarrow> False)"

definition hex64_value :: "json \<Rightarrow> bool" where
  "hex64_value v = (case v of JStr s \<Rightarrow> is_hex64 s | _ \<Rightarrow> False)"

text \<open>\<open>String(v)\<close>: an array is its elements, joined, so a list of one string is that string.\<close>

fun string_of_json :: "platform \<Rightarrow> json \<Rightarrow> jstr" where
  "string_of_json P Undefined = u ''undefined''"
| "string_of_json P Null = u ''null''"
| "string_of_json P (JBool b) = (if b then u ''true'' else u ''false'')"
| "string_of_json P (JNum n) =
     (case n of Fin r \<Rightarrow> pl_number P r | NaN \<Rightarrow> u ''NaN''
      | PosInf \<Rightarrow> u ''Infinity'' | NegInf \<Rightarrow> u ''-Infinity'')"
| "string_of_json P (JStr s) = s"
| "string_of_json P (JArr xs) =
     join (u '','') (map (\<lambda>x. if x = Undefined \<or> x = Null then [] else string_of_json P x) xs)"
| "string_of_json P (JObj ps) = u ''[object Object]''"

section \<open>Identity\<close>

definition provider_listing_identity_material :: "platform \<Rightarrow> json \<Rightarrow> jstr" where
  "provider_listing_identity_material P v =
     (let source = (if truthy (jget v ''providerEventId'') then jget v ''providerEventId''
                    else jget v ''url'');
          ids = (case jget v ''providerSessionIds'' of JArr xs \<Rightarrow> xs | _ \<Rightarrow> []);
          sessions = sort (uniq (map (string_of_json P) ids))
      in string_of_json P (jget v ''provider'') @ [10] @ string_of_json P source @ [10]
         @ (if sessions \<noteq> [] then join (u '','') sessions else string_of_json P (jget v ''startsAt'')))"

definition expected_provider_listing_id :: "platform \<Rightarrow> json \<Rightarrow> jstr" where
  "expected_provider_listing_id P v = sha256_hex (provider_listing_identity_material P v)"

section \<open>The parts\<close>

definition valid_raw_object_ref :: "json \<Rightarrow> bool" where
  "valid_raw_object_ref v \<longleftrightarrow>
     is_obj v \<and> allowed_keys v [''sha256'', ''key'', ''bytes''] []
     \<and> hex64_value (jget v ''sha256'')
     \<and> jget v ''key'' = JStr (u ''bodies/'' @ or_empty (as_str (jget v ''sha256'')) @ u ''.bin'')
     \<and> (case as_safe_integer (jget v ''bytes'') of
          Some n \<Rightarrow> 0 \<le> n \<and> n \<le> max_raw_bytes | None \<Rightarrow> False)"

definition validate_raw_object_ref :: "json \<Rightarrow> unit res" where
  "validate_raw_object_ref v =
     guard (valid_raw_object_ref v) ''Invalid provider listing raw object reference''"

definition validate_timezone_evidence :: "platform \<Rightarrow> json \<Rightarrow> unit res" where
  "validate_timezone_evidence P v =
     (let kind = jget v ''kind''; source = jget v ''sourceValue'';
          must = (\<lambda>name r. kind = JStr (u name) \<longrightarrow> matches_text r source)
      in guard (is_obj v \<and> allowed_keys v [''kind'', ''sourceValue''] []
           \<and> string_of_json P kind \<in> set (map u [''explicit_offset'', ''unix_epoch_ms'', ''istanbul_wall_time''])
           \<and> bounded_string 200 False source
           \<and> must ''explicit_offset'' (re ''(?:Z|[+-]%d{2}:%d{2})$'')
           \<and> must ''unix_epoch_ms'' (re ''^%d{1,16}$'')
           \<and> must ''istanbul_wall_time'' (re ''^%d{4}-%d{2}-%d{2}T%d{2}:%d{2}(?::%d{2})?$''))
         ''Invalid provider listing timezone evidence'')"

definition valid_tier :: "json \<Rightarrow> bool" where
  "valid_tier v \<longleftrightarrow>
     is_obj v
     \<and> allowed_keys v [''price'', ''currency'', ''availability''] [''providerTierId'', ''name'', ''rawAvailability'']
     \<and> absent_or (bounded_string 500 False) (jget v ''providerTierId'')
     \<and> absent_or (bounded_string 100000 True) (jget v ''name'')
     \<and> (jget v ''price'' = Null \<or> number_between 0 (of_int max_safe_integer / 100) (jget v ''price''))
     \<and> matches_text (re ''^[A-Z]{3}$'') (jget v ''currency'')
     \<and> str_in (jget v ''availability'') availability_names
     \<and> absent_or (bounded_string 1000 True) (jget v ''rawAvailability'')"

definition valid_geo :: "json \<Rightarrow> bool" where
  "valid_geo v \<longleftrightarrow>
     is_obj v \<and> allowed_keys v [''lat'', ''lon''] []
     \<and> number_between (- 90) 90 (jget v ''lat'') \<and> number_between (- 180) 180 (jget v ''lon'')"

definition valid_venue :: "json \<Rightarrow> bool" where
  "valid_venue v \<longleftrightarrow>
     is_obj v \<and> allowed_keys v [''name''] [''providerVenueId'', ''address'', ''district'', ''geo'']
     \<and> bounded_string 100000 False (jget v ''name'')
     \<and> absent_or (bounded_string 500 False) (jget v ''providerVenueId'')
     \<and> absent_or (bounded_string 500000 True) (jget v ''address'')
     \<and> absent_or (bounded_string 100000 True) (jget v ''district'')
     \<and> absent_or valid_geo (jget v ''geo'')"

section \<open>The listing\<close>

definition required_listing_keys :: "string list" where
  "required_listing_keys =
     [''contractVersion'', ''listingId'', ''provider'', ''providerSessionIds'', ''url'', ''title'',
      ''description'', ''category'', ''startsAt'', ''timezoneEvidence'', ''venue'', ''tiers'',
      ''availability'', ''observedAt'', ''extractorVersion'', ''rawObjectRef'']"

definition optional_listing_keys :: "string list" where
  "optional_listing_keys =
     [''providerEventId'', ''attendanceTiming'', ''supplementaryRawObjectRefs'',
      ''supplementaryRawObservations'', ''imageUrl'', ''city'']"

definition valid_session_ids :: "json \<Rightarrow> bool" where
  "valid_session_ids v =
     (case v of JArr ids \<Rightarrow> length ids \<le> 1000 \<and> list_all (bounded_string 500 False) ids \<and> distinct ids
      | _ \<Rightarrow> False)"

definition valid_listing_fields :: "json \<Rightarrow> bool" where
  "valid_listing_fields v \<longleftrightarrow>
     is_obj v \<and> allowed_keys v required_listing_keys optional_listing_keys
     \<and> jget v ''contractVersion'' = JStr (u ''provider-listing.v1'')
     \<and> hex64_value (jget v ''listingId'')
     \<and> str_in (jget v ''provider'') provider_names
     \<and> absent_or (bounded_string 500 False) (jget v ''providerEventId'')
     \<and> valid_session_ids (jget v ''providerSessionIds'')
     \<and> bounded_string 2048 False (jget v ''url'')
     \<and> bounded_string 100000 False (jget v ''title'')
     \<and> bounded_string 4000000 True (jget v ''description'')
     \<and> bounded_string 10000 False (jget v ''category'')
     \<and> iso_value (jget v ''startsAt'')
     \<and> str_in (jget v ''availability'') availability_names
     \<and> iso_value (jget v ''observedAt'')
     \<and> bounded_string 200 False (jget v ''extractorVersion'')
     \<and> absent_or (bounded_string 2048 False) (jget v ''imageUrl'')
     \<and> absent_or (bounded_string 1000 False) (jget v ''city'')"

definition expected_host :: "jstr \<Rightarrow> jstr" where
  "expected_host provider =
     (if provider = u ''biletinial'' then u ''biletinial.com''
      else if provider = u ''biletix'' then u ''www.biletix.com'' else u ''www.bubilet.com.tr'')"

definition plain_https :: "url_parts \<Rightarrow> bool" where
  "plain_https parts \<longleftrightarrow>
     up_protocol parts = u ''https:'' \<and> up_username parts = [] \<and> up_password parts = []"

definition valid_listing_url :: "(jstr \<Rightarrow> url_parts option) \<Rightarrow> json \<Rightarrow> bool" where
  "valid_listing_url parse v =
     (case parse (or_empty (as_str (jget v ''url''))) of
        None \<Rightarrow> False
      | Some parts \<Rightarrow> plain_https parts
          \<and> up_hostname parts = expected_host (or_empty (as_str (jget v ''provider''))))"

definition ref_hash :: "json \<Rightarrow> json" where
  "ref_hash r = jget r ''sha256''"

definition validate_supplementary_refs :: "json \<Rightarrow> unit res" where
  "validate_supplementary_refs v =
     (case v of
        Undefined \<Rightarrow> Inr ()
      | JArr refs \<Rightarrow>
          rbind (guard (length refs \<le> 1000) ''Invalid provider listing supplementary raw references'') (\<lambda>_.
          rbind (rfold (\<lambda>r _. validate_raw_object_ref r) refs ()) (\<lambda>_.
          guard (distinct (map ref_hash refs)) ''Invalid provider listing supplementary raw references''))
      | _ \<Rightarrow> throw ''Invalid provider listing supplementary raw references'')"

definition observation_error :: string where
  "observation_error = ''Invalid provider listing supplementary raw observations''"

definition observation_key :: "json \<Rightarrow> jstr" where
  "observation_key observation =
     or_empty (as_str (jget observation ''url'')) @ [10] @ or_empty (as_str (jget observation ''fetchedAt''))
       @ [10] @ or_empty (as_str (ref_hash (jget observation ''rawObjectRef'')))"

text \<open>One round of the loop over the observations; the state is the set of keys.\<close>

definition validate_observation ::
  "(jstr \<Rightarrow> url_parts option) \<Rightarrow> json \<Rightarrow> jstr list \<Rightarrow> jstr list res" where
  "validate_observation parse observation ks =
     rbind (guard (is_obj observation \<and> allowed_keys observation [''url'', ''fetchedAt'', ''rawObjectRef''] []
              \<and> bounded_string 2048 False (jget observation ''url'')
              \<and> iso_value (jget observation ''fetchedAt'')) observation_error) (\<lambda>_.
     rbind (guard (case parse (or_empty (as_str (jget observation ''url''))) of
                     None \<Rightarrow> False | Some parts \<Rightarrow> plain_https parts) observation_error) (\<lambda>_.
     rbind (validate_raw_object_ref (jget observation ''rawObjectRef'')) (\<lambda>_.
     rbind (guard (observation_key observation \<notin> set ks) observation_error) (\<lambda>_.
       Inr (ks @ [observation_key observation])))))"

definition hashes_of_refs :: "json \<Rightarrow> json list" where
  "hashes_of_refs v = (case v of JArr refs \<Rightarrow> uniq (map ref_hash refs) | _ \<Rightarrow> [])"

definition validate_supplementary_observations ::
  "(jstr \<Rightarrow> url_parts option) \<Rightarrow> json \<Rightarrow> json \<Rightarrow> unit res" where
  "validate_supplementary_observations parse refs v =
     (case v of
        Undefined \<Rightarrow> guard (refs = Undefined) observation_error
      | JArr observations \<Rightarrow>
          rbind (guard (length observations \<le> 1000) observation_error) (\<lambda>_.
          rbind (rfold (validate_observation parse) observations []) (\<lambda>_.
            let hashes = uniq (map (\<lambda>o'. ref_hash (jget o' ''rawObjectRef'')) observations)
            in guard (length (hashes_of_refs refs) = length hashes
                      \<and> list_all (\<lambda>h. h \<in> set hashes) (hashes_of_refs refs)) observation_error))
      | _ \<Rightarrow> throw observation_error)"

definition validate_provider_listing ::
  "platform \<Rightarrow> (jstr \<Rightarrow> url_parts option) \<Rightarrow> json \<Rightarrow> json res" where
  "validate_provider_listing P parse v =
     rbind (guard (valid_listing_fields v) ''Invalid provider listing'') (\<lambda>_.
     rbind (guard (valid_listing_url parse v) ''Invalid provider listing URL'') (\<lambda>_.
     rbind (guard (jget v ''listingId'' = JStr (expected_provider_listing_id P v))
              ''Invalid provider listing identity'') (\<lambda>_.
     rbind (validate_timezone_evidence P (jget v ''timezoneEvidence'')) (\<lambda>_.
     rbind (guard (valid_venue (jget v ''venue'')) ''Invalid provider listing venue'') (\<lambda>_.
     rbind (guard (case jget v ''tiers'' of JArr ts \<Rightarrow> length ts \<le> 10000 | _ \<Rightarrow> False)
              ''Invalid provider listing tiers'') (\<lambda>_.
     rbind (guard (case jget v ''tiers'' of JArr ts \<Rightarrow> list_all valid_tier ts | _ \<Rightarrow> False)
              ''Invalid provider listing tier'') (\<lambda>_.
     rbind (validate_raw_object_ref (jget v ''rawObjectRef'')) (\<lambda>_.
     rbind (validate_supplementary_refs (jget v ''supplementaryRawObjectRefs'')) (\<lambda>_.
     rbind (validate_supplementary_observations parse (jget v ''supplementaryRawObjectRefs'')
              (jget v ''supplementaryRawObservations'')) (\<lambda>_.
     rbind (if jget v ''attendanceTiming'' = Undefined then Inr None
            else parse_attendance_timing (jget v ''attendanceTiming'')) (\<lambda>_.
       Inr v)))))))))))"

end
