(* ===== verification/Listing_Properties.thy ===== *)
theory Listing_Properties
  imports Listing Families
begin

text \<open>
  What an accepted provider listing guarantees to identity resolution, which reads it through
  \<open>collector/identity/event-record.ts\<close>.
\<close>

section \<open>Accepted listings\<close>

lemma validate_provider_listing_Inr:
  assumes "validate_provider_listing P parse v = Inr w"
  shows "w = v" and "valid_listing_fields v" and "valid_listing_url parse v"
    and "jget v ''listingId'' = JStr (expected_provider_listing_id P v)"
    and "valid_venue (jget v ''venue'')"
    and "\<exists>t. parse_attendance_timing (jget v ''attendanceTiming'') = Inr t"
  using assms unfolding validate_provider_listing_def
  by (auto simp: rbind_eq_Inr parse_attendance_timing_def split: if_splits)

lemma bounded_stringD:
  "bounded_string n b v \<Longrightarrow> \<exists>s. v = JStr s \<and> length s \<le> n \<and> (b \<or> s \<noteq> [])"
  by (cases v) (auto simp: bounded_string_def)

lemma str_inD: "str_in v names \<Longrightarrow> \<exists>n \<in> set names. v = JStr (u n)"
  by (cases v) (auto simp: str_in_def)

lemma number_betweenD: "number_between a b v \<Longrightarrow> \<exists>r. as_fin v = Some r \<and> a \<le> r \<and> r \<le> b"
  by (auto simp: number_between_def split: option.splits)

lemma absent_orD: "absent_or p v \<Longrightarrow> v = Undefined \<or> p v"
  by (simp add: absent_or_def)

lemma timing_text_ok:
  "parse_attendance_timing v = Inr (Some t) \<Longrightarrow> timing_ok t"
  by (auto simp: parse_attendance_timing_def Let_def split: if_splits json.splits)

lemma timing_absent: "parse_attendance_timing v = Inr None \<Longrightarrow> v = Undefined"
  by (auto simp: parse_attendance_timing_def Let_def split: if_splits json.splits)

lemma listing_fields:
  assumes "valid_listing_fields v"
  obtains provider title description category startsAt where
    "jget v ''provider'' = JStr (u provider)" "provider \<in> set provider_names"
    "jget v ''title'' = JStr title" "title \<noteq> []" "jget v ''description'' = JStr description"
    "jget v ''category'' = JStr category" "category \<noteq> []"
    "jget v ''startsAt'' = JStr startsAt" "canonical_iso startsAt"
    "jget v ''city'' = Undefined \<or> (\<exists>c. jget v ''city'' = JStr c \<and> c \<noteq> [])"
proof -
  note f = assms[unfolded valid_listing_fields_def]
  obtain provider where "jget v ''provider'' = JStr (u provider)" "provider \<in> set provider_names"
    using f str_inD by blast
  moreover obtain title where "jget v ''title'' = JStr title" "title \<noteq> []"
    using f bounded_stringD by blast
  moreover obtain description where "jget v ''description'' = JStr description"
    using f bounded_stringD by blast
  moreover obtain category where "jget v ''category'' = JStr category" "category \<noteq> []"
    using f bounded_stringD by blast
  moreover obtain startsAt where "jget v ''startsAt'' = JStr startsAt" "canonical_iso startsAt"
    using f by (auto simp: iso_value_iff)
  moreover have "jget v ''city'' = Undefined \<or> (\<exists>c. jget v ''city'' = JStr c \<and> c \<noteq> [])"
    using f absent_orD bounded_stringD by blast
  ultimately show thesis by (rule that)
qed

definition geo_in_range :: "venue_geo \<Rightarrow> bool" where
  "geo_in_range g \<longleftrightarrow> \<bar>geo_lat g\<bar> \<le> 90 \<and> \<bar>geo_lon g\<bar> \<le> 180"

text \<open>An optional text as the value it is read from.\<close>

definition text_json :: "jstr option \<Rightarrow> json" where
  "text_json t = (case t of None \<Rightarrow> Undefined | Some s \<Rightarrow> JStr s)"

lemma optional_text:
  assumes "absent_or (bounded_string n b) v"
  shows "v = text_json (as_str v)" and "b \<or> as_str v \<noteq> Some []"
  using absent_orD[OF assms] by (auto simp: text_json_def dest!: bounded_stringD)

lemma valid_geo_read:
  assumes "valid_geo g"
  shows "\<exists>x. json_geo g = Some x \<and> geo_in_range x \<and> jget g ''lat'' = JNum (Fin (geo_lat x))
    \<and> jget g ''lon'' = JNum (Fin (geo_lon x))"
proof -
  have num: "as_fin v = Some r \<Longrightarrow> v = JNum (Fin r)" for v r
    by (cases v rule: as_fin.cases) simp_all
  obtain la lo where "as_fin (jget g ''lat'') = Some la" "as_fin (jget g ''lon'') = Some lo"
    "- 90 \<le> la" "la \<le> 90" "- 180 \<le> lo" "lo \<le> 180"
    using assms by (auto simp: valid_geo_def dest!: number_betweenD)
  then show ?thesis using num by (simp add: json_geo_def geo_in_range_def abs_le_iff)
qed

lemma venue_fields:
  assumes "valid_venue v"
  shows "\<exists>name. jget v ''name'' = JStr name \<and> name \<noteq> []"
    and "jget v ''providerVenueId'' = text_json (as_str (jget v ''providerVenueId''))"
    and "as_str (jget v ''providerVenueId'') \<noteq> Some []"
    and "jget v ''address'' = text_json (as_str (jget v ''address''))"
    and "jget v ''district'' = text_json (as_str (jget v ''district''))"
    and "case json_geo (jget v ''geo'') of None \<Rightarrow> jget v ''geo'' = Undefined
      | Some g \<Rightarrow> geo_in_range g \<and> jget (jget v ''geo'') ''lat'' = JNum (Fin (geo_lat g))
          \<and> jget (jget v ''geo'') ''lon'' = JNum (Fin (geo_lon g))"
proof -
  note f = assms[unfolded valid_venue_def]
  show "\<exists>name. jget v ''name'' = JStr name \<and> name \<noteq> []" using f bounded_stringD by blast
  show "jget v ''providerVenueId'' = text_json (as_str (jget v ''providerVenueId''))"
    "as_str (jget v ''providerVenueId'') \<noteq> Some []"
    "jget v ''address'' = text_json (as_str (jget v ''address''))"
    "jget v ''district'' = text_json (as_str (jget v ''district''))"
    using f optional_text by blast+
  have "jget v ''geo'' = Undefined \<or> valid_geo (jget v ''geo'')" using f absent_orD by blast
  then show "case json_geo (jget v ''geo'') of None \<Rightarrow> jget v ''geo'' = Undefined
      | Some g \<Rightarrow> geo_in_range g \<and> jget (jget v ''geo'') ''lat'' = JNum (Fin (geo_lat g))
          \<and> jget (jget v ''geo'') ''lon'' = JNum (Fin (geo_lon g))"
  proof
    assume "jget v ''geo'' = Undefined"
    then show ?thesis by (simp add: json_geo_def)
  next
    assume "valid_geo (jget v ''geo'')"
    then show ?thesis using valid_geo_read by fastforce
  qed
qed

text \<open>
  The kind of the time zone evidence is compared as text, so a list that holds the name of a kind
  passes, and none of the formats is then asked for.
\<close>

lemma timezone_kind_in_list:
  "validate_timezone_evidence P
     (JObj [(u ''kind'', JArr [JStr (u ''unix_epoch_ms'')]), (u ''sourceValue'', JStr (u ''never''))]) = Inr ()"
  by (simp add: validate_timezone_evidence_def allowed_keys_def bounded_string_def Let_def)

section \<open>A listing to try the properties on\<close>

definition sample_parse :: "jstr \<Rightarrow> url_parts option" where
  "sample_parse s = Some \<lparr>up_protocol = u ''https:'', up_hostname = u ''biletinial.com'',
     up_username = [], up_password = []\<rparr>"

definition sample_raw_ref :: json where
  "sample_raw_ref = JObj [(u ''sha256'', JStr (replicate 64 48)),
     (u ''key'', JStr (u ''bodies/'' @ replicate 64 48 @ u ''.bin'')), (u ''bytes'', jint 10)]"

definition sample_provider_listing :: "jstr \<Rightarrow> json" where
  "sample_provider_listing lid = JObj [
     (u ''contractVersion'', JStr (u ''provider-listing.v1'')), (u ''listingId'', JStr lid),
     (u ''provider'', JStr (u ''biletinial'')), (u ''providerSessionIds'', JArr [JStr (u ''s1'')]),
     (u ''url'', JStr (u ''https://biletinial.com/hamlet'')), (u ''title'', JStr (u ''Hamlet'')),
     (u ''description'', JStr []), (u ''category'', JStr (u ''Tiyatro'')),
     (u ''startsAt'', JStr (iso_string 1790874000000)),
     (u ''timezoneEvidence'', JObj [(u ''kind'', JStr (u ''unix_epoch_ms'')),
        (u ''sourceValue'', JStr (u ''0''))]),
     (u ''venue'', JObj [(u ''name'', JStr (u ''Moda Sahnesi'')),
        (u ''geo'', JObj [(u ''lat'', JNum (Fin 41)), (u ''lon'', JNum (Fin 29))])]),
     (u ''tiers'', JArr []), (u ''availability'', JStr (u ''available'')),
     (u ''observedAt'', JStr (iso_string 0)), (u ''extractorVersion'', JStr (u ''1'')),
     (u ''rawObjectRef'', sample_raw_ref)]"

lemma sample_fields:
  "jget (sample_provider_listing lid) ''contractVersion'' = JStr (u ''provider-listing.v1'')"
  "jget (sample_provider_listing lid) ''listingId'' = JStr lid"
  "jget (sample_provider_listing lid) ''provider'' = JStr (u ''biletinial'')"
  "jget (sample_provider_listing lid) ''providerEventId'' = Undefined"
  "jget (sample_provider_listing lid) ''providerSessionIds'' = JArr [JStr (u ''s1'')]"
  "jget (sample_provider_listing lid) ''url'' = JStr (u ''https://biletinial.com/hamlet'')"
  "jget (sample_provider_listing lid) ''title'' = JStr (u ''Hamlet'')"
  "jget (sample_provider_listing lid) ''description'' = JStr []"
  "jget (sample_provider_listing lid) ''category'' = JStr (u ''Tiyatro'')"
  "jget (sample_provider_listing lid) ''startsAt'' = JStr (iso_string 1790874000000)"
  "jget (sample_provider_listing lid) ''timezoneEvidence'' =
     JObj [(u ''kind'', JStr (u ''unix_epoch_ms'')), (u ''sourceValue'', JStr (u ''0''))]"
  "jget (sample_provider_listing lid) ''venue'' = JObj [(u ''name'', JStr (u ''Moda Sahnesi'')),
     (u ''geo'', JObj [(u ''lat'', JNum (Fin 41)), (u ''lon'', JNum (Fin 29))])]"
  "jget (sample_provider_listing lid) ''tiers'' = JArr []"
  "jget (sample_provider_listing lid) ''availability'' = JStr (u ''available'')"
  "jget (sample_provider_listing lid) ''observedAt'' = JStr (iso_string 0)"
  "jget (sample_provider_listing lid) ''extractorVersion'' = JStr (u ''1'')"
  "jget (sample_provider_listing lid) ''rawObjectRef'' = sample_raw_ref"
  "jget (sample_provider_listing lid) ''supplementaryRawObjectRefs'' = Undefined"
  "jget (sample_provider_listing lid) ''supplementaryRawObservations'' = Undefined"
  "jget (sample_provider_listing lid) ''attendanceTiming'' = Undefined"
  "jget (sample_provider_listing lid) ''imageUrl'' = Undefined"
  "jget (sample_provider_listing lid) ''city'' = Undefined"
  by (simp_all add: sample_provider_listing_def)

lemma sample_keys:
  "is_obj (sample_provider_listing lid)"
  "allowed_keys (sample_provider_listing lid) required_listing_keys optional_listing_keys"
  by (simp_all add: sample_provider_listing_def allowed_keys_def required_listing_keys_def
      optional_listing_keys_def)

lemma sample_material:
  "expected_provider_listing_id P (sample_provider_listing a) = expected_provider_listing_id P (sample_provider_listing b)"
  by (simp only: expected_provider_listing_id_def provider_listing_identity_material_def sample_fields)

lemma sample_raw_ref_ok: "validate_raw_object_ref sample_raw_ref = Inr ()"
proof -
  have "is_hex64 (replicate 64 48)" by (simp add: is_hex64_def list_all_iff is_hex_unit_def is_digit_unit_def)
  then show ?thesis
    by (simp add: validate_raw_object_ref_def valid_raw_object_ref_def sample_raw_ref_def allowed_keys_def
        hex64_value_def or_empty_def max_raw_bytes_def max_safe_integer_def)
qed

lemma sample_listing_accepted:
  fixes P
  defines "lid \<equiv> expected_provider_listing_id P (sample_provider_listing [])"
  shows "validate_provider_listing P sample_parse (sample_provider_listing lid) = Inr (sample_provider_listing lid)"
proof -
  let ?v = "sample_provider_listing lid"
  have "is_hex64 lid"
    unfolding lid_def expected_provider_listing_id_def by (simp add: is_hex64_def sha256_hex_shape)
  moreover have "canonical_iso (iso_string 1790874000000)" "canonical_iso (iso_string 0)"
    by (rule canonical_iso_of_time; simp add: max_time_def)+
  ultimately have fields: "valid_listing_fields ?v"
    by (simp add: valid_listing_fields_def sample_fields sample_keys hex64_value_def str_in_def
        provider_names_def availability_names_def absent_or_def valid_session_ids_def
        bounded_string_def iso_value_def)
  have url: "valid_listing_url sample_parse ?v"
    by (simp add: valid_listing_url_def sample_fields sample_parse_def plain_https_def expected_host_def
        or_empty_def)
  have lid: "JStr lid = JStr (expected_provider_listing_id P ?v)"
    unfolding lid_def using sample_material by simp
  have digit: "test (re ''^%d{1,16}$'') (u ''0'')" by code_simp
  have zone: "validate_timezone_evidence P (jget ?v ''timezoneEvidence'') = Inr ()"
    using digit by (simp add: sample_fields validate_timezone_evidence_def allowed_keys_def
        bounded_string_def matches_text_def Let_def)
  have venue: "valid_venue (jget ?v ''venue'')"
    by (simp add: sample_fields valid_venue_def allowed_keys_def bounded_string_def absent_or_def
        valid_geo_def number_between_def)
  show ?thesis
    unfolding validate_provider_listing_def
    by (simp only: fields url zone[unfolded sample_fields] venue[unfolded sample_fields] sample_fields
          lid[symmetric] sample_raw_ref_ok guard_simps rbind_simps)
       (simp add: validate_supplementary_refs_def validate_supplementary_observations_def)
qed

section \<open>The property\<close>

text \<open>
  C31: an accepted listing is read in full. Validation returns its argument, whose id is the hash of
  its own identity material. Every field of the listing that identity resolution then compares is
  the field of the value, not a default: provider, title, description, category, start, city,
  attendance timing, and the name, id, address, district and coordinates of the venue. An optional
  field is absent only where the value has none; the provider is a known one, the start is
  canonical, the timing well formed and the coordinates in range; title, category and name, and
  city and venue id where present, are not empty.
\<close>

theorem accepted_listing_readable:
  assumes "validate_provider_listing P parse v = Inr w" and "ev_providerListing e = Some v"
  shows "w = v \<and> jget v ''listingId'' = JStr (expected_provider_listing_id P v)
    \<and> il_listingId (listing_of_event e) = ev_id e
    \<and> jget v ''provider'' = JStr (il_provider (listing_of_event e))
    \<and> il_provider (listing_of_event e) \<in> u ` set provider_names
    \<and> jget v ''title'' = JStr (il_title (listing_of_event e)) \<and> il_title (listing_of_event e) \<noteq> []
    \<and> jget v ''description'' = JStr (il_description (listing_of_event e))
    \<and> jget v ''category'' = JStr (il_category (listing_of_event e)) \<and> il_category (listing_of_event e) \<noteq> []
    \<and> jget v ''startsAt'' = JStr (il_startsAt (listing_of_event e))
    \<and> canonical_iso (il_startsAt (listing_of_event e))
    \<and> jget v ''city'' = text_json (il_city (listing_of_event e)) \<and> il_city (listing_of_event e) \<noteq> Some []
    \<and> parse_attendance_timing (jget v ''attendanceTiming'') = Inr (il_attendanceTiming (listing_of_event e))
    \<and> (case il_attendanceTiming (listing_of_event e) of
         None \<Rightarrow> jget v ''attendanceTiming'' = Undefined | Some t \<Rightarrow> timing_ok t)
    \<and> (let venue = il_venue (listing_of_event e); stated = jget v ''venue''
       in jget stated ''name'' = JStr (vn_name venue) \<and> vn_name venue \<noteq> []
        \<and> jget stated ''providerVenueId'' = text_json (vn_providerVenueId venue)
        \<and> vn_providerVenueId venue \<noteq> Some []
        \<and> jget stated ''address'' = text_json (vn_address venue)
        \<and> jget stated ''district'' = text_json (vn_district venue)
        \<and> (case vn_geo venue of
             None \<Rightarrow> jget stated ''geo'' = Undefined
           | Some g \<Rightarrow> geo_in_range g \<and> jget (jget stated ''geo'') ''lat'' = JNum (Fin (geo_lat g))
               \<and> jget (jget stated ''geo'') ''lon'' = JNum (Fin (geo_lon g))))"
proof -
  note v = validate_provider_listing_Inr[OF assms(1)]
  obtain provider title description category startsAt where f:
    "jget v ''provider'' = JStr (u provider)" "provider \<in> set provider_names"
    "jget v ''title'' = JStr title" "title \<noteq> []" "jget v ''description'' = JStr description"
    "jget v ''category'' = JStr category" "category \<noteq> []"
    "jget v ''startsAt'' = JStr startsAt" "canonical_iso startsAt"
    using v(2) by (rule listing_fields)
  have city: "jget v ''city'' = text_json (as_str (jget v ''city''))" "as_str (jget v ''city'') \<noteq> Some []"
    using v(2) optional_text[of 1000 False "jget v ''city''"] by (simp_all add: valid_listing_fields_def)
  obtain name where name: "jget (jget v ''venue'') ''name'' = JStr name" "name \<noteq> []"
    using venue_fields(1)[OF v(5)] by blast
  obtain t where t: "parse_attendance_timing (jget v ''attendanceTiming'') = Inr t" using v(6) by blast
  then have timing: "json_timing (jget v ''attendanceTiming'') = t"
    "case t of None \<Rightarrow> jget v ''attendanceTiming'' = Undefined | Some t \<Rightarrow> timing_ok t"
    using timing_text_ok timing_absent by (auto simp: json_timing_def split: option.split)
  have l: "listing_of_event e = \<lparr>il_listingId = ev_id e, il_provider = u provider, il_title = title,
      il_description = description, il_category = category, il_startsAt = startsAt,
      il_attendanceTiming = t,
      il_venue = \<lparr>vn_name = name, vn_providerVenueId = as_str (jget (jget v ''venue'') ''providerVenueId''),
        vn_address = as_str (jget (jget v ''venue'') ''address''),
        vn_district = as_str (jget (jget v ''venue'') ''district''),
        vn_geo = json_geo (jget (jget v ''venue'') ''geo'')\<rparr>,
      il_city = as_str (jget v ''city'')\<rparr>"
    using f name timing by (simp add: listing_of_event_def assms(2) json_text_def or_empty_def Let_def)
  have p: "u provider \<in> u ` set provider_names" using f(2) by blast
  show ?thesis
    unfolding l identity_listing.simps listing_venue.simps Let_def
    by (intro conjI v(1,4) refl f(1,3-9) p city t timing(2) name venue_fields(2-6)[OF v(5)])
qed

theorem accepted_listing_readable_witness:
  "\<exists>v. validate_provider_listing turkish_platform sample_parse v = Inr v
     \<and> canonical_iso (il_startsAt (listing_of_event (blank_event\<lparr>ev_providerListing := Some v\<rparr>)))
     \<and> vn_geo (il_venue (listing_of_event (blank_event\<lparr>ev_providerListing := Some v\<rparr>)))
         = Some \<lparr>geo_lat = 41, geo_lon = 29\<rparr>"
proof -
  let ?v = "sample_provider_listing (expected_provider_listing_id turkish_platform (sample_provider_listing []))"
  let ?e = "blank_event\<lparr>ev_providerListing := Some ?v\<rparr>"
  have e: "ev_providerListing ?e = Some ?v" by simp
  note r = accepted_listing_readable[OF sample_listing_accepted[of turkish_platform] e]
  have "vn_geo (il_venue (listing_of_event ?e)) = Some \<lparr>geo_lat = 41, geo_lon = 29\<rparr>"
    by (simp add: listing_of_event_def Let_def sample_fields json_geo_def)
  then show ?thesis using r sample_listing_accepted[of turkish_platform] by blast
qed

end
