(* ===== verification/Attempts.thy ===== *)
theory Attempts
  imports Control
begin

text \<open>
  The diagnostic record that \<open>web/lib/store.gcp.ts\<close> keeps of the last checkpoint publication: its
  phases and outcomes, how it is written, and the reader \<open>publicationAttempt\<close>, which trusts
  nothing of the stored value.
\<close>

section \<open>The record\<close>

datatype publication_phase =
  Source_heads | Source_reads | Materialize | Write_search | Write_checkpoint | Activate | Complete

datatype publication_outcome = Running | Succeeded | Failed

record publication_attempt =
  pa_attemptId :: jstr
  pa_deploymentRevision :: "jstr option"
  pa_reportFinishedAt :: jstr
  pa_startedAt :: jstr
  pa_phase :: publication_phase
  pa_sourcesTotal :: int
  pa_sourcesRead :: int
  pa_events :: int
  pa_searchBytes :: "int option"
  pa_checkpointBytes :: "int option"
  pa_elapsedMs :: int
  pa_phaseStartedElapsedMs :: "int option"
  pa_outcome :: publication_outcome
  pa_failureCode :: "failure_code option"

fun phase_name :: "publication_phase \<Rightarrow> jstr" where
  "phase_name Source_heads = u ''source_heads''"
| "phase_name Source_reads = u ''source_reads''"
| "phase_name Materialize = u ''materialize''"
| "phase_name Write_search = u ''write_search''"
| "phase_name Write_checkpoint = u ''write_checkpoint''"
| "phase_name Activate = u ''activate''"
| "phase_name Complete = u ''complete''"

fun outcome_name :: "publication_outcome \<Rightarrow> jstr" where
  "outcome_name Running = u ''running''"
| "outcome_name Succeeded = u ''succeeded''"
| "outcome_name Failed = u ''failed''"

fun failure_name :: "failure_code \<Rightarrow> jstr" where
  "failure_name Request_aborted = u ''request_aborted''"
| "failure_name Deadline_exceeded = u ''deadline_exceeded''"
| "failure_name Publication_failed = u ''publication_failed''"

definition publication_phases :: "publication_phase list" where
  "publication_phases =
     [Source_heads, Source_reads, Materialize, Write_search, Write_checkpoint, Activate, Complete]"

definition publication_outcomes :: "publication_outcome list" where
  "publication_outcomes = [Running, Succeeded, Failed]"

definition publication_failures :: "failure_code list" where
  "publication_failures = [Request_aborted, Deadline_exceeded, Publication_failed]"

text \<open>\<open>names.has(value)\<close>, with the element that has the name.\<close>

definition named :: "('a \<Rightarrow> jstr) \<Rightarrow> 'a list \<Rightarrow> json \<Rightarrow> 'a option" where
  "named name_of options v =
     (case v of JStr s \<Rightarrow> find (\<lambda>x. name_of x = s) options | _ \<Rightarrow> None)"

definition max_diagnostic_count :: int where
  "max_diagnostic_count = 100000"
definition max_diagnostic_bytes :: int where
  "max_diagnostic_bytes = 512 * 1024 * 1024"
definition max_diagnostic_elapsed_ms :: int where
  "max_diagnostic_elapsed_ms = 24 * 3600 * 1000"

text \<open>
  \<open>attemptIdPattern\<close>: a version 4 UUID. In the template \<open>x\<close> is any hexadecimal digit and \<open>y\<close> one
  of the four variant digits.
\<close>

definition fits_template :: "char \<Rightarrow> nat \<Rightarrow> bool" where
  "fits_template t c =
     (if t = CHR ''x'' then is_hex_unit c
      else if t = CHR ''y'' then c \<in> {56, 57, 97, 98} else c = cu t)"

definition attempt_id_ok :: "jstr \<Rightarrow> bool" where
  "attempt_id_ok = list_all2 fits_template ''xxxxxxxx-xxxx-4xxx-yxxx-xxxxxxxxxxxx''"

definition revision_ok :: "jstr \<Rightarrow> bool" where
  "revision_ok s \<longleftrightarrow> length s = 40 \<and> list_all is_hex_unit s"

definition diagnostic_count :: "int \<Rightarrow> json \<Rightarrow> int option" where
  "diagnostic_count maximum v =
     (case as_safe_integer v of Some n \<Rightarrow> if 0 \<le> n \<and> n \<le> maximum then Some n else None | None \<Rightarrow> None)"

text \<open>A field that may be \<open>null\<close>: the outer option is the verdict, the inner one the value.\<close>

definition null_or :: "(json \<Rightarrow> 'a option) \<Rightarrow> json \<Rightarrow> 'a option option" where
  "null_or read v = (if v = Null then Some None else map_option Some (read v))"

definition undefined_or :: "(json \<Rightarrow> 'a option) \<Rightarrow> json \<Rightarrow> 'a option option" where
  "undefined_or read v = (if v = Undefined then Some None else map_option Some (read v))"

definition read_text :: "(jstr \<Rightarrow> bool) \<Rightarrow> json \<Rightarrow> jstr option" where
  "read_text ok v = (case v of JStr s \<Rightarrow> if ok s then Some s else None | _ \<Rightarrow> None)"

definition attempt_outcome_ok :: "publication_attempt \<Rightarrow> bool" where
  "attempt_outcome_ok a =
     (case pa_outcome a of
        Running \<Rightarrow> pa_failureCode a = None \<and> pa_phase a \<noteq> Complete
      | Succeeded \<Rightarrow> pa_failureCode a = None \<and> pa_phase a = Complete
      | Failed \<Rightarrow> pa_failureCode a \<noteq> None)"

text \<open>\<open>publicationAttempt\<close>, the reader of the stored record.\<close>

definition read_publication_attempt :: "json \<Rightarrow> publication_attempt option" where
  "read_publication_attempt v =
     (if \<not> is_obj v \<or> jget v ''schemaVersion'' \<noteq> jint 1 then None
      else Option.bind (read_text attempt_id_ok (jget v ''attemptId'')) (\<lambda>attemptId.
      Option.bind (null_or (read_text revision_ok) (jget v ''deploymentRevision'')) (\<lambda>deploymentRevision.
      Option.bind (read_text canonical_iso (jget v ''reportFinishedAt'')) (\<lambda>reportFinishedAt.
      Option.bind (read_text canonical_iso (jget v ''startedAt'')) (\<lambda>startedAt.
      Option.bind (named phase_name publication_phases (jget v ''phase'')) (\<lambda>phase.
      Option.bind (diagnostic_count max_diagnostic_count (jget v ''sourcesTotal'')) (\<lambda>sourcesTotal.
      Option.bind (diagnostic_count max_diagnostic_count (jget v ''sourcesRead'')) (\<lambda>sourcesRead.
      Option.bind (diagnostic_count max_diagnostic_count (jget v ''events'')) (\<lambda>events.
      Option.bind (null_or (diagnostic_count max_diagnostic_bytes) (jget v ''searchBytes'')) (\<lambda>searchBytes.
      Option.bind (null_or (diagnostic_count max_diagnostic_bytes) (jget v ''checkpointBytes'')) (\<lambda>checkpointBytes.
      Option.bind (diagnostic_count max_diagnostic_elapsed_ms (jget v ''elapsedMs'')) (\<lambda>elapsedMs.
      Option.bind (undefined_or (diagnostic_count max_diagnostic_elapsed_ms) (jget v ''phaseStartedElapsedMs'')) (\<lambda>phaseStarted.
      Option.bind (named outcome_name publication_outcomes (jget v ''outcome'')) (\<lambda>outcome.
      Option.bind (null_or (named failure_name publication_failures) (jget v ''failureCode'')) (\<lambda>failureCode.
        let a = \<lparr>pa_attemptId = attemptId, pa_deploymentRevision = deploymentRevision,
                 pa_reportFinishedAt = reportFinishedAt, pa_startedAt = startedAt, pa_phase = phase,
                 pa_sourcesTotal = sourcesTotal, pa_sourcesRead = sourcesRead, pa_events = events,
                 pa_searchBytes = searchBytes, pa_checkpointBytes = checkpointBytes,
                 pa_elapsedMs = elapsedMs, pa_phaseStartedElapsedMs = phaseStarted,
                 pa_outcome = outcome, pa_failureCode = failureCode\<rparr>
        in if sourcesRead > sourcesTotal
              \<or> (case phaseStarted of Some s \<Rightarrow> s > elapsedMs | None \<Rightarrow> False)
              \<or> \<not> attempt_outcome_ok a
           then None else Some a)))))))))))))))"

text \<open>\<open>{ ...attempt }\<close> as the store keeps it.\<close>

definition null_json :: "('a \<Rightarrow> json) \<Rightarrow> 'a option \<Rightarrow> json" where
  "null_json j v = (case v of Some x \<Rightarrow> j x | None \<Rightarrow> Null)"

definition attempt_json :: "publication_attempt \<Rightarrow> json" where
  "attempt_json a = JObj (
     [(u ''schemaVersion'', jint 1), (u ''attemptId'', JStr (pa_attemptId a)),
      (u ''deploymentRevision'', null_json JStr (pa_deploymentRevision a)),
      (u ''reportFinishedAt'', JStr (pa_reportFinishedAt a)), (u ''startedAt'', JStr (pa_startedAt a)),
      (u ''phase'', JStr (phase_name (pa_phase a))), (u ''sourcesTotal'', jint (pa_sourcesTotal a)),
      (u ''sourcesRead'', jint (pa_sourcesRead a)), (u ''events'', jint (pa_events a)),
      (u ''searchBytes'', null_json jint (pa_searchBytes a)),
      (u ''checkpointBytes'', null_json jint (pa_checkpointBytes a)),
      (u ''elapsedMs'', jint (pa_elapsedMs a))]
     @ (case pa_phaseStartedElapsedMs a of
          Some s \<Rightarrow> [(u ''phaseStartedElapsedMs'', jint s)] | None \<Rightarrow> [])
     @ [(u ''outcome'', JStr (outcome_name (pa_outcome a))),
        (u ''failureCode'', null_json (\<lambda>c. JStr (failure_name c)) (pa_failureCode a))])"

definition diagnostic_ok :: "int \<Rightarrow> int \<Rightarrow> bool" where
  "diagnostic_ok maximum n \<longleftrightarrow> 0 \<le> n \<and> n \<le> maximum"

definition attempt_ok :: "publication_attempt \<Rightarrow> bool" where
  "attempt_ok a \<longleftrightarrow>
     attempt_id_ok (pa_attemptId a)
     \<and> pred_option revision_ok (pa_deploymentRevision a)
     \<and> canonical_iso (pa_reportFinishedAt a) \<and> canonical_iso (pa_startedAt a)
     \<and> diagnostic_ok max_diagnostic_count (pa_sourcesTotal a)
     \<and> diagnostic_ok max_diagnostic_count (pa_sourcesRead a)
     \<and> pa_sourcesRead a \<le> pa_sourcesTotal a
     \<and> diagnostic_ok max_diagnostic_count (pa_events a)
     \<and> pred_option (diagnostic_ok max_diagnostic_bytes) (pa_searchBytes a)
     \<and> pred_option (diagnostic_ok max_diagnostic_bytes) (pa_checkpointBytes a)
     \<and> diagnostic_ok max_diagnostic_elapsed_ms (pa_elapsedMs a)
     \<and> pred_option (diagnostic_ok max_diagnostic_elapsed_ms) (pa_phaseStartedElapsedMs a)
     \<and> pred_option (\<lambda>s. s \<le> pa_elapsedMs a) (pa_phaseStartedElapsedMs a)
     \<and> attempt_outcome_ok a"

lemma named_phase [simp]: "named phase_name publication_phases (JStr (phase_name p)) = Some p"
  by (cases p) (simp_all add: named_def publication_phases_def)

lemma named_outcome [simp]:
  "named outcome_name publication_outcomes (JStr (outcome_name out)) = Some out"
  by (cases out) (simp_all add: named_def publication_outcomes_def)

lemma named_failure [simp]:
  "named failure_name publication_failures (JStr (failure_name c)) = Some c"
  by (cases c) (simp_all add: named_def publication_failures_def)

lemma diagnostic_bounds_safe:
  "max_diagnostic_count \<le> max_safe_integer" "max_diagnostic_bytes \<le> max_safe_integer"
  "max_diagnostic_elapsed_ms \<le> max_safe_integer"
  by (simp_all add: max_diagnostic_count_def max_diagnostic_bytes_def max_diagnostic_elapsed_ms_def
      max_safe_integer_def)

lemma diagnostic_count_jint:
  assumes "m \<le> max_safe_integer"
  shows "diagnostic_count m (jint n) = (if diagnostic_ok m n then Some n else None)"
  using assms by (auto simp: diagnostic_count_def diagnostic_ok_def)

lemma read_text_JStr: "read_text ok (JStr s) = (if ok s then Some s else None)"
  by (simp add: read_text_def)

lemma JStr_not_Null: "JStr s \<noteq> Null"
  by simp

lemma jint_special [simp]: "jint n \<noteq> Null" "jint n \<noteq> Undefined"
  by (simp_all add: jint_def)

text \<open>A nullable field written and read back, for any reader that inverts its writer.\<close>

lemma null_or_json:
  assumes "\<And>x. j x \<noteq> Null" "\<And>x. read (j x) = (if ok x then Some x else None)"
  shows "null_or read (null_json j v) = (if pred_option ok v then Some v else None)"
  using assms by (cases v) (simp_all add: null_or_def null_json_def)

lemma undefined_or_json:
  assumes "\<And>x. j x \<noteq> Undefined" "\<And>x. read (j x) = (if ok x then Some x else None)"
  shows "undefined_or read (case v of Some x \<Rightarrow> j x | None \<Rightarrow> Undefined)
    = (if pred_option ok v then Some v else None)"
  using assms by (cases v) (simp_all add: undefined_or_def)

lemma bind_accepted: "Option.bind (if b then Some x else None) f = (if b then f x else None)"
  by simp

lemma attempt_json_fields:
  "is_obj (attempt_json a)" "jget (attempt_json a) ''schemaVersion'' = jint 1"
  "jget (attempt_json a) ''attemptId'' = JStr (pa_attemptId a)"
  "jget (attempt_json a) ''deploymentRevision'' = null_json JStr (pa_deploymentRevision a)"
  "jget (attempt_json a) ''reportFinishedAt'' = JStr (pa_reportFinishedAt a)"
  "jget (attempt_json a) ''startedAt'' = JStr (pa_startedAt a)"
  "jget (attempt_json a) ''phase'' = JStr (phase_name (pa_phase a))"
  "jget (attempt_json a) ''sourcesTotal'' = jint (pa_sourcesTotal a)"
  "jget (attempt_json a) ''sourcesRead'' = jint (pa_sourcesRead a)"
  "jget (attempt_json a) ''events'' = jint (pa_events a)"
  "jget (attempt_json a) ''searchBytes'' = null_json jint (pa_searchBytes a)"
  "jget (attempt_json a) ''checkpointBytes'' = null_json jint (pa_checkpointBytes a)"
  "jget (attempt_json a) ''elapsedMs'' = jint (pa_elapsedMs a)"
  "jget (attempt_json a) ''phaseStartedElapsedMs''
     = (case pa_phaseStartedElapsedMs a of Some s \<Rightarrow> jint s | None \<Rightarrow> Undefined)"
  "jget (attempt_json a) ''outcome'' = JStr (outcome_name (pa_outcome a))"
  "jget (attempt_json a) ''failureCode'' = null_json (\<lambda>c. JStr (failure_name c)) (pa_failureCode a)"
  unfolding attempt_json_def
  by (cases "pa_phaseStartedElapsedMs a"; simp)+

lemmas attempt_fields_read =
  null_or_json[of JStr "read_text revision_ok", OF JStr_not_Null read_text_JStr]
  null_or_json[of jint "diagnostic_count max_diagnostic_bytes",
    OF jint_special(1) diagnostic_count_jint[OF diagnostic_bounds_safe(2)]]
  undefined_or_json[of jint "diagnostic_count max_diagnostic_elapsed_ms",
    OF jint_special(2) diagnostic_count_jint[OF diagnostic_bounds_safe(3)]]

lemma failure_read:
  "null_or (named failure_name publication_failures) (null_json (\<lambda>c. JStr (failure_name c)) v) = Some v"
  using null_or_json[of "\<lambda>c. JStr (failure_name c)" "named failure_name publication_failures"
      "\<lambda>_. True" v]
  by (cases v) simp_all

text \<open>A record is read back exactly when it is well formed; otherwise the reader reports none.\<close>

lemma publication_attempt_json:
  "read_publication_attempt (attempt_json a) = (if attempt_ok a then Some a else None)"
proof -
  have late: "(case s of Some s \<Rightarrow> s > e | None \<Rightarrow> False) = (\<not> pred_option (\<lambda>s. s \<le> (e :: int)) s)" for s e
    by (cases s) auto
  have same: "\<lparr>pa_attemptId = pa_attemptId a, pa_deploymentRevision = pa_deploymentRevision a,
      pa_reportFinishedAt = pa_reportFinishedAt a, pa_startedAt = pa_startedAt a,
      pa_phase = pa_phase a, pa_sourcesTotal = pa_sourcesTotal a, pa_sourcesRead = pa_sourcesRead a,
      pa_events = pa_events a, pa_searchBytes = pa_searchBytes a,
      pa_checkpointBytes = pa_checkpointBytes a, pa_elapsedMs = pa_elapsedMs a,
      pa_phaseStartedElapsedMs = pa_phaseStartedElapsedMs a, pa_outcome = pa_outcome a,
      pa_failureCode = pa_failureCode a\<rparr> = a"
    by simp
  show ?thesis
    unfolding read_publication_attempt_def attempt_json_fields attempt_fields_read failure_read
      read_text_JStr diagnostic_count_jint[OF diagnostic_bounds_safe(1)]
      diagnostic_count_jint[OF diagnostic_bounds_safe(3)]
      named_phase named_outcome bind_accepted Option.bind.bind_lunit Let_def late same attempt_ok_def linorder_not_le[symmetric]
    by (simp add: attempt_json_fields(1))
qed

end
