(* ===== verification/Catalog.thy ===== *)
theory Catalog
  imports Snapshots Materialized Listing Attempts
begin

text \<open>
  The catalog part of \<open>web/lib/store.gcp.ts\<close>: reading the published checkpoint and the prepared
  search through their per-instance caches, the status of a catalog, its candidates, the
  activation of a pending search catalog, and the import of source pages. The publication of a
  checkpoint is in the theory Publication.
\<close>

section \<open>The published head and its objects\<close>

definition max_source_bytes :: int where "max_source_bytes = 4000000"
definition max_search_bytes :: int where "max_search_bytes = 128 * 1024 * 1024"

definition catalog_head_ok :: "catalog_head \<Rightarrow> bool" where
  "catalog_head_ok h \<longleftrightarrow>
     is_hex64 (ch_hash h) \<and> ch_revision h \<noteq> []
     \<and> parse_checkpoint_pointer (Some (pointer_json (ch_pointer h))) \<noteq> None"

definition read_catalog_head :: "world \<Rightarrow> catalog_head option res" where
  "read_catalog_head w =
     (case catalog (ctl w) of
        None \<Rightarrow> Inr None
      | Some h \<Rightarrow> if catalog_head_ok h then Inr (Some h) else throw ''Invalid catalog publication'')"

record catalog_cache =
  cc_key :: jstr
  cc_hash :: jstr
  cc_body :: body

definition checkpoint_matches :: "checkpoint_pointer \<Rightarrow> checkpoint \<Rightarrow> bool" where
  "checkpoint_matches p c \<longleftrightarrow>
     cp_savedAt c = ptr_savedAt p
     \<and> rep_finishedAt (cp_report c) = ptr_finishedAt p
     \<and> int (length (cp_events c)) = ptr_events p
     \<and> int (length (cp_events c)) \<le> max_checkpoint_events"

text \<open>\<open>readCatalog\<close> loads the object of a head when it is not the cached one.\<close>

definition load_catalog :: "env \<Rightarrow> world \<Rightarrow> catalog_head \<Rightarrow> body res" where
  "load_catalog E w h =
     (case blobs w (ptr_key (ch_pointer h)) of
        None \<Rightarrow> throw ''Published catalog object unavailable or damaged''
      | Some object \<Rightarrow>
          if bl_bytes object > max_checkpoint_bytes
             \<or> bl_bytes object \<noteq> ptr_bytes (ch_pointer h)
             \<or> en_size E (bl_body object) \<noteq> bl_bytes object
             \<or> en_digest E (bl_body object) \<noteq> ch_hash h
          then throw ''Published catalog object unavailable or damaged''
          else (case bl_body object of
                  Checkpoint_body c \<Rightarrow>
                    if checkpoint_matches (ch_pointer h) c then Inr (bl_body object)
                    else throw ''Invalid published catalog''
                | _ \<Rightarrow> throw ''Invalid published catalog''))"

definition read_catalog ::
  "env \<Rightarrow> world \<Rightarrow> catalog_cache option \<Rightarrow> catalog_head option
     \<Rightarrow> body option res \<times> catalog_cache option" where
  "read_catalog E w cache head =
     (case head of
        None \<Rightarrow> (Inr None, cache)
      | Some h \<Rightarrow>
          let load = (case load_catalog E w h of
                        Inl e \<Rightarrow> (Inl e, cache)
                      | Inr b \<Rightarrow> (Inr (Some b), Some \<lparr>cc_key = ptr_key (ch_pointer h),
                                    cc_hash = ch_hash h, cc_body = b\<rparr>))
          in (case cache of
                Some c \<Rightarrow>
                  if cc_key c = ptr_key (ch_pointer h) \<and> cc_hash c = ch_hash h
                  then (Inr (Some (cc_body c)), cache) else load
              | None \<Rightarrow> load))"

definition read_checkpoint ::
  "env \<Rightarrow> world \<Rightarrow> catalog_cache option \<Rightarrow> body option res \<times> catalog_cache option" where
  "read_checkpoint E w cache =
     (case read_catalog_head w of
        Inl e \<Rightarrow> (Inl e, cache) | Inr head \<Rightarrow> read_catalog E w cache head)"

definition read_checkpoint_pointer :: "world \<Rightarrow> checkpoint_pointer option res" where
  "read_checkpoint_pointer w = rbind (read_catalog_head w) (\<lambda>head. Inr (map_option ch_pointer head))"

definition read_checkpoint_publication :: "world \<Rightarrow> publication_attempt option" where
  "read_checkpoint_publication w =
     (case publication (ctl w) of None \<Rightarrow> None | Some v \<Rightarrow> read_publication_attempt v)"

definition checkpoint_exists :: "world \<Rightarrow> checkpoint_pointer \<Rightarrow> bool" where
  "checkpoint_exists w p \<longleftrightarrow> blobs w (ptr_key p) \<noteq> None"

section \<open>The prepared search\<close>

definition matches_profile :: "env \<Rightarrow> search_pointer option \<Rightarrow> bool" where
  "matches_profile E pointer =
     (case pointer of
        None \<Rightarrow> False
      | Some p \<Rightarrow>
          (case en_profile E of
             None \<Rightarrow> True
           | Some (profile, dimensions) \<Rightarrow>
               sp_profile p = Some profile \<and> sp_dimensions p = Some dimensions))"

definition search_pointer_ok :: "search_pointer \<Rightarrow> bool" where
  "search_pointer_ok p \<longleftrightarrow>
     sp_key p \<noteq> [] \<and> is_hex64 (sp_hash p) \<and> 1 \<le> sp_bytes p \<and> sp_bytes p \<le> max_search_bytes"

type_synonym search_cache = "(jstr \<times> search_catalog) list"

definition search_cache_key :: "search_pointer \<Rightarrow> jstr" where
  "search_cache_key p = sp_key p @ [58] @ sp_hash p @ [58] @ int_digits (sp_bytes p)"

definition load_search :: "env \<Rightarrow> world \<Rightarrow> search_pointer \<Rightarrow> search_catalog res" where
  "load_search E w p =
     (case blobs w (sp_key p) of
        None \<Rightarrow> throw ''Published search catalog unavailable or damaged''
      | Some projection \<Rightarrow>
          if bl_bytes projection \<noteq> sp_bytes p \<or> en_size E (bl_body projection) \<noteq> bl_bytes projection
             \<or> en_digest E (bl_body projection) \<noteq> sp_hash p
          then throw ''Published search catalog unavailable or damaged''
          else (case bl_body projection of
                  Search_body search \<Rightarrow>
                    if date_parse (sc_materializedAt search) = None
                    then throw ''Invalid published search catalog'' else Inr search
                | _ \<Rightarrow> throw ''Invalid published search catalog''))"

text \<open>
  \<open>readSearch\<close>: at most two catalogs stay in memory; a third empties the cache first. Requests
  that wait for the same load share it, which changes no answer.
\<close>

definition read_search ::
  "env \<Rightarrow> world \<Rightarrow> search_cache \<Rightarrow> search_pointer option
     \<Rightarrow> search_catalog option res \<times> search_cache" where
  "read_search E w cache pointer =
     (case pointer of
        None \<Rightarrow> (Inr None, cache)
      | Some p \<Rightarrow>
          if \<not> search_pointer_ok p then (throw ''Invalid search catalog pointer'', cache)
          else (case map_of cache (search_cache_key p) of
                  Some cached \<Rightarrow> (Inr (Some cached), cache)
                | None \<Rightarrow>
                    (case load_search E w p of
                       Inl e \<Rightarrow> (Inl e, cache)
                     | Inr search \<Rightarrow>
                         (Inr (Some search),
                          AList.update (search_cache_key p) search
                            (if length cache \<ge> 2 then [] else cache)))))"

definition active_search ::
  "env \<Rightarrow> world \<Rightarrow> search_cache \<Rightarrow> catalog_head option
     \<Rightarrow> search_catalog option res \<times> search_cache" where
  "active_search E w cache head =
     (case head of
        None \<Rightarrow> (Inr None, cache)
      | Some h \<Rightarrow>
          if matches_profile E (ch_search h) then read_search E w cache (ch_search h)
          else if matches_profile E (ch_pendingSearch h) then (Inr None, cache)
          else (throw ''Search catalog requires publication'', cache))"

section \<open>The documents of a catalog\<close>

definition document_hash :: "env \<Rightarrow> event \<Rightarrow> jstr" where
  "document_hash E e =
     (case ev_preparedSearch e of
        Some prepared \<Rightarrow> ps_documentHash prepared
      | None \<Rightarrow> en_sha E (voyage_document_text
          \<lparr>sf_title = ev_title e, sf_category = ev_category e, sf_venue = ev_venue e,
           sf_description = ev_description e\<rparr>))"

definition add_document :: "env \<Rightarrow> event \<Rightarrow> (jstr \<times> event) list \<Rightarrow> (jstr \<times> event) list" where
  "add_document E e documents =
     (let hash = document_hash E e
      in if hash \<in> set (keys documents) then documents else documents @ [(hash, e)])"

text \<open>A version that ended before the time of the request is passed over.\<close>

fun version_documents ::
  "env \<Rightarrow> int \<Rightarrow> catalog_version list \<Rightarrow> (jstr \<times> event) list \<Rightarrow> (jstr \<times> event) list" where
  "version_documents E time [] documents = documents"
| "version_documents E time (v # vs) documents =
     version_documents E time vs
       (if (case vs of [] \<Rightarrow> False | n # _ \<Rightarrow> cv_from n \<le> time) then documents
        else fold (add_document E) (cv_events v) documents)"

definition documents_for :: "env \<Rightarrow> search_catalog \<Rightarrow> int \<Rightarrow> (jstr \<times> event) list" where
  "documents_for E search time = fold (version_documents E time) (sc_groups search) []"

section \<open>Status\<close>

record catalog_status =
  st_status :: catalog_state
  st_stored :: nat
  st_eligible :: nat
  st_lastCheckedAt :: "jstr option"
  st_oldestCheckedAt :: "jstr option"
  st_expiresAt :: "jstr option"

type_synonym event_state = "jstr \<times> jstr \<times> availability"

definition iso_or_throw :: "int option \<Rightarrow> jstr res" where
  "iso_or_throw time =
     (case Option.bind time to_iso of Some s \<Rightarrow> Inr s | None \<Rightarrow> throw ''Invalid time value'')"

text \<open>The loop of \<open>statusFor\<close>: oldest and last check, listings that are fresh, and eligible ones.\<close>

definition status_step ::
  "jstr \<Rightarrow> jstr \<Rightarrow> event_state \<Rightarrow> jstr option \<times> jstr option \<times> nat \<times> nat
     \<Rightarrow> jstr option \<times> jstr option \<times> nat \<times> nat" where
  "status_step cutoff time = (\<lambda>(startsAt, checkedAt, availability) (oldest, last, eligible, fresh).
     (if or_empty oldest = [] \<or> checkedAt < or_empty oldest then Some checkedAt else oldest,
      if or_empty last = [] \<or> checkedAt > or_empty last then Some checkedAt else last,
      if cutoff \<le> checkedAt \<and> time \<le> startsAt \<and> availability = Available
      then Suc eligible else eligible,
      if cutoff \<le> checkedAt then Suc fresh else fresh))"

definition status_for :: "event_state list \<Rightarrow> int \<Rightarrow> catalog_status res" where
  "status_for events now =
     rbind (iso_or_throw (Some (now - 72 * 3600000))) (\<lambda>cutoff.
     rbind (iso_or_throw (Some now)) (\<lambda>time.
       let (oldest, last, eligible, fresh) =
             fold (status_step cutoff time) events (None, None, 0, 0)
       in rbind (if or_empty last = [] then Inr None
                 else map_sum id Some
                   (iso_or_throw (map_option (\<lambda>t. t + 72 * 3600000) (date_parse (or_empty last)))))
            (\<lambda>expires. Inr
              \<lparr>st_status = (if eligible > 0 then Ready
                            else if events \<noteq> [] \<and> fresh = 0 then Stale else Empty),
               st_stored = length events, st_eligible = eligible,
               st_lastCheckedAt = last, st_oldestCheckedAt = oldest, st_expiresAt = expires\<rparr>)))"

definition state_of_event :: "event \<Rightarrow> event_state" where
  "state_of_event e = (ev_startsAt e, ev_checkedAt e, ev_availability e)"

text \<open>The last version of a family, up to now, that shows anything.\<close>

fun latest_visible :: "int \<Rightarrow> catalog_version list \<Rightarrow> event list \<Rightarrow> event list" where
  "latest_visible time [] latest = latest"
| "latest_visible time (v # vs) latest =
     (if cv_from v > time then latest
      else latest_visible time vs (if cv_events v \<noteq> [] then cv_events v else latest))"

definition search_status :: "platform \<Rightarrow> search_catalog \<Rightarrow> int \<Rightarrow> catalog_status res" where
  "search_status P search time =
     (let records = concat (map (\<lambda>versions. latest_visible time versions []) (sc_groups search))
      in rbind (status_for (map state_of_event records) time) (\<lambda>status.
         rbind (search_catalog_candidates P search empty_filters time) (\<lambda>candidates.
           let eligible = length candidates
           in Inr (status\<lparr>st_eligible := eligible,
                st_status := (if eligible > 0 then Ready
                  else if st_status status = Ready then Empty else st_status status)\<rparr>))))"

definition active_status ::
  "env \<Rightarrow> platform \<Rightarrow> world \<Rightarrow> search_cache \<Rightarrow> catalog_head option \<Rightarrow> int
     \<Rightarrow> catalog_status res \<times> search_cache" where
  "active_status E P w cache head time =
     (case active_search E w cache head of
        (Inl e, cache') \<Rightarrow> (Inl e, cache')
      | (Inr None, cache') \<Rightarrow> (status_for [] time, cache')
      | (Inr (Some search), cache') \<Rightarrow> (search_status P search time, cache'))"

definition read_catalog_status ::
  "env \<Rightarrow> platform \<Rightarrow> world \<Rightarrow> search_cache \<Rightarrow> int \<Rightarrow> catalog_status res \<times> search_cache" where
  "read_catalog_status E P w cache time =
     (case read_catalog_head w of
        Inl e \<Rightarrow> (Inl e, cache) | Inr head \<Rightarrow> active_status E P w cache head time)"

record published_state =
  ps_catalog :: catalog_status
  ps_checkpoint :: "checkpoint_pointer option"
  ps_pending :: bool
  ps_searchCheckpoint :: "checkpoint_pointer option"
  ps_sourceCatalog :: catalog_status

definition current_published ::
  "env \<Rightarrow> platform \<Rightarrow> world \<Rightarrow> search_cache \<Rightarrow> int \<Rightarrow> published_state res \<times> search_cache" where
  "current_published E P w cache time =
     (case read_catalog_head w of
        Inl e \<Rightarrow> (Inl e, cache)
      | Inr head \<Rightarrow>
          (case active_search E w cache head of
             (Inl e, cache1) \<Rightarrow> (Inl e, cache1)
           | (Inr search, cache1) \<Rightarrow>
               (case active_status E P w cache1 head time of
                  (Inl e, cache2) \<Rightarrow> (Inl e, cache2)
                | (Inr status, cache2) \<Rightarrow>
                    (rbind (status_for (case search of Some s \<Rightarrow> sc_sourceStatus s | None \<Rightarrow> []) time)
                       (\<lambda>sourceStatus. Inr
                         \<lparr>ps_catalog = status, ps_checkpoint = map_option ch_pointer head,
                          ps_pending = (Option.bind head ch_pendingSearch \<noteq> None),
                          ps_searchCheckpoint =
                            (if search = None then None
                             else Option.bind (Option.bind head ch_search) sp_checkpoint),
                          ps_sourceCatalog = sourceStatus\<rparr>),
                     cache2))))"

section \<open>Candidates\<close>

definition store_candidates ::
  "env \<Rightarrow> platform \<Rightarrow> (event \<Rightarrow> jstr) \<Rightarrow> world \<Rightarrow> search_cache \<Rightarrow> json snapshot_cache option
     \<Rightarrow> filters \<Rightarrow> int \<Rightarrow> event list res \<times> search_cache" where
  "store_candidates E P hash_of w cache labels f time =
     (case read_catalog_head w of
        Inl e \<Rightarrow> (Inl e, cache)
      | Inr head \<Rightarrow>
          (case active_search E w cache head of
             (Inl e, cache') \<Rightarrow> (Inl e, cache')
           | (Inr None, cache') \<Rightarrow> (Inr [], cache')
           | (Inr (Some search), cache') \<Rightarrow>
               (rbind (search_catalog_candidates P search f time)
                  (\<lambda>events. Inr (with_labels E w labels hash_of events)), cache')))"

definition embedding_candidates ::
  "env \<Rightarrow> world \<Rightarrow> search_cache \<Rightarrow> int \<Rightarrow> event list res \<times> search_cache" where
  "embedding_candidates E w cache time =
     (case read_catalog_head w of
        Inl e \<Rightarrow> (Inl e, cache)
      | Inr None \<Rightarrow> (Inr [], cache)
      | Inr (Some h) \<Rightarrow>
          (case (case ch_pendingSearch h of Some p \<Rightarrow> Some p | None \<Rightarrow> ch_search h) of
             None \<Rightarrow> (throw ''Search catalog requires publication'', cache)
           | Some pointer \<Rightarrow>
               if \<not> matches_profile E (Some pointer)
               then (throw ''Search embedding profile mismatch'', cache)
               else (case read_search E w cache (Some pointer) of
                       (Inl e, cache') \<Rightarrow> (Inl e, cache')
                     | (Inr search, cache') \<Rightarrow>
                         (Inr (vals (documents_for E (the search) time)), cache'))))"

section \<open>Activating a pending search\<close>

text \<open>
  \<open>activateSearchCatalog\<close> reads the heads in one transaction, loads the pending catalog and the
  vectors, and activates in a second transaction. Other requests may run in between, so the two
  halves are separate operations.
\<close>

record prepared_activation =
  ac_head :: "catalog_head option"
  ac_vectors :: "vector_head option"
  ac_pending :: search_pointer
  ac_missing :: nat

definition capture_activation ::
  "env \<Rightarrow> jstr \<Rightarrow> lease \<Rightarrow> (world, catalog_head option \<times> vector_head option) op" where
  "capture_activation E profile l =
     obind (olift (require_lease_kind l [''voyage_index_lock''])) (\<lambda>_.
       transaction (obind (require_live l (lease_path E (ls_key l))) (\<lambda>_ w.
         (Inr (catalog (ctl w), vector_heads (ctl w) (profile_path E profile)), w))))"

definition prepare_activation ::
  "env \<Rightarrow> search_cache \<Rightarrow> vector snapshot_cache option \<Rightarrow> jstr
     \<Rightarrow> catalog_head option \<times> vector_head option \<Rightarrow> (world, prepared_activation option) op" where
  "prepare_activation E searches vectors profile captured w =
     ((case Option.bind (fst captured) ch_pendingSearch of
         None \<Rightarrow> Inr None
       | Some pending \<Rightarrow>
           (case en_profile E of
              None \<Rightarrow> throw ''Search embedding profile mismatch''
            | Some (embedded, dimensions) \<Rightarrow>
                if profile \<noteq> embedded \<or> sp_profile pending \<noteq> Some profile
                   \<or> sp_dimensions pending \<noteq> Some dimensions
                then throw ''Search embedding profile mismatch''
                else
                  rbind (fst (read_search E w searches (Some pending))) (\<lambda>search.
                  rbind (fst (read_vectors E w vectors (snd captured) profile)) (\<lambda>entries.
                    let documents = documents_for E (the search) (clock w);
                        missing = filter (\<lambda>h. \<not> valid_vector (map_of entries h) dimensions)
                                    (keys documents)
                    in Inr (Some \<lparr>ac_head = fst captured, ac_vectors = snd captured,
                              ac_pending = pending, ac_missing = length missing\<rparr>))))), w)"

definition activated_head :: "jstr \<Rightarrow> search_pointer \<Rightarrow> catalog_head \<Rightarrow> catalog_head" where
  "activated_head revision pending h =
     h\<lparr>ch_revision := revision, ch_search := Some pending, ch_pendingSearch := None\<rparr>"

definition set_catalog :: "catalog_head \<Rightarrow> control \<Rightarrow> control" where
  "set_catalog h c = c\<lparr>catalog := Some h\<rparr>"

definition commit_activation ::
  "env \<Rightarrow> jstr \<Rightarrow> jstr \<Rightarrow> lease \<Rightarrow> prepared_activation \<Rightarrow> (world, unit) op" where
  "commit_activation E revision profile l p =
     transaction (obind (require_live l (lease_path E (ls_key l))) (\<lambda>_ w.
       if \<not> same_revision ch_revision (catalog (ctl w)) (ac_head p)
          \<or> \<not> same_revision vh_revision (vector_heads (ctl w) (profile_path E profile)) (ac_vectors p)
       then (throw ''Search activation publication changed'', w)
       else (Inr (), w\<lparr>ctl := set_catalog
              (activated_head revision (ac_pending p) (the (catalog (ctl w)))) (ctl w)\<rparr>)))"

definition activate_search_catalog ::
  "env \<Rightarrow> jstr \<Rightarrow> search_cache \<Rightarrow> vector snapshot_cache option \<Rightarrow> jstr \<Rightarrow> lease
     \<Rightarrow> (world, bool \<times> nat) op" where
  "activate_search_catalog E revision searches vectors profile l =
     obind (capture_activation E profile l) (\<lambda>captured.
     obind (prepare_activation E searches vectors profile captured) (\<lambda>prepared.
       case prepared of
         None \<Rightarrow> oreturn (False, 0)
       | Some p \<Rightarrow> obind (commit_activation E revision profile l p)
           (\<lambda>_. oreturn (True, ac_missing p))))"

section \<open>Importing source pages\<close>

text \<open>Empty texts of the inactive states are left out of the staged object.\<close>

definition nonempty_text :: "jstr option \<Rightarrow> jstr option" where
  "nonempty_text v = (if or_empty v = [] then None else v)"

definition staged_page :: "source_page \<Rightarrow> source_page" where
  "staged_page page = page\<lparr>pg_retiredAt := nonempty_text (pg_retiredAt page),
     pg_quarantinedAt := nonempty_text (pg_quarantinedAt page),
     pg_quarantineReason := nonempty_text (pg_quarantineReason page)\<rparr>"

record staged_source =
  so_path :: jstr
  so_checked :: jstr
  so_head :: source_head
  so_body :: body

definition source_path :: "env \<Rightarrow> jstr \<Rightarrow> jstr" where
  "source_path E url = base_path E @ u ''/sources/'' @ en_sha E url"

definition stage_source :: "env \<Rightarrow> source_page \<Rightarrow> staged_source res" where
  "stage_source E page =
     rbind (source_page_times page) (\<lambda>(checked, latest, kind).
       let body = Page_body (staged_page page); hash = en_digest E body
       in if en_size E body > max_source_bytes then throw ''Source page exceeds limit''
          else Inr \<lparr>so_path = source_path E (pg_url page), so_checked = checked,
            so_head = \<lparr>sh_url = pg_url page,
              sh_key = u ''sources/'' @ en_namespace E @ u ''/'' @ en_sha E (pg_url page) @ u ''/''
                         @ hash @ u ''.json'',
              sh_hash = hash, sh_checkedAt = latest, sh_events = int (length (pg_events page)),
              sh_kind = Some kind\<rparr>,
            so_body = body\<rparr>)"

text \<open>The stored head is newer, or is an empty page of the same time where the new one is not.\<close>

definition supersedes :: "source_head option \<Rightarrow> staged_source \<Rightarrow> bool" where
  "supersedes current s =
     (case current of
        None \<Rightarrow> False
      | Some h \<Rightarrow> sh_checkedAt h \<noteq> []
          \<and> (sh_checkedAt h > so_checked s
             \<or> (sh_checkedAt h = so_checked s \<and> sh_events h = 0 \<and> sh_events (so_head s) > 0)))"

definition commit_source :: "env \<Rightarrow> lease \<Rightarrow> staged_source \<Rightarrow> (world, bool) op" where
  "commit_source E l s =
     transaction (obind (require_live l (lease_path E (ls_key l))) (\<lambda>_ w.
       if supersedes (get_source (so_path s) (ctl w)) s then (Inr False, w)
       else (Inr True, w\<lparr>ctl := set_source (so_path s) (so_head s) (ctl w)\<rparr>)))"

definition import_page ::
  "env \<Rightarrow> lease \<Rightarrow> source_page \<Rightarrow> nat \<times> nat \<Rightarrow> (world, nat \<times> nat) op" where
  "import_page E l page = (\<lambda>(imported, skipped).
     obind (olift (stage_source E page)) (\<lambda>s.
     obind (\<lambda>w. (Inr (supersedes (get_source (so_path s) (ctl w)) s), w)) (\<lambda>old.
       if old then oreturn (imported, Suc skipped)
       else obind (put_immutable E (sh_key (so_head s)) (so_body s)) (\<lambda>_.
            obind (commit_source E l s) (\<lambda>changed.
              oreturn (if changed then (imported + length (pg_events page), skipped)
                       else (imported, Suc skipped)))))))"

definition import_pages :: "env \<Rightarrow> source_page list \<Rightarrow> lease \<Rightarrow> (world, nat \<times> nat) op" where
  "import_pages E pages l =
     obind (olift (require_lease_kind l [''sync_lock'']))
       (\<lambda>_. ofold (import_page E l) pages (0, 0))"

end
