(* ===== verification/Publication.thy ===== *)
theory Publication
  imports Catalog
begin

text \<open>
  \<open>publishCheckpoint\<close> of \<open>web/lib/store.gcp.ts\<close>. The function waits for storage many times, and
  other requests run while it waits, so it is modelled as the list of its segments: what it does
  between two waits, together with the storage operation it waits for. The local variables live in
  a record, the next segment is \<open>pb_point\<close>, and a segment that throws goes to the handler at the
  end of the function, which records the failure. A segment may be followed by any changes that
  other requests make to the store.
\<close>

section \<open>Local state\<close>

datatype publication_point =
    Opening
  | Deciding
  | Entering_reads
  | Checking_heads
  | Reading nat
  | Fetched nat "(source_head \<times> blob option) list"
  | Materializing
  | Materialized
  | Writing_search
  | Search_written
  | Writing_checkpoint
  | Checkpoint_written
  | Activating
  | Committing
  | Failing js_error
  | Returned checkpoint_pointer
  | Thrown js_error

record publishing =
  pb_point :: publication_point
  pb_lease :: lease
  pb_deadline :: "int option"
  pb_report :: collection_report
  pb_started :: int
  pb_attempt :: publication_attempt
  pb_previous :: "catalog_head option"
  pb_sources :: "source_head list"
  pb_selected :: "(jstr \<times> event \<times> int) list"
  pb_bytes :: int
  pb_publishing :: "event list"
  pb_savedAt :: jstr
  pb_catalog :: "search_catalog option"
  pb_searchKey :: jstr
  pb_pointer :: "checkpoint_pointer option"

type_synonym 'a publication_op = "(world \<times> publishing, 'a) op"

definition with_local :: "(publishing \<Rightarrow> 'a publication_op) \<Rightarrow> 'a publication_op" where
  "with_local f s = f (snd s) s"

definition change_local :: "(publishing \<Rightarrow> publishing) \<Rightarrow> unit publication_op" where
  "change_local f s = (Inr (), fst s, f (snd s))"

definition change_attempt ::
  "(publication_attempt \<Rightarrow> publication_attempt) \<Rightarrow> unit publication_op" where
  "change_attempt f = change_local (\<lambda>p. p\<lparr>pb_attempt := f (pb_attempt p)\<rparr>)"

definition on_store :: "(world, 'a) op \<Rightarrow> 'a publication_op" where
  "on_store f s = (case f (fst s) of (r, w) \<Rightarrow> (r, w, snd s))"

definition the_time :: "int publication_op" where
  "the_time s = (Inr (clock (fst s)), s)"

definition go_to :: "publication_point \<Rightarrow> unit publication_op" where
  "go_to point = change_local (\<lambda>p. p\<lparr>pb_point := point\<rparr>)"

section \<open>The helpers of the function\<close>

definition elapsed :: "int publication_op" where
  "elapsed s = (Inr (max 0 (clock (fst s) - pb_started (snd s))), s)"

text \<open>\<open>guard\<close>: the parameter is \<open>options.signal?.aborted\<close> when the guard runs.\<close>

definition publication_guard :: "bool \<Rightarrow> unit publication_op" where
  "publication_guard aborted s =
     ((if aborted then Inl (Publication_stopped Request_aborted)
       else case pb_deadline (snd s) of
              Some d \<Rightarrow> if clock (fst s) \<ge> d then Inl (Publication_stopped Deadline_exceeded) else Inr ()
            | None \<Rightarrow> Inr ()), s)"

definition owns_attempt :: "publication_attempt \<Rightarrow> control \<Rightarrow> bool" where
  "owns_attempt a c =
     (case publication c of
        None \<Rightarrow> False | Some v \<Rightarrow> jget v ''attemptId'' = JStr (pa_attemptId a))"

definition write_attempt :: "env \<Rightarrow> bool \<Rightarrow> lease \<Rightarrow> publication_attempt \<Rightarrow> (world, unit) op" where
  "write_attempt E requireLiveLease l a =
     transaction (obind (if requireLiveLease then require_live l (lease_path E (ls_key l))
                         else oreturn ()) (\<lambda>_ w.
       if owns_attempt a (ctl w)
       then (Inr (), w\<lparr>ctl := (ctl w)\<lparr>publication := Some (attempt_json a)\<rparr>\<rparr>)
       else (Inl (Publication_stopped Publication_failed), w)))"

definition update_attempt :: "env \<Rightarrow> bool \<Rightarrow> unit publication_op" where
  "update_attempt E requireLiveLease =
     obind elapsed (\<lambda>ms.
     obind (change_attempt (\<lambda>a. a\<lparr>pa_elapsedMs := ms\<rparr>)) (\<lambda>_.
     with_local (\<lambda>p. on_store (write_attempt E requireLiveLease (pb_lease p) (pb_attempt p)))))"

text \<open>\<open>enter(phase)\<close> up to its second guard, which opens the next segment.\<close>

definition enter_phase :: "env \<Rightarrow> bool \<Rightarrow> publication_phase \<Rightarrow> unit publication_op" where
  "enter_phase E aborted phase =
     obind (publication_guard aborted) (\<lambda>_.
     obind elapsed (\<lambda>ms.
     obind (change_attempt (\<lambda>a. a\<lparr>pa_phase := phase, pa_phaseStartedElapsedMs := Some ms\<rparr>)) (\<lambda>_.
       update_attempt E True)))"

section \<open>Reading the sources\<close>

definition source_head_ok :: "source_head \<Rightarrow> bool" where
  "source_head_ok h \<longleftrightarrow>
     sh_url h \<noteq> [] \<and> sh_key h \<noteq> [] \<and> is_hex64 (sh_hash h) \<and> canonical_iso (sh_checkedAt h)
     \<and> \<bar>sh_events h\<bar> \<le> max_safe_integer \<and> 0 \<le> sh_events h"

definition check_source_head :: "collection_report \<Rightarrow> source_head \<Rightarrow> unit \<Rightarrow> unit res" where
  "check_source_head report h = (\<lambda>_.
     if \<not> source_head_ok h then throw ''Invalid staged source head''
     else if sh_checkedAt h > rep_finishedAt report
     then throw ''Staged source is newer than collection report'' else Inr ())"

text \<open>An event as the checkpoint keeps it: without the full provider listing.\<close>

definition checkpoint_event :: "event \<Rightarrow> event" where
  "checkpoint_event e = e\<lparr>ev_providerListing := None\<rparr>"

definition identity_conflict :: string where
  "identity_conflict = ''Conflicting source event identity''"

definition duplicate_listing_identity ::
  "platform \<Rightarrow> (jstr \<Rightarrow> url_parts option) \<Rightarrow> event \<Rightarrow> json res" where
  "duplicate_listing_identity P parse e =
     (case ev_providerListing e of
        None \<Rightarrow> throw identity_conflict
      | Some raw \<Rightarrow>
          if \<not> truthy raw then throw identity_conflict
          else rbind (validate_provider_listing P parse raw) (\<lambda>listing.
            if \<not> truthy (jget listing ''providerEventId'')
               \<or> take 24 (or_empty (as_str (jget listing ''listingId''))) \<noteq> ev_id e
               \<or> as_str (jget listing ''provider'') \<noteq> ev_source e
               \<or> jget listing ''url'' \<noteq> JStr (ev_url e)
               \<or> jget listing ''observedAt'' \<noteq> JStr (ev_checkedAt e)
            then throw identity_conflict else Inr listing))"

text \<open>The events selected so far, with their sizes, and the size of all of them.\<close>

type_synonym selection = "(jstr \<times> event \<times> int) list \<times> int"

definition select_event ::
  "env \<Rightarrow> platform \<Rightarrow> (jstr \<Rightarrow> url_parts option) \<Rightarrow> jstr \<Rightarrow> event
     \<Rightarrow> jstr list \<times> selection \<Rightarrow> (jstr list \<times> selection) res" where
  "select_event E P parse url e = (\<lambda>(pageIds, selected, approximate).
     if ev_url e \<noteq> url \<or> ev_id e \<in> set pageIds then throw identity_conflict
     else
       let pageIds' = pageIds @ [ev_id e]; size' = en_event_size E (checkpoint_event e) + 1
       in (case map_of selected (ev_id e) of
             Some (prior, priorSize) \<Rightarrow>
               rbind (duplicate_listing_identity P parse prior) (\<lambda>priorListing.
               rbind (duplicate_listing_identity P parse e) (\<lambda>listing.
                 if jget listing ''listingId'' \<noteq> jget priorListing ''listingId''
                    \<or> ev_checkedAt e = ev_checkedAt prior
                 then throw identity_conflict
                 else if ev_checkedAt e > ev_checkedAt prior
                 then (if approximate + size' - priorSize > max_checkpoint_bytes
                       then throw ''Checkpoint exceeds limit''
                       else Inr (pageIds', AList.update (ev_id e) (e, size') selected,
                                 approximate + (size' - priorSize)))
                 else Inr (pageIds', selected, approximate)))
           | None \<Rightarrow>
               if int (length selected) \<ge> max_checkpoint_events
                  \<or> approximate + size' > max_checkpoint_bytes
               then throw ''Checkpoint exceeds limit''
               else Inr (pageIds', selected @ [(ev_id e, e, size')], approximate + size')))"

definition select_page ::
  "env \<Rightarrow> platform \<Rightarrow> (jstr \<Rightarrow> url_parts option) \<Rightarrow> source_head \<times> blob option \<Rightarrow> selection
     \<Rightarrow> selection res" where
  "select_page E P parse = (\<lambda>(source, object) (selected, approximate).
     (case object of
        None \<Rightarrow> throw ''Source page unavailable or damaged''
      | Some object \<Rightarrow>
          if bl_bytes object > max_source_bytes \<or> en_size E (bl_body object) \<noteq> bl_bytes object
             \<or> en_digest E (bl_body object) \<noteq> sh_hash source
          then throw ''Source page unavailable or damaged''
          else (case bl_body object of
                  Page_body page \<Rightarrow>
                    if pg_url page \<noteq> sh_url source
                       \<or> int (length (pg_events page)) \<noteq> sh_events source
                    then throw ''Invalid source page object''
                    else rbind (source_page_times page) (\<lambda>(checked, latest, kind).
                      if latest \<noteq> sh_checkedAt source then throw ''Source page timestamp mismatch''
                      else if sh_kind source \<noteq> None \<and> sh_kind source \<noteq> Some kind
                      then throw ''Source page kind mismatch''
                      else rbind (rfold (select_event E P parse (sh_url source)) (pg_events page)
                                   ([], selected, approximate)) (\<lambda>(_, result). Inr result))
                | _ \<Rightarrow> throw ''Invalid source page object'')))"

section \<open>The segments\<close>

definition begin_attempt ::
  "env \<Rightarrow> lease \<Rightarrow> publication_attempt \<Rightarrow> (world, catalog_head option) op" where
  "begin_attempt E l a =
     transaction (obind (require_live l (lease_path E (ls_key l))) (\<lambda>_ w.
       (Inr (catalog (ctl w)), w\<lparr>ctl := (ctl w)\<lparr>publication := Some (attempt_json a)\<rparr>\<rparr>)))"

definition opening_attempt :: "env \<Rightarrow> unit publication_op" where
  "opening_attempt E =
     with_local (\<lambda>p. obind (on_store (begin_attempt E (pb_lease p) (pb_attempt p))) (\<lambda>previous.
       change_local (\<lambda>p. p\<lparr>pb_previous := previous, pb_point := Deciding\<rparr>)))"

text \<open>The report was published already, or a later one was.\<close>

definition already_published :: "env \<Rightarrow> collection_report \<Rightarrow> catalog_head \<Rightarrow> bool" where
  "already_published E report h \<longleftrightarrow>
     rep_finishedAt report < ptr_finishedAt (ch_pointer h)
     \<or> (rep_finishedAt report = ptr_finishedAt (ch_pointer h)
        \<and> (matches_profile E (ch_pendingSearch h) \<or> matches_profile E (ch_search h)))"

definition finish_early :: "env \<Rightarrow> catalog_head \<Rightarrow> unit publication_op" where
  "finish_early E h =
     obind elapsed (\<lambda>ms.
     obind (change_attempt (\<lambda>a. a\<lparr>pa_phase := Complete, pa_phaseStartedElapsedMs := Some ms,
              pa_events := ptr_events (ch_pointer h),
              pa_checkpointBytes := Some (ptr_bytes (ch_pointer h)), pa_outcome := Succeeded\<rparr>)) (\<lambda>_.
     obind (update_attempt E True) (\<lambda>_. go_to (Returned (ch_pointer h)))))"

definition list_sources :: "unit publication_op" where
  "list_sources s =
     (let found = vals (sources (ctl (fst s)))
      in change_local (\<lambda>p. p\<lparr>pb_sources := found, pb_point := Entering_reads,
           pb_attempt := (pb_attempt p)\<lparr>pa_sourcesTotal := int (length found)\<rparr>\<rparr>) s)"

definition deciding :: "env \<Rightarrow> bool \<Rightarrow> unit publication_op" where
  "deciding E aborted =
     obind (publication_guard aborted) (\<lambda>_. with_local (\<lambda>p.
       case pb_previous p of
         Some h \<Rightarrow> if already_published E (pb_report p) h then finish_early E h else list_sources
       | None \<Rightarrow> list_sources))"

definition checking_heads :: "bool \<Rightarrow> unit publication_op" where
  "checking_heads aborted =
     obind (publication_guard aborted) (\<lambda>_. with_local (\<lambda>p.
       if int (length (pb_sources p)) > max_checkpoint_events
       then olift (throw ''Checkpoint source limit exceeded'')
       else obind (olift (rfold (check_source_head (pb_report p)) (pb_sources p) ()))
              (\<lambda>_. go_to (Reading 0))))"

definition source_read_concurrency :: nat where
  "source_read_concurrency = 8"

definition publication_order :: "env \<Rightarrow> event \<Rightarrow> event \<Rightarrow> int" where
  "publication_order E a b = en_collate E (ev_id a) (ev_id b)"

definition selected_events :: "env \<Rightarrow> (jstr \<times> event \<times> int) list \<Rightarrow> event list" where
  "selected_events E selected = sort_by (publication_order E) (map fst (vals selected))"

text \<open>The next group of pages, or the end of the loop.\<close>

definition reading :: "env \<Rightarrow> bool \<Rightarrow> nat \<Rightarrow> unit publication_op" where
  "reading E aborted offset = with_local (\<lambda>p.
     if offset < length (pb_sources p)
     then obind (publication_guard aborted) (\<lambda>_ s.
            go_to (Fetched offset
              (map (\<lambda>h. (h, blobs (fst s) (sh_key h)))
                (take source_read_concurrency (drop offset (pb_sources p))))) s)
     else
       let events = selected_events E (pb_selected p)
       in if events = [] then olift (throw ''Cannot publish an empty staged catalog'')
          else obind (change_local (\<lambda>p. p\<lparr>pb_publishing := events,
                   pb_attempt := (pb_attempt p)\<lparr>pa_events := int (length events)\<rparr>\<rparr>)) (\<lambda>_.
               obind (enter_phase E aborted Materialize) (\<lambda>_. go_to Materializing)))"

definition fetched ::
  "env \<Rightarrow> platform \<Rightarrow> (jstr \<Rightarrow> url_parts option) \<Rightarrow> bool \<Rightarrow> nat
     \<Rightarrow> (source_head \<times> blob option) list \<Rightarrow> unit publication_op" where
  "fetched E P parse aborted offset objects =
     obind (publication_guard aborted) (\<lambda>_. with_local (\<lambda>p.
       obind (olift (rfold (select_page E P parse) objects (pb_selected p, pb_bytes p)))
         (\<lambda>(selected, approximate). change_local (\<lambda>p. p\<lparr>pb_selected := selected,
            pb_bytes := approximate, pb_point := Reading (offset + source_read_concurrency),
            pb_attempt := (pb_attempt p)\<lparr>
              pa_sourcesRead := pa_sourcesRead (pb_attempt p) + int (length objects),
              pa_events := int (length selected)\<rparr>\<rparr>))))"

text \<open>
  \<open>buildSearchCatalog\<close> always ends (lemma \<open>build_search_catalog_ends\<close>); the branch for a loop that
  does not end is never taken.
\<close>

definition materializing :: "(event list \<Rightarrow> jstr) \<Rightarrow> platform \<Rightarrow> bool \<Rightarrow> unit publication_op" where
  "materializing encode P aborted =
     obind (publication_guard aborted) (\<lambda>_.
     obind the_time (\<lambda>made.
     obind (olift (iso_or_throw (Some made))) (\<lambda>savedAt. with_local (\<lambda>p.
     obind (olift (build_search_catalog encode P (pb_publishing p) made)) (\<lambda>prepared.
       case prepared of
         None \<Rightarrow> olift (throw ''Search catalog preparation does not end'')
       | Some search \<Rightarrow> change_local (\<lambda>p. p\<lparr>pb_savedAt := savedAt, pb_catalog := Some search,
           pb_point := Materialized\<rparr>))))))"

definition search_body :: "publishing \<Rightarrow> body" where
  "search_body p = Search_body (the (pb_catalog p))"

definition materialized :: "env \<Rightarrow> bool \<Rightarrow> unit publication_op" where
  "materialized E aborted =
     obind (publication_guard aborted) (\<lambda>_.
     obind (change_local (\<lambda>p. p\<lparr>pb_attempt := (pb_attempt p)\<lparr>
              pa_searchBytes := Some (en_size E (search_body p))\<rparr>\<rparr>)) (\<lambda>_.
     obind (enter_phase E aborted Write_search) (\<lambda>_. go_to Writing_search)))"

text \<open>\<open>savedAt.replace(/[:.]/g, '-')\<close> with a prefix and the UUID of the call.\<close>

definition object_key :: "string \<Rightarrow> jstr \<Rightarrow> jstr \<Rightarrow> jstr" where
  "object_key prefix savedAt uuid =
     u prefix @ map (\<lambda>c. if c = 58 \<or> c = 46 then 45 else c) savedAt @ [45] @ uuid @ u ''.json''"

definition writing_search :: "env \<Rightarrow> bool \<Rightarrow> jstr \<Rightarrow> unit publication_op" where
  "writing_search E aborted uuid =
     obind (publication_guard aborted) (\<lambda>_. with_local (\<lambda>p.
       if en_size E (search_body p) > max_search_bytes
       then olift (throw ''Search catalog exceeds limit'')
       else
         let key = object_key ''search-catalog/'' (pb_savedAt p) uuid
         in obind (on_store (put_immutable E key (search_body p))) (\<lambda>_.
              change_local (\<lambda>p. p\<lparr>pb_searchKey := key, pb_point := Search_written\<rparr>))))"

definition checkpoint_body :: "publishing \<Rightarrow> body" where
  "checkpoint_body p = Checkpoint_body \<lparr>cp_savedAt = pb_savedAt p,
     cp_events = map checkpoint_event (pb_publishing p), cp_report = pb_report p\<rparr>"

definition search_written :: "env \<Rightarrow> bool \<Rightarrow> unit publication_op" where
  "search_written E aborted =
     obind (publication_guard aborted) (\<lambda>_.
     obind (change_local (\<lambda>p. p\<lparr>pb_attempt := (pb_attempt p)\<lparr>
              pa_checkpointBytes := Some (en_size E (checkpoint_body p))\<rparr>\<rparr>)) (\<lambda>_.
     obind (enter_phase E aborted Write_checkpoint) (\<lambda>_. go_to Writing_checkpoint)))"

definition new_pointer :: "env \<Rightarrow> jstr \<Rightarrow> publishing \<Rightarrow> checkpoint_pointer" where
  "new_pointer E key p =
     \<lparr>ptr_key = key, ptr_savedAt = pb_savedAt p, ptr_finishedAt = rep_finishedAt (pb_report p),
      ptr_events = int (length (pb_publishing p)), ptr_bytes = en_size E (checkpoint_body p),
      ptr_summary = rep_summary (pb_report p)\<rparr>"

definition writing_checkpoint :: "env \<Rightarrow> bool \<Rightarrow> jstr \<Rightarrow> unit publication_op" where
  "writing_checkpoint E aborted uuid =
     obind (publication_guard aborted) (\<lambda>_. with_local (\<lambda>p.
       if en_size E (checkpoint_body p) > max_checkpoint_bytes
       then olift (throw ''Checkpoint exceeds limit'')
       else
         let key = object_key ''collection/'' (pb_savedAt p) uuid
         in obind (on_store (put_immutable E key (checkpoint_body p))) (\<lambda>_.
              change_local (\<lambda>p. p\<lparr>pb_pointer := Some (new_pointer E key p),
                pb_point := Checkpoint_written\<rparr>))))"

definition checkpoint_written :: "env \<Rightarrow> bool \<Rightarrow> unit publication_op" where
  "checkpoint_written E aborted =
     obind (publication_guard aborted) (\<lambda>_.
     obind (enter_phase E aborted Activate) (\<lambda>_. go_to Activating))"

definition activating :: "bool \<Rightarrow> unit publication_op" where
  "activating aborted =
     obind (publication_guard aborted) (\<lambda>_.
     obind (change_attempt (\<lambda>a. a\<lparr>pa_outcome := Succeeded\<rparr>)) (\<lambda>_. go_to Committing))"

text \<open>The head that goes live: the checkpoint and its search at once.\<close>

definition next_head :: "env \<Rightarrow> jstr \<Rightarrow> publishing \<Rightarrow> catalog_head" where
  "next_head E revision p =
     \<lparr>ch_revision = revision, ch_hash = en_digest E (checkpoint_body p),
      ch_pointer = the (pb_pointer p),
      ch_search = Some \<lparr>sp_key = pb_searchKey p, sp_hash = en_digest E (search_body p),
        sp_bytes = en_size E (search_body p), sp_profile = map_option fst (en_profile E),
        sp_dimensions = map_option snd (en_profile E), sp_checkpoint = pb_pointer p\<rparr>,
      ch_pendingSearch = None\<rparr>"

definition completed_attempt :: "int \<Rightarrow> publishing \<Rightarrow> publication_attempt" where
  "completed_attempt now p =
     (let ms = max 0 (now - pb_started p)
      in (pb_attempt p)\<lparr>pa_phase := Complete, pa_phaseStartedElapsedMs := Some ms,
            pa_elapsedMs := ms\<rparr>)"

definition activate_checkpoint ::
  "env \<Rightarrow> bool \<Rightarrow> jstr \<Rightarrow> publishing \<Rightarrow> (world, unit) op" where
  "activate_checkpoint E aborted revision p =
     transaction (obind (require_live (pb_lease p) (lease_path E (ls_key (pb_lease p)))) (\<lambda>_ w.
       if \<not> same_revision ch_revision (catalog (ctl w)) (pb_previous p)
       then (throw ''Catalog publication changed'', w)
       else if \<not> owns_attempt (pb_attempt p) (ctl w)
       then (Inl (Publication_stopped Publication_failed), w)
       else case fst (publication_guard aborted (w, p)) of
              Inl e \<Rightarrow> (Inl e, w)
            | Inr _ \<Rightarrow> (Inr (), w\<lparr>ctl := (ctl w)\<lparr>catalog := Some (next_head E revision p),
                publication := Some (attempt_json (completed_attempt (clock w) p))\<rparr>\<rparr>)))"

definition committing :: "env \<Rightarrow> bool \<Rightarrow> jstr \<Rightarrow> unit publication_op" where
  "committing E aborted revision = with_local (\<lambda>p.
     obind (on_store (activate_checkpoint E aborted revision p)) (\<lambda>_.
       go_to (Returned (the (pb_pointer p)))))"

section \<open>Running\<close>

definition handled_failure :: "js_error \<Rightarrow> bool \<Rightarrow> int option \<Rightarrow> int \<Rightarrow> failure_code" where
  "handled_failure e aborted deadline now =
     (case e of
        Publication_stopped c \<Rightarrow> c
      | Err _ \<Rightarrow>
          if aborted then Request_aborted
          else case deadline of
                 Some d \<Rightarrow> if now \<ge> d then Deadline_exceeded else Publication_failed
               | None \<Rightarrow> Publication_failed)"

text \<open>The handler: the failure is noted in the attempt, then written without requiring the lease.\<close>

definition handle :: "js_error \<Rightarrow> bool \<Rightarrow> world \<times> publishing \<Rightarrow> world \<times> publishing" where
  "handle e aborted = (\<lambda>(w, p). (w, p\<lparr>pb_point := Failing e,
     pb_attempt := (pb_attempt p)\<lparr>pa_elapsedMs := max 0 (clock w - pb_started p),
       pa_outcome := Failed,
       pa_failureCode := Some (handled_failure e aborted (pb_deadline p) (clock w))\<rparr>\<rparr>))"

definition failing :: "env \<Rightarrow> js_error \<Rightarrow> world \<times> publishing \<Rightarrow> world \<times> publishing" where
  "failing E e s = snd (go_to (Thrown e) (snd (update_attempt E False s)))"

definition segment ::
  "env \<Rightarrow> platform \<Rightarrow> (jstr \<Rightarrow> url_parts option) \<Rightarrow> (event list \<Rightarrow> jstr) \<Rightarrow> bool \<Rightarrow> jstr
     \<Rightarrow> publication_point \<Rightarrow> unit publication_op" where
  "segment E P parse encode aborted uuid point =
     (case point of
        Opening \<Rightarrow> opening_attempt E
      | Deciding \<Rightarrow> deciding E aborted
      | Entering_reads \<Rightarrow>
          obind (enter_phase E aborted Source_reads) (\<lambda>_. go_to Checking_heads)
      | Checking_heads \<Rightarrow> checking_heads aborted
      | Reading offset \<Rightarrow> reading E aborted offset
      | Fetched offset objects \<Rightarrow> fetched E P parse aborted offset objects
      | Materializing \<Rightarrow> materializing encode P aborted
      | Materialized \<Rightarrow> materialized E aborted
      | Writing_search \<Rightarrow> writing_search E aborted uuid
      | Search_written \<Rightarrow> search_written E aborted
      | Writing_checkpoint \<Rightarrow> writing_checkpoint E aborted uuid
      | Checkpoint_written \<Rightarrow> checkpoint_written E aborted
      | Activating \<Rightarrow> activating aborted
      | Committing \<Rightarrow> committing E aborted uuid
      | _ \<Rightarrow> oreturn ())"

definition publication_step ::
  "env \<Rightarrow> platform \<Rightarrow> (jstr \<Rightarrow> url_parts option) \<Rightarrow> (event list \<Rightarrow> jstr) \<Rightarrow> bool \<Rightarrow> jstr
     \<Rightarrow> world \<times> publishing \<Rightarrow> world \<times> publishing" where
  "publication_step E P parse encode aborted uuid s =
     (case pb_point (snd s) of
        Failing e \<Rightarrow> failing E e s
      | point \<Rightarrow>
          (case segment E P parse encode aborted uuid point s of
             (Inl e, s') \<Rightarrow> handle e aborted s'
           | (Inr _, s') \<Rightarrow> s'))"

definition finished :: "publishing \<Rightarrow> bool" where
  "finished p = (case pb_point p of Returned _ \<Rightarrow> True | Thrown _ \<Rightarrow> True | _ \<Rightarrow> False)"

text \<open>The checks before the attempt starts, and its first record.\<close>

definition start_publication ::
  "env \<Rightarrow> jstr \<Rightarrow> json \<Rightarrow> lease \<Rightarrow> int option \<Rightarrow> jstr option \<Rightarrow> int \<Rightarrow> publishing res" where
  "start_publication E attemptId rawReport l deadline deploymentRevision now =
     rbind (require_lease_kind l [''sync_lock'']) (\<lambda>_.
     rbind (parse_collection_report
              (JObj [(u ''schemaVersion'', jint 1), (u ''report'', rawReport)]) now) (\<lambda>report.
     rbind (guard (pred_option (\<lambda>d. \<bar>d\<bar> \<le> max_safe_integer \<and> 0 < d) deadline)
              ''Invalid checkpoint publication deadline'') (\<lambda>_.
     rbind (guard (pred_option revision_ok deploymentRevision) ''Invalid deployment revision'') (\<lambda>_.
     rbind (iso_or_throw (Some now)) (\<lambda>startedAt.
       Inr \<lparr>pb_point = Opening, pb_lease = l, pb_deadline = deadline, pb_report = report,
         pb_started = now,
         pb_attempt = \<lparr>pa_attemptId = attemptId, pa_deploymentRevision = deploymentRevision,
           pa_reportFinishedAt = rep_finishedAt report, pa_startedAt = startedAt,
           pa_phase = Source_heads, pa_sourcesTotal = 0, pa_sourcesRead = 0, pa_events = 0,
           pa_searchBytes = None, pa_checkpointBytes = None, pa_elapsedMs = 0,
           pa_phaseStartedElapsedMs = Some 0, pa_outcome = Running, pa_failureCode = None\<rparr>,
         pb_previous = None, pb_sources = [], pb_selected = [], pb_bytes = 2,
         pb_publishing = [], pb_savedAt = [], pb_catalog = None, pb_searchKey = [],
         pb_pointer = None\<rparr>)))))"

text \<open>
  A run: before each segment the rest of the world does what it likes with the store, the caller
  may have aborted, and the segment draws a UUID.
\<close>

type_synonym schedule = "((world \<Rightarrow> world) \<times> bool \<times> jstr) list"

fun run_publication ::
  "env \<Rightarrow> platform \<Rightarrow> (jstr \<Rightarrow> url_parts option) \<Rightarrow> (event list \<Rightarrow> jstr) \<Rightarrow> schedule
     \<Rightarrow> world \<times> publishing \<Rightarrow> world \<times> publishing" where
  "run_publication E P parse encode [] s = s"
| "run_publication E P parse encode ((others, aborted, uuid) # rest) s =
     run_publication E P parse encode rest
       (publication_step E P parse encode aborted uuid (others (fst s), snd s))"

end
