(* ===== verification/Publication_Facts.thy ===== *)
theory Publication_Facts
  imports Publication
begin

text \<open>
  What one segment of a publication does: which part of the store it may change, that it brings
  the publication nearer to its end, and which events it selects.
\<close>

section \<open>Rules for the operations on local state\<close>

lemma local_op_simps [simp]:
  "with_local f (w, p) = f p (w, p)"
  "change_local g (w, p) = (Inr (), w, g p)"
  "change_attempt h (w, p) = (Inr (), w, p\<lparr>pb_attempt := h (pb_attempt p)\<rparr>)"
  "go_to point (w, p) = (Inr (), w, p\<lparr>pb_point := point\<rparr>)"
  "the_time (w, p) = (Inr (clock w), w, p)"
  "elapsed (w, p) = (Inr (max 0 (clock w - pb_started p)), w, p)"
  by (simp_all add: with_local_def change_local_def change_attempt_def go_to_def the_time_def
      elapsed_def)

lemma local_bind_simps [simp]:
  "obind (change_local g) f (w, p) = f () (w, g p)"
  "obind (change_attempt h) f (w, p) = f () (w, p\<lparr>pb_attempt := h (pb_attempt p)\<rparr>)"
  "obind the_time f' (w, p) = f' (clock w) (w, p)"
  by (simp_all add: obind_def)

lemma olift_bind: "obind (olift r) f s = (case r of Inl e \<Rightarrow> (Inl e, s) | Inr x \<Rightarrow> f x s)"
  by (simp add: obind_def split: sum.split)

lemma publication_guard_keeps: "publication_guard aborted s = (r, s') \<Longrightarrow> s' = s"
  by (simp add: publication_guard_def)

lemma publication_guard_bind:
  "obind (publication_guard aborted) f s
     = (case fst (publication_guard aborted s) of Inl e \<Rightarrow> (Inl e, s) | Inr _ \<Rightarrow> f () s)"
  by (simp add: obind_def publication_guard_def split: option.split sum.split)

text \<open>The part of the state that writing the diagnostic record may touch.\<close>

definition records_only :: "world \<times> publishing \<Rightarrow> world \<times> publishing \<Rightarrow> bool" where
  "records_only s s' \<longleftrightarrow>
     (\<exists>a v. s' = ((fst s)\<lparr>ctl := (ctl (fst s))\<lparr>publication := v\<rparr>\<rparr>, (snd s)\<lparr>pb_attempt := a\<rparr>))"

lemma records_only_refl: "records_only s s"
  unfolding records_only_def
  by (rule exI[of _ "pb_attempt (snd s)"], rule exI[of _ "publication (ctl (fst s))"]) (cases s; simp)

lemma records_only_attempt: "records_only (w, p) (w, p\<lparr>pb_attempt := a\<rparr>)"
  unfolding records_only_def
  by (rule exI[of _ a], rule exI[of _ "publication (ctl w)"]) simp

lemma records_only_trans:
  assumes "records_only s s1" "records_only s1 s2"
  shows "records_only s s2"
  using assms unfolding records_only_def by auto

lemma write_attempt_keeps:
  "write_attempt E live l a w = (r, w') \<Longrightarrow> \<exists>v. w' = w\<lparr>ctl := (ctl w)\<lparr>publication := v\<rparr>\<rparr>"
proof -
  assume a: "write_attempt E live l a w = (r, w')"
  have same: "w = w\<lparr>ctl := (ctl w)\<lparr>publication := publication (ctl w)\<rparr>\<rparr>" by simp
  show ?thesis
  proof (cases "w' = w")
    case True
    then show ?thesis using same by blast
  next
    case False
    then show ?thesis using a
      by (auto simp: write_attempt_def transaction_def obind_def require_live_def oreturn_def
          split: sum.splits prod.splits if_splits)
  qed
qed

lemma update_attempt_records: "update_attempt E live s = (r, s') \<Longrightarrow> records_only s s'"
proof -
  assume a: "update_attempt E live s = (r, s')"
  obtain w p where s: "s = (w, p)" by fastforce
  define p1 where "p1 = p\<lparr>pb_attempt := (pb_attempt p)\<lparr>pa_elapsedMs := max 0 (clock w - pb_started p)\<rparr>\<rparr>"
  obtain r' w' where put: "write_attempt E live (pb_lease p1) (pb_attempt p1) w = (r', w')"
    by (rule prod.exhaust)
  have "s' = (w', p1)"
    using a put by (simp add: s update_attempt_def obind_def on_store_def p1_def)
  moreover obtain v where "w' = w\<lparr>ctl := (ctl w)\<lparr>publication := v\<rparr>\<rparr>"
    using write_attempt_keeps[OF put] by blast
  ultimately show ?thesis unfolding records_only_def s p1_def by auto
qed

lemma enter_phase_records:
  assumes "enter_phase E aborted phase s = (r, s')"
  shows "records_only s s'"
proof -
  obtain w p where s: "s = (w, p)" by fastforce
  define p1 where "p1 = p\<lparr>pb_attempt := (pb_attempt p)\<lparr>pa_phase := phase,
    pa_phaseStartedElapsedMs := Some (max 0 (clock w - pb_started p))\<rparr>\<rparr>"
  have "records_only s (w, p1)" unfolding s p1_def by (rule records_only_attempt)
  moreover have "s' = s \<or> update_attempt E True (w, p1) = (r, s')"
    using assms unfolding enter_phase_def publication_guard_bind
    by (auto simp: s p1_def obind_def split: sum.splits)
  ultimately show ?thesis
    using update_attempt_records records_only_trans records_only_refl by blast
qed

text \<open>A segment that enters a phase and goes on: either it failed, or it arrived.\<close>

lemma enter_then:
  assumes "obind (enter_phase E aborted phase) (\<lambda>_. go_to point) s = (r, s')"
  obtains s1 where "records_only s s1" "r = Inr ()" "s' = (fst s1, (snd s1)\<lparr>pb_point := point\<rparr>)"
  | e where "records_only s s'" "r = Inl e"
proof -
  obtain r1 s1 where e: "enter_phase E aborted phase s = (r1, s1)" by (rule prod.exhaust)
  have rec: "records_only s s1" by (rule enter_phase_records[OF e])
  show ?thesis
  proof (cases r1)
    case (Inl x)
    then have "r = Inl x" "s' = s1" using assms e by (simp_all add: obind_def)
    then show ?thesis using that(2) rec by simp
  next
    case (Inr x)
    then show ?thesis using that(1)[of s1] rec assms e
      by (cases s1) (simp add: obind_def)
  qed
qed

section \<open>The end of a publication\<close>

definition groups_left :: "nat \<Rightarrow> nat \<Rightarrow> nat" where
  "groups_left n offset = (n - offset + 7) div 8"

text \<open>A bound on the segments that are still to run.\<close>

definition segments_left :: "publishing \<Rightarrow> nat" where
  "segments_left p =
     (case pb_point p of
        Opening \<Rightarrow> 5015
      | Deciding \<Rightarrow> 5014
      | Entering_reads \<Rightarrow> 5013
      | Checking_heads \<Rightarrow> 5012
      | Reading offset \<Rightarrow> 10 + 2 * groups_left (length (pb_sources p)) offset
      | Fetched offset _ \<Rightarrow> 11 + 2 * groups_left (length (pb_sources p)) (offset + 8)
      | Materializing \<Rightarrow> 9
      | Materialized \<Rightarrow> 8
      | Writing_search \<Rightarrow> 7
      | Search_written \<Rightarrow> 6
      | Writing_checkpoint \<Rightarrow> 5
      | Checkpoint_written \<Rightarrow> 4
      | Activating \<Rightarrow> 3
      | Committing \<Rightarrow> 2
      | Failing _ \<Rightarrow> 1
      | Returned _ \<Rightarrow> 0
      | Thrown _ \<Rightarrow> 0)"

lemma groups_left_step:
  assumes "offset < n"
  shows "groups_left n offset = Suc (groups_left n (offset + 8))"
proof (cases "n - offset \<le> 8")
  case True
  then have "(n - offset + 7) div 8 = 1" using assms by (intro div_nat_eqI) auto
  then show ?thesis using True by (simp add: groups_left_def)
next
  case False
  define m where "m = n - (offset + 8)"
  have "n - offset = m + 8" using False by (simp add: m_def)
  then show ?thesis by (simp add: groups_left_def m_def[symmetric])
qed

lemma groups_left_bound: "n \<le> 20000 \<Longrightarrow> groups_left n 0 \<le> 2500"
  by (simp add: groups_left_def)

text \<open>
  Where a segment may lead, and what of the local state it keeps on the way. One lemma per group
  of segments, then one for the step.
\<close>

definition next_points :: "publication_point \<Rightarrow> publishing \<Rightarrow> publication_point \<Rightarrow> bool" where
  "next_points point p next \<longleftrightarrow>
     (case point of
        Opening \<Rightarrow> next = Deciding
      | Deciding \<Rightarrow> next = Entering_reads \<or> (\<exists>ptr. next = Returned ptr)
      | Entering_reads \<Rightarrow> next = Checking_heads
      | Checking_heads \<Rightarrow> next = Reading 0 \<and> length (pb_sources p) \<le> 20000
      | Reading offset \<Rightarrow>
          (offset < length (pb_sources p) \<and> (\<exists>objects. next = Fetched offset objects))
          \<or> next = Materializing
      | Fetched offset _ \<Rightarrow> next = Reading (offset + 8)
      | Materializing \<Rightarrow> next = Materialized
      | Materialized \<Rightarrow> next = Writing_search
      | Writing_search \<Rightarrow> next = Search_written
      | Search_written \<Rightarrow> next = Writing_checkpoint
      | Writing_checkpoint \<Rightarrow> next = Checkpoint_written
      | Checkpoint_written \<Rightarrow> next = Activating
      | Activating \<Rightarrow> next = Committing
      | Committing \<Rightarrow> (\<exists>ptr. next = Returned ptr)
      | _ \<Rightarrow> False)"

lemma enter_then_point:
  assumes "obind (enter_phase E aborted phase) (\<lambda>_. go_to point) s = (Inr x, s')"
  shows "pb_point (snd s') = point \<and> pb_sources (snd s') = pb_sources (snd s)"
  using assms by (rule enter_then) (auto simp: records_only_def)

lemma finish_early_point:
  assumes "finish_early E h s = (Inr x, s')"
  shows "pb_point (snd s') = Returned (ch_pointer h)"
  using assms by (cases s') (auto simp: finish_early_def obind_eq_Inr go_to_def change_local_def)

definition leads_on :: "world \<times> publishing \<Rightarrow> world \<times> publishing \<Rightarrow> bool" where
  "leads_on s s' \<longleftrightarrow>
     next_points (pb_point (snd s)) (snd s) (pb_point (snd s'))
     \<and> (pb_point (snd s) \<noteq> Deciding \<longrightarrow> pb_sources (snd s') = pb_sources (snd s))"

lemma leads_opening:
  assumes "segment E P parse encode aborted uuid Opening s = (Inr x, s')"
    and "pb_point (snd s) = Opening"
  shows "leads_on s s'"
proof -
  obtain w p where s: "s = (w, p)" by (rule prod.exhaust)
  have p: "pb_point p = Opening" using assms(2) by (simp add: s)
  show ?thesis using assms
      by (auto simp: s p segment_def leads_on_def opening_attempt_def obind_eq_Inr on_store_def next_points_def
          split: prod.splits)
qed

lemma leads_deciding:
  assumes "segment E P parse encode aborted uuid Deciding s = (Inr x, s')"
    and "pb_point (snd s) = Deciding"
  shows "leads_on s s'"
proof -
  obtain w p where s: "s = (w, p)" by (rule prod.exhaust)
  have p: "pb_point p = Deciding" using assms(2) by (simp add: s)
  have "(case pb_previous p of
      Some h \<Rightarrow> if already_published E (pb_report p) h then finish_early E h else list_sources
    | None \<Rightarrow> list_sources) (w, p) = (Inr x, s')"
    using assms(1)
    by (simp add: s segment_def deciding_def publication_guard_bind split: sum.splits)
  then have "(\<exists>h. finish_early E h (w, p) = (Inr x, s')) \<or> list_sources (w, p) = (Inr x, s')"
    by (auto split: option.splits if_splits)
  then show ?thesis
    by (auto simp: s p leads_on_def next_points_def list_sources_def Let_def dest: finish_early_point)
qed

lemma leads_entering_reads:
  assumes "segment E P parse encode aborted uuid Entering_reads s = (Inr x, s')"
    and "pb_point (snd s) = Entering_reads"
  shows "leads_on s s'"
proof -
  obtain w p where s: "s = (w, p)" by (rule prod.exhaust)
  have p: "pb_point p = Entering_reads" using assms(2) by (simp add: s)
  show ?thesis using assms enter_then_point
      by (fastforce simp: s p segment_def leads_on_def next_points_def)
qed

lemma leads_checking_heads:
  assumes "segment E P parse encode aborted uuid Checking_heads s = (Inr x, s')"
    and "pb_point (snd s) = Checking_heads"
  shows "leads_on s s'"
proof -
  obtain w p where s: "s = (w, p)" by (rule prod.exhaust)
  have p: "pb_point p = Checking_heads" using assms(2) by (simp add: s)
  show ?thesis using assms
      by (auto simp: s p segment_def leads_on_def checking_heads_def publication_guard_bind obind_eq_Inr
          max_checkpoint_events_def next_points_def split: sum.splits if_splits)
qed

lemma leads_reading:
  assumes "segment E P parse encode aborted uuid (Reading offset) s = (Inr x, s')"
    and "pb_point (snd s) = Reading offset"
  shows "leads_on s s'"
proof -
  obtain w p where s: "s = (w, p)" by (rule prod.exhaust)
  have p: "pb_point p = Reading offset" using assms(2) by (simp add: s)
  show ?thesis using assms
      by (auto simp: s p segment_def leads_on_def reading_def publication_guard_bind Let_def next_points_def
          split: sum.splits if_splits dest: enter_then_point)
qed

lemma leads_fetched:
  assumes "segment E P parse encode aborted uuid (Fetched offset objects) s = (Inr x, s')"
    and "pb_point (snd s) = Fetched offset objects"
  shows "leads_on s s'"
proof -
  obtain w p where s: "s = (w, p)" by (rule prod.exhaust)
  have p: "pb_point p = Fetched offset objects" using assms(2) by (simp add: s)
  show ?thesis using assms
      by (auto simp: s p segment_def leads_on_def fetched_def publication_guard_bind obind_eq_Inr next_points_def
          source_read_concurrency_def split: sum.splits prod.splits)
qed

lemma leads_materializing:
  assumes "segment E P parse encode aborted uuid Materializing s = (Inr x, s')"
    and "pb_point (snd s) = Materializing"
  shows "leads_on s s'"
proof -
  obtain w p where s: "s = (w, p)" by (rule prod.exhaust)
  have p: "pb_point p = Materializing" using assms(2) by (simp add: s)
  show ?thesis using assms
      by (auto simp: s p segment_def leads_on_def materializing_def publication_guard_bind obind_eq_Inr
          next_points_def split: sum.splits option.splits)
qed

lemma leads_materialized:
  assumes "segment E P parse encode aborted uuid Materialized s = (Inr x, s')"
    and "pb_point (snd s) = Materialized"
  shows "leads_on s s'"
proof -
  obtain w p where s: "s = (w, p)" by (rule prod.exhaust)
  have p: "pb_point p = Materialized" using assms(2) by (simp add: s)
  show ?thesis using assms enter_then_point
      by (fastforce simp: s p segment_def leads_on_def materialized_def publication_guard_bind next_points_def split: sum.splits)
qed

lemma leads_writing_search:
  assumes "segment E P parse encode aborted uuid Writing_search s = (Inr x, s')"
    and "pb_point (snd s) = Writing_search"
  shows "leads_on s s'"
proof -
  obtain w p where s: "s = (w, p)" by (rule prod.exhaust)
  have p: "pb_point p = Writing_search" using assms(2) by (simp add: s)
  show ?thesis using assms
      by (auto simp: s p segment_def leads_on_def writing_search_def publication_guard_bind obind_eq_Inr
          on_store_def Let_def next_points_def split: sum.splits if_splits prod.splits)
qed

lemma leads_search_written:
  assumes "segment E P parse encode aborted uuid Search_written s = (Inr x, s')"
    and "pb_point (snd s) = Search_written"
  shows "leads_on s s'"
proof -
  obtain w p where s: "s = (w, p)" by (rule prod.exhaust)
  have p: "pb_point p = Search_written" using assms(2) by (simp add: s)
  show ?thesis using assms enter_then_point
      by (fastforce simp: s p segment_def leads_on_def search_written_def publication_guard_bind next_points_def split: sum.splits)
qed

lemma leads_writing_checkpoint:
  assumes "segment E P parse encode aborted uuid Writing_checkpoint s = (Inr x, s')"
    and "pb_point (snd s) = Writing_checkpoint"
  shows "leads_on s s'"
proof -
  obtain w p where s: "s = (w, p)" by (rule prod.exhaust)
  have p: "pb_point p = Writing_checkpoint" using assms(2) by (simp add: s)
  show ?thesis using assms
      by (auto simp: s p segment_def leads_on_def writing_checkpoint_def publication_guard_bind obind_eq_Inr
          on_store_def Let_def next_points_def split: sum.splits if_splits prod.splits)
qed

lemma leads_checkpoint_written:
  assumes "segment E P parse encode aborted uuid Checkpoint_written s = (Inr x, s')"
    and "pb_point (snd s) = Checkpoint_written"
  shows "leads_on s s'"
proof -
  obtain w p where s: "s = (w, p)" by (rule prod.exhaust)
  have p: "pb_point p = Checkpoint_written" using assms(2) by (simp add: s)
  show ?thesis using assms enter_then_point
      by (fastforce simp: s p segment_def leads_on_def checkpoint_written_def publication_guard_bind
          next_points_def split: sum.splits)
qed

lemma leads_activating:
  assumes "segment E P parse encode aborted uuid Activating s = (Inr x, s')"
    and "pb_point (snd s) = Activating"
  shows "leads_on s s'"
proof -
  obtain w p where s: "s = (w, p)" by (rule prod.exhaust)
  have p: "pb_point p = Activating" using assms(2) by (simp add: s)
  show ?thesis using assms
      by (auto simp: s p segment_def leads_on_def activating_def publication_guard_bind obind_eq_Inr
          next_points_def split: sum.splits)
qed

lemma leads_committing:
  assumes "segment E P parse encode aborted uuid Committing s = (Inr x, s')"
    and "pb_point (snd s) = Committing"
  shows "leads_on s s'"
proof -
  obtain w p where s: "s = (w, p)" by (rule prod.exhaust)
  have p: "pb_point p = Committing" using assms(2) by (simp add: s)
  show ?thesis using assms
      by (auto simp: s p segment_def leads_on_def committing_def obind_eq_Inr on_store_def next_points_def
          split: prod.splits)
qed

lemma segment_next:
  assumes "segment E P parse encode aborted uuid (pb_point (snd s)) s = (Inr x, s')"
    and "\<not> finished (snd s)" and "\<And>e. pb_point (snd s) \<noteq> Failing e"
  shows "leads_on s s'"
proof (cases "pb_point (snd s)")
  case Opening
  then show ?thesis using assms(1) leads_opening[of E P parse encode aborted uuid] by simp
next
  case Deciding
  then show ?thesis using assms(1) leads_deciding[of E P parse encode aborted uuid] by simp
next
  case Entering_reads
  then show ?thesis using assms(1) leads_entering_reads[of E P parse encode aborted uuid] by simp
next
  case Checking_heads
  then show ?thesis using assms(1) leads_checking_heads[of E P parse encode aborted uuid] by simp
next
  case (Reading offset)
  then show ?thesis using assms(1) leads_reading[of E P parse encode aborted uuid] by simp
next
  case (Fetched offset objects)
  then show ?thesis using assms(1) leads_fetched[of E P parse encode aborted uuid] by simp
next
  case Materializing
  then show ?thesis using assms(1) leads_materializing[of E P parse encode aborted uuid] by simp
next
  case Materialized
  then show ?thesis using assms(1) leads_materialized[of E P parse encode aborted uuid] by simp
next
  case Writing_search
  then show ?thesis using assms(1) leads_writing_search[of E P parse encode aborted uuid] by simp
next
  case Search_written
  then show ?thesis using assms(1) leads_search_written[of E P parse encode aborted uuid] by simp
next
  case Writing_checkpoint
  then show ?thesis using assms(1) leads_writing_checkpoint[of E P parse encode aborted uuid] by simp
next
  case Checkpoint_written
  then show ?thesis using assms(1) leads_checkpoint_written[of E P parse encode aborted uuid] by simp
next
  case Activating
  then show ?thesis using assms(1) leads_activating[of E P parse encode aborted uuid] by simp
next
  case Committing
  then show ?thesis using assms(1) leads_committing[of E P parse encode aborted uuid] by simp
qed (use assms(2,3) in \<open>auto simp: finished_def\<close>)

lemma next_nearer:
  assumes "next_points (pb_point p) p (pb_point p')"
    and "pb_point p \<noteq> Deciding \<Longrightarrow> pb_sources p' = pb_sources p"
  shows "segments_left p' < segments_left p"
  using assms groups_left_bound[of "length (pb_sources p)"] groups_left_step[of _ "length (pb_sources p)"]
  by (cases "pb_point p") (auto simp: next_points_def segments_left_def)

lemma handle_point: "pb_point (snd (handle e aborted s)) = Failing e"
  by (cases s) (simp add: handle_def)

lemma failing_point: "pb_point (snd (failing E e s)) = Thrown e"
proof -
  obtain r w p where "update_attempt E False s = (r, w, p)" by (metis surj_pair)
  then show ?thesis by (simp add: failing_def)
qed

lemma segments_left_pos:
  assumes "\<not> finished p" "\<And>e. pb_point p \<noteq> Failing e"
  shows "1 < segments_left p"
  using assms by (cases "pb_point p") (auto simp: segments_left_def finished_def)

lemma publication_step_nearer:
  assumes "\<not> finished (snd s)"
  shows "segments_left (snd (publication_step E P parse encode aborted uuid s)) < segments_left (snd s)"
proof (cases "\<exists>e. pb_point (snd s) = Failing e")
  case True
  then show ?thesis by (auto simp: publication_step_def segments_left_def failing_point)
next
  case False
  then have run: "publication_step E P parse encode aborted uuid s
      = (case segment E P parse encode aborted uuid (pb_point (snd s)) s of
           (Inl e, s') \<Rightarrow> handle e aborted s' | (Inr _, s') \<Rightarrow> s')"
    by (auto simp: publication_step_def split: publication_point.split)
  obtain r s' where seg: "segment E P parse encode aborted uuid (pb_point (snd s)) s = (r, s')"
    by (rule prod.exhaust)
  show ?thesis
  proof (cases r)
    case (Inl e)
    have "segments_left (snd (handle e aborted s')) = 1"
      by (simp add: segments_left_def handle_point)
    then show ?thesis using run seg Inl segments_left_pos[OF assms] False by simp
  next
    case (Inr x)
    then show ?thesis
      using run seg segment_next[of E P parse encode aborted uuid s x s'] assms False
        next_nearer[of "snd s" "snd s'"] by (simp add: leads_on_def)
  qed
qed

lemma publication_step_finished:
  assumes "finished (snd s)"
  shows "publication_step E P parse encode aborted uuid s = s"
  using assms
  by (cases "pb_point (snd s)") (simp_all add: publication_step_def segment_def finished_def)

lemma run_publication_ends:
  assumes "segments_left (snd s) \<le> length schedule"
  shows "finished (snd (run_publication E P parse encode schedule s))"
  using assms
proof (induction schedule arbitrary: s)
  case Nil
  then show ?case by (cases "pb_point (snd s)") (simp_all add: segments_left_def finished_def)
next
  case (Cons x rest)
  obtain others aborted uuid where x: "x = (others, aborted, uuid)" by (metis surj_pair)
  define s1 where "s1 = (others (fst s), snd s)"
  have "segments_left (snd (publication_step E P parse encode aborted uuid s1)) \<le> length rest"
  proof (cases "finished (snd s1)")
    case True
    then have "segments_left (snd s1) = 0"
      by (cases "pb_point (snd s1)") (simp_all add: segments_left_def finished_def)
    then show ?thesis using publication_step_finished[OF True] by simp
  next
    case False
    then show ?thesis
      using publication_step_nearer[OF False, of E P parse encode aborted uuid] Cons.prems
      by (simp add: s1_def)
  qed
  then show ?case using Cons.IH by (simp add: x s1_def)
qed

section \<open>The selected events\<close>

definition staged_events :: "source_head \<times> blob option \<Rightarrow> event list" where
  "staged_events source =
     (case snd source of
        Some object \<Rightarrow> (case bl_body object of Page_body page \<Rightarrow> pg_events page | _ \<Rightarrow> [])
      | None \<Rightarrow> [])"

definition entry_size :: "env \<Rightarrow> event \<Rightarrow> int" where
  "entry_size E e = en_event_size E (checkpoint_event e) + 1"

text \<open>
  A selection from the events seen so far: one entry for every identity, holding its newest copy,
  with the sizes added up.
\<close>

definition selection_ok :: "env \<Rightarrow> event list \<Rightarrow> selection \<Rightarrow> bool" where
  "selection_ok E seen = (\<lambda>(selected, approximate).
     distinct (keys selected)
     \<and> (\<forall>(k, e, size) \<in> set selected. k = ev_id e \<and> size = entry_size E e \<and> e \<in> set seen)
     \<and> (\<forall>e \<in> set seen. \<exists>e' size. map_of selected (ev_id e) = Some (e', size)
          \<and> ev_checkedAt e \<le> ev_checkedAt e')
     \<and> approximate = 2 + sum_list (map (\<lambda>(k, e, size). size) selected)
     \<and> approximate \<le> max_checkpoint_bytes
     \<and> int (length selected) \<le> max_checkpoint_events)"

lemma sum_list_update:
  fixes f :: "'v \<Rightarrow> int"
  assumes "distinct (keys m)" "map_of m k = Some old"
  shows "sum_list (map (\<lambda>(k, v). f v) (AList.update k v m))
    = sum_list (map (\<lambda>(k, v). f v) m) + (f v - f old)"
  using assms
proof (induction m)
  case (Cons x m)
  obtain k' v' where x: "x = (k', v')" by fastforce
  then show ?case using Cons by (cases "k' = k") auto
qed simp

lemma length_update_known:
  "map_of m k = Some old \<Longrightarrow> length (AList.update k v m) = length m"
  by (induction m) auto

lemma set_update_subset: "set (AList.update k v m) \<subseteq> insert (k, v) (set m)"
  by (induction m) auto

lemma selection_start: "2 \<le> max_checkpoint_bytes \<Longrightarrow> selection_ok E [] ([], 2)"
  by (simp add: selection_ok_def max_checkpoint_events_def)

lemma selection_covers:
  assumes "selection_ok E seen (selected, n)" "x \<in> set seen"
  obtains e' sz where "map_of selected (ev_id x) = Some (e', sz)" "ev_checkedAt x \<le> ev_checkedAt e'"
  using assms unfolding selection_ok_def by fastforce

lemma select_new:
  assumes ok: "selection_ok E seen (selected, n)" and new: "map_of selected (ev_id e) = None"
    and "int (length selected) < max_checkpoint_events" "n + entry_size E e \<le> max_checkpoint_bytes"
  shows "selection_ok E (seen @ [e]) (selected @ [(ev_id e, e, entry_size E e)], n + entry_size E e)"
proof -
  have "\<exists>e' sz. map_of (selected @ [(ev_id e, e, entry_size E e)]) (ev_id x) = Some (e', sz)
      \<and> ev_checkedAt x \<le> ev_checkedAt e'" if "x \<in> set (seen @ [e])" for x
  proof (cases "x \<in> set seen")
    case True
    then obtain e' sz where "map_of selected (ev_id x) = Some (e', sz)"
      "ev_checkedAt x \<le> ev_checkedAt e'"
      using selection_covers[OF ok] by blast
    then show ?thesis by (simp add: map_add_def)
  next
    case False
    then have "x = e" using that by simp
    then show ?thesis using new by (simp add: map_add_def)
  qed
  moreover have "distinct (keys (selected @ [(ev_id e, e, entry_size E e)]))"
    using ok new by (simp add: selection_ok_def map_of_eq_None_iff)
  ultimately show ?thesis using ok assms(3,4) unfolding selection_ok_def by auto
qed

lemma select_newer:
  assumes ok: "selection_ok E seen (selected, n)" and old: "map_of selected (ev_id e) = Some (prior, sz)"
    and newer: "ev_checkedAt prior < ev_checkedAt e"
    and "n + entry_size E e - sz \<le> max_checkpoint_bytes"
  shows "selection_ok E (seen @ [e])
    (AList.update (ev_id e) (e, entry_size E e) selected, n + (entry_size E e - sz))"
proof -
  let ?m = "AList.update (ev_id e) (e, entry_size E e) selected"
  have dist: "distinct (keys selected)" using ok by (simp add: selection_ok_def)
  have "\<exists>e' sz. map_of ?m (ev_id x) = Some (e', sz) \<and> ev_checkedAt x \<le> ev_checkedAt e'"
    if "x \<in> set (seen @ [e])" for x
  proof (cases "ev_id x = ev_id e")
    case True
    have "ev_checkedAt x \<le> ev_checkedAt e"
    proof (cases "x \<in> set seen")
      case True
      then obtain e' s where "map_of selected (ev_id x) = Some (e', s)"
        "ev_checkedAt x \<le> ev_checkedAt e'"
        using selection_covers[OF ok] by blast
      then show ?thesis using old newer \<open>ev_id x = ev_id e\<close> by simp
    next
      case False
      then show ?thesis using that by simp
    qed
    then show ?thesis using True by (simp add: update_conv')
  next
    case False
    then have "x \<in> set seen" using that by auto
    then obtain e' s where "map_of selected (ev_id x) = Some (e', s)"
      "ev_checkedAt x \<le> ev_checkedAt e'"
      using selection_covers[OF ok] by blast
    then show ?thesis using False by (simp add: update_conv')
  qed
  moreover have "sum_list (map (\<lambda>(k, e, sz). sz) ?m)
      = sum_list (map (\<lambda>(k, e, sz). sz) selected) + (entry_size E e - sz)"
    using sum_list_update[OF dist old, of "\<lambda>(e, sz). sz" "(e, entry_size E e)"]
    by (simp add: case_prod_beta')
  ultimately show ?thesis
    using ok assms(4) set_update_subset[of "ev_id e" "(e, entry_size E e)" selected]
      length_update_known[OF old] distinct_update[OF dist]
    unfolding selection_ok_def by auto
qed

lemma select_older:
  assumes ok: "selection_ok E seen (selected, n)" and old: "map_of selected (ev_id e) = Some (prior, sz)"
    and "ev_checkedAt e \<le> ev_checkedAt prior"
  shows "selection_ok E (seen @ [e]) (selected, n)"
  using assms unfolding selection_ok_def by auto

lemma select_event_ok:
  assumes "select_event E P parse url e (ids, selected, n) = Inr (ids', sel)"
    and "selection_ok E seen (selected, n)"
  shows "selection_ok E (seen @ [e]) sel"
proof (cases "map_of selected (ev_id e)")
  case None
  then show ?thesis using assms select_new[OF assms(2) None]
    by (auto simp: select_event_def Let_def entry_size_def split: if_splits)
next
  case (Some old)
  obtain prior sz where old: "old = (prior, sz)" by fastforce
  from assms(1) Some have cases: "(ev_checkedAt prior < ev_checkedAt e
      \<and> n + entry_size E e - sz \<le> max_checkpoint_bytes
      \<and> sel = (AList.update (ev_id e) (e, entry_size E e) selected, n + (entry_size E e - sz)))
    \<or> (\<not> ev_checkedAt prior < ev_checkedAt e \<and> sel = (selected, n))"
    by (auto simp: old select_event_def Let_def entry_size_def rbind_eq_Inr split: if_splits)
  then show ?thesis
    using select_newer[OF assms(2)] select_older[OF assms(2)] Some old by auto
qed

lemma select_events_ok:
  assumes "rfold (select_event E P parse url) es (ids, sel) = Inr (ids', sel')"
    and "selection_ok E seen sel"
  shows "selection_ok E (seen @ es) sel'"
  using assms
proof (induction es arbitrary: ids sel seen)
  case (Cons e es)
  obtain ids1 sel1 where s: "select_event E P parse url e (ids, sel) = Inr (ids1, sel1)"
    "rfold (select_event E P parse url) es (ids1, sel1) = Inr (ids', sel')"
    using Cons.prems(1) by (auto simp: rbind_eq_Inr)
  have "selection_ok E (seen @ [e]) sel1"
    using select_event_ok[of E P parse url e ids "fst sel" "snd sel"] s(1) Cons.prems(2) by simp
  then show ?case using Cons.IH[OF s(2), of "seen @ [e]"] by simp
qed simp

lemma select_page_ok:
  assumes "select_page E P parse source sel = Inr sel'" and "selection_ok E seen sel"
  shows "selection_ok E (seen @ staged_events source) sel'"
proof -
  obtain h object where source: "source = (h, object)" by fastforce
  obtain selected n where sel: "sel = (selected, n)" by fastforce
  from assms(1) obtain bl page ids where "object = Some bl" "bl_body bl = Page_body page"
    "rfold (select_event E P parse (sh_url h)) (pg_events page) ([], selected, n) = Inr (ids, sel')"
    unfolding select_page_def source sel
    by (auto simp: rbind_eq_Inr split: option.splits if_splits body.splits prod.splits)
  then show ?thesis using select_events_ok assms(2) by (auto simp: staged_events_def source sel)
qed

lemma select_pages_ok:
  assumes "rfold (select_page E P parse) objects sel = Inr sel'" and "selection_ok E seen sel"
  shows "selection_ok E (seen @ concat (map staged_events objects)) sel'"
  using assms
proof (induction objects arbitrary: sel seen)
  case (Cons h hs)
  obtain sel1 where "select_page E P parse h sel = Inr sel1"
    "rfold (select_page E P parse) hs sel1 = Inr sel'"
    using Cons.prems(1) by (auto simp: rbind_eq_Inr)
  then show ?case using Cons.IH select_page_ok Cons.prems(2) by fastforce
qed simp

end
