(* ===== verification/Publication_Invariant.thy ===== *)
theory Publication_Invariant
  imports Publication_Facts
begin

text \<open>
  What holds between two segments of a publication, whatever other requests do meanwhile: the
  head it read is known, it is not behind that head, and the objects it wrote are in the store.
\<close>

section \<open>The invariant of a running publication\<close>

text \<open>What SHA-256 in hexadecimal and the size of a text are known to be.\<close>

definition env_ok :: "env \<Rightarrow> bool" where
  "env_ok E \<longleftrightarrow> (\<forall>b. is_hex64 (en_digest E b) \<and> 0 < en_size E b)"

text \<open>How far a publication has come, by what it has stored.\<close>

fun level :: "publication_point \<Rightarrow> nat" where
  "level Entering_reads = 1"
| "level Checking_heads = 1"
| "level (Reading _) = 1"
| "level (Fetched _ _) = 1"
| "level Materializing = 2"
| "level Materialized = 3"
| "level Writing_search = 3"
| "level Search_written = 4"
| "level Writing_checkpoint = 4"
| "level Checkpoint_written = 5"
| "level Activating = 5"
| "level Committing = 5"
| "level _ = 0"

definition report_ok :: "collection_report \<Rightarrow> bool" where
  "report_ok r \<longleftrightarrow> canonical_iso (rep_finishedAt r) \<and> is_obj (rep_summary r)"

definition stamp_unit :: "nat \<Rightarrow> bool" where
  "stamp_unit c \<longleftrightarrow> is_key_unit c \<or> c = 58 \<or> c = 46"

definition saved_at_ok :: "jstr \<Rightarrow> bool" where
  "saved_at_ok s \<longleftrightarrow> canonical_iso s \<and> list_all stamp_unit s"

text \<open>The store holds exactly this object under the key.\<close>

definition holds :: "env \<Rightarrow> world \<Rightarrow> jstr \<Rightarrow> body \<Rightarrow> bool" where
  "holds E w key b \<longleftrightarrow> blobs w key = Some \<lparr>bl_body = b, bl_bytes = en_size E b\<rparr>"

type_synonym history = "jstr \<rightharpoonup> catalog_head"

definition search_stored :: "env \<Rightarrow> world \<Rightarrow> publishing \<Rightarrow> bool" where
  "search_stored E w p \<longleftrightarrow>
     holds E w (pb_searchKey p) (search_body p) \<and> pb_searchKey p \<noteq> []
     \<and> en_size E (search_body p) \<le> max_search_bytes"

definition checkpoint_stored :: "env \<Rightarrow> world \<Rightarrow> publishing \<Rightarrow> bool" where
  "checkpoint_stored E w p \<longleftrightarrow>
     (\<exists>key. pb_pointer p = Some (new_pointer E key p) \<and> holds E w key (checkpoint_body p)
        \<and> checkpoint_key_ok key \<and> en_size E (checkpoint_body p) \<le> max_checkpoint_bytes)"

definition prepared_ok :: "publishing \<Rightarrow> bool" where
  "prepared_ok p \<longleftrightarrow>
     saved_at_ok (pb_savedAt p)
     \<and> (\<exists>c. pb_catalog p = Some c \<and> date_parse (sc_materializedAt c) \<noteq> None)"

definition publishing_ok :: "env \<Rightarrow> history \<Rightarrow> world \<Rightarrow> publishing \<Rightarrow> bool" where
  "publishing_ok E hist w p \<longleftrightarrow>
     report_ok (pb_report p)
     \<and> (\<forall>h. pb_previous p = Some h \<longrightarrow> hist (ch_revision h) = Some h)
     \<and> int (length (pb_selected p)) \<le> max_checkpoint_events
     \<and> (1 \<le> level (pb_point p) \<longrightarrow>
          (\<forall>h. pb_previous p = Some h \<longrightarrow> \<not> already_published E (pb_report p) h))
     \<and> (2 \<le> level (pb_point p) \<longrightarrow> int (length (pb_publishing p)) \<le> max_checkpoint_events)
     \<and> (3 \<le> level (pb_point p) \<longrightarrow> prepared_ok p)
     \<and> (4 \<le> level (pb_point p) \<longrightarrow> search_stored E w p)
     \<and> (5 \<le> level (pb_point p) \<longrightarrow> checkpoint_stored E w p)
     \<and> (\<forall>ptr. pb_point p = Returned ptr \<longrightarrow>
          (\<exists>h \<in> ran hist. ch_pointer h = ptr \<and> rep_finishedAt (pb_report p) \<le> ptr_finishedAt ptr))"

text \<open>Other requests add objects and heads; they take nothing away.\<close>

lemma holds_mono: "holds E w key b \<Longrightarrow> blobs w \<subseteq>\<^sub>m blobs w' \<Longrightarrow> holds E w' key b"
  unfolding holds_def map_le_def by (metis domI)

lemma publishing_ok_mono:
  assumes "publishing_ok E hist w p" "blobs w \<subseteq>\<^sub>m blobs w'" "hist \<subseteq>\<^sub>m hist'"
  shows "publishing_ok E hist' w' p"
proof -
  have s: "search_stored E w p \<Longrightarrow> search_stored E w' p"
    "checkpoint_stored E w p \<Longrightarrow> checkpoint_stored E w' p"
    using holds_mono assms(2) unfolding search_stored_def checkpoint_stored_def by blast+
  have h: "hist r = Some h \<Longrightarrow> hist' r = Some h" for r h
    using assms(3) unfolding map_le_def by (metis domI)
  then have "h \<in> ran hist \<Longrightarrow> h \<in> ran hist'" for h by (auto simp: ran_def)
  then show ?thesis using assms(1) s h unfolding publishing_ok_def by blast
qed

text \<open>The record of the attempt is no part of the invariant.\<close>

lemma bodies_attempt [simp]:
  "search_body (p\<lparr>pb_attempt := a\<rparr>) = search_body p"
  "checkpoint_body (p\<lparr>pb_attempt := a\<rparr>) = checkpoint_body p"
  "search_body (p\<lparr>pb_point := x\<rparr>) = search_body p"
  "checkpoint_body (p\<lparr>pb_point := x\<rparr>) = checkpoint_body p"
  "new_pointer E key (p\<lparr>pb_attempt := a\<rparr>) = new_pointer E key p"
  "new_pointer E key (p\<lparr>pb_point := x\<rparr>) = new_pointer E key p"
  by (simp_all add: search_body_def checkpoint_body_def new_pointer_def)

lemma stored_local [simp]:
  "search_stored E w (p\<lparr>pb_attempt := a\<rparr>) = search_stored E w p"
  "search_stored E w (p\<lparr>pb_point := x\<rparr>) = search_stored E w p"
  "checkpoint_stored E w (p\<lparr>pb_attempt := a\<rparr>) = checkpoint_stored E w p"
  "checkpoint_stored E w (p\<lparr>pb_point := x\<rparr>) = checkpoint_stored E w p"
  "prepared_ok (p\<lparr>pb_attempt := a\<rparr>) = prepared_ok p"
  "prepared_ok (p\<lparr>pb_point := x\<rparr>) = prepared_ok p"
  by (simp_all add: search_stored_def checkpoint_stored_def prepared_ok_def)

lemma stored_control [simp]:
  "search_stored E (w\<lparr>ctl := c\<rparr>) p = search_stored E w p"
  "checkpoint_stored E (w\<lparr>ctl := c\<rparr>) p = checkpoint_stored E w p"
  by (simp_all add: search_stored_def checkpoint_stored_def holds_def)

lemma publishing_ok_records:
  assumes "publishing_ok E hist (fst s) (snd s)" "records_only s s'"
  shows "publishing_ok E hist (fst s') (snd s')"
  using assms unfolding records_only_def publishing_ok_def by auto

text \<open>Going on to a point that needs nothing more.\<close>

lemma publishing_ok_advance:
  assumes "publishing_ok E hist w p" "level point \<le> level (pb_point p)"
    and "\<And>ptr. point \<noteq> Returned ptr"
  shows "publishing_ok E hist w (p\<lparr>pb_point := point\<rparr>)"
  using assms unfolding publishing_ok_def by auto

lemma publishing_ok_enter:
  assumes "obind (enter_phase E aborted phase) (\<lambda>_. go_to point) s = (r, s')"
    and "publishing_ok E hist (fst s) (snd s)" "level point \<le> level (pb_point (snd s))"
    and "\<And>ptr. point \<noteq> Returned ptr"
  shows "publishing_ok E hist (fst s') (snd s')
    \<and> catalog (ctl (fst s')) = catalog (ctl (fst s))"
  using assms(1)
proof (rule enter_then)
  fix s1
  assume a: "records_only s s1" "s' = (fst s1, (snd s1)\<lparr>pb_point := point\<rparr>)"
  have "publishing_ok E hist (fst s1) (snd s1)" by (rule publishing_ok_records[OF assms(2) a(1)])
  then show ?thesis
    using publishing_ok_advance[of E hist "fst s1" "snd s1" point] a assms(3,4)
    by (auto simp: records_only_def)
next
  assume "records_only s s'"
  then show ?thesis using publishing_ok_records[OF assms(2)] by (auto simp: records_only_def)
qed

section \<open>Keys and time stamps\<close>

lemma pad_units: "list_all is_digit_unit (pad k n)"
  by (induction k n rule: pad.induct) (auto simp: is_digit_unit_def)

lemma stamp_units_iso:
  assumes "four_digit_year t"
  shows "saved_at_ok (iso_string t)"
proof -
  have d: "list_all stamp_unit (pad k n)" for k n
    using pad_units[of k n]
    by (simp add: list_all_iff stamp_unit_def is_key_unit_def)
  have l: "list_all stamp_unit (u ''-'')" "list_all stamp_unit (u ''T'')"
    "list_all stamp_unit (u '':'')" "list_all stamp_unit (u ''.'')" "list_all stamp_unit (u ''Z'')"
    by (simp_all add: u_def cu_def stamp_unit_def is_key_unit_def is_upper_unit_def)
  have "iso_year (t_year t) = pad 4 (nat (t_year t))"
    using assms by (simp add: iso_year_def four_digit_year_def)
  then have "list_all stamp_unit (iso_string t)"
    using d l by (simp add: iso_string_def iso_rest_def)
  then show ?thesis using assms by (auto simp: saved_at_ok_def four_digit_year_def)
qed

lemma attempt_id_units:
  assumes "attempt_id_ok uuid"
  shows "list_all is_key_unit uuid"
proof -
  have fit: "fits_template t c \<Longrightarrow> t \<in> set ''xxxxxxxx-xxxx-4xxx-yxxx-xxxxxxxxxxxx'' \<Longrightarrow> is_key_unit c"
    for t c
    by (auto simp: fits_template_def is_key_unit_def is_hex_unit_def is_digit_unit_def
        is_lower_unit_def is_upper_unit_def cu_def split: if_splits)
  have "list_all2 fits_template ''xxxxxxxx-xxxx-4xxx-yxxx-xxxxxxxxxxxx'' uuid"
    using assms by (simp only: attempt_id_ok_def)
  then have "\<forall>c \<in> set uuid. \<exists>t \<in> set ''xxxxxxxx-xxxx-4xxx-yxxx-xxxxxxxxxxxx''. fits_template t c"
    unfolding list_all2_conv_all_nth by (metis in_set_conv_nth)
  then show ?thesis using fit by (auto simp: list_all_iff)
qed

lemma new_checkpoint_key_ok:
  assumes "saved_at_ok savedAt" "attempt_id_ok uuid"
  shows "checkpoint_key_ok (object_key ''collection/'' savedAt uuid)"
proof -
  define stamp where "stamp = map (\<lambda>c. if c = 58 \<or> c = 46 then 45 else c) savedAt"
  have "list_all is_key_unit stamp"
    using assms(1) by (auto simp: saved_at_ok_def stamp_unit_def stamp_def list_all_iff is_key_unit_def)
  then have "list_all is_key_unit (stamp @ [45] @ uuid)"
    using attempt_id_units[OF assms(2)] by (simp add: is_key_unit_def)
  then show ?thesis
    unfolding checkpoint_key_form object_key_def stamp_def[symmetric]
    by (intro exI[of _ "stamp @ [45] @ uuid"]) simp
qed

section \<open>Every segment keeps the invariant\<close>

text \<open>What a segment may assume of the moment it runs in.\<close>

definition moment_ok :: "env \<Rightarrow> history \<Rightarrow> jstr \<Rightarrow> world \<Rightarrow> publishing \<Rightarrow> bool" where
  "moment_ok E hist uuid w p \<longleftrightarrow>
     four_digit_year (clock w) \<and> attempt_id_ok uuid \<and> hist uuid = None
     \<and> blobs w (object_key ''search-catalog/'' (pb_savedAt p) uuid) = None
     \<and> blobs w (object_key ''collection/'' (pb_savedAt p) uuid) = None
     \<and> (\<forall>h. catalog (ctl w) = Some h \<longrightarrow> hist (ch_revision h) = Some h)"

text \<open>A failed segment leaves what the invariant reads as it was.\<close>

definition failed_from :: "world \<times> publishing \<Rightarrow> world \<times> publishing \<Rightarrow> bool" where
  "failed_from s s' \<longleftrightarrow>
     pb_report (snd s') = pb_report (snd s) \<and> pb_previous (snd s') = pb_previous (snd s)
     \<and> pb_selected (snd s') = pb_selected (snd s)
     \<and> blobs (fst s') = blobs (fst s) \<and> clock (fst s') = clock (fst s)
     \<and> (\<exists>v. ctl (fst s') = (ctl (fst s))\<lparr>publication := v\<rparr>)"

lemma failed_from_records: "records_only s s' \<Longrightarrow> failed_from s s'"
  unfolding records_only_def failed_from_def by auto

lemma failed_from_local:
  "pb_report p' = pb_report p \<Longrightarrow> pb_previous p' = pb_previous p \<Longrightarrow>
     pb_selected p' = pb_selected p \<Longrightarrow> failed_from (w, p) (w, p')"
  unfolding failed_from_def by (simp; rule exI[of _ "publication (ctl w)"]; simp)

lemma failed_from_refl: "failed_from s s"
  by (cases s) (simp add: failed_from_local)

lemma failed_from_enter:
  assumes "obind (enter_phase E aborted phase) (\<lambda>_. go_to point) (w, p') = (Inl e, s')"
    and "pb_report p' = pb_report p" "pb_previous p' = pb_previous p" "pb_selected p' = pb_selected p"
  shows "failed_from (w, p) s'"
  using assms(1)
proof (rule enter_then)
  assume "records_only (w, p') s'"
  then show ?thesis using assms(2-4) unfolding records_only_def failed_from_def by auto
qed simp

lemma on_store_bind:
  "obind (on_store f) g (w, p)
     = (case f w of (Inl e, w') \<Rightarrow> (Inl e, w', p) | (Inr x, w') \<Rightarrow> g x (w', p))"
  by (simp add: obind_def on_store_def split: prod.split sum.split)

lemma store_failures:
  "begin_attempt E l a w = (Inl e, w') \<Longrightarrow> w' = w"
  "put_immutable E key b w = (Inl e, w') \<Longrightarrow> w' = w"
  "activate_checkpoint E aborted revision p w = (Inl e, w') \<Longrightarrow> w' = w"
  by (auto simp: begin_attempt_def activate_checkpoint_def put_immutable_def
      dest: transaction_abort split: option.splits if_splits)

lemma finish_early_records:
  "finish_early E h s = (r, s') \<Longrightarrow> r = Inr () \<or> records_only s s'"
proof -
  assume a: "finish_early E h s = (r, s')"
  obtain w p where s: "s = (w, p)" by (rule prod.exhaust)
  define p1 where "p1 = p\<lparr>pb_attempt := (pb_attempt p)\<lparr>pa_phase := Complete,
    pa_phaseStartedElapsedMs := Some (max 0 (clock w - pb_started p)),
    pa_events := ptr_events (ch_pointer h), pa_checkpointBytes := Some (ptr_bytes (ch_pointer h)),
    pa_outcome := Succeeded\<rparr>\<rparr>"
  obtain r1 s1 where up: "update_attempt E True (w, p1) = (r1, s1)" by (rule prod.exhaust)
  have "records_only s (w, p1)" unfolding s p1_def by (rule records_only_attempt)
  then have rec: "records_only s s1" using update_attempt_records[OF up] records_only_trans by blast
  have "obind (update_attempt E True) (\<lambda>_. go_to (Returned (ch_pointer h))) (w, p1) = (r, s')"
    using a by (simp add: finish_early_def s p1_def obind_def)
  then show ?thesis using rec up by (cases r1; cases s1) (auto simp: obind_def)
qed

lemma finish_early_failed: "finish_early E h s = (Inl e, s') \<Longrightarrow> failed_from s s'"
  using finish_early_records[of E h s "Inl e" s'] by (simp add: failed_from_records)

lemma segment_failed:
  assumes "segment E P parse encode aborted uuid point (w, p) = (Inl e, s')"
  shows "failed_from (w, p) s'"
proof (cases point)
  case Opening
  then show ?thesis using assms failed_from_refl
    by (auto simp: segment_def opening_attempt_def on_store_bind split: sum.splits prod.splits
        dest: store_failures)
next
  case Deciding
  have "s' = (w, p) \<or> (\<exists>h. finish_early E h (w, p) = (Inl e, s'))"
    using assms Deciding
    by (auto simp: segment_def deciding_def publication_guard_bind list_sources_def Let_def
        split: sum.splits option.splits if_splits)
  then show ?thesis by (elim disjE exE) (simp_all add: failed_from_refl finish_early_failed)
next
  case Entering_reads
  then show ?thesis using assms failed_from_enter[of E aborted Source_reads Checking_heads w p e s' p]
    by (simp add: segment_def)
next
  case Checking_heads
  then show ?thesis using assms failed_from_refl
    by (auto simp: segment_def checking_heads_def publication_guard_bind olift_bind
        split: sum.splits if_splits)
next
  case (Reading offset)
  have "s' = (w, p) \<or> (\<exists>p'. obind (enter_phase E aborted Materialize) (\<lambda>_. go_to Materializing) (w, p')
      = (Inl e, s') \<and> pb_report p' = pb_report p \<and> pb_previous p' = pb_previous p
      \<and> pb_selected p' = pb_selected p)"
    using assms Reading
    by (auto simp: segment_def reading_def publication_guard_bind Let_def
        split: sum.splits if_splits)
  then show ?thesis using failed_from_refl failed_from_enter by blast
next
  case (Fetched offset objects)
  then show ?thesis using assms failed_from_refl
    by (auto simp: segment_def fetched_def publication_guard_bind olift_bind
        split: sum.splits prod.splits)
next
  case Materializing
  then show ?thesis using assms failed_from_refl
    by (auto simp: segment_def materializing_def publication_guard_bind olift_bind
        split: sum.splits option.splits)
next
  case Materialized
  then show ?thesis using assms failed_from_refl
    by (auto simp: segment_def materialized_def publication_guard_bind split: sum.splits
        elim: failed_from_enter)
next
  case Writing_search
  then show ?thesis using assms failed_from_refl
    by (auto simp: segment_def writing_search_def publication_guard_bind Let_def on_store_bind
        split: sum.splits if_splits prod.splits dest: store_failures)
next
  case Search_written
  then show ?thesis using assms failed_from_refl
    by (auto simp: segment_def search_written_def publication_guard_bind split: sum.splits
        elim: failed_from_enter)
next
  case Writing_checkpoint
  then show ?thesis using assms failed_from_refl
    by (auto simp: segment_def writing_checkpoint_def publication_guard_bind Let_def on_store_bind
        split: sum.splits if_splits prod.splits dest: store_failures)
next
  case Checkpoint_written
  then show ?thesis using assms failed_from_refl
    by (auto simp: segment_def checkpoint_written_def publication_guard_bind split: sum.splits
        elim: failed_from_enter)
next
  case Activating
  then show ?thesis using assms failed_from_refl
    by (auto simp: segment_def activating_def publication_guard_bind split: sum.splits)
next
  case Committing
  then show ?thesis using assms failed_from_refl
    by (auto simp: segment_def committing_def on_store_bind split: sum.splits prod.splits
        dest: store_failures)
qed (use assms in \<open>simp_all add: segment_def\<close>)

text \<open>Every head that was ever live, by its revision.\<close>

definition note_head :: "catalog_head option \<Rightarrow> history \<Rightarrow> history" where
  "note_head head hist =
     (case head of None \<Rightarrow> hist | Some h \<Rightarrow> hist(ch_revision h \<mapsto> h))"

lemma note_head_known:
  "(\<And>h. head = Some h \<Longrightarrow> hist (ch_revision h) = Some h) \<Longrightarrow> note_head head hist = hist"
  by (cases head) (auto simp: note_head_def fun_upd_idem)

lemma publishing_okD:
  assumes "publishing_ok E hist w p"
  shows "report_ok (pb_report p)" "pb_previous p = Some h \<Longrightarrow> hist (ch_revision h) = Some h"
    "int (length (pb_selected p)) \<le> max_checkpoint_events"
    "1 \<le> level (pb_point p) \<Longrightarrow> pb_previous p = Some h \<Longrightarrow> \<not> already_published E (pb_report p) h"
    "2 \<le> level (pb_point p) \<Longrightarrow> int (length (pb_publishing p)) \<le> max_checkpoint_events"
    "3 \<le> level (pb_point p) \<Longrightarrow> prepared_ok p"
    "4 \<le> level (pb_point p) \<Longrightarrow> search_stored E w p"
    "5 \<le> level (pb_point p) \<Longrightarrow> checkpoint_stored E w p"
  using assms unfolding publishing_ok_def by blast+

lemma keeps_opening:
  assumes "segment E P parse encode aborted uuid Opening (w, p) = (Inr x, w', p')"
    and "publishing_ok E hist w p" "moment_ok E hist uuid w p"
  shows "publishing_ok E hist w' p' \<and> catalog (ctl w') = catalog (ctl w)"
proof -
  obtain previous where "begin_attempt E (pb_lease p) (pb_attempt p) w = (Inr previous, w')"
    and p': "p' = p\<lparr>pb_previous := previous, pb_point := Deciding\<rparr>"
    using assms(1)
    by (auto simp: segment_def opening_attempt_def on_store_bind split: sum.splits prod.splits)
  then have "previous = catalog (ctl w)" "catalog (ctl w') = catalog (ctl w)"
    by (auto simp: begin_attempt_def transaction_Inr obind_eq_Inr require_live_def split: if_splits)
  then show ?thesis using assms(2,3) by (simp add: p' publishing_ok_def moment_ok_def)
qed

lemma finish_early_returns:
  assumes "finish_early E h s = (Inr x, s')"
  shows "\<exists>s1. records_only s s1 \<and> s' = (fst s1, (snd s1)\<lparr>pb_point := Returned (ch_pointer h)\<rparr>)"
proof -
  obtain w p where s: "s = (w, p)" by (rule prod.exhaust)
  define p1 where "p1 = p\<lparr>pb_attempt := (pb_attempt p)\<lparr>pa_phase := Complete,
    pa_phaseStartedElapsedMs := Some (max 0 (clock w - pb_started p)),
    pa_events := ptr_events (ch_pointer h), pa_checkpointBytes := Some (ptr_bytes (ch_pointer h)),
    pa_outcome := Succeeded\<rparr>\<rparr>"
  obtain r1 s1 where up: "update_attempt E True (w, p1) = (r1, s1)" by (rule prod.exhaust)
  have "records_only s (w, p1)" unfolding s p1_def by (rule records_only_attempt)
  then have rec: "records_only s s1" using update_attempt_records[OF up] records_only_trans by blast
  have "obind (update_attempt E True) (\<lambda>_. go_to (Returned (ch_pointer h))) (w, p1) = (Inr x, s')"
    using assms by (simp add: finish_early_def s p1_def obind_def)
  then show ?thesis using rec up by (cases r1; cases s1) (auto simp: obind_def)
qed

lemma keeps_deciding:
  assumes "segment E P parse encode aborted uuid Deciding (w, p) = (Inr x, w', p')"
    and "publishing_ok E hist w p" "pb_point p = Deciding"
  shows "publishing_ok E hist w' p' \<and> catalog (ctl w') = catalog (ctl w)"
proof -
  have "(\<exists>h. pb_previous p = Some h \<and> already_published E (pb_report p) h
        \<and> finish_early E h (w, p) = (Inr x, w', p'))
    \<or> ((\<forall>h. pb_previous p = Some h \<longrightarrow> \<not> already_published E (pb_report p) h)
        \<and> list_sources (w, p) = (Inr x, w', p'))"
    using assms(1)
    by (auto simp: segment_def deciding_def publication_guard_bind
        split: sum.splits option.splits if_splits)
  then show ?thesis
  proof (elim disjE exE conjE)
    fix h
    assume h: "pb_previous p = Some h" "already_published E (pb_report p) h"
      and "finish_early E h (w, p) = (Inr x, w', p')"
    then obtain s1 where s1: "records_only (w, p) s1" "w' = fst s1"
      "p' = (snd s1)\<lparr>pb_point := Returned (ch_pointer h)\<rparr>"
      using finish_early_returns by fastforce
    have "hist (ch_revision h) = Some h" using publishing_okD(2)[OF assms(2) h(1)] .
    then have "h \<in> ran hist" by (auto simp: ran_def)
    moreover have "rep_finishedAt (pb_report p) \<le> ptr_finishedAt (ch_pointer h)"
      using h(2) by (auto simp: already_published_def)
    moreover have "publishing_ok E hist (fst s1) (snd s1)"
      using publishing_ok_records[of E hist "(w, p)"] assms(2) s1(1) by simp
    moreover have "pb_report (snd s1) = pb_report p" "catalog (ctl (fst s1)) = catalog (ctl w)"
      using s1(1) by (auto simp: records_only_def)
    ultimately show ?thesis by (auto simp: s1 publishing_ok_def)
  next
    assume "\<forall>h. pb_previous p = Some h \<longrightarrow> \<not> already_published E (pb_report p) h"
      and "list_sources (w, p) = (Inr x, w', p')"
    then show ?thesis using assms(2) by (auto simp: list_sources_def Let_def publishing_ok_def)
  qed
qed

lemma keeps_checking_heads:
  assumes "segment E P parse encode aborted uuid Checking_heads (w, p) = (Inr x, w', p')"
    and "publishing_ok E hist w p" "pb_point p = Checking_heads"
  shows "publishing_ok E hist w' p' \<and> catalog (ctl w') = catalog (ctl w)"
proof -
  have "w' = w" "p' = p\<lparr>pb_point := Reading 0\<rparr>"
    using assms(1)
    by (auto simp: segment_def checking_heads_def publication_guard_bind olift_bind
        split: sum.splits if_splits)
  then show ?thesis using publishing_ok_advance[OF assms(2)] assms(3) by simp
qed

lemma keeps_reading:
  assumes "segment E P parse encode aborted uuid (Reading offset) (w, p) = (Inr x, w', p')"
    and "publishing_ok E hist w p" "pb_point p = Reading offset"
  shows "publishing_ok E hist w' p' \<and> catalog (ctl w') = catalog (ctl w)"
proof (cases "offset < length (pb_sources p)")
  case True
  then obtain objects where "w' = w" "p' = p\<lparr>pb_point := Fetched offset objects\<rparr>"
    using assms(1) by (auto simp: segment_def reading_def publication_guard_bind split: sum.splits)
  then show ?thesis using publishing_ok_advance[OF assms(2)] assms(3) by simp
next
  case False
  define p1 where "p1 = p\<lparr>pb_publishing := selected_events E (pb_selected p),
    pb_attempt := (pb_attempt p)\<lparr>pa_events := int (length (selected_events E (pb_selected p)))\<rparr>\<rparr>"
  have enter: "obind (enter_phase E aborted Materialize) (\<lambda>_. go_to Materializing) (w, p1) = (Inr x, w', p')"
    using assms(1) False
    by (auto simp: segment_def reading_def Let_def p1_def split: if_splits)
  have len: "length (pb_publishing p1) = length (pb_selected p)"
    by (simp add: p1_def selected_events_def)
  have ok: "publishing_ok E hist w p1"
    using assms(2,3) by (simp add: p1_def publishing_ok_def)
  from enter show ?thesis
  proof (rule enter_then)
    fix s1
    assume s1: "records_only (w, p1) s1"
      "(w', p') = (fst s1, (snd s1)\<lparr>pb_point := Materializing\<rparr>)"
    have "publishing_ok E hist (fst s1) (snd s1)"
      using publishing_ok_records[of E hist "(w, p1)"] ok s1(1) by simp
    moreover have "pb_publishing (snd s1) = pb_publishing p1" "pb_selected (snd s1) = pb_selected p"
      "pb_point (snd s1) = Reading offset" "catalog (ctl (fst s1)) = catalog (ctl w)"
      using s1(1) assms(3) by (auto simp: records_only_def p1_def)
    ultimately show ?thesis using s1(2) len by (simp add: publishing_ok_def)
  qed simp
qed

lemma select_event_bound:
  assumes "select_event E P parse url e (ids, selected, n) = Inr (ids', selected', n')"
    and "int (length selected) \<le> max_checkpoint_events"
  shows "int (length selected') \<le> max_checkpoint_events"
  using assms
  by (auto simp: select_event_def Let_def rbind_eq_Inr length_update_known
      split: if_splits option.splits)

lemma select_page_bound:
  assumes "select_page E P parse source (selected, n) = Inr (selected', n')"
    and "int (length selected) \<le> max_checkpoint_events"
  shows "int (length selected') \<le> max_checkpoint_events"
proof -
  from assms(1) obtain url es ids where
    r: "rfold (select_event E P parse url) es ([], selected, n) = Inr (ids, selected', n')"
    by (cases source)
       (auto simp: select_page_def rbind_eq_Inr split: option.splits if_splits body.splits prod.splits)
  have "(\<lambda>(ids, selected, n). int (length selected) \<le> max_checkpoint_events) (ids, selected', n')"
    by (rule rfold_invariant[OF r]) (use assms(2) select_event_bound in \<open>auto split: prod.splits\<close>)
  then show ?thesis by simp
qed

lemma keeps_fetched:
  assumes "segment E P parse encode aborted uuid (Fetched offset objects) (w, p) = (Inr x, w', p')"
    and "publishing_ok E hist w p" "pb_point p = Fetched offset objects"
  shows "publishing_ok E hist w' p' \<and> catalog (ctl w') = catalog (ctl w)"
proof -
  obtain selected n a where
    r: "rfold (select_page E P parse) objects (pb_selected p, pb_bytes p) = Inr (selected, n)"
    and p': "w' = w" "p' = p\<lparr>pb_selected := selected, pb_bytes := n,
      pb_point := Reading (offset + source_read_concurrency), pb_attempt := a\<rparr>"
    using assms(1)
    by (auto simp: segment_def fetched_def publication_guard_bind olift_bind
        split: sum.splits prod.splits)
  have "(\<lambda>(selected, n). int (length selected) \<le> max_checkpoint_events) (selected, n)"
    by (rule rfold_invariant[OF r])
       (use publishing_okD(3)[OF assms(2)] select_page_bound in \<open>auto split: prod.splits\<close>)
  then show ?thesis using assms(2,3) by (simp add: p' publishing_ok_def)
qed

lemma keeps_materializing:
  assumes "segment E P parse encode aborted uuid Materializing (w, p) = (Inr x, w', p')"
    and "publishing_ok E hist w p" "pb_point p = Materializing" "moment_ok E hist uuid w p"
  shows "publishing_ok E hist w' p' \<and> catalog (ctl w') = catalog (ctl w)"
proof -
  have iso: "to_iso (clock w) = Some (iso_string (clock w))" and saved: "saved_at_ok (iso_string (clock w))"
    using assms(4) stamp_units_iso by (auto simp: moment_ok_def to_iso_def four_digit_year_def)
  obtain search where
    build: "build_search_catalog encode P (pb_publishing p) (clock w) = Inr (Some search)"
    and p': "w' = w" "p' = p\<lparr>pb_savedAt := iso_string (clock w), pb_catalog := Some search,
      pb_point := Materialized\<rparr>"
    using assms(1) iso
    by (auto simp: segment_def materializing_def publication_guard_bind olift_bind iso_or_throw_def
        split: sum.splits option.splits)
  have "sc_materializedAt search = iso_string (clock w)"
    using build iso
    by (auto simp: build_search_catalog_def rbind_eq_Inr split: option.splits)
  moreover have "date_parse (iso_string (clock w)) \<noteq> None"
    using saved canonical_iso_parse by (fastforce simp: saved_at_ok_def)
  ultimately have "prepared_ok p'" using saved by (simp add: prepared_ok_def p')
  then show ?thesis using assms(2,3) by (simp add: p' publishing_ok_def)
qed

lemma put_holds:
  assumes "put_immutable E key b w = (Inr x, w')" "blobs w key = None"
  shows "holds E w' key b \<and> blobs w \<subseteq>\<^sub>m blobs w' \<and> ctl w' = ctl w"
  using assms put_immutable_keeps[OF assms(1)]
  by (auto simp: put_immutable_def holds_def split: if_splits)

lemma keeps_writing_search:
  assumes "segment E P parse encode aborted uuid Writing_search (w, p) = (Inr x, w', p')"
    and "publishing_ok E hist w p" "pb_point p = Writing_search" "moment_ok E hist uuid w p"
  shows "publishing_ok E hist w' p' \<and> catalog (ctl w') = catalog (ctl w)"
proof -
  define key where "key = object_key ''search-catalog/'' (pb_savedAt p) uuid"
  have put: "put_immutable E key (search_body p) w = (Inr (), w')"
    and size: "en_size E (search_body p) \<le> max_search_bytes"
    and p': "p' = p\<lparr>pb_searchKey := key, pb_point := Search_written\<rparr>"
    using assms(1)
    by (auto simp: segment_def writing_search_def publication_guard_bind on_store_bind Let_def key_def
        split: sum.splits prod.splits if_splits)
  have h: "holds E w' key (search_body p)" "blobs w \<subseteq>\<^sub>m blobs w'" "ctl w' = ctl w"
    using put_holds[OF put] assms(4) by (simp_all add: moment_ok_def key_def)
  have "search_body p' = search_body p" by (simp add: p' search_body_def)
  moreover have "key \<noteq> []" by (simp add: key_def object_key_def)
  ultimately have "search_stored E w' p'" using h size by (simp add: search_stored_def p')
  moreover have "prepared_ok p'"
    using publishing_okD(6)[OF assms(2)] assms(3) by (simp add: prepared_ok_def p')
  ultimately show ?thesis using assms(2,3) h(3) by (simp add: p' publishing_ok_def)
qed

lemma keeps_writing_checkpoint:
  assumes "segment E P parse encode aborted uuid Writing_checkpoint (w, p) = (Inr x, w', p')"
    and "publishing_ok E hist w p" "pb_point p = Writing_checkpoint" "moment_ok E hist uuid w p"
  shows "publishing_ok E hist w' p' \<and> catalog (ctl w') = catalog (ctl w)"
proof -
  define key where "key = object_key ''collection/'' (pb_savedAt p) uuid"
  have put: "put_immutable E key (checkpoint_body p) w = (Inr (), w')"
    and size: "en_size E (checkpoint_body p) \<le> max_checkpoint_bytes"
    and p': "p' = p\<lparr>pb_pointer := Some (new_pointer E key p), pb_point := Checkpoint_written\<rparr>"
    using assms(1)
    by (auto simp: segment_def writing_checkpoint_def publication_guard_bind on_store_bind Let_def
        key_def split: sum.splits prod.splits if_splits)
  have h: "holds E w' key (checkpoint_body p)" "blobs w \<subseteq>\<^sub>m blobs w'" "ctl w' = ctl w"
    using put_holds[OF put] assms(4) by (simp_all add: moment_ok_def key_def)
  have same: "checkpoint_body p' = checkpoint_body p" "new_pointer E key p' = new_pointer E key p"
    "search_body p' = search_body p"
    by (simp_all add: p' checkpoint_body_def new_pointer_def search_body_def)
  have prep: "prepared_ok p" using publishing_okD(6)[OF assms(2)] assms(3) by simp
  then have "checkpoint_key_ok key"
    using new_checkpoint_key_ok assms(4) by (simp add: prepared_ok_def moment_ok_def key_def)
  then have "checkpoint_stored E w' p'"
    using h size same unfolding checkpoint_stored_def
    by (intro exI[of _ key]) (simp add: p')
  moreover have "search_stored E w' p'"
    using publishing_okD(7)[OF assms(2)] assms(3) holds_mono[OF _ h(2)] same(3)
    by (simp add: search_stored_def p')
  moreover have "prepared_ok p'" using prep by (simp add: prepared_ok_def p')
  ultimately show ?thesis using assms(2,3) h(3) by (simp add: p' publishing_ok_def)
qed

lemma activate_checkpoint_commits:
  assumes "activate_checkpoint E aborted revision p w = (Inr x, w')"
  shows "same_revision ch_revision (catalog (ctl w)) (pb_previous p)"
    and "catalog (ctl w') = Some (next_head E revision p)"
    and "blobs w' = blobs w" "clock w' = clock w"
    and "\<exists>c v. ctl w' = (ctl w)\<lparr>catalog := c, publication := v\<rparr>"
proof -
  obtain w1 where "w1 = w" and
    step: "(if \<not> same_revision ch_revision (catalog (ctl w1)) (pb_previous p)
       then (throw ''Catalog publication changed'', w1)
       else if \<not> owns_attempt (pb_attempt p) (ctl w1)
       then (Inl (Publication_stopped Publication_failed), w1)
       else case fst (publication_guard aborted (w1, p)) of
              Inl e \<Rightarrow> (Inl e, w1)
            | Inr _ \<Rightarrow> (Inr (), w1\<lparr>ctl := (ctl w1)\<lparr>catalog := Some (next_head E revision p),
                publication := Some (attempt_json (completed_attempt (clock w1) p))\<rparr>\<rparr>))
      = (Inr x, w')"
    using assms unfolding activate_checkpoint_def transaction_Inr obind_eq_Inr require_live_def
    by blast
  then have sr: "same_revision ch_revision (catalog (ctl w)) (pb_previous p)"
    and w': "w' = w\<lparr>ctl := (ctl w)\<lparr>catalog := Some (next_head E revision p),
      publication := Some (attempt_json (completed_attempt (clock w) p))\<rparr>\<rparr>"
    by (auto split: if_split_asm sum.split_asm)
  show "same_revision ch_revision (catalog (ctl w)) (pb_previous p)" by (rule sr)
  show "catalog (ctl w') = Some (next_head E revision p)" "blobs w' = blobs w" "clock w' = clock w"
    by (simp_all add: w')
  show "\<exists>c v. ctl w' = (ctl w)\<lparr>catalog := c, publication := v\<rparr>" unfolding w' by auto
qed

lemma keeps_committing:
  assumes "segment E P parse encode aborted uuid Committing (w, p) = (Inr x, w', p')"
    and "publishing_ok E hist w p" "pb_point p = Committing" "moment_ok E hist uuid w p"
  shows "catalog (ctl w') = Some (next_head E uuid p)
    \<and> catalog (ctl w) = pb_previous p
    \<and> publishing_ok E (note_head (catalog (ctl w')) hist) w' p'"
proof -
  have act: "activate_checkpoint E aborted uuid p w = (Inr (), w')"
    and p': "p' = p\<lparr>pb_point := Returned (the (pb_pointer p))\<rparr>"
    using assms(1)
    by (simp_all add: segment_def committing_def on_store_bind split: sum.splits prod.splits)
  note commit = activate_checkpoint_commits[OF act]
  note same = commit(1) and cat = commit(2)
  have prev: "catalog (ctl w) = pb_previous p"
  proof (rule same_revision_eq[OF same])
    fix h h'
    assume h: "catalog (ctl w) = Some h" "pb_previous p = Some h'" "ch_revision h = ch_revision h'"
    have "hist (ch_revision h) = Some h" using assms(4) h(1) unfolding moment_ok_def by blast
    moreover have "hist (ch_revision h') = Some h'" by (rule publishing_okD(2)[OF assms(2) h(2)])
    ultimately show "h = h'" unfolding h(3) by simp
  qed
  obtain key where ptr: "pb_pointer p = Some (new_pointer E key p)"
    using publishing_okD(8)[OF assms(2)] assms(3) by (auto simp: checkpoint_stored_def)
  have new: "hist uuid = None" using assms(4) by (simp add: moment_ok_def)
  have rev: "ch_revision (next_head E uuid p) = uuid"
    "ch_pointer (next_head E uuid p) = new_pointer E key p"
    by (simp_all add: next_head_def ptr)
  have "next_head E uuid p \<in> ran (hist(uuid \<mapsto> next_head E uuid p))" by (auto simp: ran_def)
  moreover have "rep_finishedAt (pb_report p) \<le> ptr_finishedAt (new_pointer E key p)"
    by (simp add: new_pointer_def)
  moreover have "pb_previous p = Some h \<Longrightarrow> (hist(uuid \<mapsto> next_head E uuid p)) (ch_revision h) = Some h"
    for h using publishing_okD(2)[OF assms(2), of h] new by auto
  ultimately have "publishing_ok E (hist(uuid \<mapsto> next_head E uuid p)) w' p'"
    using publishing_okD(1,3)[OF assms(2)] rev(2)
    unfolding publishing_ok_def p' ptr by auto
  then show ?thesis using cat prev rev(1) by (simp add: note_head_def)
qed

text \<open>What a publication may change of the store: the attempt, the head, and new objects.\<close>

definition publication_frame :: "world \<Rightarrow> world \<Rightarrow> bool" where
  "publication_frame w w' \<longleftrightarrow>
     (\<exists>c v. ctl w' = (ctl w)\<lparr>catalog := c, publication := v\<rparr>)
     \<and> blobs w \<subseteq>\<^sub>m blobs w' \<and> clock w' = clock w"

lemma publication_frame_refl: "publication_frame w w"
  unfolding publication_frame_def
  by (simp; rule exI[of _ "catalog (ctl w)"]; rule exI[of _ "publication (ctl w)"]; simp)

lemma publication_frame_attempt:
  assumes "\<exists>v. ctl w' = (ctl w)\<lparr>publication := v\<rparr>" "blobs w' = blobs w" "clock w' = clock w"
  shows "publication_frame w w'"
proof -
  obtain v where "ctl w' = (ctl w)\<lparr>publication := v\<rparr>" using assms(1) by blast
  then have same: "ctl w' = (ctl w)\<lparr>catalog := catalog (ctl w), publication := v\<rparr>" by simp
  have "\<exists>c v. ctl w' = (ctl w)\<lparr>catalog := c, publication := v\<rparr>" by (rule exI, rule exI, rule same)
  then show ?thesis using assms(2,3) unfolding publication_frame_def by simp
qed

lemma publication_frame_put:
  assumes "put_immutable E key b w = (r, w')"
  shows "publication_frame w w'"
  using put_immutable_keeps[OF assms] put_immutable_control[OF assms] publication_frame_refl[of w]
  by (auto simp: publication_frame_def)

lemma publication_frame_records: "records_only (w, p) s' \<Longrightarrow> publication_frame w (fst s')"
  unfolding records_only_def by (auto intro!: publication_frame_attempt)

lemma publication_frame_enter:
  assumes "obind (enter_phase E aborted phase) (\<lambda>_. go_to point) (w, p) = (r, w', p')"
  shows "publication_frame w w'"
  using assms by (rule enter_then) (auto dest: publication_frame_records)

lemma segment_frame:
  assumes "segment E P parse encode aborted uuid point (w, p) = (Inr x, w', p')"
  shows "publication_frame w w'"
proof (cases point)
  case Opening
  then obtain previous where "begin_attempt E (pb_lease p) (pb_attempt p) w = (Inr previous, w')"
    using assms
    by (auto simp: segment_def opening_attempt_def on_store_bind split: sum.splits prod.splits)
  then have "w' = w\<lparr>ctl := (ctl w)\<lparr>publication := Some (attempt_json (pb_attempt p))\<rparr>\<rparr>"
    by (auto simp: begin_attempt_def transaction_Inr obind_eq_Inr require_live_def split: if_splits)
  then show ?thesis by (auto intro!: publication_frame_attempt)
next
  case Deciding
  then have "(\<exists>h. finish_early E h (w, p) = (Inr x, w', p')) \<or> list_sources (w, p) = (Inr x, w', p')"
    using assms
    by (auto simp: segment_def deciding_def publication_guard_bind
        split: sum.splits option.splits if_splits)
  then show ?thesis
    using publication_frame_records finish_early_returns publication_frame_refl
    by (fastforce simp: list_sources_def Let_def)
next
  case Entering_reads
  then show ?thesis using assms by (auto simp: segment_def intro: publication_frame_enter)
next
  case Checking_heads
  then show ?thesis using assms publication_frame_refl
    by (auto simp: segment_def checking_heads_def publication_guard_bind olift_bind
        split: sum.splits if_splits)
next
  case (Reading offset)
  then show ?thesis using assms publication_frame_refl
    by (auto simp: segment_def reading_def publication_guard_bind Let_def
        split: sum.splits if_splits intro: publication_frame_enter)
next
  case (Fetched offset objects)
  then show ?thesis using assms publication_frame_refl
    by (auto simp: segment_def fetched_def publication_guard_bind olift_bind
        split: sum.splits prod.splits)
next
  case Materializing
  then show ?thesis using assms publication_frame_refl
    by (auto simp: segment_def materializing_def publication_guard_bind olift_bind
        split: sum.splits option.splits)
next
  case Materialized
  then show ?thesis using assms
    by (auto simp: segment_def materialized_def publication_guard_bind split: sum.splits
        intro: publication_frame_enter)
next
  case Writing_search
  then show ?thesis using assms
    by (auto simp: segment_def writing_search_def publication_guard_bind Let_def on_store_bind
        split: sum.splits if_splits prod.splits intro: publication_frame_put)
next
  case Search_written
  then show ?thesis using assms
    by (auto simp: segment_def search_written_def publication_guard_bind split: sum.splits
        intro: publication_frame_enter)
next
  case Writing_checkpoint
  then show ?thesis using assms
    by (auto simp: segment_def writing_checkpoint_def publication_guard_bind Let_def on_store_bind
        split: sum.splits if_splits prod.splits intro: publication_frame_put)
next
  case Checkpoint_written
  then show ?thesis using assms
    by (auto simp: segment_def checkpoint_written_def publication_guard_bind split: sum.splits
        intro: publication_frame_enter)
next
  case Activating
  then show ?thesis using assms publication_frame_refl
    by (auto simp: segment_def activating_def publication_guard_bind split: sum.splits)
next
  case Committing
  then have "activate_checkpoint E aborted uuid p w = (Inr (), w')"
    using assms by (simp add: segment_def committing_def on_store_bind split: sum.splits prod.splits)
  from activate_checkpoint_commits(3-5)[OF this] show ?thesis
    unfolding publication_frame_def by simp
qed (use assms publication_frame_refl in \<open>simp_all add: segment_def\<close>)

text \<open>Where the head may change.\<close>

definition head_kept_or_published :: "env \<Rightarrow> jstr \<Rightarrow> world \<Rightarrow> publishing \<Rightarrow> world \<Rightarrow> bool" where
  "head_kept_or_published E uuid w p w' \<longleftrightarrow>
     catalog (ctl w') = catalog (ctl w)
     \<or> (pb_point p = Committing \<and> catalog (ctl w) = pb_previous p
        \<and> catalog (ctl w') = Some (next_head E uuid p))"

lemma segment_keeps:
  assumes "segment E P parse encode aborted uuid (pb_point p) (w, p) = (Inr x, w', p')"
    and "publishing_ok E hist w p" "moment_ok E hist uuid w p"
  shows "publishing_ok E (note_head (catalog (ctl w')) hist) w' p'
    \<and> head_kept_or_published E uuid w p w'"
proof (cases "pb_point p = Committing")
  case True
  have k: "catalog (ctl w') = Some (next_head E uuid p) \<and> catalog (ctl w) = pb_previous p
      \<and> publishing_ok E (note_head (catalog (ctl w')) hist) w' p'"
    using keeps_committing[of E P parse encode aborted uuid w p x w' p' hist] assms
    unfolding True by blast
  then show ?thesis using True unfolding head_kept_or_published_def by blast
next
  case False
  have "publishing_ok E hist w' p' \<and> catalog (ctl w') = catalog (ctl w)"
  proof (cases "pb_point p")
    case Opening
    then show ?thesis using assms keeps_opening by simp
  next
    case Deciding
    then show ?thesis using assms keeps_deciding by simp
  next
    case Entering_reads
    then show ?thesis
      using assms publishing_ok_enter[of E aborted Source_reads Checking_heads "(w, p)" "Inr x" "(w', p')" hist]
      by (simp add: segment_def)
  next
    case Checking_heads
    then show ?thesis using assms keeps_checking_heads by simp
  next
    case (Reading offset)
    then show ?thesis using assms keeps_reading by simp
  next
    case (Fetched offset objects)
    then show ?thesis using assms keeps_fetched by simp
  next
    case Materializing
    then show ?thesis using assms keeps_materializing by simp
  next
    case Materialized
    define p1 where "p1 = p\<lparr>pb_attempt := (pb_attempt p)\<lparr>pa_searchBytes := Some (en_size E (search_body p))\<rparr>\<rparr>"
    have "publishing_ok E hist w p1" using assms(2) by (simp add: p1_def publishing_ok_def)
    moreover have "obind (enter_phase E aborted Write_search) (\<lambda>_. go_to Writing_search) (w, p1)
        = (Inr x, w', p')"
      using assms(1) Materialized
      by (simp add: segment_def materialized_def publication_guard_bind p1_def split: sum.splits)
    moreover have "pb_point p1 = Materialized" by (simp add: p1_def Materialized)
    ultimately show ?thesis
      using publishing_ok_enter[of E aborted Write_search Writing_search "(w, p1)" "Inr x" "(w', p')" hist]
      by simp
  next
    case Writing_search
    then show ?thesis using assms keeps_writing_search by simp
  next
    case Search_written
    define p1 where "p1 = p\<lparr>pb_attempt := (pb_attempt p)\<lparr>pa_checkpointBytes := Some (en_size E (checkpoint_body p))\<rparr>\<rparr>"
    have "publishing_ok E hist w p1" using assms(2) by (simp add: p1_def publishing_ok_def)
    moreover have "obind (enter_phase E aborted Write_checkpoint) (\<lambda>_. go_to Writing_checkpoint) (w, p1)
        = (Inr x, w', p')"
      using assms(1) Search_written
      by (simp add: segment_def search_written_def publication_guard_bind p1_def split: sum.splits)
    moreover have "pb_point p1 = Search_written" by (simp add: p1_def Search_written)
    ultimately show ?thesis
      using publishing_ok_enter[of E aborted Write_checkpoint Writing_checkpoint "(w, p1)" "Inr x" "(w', p')" hist]
      by simp
  next
    case Writing_checkpoint
    then show ?thesis using assms keeps_writing_checkpoint by simp
  next
    case Checkpoint_written
    then show ?thesis
      using assms publishing_ok_enter[of E aborted Activate Activating "(w, p)" "Inr x" "(w', p')" hist]
      by (simp add: segment_def checkpoint_written_def publication_guard_bind split: sum.splits)
  next
    case Activating
    then have "w' = w" "\<exists>a. p' = p\<lparr>pb_attempt := a, pb_point := Committing\<rparr>"
      using assms(1)
      by (auto simp: segment_def activating_def publication_guard_bind split: sum.splits)
    then show ?thesis using assms(2) Activating by (auto simp: publishing_ok_def)
  qed (use False assms in \<open>simp_all add: segment_def\<close>)
  moreover from this have "note_head (catalog (ctl w')) hist = hist"
    using assms(3) by (simp add: moment_ok_def note_head_known)
  ultimately show ?thesis by (simp add: head_kept_or_published_def)
qed

lemma publishing_ok_failed:
  assumes "publishing_ok E hist w p" "failed_from (w, p) (w', p')"
  shows "publishing_ok E hist w' (p'\<lparr>pb_point := Failing e, pb_attempt := a\<rparr>)"
  using assms by (auto simp: publishing_ok_def failed_from_def)

lemma publication_step_keeps:
  assumes "publication_step E P parse encode aborted uuid (w, p) = (w', p')"
    and "publishing_ok E hist w p" "moment_ok E hist uuid w p"
  shows "publishing_ok E (note_head (catalog (ctl w')) hist) w' p'
    \<and> head_kept_or_published E uuid w p w' \<and> publication_frame w w'"
proof (cases "\<exists>e. pb_point p = Failing e")
  case True
  then obtain e where e: "pb_point p = Failing e" by blast
  obtain r s1 where up: "update_attempt E False (w, p) = (r, s1)" by (rule prod.exhaust)
  have rec: "records_only (w, p) s1" by (rule update_attempt_records[OF up])
  have s': "w' = fst s1" "p' = (snd s1)\<lparr>pb_point := Thrown e\<rparr>"
    using assms(1) e up by (cases s1; simp add: publication_step_def failing_def)+
  have "publishing_ok E hist (fst s1) (snd s1)"
    using publishing_ok_records[of E hist "(w, p)"] assms(2) rec by simp
  then have "publishing_ok E hist w' p'" by (simp add: s' publishing_ok_def)
  moreover have "catalog (ctl w') = catalog (ctl w)" using rec s'(1) by (auto simp: records_only_def)
  moreover from this have "note_head (catalog (ctl w')) hist = hist"
    using assms(3) by (simp add: moment_ok_def note_head_known)
  ultimately show ?thesis
    using publication_frame_records[OF rec] s'(1) by (simp add: head_kept_or_published_def)
next
  case False
  obtain r w1 p1 where seg: "segment E P parse encode aborted uuid (pb_point p) (w, p) = (r, w1, p1)"
    by (metis surj_pair)
  have run: "(w', p') = (case r of Inl e \<Rightarrow> handle e aborted (w1, p1) | Inr _ \<Rightarrow> (w1, p1))"
    using assms(1) False seg
    by (auto simp: publication_step_def split: publication_point.splits sum.splits)
  show ?thesis
  proof (cases r)
    case (Inr x)
    then show ?thesis
      using segment_keeps[of E P parse encode aborted uuid p w x w1 p1] segment_frame seg run assms(2,3)
      by simp
  next
    case (Inl e)
    then have fail: "failed_from (w, p) (w1, p1)" using segment_failed seg by simp
    then have kept: "w' = w1" "publication_frame w w1" "catalog (ctl w1) = catalog (ctl w)"
      using run Inl by (auto simp: handle_def failed_from_def intro!: publication_frame_attempt)
    moreover have "publishing_ok E hist w1 p'"
      using run Inl publishing_ok_failed[OF assms(2) fail] by (simp add: handle_def)
    moreover have "note_head (catalog (ctl w1)) hist = hist"
      using assms(3) kept(3) by (simp add: moment_ok_def note_head_known)
    ultimately show ?thesis by (simp add: head_kept_or_published_def)
  qed
qed

end
