(* ===== verification/Storage_System.thy ===== *)
theory Storage_System
  imports Publication_Invariant
begin

text \<open>
  The store with everything that uses it at the same time: requests that take leases and count
  against limits, the import of source pages, the savers of vectors and labels, the activation of
  a pending search, and any number of publications, which advance segment by segment and may stop
  for ever at any point. Each step is one access to the store.
\<close>

section \<open>Steps\<close>

record system =
  sy_world :: world
  sy_runs :: "jstr \<rightharpoonup> publishing"
  sy_imports :: "staged_source list"
  sy_captured :: "(jstr \<times> catalog_head option \<times> vector_head option) list"
  sy_activations :: "(jstr \<times> prepared_activation) list"
  sy_vectors :: "(jstr \<times> vector prepared_save) list"
  sy_labels :: "json prepared_save list"
  sy_history :: history

abbreviation head_of :: "system \<Rightarrow> catalog_head option" where
  "head_of s \<equiv> catalog (ctl (sy_world s))"

text \<open>\<open>crypto.randomUUID\<close> returns a value that was never used.\<close>

definition fresh_uuid :: "system \<Rightarrow> publishing \<Rightarrow> jstr \<Rightarrow> bool" where
  "fresh_uuid s p uuid \<longleftrightarrow>
     attempt_id_ok uuid \<and> sy_history s uuid = None
     \<and> blobs (sy_world s) (object_key ''search-catalog/'' (pb_savedAt p) uuid) = None
     \<and> blobs (sy_world s) (object_key ''collection/'' (pb_savedAt p) uuid) = None"

inductive system_step ::
  "env \<Rightarrow> platform \<Rightarrow> (jstr \<Rightarrow> url_parts option) \<Rightarrow> (event list \<Rightarrow> jstr) \<Rightarrow> system \<Rightarrow> system \<Rightarrow> bool"
  for E P parse encode where
  Time_passes: "clock (sy_world s) \<le> t \<Longrightarrow> four_digit_year t \<Longrightarrow>
     system_step E P parse encode s (s\<lparr>sy_world := (sy_world s)\<lparr>clock := t\<rparr>\<rparr>)"
| Acquire: "acquire_lease E token key ttl (sy_world s) = (r, w) \<Longrightarrow>
     system_step E P parse encode s (s\<lparr>sy_world := w\<rparr>)"
| Release: "release_lease E l (sy_world s) = (r, w) \<Longrightarrow>
     system_step E P parse encode s (s\<lparr>sy_world := w\<rparr>)"
| Count: "consume_limit E key limit expiresAt (sy_world s) = (r, w) \<Longrightarrow>
     system_step E P parse encode s (s\<lparr>sy_world := w\<rparr>)"
| Put_source: "stage_source E page = Inr staged \<Longrightarrow>
     put_immutable E (sh_key (so_head staged)) (so_body staged) (sy_world s) = (Inr (), w) \<Longrightarrow>
     system_step E P parse encode s (s\<lparr>sy_world := w, sy_imports := staged # sy_imports s\<rparr>)"
| Commit_source: "staged \<in> set (sy_imports s) \<Longrightarrow> commit_source E l staged (sy_world s) = (r, w) \<Longrightarrow>
     system_step E P parse encode s (s\<lparr>sy_world := w\<rparr>)"
| Prepare_vectors:
    "prepare_vectors E keyId revisionId cache profile entries l (sy_world s) = (Inr (Some p), w) \<Longrightarrow>
     system_step E P parse encode s (s\<lparr>sy_world := w, sy_vectors := (profile, p) # sy_vectors s\<rparr>)"
| Commit_vectors: "(profile, p) \<in> set (sy_vectors s) \<Longrightarrow>
     commit_vectors E profile l p (sy_world s) = (r, w) \<Longrightarrow>
     system_step E P parse encode s (s\<lparr>sy_world := w\<rparr>)"
| Prepare_labels:
    "prepare_labels E keyId revisionId cache entries l (sy_world s) = (Inr (Some p), w) \<Longrightarrow>
     system_step E P parse encode s (s\<lparr>sy_world := w, sy_labels := p # sy_labels s\<rparr>)"
| Commit_labels: "p \<in> set (sy_labels s) \<Longrightarrow> commit_labels E l p (sy_world s) = (r, w) \<Longrightarrow>
     system_step E P parse encode s (s\<lparr>sy_world := w\<rparr>)"
| Start: "sy_runs s attemptId = None \<Longrightarrow>
     start_publication E attemptId report l deadline revision (clock (sy_world s)) = Inr p \<Longrightarrow>
     system_step E P parse encode s (s\<lparr>sy_runs := (sy_runs s)(attemptId \<mapsto> p)\<rparr>)"
| Publish: "sy_runs s attemptId = Some p \<Longrightarrow> fresh_uuid s p uuid \<Longrightarrow>
     publication_step E P parse encode aborted uuid (sy_world s, p) = (w, p') \<Longrightarrow>
     system_step E P parse encode s (s\<lparr>sy_world := w, sy_runs := (sy_runs s)(attemptId \<mapsto> p'),
       sy_history := note_head (catalog (ctl w)) (sy_history s)\<rparr>)"
| Stop: "system_step E P parse encode s (s\<lparr>sy_runs := (sy_runs s)(attemptId := None)\<rparr>)"
| Capture: "capture_activation E profile l (sy_world s) = (Inr captured, w) \<Longrightarrow>
     system_step E P parse encode s
       (s\<lparr>sy_world := w, sy_captured := (profile, captured) # sy_captured s\<rparr>)"
| Prepare_activation: "(profile, captured) \<in> set (sy_captured s) \<Longrightarrow>
     prepare_activation E searches cache profile captured (sy_world s) = (Inr (Some a), w) \<Longrightarrow>
     system_step E P parse encode s
       (s\<lparr>sy_world := w, sy_activations := (profile, a) # sy_activations s\<rparr>)"
| Activate_pending: "(profile, a) \<in> set (sy_activations s) \<Longrightarrow>
     revision \<noteq> [] \<Longrightarrow> sy_history s revision = None \<Longrightarrow>
     commit_activation E revision profile l a (sy_world s) = (r, w) \<Longrightarrow>
     system_step E P parse encode s
       (s\<lparr>sy_world := w, sy_history := note_head (catalog (ctl w)) (sy_history s)\<rparr>)"

text \<open>A store at rest, before anything runs. An older release may have left a head in it.\<close>

definition started_system :: "world \<Rightarrow> system" where
  "started_system w =
     \<lparr>sy_world = w, sy_runs = Map.empty, sy_imports = [], sy_captured = [], sy_activations = [],
      sy_vectors = [], sy_labels = [], sy_history = note_head (catalog (ctl w)) Map.empty\<rparr>"

inductive reachable ::
  "env \<Rightarrow> platform \<Rightarrow> (jstr \<Rightarrow> url_parts option) \<Rightarrow> (event list \<Rightarrow> jstr) \<Rightarrow> system \<Rightarrow> system \<Rightarrow> bool"
  for E P parse encode start where
  here: "reachable E P parse encode start start"
| further: "reachable E P parse encode start s \<Longrightarrow> system_step E P parse encode s s' \<Longrightarrow>
     reachable E P parse encode start s'"

section \<open>Heads that can be read\<close>

definition head_pointers :: "catalog_head \<Rightarrow> search_pointer list" where
  "head_pointers h = List.map_filter (\<lambda>p. p) [ch_search h, ch_pendingSearch h]"

definition head_readable :: "env \<Rightarrow> world \<Rightarrow> catalog_head \<Rightarrow> bool" where
  "head_readable E w h \<longleftrightarrow>
     catalog_head_ok h \<and> (\<exists>c. load_catalog E w h = Inr (Checkpoint_body c))
     \<and> (\<forall>p \<in> set (head_pointers h). search_pointer_ok p \<and> (\<exists>search. load_search E w p = Inr search))"

lemma load_catalog_mono:
  assumes "load_catalog E w h = Inr b" "blobs w \<subseteq>\<^sub>m blobs w'"
  shows "load_catalog E w' h = Inr b"
proof -
  obtain object where "blobs w (ptr_key (ch_pointer h)) = Some object"
    using assms(1) by (auto simp: load_catalog_def split: option.splits)
  moreover from this have "blobs w' (ptr_key (ch_pointer h)) = Some object"
    using assms(2) unfolding map_le_def by (metis domI)
  ultimately show ?thesis using assms(1) by (simp add: load_catalog_def)
qed

lemma load_search_mono:
  assumes "load_search E w p = Inr b" "blobs w \<subseteq>\<^sub>m blobs w'"
  shows "load_search E w' p = Inr b"
proof -
  obtain object where "blobs w (sp_key p) = Some object"
    using assms(1) by (auto simp: load_search_def split: option.splits)
  moreover from this have "blobs w' (sp_key p) = Some object"
    using assms(2) unfolding map_le_def by (metis domI)
  ultimately show ?thesis using assms(1) by (simp add: load_search_def)
qed

lemma head_readable_mono: "head_readable E w h \<Longrightarrow> blobs w \<subseteq>\<^sub>m blobs w' \<Longrightarrow> head_readable E w' h"
  unfolding head_readable_def using load_catalog_mono load_search_mono by blast

lemma load_catalog_checkpoint:
  assumes "load_catalog E w h = Inr b"
  obtains c where "b = Checkpoint_body c" "checkpoint_matches (ch_pointer h) c"
proof -
  obtain object where o': "blobs w (ptr_key (ch_pointer h)) = Some object"
    using assms by (auto simp: load_catalog_def split: option.splits)
  note r = assms[unfolded load_catalog_def o' option.case]
  show thesis
  proof (cases "bl_body object")
    case (Checkpoint_body c)
    have "b = Checkpoint_body c \<and> checkpoint_matches (ch_pointer h) c"
      using r unfolding Checkpoint_body body.case by (simp split: if_splits)
    then show ?thesis using that by blast
  qed (use r in \<open>simp_all split: if_splits\<close>)
qed

text \<open>The head that a publication puts live is readable.\<close>

lemma next_head_readable:
  assumes "publishing_ok E hist w p" "pb_point p = Committing" "env_ok E" "attempt_id_ok uuid"
  shows "head_readable E w (next_head E uuid p)"
proof -
  note ok = publishing_okD[OF assms(1), unfolded assms(2), simplified]
  obtain key where ptr: "pb_pointer p = Some (new_pointer E key p)"
    and held: "holds E w key (checkpoint_body p)" and key: "checkpoint_key_ok key"
    and size: "en_size E (checkpoint_body p) \<le> max_checkpoint_bytes"
    using ok(8) by (auto simp: checkpoint_stored_def)
  have hex: "is_hex64 (en_digest E b)" and pos: "0 < en_size E b" for b
    using assms(3) by (auto simp: env_ok_def)
  have "uuid \<noteq> []" using assms(4) by (auto simp: attempt_id_ok_def)
  moreover have "pointer_ok (new_pointer E key p)"
    using ok(1,6) key size pos
    by (simp add: pointer_ok_def new_pointer_def report_ok_def prepared_ok_def saved_at_ok_def)
  ultimately have "catalog_head_ok (next_head E uuid p)"
    using hex by (simp add: catalog_head_ok_def next_head_def ptr parse_pointer_json)
  moreover have "load_catalog E w (next_head E uuid p) = Inr (checkpoint_body p)"
    using held size ok(5)
    by (simp add: load_catalog_def next_head_def ptr new_pointer_def holds_def checkpoint_body_def
        checkpoint_matches_def)
  moreover obtain search where cat: "pb_catalog p = Some search"
    "date_parse (sc_materializedAt search) \<noteq> None"
    using ok(6) by (auto simp: prepared_ok_def)
  moreover have "search_pointer_ok x \<and> load_search E w x = Inr search"
    if "x \<in> set (head_pointers (next_head E uuid p))" for x
    using that ok(7) hex pos[of "search_body p"] cat
    by (auto simp: head_pointers_def next_head_def map_filter_simps search_stored_def holds_def
        search_pointer_ok_def load_search_def search_body_def)
  ultimately show ?thesis
    unfolding head_readable_def checkpoint_body_def by blast
qed

section \<open>The invariant of the system\<close>

definition finished_at :: "catalog_head \<Rightarrow> jstr" where
  "finished_at h = ptr_finishedAt (ch_pointer h)"

definition activation_ok :: "history \<Rightarrow> prepared_activation \<Rightarrow> bool" where
  "activation_ok hist a \<longleftrightarrow>
     (\<exists>h. ac_head a = Some h \<and> hist (ch_revision h) = Some h \<and> ch_pendingSearch h = Some (ac_pending a))"

text \<open>
  Every head that was ever live is known by its revision and can still be read; the head that is
  live is the newest of them.
\<close>

definition history_ok :: "env \<Rightarrow> system \<Rightarrow> bool" where
  "history_ok E s \<longleftrightarrow>
     (\<forall>h. head_of s = Some h \<longrightarrow> sy_history s (ch_revision h) = Some h)
     \<and> (\<forall>r h. sy_history s r = Some h \<longrightarrow> ch_revision h = r \<and> head_readable E (sy_world s) h
          \<and> (\<exists>live. head_of s = Some live \<and> finished_at h \<le> finished_at live))"

definition waiting_ok :: "system \<Rightarrow> bool" where
  "waiting_ok s \<longleftrightarrow>
     (\<forall>(profile, captured) \<in> set (sy_captured s).
        \<forall>h. fst captured = Some h \<longrightarrow> sy_history s (ch_revision h) = Some h)
     \<and> (\<forall>(profile, a) \<in> set (sy_activations s). activation_ok (sy_history s) a)
     \<and> (\<forall>staged \<in> set (sy_imports s). so_checked staged \<le> sh_checkedAt (so_head staged))"

definition runs_ok :: "env \<Rightarrow> system \<Rightarrow> bool" where
  "runs_ok E s \<longleftrightarrow> (\<forall>p \<in> ran (sy_runs s). publishing_ok E (sy_history s) (sy_world s) p)"

definition system_ok :: "env \<Rightarrow> system \<Rightarrow> bool" where
  "system_ok E s \<longleftrightarrow>
     four_digit_year (clock (sy_world s)) \<and> history_ok E s \<and> waiting_ok s \<and> runs_ok E s"

definition start_ok :: "env \<Rightarrow> world \<Rightarrow> bool" where
  "start_ok E w \<longleftrightarrow>
     four_digit_year (clock w) \<and> (case catalog (ctl w) of None \<Rightarrow> True | Some h \<Rightarrow> head_readable E w h)"

lemma started_system_ok: "start_ok E w \<Longrightarrow> system_ok E (started_system w)"
  by (auto simp: system_ok_def start_ok_def started_system_def history_ok_def waiting_ok_def runs_ok_def
      note_head_def split: option.splits if_splits)

text \<open>No source disappears, and none goes back to an older page.\<close>

definition sources_advance :: "control \<Rightarrow> control \<Rightarrow> bool" where
  "sources_advance c c' \<longleftrightarrow>
     (\<forall>path h. get_source path c = Some h \<longrightarrow>
        (\<exists>h'. get_source path c' = Some h' \<and> sh_checkedAt h \<le> sh_checkedAt h'))"

lemma sources_advance_same: "sources c' = sources c \<Longrightarrow> sources_advance c c'"
  by (simp add: sources_advance_def get_source_def)

lemma sources_advance_trans:
  assumes "sources_advance c c1" "sources_advance c1 c2"
  shows "sources_advance c c2"
  using assms unfolding sources_advance_def by (meson order_trans)

text \<open>An access that neither touches the head nor takes an object or a source away.\<close>

definition quiet :: "world \<Rightarrow> world \<Rightarrow> bool" where
  "quiet w w' \<longleftrightarrow>
     catalog (ctl w') = catalog (ctl w) \<and> blobs w \<subseteq>\<^sub>m blobs w' \<and> clock w' = clock w
     \<and> sources_advance (ctl w) (ctl w')"

lemma quiet_refl [simp]: "quiet w w"
  by (simp add: quiet_def sources_advance_same)

lemma quiet_trans: "quiet w w1 \<Longrightarrow> quiet w1 w2 \<Longrightarrow> quiet w w2"
  unfolding quiet_def using map_le_trans sources_advance_trans by auto

text \<open>The one place where such an access meets the invariant.\<close>

lemma system_ok_quiet:
  assumes "system_ok E s" "quiet (sy_world s) w"
  shows "system_ok E (s\<lparr>sy_world := w\<rparr>)"
proof -
  have "history_ok E (s\<lparr>sy_world := w\<rparr>)"
    using assms head_readable_mono[of E "sy_world s" _ w]
    unfolding system_ok_def history_ok_def quiet_def by auto
  moreover have "runs_ok E (s\<lparr>sy_world := w\<rparr>)"
    using assms publishing_ok_mono[of E "sy_history s" "sy_world s" _ w "sy_history s"]
    unfolding system_ok_def runs_ok_def quiet_def by auto
  ultimately show ?thesis using assms unfolding system_ok_def waiting_ok_def quiet_def by simp
qed

text \<open>Operations that are such accesses, whatever they answer.\<close>

definition quiet_op :: "(world, 'a) op \<Rightarrow> bool" where
  "quiet_op f \<longleftrightarrow> (\<forall>w r w'. f w = (r, w') \<longrightarrow> quiet w w')"

lemma quiet_opD: "quiet_op f \<Longrightarrow> f w = (r, w') \<Longrightarrow> quiet w w'"
  unfolding quiet_op_def by blast

lemma quiet_op_read: "quiet_op (\<lambda>w. (g w, w))"
  by (simp add: quiet_op_def)

lemma quiet_op_simple [simp]: "quiet_op (oreturn x)" "quiet_op (olift y)" "quiet_op (require_live l path)"
  by (simp_all add: quiet_op_def require_live_def)

lemma quiet_op_bind:
  assumes "quiet_op f" "\<And>x. quiet_op (g x)"
  shows "quiet_op (obind f g)"
  unfolding quiet_op_def
proof (intro allI impI)
  fix w r w'
  assume a: "obind f g w = (r, w')"
  obtain r1 w1 where f: "f w = (r1, w1)" by (rule prod.exhaust)
  have q: "quiet w w1" by (rule quiet_opD[OF assms(1) f])
  show "quiet w w'"
  proof (cases r1)
    case (Inl e)
    then show ?thesis using a f q by (simp add: obind_def)
  next
    case (Inr x)
    then have "g x w1 = (r, w')" using a f by (simp add: obind_def)
    then show ?thesis using quiet_opD[OF assms(2)] quiet_trans[OF q] by blast
  qed
qed

lemma quiet_op_transaction: "quiet_op f \<Longrightarrow> quiet_op (transaction f)"
  by (auto simp: quiet_op_def transaction_def split: sum.splits prod.splits)

lemma quiet_op_if: "quiet_op f \<Longrightarrow> quiet_op g \<Longrightarrow> quiet_op (if b then f else g)"
  by simp

lemma quiet_op_put: "quiet_op (put_immutable E key b)"
  using put_immutable_keeps put_immutable_control sources_advance_same
  unfolding quiet_op_def quiet_def by fastforce

lemmas quiet_ops = quiet_op_bind quiet_op_transaction quiet_op_if quiet_op_put quiet_op_read

lemma quiet_control:
  assumes "catalog c = catalog (ctl w)" "sources c = sources (ctl w)"
  shows "quiet w (w\<lparr>ctl := c\<rparr>)"
  using assms by (simp add: quiet_def sources_advance_same)

lemma quiet_acquire: "quiet_op (acquire_lease E token key ttl)"
  unfolding quiet_op_def
proof (intro allI impI)
  fix w r w'
  assume a: "acquire_lease E token key ttl w = (r, w')"
  show "quiet w w'"
    using acquire_lease_Some(2)[of E token key ttl w _ w'] acquire_lease_other[OF a] a
    by (cases "\<exists>l. r = Inr (Some l)") (auto simp: set_lease_def intro!: quiet_control)
qed

lemma quiet_release: "quiet_op (release_lease E l)"
  by (auto simp: quiet_op_def release_lease_result delete_lease_def intro!: quiet_control
      split: option.splits)

lemma quiet_count: "quiet_op (consume_limit E key limit expiresAt)"
  unfolding quiet_op_def
proof (intro allI impI)
  fix w r w'
  assume a: "consume_limit E key limit expiresAt w = (r, w')"
  show "quiet w w'"
    using consume_limit_True(4)[of E key limit expiresAt w w'] consume_limit_not_True[OF a] a
    by (cases "r = Inr True") (auto simp: set_limit_def intro!: quiet_control)
qed

lemma quiet_commits:
  "quiet_op (commit_vectors E profile l p)" "quiet_op (commit_labels E l p')"
  unfolding commit_vectors_def commit_labels_def Let_def
  by (intro quiet_ops quiet_op_simple;
      auto simp: quiet_op_def set_vector_head_def set_label_head_def intro: quiet_control
        split: if_splits)+

text \<open>The check of the commit keeps the newer page; the first and last time of a page are in order.\<close>

lemma set_source_advances:
  assumes "\<not> supersedes (get_source (so_path staged) c) staged"
    and "so_checked staged \<le> sh_checkedAt (so_head staged)"
  shows "sources_advance c (set_source (so_path staged) (so_head staged) c)"
  unfolding sources_advance_def
proof (intro allI impI)
  fix path h
  assume h: "get_source path c = Some h"
  show "\<exists>h'. get_source path (set_source (so_path staged) (so_head staged) c) = Some h'
      \<and> sh_checkedAt h \<le> sh_checkedAt h'"
  proof (cases "path = so_path staged")
    case False
    then show ?thesis using h by simp
  next
    case True
    have "sh_checkedAt h \<le> so_checked staged"
      using assms(1) h True by (cases "sh_checkedAt h") (auto simp: supersedes_def not_less)
    then show ?thesis using True assms(2) order_trans by auto
  qed
qed

lemma quiet_commit_source:
  assumes "so_checked staged \<le> sh_checkedAt (so_head staged)"
  shows "quiet_op (commit_source E l staged)"
  unfolding commit_source_def
  by (intro quiet_ops quiet_op_simple)
     (use set_source_advances[OF _ assms] in \<open>auto simp: quiet_op_def quiet_def set_source_def sources_advance_same\<close>)

lemma staged_order:
  assumes "stage_source E page = Inr staged"
  shows "so_checked staged \<le> sh_checkedAt (so_head staged)"
proof -
  obtain latest kind where t: "source_page_times page = Inr (so_checked staged, latest, kind)"
    and latest: "sh_checkedAt (so_head staged) = latest"
    using assms by (auto simp: stage_source_def rbind_eq_Inr Let_def split: if_splits)
  show ?thesis
  proof (cases "kind = Active_source")
    case True
    then obtain e where "e \<in> set (pg_events page)"
      using page_times_cases[OF t] by (cases "pg_events page") auto
    then show ?thesis using page_times_active[OF t] latest by fastforce
  next
    case False
    then show ?thesis using page_times_cases[OF t] latest by simp
  qed
qed

lemma quiet_prepare_vectors: "quiet_op (prepare_vectors E keyId revisionId cache profile entries l)"
  unfolding prepare_vectors_def Let_def by (intro quiet_ops quiet_op_simple)

lemma quiet_prepare_labels: "quiet_op (prepare_labels E keyId revisionId cache entries l)"
  unfolding prepare_labels_def Let_def by (intro quiet_ops quiet_op_simple)

lemma capture_activation_result:
  assumes "capture_activation E profile l w = (Inr captured, w')"
  shows "w' = w" "fst captured = catalog (ctl w)"
  using assms
  by (auto simp: capture_activation_def obind_eq_Inr olift_def transaction_Inr require_live_def
      split: if_splits)

lemma prepare_activation_result:
  assumes "prepare_activation E searches cache profile captured w = (Inr (Some a), w')"
  shows "w' = w" "\<exists>h. fst captured = Some h \<and> ac_head a = Some h \<and> ch_pendingSearch h = Some (ac_pending a)"
proof -
  show "w' = w" using assms by (simp add: prepare_activation_def)
  obtain pending where p: "Option.bind (fst captured) ch_pendingSearch = Some pending"
    using assms by (auto simp: prepare_activation_def split: option.splits)
  then obtain h where "fst captured = Some h" "ch_pendingSearch h = Some pending"
    by (cases "fst captured") auto
  then show "\<exists>h. fst captured = Some h \<and> ac_head a = Some h \<and> ch_pendingSearch h = Some (ac_pending a)"
    using assms
    by (auto simp: prepare_activation_def p rbind_eq_Inr Let_def split: option.splits if_splits)
qed

lemma commit_activation_result:
  assumes "commit_activation E revision profile l a w = (r, w')"
  shows "w' = w \<or> (same_revision ch_revision (catalog (ctl w)) (ac_head a)
    \<and> w' = w\<lparr>ctl := set_catalog (activated_head revision (ac_pending a) (the (catalog (ctl w)))) (ctl w)\<rparr>)"
proof (cases r)
  case (Inl e)
  then show ?thesis using assms unfolding commit_activation_def by (auto dest: transaction_abort)
next
  case (Inr x)
  then show ?thesis using assms
    by (auto simp: commit_activation_def transaction_Inr obind_eq_Inr require_live_def
        split: if_splits)
qed

text \<open>A pending search of a readable head is readable, and so is the head that activates it.\<close>

lemma activated_head_readable:
  assumes "head_readable E w h" "ch_pendingSearch h = Some pending" "revision \<noteq> []"
  shows "head_readable E w (activated_head revision pending h)"
proof -
  have same: "ch_pointer (activated_head revision pending h) = ch_pointer h"
    "ch_hash (activated_head revision pending h) = ch_hash h"
    by (simp_all add: activated_head_def)
  have "load_catalog E w (activated_head revision pending h) = load_catalog E w h"
    unfolding load_catalog_def same ..
  moreover have "pending \<in> set (head_pointers h)"
    using assms(2) by (auto simp: head_pointers_def map_filter_simps split: option.split)
  moreover have "head_pointers (activated_head revision pending h) = [pending]"
    by (simp add: head_pointers_def map_filter_simps activated_head_def)
  ultimately show ?thesis
    using assms(1,3) by (simp add: head_readable_def catalog_head_ok_def activated_head_def)
qed

section \<open>Every step keeps the invariant\<close>

lemma system_ok_clock:
  assumes "system_ok E s" "four_digit_year t"
  shows "system_ok E (s\<lparr>sy_world := (sy_world s)\<lparr>clock := t\<rparr>\<rparr>)"
proof -
  have "head_readable E ((sy_world s)\<lparr>clock := t\<rparr>) h" if "head_readable E (sy_world s) h" for h
    using head_readable_mono[OF that] by simp
  moreover have "publishing_ok E hist ((sy_world s)\<lparr>clock := t\<rparr>) p"
    if "publishing_ok E hist (sy_world s) p" for hist p
    using publishing_ok_mono[OF that] by simp
  ultimately show ?thesis
    using assms unfolding system_ok_def history_ok_def waiting_ok_def runs_ok_def by simp
qed

lemma system_ok_run:
  assumes "system_ok E s" "publishing_ok E (sy_history s) (sy_world s) p"
  shows "system_ok E (s\<lparr>sy_runs := (sy_runs s)(i \<mapsto> p)\<rparr>)"
  using assms
  by (auto simp: system_ok_def history_ok_def waiting_ok_def runs_ok_def ran_def)

lemma system_ok_stop: "system_ok E s \<Longrightarrow> system_ok E (s\<lparr>sy_runs := (sy_runs s)(i := None)\<rparr>)"
  by (auto simp: system_ok_def history_ok_def waiting_ok_def runs_ok_def ran_def)

lemma waiting_ok_mono:
  assumes "waiting_ok s" "\<And>r x. sy_history s r = Some x \<Longrightarrow> hist r = Some x"
  shows "waiting_ok (s\<lparr>sy_world := w, sy_history := hist\<rparr>)"
proof -
  have "activation_ok (sy_history s) a \<Longrightarrow> activation_ok hist a" for a
    using assms(2) unfolding activation_ok_def by blast
  moreover have "(\<forall>(profile, captured) \<in> set (sy_captured s).
      \<forall>h. fst captured = Some h \<longrightarrow> hist (ch_revision h) = Some h)"
    using assms unfolding waiting_ok_def by fast
  ultimately show ?thesis using assms(1) unfolding waiting_ok_def by auto
qed

text \<open>A new head, newer than the one it replaces and readable.\<close>

lemma system_ok_new_head:
  assumes ok: "system_ok E s" and blobs: "blobs (sy_world s) \<subseteq>\<^sub>m blobs w" and "clock w = clock (sy_world s)"
    and head: "catalog (ctl w) = Some h" and fresh: "sy_history s (ch_revision h) = None"
    and readable: "head_readable E w h"
    and newer: "\<And>live. head_of s = Some live \<Longrightarrow> finished_at live \<le> finished_at h"
  shows "system_ok E (s\<lparr>sy_world := w, sy_history := note_head (catalog (ctl w)) (sy_history s)\<rparr>)"
proof -
  let ?hist = "(sy_history s)(ch_revision h \<mapsto> h)"
  have grow: "sy_history s \<subseteq>\<^sub>m ?hist" using fresh by (auto simp: map_le_def dom_def)
  have keep: "sy_history s r = Some x \<Longrightarrow> ?hist r = Some x" for r x
    using grow unfolding map_le_def by (metis domI)
  have "ch_revision x = r \<and> head_readable E w x \<and> finished_at x \<le> finished_at h"
    if "?hist r = Some x" for r x
  proof (cases "r = ch_revision h")
    case True
    then show ?thesis using that readable by simp
  next
    case False
    then have "sy_history s r = Some x" using that by simp
    then obtain live where "ch_revision x = r" "head_readable E (sy_world s) x"
      "head_of s = Some live" "finished_at x \<le> finished_at live"
      using ok unfolding system_ok_def history_ok_def by blast
    then show ?thesis using newer head_readable_mono[OF _ blobs] by (meson order_trans)
  qed
  note all = this
  have history: "history_ok E (s\<lparr>sy_world := w, sy_history := ?hist\<rparr>)"
    unfolding history_ok_def
  proof (intro conjI allI impI)
    let ?s = "s\<lparr>sy_world := w, sy_history := ?hist\<rparr>"
    fix x assume "head_of ?s = Some x"
    then have "x = h" using head by simp
    then show "sy_history ?s (ch_revision x) = Some x" by simp
  next
    let ?s = "s\<lparr>sy_world := w, sy_history := ?hist\<rparr>"
    fix r x assume "sy_history ?s r = Some x"
    then have "?hist r = Some x" by (simp del: fun_upd_apply)
    note x = all[OF this]
    show "ch_revision x = r" "head_readable E (sy_world ?s) x" using x by simp_all
    show "\<exists>live. head_of ?s = Some live \<and> finished_at x \<le> finished_at live" using x head by simp
  qed
  have waiting: "waiting_ok (s\<lparr>sy_world := w, sy_history := ?hist\<rparr>)"
  proof (rule waiting_ok_mono)
    show "waiting_ok s" using ok by (simp add: system_ok_def)
    show "?hist r = Some x" if "sy_history s r = Some x" for r x by (rule keep[OF that])
  qed
  have runs: "runs_ok E (s\<lparr>sy_world := w, sy_history := ?hist\<rparr>)"
    unfolding runs_ok_def
  proof
    fix p assume "p \<in> ran (sy_runs (s\<lparr>sy_world := w, sy_history := ?hist\<rparr>))"
    then have "publishing_ok E (sy_history s) (sy_world s) p"
      using ok unfolding system_ok_def runs_ok_def by simp
    from publishing_ok_mono[OF this blobs grow]
    show "publishing_ok E (sy_history (s\<lparr>sy_world := w, sy_history := ?hist\<rparr>))
        (sy_world (s\<lparr>sy_world := w, sy_history := ?hist\<rparr>)) p" by simp
  qed
  have clock: "four_digit_year (clock w)" using ok assms(3) by (simp add: system_ok_def)
  have noted: "note_head (catalog (ctl w)) (sy_history s) = ?hist" by (simp add: note_head_def head)
  show ?thesis unfolding noted system_ok_def using history waiting runs clock by simp
qed

lemma start_publication_ok:
  assumes "start_publication E attemptId report l deadline revision now = Inr p"
  shows "publishing_ok E hist w p"
proof -
  obtain rep where rep: "parse_collection_report
      (JObj [(u ''schemaVersion'', jint 1), (u ''report'', report)]) now = Inr rep"
    and p: "pb_report p = rep" "pb_previous p = None" "pb_selected p = []" "pb_point p = Opening"
    using assms by (auto simp: start_publication_def rbind_eq_Inr)
  have "report_ok rep" using rep unfolding parse_report_iff report_ok_def by simp
  then show ?thesis by (simp add: publishing_ok_def p max_checkpoint_events_def)
qed

text \<open>A step forward: the published head and every source are at least as new as before.\<close>

definition advances :: "system \<Rightarrow> system \<Rightarrow> bool" where
  "advances s s' \<longleftrightarrow>
     (\<forall>h. head_of s = Some h \<longrightarrow>
        (\<exists>h'. head_of s' = Some h' \<and> finished_at h \<le> finished_at h'))
     \<and> sources_advance (ctl (sy_world s)) (ctl (sy_world s'))"

lemma advances_quiet: "quiet (sy_world s) (sy_world s') \<Longrightarrow> advances s s'"
  by (simp add: advances_def quiet_def)

lemma advances_trans:
  assumes "advances s s1" "advances s1 s2"
  shows "advances s s2"
proof -
  have "\<exists>h'. head_of s2 = Some h' \<and> finished_at h \<le> finished_at h'" if "head_of s = Some h" for h
    using assms that unfolding advances_def by (meson order_trans)
  then show ?thesis
    using assms sources_advance_trans unfolding advances_def by blast
qed

lemma publication_frame_quiet:
  assumes "publication_frame w w'" "catalog (ctl w') = catalog (ctl w)"
  shows "quiet w w'"
  using assms by (auto simp: publication_frame_def quiet_def intro: sources_advance_same)

lemma publication_frame_sources: "publication_frame w w' \<Longrightarrow> sources_advance (ctl w) (ctl w')"
  by (auto simp: publication_frame_def intro: sources_advance_same)

lemma publish_step_ok:
  assumes ok: "system_ok E s" and env: "env_ok E" and run: "sy_runs s i = Some p"
    and fresh: "fresh_uuid s p uuid"
    and step: "publication_step E P parse encode aborted uuid (sy_world s, p) = (w, p')"
  defines "s' \<equiv> s\<lparr>sy_world := w, sy_runs := (sy_runs s)(i \<mapsto> p'),
    sy_history := note_head (catalog (ctl w)) (sy_history s)\<rparr>"
  shows "system_ok E s' \<and> advances s s'"
proof -
  define s1 where "s1 = s\<lparr>sy_world := w, sy_history := note_head (catalog (ctl w)) (sy_history s)\<rparr>"
  have p: "publishing_ok E (sy_history s) (sy_world s) p"
    using ok run unfolding system_ok_def runs_ok_def by (auto simp: ran_def)
  have known: "head_of s = Some h \<Longrightarrow> sy_history s (ch_revision h) = Some h" for h
    using ok unfolding system_ok_def history_ok_def by blast
  then have moment: "moment_ok E (sy_history s) uuid (sy_world s) p"
    using fresh ok unfolding moment_ok_def fresh_uuid_def system_ok_def by blast
  have kept: "publishing_ok E (note_head (catalog (ctl w)) (sy_history s)) w p'"
    "head_kept_or_published E uuid (sy_world s) p w" "publication_frame (sy_world s) w"
    using publication_step_keeps[OF step p moment] by blast+
  have "system_ok E s1 \<and> advances s s1"
    using kept(2) unfolding head_kept_or_published_def
  proof
    assume same: "catalog (ctl w) = head_of s"
    then have "note_head (catalog (ctl w)) (sy_history s) = sy_history s"
      using note_head_known known by metis
    then have s1: "s1 = s\<lparr>sy_world := w\<rparr>" by (simp add: s1_def)
    have "quiet (sy_world s) w" by (rule publication_frame_quiet[OF kept(3) same])
    then show ?thesis
      using system_ok_quiet[OF ok] advances_quiet[of s s1] by (simp add: s1)
  next
    assume a: "pb_point p = Committing \<and> head_of s = pb_previous p
      \<and> catalog (ctl w) = Some (next_head E uuid p)"
    have uuid: "attempt_id_ok uuid" "sy_history s uuid = None"
      using fresh by (auto simp: fresh_uuid_def)
    have frame: "blobs (sy_world s) \<subseteq>\<^sub>m blobs w" "clock w = clock (sy_world s)"
      using kept(3) by (auto simp: publication_frame_def)
    have newer: "finished_at live \<le> finished_at (next_head E uuid p)" if "head_of s = Some live" for live
    proof -
      have "\<not> already_published E (pb_report p) live"
        using publishing_okD(4)[OF p] a that by simp
      then have "ptr_finishedAt (ch_pointer live) \<le> rep_finishedAt (pb_report p)"
        by (simp add: already_published_def not_less)
      moreover obtain key where "pb_pointer p = Some (new_pointer E key p)"
        using publishing_okD(8)[OF p] a by (auto simp: checkpoint_stored_def)
      ultimately show ?thesis by (simp add: finished_at_def next_head_def new_pointer_def)
    qed
    have "system_ok E s1"
      unfolding s1_def
    proof (rule system_ok_new_head[OF ok frame, of "next_head E uuid p"])
      show "catalog (ctl w) = Some (next_head E uuid p)" using a by simp
      show "sy_history s (ch_revision (next_head E uuid p)) = None"
        using uuid(2) by (simp add: next_head_def)
      show "head_readable E w (next_head E uuid p)"
        using head_readable_mono[OF next_head_readable[OF p _ env uuid(1)] frame(1)] a by simp
    qed (rule newer)
    moreover have "advances s s1"
      using newer a publication_frame_sources[OF kept(3)] by (simp add: advances_def s1_def)
    ultimately show ?thesis by simp
  qed
  moreover have "s' = s1\<lparr>sy_runs := (sy_runs s1)(i \<mapsto> p')\<rparr>" by (simp add: s'_def s1_def)
  ultimately show ?thesis
    using system_ok_run[of E s1 p' i] kept(1) by (simp add: s1_def advances_def)
qed

lemma activate_step_ok:
  assumes ok: "system_ok E s" and a: "(profile, a) \<in> set (sy_activations s)"
    and rev: "revision \<noteq> []" "sy_history s revision = None"
    and step: "commit_activation E revision profile l a (sy_world s) = (r, w)"
  defines "s' \<equiv> s\<lparr>sy_world := w, sy_history := note_head (catalog (ctl w)) (sy_history s)\<rparr>"
  shows "system_ok E s' \<and> advances s s'"
proof -
  have known: "head_of s = Some h \<Longrightarrow> sy_history s (ch_revision h) = Some h" for h
    using ok unfolding system_ok_def history_ok_def by blast
  show ?thesis
    using commit_activation_result[OF step]
  proof
    assume w: "w = sy_world s"
    then have "note_head (catalog (ctl w)) (sy_history s) = sy_history s"
      using note_head_known known by metis
    then have "s' = s" by (simp add: s'_def w)
    then show ?thesis using ok advances_quiet[of s s] by simp
  next
    assume c: "same_revision ch_revision (head_of s) (ac_head a)
      \<and> w = (sy_world s)\<lparr>ctl := set_catalog (activated_head revision (ac_pending a) (the (head_of s)))
              (ctl (sy_world s))\<rparr>"
    have "activation_ok (sy_history s) a"
      using ok a unfolding system_ok_def waiting_ok_def by blast
    then obtain h where h: "ac_head a = Some h" "sy_history s (ch_revision h) = Some h"
      "ch_pendingSearch h = Some (ac_pending a)"
      unfolding activation_ok_def by blast
    obtain live where l: "head_of s = Some live" "ch_revision live = ch_revision h"
      using c h(1) by (auto simp: same_revision_def)
    have "Some live = Some h" using known[OF l(1)] unfolding l(2) h(2) by (rule sym)
    then have live: "head_of s = Some h" using l(1) by simp
    let ?new = "activated_head revision (ac_pending a) h"
    have w: "w = (sy_world s)\<lparr>ctl := set_catalog ?new (ctl (sy_world s))\<rparr>" using c live by simp
    have "head_readable E (sy_world s) h"
      using ok h(2) unfolding system_ok_def history_ok_def by blast
    then have readable: "head_readable E w ?new"
      using activated_head_readable[OF _ h(3) rev(1)] head_readable_mono w by fastforce
    have fin: "finished_at ?new = finished_at h" by (simp add: finished_at_def activated_head_def)
    have head: "catalog (ctl w) = Some ?new" "blobs w = blobs (sy_world s)" "clock w = clock (sy_world s)"
      by (simp_all add: w set_catalog_def)
    have "system_ok E s'"
      unfolding s'_def
    proof (rule system_ok_new_head[OF ok _ _ head(1)])
      show "sy_history s (ch_revision ?new) = None" using rev(2) by (simp add: activated_head_def)
    qed (use head readable fin live in simp_all)
    moreover have "sources_advance (ctl (sy_world s)) (ctl w)"
      by (rule sources_advance_same) (simp add: w set_catalog_def)
    then have "advances s s'" using live head(1) fin by (simp add: advances_def s'_def)
    ultimately show ?thesis by simp
  qed
qed

text \<open>Growing the lists of waiting work.\<close>

lemma system_ok_lists:
  "system_ok E (s\<lparr>sy_vectors := x\<rparr>) = system_ok E s"
  "system_ok E (s\<lparr>sy_labels := y\<rparr>) = system_ok E s"
  by (simp_all add: system_ok_def history_ok_def waiting_ok_def runs_ok_def)

lemma system_ok_waiting:
  assumes "system_ok E s"
  shows "so_checked staged \<le> sh_checkedAt (so_head staged) \<Longrightarrow>
      system_ok E (s\<lparr>sy_imports := staged # sy_imports s\<rparr>)"
    and "(\<And>h. fst captured = Some h \<Longrightarrow> sy_history s (ch_revision h) = Some h) \<Longrightarrow>
      system_ok E (s\<lparr>sy_captured := (profile, captured) # sy_captured s\<rparr>)"
    and "activation_ok (sy_history s) a \<Longrightarrow>
      system_ok E (s\<lparr>sy_activations := (profile, a) # sy_activations s\<rparr>)"
  using assms by (auto simp: system_ok_def history_ok_def waiting_ok_def runs_ok_def)

lemma quiet_step_ok:
  assumes "system_ok E s" "quiet (sy_world s) w"
  shows "system_ok E (s\<lparr>sy_world := w\<rparr>) \<and> advances s (s\<lparr>sy_world := w\<rparr>)"
  using system_ok_quiet[OF assms] advances_quiet[of s "s\<lparr>sy_world := w\<rparr>"] assms(2) by simp

lemma advances_same_world: "sy_world s' = sy_world s1 \<Longrightarrow> advances s s1 \<Longrightarrow> advances s s'"
  by (simp add: advances_def)

lemma system_step_ok:
  assumes "system_step E P parse encode s s'" and "env_ok E" and ok: "system_ok E s"
  shows "system_ok E s' \<and> advances s s'"
  using assms(1)
proof cases
  case (Time_passes t)
  then show ?thesis
    using system_ok_clock[OF ok] by (auto simp: advances_def sources_advance_same)
next
  case (Acquire token key ttl r w)
  then show ?thesis using quiet_step_ok[OF ok quiet_opD[OF quiet_acquire]] by simp
next
  case (Release l r w)
  then show ?thesis using quiet_step_ok[OF ok quiet_opD[OF quiet_release]] by simp
next
  case (Count key limit expiresAt r w)
  then show ?thesis using quiet_step_ok[OF ok quiet_opD[OF quiet_count]] by simp
next
  case (Put_source page staged w)
  have "quiet (sy_world s) w" using quiet_opD[OF quiet_op_put Put_source(3)] .
  note step = quiet_step_ok[OF ok this]
  have "so_checked staged \<le> sh_checkedAt (so_head staged)" by (rule staged_order[OF Put_source(2)])
  then show ?thesis
    using system_ok_waiting(1)[of E "s\<lparr>sy_world := w\<rparr>" staged] step Put_source(1)
    by (simp add: advances_def)
next
  case (Commit_source staged l r w)
  have "so_checked staged \<le> sh_checkedAt (so_head staged)"
    using ok Commit_source(2) unfolding system_ok_def waiting_ok_def by blast
  then show ?thesis
    using quiet_step_ok[OF ok quiet_opD[OF quiet_commit_source Commit_source(3)]] Commit_source(1)
    by simp
next
  case (Prepare_vectors keyId revisionId cache profile entries l p w)
  note step = quiet_step_ok[OF ok quiet_opD[OF quiet_prepare_vectors Prepare_vectors(2)]]
  then show ?thesis
    using Prepare_vectors(1) by (simp add: system_ok_lists advances_def)
next
  case (Commit_vectors profile p l r w)
  then show ?thesis using quiet_step_ok[OF ok quiet_opD[OF quiet_commits(1)]] by simp
next
  case (Prepare_labels keyId revisionId cache entries l p w)
  note step = quiet_step_ok[OF ok quiet_opD[OF quiet_prepare_labels Prepare_labels(2)]]
  then show ?thesis
    using Prepare_labels(1) by (simp add: system_ok_lists advances_def)
next
  case (Commit_labels p l r w)
  then show ?thesis using quiet_step_ok[OF ok quiet_opD[OF quiet_commits(2)]] by simp
next
  case (Start attemptId report l deadline revision p)
  then show ?thesis
    using system_ok_run[OF ok start_publication_ok[OF Start(3)]]
    by (simp add: advances_def sources_advance_same)
next
  case (Publish attemptId p uuid aborted w p')
  then show ?thesis using publish_step_ok[OF ok assms(2)] by simp
next
  case (Stop attemptId)
  then show ?thesis using system_ok_stop[OF ok] by (simp add: advances_def sources_advance_same)
next
  case (Capture profile l captured w)
  note c = capture_activation_result[OF Capture(2)]
  have "fst captured = Some h \<Longrightarrow> sy_history s (ch_revision h) = Some h" for h
    using ok c(2) unfolding system_ok_def history_ok_def by simp
  then show ?thesis
    using system_ok_waiting(2)[OF ok, of captured profile] c(1) Capture(1)
    by (simp add: advances_def sources_advance_same)
next
  case (Prepare_activation profile captured searches cache a w)
  note a = prepare_activation_result[OF Prepare_activation(3)]
  have "activation_ok (sy_history s) a"
    using a(2) ok Prepare_activation(2)
    unfolding system_ok_def waiting_ok_def activation_ok_def by fastforce
  then show ?thesis
    using system_ok_waiting(3)[OF ok, of a profile] a(1) Prepare_activation(1)
    by (simp add: advances_def sources_advance_same)
next
  case (Activate_pending profile a revision l r w)
  then show ?thesis using activate_step_ok[OF ok] by simp
qed

lemma reachable_ok:
  assumes "reachable E P parse encode s s'" and "env_ok E" "system_ok E s"
  shows "system_ok E s' \<and> advances s s'"
  using assms(1)
proof induction
  case here
  then show ?case using assms(3) advances_quiet[of s s] by simp
next
  case (further s1 s2)
  then show ?case using system_step_ok assms(2) advances_trans by blast
qed

end
