(* ===== verification/Publication_Properties.thy ===== *)
theory Publication_Properties
  imports Storage_System Store_Properties
begin

text \<open>
  What a publication promises to everybody who reads the store while it runs: what is published
  can be read, what was published is not replaced by something older, a publication that returns
  has published, and it always ends. The statements quantify over all interleavings of the steps
  of the theory Storage_System, or over all schedules of the theory Publication.
\<close>

section \<open>A published store to try the properties on\<close>

definition sample_search :: search_catalog where
  "sample_search = \<lparr>sc_materializedAt = u ''1970-01-01T00:00:00.000Z'', sc_sourceStatus = [],
     sc_groups = []\<rparr>"

definition sample_checkpoint :: checkpoint where
  "sample_checkpoint = \<lparr>cp_savedAt = ptr_savedAt sample_pointer, cp_events = replicate 5 blank_event,
     cp_report = \<lparr>rep_finishedAt = ptr_finishedAt sample_pointer,
                  rep_summary = ptr_summary sample_pointer\<rparr>\<rparr>"

definition sample_head :: catalog_head where
  "sample_head = \<lparr>ch_revision = u ''r'', ch_hash = replicate 64 48, ch_pointer = sample_pointer,
     ch_search = Some \<lparr>sp_key = u ''s'', sp_hash = replicate 64 48, sp_bytes = 10, sp_profile = None,
                       sp_dimensions = None, sp_checkpoint = None\<rparr>,
     ch_pendingSearch = None\<rparr>"

definition published_world :: world where
  "published_world = empty_world\<lparr>
     ctl := (set_lease (lease_path sample_env (u ''sync_lock'')) (sample_lease ''sync_lock'')
              (ctl empty_world))\<lparr>catalog := Some sample_head\<rparr>,
     blobs := [ptr_key sample_pointer \<mapsto> \<lparr>bl_body = Checkpoint_body sample_checkpoint, bl_bytes = 10\<rparr>,
               u ''s'' \<mapsto> \<lparr>bl_body = Search_body sample_search, bl_bytes = 10\<rparr>]\<rparr>"

lemma sample_env_ok: "env_ok sample_env"
  by (simp add: env_ok_def sample_env_def is_hex64_def is_hex_unit_def is_digit_unit_def list_all_iff)

lemma sample_pointer_ok: "pointer_ok sample_pointer"
  by (simp add: pointer_ok_def sample_pointer_def max_checkpoint_bytes_def) code_simp

lemma epoch_year: "four_digit_year 0"
  by code_simp

lemma epoch_parses: "date_parse (u ''1970-01-01T00:00:00.000Z'') = Some 0"
  by code_simp

lemma sample_head_readable: "head_readable sample_env published_world sample_head"
proof -
  have blobs: "blobs published_world (ptr_key sample_pointer)
      = Some \<lparr>bl_body = Checkpoint_body sample_checkpoint, bl_bytes = 10\<rparr>"
    "blobs published_world (u ''s'') = Some \<lparr>bl_body = Search_body sample_search, bl_bytes = 10\<rparr>"
    by (simp_all add: published_world_def sample_pointer_def)
  have hex: "is_hex64 (replicate 64 48)"
    by (simp add: is_hex64_def is_hex_unit_def is_digit_unit_def list_all_iff)
  have "catalog_head_ok sample_head"
    using hex sample_pointer_ok by (simp add: catalog_head_ok_def sample_head_def parse_pointer_json)
  moreover have "load_catalog sample_env published_world sample_head = Inr (Checkpoint_body sample_checkpoint)"
    using blobs(1)
    by (simp add: load_catalog_def sample_head_def sample_env_def sample_checkpoint_def
        checkpoint_matches_def max_checkpoint_events_def max_checkpoint_bytes_def)
       (simp add: sample_pointer_def)
  moreover have "search_pointer_ok p \<and> load_search sample_env published_world p = Inr sample_search"
    if "p \<in> set (head_pointers sample_head)" for p
    using that blobs(2) hex epoch_parses
    by (simp add: head_pointers_def map_filter_simps sample_head_def search_pointer_ok_def
        max_search_bytes_def load_search_def sample_env_def sample_search_def)
  ultimately show ?thesis unfolding head_readable_def by blast
qed

lemma published_start_ok: "start_ok sample_env published_world"
proof -
  have "clock published_world = 0" "catalog (ctl published_world) = Some sample_head"
    by (simp_all add: published_world_def empty_world_def)
  then show ?thesis using sample_head_readable epoch_year by (simp add: start_ok_def)
qed

section \<open>Reading what is published\<close>

text \<open>
  C2: whatever runs at the same time, the published checkpoint can always be read and is the one
  its pointer describes, and so can every search catalog that the head names; a store that starts
  without a publication reports none until there is one.
\<close>

theorem published_catalog_readable:
  assumes "env_ok E" "start_ok E w" "reachable E P parse encode (started_system w) s"
  shows "case head_of s of
      None \<Rightarrow> fst (read_checkpoint E (sy_world s) None) = Inr None
    | Some h \<Rightarrow>
        (\<exists>c. fst (read_checkpoint E (sy_world s) None) = Inr (Some (Checkpoint_body c))
           \<and> checkpoint_matches (ch_pointer h) c)
        \<and> list_all (\<lambda>p. \<exists>search. fst (read_search E (sy_world s) [] (Some p)) = Inr (Some search))
            (head_pointers h)"
proof (cases "head_of s")
  case None
  then show ?thesis by (simp add: read_checkpoint_def read_catalog_head_def read_catalog_def)
next
  case (Some h)
  have "head_readable E (sy_world s) h"
    using reachable_ok[OF assms(3,1) started_system_ok[OF assms(2)]] Some
    unfolding system_ok_def history_ok_def by blast
  then obtain c where h: "catalog_head_ok h" "load_catalog E (sy_world s) h = Inr (Checkpoint_body c)"
    "\<forall>p \<in> set (head_pointers h). search_pointer_ok p \<and> (\<exists>search. load_search E (sy_world s) p = Inr search)"
    unfolding head_readable_def by blast
  have "fst (read_checkpoint E (sy_world s) None) = Inr (Some (Checkpoint_body c))"
    using h(1,2) Some by (simp add: read_checkpoint_def read_catalog_head_def read_catalog_def)
  moreover have "checkpoint_matches (ch_pointer h) c"
    using h(2) by (rule load_catalog_checkpoint) simp
  moreover have "\<exists>search. fst (read_search E (sy_world s) [] (Some p)) = Inr (Some search)"
    if "p \<in> set (head_pointers h)" for p
    using h(3) that by (auto simp: read_search_def)
  ultimately show ?thesis by (simp add: Some list_all_iff)
qed

theorem published_catalog_readable_witness:
  "\<exists>s c. reachable sample_env turkish_platform (\<lambda>_. None) (\<lambda>_. []) (started_system published_world) s
     \<and> clock (sy_world s) = 5
     \<and> fst (read_checkpoint sample_env (sy_world s) None) = Inr (Some (Checkpoint_body c))
     \<and> length (cp_events c) = 5"
proof -
  let ?s = "started_system published_world"
  let ?s' = "?s\<lparr>sy_world := (sy_world ?s)\<lparr>clock := 5\<rparr>\<rparr>"
  have "four_digit_year 5" by code_simp
  then have step: "reachable sample_env turkish_platform (\<lambda>_. None) (\<lambda>_. []) ?s ?s'"
    by (intro further[OF here] Time_passes) (simp_all add: started_system_def published_world_def empty_world_def)
  have head: "head_of ?s' = Some sample_head"
    by (simp add: started_system_def published_world_def)
  obtain c where "fst (read_checkpoint sample_env (sy_world ?s') None) = Inr (Some (Checkpoint_body c))"
    "checkpoint_matches sample_pointer c"
    using published_catalog_readable[OF sample_env_ok published_start_ok step] unfolding head
    by (auto simp: sample_head_def)
  moreover have "clock (sy_world ?s') = 5" by simp
  ultimately show ?thesis
    using step by (intro exI[of _ ?s'] exI[of _ c]) (simp add: checkpoint_matches_def sample_pointer_def)
qed

text \<open>
  C3: between any two moments the published checkpoint never becomes older, by the time its
  collection finished, and no source page is replaced by an older one or disappears.
\<close>

theorem published_never_goes_back:
  assumes "env_ok E" "start_ok E w" "reachable E P parse encode (started_system w) s"
    and "reachable E P parse encode s s'"
  shows "(case head_of s of
        None \<Rightarrow> True
      | Some h \<Rightarrow> (case head_of s' of
          None \<Rightarrow> False | Some h' \<Rightarrow> ptr_finishedAt (ch_pointer h) \<le> ptr_finishedAt (ch_pointer h')))
    \<and> (case get_source path (ctl (sy_world s)) of
        None \<Rightarrow> True
      | Some h \<Rightarrow> (case get_source path (ctl (sy_world s')) of
          None \<Rightarrow> False | Some h' \<Rightarrow> sh_checkedAt h \<le> sh_checkedAt h'))"
proof -
  have "system_ok E s"
    using reachable_ok[OF assms(3,1) started_system_ok[OF assms(2)]] by blast
  then have a: "advances s s'" using reachable_ok[OF assms(4,1)] by blast
  have "case head_of s of None \<Rightarrow> True | Some h \<Rightarrow> (case head_of s' of
      None \<Rightarrow> False | Some h' \<Rightarrow> ptr_finishedAt (ch_pointer h) \<le> ptr_finishedAt (ch_pointer h'))"
    using a by (cases "head_of s") (auto simp: advances_def finished_at_def)
  moreover have "case get_source path (ctl (sy_world s)) of None \<Rightarrow> True | Some h \<Rightarrow>
      (case get_source path (ctl (sy_world s')) of
         None \<Rightarrow> False | Some h' \<Rightarrow> sh_checkedAt h \<le> sh_checkedAt h')"
    using a by (cases "get_source path (ctl (sy_world s))") (fastforce simp: advances_def sources_advance_def)+
  ultimately show ?thesis by blast
qed

theorem published_never_goes_back_witness:
  "\<exists>s h. reachable sample_env turkish_platform (\<lambda>_. None) (\<lambda>_. []) (started_system published_world) s
     \<and> clock (sy_world s) = 5 \<and> head_of s = Some h
     \<and> ptr_finishedAt sample_pointer \<le> ptr_finishedAt (ch_pointer h)"
proof -
  let ?s = "started_system published_world"
  let ?s' = "?s\<lparr>sy_world := (sy_world ?s)\<lparr>clock := 5\<rparr>\<rparr>"
  have "four_digit_year 5" by code_simp
  then have step: "reachable sample_env turkish_platform (\<lambda>_. None) (\<lambda>_. []) ?s ?s'"
    by (intro further[OF here] Time_passes) (simp_all add: started_system_def published_world_def empty_world_def)
  have head: "head_of ?s = Some sample_head" "clock (sy_world ?s') = 5"
    by (simp_all add: started_system_def published_world_def)
  obtain h where "head_of ?s' = Some h" "ptr_finishedAt (ch_pointer sample_head) \<le> ptr_finishedAt (ch_pointer h)"
    using published_never_goes_back[OF sample_env_ok published_start_ok here step, where path = "[]"]
    unfolding head(1) by (auto split: option.splits)
  then show ?thesis using step head(2)
    by (intro exI[of _ ?s'] exI[of _ h]) (simp add: sample_head_def)
qed

section \<open>What a returned publication means\<close>

text \<open>
  C6: a publication that returned is visible: its pointer is that of a head that went live, and
  the head that is live is not older than its report, in every later state.
\<close>

theorem returned_publication_visible:
  assumes "env_ok E" "start_ok E w" "reachable E P parse encode (started_system w) s"
    and "sy_runs s i = Some p" "pb_point p = Returned ptr"
  shows "ptr \<in> ch_pointer ` ran (sy_history s)
    \<and> (case head_of s of None \<Rightarrow> False
       | Some h \<Rightarrow> rep_finishedAt (pb_report p) \<le> ptr_finishedAt (ch_pointer h))"
proof -
  have ok: "system_ok E s" using reachable_ok[OF assms(3,1) started_system_ok[OF assms(2)]] by blast
  have "publishing_ok E (sy_history s) (sy_world s) p"
    using ok assms(4) unfolding system_ok_def runs_ok_def by (auto simp: ran_def)
  then obtain h where h: "h \<in> ran (sy_history s)" "ch_pointer h = ptr"
    "rep_finishedAt (pb_report p) \<le> ptr_finishedAt ptr"
    using assms(5) unfolding publishing_ok_def by blast
  then obtain r where "sy_history s r = Some h" by (auto simp: ran_def)
  then obtain live where "head_of s = Some live" "finished_at h \<le> finished_at live"
    using ok unfolding system_ok_def history_ok_def by blast
  then show ?thesis using h by (auto simp: finished_at_def)
qed

definition sample_id :: jstr where
  "sample_id = u ''00000000-0000-4000-8000-000000000000''"

definition sample_report :: json where
  "sample_report = JObj [(u ''finishedAt'', JStr (u ''1970-01-01T00:00:00.000Z'')),
     (u ''summary'', JObj [(u ''events'', jint 0), (u ''available'', jint 0),
        (u ''refreshedPages'', jint 1)])]"

definition sample_publication :: publishing where
  "sample_publication =
     (case start_publication sample_env sample_id sample_report (sample_lease ''sync_lock'') None None 0
      of Inr p \<Rightarrow> p)"

lemma sample_publication_starts:
  "start_publication sample_env sample_id sample_report (sample_lease ''sync_lock'') None None 0
     = Inr sample_publication"
  "pb_point sample_publication = Opening" "pb_lease sample_publication = sample_lease ''sync_lock''"
  "rep_finishedAt (pb_report sample_publication) = u ''1970-01-01T00:00:00.000Z''"
  "pb_deadline sample_publication = None" "pb_savedAt sample_publication = []"
  "pa_attemptId (pb_attempt sample_publication) = sample_id"
proof -
  define summary where "summary = jget sample_report ''summary''"
  have iso: "canonical_iso (u ''1970-01-01T00:00:00.000Z'')" by code_simp
  have "parse_collection_report
      (JObj [(u ''schemaVersion'', jint 1), (u ''report'', sample_report)]) 0
      = Inr \<lparr>rep_finishedAt = u ''1970-01-01T00:00:00.000Z'', rep_summary = summary\<rparr>"
    unfolding parse_report_iff using iso
    by (simp add: sample_report_def summary_def epoch_parses)
  moreover have "to_iso 0 = Some (iso_string 0)" by (simp add: to_iso_def max_time_def)
  ultimately obtain p where p: "start_publication sample_env sample_id sample_report
      (sample_lease ''sync_lock'') None None 0 = Inr p"
    "pb_point p = Opening" "pb_lease p = sample_lease ''sync_lock''"
    "rep_finishedAt (pb_report p) = u ''1970-01-01T00:00:00.000Z''" "pb_deadline p = None"
    "pb_savedAt p = []" "pa_attemptId (pb_attempt p) = sample_id"
    by (simp add: start_publication_def require_lease_kind_def sample_lease_def iso_or_throw_def)
  have "sample_publication = p" by (simp add: sample_publication_def p(1))
  then show "start_publication sample_env sample_id sample_report (sample_lease ''sync_lock'') None None 0
     = Inr sample_publication"
    "pb_point sample_publication = Opening" "pb_lease sample_publication = sample_lease ''sync_lock''"
    "rep_finishedAt (pb_report sample_publication) = u ''1970-01-01T00:00:00.000Z''"
    "pb_deadline sample_publication = None" "pb_savedAt sample_publication = []"
    "pa_attemptId (pb_attempt sample_publication) = sample_id"
    using p by simp_all
qed

section \<open>A publication always ends\<close>

text \<open>
  C7: a publication ends, by returning or by throwing, within 5015 segments, whatever other
  requests do to the store in between, whenever the caller aborts, and however many sources there
  are: more than 20000 are refused.
\<close>

theorem publication_always_ends:
  assumes "start_publication E attemptId report l deadline revision now = Inr p"
    and "5015 \<le> length schedule"
  shows "finished (snd (run_publication E P parse encode schedule (w, p)))"
proof (rule run_publication_ends)
  have "pb_point p = Opening" using assms(1) by (auto simp: start_publication_def rbind_eq_Inr)
  then show "segments_left (snd (w, p)) \<le> length schedule"
    using assms(2) by (simp add: segments_left_def)
qed

theorem publication_always_ends_witness:
  "finished (snd (run_publication sample_env turkish_platform (\<lambda>_. None) (\<lambda>_. [])
      (replicate 5015 (\<lambda>w. w\<lparr>clock := clock w + 1\<rparr>, False, sample_id))
      (published_world, sample_publication)))
   \<and> \<not> finished sample_publication"
  using publication_always_ends[OF sample_publication_starts(1),
      of "replicate 5015 (\<lambda>w. w\<lparr>clock := clock w + 1\<rparr>, False, sample_id)"]
    sample_publication_starts(2)
  by (simp add: finished_def)

text \<open>
  C9: the diagnostic record is read back exactly as it was written when it is well formed, and
  is reported as missing otherwise, such as when a publication ran for more than a day.
\<close>

theorem attempt_record_roundtrip:
  "read_publication_attempt (attempt_json a) = (if attempt_ok a then Some a else None)"
  by (rule publication_attempt_json)

section \<open>What a checkpoint holds\<close>

text \<open>
  C8: from the pages that were read, the checkpoint takes one copy of every event identity, no
  copy on any page is newer than the one taken, nothing is made up, and the summed size and the
  number of events stay within the limits.
\<close>

theorem newest_copy_selected:
  assumes "rfold (select_page E P parse) objects ([], 2) = Inr (selected, n)"
  shows "distinct (map ev_id (selected_events E selected))
    \<and> set (selected_events E selected) \<subseteq> set (concat (map staged_events objects))
    \<and> list_all (\<lambda>e. list_ex (\<lambda>e'. ev_id e' = ev_id e \<and> ev_checkedAt e \<le> ev_checkedAt e')
                      (selected_events E selected)) (concat (map staged_events objects))
    \<and> n \<le> max_checkpoint_bytes \<and> int (length (selected_events E selected)) \<le> max_checkpoint_events"
proof -
  have ok: "selection_ok E (concat (map staged_events objects)) (selected, n)"
    using select_pages_ok[OF assms selection_start] by (simp add: max_checkpoint_bytes_def)
  have entry: "k = ev_id e \<and> e \<in> set (concat (map staged_events objects))"
    if "(k, e, sz) \<in> set selected" for k e sz
    using ok that unfolding selection_ok_def by fastforce
  have "ev_id (fst (snd x)) = fst x" if "x \<in> set selected" for x
    using entry[of "fst x" "fst (snd x)" "snd (snd x)"] that by simp
  then have "map ev_id (map fst (vals selected)) = keys selected" by (simp add: comp_def)
  moreover have "distinct (keys selected)" using ok by (simp add: selection_ok_def)
  ultimately have "distinct (map ev_id (selected_events E selected))"
    unfolding selected_events_def using distinct_map_sort_by by metis
  moreover have "set (selected_events E selected) \<subseteq> set (concat (map staged_events objects))"
  proof
    fix e assume "e \<in> set (selected_events E selected)"
    then obtain k sz where "(k, e, sz) \<in> set selected" by (auto simp: selected_events_def)
    then show "e \<in> set (concat (map staged_events objects))" using entry by blast
  qed
  moreover have "list_ex (\<lambda>e'. ev_id e' = ev_id e \<and> ev_checkedAt e \<le> ev_checkedAt e')
      (selected_events E selected)" if mem: "e \<in> set (concat (map staged_events objects))" for e
  proof -
    obtain e' sz where e': "map_of selected (ev_id e) = Some (e', sz)" "ev_checkedAt e \<le> ev_checkedAt e'"
      using selection_covers[OF ok mem] by blast
    have "(ev_id e, e', sz) \<in> set selected" using e'(1) by (rule map_of_SomeD)
    moreover from this have "ev_id e = ev_id e'" using entry by blast
    moreover have "e' \<in> set (selected_events E selected)"
      using calculation(1) by (force simp: selected_events_def)
    ultimately have "ev_id e' = ev_id e" "e' \<in> set (selected_events E selected)" by simp_all
    then show ?thesis using e'(2) by (auto simp: list_ex_iff)
  qed
  ultimately show ?thesis
    using ok by (simp add: selection_ok_def list_all_iff selected_events_def)
qed

definition sample_page :: source_page where
  "sample_page = \<lparr>pg_url = u ''x'', pg_events = [blank_event\<lparr>ev_id := u ''a'', ev_url := u ''x''\<rparr>,
       blank_event\<lparr>ev_id := u ''b'', ev_url := u ''x''\<rparr>],
     pg_retiredAt = None, pg_quarantinedAt = None, pg_quarantineReason = None\<rparr>"

definition sample_objects :: "(source_head \<times> blob option) list" where
  "sample_objects = [(\<lparr>sh_url = u ''x'', sh_key = u ''k'', sh_hash = replicate 64 48, sh_checkedAt = [],
       sh_events = 2, sh_kind = None\<rparr>, Some \<lparr>bl_body = Page_body sample_page, bl_bytes = 10\<rparr>)]"

theorem newest_copy_selected_witness:
  "\<exists>selected. rfold (select_page sample_env turkish_platform (\<lambda>_. None)) sample_objects ([], 2) = Inr (selected, 24)
     \<and> length (selected_events sample_env selected) = 2
     \<and> distinct (map ev_id (selected_events sample_env selected))"
proof -
  have "source_page_times sample_page = Inr ([], [], Active_source)"
    by (simp add: source_page_times_def sample_page_def blank_event_def)
  then obtain selected where
    s: "rfold (select_page sample_env turkish_platform (\<lambda>_. None)) sample_objects ([], 2) = Inr (selected, 24)"
      "length selected = 2"
    by (simp add: sample_objects_def select_page_def max_source_bytes_def)
       (simp add: sample_env_def sample_page_def select_event_def blank_event_def
         max_checkpoint_events_def max_checkpoint_bytes_def)
  then show ?thesis using newest_copy_selected[OF s(1)] by (auto simp: selected_events_def)
qed

lemma unfinished_publication_steps:
  assumes "publication_step E P parse encode aborted uuid (sy_world s, p) = (w, p')"
    and "sy_runs s i = Some p" "fresh_uuid s p uuid" "reachable E P parse encode start s"
  shows "reachable E P parse encode start (s\<lparr>sy_world := w, sy_runs := (sy_runs s)(i \<mapsto> p'),
      sy_history := note_head (catalog (ctl w)) (sy_history s)\<rparr>)"
  using further[OF assms(4)] Publish[OF assms(2,3,1)] by blast

lemma sample_publication_returns:
  "\<exists>s p. reachable sample_env P parse encode (started_system published_world) s
     \<and> sy_runs s sample_id = Some p \<and> pb_point p = Returned sample_pointer
     \<and> pb_report p = pb_report sample_publication"
proof -
  let ?p = "sample_publication" and ?E = sample_env
  define s0 where "s0 = (started_system published_world)\<lparr>sy_runs := [sample_id \<mapsto> ?p]\<rparr>"
  have r0: "reachable ?E P parse encode (started_system published_world) s0"
  proof -
    have "clock (sy_world (started_system published_world)) = 0"
      by (simp add: started_system_def published_world_def empty_world_def)
    then have "system_step ?E P parse encode (started_system published_world) s0"
      using Start[of "started_system published_world" sample_id ?E sample_report
          "sample_lease ''sync_lock''" None None ?p] sample_publication_starts(1)
      by (simp add: s0_def started_system_def)
    then show ?thesis by (rule further[OF here])
  qed
  have id: "attempt_id_ok sample_id" by (simp add: sample_id_def) code_simp
  have fresh: "fresh_uuid s p sample_id"
    if "sy_history s = [u ''r'' \<mapsto> sample_head]" "blobs (sy_world s) = blobs published_world"
      "pb_savedAt p = []" for s p
  proof -
    have "object_key ''search-catalog/'' [] sample_id \<notin> {u ''collection/a.json'', u ''s''}"
      "object_key ''collection/'' [] sample_id \<notin> {u ''collection/a.json'', u ''s''}"
      "sample_id \<noteq> u ''r''"
      by (simp_all add: object_key_def sample_id_def u_def cu_def)
    then show ?thesis
      using that id by (simp add: fresh_uuid_def published_world_def sample_pointer_def)
  qed
  have hist: "sy_history s0 = [u ''r'' \<mapsto> sample_head]" "sy_world s0 = published_world"
    "sy_runs s0 sample_id = Some ?p"
    by (simp_all add: s0_def started_system_def published_world_def note_head_def sample_head_def)
  have live: "live_lease 0 (ctl published_world) (sample_lease ''sync_lock'')
      (lease_path ?E (ls_key (sample_lease ''sync_lock'')))"
    by (simp add: live_lease_def get_lease_def set_lease_def published_world_def sample_lease_def
        empty_world_def)
  define a where "a = pb_attempt ?p"
  define w1 where "w1 = published_world\<lparr>ctl := (ctl published_world)\<lparr>publication := Some (attempt_json a)\<rparr>\<rparr>"
  define p1 where "p1 = ?p\<lparr>pb_previous := Some sample_head, pb_point := Deciding\<rparr>"
  have world: "clock published_world = 0" "catalog (ctl published_world) = Some sample_head"
    by (simp_all add: published_world_def empty_world_def)
  have begun: "begin_attempt ?E (sample_lease ''sync_lock'') a published_world = (Inr (Some sample_head), w1)"
    using live world by (simp add: begin_attempt_def transaction_def obind_def require_live_def w1_def)
  have step1: "publication_step ?E P parse encode False sample_id (sy_world s0, ?p) = (w1, p1)"
    using begun
    by (simp add: hist publication_step_def segment_def sample_publication_starts opening_attempt_def
        on_store_bind p1_def a_def)
  define s1 where "s1 = s0\<lparr>sy_world := w1, sy_runs := (sy_runs s0)(sample_id \<mapsto> p1),
      sy_history := note_head (catalog (ctl w1)) (sy_history s0)\<rparr>"
  have r1: "reachable ?E P parse encode (started_system published_world) s1"
    unfolding s1_def
    by (rule unfinished_publication_steps[OF step1 hist(3) fresh r0])
       (simp_all add: hist sample_publication_starts)
  have at1: "sy_world s1 = w1" "sy_runs s1 sample_id = Some p1" "sy_history s1 = [u ''r'' \<mapsto> sample_head]"
    "blobs w1 = blobs published_world" "clock w1 = 0" "catalog (ctl w1) = Some sample_head"
    "pb_savedAt p1 = []" "pb_point p1 = Deciding" "pb_previous p1 = Some sample_head"
    "pb_deadline p1 = None" "pb_report p1 = pb_report ?p" "pb_lease p1 = sample_lease ''sync_lock''"
    "pa_attemptId (pb_attempt p1) = sample_id"
    using world
    by (simp_all add: s1_def w1_def p1_def hist note_head_def sample_head_def sample_publication_starts)
  have live1: "live_lease 0 (ctl w1) (sample_lease ''sync_lock'')
      (lease_path ?E (ls_key (sample_lease ''sync_lock'')))"
    using live by (simp add: w1_def live_lease_def get_lease_def)
  have own: "pa_attemptId b = sample_id \<Longrightarrow> owns_attempt b (ctl w1)" for b
    by (simp add: owns_attempt_def w1_def attempt_json_fields a_def sample_publication_starts)
  have old: "u ''1970-01-01T00:00:00.000Z'' < ptr_finishedAt sample_pointer"
    by (simp add: sample_pointer_def) code_simp
  have early: "already_published ?E (pb_report p1) sample_head"
    using old by (simp add: already_published_def at1 sample_publication_starts sample_head_def)
  have stored: "\<exists>w2. write_attempt ?E True (sample_lease ''sync_lock'') b w1 = (Inr (), w2)"
    if "pa_attemptId b = sample_id" for b
    using live1 own[OF that]
    by (simp add: write_attempt_def transaction_def obind_def require_live_def at1)
  obtain w2 p2 where ended: "finish_early ?E sample_head (w1, p1) = (Inr (), w2, p2)"
    and p2: "pb_point p2 = Returned sample_pointer" "pb_report p2 = pb_report ?p"
    using stored[of "(pb_attempt p1)\<lparr>pa_phase := Complete,
        pa_phaseStartedElapsedMs := Some (max 0 (clock w1 - pb_started p1)),
        pa_events := ptr_events (ch_pointer sample_head),
        pa_checkpointBytes := Some (ptr_bytes (ch_pointer sample_head)), pa_outcome := Succeeded,
        pa_elapsedMs := max 0 (clock w1 - pb_started p1)\<rparr>"]
    by (auto simp: finish_early_def update_attempt_def obind_def on_store_def at1 sample_head_def)
  have step2: "publication_step ?E P parse encode False sample_id (sy_world s1, p1) = (w2, p2)"
    using early ended
    by (simp add: at1 publication_step_def segment_def deciding_def publication_guard_bind
        publication_guard_def)
  show ?thesis
    using unfinished_publication_steps[OF step2 at1(2) fresh r1] p2 at1
    by (intro exI[of _ "s1\<lparr>sy_world := w2, sy_runs := (sy_runs s1)(sample_id \<mapsto> p2),
      sy_history := note_head (catalog (ctl w2)) (sy_history s1)\<rparr>"] exI[of _ p2]) simp
qed

theorem returned_publication_visible_witness:
  "\<exists>s p h. reachable sample_env turkish_platform (\<lambda>_. None) (\<lambda>_. []) (started_system published_world) s
     \<and> sy_runs s sample_id = Some p \<and> pb_point p = Returned sample_pointer
     \<and> head_of s = Some h \<and> rep_finishedAt (pb_report p) \<le> ptr_finishedAt (ch_pointer h)"
proof -
  obtain s p where s: "reachable sample_env turkish_platform (\<lambda>_. None) (\<lambda>_. []) (started_system published_world) s"
    "sy_runs s sample_id = Some p" "pb_point p = Returned sample_pointer"
    using sample_publication_returns by blast
  from returned_publication_visible[OF sample_env_ok published_start_ok s] s
  show ?thesis by (auto split: option.splits)
qed

end
