(* ===== verification/Plans.thy ===== *)
theory Plans
  imports Eligibility
begin

text \<open>
  The typed plan of a search, \<open>web/parser/contract.ts\<close>, and its pure reducer
  \<open>web/parser/state.ts\<close>: the condition tree with its limits, the operations of a turn, and
  \<open>applyOperations\<close>. Numbers are finite (rationals); the keys of the tables are the data types.
\<close>

section \<open>The plan\<close>

datatype budget_basis = Per_person | Per_ticket | Group_total
datatype comparison = Less | Less_equal | Greater | Greater_equal | Approximate
datatype plan_category =
    Concert | Theatre | Standup | Workshop | Exhibition | Festival | Sport | Cinema | Talk | Dance
  | Show | Course | Tour | Museum
datatype plan_order = Order_none | Order_soonest | Order_cheapest | Order_nearest
datatype place_precision = District_place | Neighborhood_place | Side_place
datatype mood = Calm | Intimate
datatype companion = Partner | Friends | Family | Children
datatype experience =
    Quiet | Seated | Outdoors | Wheelchair_accessible | Family_friendly | Uncrowded | Romantic
  | Beginner_friendly
datatype content = Profanity | Sexual_content

datatype plan_atom =
    Budget comparison rat jstr budget_basis
  | Party rat
  | Age rat
  | Mood mood
  | Companion companion
  | Date jstr jstr
  | Clock "jstr option" "jstr option" "bool option" "bool option"
  | Location jstr place_precision
  | Category plan_category
  | Topic jstr
  | Experience experience
  | Content content

datatype condition =
    Atom (cond_id: "jstr option") plan_atom
  | All_of (cond_id: "jstr option") "condition list"
  | Any_of (cond_id: "jstr option") "condition list"
  | Not_of (cond_id: "jstr option") condition

text \<open>\<open>hard\<close> is a conjunction in every valid plan; the type of the source allows any condition.\<close>

record plan =
  plan_hard :: condition
  plan_preferences :: "condition list"
  plan_order :: plan_order

definition empty_plan :: plan where
  "empty_plan = \<lparr>plan_hard = All_of None [], plan_preferences = [], plan_order = Order_none\<rparr>"

datatype strength = Hard | Preferred

datatype operation =
    Add strength condition
  | Replace jstr condition "strength option"
  | Remove jstr
  | Keep jstr
  | Reset
  | Set_order plan_order

record previous_state =
  prev_revision :: rat
  prev_plan :: plan

section \<open>Validation\<close>

definition side_names :: "jstr list" where
  "side_names = [tr ''Avrupa yakas~i'', tr ''Anadolu yakas~i'']"

definition is_integer :: "rat \<Rightarrow> bool" where
  "is_integer r \<longleftrightarrow> r = of_int \<lfloor>r\<rfloor>"

definition validate_date :: "jstr \<Rightarrow> unit res" where
  "validate_date value =
     rbind (guard (test (re ''^%d{4}-%d{2}-%d{2}$'') value) ''invalid date syntax'') (\<lambda>_.
     guard (case date_parse (value @ u ''T12:00:00Z'') of
              Some t \<Rightarrow> take 10 (iso_string t) = value | None \<Rightarrow> False) ''invalid date value'')"

definition validate_clock :: "jstr \<Rightarrow> unit res" where
  "validate_clock value = guard (clock_text value) ''invalid clock''"

text \<open>The checks of a time window; an empty bound counts as an absent one.\<close>

definition validate_window ::
  "jstr option \<Rightarrow> jstr option \<Rightarrow> bool option \<Rightarrow> bool option \<Rightarrow> unit res" where
  "validate_window from to fromExclusive toExclusive =
     (let a = or_empty from; b = or_empty to;
          strictFrom = (fromExclusive = Some True); strictTo = (toExclusive = Some True)
      in rbind (guard (a \<noteq> [] \<or> b \<noteq> []) ''missing clock bound'') (\<lambda>_.
         rbind (if a \<noteq> [] then validate_clock a else Inr ()) (\<lambda>_.
         rbind (if b \<noteq> [] then validate_clock b else Inr ()) (\<lambda>_.
         rbind (guard (\<not> strictFrom \<or> a \<noteq> []) ''exclusive clock has no lower bound'') (\<lambda>_.
         rbind (guard (\<not> strictTo \<or> b \<noteq> []) ''exclusive clock has no upper bound'') (\<lambda>_.
         if a \<noteq> [] \<and> b \<noteq> [] then
           rbind (guard (a \<le> b) ''unsupported overnight range'') (\<lambda>_.
           guard (a \<noteq> b \<or> (\<not> strictFrom \<and> \<not> strictTo)) ''empty strict clock range'')
         else Inr ()))))))"

fun validate_atom :: "plan_atom \<Rightarrow> unit res" where
  "validate_atom (Budget comparison amount currency basis) =
     rbind (guard (currency = tl_currency) ''invalid budget semantics'') (\<lambda>_.
     guard (0 \<le> amount \<and> amount \<le> 1000000000) ''invalid budget amount'')"
| "validate_atom (Party n) =
     guard (is_integer n \<and> 0 < n \<and> n \<le> 1000) ''invalid party count''"
| "validate_atom (Age years) =
     guard (is_integer years \<and> 0 \<le> years \<and> years \<le> 120) ''invalid attendee age''"
| "validate_atom (Mood m) = Inr ()"
| "validate_atom (Companion c) = Inr ()"
| "validate_atom (Date from to) =
     rbind (validate_date from) (\<lambda>_.
     rbind (validate_date to) (\<lambda>_. guard (from \<le> to) ''reversed date bounds''))"
| "validate_atom (Clock from to fromExclusive toExclusive) =
     validate_window from to fromExclusive toExclusive"
| "validate_atom (Location name p) =
     rbind (guard (trim name \<noteq> [] \<and> length name \<le> 64) ''invalid location'') (\<lambda>_.
     guard (p \<noteq> Side_place \<or> name \<in> set side_names) ''invalid Istanbul side'')"
| "validate_atom (Category c) = Inr ()"
| "validate_atom (Topic t) = guard (trim t \<noteq> [] \<and> length t \<le> 160) ''invalid topic''"
| "validate_atom (Experience e) = Inr ()"
| "validate_atom (Content c) = Inr ()"

definition lower_or_digit :: "nat \<Rightarrow> bool" where
  "lower_or_digit c \<longleftrightarrow> is_lower_unit c \<or> is_digit_unit c \<or> c = 95"

text \<open>\<open>/^[a-z][a-z0-9_]{0,39}$/u\<close>.\<close>

definition condition_id_ok :: "jstr \<Rightarrow> bool" where
  "condition_id_ok s \<longleftrightarrow>
     (case s of c # r \<Rightarrow> is_lower_unit c \<and> length r \<le> 39 \<and> list_all lower_or_digit r | [] \<Rightarrow> False)"

text \<open>The walk of \<open>validatePlan\<close> carries the ids seen and the number of nodes.\<close>

type_synonym walk = "jstr list \<times> nat"

definition count_node :: "condition \<Rightarrow> nat \<Rightarrow> walk \<Rightarrow> walk res" where
  "count_node c depth w =
     rbind (guard (Suc (snd w) \<le> 256 \<and> depth \<le> 12) ''condition complexity limit'') (\<lambda>_.
     case cond_id c of
       None \<Rightarrow> Inr (fst w, Suc (snd w))
     | Some i \<Rightarrow>
         rbind (guard (condition_id_ok i) ''invalid condition ID'') (\<lambda>_.
         rbind (guard (i \<notin> set (fst w)) ''duplicate condition ID'') (\<lambda>_.
         Inr (i # fst w, Suc (snd w)))))"

fun visit_condition :: "condition \<Rightarrow> nat \<Rightarrow> bool \<Rightarrow> walk \<Rightarrow> walk res"
  and visit_conditions :: "condition list \<Rightarrow> nat \<Rightarrow> walk \<Rightarrow> walk res" where
  "visit_condition (Atom i a) depth allowEmpty w =
     rbind (count_node (Atom i a) depth w) (\<lambda>w1. rbind (validate_atom a) (\<lambda>_. Inr w1))"
| "visit_condition (Not_of i c) depth allowEmpty w =
     rbind (count_node (Not_of i c) depth w) (\<lambda>w1. visit_condition c (Suc depth) False w1)"
| "visit_condition (All_of i cs) depth allowEmpty w =
     rbind (count_node (All_of i cs) depth w) (\<lambda>w1.
     rbind (guard (allowEmpty \<or> cs \<noteq> []) ''empty connective'') (\<lambda>_.
     visit_conditions cs (Suc depth) w1))"
| "visit_condition (Any_of i cs) depth allowEmpty w =
     rbind (count_node (Any_of i cs) depth w) (\<lambda>w1.
     rbind (guard (allowEmpty \<or> cs \<noteq> []) ''empty connective'') (\<lambda>_.
     visit_conditions cs (Suc depth) w1))"
| "visit_conditions [] depth w = Inr w"
| "visit_conditions (c # cs) depth w =
     rbind (visit_condition c depth False w) (\<lambda>w1. visit_conditions cs depth w1)"

fun conjunction :: "condition \<Rightarrow> condition list option" where
  "conjunction (All_of i cs) = Some cs"
| "conjunction _ = None"

definition validate_plan :: "plan \<Rightarrow> unit res" where
  "validate_plan p =
     rbind (guard (conjunction (plan_hard p) \<noteq> None) ''invalid plan'') (\<lambda>_.
     rbind (visit_condition (plan_hard p) 0 True ([], 0)) (\<lambda>w.
     rbind (visit_conditions (plan_preferences p) 0 w) (\<lambda>_. Inr ())))"

section \<open>The reducer\<close>

fun clone_without_ids :: "condition \<Rightarrow> condition" where
  "clone_without_ids (Atom i a) = Atom None a"
| "clone_without_ids (Not_of i c) = Not_of None (clone_without_ids c)"
| "clone_without_ids (All_of i cs) = All_of None (map clone_without_ids cs)"
| "clone_without_ids (Any_of i cs) = Any_of None (map clone_without_ids cs)"

fun with_id :: "jstr \<Rightarrow> condition \<Rightarrow> condition" where
  "with_id k (Atom i a) = Atom (Some k) a"
| "with_id k (Not_of i c) = Not_of (Some k) c"
| "with_id k (All_of i cs) = All_of (Some k) cs"
| "with_id k (Any_of i cs) = Any_of (Some k) cs"

text \<open>
  \<open>stable\<close> of \<open>web/parser/semantics.ts\<close> writes a condition as text with sorted keys; the reducer
  only compares two such texts, which agree exactly when the conditions do.
\<close>

definition same_meaning :: "condition \<Rightarrow> condition \<Rightarrow> bool" where
  "same_meaning c d \<longleftrightarrow> clone_without_ids c = clone_without_ids d"

text \<open>
  The double nearest to a natural number, ties to even: the number of an id may have 39 digits.
\<close>

fun excess_bits :: "nat \<Rightarrow> nat" where
  "excess_bits n = (if n < 9007199254740992 then 0 else Suc (excess_bits (n div 2)))"

declare excess_bits.simps [simp del]

definition nearest_double :: "nat \<Rightarrow> nat" where
  "nearest_double n =
     (let unit = 2 ^ excess_bits n; q = n div unit; r = n mod unit
      in if 2 * r < unit \<or> (2 * r = unit \<and> even q) then q * unit else Suc q * unit)"

definition decimal_value :: "jstr \<Rightarrow> nat" where
  "decimal_value s = foldl (\<lambda>n c. 10 * n + (c - 48)) 0 s"

text \<open>\<open>/^h\\d+$/u.test(id) ? Number(id.slice(1)) : -1\<close>, plus one.\<close>

definition index_after :: "nat \<Rightarrow> condition \<Rightarrow> nat" where
  "index_after letter c =
     (case cond_id c of
        Some (l # ds) \<Rightarrow>
          if l = letter \<and> ds \<noteq> [] \<and> list_all is_digit_unit ds
          then nearest_double (Suc (nearest_double (decimal_value ds))) else 0
      | _ \<Rightarrow> 0)"

definition next_index :: "nat \<Rightarrow> condition list \<Rightarrow> nat" where
  "next_index letter identities = foldr max (map (index_after letter) identities) 0"

definition generated_id :: "platform \<Rightarrow> nat \<Rightarrow> nat \<Rightarrow> jstr" where
  "generated_id P letter n = letter # pl_number P (of_nat n)"

text \<open>The variables of \<open>applyOperations\<close>.\<close>

record reducer =
  rd_hard :: "condition list"
  rd_preferred :: "condition list"
  rd_order :: plan_order
  rd_hardIndex :: nat
  rd_preferredIndex :: nat

definition find_id :: "jstr \<Rightarrow> condition list \<Rightarrow> nat option" where
  "find_id i cs = find (\<lambda>k. cond_id (cs ! k) = Some i) [0..<length cs]"

fun remove_at :: "nat \<Rightarrow> 'a list \<Rightarrow> 'a list" where
  "remove_at n [] = []"
| "remove_at 0 (x # xs) = xs"
| "remove_at (Suc n) (x # xs) = x # remove_at n xs"

text \<open>
  A target of a correction: whether it was found among the preferences (\<open>p >= 0\<close>), whether the
  list to edit is the hard one, and the index in it.
\<close>

record target =
  tg_inHard :: bool
  tg_index :: nat
  tg_preferred :: bool

definition lookup_target :: "reducer \<Rightarrow> jstr \<Rightarrow> target res" where
  "lookup_target st i =
     (case (find_id i (rd_hard st), find_id i (rd_preferred st)) of
        (Some h, p) \<Rightarrow> Inr \<lparr>tg_inHard = True, tg_index = h, tg_preferred = (p \<noteq> None)\<rparr>
      | (None, Some p) \<Rightarrow> Inr \<lparr>tg_inHard = False, tg_index = p, tg_preferred = True\<rparr>
      | (None, None) \<Rightarrow> throw ''unknown/non-top-level correction target'')"

definition edit_list :: "target \<Rightarrow> (condition list \<Rightarrow> condition list) \<Rightarrow> reducer \<Rightarrow> reducer" where
  "edit_list t f st =
     (if tg_inHard t then st\<lparr>rd_hard := f (rd_hard st)\<rparr>
      else st\<lparr>rd_preferred := f (rd_preferred st)\<rparr>)"

definition push_condition :: "bool \<Rightarrow> condition \<Rightarrow> reducer \<Rightarrow> reducer" where
  "push_condition preferred c st =
     (if preferred then st\<lparr>rd_preferred := rd_preferred st @ [c]\<rparr>
      else st\<lparr>rd_hard := rd_hard st @ [c]\<rparr>)"

definition add_condition :: "platform \<Rightarrow> strength \<Rightarrow> condition \<Rightarrow> reducer \<Rightarrow> reducer" where
  "add_condition P s raw st =
     (let c = clone_without_ids raw
      in case s of
           Hard \<Rightarrow>
             if list_ex (same_meaning c) (rd_hard st) then st
             else st\<lparr>rd_hard := rd_hard st @ [with_id (generated_id P 104 (rd_hardIndex st)) c],
                     rd_hardIndex := nearest_double (Suc (rd_hardIndex st))\<rparr>
         | Preferred \<Rightarrow>
             if list_ex (same_meaning c) (rd_preferred st) then st
             else st\<lparr>rd_preferred :=
                       rd_preferred st @ [with_id (generated_id P 112 (rd_preferredIndex st)) c],
                     rd_preferredIndex := nearest_double (Suc (rd_preferredIndex st))\<rparr>)"

definition replace_condition ::
  "jstr \<Rightarrow> condition \<Rightarrow> strength option \<Rightarrow> target \<Rightarrow> reducer \<Rightarrow> reducer" where
  "replace_condition i raw s t st =
     (let c = with_id i (clone_without_ids raw);
          asPreferred = (case s of Some x \<Rightarrow> x = Preferred | None \<Rightarrow> tg_preferred t)
      in if asPreferred = tg_preferred t then edit_list t (\<lambda>cs. cs[tg_index t := c]) st
         else push_condition asPreferred c (edit_list t (remove_at (tg_index t)) st))"

fun apply_operation :: "platform \<Rightarrow> operation \<Rightarrow> reducer \<Rightarrow> reducer res" where
  "apply_operation P Reset st =
     Inr (st\<lparr>rd_hard := [], rd_preferred := [], rd_order := Order_none\<rparr>)"
| "apply_operation P (Set_order d) st = Inr (st\<lparr>rd_order := d\<rparr>)"
| "apply_operation P (Add s c) st = Inr (add_condition P s c st)"
| "apply_operation P (Remove i) st =
     rbind (lookup_target st i) (\<lambda>t. Inr (edit_list t (remove_at (tg_index t)) st))"
| "apply_operation P (Keep i) st = rbind (lookup_target st i) (\<lambda>t. Inr st)"
| "apply_operation P (Replace i c s) st =
     rbind (lookup_target st i) (\<lambda>t. Inr (replace_condition i c s t st))"

text \<open>The hard root keeps its own id.\<close>

definition reducer_of :: "plan \<Rightarrow> reducer res" where
  "reducer_of p =
     (case conjunction (plan_hard p) of
        None \<Rightarrow> throw ''invalid hard root''
      | Some hard \<Rightarrow>
          let identities = hard @ plan_preferences p
          in Inr \<lparr>rd_hard = hard, rd_preferred = plan_preferences p, rd_order = plan_order p,
                  rd_hardIndex = next_index 104 identities,
                  rd_preferredIndex = next_index 112 identities\<rparr>)"

definition plan_of :: "jstr option \<Rightarrow> reducer \<Rightarrow> plan" where
  "plan_of rootId st =
     \<lparr>plan_hard = All_of rootId (rd_hard st), plan_preferences = rd_preferred st,
      plan_order = rd_order st\<rparr>"

definition validate_previous :: "previous_state option \<Rightarrow> unit res" where
  "validate_previous previous =
     (case previous of
        None \<Rightarrow> Inr ()
      | Some s \<Rightarrow>
          rbind (guard (is_integer (prev_revision s) \<and> prev_revision s \<ge> 0) ''invalid prior revision'')
            (\<lambda>_. validate_plan (prev_plan s)))"

definition starting_plan :: "previous_state option \<Rightarrow> plan" where
  "starting_plan previous = (case previous of Some s \<Rightarrow> prev_plan s | None \<Rightarrow> empty_plan)"

definition apply_operations ::
  "platform \<Rightarrow> previous_state option \<Rightarrow> operation list \<Rightarrow> plan res" where
  "apply_operations P previous operations =
     rbind (validate_previous previous) (\<lambda>_.
     rbind (guard (length operations \<le> 64) ''operation limit'') (\<lambda>_.
     rbind (reducer_of (starting_plan previous)) (\<lambda>st.
     rbind (rfold (apply_operation P) operations st) (\<lambda>st1.
     let p = plan_of (cond_id (plan_hard (starting_plan previous))) st1
     in rbind (validate_plan p) (\<lambda>_. Inr p)))))"

end
