(* ===== verification/Requirements.thy ===== *)
theory Requirements
  imports Plans
begin

text \<open>
  \<open>web/lib/requirements.ts\<close>: what a request demands of the source text of an event, read from
  the user's turns, and the check of an event's own text against it. The patterns are the ones of
  the source, run by the matcher of the Regex theory.
\<close>

section \<open>Requirements\<close>

datatype requirement_kind = Genre | Activity | Audience | Content_kind | Accessibility
datatype requirement_policy = Require_support | Exclude_positive_evidence
datatype requirement_status = Supported | Contradicted | Unknown

record requirement =
  rq_kind :: requirement_kind
  rq_value :: jstr
  rq_policy :: requirement_policy

record requirement_check =
  ck_requirement :: requirement
  ck_status :: requirement_status
  ck_evidence :: "jstr list"

text \<open>A term of the evidence: the value it stands for, its affirming and its negating pattern.\<close>

type_synonym evidence_term = "string \<times> string \<times> string"

definition genre_and_activity_terms :: "evidence_term list" where
  "genre_and_activity_terms = [
     (''jazz'',
      ''%b(?:jazz|caz)%b'',
      ''%b(?:not|no|without|degil|olmayan)%s+(?:a%s+)?(?:jazz|caz)%b|%b(?:jazz|caz)%b[^.!?]{0,24}'' @
      ''%b(?:degil(?:dir)?|yok)%b''),
     (''blues'',
      ''%bblues%b'',
      ''%b(?:not|no|without)%s+blues%b|%bblues%s+(?:degil(?:dir)?|yok)%b''),
     (''rock'',
      ''%brock%b'',
      ''%b(?:not|no|without)%s+rock%b|%brock%s+(?:degil(?:dir)?|yok)%b''),
     (''electronic'',
      ''%b(?:electronic music|elektronik muzik|techno|house music|house muzik)%b'',
      ''%b(?:not|no|without)%s+(?:electronic music|techno)|%belektronik muzik%s+(?:degil|yok)%b''),
     (''rap'',
      ''%b(?:rap|hip[ -]?hop)%b'',
      ''%b(?:not|no|without)%s+(?:rap|hip[ -]?hop)%b|%brap%s+(?:degil|yok)%b''),
     (''alcohol_free'',
      ''%b(?:alcohol[ -]free (?:venue|event|setting)|no alcohol (?:is )?(?:served|sold|permitted)'' @
      ''|alkolsuz (?:mekan|etkinlik|ortam)|alkol (?:servisi|satisi) (?:yok|yapilmaz)|alkol yasak)'' @
      ''%b'',
      ''%b(?:alcohol (?:is )?(?:served|sold)|alkollu (?:mekan|etkinlik)|alkol (?:servisi|satisi) '' @
      ''(?:var|yapilir))%b''),
     (''classical'',
      ''%b(?:classical|klasik%s+(?:muzik|muzig|repertuvar)[a-z]*)%b'',
      ''%b(?:not|no|without)%s+classical%b|%bklasik%s+(?:degil(?:dir)?|yok)%b''),
     (''comedy'',
      ''%b(?:comedy|komedi|stand[ -]?up)%b'',
      ''%b(?:not|no|without)%s+comedy%b|%bkomedi%s+(?:degil(?:dir)?|yok)%b''),
     (''drama'',
      ''%b(?:drama|dramatic|dramatik|dram(?:dir)?)%b'',
      ''%b(?:not|no|without)%s+(?:drama|dramatic)%b|%bdramatik%s+(?:degil(?:dir)?|yok)%b''),
     (''kayaking'',
      ''%b(?:kayak(?:ing)?|kano)%b'',
      ''%b(?:not|no|without)%s+kayak(?:ing)?%b|%b(?:kayak|kano)%s+(?:degil(?:dir)?|yok)%b''),
     (''rowing'',
      ''%b(?:rowing|kurek)%b'',
      ''%b(?:not|no|without)%s+rowing%b|%bkurek%s+(?:degil(?:dir)?|yok)%b'')]"

definition audience_and_content_terms :: "evidence_term list" where
  "audience_and_content_terms = [
     (''children'',
      ''%b(?:(?:for|aimed at|suitable for)%s+(?:child(?:ren)?|kids?)|child(?:ren)?~q?s%s+(?:event'' @
      ''|show|theatre|theater)|kids?%s+(?:event|show)|cocuklar ve aileleri icin|cocuk(?:lar|lara|'' @
      ''larin)?%s+(?:icin|oyunu|tiyatrosu|uygun)|cocuklara%s+(?:yonelik|uygun)|cocuk etkinligi)%b'',
      ''%b(?:adults? only|yetiskin(?:lere)? ozel|cocuk(?:lar)? (?:icin )?(?:degil|uygun degil))%b''),
     (''family_friendly'',
      ''%b(?:family[ -]?friendly|suitable for (?:the whole )?famil(?:y|ies)|all[ -]?ages|aile(?:l'' @
      ''er|ye)? uygun|ailece(?: keyifle)? izlen(?:ebilecek|ebilir)|ailenizle[^.!?]{0,50}katilabil'' @
      ''eceginiz|ailelerin birlikte[^.!?]{0,80}cocuklar[^.!?]{0,80}yetiskinler)%b'',
      ''(?:%b(?:not family[ -]?friendly|adults? only|18 yas ve uzeri|yetiskin(?:lere)? ozel|aile('' @
      ''?:ler|ye)? uygun degil|ailece izlenemez)%b|%b18%s*%+(?!%w))''),
     (''swearing'',
      ''%b(?:swear(?:ing)?|profanity|explicit language|curse words?|kufur(?:lu)?|argo)%b'',
      ''%b(?:no|without|free (?:of|from))%s+(?:swearing|profanity|explicit language|curse words?)'' @
      ''%b|%b(?:kufur|argo)%s+(?:yok|icermez)|%bkufursuz%b''),
     (''sexual_content'',
      ''%b(?:sexual content|sexual humour|sexual humor|sex jokes?|adult themes?|cinsellik|cinsel '' @
      ''(?:icerik|mizah|espri))%b'',
      ''%b(?:no|without|free (?:of|from))%s+(?:sexual content|sexual humour|sexual humor|sex joke'' @
      ''s?)%b|%b(?:cinsel (?:icerik|mizah|espri)|cinsellik)%s+(?:yok|icermez)|%bcinsellik icermey'' @
      ''en%b''),
     (''step_free'',
      ''%b(?:step[ -]?free|barrier[ -]?free|wheelchair access(?:ible)?|basamaksiz|engelsiz erisim'' @
      ''|tekerlekli sandalye erisimi)%b'',
      ''%b(?:not|no|non|isn~qt|is not)%s+(?:step[ -]?free|wheelchair access(?:ible)?)|%b(?:basama'' @
      ''ksiz|engelsiz erisim|tekerlekli sandalye erisimi)%s+(?:degil(?:dir)?|yok|bulunmuyor|bulun'' @
      ''mamaktadir|saglanmiyor)%b''),
     (''accessible_toilet'',
      ''%b(?:accessible (?:toilet|restroom|bathroom)|disabled (?:toilet|restroom)|engelli tuvalet'' @
      ''i|erisilebilir tuvalet(?:i)?)%b'',
      ''%b(?:no|without)%s+(?:accessible|disabled)%s+(?:toilet|restroom|bathroom)|%b(?:engelli|er'' @
      ''isilebilir) tuvalet(?:i)?%s+yok%b'')]"

definition experience_terms :: "evidence_term list" where
  "experience_terms = [
     (''quiet'',
      ''%b(?:quiet%s+(?:venue|environment|setting)|(?:sessiz|sakin)%s+(?:bir%s+)?(?:ortam|mekan)|'' @
      ''(?:venue|environment)%s+(?:is|will be)%s+quiet|(?:ortam|mekan)%s+(?:sessiz|sakindir))%b'',
      ''%b(?:not (?:a )?quiet|loud|gurultulu|(?:sessiz|sakin)(?: bir)?(?: ortam|mekan)? (?:degil('' @
      ''?:dir)?|olmayan)|(?:ortam|mekan) (?:sessiz|sakin) degil(?:dir)?)%b''),
     (''seated'',
      ''%b(?:seated|assigned seating|seats? provided|oturmal~i|oturmali|numarali koltuk)%b'',
      ''%b(?:standing only|ayakta|oturmasiz)%b''),
     (''romantic'',
      ''%b(?:romantic|romantik)%b[^.!?]{0,36}%b(?:atmosphere|ambience|setting|evening|experience|'' @
      ''place|venue|ortam|atmosfer|ambiyans|aksam|mekan|yer|deneyim)%b|%b(?:atmosphere|ambience|s'' @
      ''etting|evening|experience|place|venue|ortam|atmosfer|ambiyans|aksam|mekan|yer|deneyim)%b['' @
      ''^.!?]{0,36}%b(?:romantic|romantik)%b'',
      ''%b(?:not|isn~qt|is not)%s+romantic%b|%bromantik%s+(?:degil(?:dir)?|olmayan)%b''),
     (''uncrowded'',
      ''%b(?:uncrowded|not crowded|isn~qt crowded|is not crowded|tenha|kalabalik (?:degil(?:dir)?'' @
      ''|olmayan))%b'',
      ''(?<!not )(?<!isn~qt )(?<!is not )%bcrowded%b|%bkalabalik%b(?!%s+(?:degil(?:dir)?|olmayan)'' @
      '')|%b(?:cok yogun|tiklim tiklim)%b'')]"

definition evidence_terms :: "evidence_term list" where
  "evidence_terms = genre_and_activity_terms @ audience_and_content_terms @ experience_terms"

definition term_of :: "jstr \<Rightarrow> (string \<times> string) option" where
  "term_of value = map_of (map (\<lambda>t. (u (fst t), snd t)) evidence_terms) value"

definition genre_entries :: "(string \<times> string) list" where
  "genre_entries = [
     (''jazz'', ''%b(?:jazz|caz)%b''),
     (''blues'', ''%bblues%b''),
     (''rock'', ''%brock%b''),
     (''electronic'', ''%b(?:electronic music|elektronik muzik|techno)%b''),
     (''rap'', ''%b(?:rap|hip[ -]?hop)%b''),
     (''classical'', ''%b(?:classical|klasik)%b''),
     (''comedy'', ''%b(?:comedy|komedi)%b''),
     (''drama'', ''%b(?:drama|dramatic|dramatik|dram(?:dir)?)%b'')]"

definition activity_entries :: "(string \<times> string) list" where
  "activity_entries = [
     (''kayaking'', ''%b(?:kayak(?:ing)?|kano)%b''),
     (''rowing'', ''%b(?:rowing|kurek)%b'')]"

section \<open>Normalised text\<close>

text \<open>The marks U+0300 to U+036F are dropped; the two apostrophes become one.\<close>

definition wheelchair_rx :: string where
  "wheelchair_rx =
     ''%b(?:(?:not|no|non|isn~qt|is not)[%s~h-~H~m-]+)?wheelchair[%s~h-~H~m-]+access(?:ible)?%b''"

definition dashes_rx :: string where
  "dashes_rx =
     ''[~h-~H~m-]+''"

definition one_apostrophe :: "jstr \<Rightarrow> jstr" where
  "one_apostrophe s = map (\<lambda>c. if c = 8217 then 39 else c) s"

definition requirement_text :: "platform \<Rightarrow> jstr \<Rightarrow> jstr" where
  "requirement_text P s =
     replace_with (re wheelchair_rx)
       (\<lambda>m. replace_all (re dashes_rx) [32] (rm_text m))
       (one_apostrophe (dot_i (strip_marks (pl_nfd P (pl_lower_tr P s)))))"

section \<open>Negation\<close>

definition clause_boundary_rx :: string where
  "clause_boundary_rx =
     ''[,.!?;]|%b(?:but|ama|fakat|ancak)%b''"

definition coordinated_negation_rx :: string where
  "coordinated_negation_rx =
     ''%b(?:no|not|without|excluding?)%s+(?:(?:jazz|caz|rock|blues|classical|klasik|comedy|komedi'' @
     ''|stand[ -]?up)%s+(?:or|and)%s+)*$''"

definition genre_list_rx :: string where
  "genre_list_rx = ''(?:jazz|caz|rock|blues|classical|klasik|comedy|komedi|stand[ -]?up)''"

definition trailing_negation_rx :: string where
  "trailing_negation_rx =
     ''^%s*,%s*'' @ genre_list_rx @ ''(?:%s*(?:,|ve|veya|ya da|or|and)%s*'' @ genre_list_rx @
     '')*%s+(?:istemiyorum|istemem|olmasin|haric)%b''"

definition following_negation_rx :: string where
  "following_negation_rx =
     ''^%s*(?:degil|olmasin|istemiyorum|istemem|haric|to%b)''"

definition later_negation_rx :: string where
  "later_negation_rx =
     ''^[^.!?]{0,50}%b(?:istemiyorum|istemem|olmasin|haric)%b''"

text \<open>\<open>isNegated\<close>, on the text before and the text after the match.\<close>

definition is_negated :: "jstr \<Rightarrow> jstr \<Rightarrow> bool" where
  "is_negated past rest \<longleftrightarrow>
     (let clauseBefore = last (split_rx (re clause_boundary_rx) past);
          clauseAfter = take 80 (hd (split_rx (re clause_boundary_rx) rest))
      in test (re trailing_negation_rx) rest
         \<or> test (re coordinated_negation_rx) clauseBefore
         \<or> test (re following_negation_rx) clauseAfter
         \<or> test (re later_negation_rx) clauseAfter)"

definition match_negated :: "rx_match \<Rightarrow> bool" where
  "match_negated m \<longleftrightarrow> is_negated (rev (rm_before m)) (rm_after m)"

text \<open>The values whose first mention is affirmed, and those whose first mention is negated.\<close>

definition mentions :: "bool \<Rightarrow> jstr \<Rightarrow> (string \<times> string) list \<Rightarrow> jstr list" where
  "mentions negated text entries =
     map (\<lambda>e. u (fst e)) (filter (\<lambda>e. case exec (re (snd e)) text of
       Some m \<Rightarrow> match_negated m = negated | None \<Rightarrow> False) entries)"

section \<open>The list of requirements\<close>

abbreviation values_of :: "jstr \<Rightarrow> jstr list" where
  "values_of value \<equiv> split_on 124 value"

definition required :: "requirement_kind \<Rightarrow> jstr \<Rightarrow> requirement" where
  "required k v = \<lparr>rq_kind = k, rq_value = v, rq_policy = Require_support\<rparr>"

definition excluded :: "requirement_kind \<Rightarrow> jstr \<Rightarrow> requirement" where
  "excluded k v = \<lparr>rq_kind = k, rq_value = v, rq_policy = Exclude_positive_evidence\<rparr>"

definition same_slot :: "requirement \<Rightarrow> requirement \<Rightarrow> bool" where
  "same_slot r s \<longleftrightarrow> rq_kind r = rq_kind s \<and> rq_policy r = rq_policy s"

fun upsert :: "requirement \<Rightarrow> requirement list \<Rightarrow> requirement list" where
  "upsert r [] = [r]"
| "upsert r (s # ss) = (if same_slot r s then r # ss else s # upsert r ss)"

definition without_values :: "jstr list \<Rightarrow> requirement \<Rightarrow> requirement option" where
  "without_values removed r =
     (let retained = filter (\<lambda>v. v \<notin> set removed) (values_of (rq_value r))
      in if retained = [] then None else Some (r\<lparr>rq_value := join [124] retained\<rparr>))"

text \<open>Only the first exclusion of the kind is edited.\<close>

fun remove_excluded_values ::
  "requirement_kind \<Rightarrow> jstr list \<Rightarrow> requirement list \<Rightarrow> requirement list" where
  "remove_excluded_values k removed [] = []"
| "remove_excluded_values k removed (r # rs) =
     (if rq_kind r = k \<and> rq_policy r = Exclude_positive_evidence
      then (case without_values removed r of Some r' \<Rightarrow> r' # rs | None \<Rightarrow> rs)
      else r # remove_excluded_values k removed rs)"

definition remove_required_values ::
  "requirement_kind \<Rightarrow> jstr list \<Rightarrow> requirement list \<Rightarrow> requirement list" where
  "remove_required_values k removed rs =
     List.map_filter (\<lambda>r. if rq_kind r \<noteq> k \<or> rq_policy r \<noteq> Require_support then Some r
                          else without_values removed r) rs"

definition add_independent :: "requirement \<Rightarrow> requirement list \<Rightarrow> requirement list" where
  "add_independent r rs = (if r \<in> set rs then rs else rs @ [r])"

section \<open>Reading the turns\<close>

definition strict_content_rx :: string where
  "strict_content_rx =
     ''%b(?:omit|exclude|skip|leave out|onerme|onermeyin|oneri yapma|ele|cikar)%b[^.!?]{0,80}%b(?'' @
     '':uncertain|unverified|unknown|emin olmad[a-z]*|emin degil[a-z]*|dogrulanmam|belirsiz)%b|%b'' @
     ''(?:uncertain|unverified|unknown|emin olmad[a-z]*|emin degil[a-z]*|dogrulanmam|belirsiz)%b['' @
     ''^.!?]{0,80}%b(?:omit|exclude|skip|onerme|onermeyin|ele|cikar)%b''"

definition strict_content_requested :: "jstr \<Rightarrow> bool" where
  "strict_content_requested text \<longleftrightarrow> test (re strict_content_rx) text"

definition child_age_patterns :: "string list" where
  "child_age_patterns = [
     ''%b(%d{1,2})%s*yas(?:inda|indaki)?%s+(?:kizim|oglum|cocugum|cocuk(?:la|larla)?)'',
     ''%b(?:my%s+)?(%d{1,2})[ -]year[ -]old%s+(?:child|daughter|son|kid)'',
     ''%b(?:child|daughter|son|kid)%s+(?:aged?|age)%s+(%d{1,2})%b'']"

definition group_number :: "rx_match \<Rightarrow> nat \<Rightarrow> nat" where
  "group_number m k = decimal_value (or_empty (group m k))"

text \<open>\<open>requestedChildAge\<close>: the first pattern whose first match names an age up to 17.\<close>

definition requested_child_age :: "jstr \<Rightarrow> nat option" where
  "requested_child_age text =
     find (\<lambda>age. age \<le> 17)
       (List.map_filter (\<lambda>p. map_option (\<lambda>m. group_number m 1) (exec (re p) text)) child_age_patterns)"

definition no_children_rx :: string where
  "no_children_rx =
     ''%b(?:no|without)%b[^.!?]{0,40}%b(?:children|kids?)%b|%bcocuk(?:lar| etkinligi| oyunu)?%b[^'' @
     ''.!?]{0,50}%b(?:olmasin|istemiyorum|istemem|haric)%b''"

definition family_suitability_rx :: string where
  "family_suitability_rx =
     ''%b(?:family[ -]?friendly|suitable for (?:the whole )?famil(?:y|ies)|all[ -]?ages|aile(?:le'' @
     ''r|ye)? uygun|ailece(?: keyifle)? izlen(?:ebilecek|ebilir)|ailemle izleyebilecegim)%b''"

definition child_suitability_rx :: string where
  "child_suitability_rx =
     ''%b(?:suitable for (?:children|kids?)|cocuk(?:lar|lara)?%s+(?:icin|uygun)|cocuklara%s+yonel'' @
     ''ik|cocuk etkinligi)%b''"

definition shared_prohibition_rx :: string where
  "shared_prohibition_rx =
     ''%b(?:swearing|profanity|explicit language|kufur|argo)%b[^.!?]{0,50}%b(?:sexual (?:content|'' @
     ''humou?r)|sex jokes?|cinsel (?:icerik|mizah|espri)|cinsellik)%b[^.!?]{0,24}(?:%b(?:olmasin|'' @
     ''istemiyorum|istemem|yok)%b|;|$)''"

definition no_swearing_rx :: string where
  "no_swearing_rx =
     ''%b(?:no|without)%s+(?:swearing|profanity|explicit language)|%b(?:kufur|argo)%s+(?:olmasin|'' @
     ''istemiyorum|istemem|yok)|%bkufursuz%b''"

definition no_sexual_rx :: string where
  "no_sexual_rx =
     ''%b(?:no|without)%s+(?:sexual content|sexual humour|sexual humor|sex jokes?)|%b(?:cinsel (?'' @
     '':icerik|mizah|espri)|cinsellik)%s+(?:olmasin|istemiyorum|istemem|yok)|%bcinsellik icermesi'' @
     ''n%b''"

definition waiver_boundary_rx :: string where
  "waiver_boundary_rx =
     ''[,.!?;]|%b(?:ama|fakat|ancak|but)%b''"

definition swearing_waived_rx :: string where
  "swearing_waived_rx =
     ''%b(?:swearing|profanity|kufur|argo)%b[^.!?;]{0,30}%b(?:sorun degil|olabilir|serbest|okay|o'' @
     ''k|fine|allowed|doesn~qt matter|does not matter)%b''"

definition sexual_waived_rx :: string where
  "sexual_waived_rx =
     ''%b(?:sexual content|sexual humou?r|cinsel (?:icerik|mizah|espri)|cinsellik)%b[^.!?;]{0,30}'' @
     ''%b(?:sorun degil|olabilir|serbest|okay|ok|fine|allowed|doesn~qt matter|does not matter)%b''"

definition step_free_waived_rx :: string where
  "step_free_waived_rx =
     ''%b(?:step[ -]?free|basamaksiz(?: giris)?|engelsiz erisim|tekerlekli sandalye erisimi|wheel'' @
     ''chair access(?:ible)?)%b[^.!?;]{0,24}%b(?:sart degil|gerekli degil|zorunlu degil|not requi'' @
     ''red|not necessary)%b''"

definition toilet_waived_rx :: string where
  "toilet_waived_rx =
     ''%b(?:accessible (?:toilet|restroom)|erisilebilir tuvalet(?:i)?)%b[^.!?;]{0,24}%b(?:sart de'' @
     ''gil|gerekli degil|zorunlu degil|not required|not necessary)%b''"

definition step_free_rx :: string where
  "step_free_rx =
     ''%b(?:step[ -]?free|basamaksiz|engelsiz erisim|tekerlekli sandalye erisimi|wheelchair acces'' @
     ''s(?:ible)?)%b''"

definition toilet_rx :: string where
  "toilet_rx =
     ''%b(?:accessible (?:toilet|restroom|bathroom)|disabled (?:toilet|restroom)|engelli tuvaleti'' @
     ''|erisilebilir tuvalet(?:i)?)%b''"

definition alcohol_waived_rx :: string where
  "alcohol_waived_rx =
     ''%b(?:alkolsuz|alcohol[ -]free)%b[^.!?;]{0,36}%b(?:sart(?:ini)? kaldir|sart degil|not requi'' @
     ''red|not necessary)%b''"

definition alcohol_free_rx :: string where
  "alcohol_free_rx =
     ''%b(?:alkolsuz|alcohol[ -]free|no alcohol)%b''"

definition mandatory_rx :: string where
  "mandatory_rx =
     ''%b(?:must|has to|only|strictly|mutlaka|sart|olmak zorunda)%b''"

definition quiet_rx :: string where
  "quiet_rx =
     ''%b(?:quiet|sessiz|sakin)%b''"

definition seated_rx :: string where
  "seated_rx =
     ''%b(?:seated|oturmali|numarali koltuk)%b''"

definition mandatory_experience_rx :: string where
  "mandatory_experience_rx =
     ''%b(?:kesin(?:likle)?|mutlaka|must|required|guaranteed|definitely|sart|olmak zorunda)%b''"

definition romantic_rx :: string where
  "romantic_rx =
     ''%b(?:romantic|romantik)%b''"

definition not_romantic_rx :: string where
  "not_romantic_rx =
     ''%b(?:not|isn~qt|is not)%s+romantic%b|%bromantik%s+(?:degil(?:dir)?|olmasin)%b''"

definition uncrowded_rx :: string where
  "uncrowded_rx =
     ''%b(?:uncrowded|not crowded|isn~qt crowded|is not crowded|tenha|kalabalik (?:degil|olmayan|'' @
     ''olmasin))%b''"

definition romantic_waived_rx :: string where
  "romantic_waived_rx =
     ''%b(?:romantik(?: olmasi)?|romantic)%b[^.!?;]{0,24}%b(?:sart degil|gerekli degil|zorunlu de'' @
     ''gil|not required|not necessary)%b''"

definition uncrowded_waived_rx :: string where
  "uncrowded_waived_rx =
     ''%b(?:uncrowded|not crowded|kalabalik olmamasi|kalabalik olmayan)%b[^.!?;]{0,24}%b(?:sart d'' @
     ''egil|gerekli degil|zorunlu degil|not required|not necessary)%b|%bkalabalik(?: da)? sorun d'' @
     ''egil%b|%bcrowds? (?:are|is) fine%b''"

text \<open>\<open>text.split(boundary).some(clause => pattern.test(clause))\<close>.\<close>

definition some_clause :: "string \<Rightarrow> jstr \<Rightarrow> bool" where
  "some_clause pattern text \<longleftrightarrow> list_ex (test (re pattern)) (split_rx (re waiver_boundary_rx) text)"

definition add_if :: "bool \<Rightarrow> (requirement list \<Rightarrow> requirement list) \<Rightarrow> requirement list \<Rightarrow> requirement list" where
  "add_if b f rs = (if b then f rs else rs)"

text \<open>The steps of one turn, in the order of the source.\<close>

definition read_genres :: "jstr \<Rightarrow> requirement list \<Rightarrow> requirement list" where
  "read_genres text rs =
     (let genres = mentions False text genre_entries;
          rejected = mentions True text genre_entries;
          activities = mentions False text activity_entries;
          rs1 = add_if (genres \<noteq> [])
                  (\<lambda>rs. upsert (required Genre (join [124] genres))
                          (remove_excluded_values Genre genres rs)) rs;
          rs2 = add_if (rejected \<noteq> [])
                  (\<lambda>rs. upsert (excluded Genre (join [124] rejected))
                          (remove_required_values Genre rejected rs)) rs1
      in add_if (activities \<noteq> []) (upsert (required Activity (join [124] activities))) rs2)"

definition affirmed :: "rx_match option \<Rightarrow> bool" where
  "affirmed m = (case m of Some x \<Rightarrow> \<not> match_negated x | None \<Rightarrow> False)"

definition read_audience :: "jstr \<Rightarrow> requirement list \<Rightarrow> requirement list" where
  "read_audience text rs =
     (let childAge = requested_child_age text;
          family = exec (re family_suitability_rx) text;
          child = exec (re child_suitability_rx) text;
          rs1 = add_if (test (re no_children_rx) text) (upsert (excluded Audience (u ''children''))) rs;
          rs2 = (case family of
                   None \<Rightarrow> rs1
                 | Some m \<Rightarrow>
                     if match_negated m
                     then remove_required_values Audience [u ''family_friendly''] rs1
                     else add_independent (required Audience (u ''family_friendly'')) rs1);
          rs3 = add_if (childAge \<noteq> None \<or> affirmed child)
                  (add_independent (required Audience (u ''children''))) rs2
      in (case childAge of
            None \<Rightarrow> rs3
          | Some age \<Rightarrow> add_independent (required Audience (u ''age:'' @ nat_digits age)) rs3))"

definition content_policy :: "jstr \<Rightarrow> requirement_policy" where
  "content_policy text =
     (if strict_content_requested text then Require_support else Exclude_positive_evidence)"

definition content_requirement :: "jstr \<Rightarrow> jstr \<Rightarrow> requirement" where
  "content_requirement text v =
     \<lparr>rq_kind = Content_kind, rq_value = v, rq_policy = content_policy text\<rparr>"

definition read_content :: "jstr \<Rightarrow> requirement list \<Rightarrow> requirement list" where
  "read_content text rs =
     (let shared = test (re shared_prohibition_rx) text;
          noSwearing = (test (re no_swearing_rx) text \<or> shared);
          noSexual = (test (re no_sexual_rx) text \<or> shared);
          rs1 = add_if noSwearing (upsert (content_requirement text (u ''swearing''))) rs;
          existing = find (\<lambda>r. rq_kind r = Content_kind \<and> rq_policy r = content_policy text) rs1;
          next = (case existing of
                    Some r \<Rightarrow> rq_value r @ u ''|sexual_content'' | None \<Rightarrow> u ''sexual_content'');
          rs2 = add_if noSexual (upsert (content_requirement text next)) rs1;
          rs3 = add_if (some_clause swearing_waived_rx text)
                  (\<lambda>rs. remove_excluded_values Content_kind [u ''swearing'']
                          (remove_required_values Content_kind [u ''swearing''] rs)) rs2
      in add_if (some_clause sexual_waived_rx text)
           (\<lambda>rs. remove_excluded_values Content_kind [u ''sexual_content'']
                   (remove_required_values Content_kind [u ''sexual_content''] rs)) rs3)"

definition read_accessibility :: "jstr \<Rightarrow> requirement list \<Rightarrow> requirement list" where
  "read_accessibility text rs =
     (let stepFreeWaived = some_clause step_free_waived_rx text;
          toiletWaived = some_clause toilet_waived_rx text;
          rs1 = add_if stepFreeWaived (remove_required_values Accessibility [u ''step_free'']) rs;
          rs2 = add_if toiletWaived (remove_required_values Accessibility [u ''accessible_toilet'']) rs1;
          rs3 = add_if (\<not> stepFreeWaived \<and> test (re step_free_rx) text)
                  (upsert (required Accessibility (u ''step_free''))) rs2;
          existing = find (\<lambda>r. rq_kind r = Accessibility) rs3;
          value = (case existing of
                     Some r \<Rightarrow> rq_value r @ u ''|accessible_toilet'' | None \<Rightarrow> u ''accessible_toilet'')
      in add_if (\<not> toiletWaived \<and> test (re toilet_rx) text) (upsert (required Accessibility value)) rs3)"

definition read_experiences :: "jstr \<Rightarrow> requirement list \<Rightarrow> requirement list" where
  "read_experiences text rs =
     (let demand = (\<lambda>v. add_independent (required Activity (u v)));
          waive = (\<lambda>v. remove_required_values Activity [u v]);
          mandatory = test (re mandatory_rx) text;
          mandatoryExperience = test (re mandatory_experience_rx) text;
          rs1 = (if test (re alcohol_waived_rx) text then waive ''alcohol_free'' rs
                 else add_if (test (re alcohol_free_rx) text) (demand ''alcohol_free'') rs);
          rs2 = add_if (mandatory \<and> test (re quiet_rx) text) (demand ''quiet'') rs1;
          rs3 = add_if (mandatory \<and> test (re seated_rx) text) (demand ''seated'') rs2;
          rs4 = add_if (mandatoryExperience \<and> test (re romantic_rx) text
                        \<and> \<not> test (re not_romantic_rx) text) (demand ''romantic'') rs3;
          rs5 = add_if (mandatoryExperience \<and> test (re uncrowded_rx) text) (demand ''uncrowded'') rs4;
          rs6 = add_if (some_clause romantic_waived_rx text) (waive ''romantic'') rs5
      in add_if (some_clause uncrowded_waived_rx text) (waive ''uncrowded'') rs6)"

definition read_turn :: "platform \<Rightarrow> jstr \<Rightarrow> requirement list \<Rightarrow> requirement list" where
  "read_turn P raw rs =
     (let text = requirement_text P raw
      in read_experiences text (read_accessibility text (read_content text
           (read_audience text (read_genres text rs)))))"

definition requirement_turns :: "jstr \<Rightarrow> jstr list \<Rightarrow> jstr list" where
  "requirement_turns message turns =
     (if turns \<noteq> [] \<and> last turns = message then turns else turns @ [message])"

text \<open>\<open>deriveRequirements\<close>, with the contents of the user's turns of the history.\<close>

definition derive_requirements :: "platform \<Rightarrow> jstr \<Rightarrow> jstr list \<Rightarrow> requirement list" where
  "derive_requirements P message turns = fold (read_turn P) (requirement_turns message turns) []"

section \<open>Ages stated in the source\<close>

definition age_negated_rx :: string where
  "age_negated_rx =
     ''%b(?:uygun degil(?:dir)?|onerilmez|giremez|kabul edilmez|not suitable|not allowed)%b''"

definition age_range_patterns :: "string list" where
  "age_range_patterns = [
     ''%b(%d{1,2})%s*(?:-|~n|~M|ile)%s*(%d{1,2})%s*yas%s*(?:(?:cocuklar|grubu)%b[^.!?;]{0,30}%b(?'' @
     '':icin|uygun|onerilir)|(?:icin|uygun|onerilir)%b)'',
     ''%byas%s+grubu%s*(%d{1,2})%s*(?:-|~n|~M|ile)%s*(%d{1,2})%b'',
     ''%b(?:recommended%s+for%s+|for%s+(?:children|kids)%s+)?ages?%s*(%d{1,2})%s*(?:-|~n|~M|to)%s'' @
     ''*(%d{1,2})%b'']"

definition age_minimum_patterns :: "string list" where
  "age_minimum_patterns = [
     ''%b(%d{1,2})%s*%+%s*yas%b'',
     ''%byas%s+siniri%s*:?%s*(%d{1,2})%s*%+'',
     ''%bages?%s*(%d{1,2})%s*%+'',
     ''%b(%d{1,2})%s*yas%s+ve%s+uzeri%b'',
     ''%b(?:ages?%s+)(%d{1,2})%s+(?:and%s+)?(?:up|over|older)%b'']"

definition exact_age_patterns :: "string list" where
  "exact_age_patterns = [
     ''%b(%d{1,2})%s*yas%s+(?:grubu|icin)%b'',
     ''%b(?:recommended%s+for|suitable%s+for)%s+(%d{1,2})[ -]year[ -]olds?%b'']"

definition eighteen_plus_rx :: string where
  "eighteen_plus_rx =
     ''%b18%s*%+''"

definition range_before_rx :: string where
  "range_before_rx =
     ''%d%s*(?:-|~n|~M|ile)%s*$''"

definition excluded_below_rx :: string where
  "excluded_below_rx =
     ''%b(%d{1,2})%s*yas%s+alti%s+(?:giremez|kabul edilmez)%b''"

definition sentence_end :: "nat \<Rightarrow> bool" where
  "sentence_end c \<longleftrightarrow> c \<in> {46, 33, 63, 59}"

text \<open>The clause around a match: back to the last of \<open>. ! ? ;\<close> and on to the next.\<close>

definition clause_around :: "rx_match \<Rightarrow> jstr" where
  "clause_around m =
     rev (takeWhile (\<lambda>c. \<not> sentence_end c) (rm_before m)) @ rm_text m
       @ takeWhile (\<lambda>c. \<not> sentence_end c) (rm_after m)"

definition age_finding :: "rx_match \<Rightarrow> bool \<Rightarrow> requirement_status list" where
  "age_finding m included =
     (if test (re age_negated_rx) (clause_around m) then (if included then [Contradicted] else [])
      else [if included then Supported else Contradicted])"

definition findings_of ::
  "string list \<Rightarrow> (rx_match \<Rightarrow> requirement_status list) \<Rightarrow> jstr \<Rightarrow> requirement_status list" where
  "findings_of patterns f text = concat (map (\<lambda>p. concat (map f (match_all (re p) text))) patterns)"

definition age_findings :: "jstr \<Rightarrow> nat \<Rightarrow> requirement_status list" where
  "age_findings text age =
     findings_of age_range_patterns
       (\<lambda>m. age_finding m (group_number m 1 \<le> age \<and> age \<le> group_number m 2)) text
     @ findings_of age_minimum_patterns (\<lambda>m. age_finding m (age \<ge> group_number m 1)) text
     @ (if test (re eighteen_plus_rx) text \<and> age < 18 then [Contradicted] else [])
     @ findings_of exact_age_patterns
         (\<lambda>m. if test (re range_before_rx) (rev (take 8 (rm_before m))) then []
              else age_finding m (age = group_number m 1)) text
     @ findings_of [excluded_below_rx]
         (\<lambda>m. [if age < group_number m 1 then Contradicted else Supported]) text"

definition explicit_age_suitability :: "jstr \<Rightarrow> nat \<Rightarrow> requirement_status" where
  "explicit_age_suitability text age =
     (let findings = age_findings text age
      in if Contradicted \<in> set findings then Contradicted
         else if Supported \<in> set findings then Supported else Unknown)"

section \<open>Checking an event\<close>

definition evidence_fields :: "requirement_kind \<Rightarrow> event \<Rightarrow> jstr list" where
  "evidence_fields k e =
     (if k = Accessibility then [ev_title e, ev_description e, ev_venue e, ev_address e]
      else [ev_title e, ev_description e, ev_category e])"

definition evidence_text_of :: "platform \<Rightarrow> event \<Rightarrow> requirement_kind \<Rightarrow> jstr" where
  "evidence_text_of P e k =
     requirement_text P (join (u ''. '') (filter (\<lambda>s. s \<noteq> []) (evidence_fields k e)))"

definition sentences :: "jstr \<Rightarrow> jstr list" where
  "sentences text = split_rx (re ''(?<=[.!?])%s+'') text"

text \<open>At most three sentences are quoted, each cut to 240 units.\<close>

definition quoted :: "jstr list \<Rightarrow> jstr list" where
  "quoted lines = map (take 240) (take 3 lines)"

definition evidence_for :: "jstr \<Rightarrow> string \<Rightarrow> jstr list" where
  "evidence_for text pattern = quoted (filter (test (re pattern)) (sentences text))"

record finding =
  fd_positive :: bool
  fd_negative :: bool
  fd_evidence :: "jstr list"

definition text_sensitive :: "requirement_kind \<Rightarrow> bool" where
  "text_sensitive k \<longleftrightarrow> k = Genre \<or> k = Accessibility \<or> k = Audience"

definition find_value :: "jstr \<Rightarrow> requirement \<Rightarrow> jstr \<Rightarrow> finding" where
  "find_value text r value =
     (case term_of value of
        None \<Rightarrow> \<lparr>fd_positive = False, fd_negative = False, fd_evidence = []\<rparr>
      | Some (pos, neg) \<Rightarrow>
          let negatives = evidence_for text neg;
              positives = filter (\<lambda>line. \<not> test (re neg) line) (evidence_for text pos)
          in \<lparr>fd_positive = (positives \<noteq> []
                 \<and> (\<not> (rq_policy r = Require_support \<and> text_sensitive (rq_kind r)) \<or> negatives = [])),
              fd_negative = (negatives \<noteq> []), fd_evidence = negatives @ positives\<rparr>)"

definition scalar_activities :: "jstr list" where
  "scalar_activities = map u [''romantic'', ''uncrowded'', ''alcohol_free'', ''quiet'', ''seated'']"

definition status_of_findings :: "requirement \<Rightarrow> finding list \<Rightarrow> requirement_status" where
  "status_of_findings r fs =
     (let anyPositive = list_ex fd_positive fs; anyNegative = list_ex fd_negative fs
      in if rq_policy r = Exclude_positive_evidence then (if anyPositive then Contradicted else Supported)
         else if rq_kind r = Content_kind then
           (if anyPositive then Contradicted else if list_all fd_negative fs then Supported else Unknown)
         else if rq_value r \<in> set scalar_activities then
           (if anyNegative then Contradicted else if anyPositive then Supported else Unknown)
         else if (if rq_kind r = Accessibility then list_all fd_positive fs else anyPositive)
         then Supported else if anyNegative then Contradicted else Unknown)"

definition check_requirement :: "platform \<Rightarrow> event \<Rightarrow> requirement \<Rightarrow> requirement_check" where
  "check_requirement P e r =
     (let text = evidence_text_of P e (rq_kind r)
      in if rq_kind r = Audience \<and> starts_with (rq_value r) (u ''age:'') then
           (let status = explicit_age_suitability text (decimal_value (drop 4 (rq_value r)))
            in \<lparr>ck_requirement = r, ck_status = status,
                ck_evidence = (if status = Unknown then []
                  else take 3 (filter (test (re ''%b%d{1,2}%b'')) (sentences text)))\<rparr>)
         else
           (let fs = map (find_value text r) (values_of (rq_value r))
            in \<lparr>ck_requirement = r, ck_status = status_of_findings r fs,
                ck_evidence = uniq (concat (map fd_evidence fs))\<rparr>))"

definition check_requirements :: "platform \<Rightarrow> event \<Rightarrow> requirement list \<Rightarrow> requirement_check list" where
  "check_requirements P e rs = map (check_requirement P e) rs"

definition meets_requirements :: "platform \<Rightarrow> event \<Rightarrow> requirement list \<Rightarrow> bool" where
  "meets_requirements P e rs \<longleftrightarrow> list_all (\<lambda>c. ck_status c = Supported) (check_requirements P e rs)"

text \<open>
  \<open>checkPredicateEvidence\<close>: the negating phrases are blanked before an affirmation is sought in
  a sentence, and neither wins a conflict.
\<close>

definition affirming_sentences :: "string \<Rightarrow> string \<Rightarrow> jstr \<Rightarrow> jstr list" where
  "affirming_sentences pos neg text =
     filter (\<lambda>line. test (re pos) (replace_all (re neg) [32] line)) (sentences text)"

definition check_predicate_evidence ::
  "platform \<Rightarrow> event \<Rightarrow> requirement_kind \<Rightarrow> string \<Rightarrow> requirement_status \<times> jstr list" where
  "check_predicate_evidence P e k value =
     (case term_of (u value) of
        None \<Rightarrow> (Unknown, [])
      | Some (pos, neg) \<Rightarrow>
          let text = evidence_text_of P e k;
              negatives = evidence_for text neg;
              positives = quoted (affirming_sentences pos neg text);
              status = (if positives \<noteq> [] \<and> negatives \<noteq> [] then Unknown
                        else if positives \<noteq> [] then Supported
                        else if negatives \<noteq> [] then Contradicted else Unknown)
          in (status, uniq (positives @ negatives)))"

end
