(* ===== verification/Plan_Evidence.thy ===== *)
theory Plan_Evidence
  imports Requirements
begin

text \<open>
  \<open>web/lib/age-evidence.ts\<close> and \<open>web/lib/plan-evidence.ts\<close>: what the record of an event says
  about every atom of a plan, and the three-valued evaluation of the plan's condition tree. The
  labels of an event are the ones \<open>valid_labels\<close> accepted.
\<close>

section \<open>Ages\<close>

text \<open>A rule names both bounds, a lower bound, or stands for a fixed lower bound.\<close>

datatype age_pattern = Range_of string | Minimum_of string | Fixed_from string nat

definition age_patterns :: "age_pattern list" where
  "age_patterns = [
     Range_of (''%b(?:yas (?:siniri|araligi|grubu)|age (?:limit|range|restriction)|ages?)%s*[:~;-]?%s*(%d'' @
       ''{1,3})%s*[-~n]%s*(%d{1,3})(?:%s*(?:yas|years?))?%b''),
     Minimum_of (''%b(?:yas (?:siniri|araligi|grubu)|age (?:limit|restriction)|ages?)%s*[:~;-]?%s*(%d{1,3})'' @
       ''%s*(?:%+|ve uzeri|and (?:over|up)|or older)''),
     Minimum_of (''(?<!%d)%+?(%d{1,3})%s*%+?%s*yas siniri(?: vardir| bulunmaktadir)?%b''),
     Range_of (''%b(%d{1,3})%s*[-~n]%s*(%d{1,3})%s*yas(?:%s+arasi)?%s+(?:cocuk(?:lar|lara)?|izleyici(?:le'' @
       ''r|lere)?|katilimci(?:lar|lara)?)%s+(?:icin(?:dir)?|yonelik(?:tir)?|uygun(?:dur)?|onerili'' @
       ''r|katilabilir)''),
     Minimum_of (''%b(%d{1,3})%s*(?:yas%s*(?:ve uzeri|ustu)|%+)%s+(?:(?:olan|tum)%s+)?(?:(?:cocuk(?:lar|lar'' @
       ''a)?|izleyici(?:ler|lere)?|katilimci(?:lar|lara)?)%s+(?:icin(?:dir)?|yonelik(?:tir)?|uygu'' @
       ''n(?:dur)?|onerilir|katilabilir)|icin uygundur)''),
     Minimum_of (''%b(?:suitable|recommended|intended) for%s+(?:children%s+)?(?:aged?%s+)?(%d{1,3})%s*(?:%+'' @
       ''|and (?:over|up)|or older)''),
     Fixed_from (''(?:^|[.!?;%n]%s*|%bage (?:limit|policy|restriction):?%s*|%b(?:suitable|recommended|open)'' @
       '' (?:for|to)%s+)all ages%b'') 0,
     Fixed_from (''%b(?:her yas(?:tan izleyicilere)?(?: icin)? uygundur|yas siniri (?:yoktur|yok|bulunmamak'' @
       ''tadir))%b'') 0,
     Fixed_from (''%b(?:adults? only|yetiskinlere ozel|18 yas ve uzeri)%b'') 18]"

definition negated_before_rx :: string where
  "negated_before_rx =
     ''(?:%b(?:not|no|without)%s+|%bnot%s+(?:suitable|recommended)%s+for%s*)$''"

definition negated_after_rx :: string where
  "negated_after_rx =
     ''%b(?:(?:(?:uygun|gecerli) )?degil(?:dir)?|uygun olmayan|onerilmez|giremez|kabul edilmez|do'' @
     ''es not apply|not (?:suitable|allowed))%b''"

record age_rule =
  ar_min :: nat
  ar_max :: nat
  ar_evidence :: jstr

definition age_clause_end :: "nat \<Rightarrow> bool" where
  "age_clause_end c \<longleftrightarrow> c \<in> {46, 33, 63, 59, 10}"

text \<open>\<open>add\<close>: the rules found so far and the uncertain matches.\<close>

definition add_age_rule ::
  "rx_match \<Rightarrow> nat \<Rightarrow> nat \<Rightarrow> age_rule list \<times> jstr list \<Rightarrow> age_rule list \<times> jstr list" where
  "add_age_rule m low high st =
     (let past = rev (take 24 (rm_before m));
          rest = take 60 (takeWhile (\<lambda>c. \<not> age_clause_end c) (rm_after m))
      in if test (re negated_before_rx) past \<or> test (re negated_after_rx) rest
         then (fst st, snd st @ [rm_text m])
         else if low \<le> high \<and> high \<le> 120
         then (fst st @ [\<lparr>ar_min = low, ar_max = high, ar_evidence = take 240 (rm_text m)\<rparr>], snd st)
         else st)"

fun read_age_pattern ::
  "jstr \<Rightarrow> age_pattern \<Rightarrow> age_rule list \<times> jstr list \<Rightarrow> age_rule list \<times> jstr list" where
  "read_age_pattern text (Range_of p) st =
     fold (\<lambda>m. add_age_rule m (group_number m 1) (group_number m 2)) (match_all (re p) text) st"
| "read_age_pattern text (Minimum_of p) st =
     fold (\<lambda>m. add_age_rule m (group_number m 1) 120) (match_all (re p) text) st"
| "read_age_pattern text (Fixed_from p low) st =
     fold (\<lambda>m. add_age_rule m low 120) (match_all (re p) text) st"

type_synonym verdict = "requirement_status \<times> jstr list"

definition check_age_evidence :: "platform \<Rightarrow> event \<Rightarrow> rat \<Rightarrow> verdict" where
  "check_age_evidence P e years =
     (let (rules, uncertain) =
            fold (read_age_pattern (fold_text P (ev_description e))) age_patterns ([], []);
          fits = (\<lambda>r. of_nat (ar_min r) \<le> years \<and> years \<le> of_nat (ar_max r))
      in if uncertain \<noteq> [] then (Unknown, map ar_evidence rules @ uncertain)
         else if rules = [] then (Unknown, [])
         else (if list_all fits rules then Supported
               else if list_ex fits rules then Unknown else Contradicted,
               map ar_evidence rules))"

section \<open>Tables\<close>

fun categories_of :: "plan_category \<Rightarrow> jstr list" where
  "categories_of Concert = [tr ''Konser'']"
| "categories_of Theatre = [tr ''Tiyatro'']"
| "categories_of Standup = [tr ''Stand-up'']"
| "categories_of Workshop = [tr ''Workshop'', tr ''E~gitim'']"
| "categories_of Exhibition = [tr ''Sergi'', tr ''M~uze'']"
| "categories_of Festival = [tr ''Festival'']"
| "categories_of Sport = [tr ''Spor'']"
| "categories_of Cinema = [tr ''Sinema'']"
| "categories_of Talk = [tr ''S~oyle~si'']"
| "categories_of Dance = [tr ''Dans'']"
| "categories_of Show = [tr ''G~osteri'', tr ''Tiyatro'', tr ''Stand-up'', tr ''Dans'']"
| "categories_of Course = [tr ''E~gitim'', tr ''Workshop'']"
| "categories_of Tour = [tr ''Gezi'']"
| "categories_of Museum = [tr ''M~uze'']"

definition plan_categories :: "plan_category list" where
  "plan_categories =
     [Concert, Theatre, Standup, Workshop, Exhibition, Festival, Sport, Cinema, Talk, Dance, Show,
      Course, Tour, Museum]"

definition canonical_category :: "jstr \<Rightarrow> bool" where
  "canonical_category c \<longleftrightarrow> list_ex (\<lambda>k. c \<in> set (categories_of k)) plan_categories"

definition genre_topics :: "jstr list" where
  "genre_topics =
     map u [''jazz'', ''blues'', ''rock'', ''electronic'', ''rap'', ''classical'', ''comedy'', ''drama'']"

definition topic_terms :: "(string \<times> string list) list" where
  "topic_terms = [
     (''jazz'', [''caz'', ''jazz'']),
     (''blues'', [''blues'']),
     (''rock'', [''rock'']),
     (''classical'', [''klasik muzik'', ''classical music'', ''classical'']),
     (''electronic'', [''elektronik muzik'', ''electronic music'', ''elektronik'', ''electronic'',
        ''techno'', ''tekno'']),
     (''rap'', [''rap'', ''hip-hop'', ''hip hop'']),
     (''pop'', [''pop'']),
     (''folk'', [''turku'', ''halk muzigi'', ''folk'']),
     (''photography'', [''fotografcilik'', ''fotograf'', ''photography'', ''photo'']),
     (''history'', [''tarih'', ''tarihi'', ''history'', ''historical'']),
     (''ceramics'', [''seramik'', ''ceramics'', ''ceramic'', ''comlek'', ''pottery'']),
     (''gardening'', [''bahcecilik'', ''bahce'', ''gardening'', ''garden'']),
     (''painting'', [''resim'', ''painting'', ''tablo'']),
     (''sculpture'', [''heykel'', ''sculpture'']),
     (''literature'', [''edebiyat'', ''literature'', ''kitap'', ''book'', ''books'']),
     (''poetry'', [''siir'', ''poetry'', ''poem'']),
     (''science'', [''bilim'', ''science'']),
     (''technology'', [''teknoloji'', ''technology'', ''tech'']),
     (''architecture'', [''mimari'', ''mimarlik'', ''architecture'']),
     (''cooking'', [''yemek yapimi'', ''yemek atolyesi'', ''mutfak'', ''cooking'', ''cookery'',
        ''gastronomi'', ''gastronomy'']),
     (''wine'', [''sarap'', ''wine'']),
     (''coffee'', [''kahve'', ''coffee'']),
     (''design'', [''tasarim'', ''design'']),
     (''opera'', [''opera'']),
     (''musical'', [''muzikal'', ''muzikali'', ''musical'', ''musicals'']),
     (''improv'', [''dogaclama'', ''improv'', ''improvisation'']),
     (''magic'', [''sihirbazlik'', ''illuzyon'', ''magic'']),
     (''philosophy'', [''felsefe'', ''philosophy'']),
     (''astronomy'', [''astronomi'', ''astronomy'']),
     (''kids'', [''cocuk oyunu'', ''cocuk tiyatrosu'', ''cocuk etkinligi'', ''kids show'',
        ''children~qs play'']),
     (''horror'', [''korku'', ''horror'', ''urkutucu'', ''scary'']),
     (''comedy'', [''komedi'', ''comedy'', ''gulduru'']),
     (''nightclub'', [''gece kulubu'', ''nightclub'']),
     (''bar'', [''bar'', ''pub'']),
     (''tasting'', [''tadim'', ''tadimi'', ''tasting'', ''tastings'']),
     (''food'', [''yemek'', ''food'', ''mutfak'']),
     (''animation'', [''animasyon'', ''animation'']),
     (''dancing'', [''dans gecesi'', ''dans partisi'', ''dance night'', ''dance party'',
        ''dancing''])]"

definition special_topic_terms :: "(string \<times> string list) list" where
  "special_topic_terms =
     [(''dancing'', [''dans gecesi'', ''dans partisi'', ''dance night'', ''dance party''])]"

definition terms_named :: "(string \<times> string list) list \<Rightarrow> jstr \<Rightarrow> jstr list" where
  "terms_named table value =
     (case map_of (map (\<lambda>(k, ts). (u k, map tr ts)) table) value of Some ts \<Rightarrow> ts | None \<Rightarrow> [])"

text \<open>A whole word of the text: no letter or number on either side.\<close>

definition word_rx :: "rx \<Rightarrow> rx" where
  "word_rx r =
     (let edge = (\<lambda>c. letter_unit c \<or> number_unit c)
      in seqs [Behind (\<lambda>past. \<not> unit_ahead edge past), r, Unless (Chr edge)])"

text \<open>
  \<open>topicPattern\<close>: the surfaces of a topic, each a literal. A topic that normalises to nothing has
  the empty alternative. (The names that every JavaScript object inherits are not topics here.)
\<close>

definition topic_surfaces :: "platform \<Rightarrow> jstr \<Rightarrow> jstr list" where
  "topic_surfaces P value =
     filter (\<lambda>s. s \<noteq> [])
       (map (\<lambda>t. trim (fold_text P t))
          (terms_named topic_terms value @ terms_named special_topic_terms value @ [value]))"

definition topic_pattern :: "platform \<Rightarrow> jstr \<Rightarrow> rx" where
  "topic_pattern P value =
     (let surfaces = topic_surfaces P value
      in word_rx (if surfaces = [] then Eps else alts (map Lit surfaces)))"

definition canonical_district :: "platform \<Rightarrow> jstr \<Rightarrow> jstr option" where
  "canonical_district P name = map_of (rev (map (\<lambda>d. (fold_text P d, d)) DISTRICTS)) name"

fun experience_predicate :: "experience \<Rightarrow> (requirement_kind \<times> string) option" where
  "experience_predicate Quiet = Some (Activity, ''quiet'')"
| "experience_predicate Seated = Some (Activity, ''seated'')"
| "experience_predicate Romantic = Some (Activity, ''romantic'')"
| "experience_predicate Uncrowded = Some (Activity, ''uncrowded'')"
| "experience_predicate Family_friendly = Some (Audience, ''family_friendly'')"
| "experience_predicate Wheelchair_accessible = Some (Accessibility, ''step_free'')"
| "experience_predicate Outdoors = None"
| "experience_predicate Beginner_friendly = None"

definition open_air_rx :: string where
  "open_air_rx =
     ''%b(?:acik ?hava(?:da)?|open[- ]air|amfi ?tiyatro|amfi|amphitheat(?:re|er))%b''"

definition label_support :: rat where "label_support = 7 / 10"
definition child_suitable :: rat where "child_suitable = 65 / 100"
definition child_unsuitable :: rat where "child_unsuitable = 1 / 4"

section \<open>Labels\<close>

definition label_value :: "json \<Rightarrow> string \<Rightarrow> jstr option" where
  "label_value labels field = as_str (jget labels field)"

definition label_quote :: "json \<Rightarrow> string \<Rightarrow> jstr option" where
  "label_quote labels field = as_str (jget (jget labels ''evidence'') field)"

definition label_number :: "json \<Rightarrow> rat" where
  "label_number v = (case as_fin v of Some r \<Rightarrow> r | None \<Rightarrow> 0)"

definition label_format :: "event \<Rightarrow> string \<Rightarrow> rat" where
  "label_format e field =
     (case ev_labels e of
        Some l \<Rightarrow> label_number (jget (jget l ''formats'') field) | None \<Rightarrow> 0)"

definition event_label :: "event \<Rightarrow> string \<Rightarrow> jstr option" where
  "event_label e field = Option.bind (ev_labels e) (\<lambda>l. label_value l field)"

definition event_quote :: "event \<Rightarrow> string \<Rightarrow> jstr option" where
  "event_quote e field = Option.bind (ev_labels e) (\<lambda>l. label_quote l field)"

definition label_evidence :: "jstr option list \<Rightarrow> jstr list" where
  "label_evidence texts = filter (\<lambda>s. s \<noteq> []) (List.map_filter (\<lambda>t. t) texts)"

text \<open>\<open>toFixed(2)\<close> of a number that is not negative: the nearer hundredth, the larger at a tie.\<close>

definition fixed2 :: "rat \<Rightarrow> jstr" where
  "fixed2 x =
     (let n = nat \<lfloor>100 * x + 1 / 2\<rfloor>
      in nat_digits (n div 100) @ u ''.'' @ [48 + n div 10 mod 10, 48 + n mod 10])"

definition child_suitable_text :: "json \<Rightarrow> jstr" where
  "child_suitable_text labels =
     u ''child-suitable '' @ fixed2 (label_number (jget labels ''childSuitable''))"

definition child_audience :: "platform \<Rightarrow> event \<Rightarrow> verdict" where
  "child_audience P e =
     (case ev_labels e of
        None \<Rightarrow>
          let (status, evidence) = check_predicate_evidence P e Audience ''family_friendly''
          in (if status = Supported then Supported else Unknown, evidence)
      | Some labels \<Rightarrow>
          let evidence = label_evidence [label_quote labels ''audience'', label_quote labels ''age''];
              audience = label_value labels ''audience'';
              minAge = as_integer (jget labels ''minAge'');
              suitable = label_number (jget labels ''childSuitable'')
          in if audience = Some (u ''adult_only'') \<or> (case minAge of Some n \<Rightarrow> n \<ge> 13 | None \<Rightarrow> False)
             then (Contradicted, evidence)
             else if audience = Some (u ''children'') \<or> audience = Some (u ''family'')
             then (Supported, evidence)
             else if (case minAge of Some n \<Rightarrow> n \<le> 10 | None \<Rightarrow> False) \<or> suitable \<ge> child_suitable
             then (Supported, if evidence \<noteq> [] then evidence else [child_suitable_text labels])
             else if suitable \<le> child_unsuitable then (Contradicted, [child_suitable_text labels])
             else (Unknown, evidence))"

definition age_result :: "platform \<Rightarrow> event \<Rightarrow> rat \<Rightarrow> verdict" where
  "age_result P e years =
     (case ev_labels e of
        None \<Rightarrow> check_age_evidence P e years
      | Some labels \<Rightarrow>
          let minAge = as_integer (jget labels ''minAge'');
              maxAge = as_integer (jget labels ''maxAge'');
              audience = label_value labels ''audience'';
              stated = check_age_evidence P e years
          in if minAge \<noteq> None \<or> maxAge \<noteq> None then
               (if of_int (case minAge of Some n \<Rightarrow> n | None \<Rightarrow> 0) \<le> years
                   \<and> years \<le> of_int (case maxAge of Some n \<Rightarrow> n | None \<Rightarrow> 120)
                then Supported else Contradicted, label_evidence [label_quote labels ''age''])
             else if audience = Some (u ''adult_only'') \<and> years < 18
             then (Contradicted, label_evidence [label_quote labels ''audience''])
             else if fst stated \<noteq> Unknown \<or> snd stated \<noteq> [] then stated
             else if years < 13 then child_audience P e
             else if audience \<in> {Some (u ''general''), Some (u ''family''), Some (u ''adult_only'')}
             then (Supported, label_evidence [label_quote labels ''audience''])
             else (Unknown, []))"

section \<open>Atoms\<close>

text \<open>\<open>event.district || event.address || event.venue\<close>.\<close>

definition place_text :: "event \<Rightarrow> jstr" where
  "place_text e =
     (if ev_district e \<noteq> [] then ev_district e
      else if ev_address e \<noteq> [] then ev_address e else ev_venue e)"

definition decide :: "bool \<Rightarrow> requirement_status" where
  "decide b = (if b then Supported else Contradicted)"

definition category_result :: "event \<Rightarrow> plan_category \<Rightarrow> verdict" where
  "category_result e c =
     (let labels = filter canonical_category
            (ev_category e # (case event_label e ''category'' of Some l \<Rightarrow> [l] | None \<Rightarrow> []))
      in (if labels = [] then Unknown
          else decide (list_ex (\<lambda>l. l \<in> set (categories_of c)) labels),
          uniq (if labels = [] then [ev_category e] else labels)))"

text \<open>The instants of an event that reached the evaluation parse: it was eligible.\<close>

definition day_of :: "platform \<Rightarrow> jstr \<Rightarrow> jstr" where
  "day_of P stamp = istanbul_day P (the (date_parse stamp))"

definition date_result :: "platform \<Rightarrow> event \<Rightarrow> jstr \<Rightarrow> jstr \<Rightarrow> verdict" where
  "date_result P e from to =
     (case ev_attendanceTiming e of
        Some (AdmissionWindow a b) \<Rightarrow>
          (decide (day_of P b \<ge> from \<and> day_of P a \<le> to), [day_of P a @ [8211] @ day_of P b])
      | _ \<Rightarrow>
          let day = day_of P (ev_startsAt e) in (decide (day \<ge> from \<and> day \<le> to), [day]))"

definition time_result ::
  "platform \<Rightarrow> event \<Rightarrow> jstr option \<Rightarrow> jstr option \<Rightarrow> bool option \<Rightarrow> bool option \<Rightarrow> verdict" where
  "time_result P e from to fromExclusive toExclusive =
     (if source_time_is_doors_only (ev_description e)
         \<or> (case ev_attendanceTiming e of Some t \<Rightarrow> t \<noteq> TimedSession | None \<Rightarrow> False)
      then (Unknown, [])
      else
        let time = istanbul_clock P (the (date_parse (ev_startsAt e)));
            a = or_empty from; b = or_empty to;
            ok = ((a = [] \<or> (if fromExclusive = Some True then time > a else time \<ge> a))
                  \<and> (b = [] \<or> (if toExclusive = Some True then time < b else time \<le> b)))
        in (decide ok, [time]))"

definition budget_result ::
  "platform \<Rightarrow> event \<Rightarrow> rat option \<Rightarrow> comparison \<Rightarrow> rat \<Rightarrow> budget_basis \<Rightarrow> verdict" where
  "budget_result P e partyCount comparison amount basis =
     (case ev_price e of
        None \<Rightarrow> (Unknown, [])
      | Some price \<Rightarrow>
          if comparison = Approximate \<or> ev_currency e \<noteq> tl_currency then (Unknown, [])
          else if basis = Group_total \<and> partyCount = None then (Unknown, [])
          else
            let paid = (if basis = Group_total then price * the partyCount else price)
            in (decide (case comparison of
                          Less \<Rightarrow> paid < amount | Less_equal \<Rightarrow> paid \<le> amount
                        | Greater \<Rightarrow> paid > amount | _ \<Rightarrow> paid \<ge> amount),
                [pl_number P paid @ u '' TRY'']))"

definition side_result :: "platform \<Rightarrow> event \<Rightarrow> jstr \<Rightarrow> verdict" where
  "side_result P e name =
     (let wanted = side_named (fold_text P name);
          own = event_location_of P e;
          actual = (case (loc_side own, event_label e ''district'') of
             (None, Some d) \<Rightarrow>
               if d \<noteq> [] then event_location_of P (e\<lparr>ev_district := d\<rparr>) else own
           | _ \<Rightarrow> own)
      in if wanted = None \<or> loc_side actual = None then (Unknown, [])
         else (decide (loc_side actual = wanted), [place_text e]))"

definition in_district :: "platform \<Rightarrow> int \<Rightarrow> event \<Rightarrow> jstr \<Rightarrow> bool" where
  "in_district P now e name \<longleftrightarrow> is_eligible P e (empty_filters\<lparr>fl_district := Some name\<rparr>) now"

definition district_result :: "platform \<Rightarrow> int \<Rightarrow> event \<Rightarrow> jstr \<Rightarrow> verdict" where
  "district_result P now e name =
     (let stated = canonical_district P (fold_text P (ev_district e));
          labeled = or_empty (event_label e ''district'')
      in if in_district P now e name then (Supported, [place_text e])
         else if (case stated of Some d \<Rightarrow> in_district P now e d | None \<Rightarrow> False)
         then (Contradicted, [the stated])
         else if labeled \<noteq> []
         then (decide (fold_text P labeled = fold_text P name),
               label_evidence [Some labeled, event_quote e ''place''])
         else (Unknown, if ev_district e \<noteq> [] then [ev_district e] else []))"

definition elsewhere :: "event \<Rightarrow> bool" where
  "elsewhere e \<longleftrightarrow> event_label e ''place'' \<in> {Some (u ''other_city''), Some (u ''online'')}"

definition location_result ::
  "platform \<Rightarrow> int \<Rightarrow> event \<Rightarrow> jstr \<Rightarrow> place_precision \<Rightarrow> verdict" where
  "location_result P now e name precision =
     (if elsewhere e
      then (Contradicted, label_evidence [event_label e ''place'', event_quote e ''place''])
      else case precision of
             Neighborhood_place \<Rightarrow> (Unknown, [])
           | Side_place \<Rightarrow> side_result P e name
           | District_place \<Rightarrow> district_result P now e name)"

definition party_cue_rx :: rx where
  "party_cue_rx = word_rx (re ''(?:dj|eglence|parti|party)'')"

text \<open>Source text that names the topic; its absence is unknown, never a contradiction.\<close>

definition topic_evidence :: "platform \<Rightarrow> event \<Rightarrow> jstr \<Rightarrow> jstr list" where
  "topic_evidence P e value =
     (let text = fold_text P (join (u ''. '') (filter (\<lambda>s. s \<noteq> [])
            [ev_title e, (if value = u ''musical'' then [] else ev_description e),
             or_empty (ev_sourceCategory e)]));
          cue = (value \<noteq> u ''dancing'' \<or> test party_cue_rx text)
      in if cue then quoted (filter (test (topic_pattern P value)) (sentences text)) else [])"

definition known_genre :: "jstr \<Rightarrow> string" where
  "known_genre value =
     (case find (\<lambda>g. u g = value) [''jazz'', ''blues'', ''rock'', ''electronic'', ''rap'', ''classical'',
        ''comedy'', ''drama''] of Some g \<Rightarrow> g | None \<Rightarrow> [])"

definition topic_result :: "platform \<Rightarrow> event \<Rightarrow> jstr \<Rightarrow> verdict" where
  "topic_result P e value =
     (if value \<notin> set genre_topics
      then (let evidence = topic_evidence P e value
            in (if evidence \<noteq> [] then Supported else Unknown, evidence))
      else check_predicate_evidence P e Genre (known_genre value))"

definition outdoors_result :: "platform \<Rightarrow> event \<Rightarrow> verdict" where
  "outdoors_result P e =
     (let texts = filter (\<lambda>s. s \<noteq> []) [ev_venue e, ev_title e, ev_description e];
          evidence = quoted (filter (\<lambda>part. test (re open_air_rx) (fold_text P part))
                       (concat (map sentences texts)))
      in if evidence = [] \<and> label_format e ''outdoor'' \<ge> label_support
         then (Supported, label_evidence [event_quote e ''format'', Some (u ''labeled outdoor'')])
         else (if evidence \<noteq> [] then Supported else Unknown, evidence))"

definition experience_result :: "platform \<Rightarrow> event \<Rightarrow> experience \<Rightarrow> verdict" where
  "experience_result P e x =
     (if x = Outdoors then outdoors_result P e
      else case experience_predicate x of
             None \<Rightarrow> (Unknown, [])
           | Some (k, value) \<Rightarrow>
               let check = check_predicate_evidence P e k value
               in if x = Seated \<and> fst check = Unknown \<and> label_format e ''seated'' \<ge> label_support
                  then (Supported, label_evidence [event_quote e ''format'', Some (u ''labeled seated'')])
                  else check)"

fun atom_result :: "platform \<Rightarrow> int \<Rightarrow> rat option \<Rightarrow> event \<Rightarrow> plan_atom \<Rightarrow> verdict" where
  "atom_result P now partyCount e (Category c) = category_result e c"
| "atom_result P now partyCount e (Date from to) = date_result P e from to"
| "atom_result P now partyCount e (Clock from to fromExclusive toExclusive) =
     time_result P e from to fromExclusive toExclusive"
| "atom_result P now partyCount e (Budget comparison amount currency basis) =
     budget_result P e partyCount comparison amount basis"
| "atom_result P now partyCount e (Location name precision) =
     location_result P now e name precision"
| "atom_result P now partyCount e (Topic value) = topic_result P e value"
| "atom_result P now partyCount e (Experience x) = experience_result P e x"
| "atom_result P now partyCount e (Content c) =
     check_predicate_evidence P e Content_kind
       (if c = Profanity then ''swearing'' else ''sexual_content'')"
| "atom_result P now partyCount e (Party n) = (Supported, [])"
| "atom_result P now partyCount e (Companion c) =
     (if c = Children \<or> c = Family then child_audience P e else (Supported, []))"
| "atom_result P now partyCount e (Age years) = age_result P e years"
| "atom_result P now partyCount e (Mood m) = (Unknown, [])"

section \<open>Plans\<close>

datatype plan_evidence =
    Ev_atom (ev_status: requirement_status) plan_atom "jstr list" "jstr option"
  | Ev_all (ev_status: requirement_status) "plan_evidence list" "jstr option"
  | Ev_any (ev_status: requirement_status) "plan_evidence list" "jstr option"
  | Ev_not (ev_status: requirement_status) plan_evidence "jstr option"

fun not_status :: "requirement_status \<Rightarrow> requirement_status" where
  "not_status Unknown = Unknown"
| "not_status Supported = Contradicted"
| "not_status Contradicted = Supported"

definition all_status :: "requirement_status list \<Rightarrow> requirement_status" where
  "all_status ss =
     (if Contradicted \<in> set ss then Contradicted
      else if list_all (\<lambda>s. s = Supported) ss then Supported else Unknown)"

definition any_status :: "requirement_status list \<Rightarrow> requirement_status" where
  "any_status ss =
     (if Supported \<in> set ss then Supported
      else if list_all (\<lambda>s. s = Contradicted) ss then Contradicted else Unknown)"

fun is_topic :: "plan_atom \<Rightarrow> bool" where
  "is_topic (Topic t) = True"
| "is_topic _ = False"

text \<open>Under a negation, a topic that the source does not name at all is contradicted.\<close>

definition polar_status :: "bool \<Rightarrow> plan_atom \<Rightarrow> verdict \<Rightarrow> requirement_status" where
  "polar_status negated a v =
     (if negated \<and> is_topic a \<and> fst v = Unknown \<and> snd v = [] then Contradicted else fst v)"

fun evaluate :: "(plan_atom \<Rightarrow> verdict) \<Rightarrow> bool \<Rightarrow> condition \<Rightarrow> plan_evidence" where
  "evaluate result negated (Atom i a) =
     Ev_atom (polar_status negated a (result a)) a (snd (result a)) i"
| "evaluate result negated (Not_of i c) =
     (let child = evaluate result (\<not> negated) c in Ev_not (not_status (ev_status child)) child i)"
| "evaluate result negated (All_of i cs) =
     (let children = map (evaluate result negated) cs
      in Ev_all (all_status (map ev_status children)) children i)"
| "evaluate result negated (Any_of i cs) =
     (let children = map (evaluate result negated) cs
      in Ev_any (any_status (map ev_status children)) children i)"

fun party_counts :: "condition \<Rightarrow> rat list" where
  "party_counts (Atom i a) = (case a of Party n \<Rightarrow> [n] | _ \<Rightarrow> [])"
| "party_counts (All_of i cs) = concat (map party_counts cs)"
| "party_counts (Any_of i cs) = []"
| "party_counts (Not_of i c) = []"

definition plan_party_count :: "plan \<Rightarrow> rat option" where
  "plan_party_count p = (case party_counts (plan_hard p) of [n] \<Rightarrow> Some n | _ \<Rightarrow> None)"

definition evaluate_plan ::
  "platform \<Rightarrow> event \<Rightarrow> plan \<Rightarrow> int \<Rightarrow> requirement_status \<times> plan_evidence" where
  "evaluate_plan P e p now =
     (let evidence = evaluate (atom_result P now (plan_party_count p) e) False (plan_hard p)
      in (if elsewhere e then Contradicted else ev_status evidence, evidence))"

section \<open>Plans that can be searched\<close>

record search_walk =
  sw_parties :: nat
  sw_groupBudgets :: nat
  sw_counts :: "rat list"

text \<open>The checks of an atom that is part of the hard condition.\<close>

definition check_search_atom ::
  "platform \<Rightarrow> bool \<Rightarrow> plan_atom \<Rightarrow> search_walk \<Rightarrow> search_walk res" where
  "check_search_atom P unconditional a w =
     (case a of
        Mood m \<Rightarrow> throw ''moods are ranking preferences, not verified venue properties''
      | Companion c \<Rightarrow>
          if unconditional then Inr w else throw ''companion cannot be conditional''
      | Party n \<Rightarrow>
          if unconditional
          then Inr (w\<lparr>sw_parties := Suc (sw_parties w), sw_counts := set_add n (sw_counts w)\<rparr>)
          else throw ''party cannot be conditional''
      | Budget comparison amount currency basis \<Rightarrow>
          if comparison = Approximate then throw ''approximate hard budgets are unsupported''
          else Inr (if basis = Group_total
                    then w\<lparr>sw_groupBudgets := Suc (sw_groupBudgets w)\<rparr> else w)
      | Location name precision \<Rightarrow>
          if precision = Neighborhood_place then throw ''neighborhood evidence is unsupported''
          else if (if precision = Side_place then side_named (fold_text P name) = None
                   else canonical_district P (fold_text P name) = None)
          then throw ''noncanonical district is unsupported'' else Inr w
      | Experience x \<Rightarrow>
          if x = Beginner_friendly then throw ''experience evidence is unsupported'' else Inr w
      | _ \<Rightarrow> Inr w)"

fun visit_search ::
    "platform \<Rightarrow> bool \<Rightarrow> bool \<Rightarrow> condition \<Rightarrow> search_walk \<Rightarrow> search_walk res"
  and visit_searches ::
    "platform \<Rightarrow> bool \<Rightarrow> bool \<Rightarrow> condition list \<Rightarrow> search_walk \<Rightarrow> search_walk res" where
  "visit_search P hard unconditional (Atom i a) w =
     (if hard then check_search_atom P unconditional a w else Inr w)"
| "visit_search P hard unconditional (Not_of i c) w = visit_search P hard False c w"
| "visit_search P hard unconditional (All_of i cs) w = visit_searches P hard unconditional cs w"
| "visit_search P hard unconditional (Any_of i cs) w = visit_searches P hard False cs w"
| "visit_searches P hard unconditional [] w = Inr w"
| "visit_searches P hard unconditional (c # cs) w =
     rbind (visit_search P hard unconditional c w) (visit_searches P hard unconditional cs)"

definition validate_search_plan :: "platform \<Rightarrow> plan \<Rightarrow> unit res" where
  "validate_search_plan P p =
     rbind (guard (plan_order p \<noteq> Order_nearest) ''nearest order requires user geolocation'') (\<lambda>_.
     rbind (visit_search P True True (plan_hard p)
              \<lparr>sw_parties = 0, sw_groupBudgets = 0, sw_counts = []\<rparr>) (\<lambda>w.
     rbind (visit_searches P False True (plan_preferences p) w) (\<lambda>w1.
     rbind (guard (length (sw_counts w1) \<le> 1) ''conflicting unconditional party counts'') (\<lambda>_.
     guard (sw_groupBudgets w1 = 0 \<or> sw_parties w1 = 1)
       ''group total requires exactly one unconditional party count''))))"

end
