(* ===== verification/Plan_State.thy ===== *)
theory Plan_State
  imports Plan_Evidence Listing
begin

text \<open>
  \<open>web/lib/plan-state.ts\<close>: the plan as a client sends it back, an untrusted value, with the checks
  of \<open>validatePlan\<close> run on it; \<open>web/lib/plan-query.ts\<close>: the texts derived from a plan. The typed
  reducer of the Plans theory works on what is read here.
\<close>

section \<open>Names\<close>

definition basis_names :: "(string \<times> budget_basis) list" where
  "basis_names =
     [(''per_person'', Per_person), (''per_ticket'', Per_ticket), (''group_total'', Group_total)]"

definition comparison_names :: "(string \<times> comparison) list" where
  "comparison_names =
     [(''lt'', Less), (''lte'', Less_equal), (''gt'', Greater), (''gte'', Greater_equal),
      (''approx'', Approximate)]"

definition category_names :: "(string \<times> plan_category) list" where
  "category_names =
     [(''concert'', Concert), (''theatre'', Theatre), (''standup'', Standup), (''workshop'', Workshop),
      (''exhibition'', Exhibition), (''festival'', Festival), (''sport'', Sport), (''cinema'', Cinema),
      (''talk'', Talk), (''dance'', Dance), (''show'', Show), (''course'', Course), (''tour'', Tour),
      (''museum'', Museum)]"

definition order_names :: "(string \<times> plan_order) list" where
  "order_names =
     [(''none'', Order_none), (''soonest'', Order_soonest), (''cheapest'', Order_cheapest),
      (''nearest'', Order_nearest)]"

definition precision_names :: "(string \<times> place_precision) list" where
  "precision_names =
     [(''district'', District_place), (''neighborhood'', Neighborhood_place), (''side'', Side_place)]"

definition plan_mood_names :: "(string \<times> mood) list" where
  "plan_mood_names = [(''calm'', Calm), (''intimate'', Intimate)]"

definition plan_companion_names :: "(string \<times> companion) list" where
  "plan_companion_names =
     [(''partner'', Partner), (''friends'', Friends), (''family'', Family), (''children'', Children)]"

definition experience_names :: "(string \<times> experience) list" where
  "experience_names =
     [(''quiet'', Quiet), (''seated'', Seated), (''outdoors'', Outdoors),
      (''wheelchair_accessible'', Wheelchair_accessible), (''family_friendly'', Family_friendly),
      (''uncrowded'', Uncrowded), (''romantic'', Romantic), (''beginner_friendly'', Beginner_friendly)]"

definition content_names :: "(string \<times> content) list" where
  "content_names = [(''profanity'', Profanity), (''sexual_content'', Sexual_content)]"

definition read_named :: "(string \<times> 'a) list \<Rightarrow> json \<Rightarrow> 'a option" where
  "read_named table v =
     (case v of JStr s \<Rightarrow> map_of (map (\<lambda>e. (u (fst e), snd e)) table) s | _ \<Rightarrow> None)"

section \<open>Checks of untrusted atoms\<close>

text \<open>\<open>pattern.test(value)\<close> converts any value to a text first.\<close>

definition check_date :: "platform \<Rightarrow> json \<Rightarrow> unit res" where
  "check_date P v =
     rbind (guard (test (re ''^%d{4}-%d{2}-%d{2}$'') (string_of_json P v)) ''invalid date syntax'')
       (\<lambda>_. case v of
          JStr s \<Rightarrow> guard (case date_parse (s @ u ''T12:00:00Z'') of
                       Some t \<Rightarrow> take 10 (iso_string t) = s | None \<Rightarrow> False) ''invalid date value''
        | _ \<Rightarrow> throw ''invalid date value'')"

definition check_clock :: "platform \<Rightarrow> json \<Rightarrow> unit res" where
  "check_clock P v = guard (clock_text (string_of_json P v)) ''invalid clock''"

definition optional_bool :: "json \<Rightarrow> bool" where
  "optional_bool v \<longleftrightarrow> v = Undefined \<or> is_bool v"

definition integer_between :: "int \<Rightarrow> int \<Rightarrow> json \<Rightarrow> bool" where
  "integer_between low high v =
     (case as_integer v of Some n \<Rightarrow> low \<le> n \<and> n \<le> high | None \<Rightarrow> False)"

text \<open>Two bounds are equal only when both are texts: a list is equal to nothing else.\<close>

fun same_text :: "json \<Rightarrow> json \<Rightarrow> bool" where
  "same_text (JStr a) (JStr b) \<longleftrightarrow> a = b"
| "same_text v w = False"

definition check_window :: "platform \<Rightarrow> json \<Rightarrow> unit res" where
  "check_window P a =
     (let from = jget a ''from''; to = jget a ''to'';
          strictFrom = jget a ''fromExclusive''; strictTo = jget a ''toExclusive''
      in rbind (guard (truthy from \<or> truthy to) ''missing clock bound'') (\<lambda>_.
         rbind (if truthy from then check_clock P from else Inr ()) (\<lambda>_.
         rbind (if truthy to then check_clock P to else Inr ()) (\<lambda>_.
         rbind (guard (optional_bool strictFrom \<and> optional_bool strictTo) ''invalid clock exclusivity'') (\<lambda>_.
         rbind (guard (\<not> truthy strictFrom \<or> truthy from) ''exclusive clock has no lower bound'') (\<lambda>_.
         rbind (guard (\<not> truthy strictTo \<or> truthy to) ''exclusive clock has no upper bound'') (\<lambda>_.
         if truthy from \<and> truthy to then
           rbind (guard (string_of_json P from \<le> string_of_json P to) ''unsupported overnight range'') (\<lambda>_.
           guard (\<not> same_text from to \<or> (\<not> truthy strictFrom \<and> \<not> truthy strictTo))
             ''empty strict clock range'')
         else Inr ())))))))"

definition check_name :: "nat \<Rightarrow> json \<Rightarrow> bool" where
  "check_name limit v = (case v of JStr s \<Rightarrow> trim s \<noteq> [] \<and> length s \<le> limit | _ \<Rightarrow> False)"

definition check_atom :: "platform \<Rightarrow> json \<Rightarrow> unit res" where
  "check_atom P a =
     (let kind = jget a ''kind''; value = jget a ''value''; is = (\<lambda>k. kind = JStr (u k))
      in rbind (guard (is_object_type a) ''invalid atom'') (\<lambda>_.
         if is ''budget'' then
           rbind (guard (read_named comparison_names (jget a ''comparison'') \<noteq> None
                         \<and> read_named basis_names (jget a ''basis'') \<noteq> None
                         \<and> jget a ''currency'' = JStr tl_currency) ''invalid budget semantics'') (\<lambda>_.
           guard (number_between 0 1000000000 (jget a ''amount'')) ''invalid budget amount'')
         else if is ''party'' then guard (integer_between 1 1000 (jget a ''count'')) ''invalid party count''
         else if is ''age'' then guard (integer_between 0 120 (jget a ''years'')) ''invalid attendee age''
         else if is ''mood'' then guard (read_named plan_mood_names value \<noteq> None) ''invalid mood''
         else if is ''companion''
         then guard (read_named plan_companion_names value \<noteq> None) ''invalid companion''
         else if is ''date'' then
           rbind (check_date P (jget a ''from'')) (\<lambda>_.
           rbind (check_date P (jget a ''to'')) (\<lambda>_.
           guard (string_of_json P (jget a ''from'') \<le> string_of_json P (jget a ''to''))
             ''reversed date bounds''))
         else if is ''time'' then check_window P a
         else if is ''location'' then
           rbind (guard (check_name 64 (jget a ''name'')) ''invalid location'') (\<lambda>_.
           rbind (guard (read_named precision_names (jget a ''precision'') \<noteq> None)
                    ''invalid location precision'') (\<lambda>_.
           guard (jget a ''precision'' \<noteq> JStr (u ''side'') \<or> jget a ''name'' \<in> set (map JStr side_names))
             ''invalid Istanbul side''))
         else if is ''category'' then guard (read_named category_names value \<noteq> None) ''invalid category''
         else if is ''topic'' then guard (check_name 160 value) ''invalid topic''
         else if is ''experience''
         then guard (read_named experience_names value \<noteq> None) ''invalid experience''
         else if is ''content'' then guard (read_named content_names value \<noteq> None) ''invalid content''
         else throw ''unknown atom type''))"

section \<open>Checks of untrusted plans\<close>

lemma rbind_cong [fundef_cong]:
  "m = m' \<Longrightarrow> (\<And>x. m' = Inr x \<Longrightarrow> f x = g x) \<Longrightarrow> rbind m f = rbind m' g"
  by (cases m') (auto simp: rbind_def)

definition count_value :: "json \<Rightarrow> nat \<Rightarrow> walk \<Rightarrow> walk res" where
  "count_value c depth w =
     rbind (guard (Suc (snd w) \<le> 256 \<and> depth \<le> 12) ''condition complexity limit'') (\<lambda>_.
     rbind (guard (is_object_type c) ''invalid condition'') (\<lambda>_.
     case jget c ''id'' of
       Undefined \<Rightarrow> Inr (fst w, Suc (snd w))
     | JStr i \<Rightarrow>
         rbind (guard (condition_id_ok i) ''invalid condition ID'') (\<lambda>_.
         rbind (guard (i \<notin> set (fst w)) ''duplicate condition ID'') (\<lambda>_.
         Inr (i # fst w, Suc (snd w))))
     | _ \<Rightarrow> throw ''invalid condition ID''))"

lemma count_value_depth: "count_value c depth w = Inr w1 \<Longrightarrow> depth \<le> 12"
  by (auto simp: count_value_def rbind_eq_Inr)

function check_condition :: "platform \<Rightarrow> json \<Rightarrow> nat \<Rightarrow> bool \<Rightarrow> walk \<Rightarrow> walk res"
  and check_conditions :: "platform \<Rightarrow> json list \<Rightarrow> nat \<Rightarrow> walk \<Rightarrow> walk res" where
  "check_condition P c depth allowEmpty w =
     rbind (count_value c depth w) (\<lambda>w1.
       if jget c ''type'' = JStr (u ''atom'')
       then rbind (check_atom P (jget c ''atom'')) (\<lambda>_. Inr w1)
       else if jget c ''type'' = JStr (u ''not'')
       then check_condition P (jget c ''child'') (Suc depth) False w1
       else if jget c ''type'' = JStr (u ''all'') \<or> jget c ''type'' = JStr (u ''any'')
       then (case as_arr (jget c ''children'') of
               None \<Rightarrow> throw ''invalid connective''
             | Some cs \<Rightarrow> rbind (guard (allowEmpty \<or> cs \<noteq> []) ''empty connective'')
                            (\<lambda>_. check_conditions P cs (Suc depth) w1))
       else throw ''invalid connective'')"
| "check_conditions P [] depth w = Inr w"
| "check_conditions P (c # cs) depth w =
     rbind (check_condition P c depth False w) (\<lambda>w1. check_conditions P cs depth w1)"
  by pat_completeness auto

text \<open>A call one level down comes only after the depth was found to be at most twelve.\<close>

termination
  by (relation "inv_image (less_than <*lex*> less_than)
        (\<lambda>x. case x of Inl (P, c, depth, e, w) \<Rightarrow> (14 - depth, 0)
                     | Inr (P, cs, depth, w) \<Rightarrow> (14 - depth, Suc (length cs)))")
    (auto dest!: count_value_depth)

declare check_condition.simps [simp del]

definition check_plan :: "platform \<Rightarrow> json \<Rightarrow> unit res" where
  "check_plan P p =
     rbind (guard (jget (jget p ''hard'') ''type'' = JStr (u ''all'')
                   \<and> as_arr (jget p ''preferences'') \<noteq> None
                   \<and> read_named order_names (jget p ''order'') \<noteq> None) ''invalid plan'') (\<lambda>_.
     rbind (check_condition P (jget p ''hard'') 0 True ([], 0)) (\<lambda>w.
     rbind (check_conditions P (the (as_arr (jget p ''preferences''))) 0 w) (\<lambda>_. Inr ())))"

section \<open>Strict keys\<close>

definition joined_keys :: "jstr list \<Rightarrow> jstr" where
  "joined_keys ks = join [44] (sort ks)"

definition exact :: "json \<Rightarrow> string list \<Rightarrow> unit res" where
  "exact v allowed =
     guard (joined_keys (own_keys v) = joined_keys (map u allowed)) ''unexpected plan-state key''"

definition atom_shapes :: "(string \<times> string list) list" where
  "atom_shapes = [
     (''budget'', [''kind'', ''comparison'', ''amount'', ''currency'', ''basis'']),
     (''party'', [''kind'', ''count'']), (''age'', [''kind'', ''years'']),
     (''mood'', [''kind'', ''value'']), (''companion'', [''kind'', ''value'']),
     (''date'', [''kind'', ''from'', ''to'']),
     (''location'', [''kind'', ''name'', ''precision'']), (''category'', [''kind'', ''value'']),
     (''topic'', [''kind'', ''value'']), (''experience'', [''kind'', ''value'']),
     (''content'', [''kind'', ''value''])]"

definition time_keys :: "jstr list" where
  "time_keys = map u [''kind'', ''from'', ''to'', ''fromExclusive'', ''toExclusive'']"

definition strict_atom :: "platform \<Rightarrow> json \<Rightarrow> unit res" where
  "strict_atom P a =
     rbind (guard (is_obj a) ''invalid atom'') (\<lambda>_.
     if jget a ''kind'' = JStr (u ''time'')
     then guard (list_all (\<lambda>k. k \<in> set time_keys) (own_keys a)) ''unexpected time key''
     else case map_of (map (\<lambda>s. (u (fst s), snd s)) atom_shapes) (string_of_json P (jget a ''kind'')) of
            None \<Rightarrow> throw ''invalid atom kind''
          | Some shape \<Rightarrow> exact a shape)"

lemma size_map_of: "map_of ps k = Some v \<Longrightarrow> size v < Suc (size_list (size_prod (\<lambda>_. 0) size) ps)"
  by (induction ps) (auto split: if_splits)

lemma size_jget: "is_obj c \<Longrightarrow> size (jget c k) < size c"
  by (cases c) (auto split: option.split dest: size_map_of)

lemma size_as_arr: "as_arr v = Some xs \<Longrightarrow> size_list size xs < size v"
  by (cases v) auto

lemma size_children: "is_obj c \<Longrightarrow> as_arr (jget c k) = Some cs \<Longrightarrow> size_list size cs < size c"
  using size_jget[of c k] size_as_arr[of "jget c k" cs] by simp

function strict_condition :: "platform \<Rightarrow> json \<Rightarrow> unit res"
  and strict_conditions :: "platform \<Rightarrow> json list \<Rightarrow> unit res" where
  "strict_condition P c =
     rbind (guard (is_obj c) ''invalid condition'') (\<lambda>_.
       let withId = (if jget c ''id'' = Undefined then [] else [''id''])
       in if jget c ''type'' = JStr (u ''atom'')
          then rbind (exact c ([''type'', ''atom''] @ withId)) (\<lambda>_. strict_atom P (jget c ''atom''))
          else if jget c ''type'' = JStr (u ''not'')
          then rbind (exact c ([''type'', ''child''] @ withId)) (\<lambda>_. strict_condition P (jget c ''child''))
          else if jget c ''type'' = JStr (u ''all'') \<or> jget c ''type'' = JStr (u ''any'')
          then rbind (exact c ([''type'', ''children''] @ withId)) (\<lambda>_.
                 case as_arr (jget c ''children'') of
                   None \<Rightarrow> throw ''invalid children''
                 | Some cs \<Rightarrow> strict_conditions P cs)
          else throw ''invalid condition type'')"
| "strict_conditions P [] = Inr ()"
| "strict_conditions P (c # cs) = rbind (strict_condition P c) (\<lambda>_. strict_conditions P cs)"
  by pat_completeness auto

termination
  by (relation "measure (\<lambda>x. case x of Inl (P, c) \<Rightarrow> Suc (2 * size c) | Inr (P, cs) \<Rightarrow> 2 * size_list size cs)")
    (auto simp: size_jget dest: size_children)

declare strict_condition.simps [simp del]

section \<open>The state\<close>

definition max_plan_requests :: nat where "max_plan_requests = 4"
definition max_plan_request_length :: nat where "max_plan_request_length = 1200"

definition request_text_ok :: "json \<Rightarrow> bool" where
  "request_text_ok v =
     (case v of JStr s \<Rightarrow> trim s \<noteq> [] \<and> length s \<le> max_plan_request_length | _ \<Rightarrow> False)"

text \<open>The result is a copy of the value.\<close>

definition validate_plan_state :: "platform \<Rightarrow> json \<Rightarrow> json res" where
  "validate_plan_state P v =
     rbind (guard (is_obj v) ''invalid plan state'') (\<lambda>_.
     rbind (exact v [''version'', ''revision'', ''plan'', ''requests'']) (\<lambda>_.
     rbind (guard (jget v ''version'' = jint 2
                   \<and> (case as_safe_integer (jget v ''revision'') of Some n \<Rightarrow> 0 \<le> n | None \<Rightarrow> False))
              ''invalid plan-state envelope'') (\<lambda>_.
     rbind (guard (is_obj (jget v ''plan'')) ''invalid plan'') (\<lambda>_.
     rbind (guard (case jget v ''requests'' of
                     JArr xs \<Rightarrow> length xs \<le> max_plan_requests \<and> list_all request_text_ok xs
                   | _ \<Rightarrow> False) ''invalid plan requests'') (\<lambda>_.
     rbind (exact (jget v ''plan'') [''hard'', ''preferences'', ''order'']) (\<lambda>_.
     rbind (check_plan P (jget v ''plan'')) (\<lambda>_.
     rbind (strict_condition P (jget (jget v ''plan'') ''hard'')) (\<lambda>_.
     rbind (strict_conditions P (the (as_arr (jget (jget v ''plan'') ''preferences'')))) (\<lambda>_.
     Inr v)))))))))"

section \<open>The typed state\<close>

record plan_state =
  pst_revision :: int
  pst_plan :: plan
  pst_requests :: "jstr list"

definition empty_plan_state :: plan_state where
  "empty_plan_state = \<lparr>pst_revision = 0, pst_plan = empty_plan, pst_requests = []\<rparr>"

definition name_of :: "(string \<times> 'a) list \<Rightarrow> 'a \<Rightarrow> json" where
  "name_of table x =
     (case map_of (map (\<lambda>e. (snd e, fst e)) table) x of Some n \<Rightarrow> JStr (u n) | None \<Rightarrow> Undefined)"

definition field :: "string \<Rightarrow> ('a \<Rightarrow> json) \<Rightarrow> 'a option \<Rightarrow> (jstr \<times> json) list" where
  "field k to v = (case v of Some x \<Rightarrow> [(u k, to x)] | None \<Rightarrow> [])"

definition kind_of :: "string \<Rightarrow> (jstr \<times> json) list \<Rightarrow> json" where
  "kind_of kind ps = JObj ((u ''kind'', JStr (u kind)) # ps)"

definition number_json :: "rat \<Rightarrow> json" where
  "number_json r = JNum (Fin r)"

fun atom_json :: "plan_atom \<Rightarrow> json" where
  "atom_json (Budget comparison amount currency basis) =
     kind_of ''budget''
       [(u ''comparison'', name_of comparison_names comparison), (u ''amount'', number_json amount),
        (u ''currency'', JStr currency), (u ''basis'', name_of basis_names basis)]"
| "atom_json (Party n) = kind_of ''party'' [(u ''count'', number_json n)]"
| "atom_json (Age n) = kind_of ''age'' [(u ''years'', number_json n)]"
| "atom_json (Mood m) = kind_of ''mood'' [(u ''value'', name_of plan_mood_names m)]"
| "atom_json (Companion c) = kind_of ''companion'' [(u ''value'', name_of plan_companion_names c)]"
| "atom_json (Date from to) = kind_of ''date'' [(u ''from'', JStr from), (u ''to'', JStr to)]"
| "atom_json (Clock from to fromExclusive toExclusive) =
     kind_of ''time''
       (field ''from'' JStr from @ field ''to'' JStr to @ field ''fromExclusive'' JBool fromExclusive
        @ field ''toExclusive'' JBool toExclusive)"
| "atom_json (Location name precision) =
     kind_of ''location'' [(u ''name'', JStr name), (u ''precision'', name_of precision_names precision)]"
| "atom_json (Category c) = kind_of ''category'' [(u ''value'', name_of category_names c)]"
| "atom_json (Topic t) = kind_of ''topic'' [(u ''value'', JStr t)]"
| "atom_json (Experience x) = kind_of ''experience'' [(u ''value'', name_of experience_names x)]"
| "atom_json (Content c) = kind_of ''content'' [(u ''value'', name_of content_names c)]"

definition node_json :: "string \<Rightarrow> string \<Rightarrow> json \<Rightarrow> jstr option \<Rightarrow> json" where
  "node_json type k v i =
     JObj ([(u ''type'', JStr (u type)), (u k, v)] @ field ''id'' JStr i)"

fun condition_json :: "condition \<Rightarrow> json" where
  "condition_json (Atom i a) = node_json ''atom'' ''atom'' (atom_json a) i"
| "condition_json (Not_of i c) = node_json ''not'' ''child'' (condition_json c) i"
| "condition_json (All_of i cs) = node_json ''all'' ''children'' (JArr (map condition_json cs)) i"
| "condition_json (Any_of i cs) = node_json ''any'' ''children'' (JArr (map condition_json cs)) i"

definition plan_json :: "plan \<Rightarrow> json" where
  "plan_json p =
     JObj [(u ''hard'', condition_json (plan_hard p)),
           (u ''preferences'', JArr (map condition_json (plan_preferences p))),
           (u ''order'', name_of order_names (plan_order p))]"

definition plan_state_json :: "plan_state \<Rightarrow> json" where
  "plan_state_json s =
     JObj [(u ''version'', jint 2), (u ''revision'', jint (pst_revision s)),
           (u ''plan'', plan_json (pst_plan s)), (u ''requests'', JArr (map JStr (pst_requests s)))]"

text \<open>Reading a value that was accepted. A bound that counts as absent is none.\<close>

definition read_bound :: "json \<Rightarrow> jstr option" where
  "read_bound v = as_str v"

definition read_atom :: "json \<Rightarrow> plan_atom option" where
  "read_atom a =
     (let value = jget a ''value''; is = (\<lambda>k. jget a ''kind'' = JStr (u k))
      in if is ''budget'' then
           (case (read_named comparison_names (jget a ''comparison''), as_fin (jget a ''amount''),
                  as_str (jget a ''currency''), read_named basis_names (jget a ''basis'')) of
              (Some c, Some n, Some currency, Some b) \<Rightarrow> Some (Budget c n currency b) | _ \<Rightarrow> None)
         else if is ''party'' then map_option Party (as_fin (jget a ''count''))
         else if is ''age'' then map_option Age (as_fin (jget a ''years''))
         else if is ''mood'' then map_option Mood (read_named plan_mood_names value)
         else if is ''companion'' then map_option Companion (read_named plan_companion_names value)
         else if is ''date'' then
           (case (as_str (jget a ''from''), as_str (jget a ''to'')) of
              (Some x, Some y) \<Rightarrow> Some (Date x y) | _ \<Rightarrow> None)
         else if is ''time''
         then Some (Clock (read_bound (jget a ''from'')) (read_bound (jget a ''to''))
                (bool_field (jget a ''fromExclusive'')) (bool_field (jget a ''toExclusive'')))
         else if is ''location'' then
           (case (as_str (jget a ''name''), read_named precision_names (jget a ''precision'')) of
              (Some n, Some p) \<Rightarrow> Some (Location n p) | _ \<Rightarrow> None)
         else if is ''category'' then map_option Category (read_named category_names value)
         else if is ''topic'' then map_option Topic (as_str value)
         else if is ''experience'' then map_option Experience (read_named experience_names value)
         else if is ''content'' then map_option Content (read_named content_names value)
         else None)"

function read_condition :: "json \<Rightarrow> condition option"
  and read_conditions :: "json list \<Rightarrow> condition list option" where
  "read_condition c =
     (if \<not> is_obj c then None
      else let i = as_str (jget c ''id'')
           in if jget c ''type'' = JStr (u ''atom'') then map_option (Atom i) (read_atom (jget c ''atom''))
              else if jget c ''type'' = JStr (u ''not'')
              then map_option (Not_of i) (read_condition (jget c ''child''))
              else (case as_arr (jget c ''children'') of
                      None \<Rightarrow> None
                    | Some cs \<Rightarrow>
                        map_option (if jget c ''type'' = JStr (u ''all'') then All_of i else Any_of i)
                          (read_conditions cs)))"
| "read_conditions [] = Some []"
| "read_conditions (c # cs) =
     (case (read_condition c, read_conditions cs) of (Some x, Some xs) \<Rightarrow> Some (x # xs) | _ \<Rightarrow> None)"
  by pat_completeness auto

termination
  by (relation "measure (\<lambda>x. case x of Inl c \<Rightarrow> Suc (2 * size c) | Inr cs \<Rightarrow> 2 * size_list size cs)")
    (auto simp: size_jget dest: size_children)

declare read_condition.simps [simp del]

definition read_plan :: "json \<Rightarrow> plan option" where
  "read_plan v =
     (case (read_condition (jget v ''hard''),
            Option.bind (as_arr (jget v ''preferences'')) read_conditions,
            read_named order_names (jget v ''order'')) of
        (Some h, Some ps, Some d) \<Rightarrow> Some \<lparr>plan_hard = h, plan_preferences = ps, plan_order = d\<rparr>
      | _ \<Rightarrow> None)"

definition read_plan_state :: "json \<Rightarrow> plan_state option" where
  "read_plan_state v =
     (case (as_integer (jget v ''revision''), read_plan (jget v ''plan''), as_arr (jget v ''requests'')) of
        (Some n, Some p, Some rs) \<Rightarrow>
          Some \<lparr>pst_revision = n, pst_plan = p, pst_requests = List.map_filter as_str rs\<rparr>
      | _ \<Rightarrow> None)"

definition plan_state_ok :: "plan_state \<Rightarrow> bool" where
  "plan_state_ok s \<longleftrightarrow>
     0 \<le> pst_revision s \<and> pst_revision s \<le> max_safe_integer
     \<and> length (pst_requests s) \<le> max_plan_requests
     \<and> list_all (\<lambda>t. trim t \<noteq> [] \<and> length t \<le> max_plan_request_length) (pst_requests s)
     \<and> validate_plan (pst_plan s) = Inr ()"

section \<open>What is written is checked as the typed plan\<close>

lemmas name_tables =
  basis_names_def comparison_names_def category_names_def order_names_def precision_names_def
  plan_mood_names_def plan_companion_names_def experience_names_def content_names_def

lemma read_name_of [simp]:
  "read_named basis_names (name_of basis_names b) = Some b"
  "read_named comparison_names (name_of comparison_names c) = Some c"
  "read_named category_names (name_of category_names k) = Some k"
  "read_named order_names (name_of order_names d) = Some d"
  "read_named precision_names (name_of precision_names p) = Some p"
  "read_named plan_mood_names (name_of plan_mood_names m) = Some m"
  "read_named plan_companion_names (name_of plan_companion_names n) = Some n"
  "read_named experience_names (name_of experience_names x) = Some x"
  "read_named content_names (name_of content_names y) = Some y"
  subgoal by (cases b) (simp_all add: read_named_def name_of_def name_tables)
  subgoal by (cases c) (simp_all add: read_named_def name_of_def name_tables)
  subgoal by (cases k) (simp_all add: read_named_def name_of_def name_tables)
  subgoal by (cases d) (simp_all add: read_named_def name_of_def name_tables)
  subgoal by (cases p) (simp_all add: read_named_def name_of_def name_tables)
  subgoal by (cases m) (simp_all add: read_named_def name_of_def name_tables)
  subgoal by (cases n) (simp_all add: read_named_def name_of_def name_tables)
  subgoal by (cases x) (simp_all add: read_named_def name_of_def name_tables)
  subgoal by (cases y) (simp_all add: read_named_def name_of_def name_tables)
  done

lemma jget_kind [simp]:
  "jget (kind_of k ps) ''kind'' = JStr (u k)"
  "f \<noteq> ''kind'' \<Longrightarrow> jget (kind_of k ps) f = (case map_of ps (u f) of Some v \<Rightarrow> v | None \<Rightarrow> Undefined)"
  by (simp_all add: kind_of_def)

lemma is_obj_kind [simp]: "is_obj (kind_of k ps)" "is_object_type (kind_of k ps)"
  by (simp_all add: kind_of_def)

definition optional :: "('a \<Rightarrow> json) \<Rightarrow> 'a option \<Rightarrow> json" where
  "optional to v = (case v of Some x \<Rightarrow> to x | None \<Rightarrow> Undefined)"

lemma jget_clock [simp]:
  "jget (atom_json (Clock a b x y)) ''kind'' = JStr (u ''time'')"
  "jget (atom_json (Clock a b x y)) ''from'' = optional JStr a"
  "jget (atom_json (Clock a b x y)) ''to'' = optional JStr b"
  "jget (atom_json (Clock a b x y)) ''fromExclusive'' = optional JBool x"
  "jget (atom_json (Clock a b x y)) ''toExclusive'' = optional JBool y"
  by (simp_all add: optional_def field_def split: option.split)

lemma integer_between_rat:
  "integer_between low high (number_json r) \<longleftrightarrow> is_integer r \<and> of_int low \<le> r \<and> r \<le> of_int high"
proof (cases "is_integer r")
  case True
  then obtain n where "r = of_int n" by (auto simp: is_integer_def)
  then show ?thesis by (simp add: integer_between_def as_integer_def number_json_def is_integer_def)
next
  case False
  then show ?thesis
    by (simp add: integer_between_def as_integer_def number_json_def is_integer_def)
qed

lemma positive_integer: "is_integer r \<Longrightarrow> 1 \<le> r \<longleftrightarrow> 0 < r"
proof -
  assume "is_integer r"
  then obtain n where "r = of_int n" by (auto simp: is_integer_def)
  then show ?thesis by (simp add: int_one_le_iff_zero_less)
qed

lemma number_between_rat: "number_between low high (number_json r) \<longleftrightarrow> low \<le> r \<and> r \<le> high"
  by (simp add: number_between_def number_json_def)

lemma check_date_text: "check_date P (JStr s) = validate_date s"
  by (simp add: check_date_def validate_date_def)

lemma check_clock_text: "check_clock P (JStr s) = validate_clock s"
  by (simp add: check_clock_def validate_clock_def)

lemma rbind_assoc: "rbind (rbind m f) g = rbind m (\<lambda>x. rbind (f x) g)"
  by (cases m) (simp_all add: rbind_def)

lemma check_window_typed:
  "check_window P (atom_json (Clock a b x y)) = validate_window a b x y"
  by (cases a; cases b; cases x; cases y)
     (simp_all del: atom_json.simps add: check_window_def validate_window_def or_empty_def
        check_clock_text optional_def optional_bool_def is_bool_def Let_def)

lemma check_atom_typed: "check_atom P (atom_json a) = validate_atom a"
proof (cases a)
  case (Party n)
  have "integer_between 1 1000 (number_json n) \<longleftrightarrow> is_integer n \<and> 0 < n \<and> n \<le> 1000"
    using integer_between_rat[of 1 1000 n] positive_integer[of n] by auto
  then show ?thesis using Party by (simp add: check_atom_def)
next
  case (Location n p)
  have "name_of precision_names p = JStr (u ''side'') \<longleftrightarrow> p = Side_place"
    by (cases p) (simp_all add: name_of_def name_tables)
  moreover have "JStr n \<in> JStr ` set side_names \<longleftrightarrow> n \<in> set side_names" by auto
  ultimately show ?thesis using Location by (simp add: check_atom_def check_name_def)
next
  case (Clock a b x y)
  have "is_object_type (atom_json (Clock a b x y))" by simp
  then show ?thesis using Clock by (simp del: atom_json.simps add: check_atom_def check_window_typed)
qed (simp_all add: check_atom_def Let_def number_between_rat integer_between_rat check_date_text
      check_name_def)

lemma jget_node [simp]:
  "jget (node_json t k v i) ''type'' = JStr (u t)"
  "k \<noteq> ''type'' \<Longrightarrow> jget (node_json t k v i) k = v"
  "k \<noteq> ''id'' \<Longrightarrow> jget (node_json t k v i) ''id'' = optional JStr i"
  by (simp_all add: node_json_def field_def optional_def split: option.split)

lemma is_obj_node [simp]: "is_obj (node_json t k v i)" "is_object_type (node_json t k v i)"
  by (simp_all add: node_json_def)

lemma count_node_typed:
  "k \<noteq> ''id'' \<Longrightarrow> cond_id c = i \<Longrightarrow> count_value (node_json t k v i) depth w = count_node c depth w"
  by (cases i) (simp_all add: count_value_def count_node_def optional_def)

lemma check_condition_typed:
  "check_condition P (condition_json c) depth allowEmpty w = visit_condition c depth allowEmpty w"
  "check_conditions P (map condition_json cs) depth w = visit_conditions cs depth w"
proof (induction c depth allowEmpty w and cs depth w rule: visit_condition_visit_conditions.induct)
  case (1 i a depth allowEmpty w)
  show ?case
    by (simp add: check_condition.simps[of P "node_json t k v i" for t k v i] check_atom_typed
        count_node_typed[where c = "Atom i a"])
next
  case (2 i c depth allowEmpty w)
  show ?case using 2
    by (simp add: check_condition.simps[of P "node_json t k v i" for t k v i]
        count_node_typed[where c = "Not_of i c"] cong: rbind_cong)
next
  case (3 i cs depth allowEmpty w)
  show ?case using 3
    by (simp add: check_condition.simps[of P "node_json t k v i" for t k v i]
        count_node_typed[where c = "All_of i cs"] cong: rbind_cong)
next
  case (4 i cs depth allowEmpty w)
  show ?case using 4
    by (simp add: check_condition.simps[of P "node_json t k v i" for t k v i]
        count_node_typed[where c = "Any_of i cs"] cong: rbind_cong)
next
  case (5 depth w)
  show ?case by simp
next
  case (6 c cs depth w)
  then show ?case by (simp cong: rbind_cong)
qed

lemma node_type_all:
  "jget (condition_json c) ''type'' = JStr (u ''all'') \<longleftrightarrow> conjunction c \<noteq> None"
  by (cases c) simp_all

lemma check_plan_typed: "check_plan P (plan_json p) = validate_plan p"
proof -
  have f: "jget (plan_json p) ''hard'' = condition_json (plan_hard p)"
    "jget (plan_json p) ''preferences'' = JArr (map condition_json (plan_preferences p))"
    "jget (plan_json p) ''order'' = name_of order_names (plan_order p)"
    by (simp_all add: plan_json_def)
  show ?thesis
    by (simp add: check_plan_def validate_plan_def f node_type_all check_condition_typed)
qed

lemma strict_atom_typed: "strict_atom P (atom_json a) = Inr ()"
proof (cases a)
  case (Clock b c x y)
  have "\<forall>k \<in> set (own_keys (atom_json (Clock b c x y))). k \<in> set time_keys"
    by (auto simp: kind_of_def field_def time_keys_def split: option.splits)
  moreover have "jget (atom_json a) ''kind'' = JStr (u ''time'')" "is_obj (atom_json a)"
    using Clock by simp_all
  ultimately show ?thesis using Clock
    by (simp del: atom_json.simps add: strict_atom_def list_all_iff)
qed (simp_all add: strict_atom_def exact_def kind_of_def atom_shapes_def)

lemma exact_node:
  "exact (node_json t k v i) ([''type'', k] @ (if optional JStr i = Undefined then [] else [''id'']))
     = Inr ()"
  by (cases i) (simp_all add: exact_def node_json_def field_def optional_def)

lemma strict_conditions_all:
  "(\<And>c. c \<in> set cs \<Longrightarrow> strict_condition P c = Inr ()) \<Longrightarrow> strict_conditions P cs = Inr ()"
  by (induction cs) simp_all

lemma strict_condition_typed: "strict_condition P (condition_json c) = Inr ()"
proof (induction c)
  case (Atom i a)
  show ?case
    using exact_node[of "''atom''" "''atom''" "atom_json a" i]
    by (simp add: strict_condition.simps[of P "node_json t k v i" for t k v i] strict_atom_typed)
next
  case (Not_of i c)
  then show ?case
    using exact_node[of "''not''" "''child''" "condition_json c" i]
    by (simp add: strict_condition.simps[of P "node_json t k v i" for t k v i])
next
  case (All_of i cs)
  then have "strict_conditions P (map condition_json cs) = Inr ()"
    by (intro strict_conditions_all) auto
  then show ?case
    using exact_node[of "''all''" "''children''" "JArr (map condition_json cs)" i]
    by (simp add: strict_condition.simps[of P "node_json t k v i" for t k v i])
next
  case (Any_of i cs)
  then have "strict_conditions P (map condition_json cs) = Inr ()"
    by (intro strict_conditions_all) auto
  then show ?case
    using exact_node[of "''any''" "''children''" "JArr (map condition_json cs)" i]
    by (simp add: strict_condition.simps[of P "node_json t k v i" for t k v i])
qed

section \<open>What is written is read back\<close>

lemma bool_field_optional: "bool_field (optional JBool x) = x"
  by (cases x) (simp_all add: bool_field_def optional_def)

lemma as_str_optional: "as_str (optional JStr x) = x"
  by (cases x) (simp_all add: optional_def)

lemma read_atom_written: "read_atom (atom_json a) = Some a"
proof (cases a)
  case (Clock b c x y)
  then show ?thesis
    by (simp del: atom_json.simps add: read_atom_def read_bound_def as_str_optional bool_field_optional)
qed (simp_all add: read_atom_def number_json_def)

lemma read_conditions_written:
  "(\<And>c. c \<in> set cs \<Longrightarrow> read_condition (condition_json c) = Some c) \<Longrightarrow>
     read_conditions (map condition_json cs) = Some cs"
  by (induction cs) simp_all

lemma read_condition_written: "read_condition (condition_json c) = Some c"
proof (induction c)
  case (Atom i a)
  show ?case
    by (simp add: read_condition.simps[of "node_json t k v i" for t k v i] read_atom_written as_str_optional)
next
  case (Not_of i c)
  then show ?case
    by (simp add: read_condition.simps[of "node_json t k v i" for t k v i] as_str_optional)
next
  case (All_of i cs)
  then have "read_conditions (map condition_json cs) = Some cs" by (auto intro: read_conditions_written)
  then show ?case
    by (simp add: read_condition.simps[of "node_json t k v i" for t k v i] as_str_optional)
next
  case (Any_of i cs)
  then have "read_conditions (map condition_json cs) = Some cs" by (auto intro: read_conditions_written)
  then show ?case
    by (simp add: read_condition.simps[of "node_json t k v i" for t k v i] as_str_optional)
qed

lemma jget_plan [simp]:
  "jget (plan_json p) ''hard'' = condition_json (plan_hard p)"
  "jget (plan_json p) ''preferences'' = JArr (map condition_json (plan_preferences p))"
  "jget (plan_json p) ''order'' = name_of order_names (plan_order p)"
  "is_obj (plan_json p)"
  by (simp_all add: plan_json_def)

lemma jget_plan_state [simp]:
  "jget (plan_state_json s) ''version'' = jint 2"
  "jget (plan_state_json s) ''revision'' = jint (pst_revision s)"
  "jget (plan_state_json s) ''plan'' = plan_json (pst_plan s)"
  "jget (plan_state_json s) ''requests'' = JArr (map JStr (pst_requests s))"
  "is_obj (plan_state_json s)"
  by (simp_all add: plan_state_json_def)

lemma read_plan_state_written: "read_plan_state (plan_state_json s) = Some s"
  by (simp add: read_plan_state_def read_plan_def read_condition_written read_conditions_written
      map_filter_def comp_def)

lemma plan_state_accepted_iff:
  "validate_plan_state P (plan_state_json s) = Inr (plan_state_json s) \<longleftrightarrow> plan_state_ok s"
proof -
  have "exact (plan_state_json s) [''version'', ''revision'', ''plan'', ''requests''] = Inr ()"
    "exact (plan_json (pst_plan s)) [''hard'', ''preferences'', ''order''] = Inr ()"
    by (simp_all add: exact_def plan_state_json_def plan_json_def)
  moreover have "strict_conditions P (map condition_json (plan_preferences (pst_plan s))) = Inr ()"
    by (rule strict_conditions_all) (auto simp: strict_condition_typed)
  ultimately show ?thesis
    by (auto simp: validate_plan_state_def plan_state_ok_def check_plan_typed strict_condition_typed
        rbind_eq_Inr list_all_iff request_text_ok_def)
qed

lemma accepted_is_same: "validate_plan_state P v = Inr w \<Longrightarrow> w = v"
  by (auto simp: validate_plan_state_def rbind_eq_Inr)

end
