(* ===== verification/Ranking.thy ===== *)
theory Ranking
  imports Plan_Evidence
begin

text \<open>
  \<open>web/lib/hybrid.ts\<close>: the fusion of the lexical and the dense ranking, and
  \<open>web/lib/soft-preferences.ts\<close>: the bounded effect of a plan's preferences on a ranking. Scores
  are rationals; the natural logarithm is a parameter.
\<close>

section \<open>Hybrid ranking\<close>

record message =
  ms_fromUser :: bool
  ms_content :: jstr

record semantic_ranking =
  sr_queryVector :: "rat list"
  sr_vectors :: "(jstr \<times> rat list) list"
  sr_denseOrder :: "jstr list option"

text \<open>\<open>semanticQuery\<close>: the last three requests of the user and the current one.\<close>

definition last_items :: "nat \<Rightarrow> 'a list \<Rightarrow> 'a list" where
  "last_items n xs = drop (length xs - n) xs"

definition semantic_query :: "jstr \<Rightarrow> message list \<Rightarrow> jstr" where
  "semantic_query message history =
     join [10] (map (\<lambda>m. tr ''~Onceki istek: '' @ take 1200 (ms_content m))
                  (last_items 3 (filter ms_fromUser history))
                @ [tr ''G~uncel istek: '' @ message])"

text \<open>\<open>preparedLexicalTokens\<close>: the prepared tokens, or those of the record.\<close>

definition lexical_tokens :: "platform \<Rightarrow> event \<Rightarrow> jstr list" where
  "lexical_tokens P e =
     (case ev_preparedSearch e of
        Some p \<Rightarrow> ps_lexicalTokens p
      | None \<Rightarrow> prepare_lexical_tokens P
          \<lparr>sf_title = ev_title e, sf_category = ev_category e, sf_venue = ev_venue e,
           sf_description = ev_description e\<rparr>)"

definition average_length :: "jstr list list \<Rightarrow> rat" where
  "average_length documents =
     (let a = of_nat (sum_list (map length documents)) / of_nat (max 1 (length documents))
      in if a = 0 then 1 else a)"

definition term_weight ::
  "(rat \<Rightarrow> rat) \<Rightarrow> jstr list list \<Rightarrow> jstr list \<Rightarrow> jstr \<Rightarrow> rat" where
  "term_weight logarithm documents words term =
     (let tf = of_nat (length (filter (\<lambda>w. w = term) words));
          df = of_nat (length (filter (\<lambda>ws. term \<in> set ws) documents));
          idf = logarithm (1 + (of_nat (length documents) - df + 1 / 2) / (df + 1 / 2))
      in if tf = 0 then 0
         else idf * tf * (22 / 10)
              / (tf + (12 / 10) * (1 / 4 + (3 / 4) * of_nat (length words) / average_length documents)))"

definition lexical_score ::
  "(rat \<Rightarrow> rat) \<Rightarrow> jstr list list \<Rightarrow> jstr list \<Rightarrow> jstr list \<Rightarrow> rat" where
  "lexical_score logarithm documents terms words = sum_list (map (term_weight logarithm documents words) terms)"

text \<open>Best score first; equal scores keep their order.\<close>

definition by_score :: "('a \<times> rat) list \<Rightarrow> 'a list" where
  "by_score scored = map fst (sort_by (\<lambda>a b. cmp_int (snd b) (snd a)) scored)"

definition lexical_ranking :: "platform \<Rightarrow> (rat \<Rightarrow> rat) \<Rightarrow> event list \<Rightarrow> jstr \<Rightarrow> event list" where
  "lexical_ranking P logarithm events query =
     (let terms = uniq (search_tokens P query);
          documents = map (lexical_tokens P) events
      in by_score (filter (\<lambda>x. snd x > 0)
           (map (\<lambda>e. (e, lexical_score logarithm documents terms (lexical_tokens P e))) events)))"

text \<open>\<open>new Map(events.map(...))\<close>: the last event of an id.\<close>

definition event_by_id :: "event list \<Rightarrow> jstr \<Rightarrow> event option" where
  "event_by_id events = map_of (rev (map (\<lambda>e. (ev_id e, e)) events))"

definition dense_ranking :: "event list \<Rightarrow> jstr list \<Rightarrow> event list" where
  "dense_ranking events ids = List.map_filter (event_by_id events) (uniq ids)"

text \<open>Reciprocal rank fusion: an event at index \<open>i\<close> of a ranking gains \<open>1 / (61 + i)\<close>.\<close>

definition rank_gain :: "nat \<Rightarrow> rat" where
  "rank_gain i = 1 / (60 + of_nat i + 1)"

definition gains :: "event list \<Rightarrow> (jstr \<times> rat) list" where
  "gains ranking = map (\<lambda>(i, e). (ev_id e, rank_gain i)) (enumerate 0 ranking)"

definition fused_score :: "event list \<Rightarrow> event list \<Rightarrow> jstr \<Rightarrow> rat" where
  "fused_score lexical dense i =
     sum_list (map snd (filter (\<lambda>g. fst g = i) (gains lexical @ gains dense)))"

definition fused_order :: "platform \<Rightarrow> (jstr \<Rightarrow> rat) \<Rightarrow> event \<Rightarrow> event \<Rightarrow> int" where
  "fused_order P score a b =
     cmp_or (cmp_int (score (ev_id b)) (score (ev_id a)))
       (cmp_or (pl_collate P (ev_startsAt a) (ev_startsAt b)) (pl_collate P (ev_id a) (ev_id b)))"

definition hybrid_rank_from_dense_order ::
  "platform \<Rightarrow> (rat \<Rightarrow> rat) \<Rightarrow> event list \<Rightarrow> jstr \<Rightarrow> jstr list \<Rightarrow> event list" where
  "hybrid_rank_from_dense_order P logarithm events query denseIds =
     (let lexical = lexical_ranking P logarithm events query;
          dense = dense_ranking events denseIds
      in if dense = [] then rank_events P events query None []
         else sort_by (fused_order P (fused_score lexical dense)) events)"

definition dense_ids :: "platform \<Rightarrow> event list \<Rightarrow> semantic_ranking \<Rightarrow> jstr list" where
  "dense_ids P events s =
     (case sr_denseOrder s of
        Some ids \<Rightarrow> ids
      | None \<Rightarrow> map ev_id (by_score (List.map_filter (\<lambda>e.
          map_option (\<lambda>v. (e, cosine P (sr_queryVector s) v)) (map_of (sr_vectors s) (ev_id e))) events)))"

definition hybrid_rank ::
  "platform \<Rightarrow> (rat \<Rightarrow> rat) \<Rightarrow> event list \<Rightarrow> jstr \<Rightarrow> semantic_ranking \<Rightarrow> event list" where
  "hybrid_rank P logarithm events query s =
     hybrid_rank_from_dense_order P logarithm events query (dense_ids P events s)"

section \<open>Soft preferences\<close>

record soft_preferences =
  soft_conditions :: "condition list"
  soft_partyCount :: "rat option"

fun scored_atom :: "plan_atom \<Rightarrow> bool" where
  "scored_atom (Location n p) = True"
| "scored_atom (Budget c a currency b) = True"
| "scored_atom _ = False"

fun scored :: "condition \<Rightarrow> bool" where
  "scored (Atom i a) = scored_atom a"
| "scored (Not_of i c) = False"
| "scored (All_of i cs) = list_ex scored cs"
| "scored (Any_of i cs) = list_ex scored cs"

definition soft_preferences_for :: "plan \<Rightarrow> soft_preferences option" where
  "soft_preferences_for p =
     (let preferences = filter scored (plan_preferences p)
      in if preferences = [] then None
         else Some \<lparr>soft_conditions = preferences, soft_partyCount = plan_party_count p\<rparr>)"

text \<open>The cache of wanted places is not observable.\<close>

definition wanted_place :: "platform \<Rightarrow> jstr \<Rightarrow> place_precision \<Rightarrow> place option" where
  "wanted_place P name precision =
     (let n = trim (fold_text P name)
      in if precision = Side_place
         then map_option (\<lambda>s. \<lparr>pc_district = None, pc_side = Some s\<rparr>) (side_named n) else place_of n)"

definition location_signal ::
  "platform \<Rightarrow> event \<Rightarrow> jstr \<Rightarrow> place_precision \<Rightarrow> rat option" where
  "location_signal P e name precision =
     (case wanted_place P name precision of
        None \<Rightarrow> None
      | Some wanted \<Rightarrow>
          let actual = event_location_of P e
          in Some (case loc_side actual of
               None \<Rightarrow> 0
             | Some s \<Rightarrow>
                 if Some s \<noteq> pc_side wanted then - (1 / 2)
                 else if precision = Side_place then 1
                 else if or_empty (pc_district wanted) \<noteq> [] \<and> loc_district actual = pc_district wanted
                 then (if precision = Neighborhood_place then 3 / 4 else 1)
                 else 1 / 4))"

definition price_signal :: "comparison \<Rightarrow> rat \<Rightarrow> rat \<Rightarrow> rat" where
  "price_signal comparison price amount =
     (let ratio = (price - amount) / amount
      in case comparison of
           Less \<Rightarrow> if price < amount then 1 else - min 1 (2 * ratio)
         | Less_equal \<Rightarrow> if ratio \<le> 0 then 1 else - min 1 (2 * ratio)
         | Greater \<Rightarrow> if price > amount then 1 else - (1 / 2)
         | Greater_equal \<Rightarrow> if ratio \<ge> 0 then 1 else - (1 / 2)
         | Approximate \<Rightarrow> if \<bar>ratio\<bar> \<le> 1 / 5 then 1 else - min 1 \<bar>ratio\<bar>)"

definition budget_signal ::
  "event \<Rightarrow> rat option \<Rightarrow> comparison \<Rightarrow> rat \<Rightarrow> jstr \<Rightarrow> budget_basis \<Rightarrow> rat option" where
  "budget_signal e partyCount comparison amount currency basis =
     (if currency \<noteq> tl_currency \<or> \<not> amount > 0 then None
      else case ev_price e of
             None \<Rightarrow> Some 0
           | Some price \<Rightarrow>
               if ev_currency e \<noteq> tl_currency then Some 0
               else if basis = Group_total \<and> partyCount = None then Some 0
               else Some (price_signal comparison
                      (if basis = Group_total then price * the partyCount else price) amount))"

definition mean :: "rat list \<Rightarrow> rat" where
  "mean xs = sum_list xs / of_nat (length xs)"

fun condition_signal :: "platform \<Rightarrow> event \<Rightarrow> rat option \<Rightarrow> condition \<Rightarrow> rat option" where
  "condition_signal P e partyCount (Atom i a) =
     (case a of
        Location name precision \<Rightarrow> location_signal P e name precision
      | Budget comparison amount currency basis \<Rightarrow>
          budget_signal e partyCount comparison amount currency basis
      | _ \<Rightarrow> None)"
| "condition_signal P e partyCount (Not_of i c) = None"
| "condition_signal P e partyCount (All_of i cs) =
     (let signals = List.map_filter (\<lambda>s. s) (map (condition_signal P e partyCount) cs)
      in if signals = [] then None else Some (mean signals))"
| "condition_signal P e partyCount (Any_of i cs) =
     (let signals = List.map_filter (\<lambda>s. s) (map (condition_signal P e partyCount) cs)
      in if signals = [] then None else Some (fold max (tl signals) (hd signals)))"

definition soft_preference_signal :: "platform \<Rightarrow> event \<Rightarrow> soft_preferences \<Rightarrow> rat" where
  "soft_preference_signal P e soft =
     (let signals =
            List.map_filter (condition_signal P e (soft_partyCount soft)) (soft_conditions soft)
      in if signals = [] then 0 else max (- 1) (min 1 (mean signals)))"

definition soft_score :: "platform \<Rightarrow> soft_preferences \<Rightarrow> nat \<Rightarrow> event \<Rightarrow> rat" where
  "soft_score P soft rank e =
     (1 + (1 / 4) * soft_preference_signal P e soft) / (60 + of_nat rank + 1)"

definition soft_order :: "(nat \<times> event) \<times> rat \<Rightarrow> (nat \<times> event) \<times> rat \<Rightarrow> int" where
  "soft_order a b = cmp_or (cmp_int (snd b) (snd a)) (cmp_int (fst (fst a)) (fst (fst b)))"

definition apply_soft_preferences ::
  "platform \<Rightarrow> event list \<Rightarrow> soft_preferences option \<Rightarrow> event list" where
  "apply_soft_preferences P ranked soft =
     (case soft of
        None \<Rightarrow> ranked
      | Some s \<Rightarrow>
          map (\<lambda>x. snd (fst x))
            (sort_by soft_order (map (\<lambda>x. (x, soft_score P s (fst x) (snd x))) (enumerate 0 ranked))))"

end
