(* ===== verification/Intent_State.thy ===== *)
theory Intent_State
  imports Requirements Search_Properties
begin

text \<open>
  \<open>web/lib/input-state.ts\<close>: the interpreted state of a search, as a client sends it back, and its
  validation; \<open>web/lib/input-experiences.ts\<close>, \<open>web/lib/input-retrieval.ts\<close> and
  \<open>web/lib/input-summary.ts\<close>: the texts derived from it.
\<close>

section \<open>The state\<close>

datatype intent_mood = Mood_calm | Mood_energetic | Mood_uplifting
datatype intent_companion = With_partner | With_friends | With_family
datatype input_experience = Laughter | Learning | Participation | Dancing

record intent_preferences =
  ip_mood :: "intent_mood option"
  ip_companion :: "intent_companion option"
  ip_interests :: "jstr list"
  ip_experiences :: "input_experience list option"
  ip_soonest :: bool

record interpreted_state =
  iv_filters :: filters
  iv_requirements :: "requirement list"
  iv_preferences :: intent_preferences

definition intent_moods :: "(jstr \<times> intent_mood) list" where
  "intent_moods =
     [(u ''calm'', Mood_calm), (u ''energetic'', Mood_energetic), (u ''uplifting'', Mood_uplifting)]"

definition intent_companions :: "(jstr \<times> intent_companion) list" where
  "intent_companions =
     [(u ''partner'', With_partner), (u ''friends'', With_friends), (u ''family'', With_family)]"

definition input_experiences :: "(jstr \<times> input_experience) list" where
  "input_experiences =
     [(u ''laughter'', Laughter), (u ''learning'', Learning), (u ''participation'', Participation),
      (u ''dancing'', Dancing)]"

definition requirement_kinds :: "(jstr \<times> requirement_kind) list" where
  "requirement_kinds =
     [(u ''genre'', Genre), (u ''activity'', Activity), (u ''audience'', Audience),
      (u ''content'', Content_kind), (u ''accessibility'', Accessibility)]"

definition requirement_policies :: "(jstr \<times> requirement_policy) list" where
  "requirement_policies =
     [(u ''require_support'', Require_support),
      (u ''exclude_positive_evidence'', Exclude_positive_evidence)]"

fun requirement_values :: "requirement_kind \<Rightarrow> jstr list" where
  "requirement_values Genre =
     map u [''jazz'', ''blues'', ''rock'', ''electronic'', ''rap'', ''classical'', ''comedy'', ''drama'']"
| "requirement_values Activity =
     map u [''kayaking'', ''rowing'', ''alcohol_free'', ''quiet'', ''seated'', ''romantic'', ''uncrowded'']"
| "requirement_values Audience = map u [''children'', ''family_friendly'']"
| "requirement_values Content_kind = map u [''swearing'', ''sexual_content'']"
| "requirement_values Accessibility = map u [''step_free'', ''accessible_toilet'']"

text \<open>A text that names an element of a table, and the name of an element.\<close>

definition read_name :: "(jstr \<times> 'a) list \<Rightarrow> json \<Rightarrow> 'a option" where
  "read_name table v = (case v of JStr s \<Rightarrow> map_of table s | _ \<Rightarrow> None)"

definition name_in :: "(jstr \<times> 'a) list \<Rightarrow> 'a \<Rightarrow> jstr" where
  "name_in table x = (case map_of (map (\<lambda>(n, y). (y, n)) table) x of Some n \<Rightarrow> n | None \<Rightarrow> [])"

section \<open>Validation\<close>

definition record_of :: "json \<Rightarrow> string \<Rightarrow> unit res" where
  "record_of v message = guard (is_obj v) message"

definition keys_within :: "json \<Rightarrow> string list \<Rightarrow> string list \<Rightarrow> string \<Rightarrow> unit res" where
  "keys_within v allowed needed message =
     guard (list_all (\<lambda>k. k \<in> set (map u allowed)) (own_keys v)
            \<and> list_all (\<lambda>k. u k \<in> set (own_keys v)) needed) message"

text \<open>\<open>/^age:(?:[0-9]|1[0-7])$/\<close>.\<close>

definition age_value_ok :: "jstr \<Rightarrow> bool" where
  "age_value_ok s \<longleftrightarrow>
     take 4 s = u ''age:''
     \<and> (case drop 4 s of [a] \<Rightarrow> is_digit_unit a | [a, b] \<Rightarrow> a = 49 \<and> 48 \<le> b \<and> b \<le> 55 | _ \<Rightarrow> False)"

definition supported_value :: "requirement_kind \<Rightarrow> jstr \<Rightarrow> bool" where
  "supported_value k part \<longleftrightarrow> (k = Audience \<and> age_value_ok part) \<or> part \<in> set (requirement_values k)"

definition requirement_parts :: "requirement_kind \<Rightarrow> json \<Rightarrow> jstr list res" where
  "requirement_parts k v =
     (case v of
        JStr value \<Rightarrow>
          rbind (guard (value \<noteq> [] \<and> length value \<le> 160 \<and> trim value = value)
                   ''Requirement value is invalid.'') (\<lambda>_.
          let parts = values_of value in
          rbind (guard (length parts \<le> 8 \<and> list_all (\<lambda>p. p \<noteq> [] \<and> trim p = p) parts \<and> distinct parts)
                   ''Requirement alternatives are invalid.'') (\<lambda>_.
          rbind (guard (list_all (supported_value k) parts) ''Requirement value is unsupported.'') (\<lambda>_.
          rbind (guard (\<not> (length parts > 1 \<and> list_ex (\<lambda>p. starts_with p (u ''age:'')) parts))
                   ''Age requirements must be separate.'') (\<lambda>_.
          rbind (guard (\<not> (k = Activity \<and> length parts > 1)) ''Activity requirements must be separate.'')
            (\<lambda>_. Inr parts)))))
      | _ \<Rightarrow> throw ''Requirement value is invalid.'')"

definition filter_keys :: "string list" where
  "filter_keys = [
     ''dateFrom'', ''dateTo'', ''maxPrice'', ''maxPriceExclusive'', ''partySize'', ''totalBudget'',
     ''category'', ''excludedCategories'', ''district'', ''startTimeFrom'', ''startTimeTo'',
     ''startTimeFromExclusive'', ''startTimeToExclusive'', ''categories'']"

text \<open>\<open>includes\<close> compares texts, numbers and truth values; objects are compared by identity.\<close>

fun same_value :: "json \<Rightarrow> json \<Rightarrow> bool" where
  "same_value (JObj a) w = False"
| "same_value (JArr a) w = False"
| "same_value v w \<longleftrightarrow> v = w"

definition raw_selected :: "json \<Rightarrow> json list" where
  "raw_selected v =
     (case jget v ''categories'' of
        JArr xs \<Rightarrow> xs
      | _ \<Rightarrow> if present (jget v ''category'') then [jget v ''category''] else [])"

definition raw_excluded :: "json \<Rightarrow> json list" where
  "raw_excluded v = (case jget v ''excludedCategories'' of JArr xs \<Rightarrow> xs | _ \<Rightarrow> [])"

definition selected_categories :: "filters \<Rightarrow> jstr list" where
  "selected_categories f =
     (case fl_categories f of
        Some cs \<Rightarrow> cs
      | None \<Rightarrow> (case fl_category f of Some c \<Rightarrow> if c = [] then [] else [c] | None \<Rightarrow> []))"

definition overlap_free :: "filters \<Rightarrow> bool" where
  "overlap_free f \<longleftrightarrow>
     list_all (\<lambda>c. case fl_excludedCategories f of Some xs \<Rightarrow> c \<notin> set xs | None \<Rightarrow> True)
       (selected_categories f)"

definition window_open :: "filters \<Rightarrow> bool" where
  "window_open f \<longleftrightarrow>
     (let a = or_empty (fl_startTimeFrom f); b = or_empty (fl_startTimeTo f)
      in \<not> (a \<noteq> [] \<and> b \<noteq> []
            \<and> (a > b \<or> (a = b \<and> (fl_startTimeFromExclusive f = Some True
                                 \<or> fl_startTimeToExclusive f = Some True)))))"

definition validate_strict_filters :: "json \<Rightarrow> filters res" where
  "validate_strict_filters v =
     rbind (record_of v ''Filters must be an object.'') (\<lambda>_.
     rbind (keys_within v filter_keys [''dateFrom'', ''dateTo'', ''maxPrice'', ''category'']
              ''Filters has invalid keys.'') (\<lambda>_.
     rbind (guard (\<not> list_ex (\<lambda>c. list_ex (same_value c) (raw_excluded v)) (raw_selected v))
              ''A category cannot be both selected and excluded.'') (\<lambda>_.
     rbind (validate_filters v) (\<lambda>f.
     rbind (guard (overlap_free f) ''A category cannot be both selected and excluded.'') (\<lambda>_.
     rbind (guard (window_open f) ''Time window is empty or reversed.'') (\<lambda>_. Inr f))))))"

text \<open>
  One requirement of the list, with the values demanded and excluded so far. The kind is read as
  a text; a list of one text, which the lookup of the source also accepts, is rejected here.
\<close>

record requirement_walk =
  rw_required :: "(requirement_kind \<times> jstr) list"
  rw_excluded :: "(requirement_kind \<times> jstr) list"
  rw_list :: "requirement list"

definition take_requirement :: "json \<Rightarrow> requirement_walk \<Rightarrow> requirement_walk res" where
  "take_requirement raw w =
     rbind (record_of raw ''Requirement must be an object.'') (\<lambda>_.
     rbind (keys_within raw [''kind'', ''value'', ''policy''] [''kind'', ''value'', ''policy'']
              ''Requirement has invalid keys.'') (\<lambda>_.
     case read_name requirement_kinds (jget raw ''kind'') of
       None \<Rightarrow> throw ''Requirement kind is invalid.''
     | Some k \<Rightarrow>
       (case read_name requirement_policies (jget raw ''policy'') of
          None \<Rightarrow> throw ''Requirement policy is invalid.''
        | Some p \<Rightarrow>
          rbind (requirement_parts k (jget raw ''value'')) (\<lambda>parts.
          let tagged = map (Pair k) parts;
              opposite = (if p = Require_support then rw_excluded w else rw_required w);
              r = \<lparr>rq_kind = k, rq_value = join [124] parts, rq_policy = p\<rparr>
          in rbind (guard (list_all (\<lambda>x. x \<notin> set opposite) tagged)
                      ''Requirement is both required and excluded.'') (\<lambda>_.
             Inr (if p = Require_support
                  then w\<lparr>rw_required := rw_required w @ tagged, rw_list := rw_list w @ [r]\<rparr>
                  else w\<lparr>rw_excluded := rw_excluded w @ tagged, rw_list := rw_list w @ [r]\<rparr>))))))"

definition validate_requirements :: "json \<Rightarrow> requirement list res" where
  "validate_requirements v =
     (case v of
        JArr xs \<Rightarrow>
          rbind (guard (length xs \<le> 24) ''Requirements are invalid.'') (\<lambda>_.
          rbind (rfold take_requirement xs \<lparr>rw_required = [], rw_excluded = [], rw_list = []\<rparr>) (\<lambda>w.
          Inr (rw_list w)))
      | _ \<Rightarrow> throw ''Requirements are invalid.'')"

definition null_or_name :: "(jstr \<times> 'a) list \<Rightarrow> json \<Rightarrow> string \<Rightarrow> 'a option res" where
  "null_or_name table v message =
     (if v = Null then Inr None
      else case read_name table v of Some x \<Rightarrow> Inr (Some x) | None \<Rightarrow> throw message)"

text \<open>Every element of a list, or none when one of them cannot be read.\<close>

fun read_list :: "('a \<Rightarrow> 'b option) \<Rightarrow> 'a list \<Rightarrow> 'b list option" where
  "read_list f [] = Some []"
| "read_list f (x # xs) =
     (case (f x, read_list f xs) of (Some y, Some ys) \<Rightarrow> Some (y # ys) | _ \<Rightarrow> None)"

definition read_interest :: "json \<Rightarrow> jstr option" where
  "read_interest v =
     (case v of JStr s \<Rightarrow> if trim s = s \<and> s \<noteq> [] \<and> length s \<le> 80 then Some s else None | _ \<Rightarrow> None)"

definition read_interests :: "json \<Rightarrow> jstr list res" where
  "read_interests v =
     (case v of
        JArr xs \<Rightarrow>
          (case read_list read_interest xs of
             Some items \<Rightarrow> if length xs \<le> 12 \<and> distinct items then Inr items else throw ''Interests are invalid.''
           | None \<Rightarrow> throw ''Interests are invalid.'')
      | _ \<Rightarrow> throw ''Interests are invalid.'')"

definition read_experiences_field :: "json \<Rightarrow> input_experience list option res" where
  "read_experiences_field v =
     (case v of
        Undefined \<Rightarrow> Inr None
      | JArr xs \<Rightarrow>
          (case read_list (read_name input_experiences) xs of
             Some es \<Rightarrow>
               if length xs \<le> 4 \<and> distinct es then Inr (if es = [] then None else Some es)
               else throw ''Experiences are invalid.''
           | None \<Rightarrow> throw ''Experiences are invalid.'')
      | _ \<Rightarrow> throw ''Experiences are invalid.'')"

definition validate_preferences :: "json \<Rightarrow> intent_preferences res" where
  "validate_preferences v =
     rbind (record_of v ''Preferences must be an object.'') (\<lambda>_.
     rbind (keys_within v [''mood'', ''companion'', ''interests'', ''experiences'', ''order'']
              [''mood'', ''companion'', ''interests''] ''Preferences has invalid keys.'') (\<lambda>_.
     rbind (null_or_name intent_moods (jget v ''mood'') ''Mood is invalid.'') (\<lambda>mood.
     rbind (null_or_name intent_companions (jget v ''companion'') ''Companion is invalid.'') (\<lambda>companion.
     rbind (read_interests (jget v ''interests'')) (\<lambda>interests.
     rbind (read_experiences_field (jget v ''experiences'')) (\<lambda>experiences.
     rbind (guard (jget v ''order'' = Undefined \<or> jget v ''order'' = JStr (u ''soonest''))
              ''Order preference is invalid.'') (\<lambda>_.
     Inr \<lparr>ip_mood = mood, ip_companion = companion, ip_interests = interests,
          ip_experiences = experiences, ip_soonest = (jget v ''order'' \<noteq> Undefined)\<rparr>)))))))"

definition validate_intent_state :: "json \<Rightarrow> interpreted_state res" where
  "validate_intent_state v =
     rbind (record_of v ''Intent state must be an object.'') (\<lambda>_.
     rbind (keys_within v [''version'', ''filters'', ''requirements'', ''preferences'']
              [''version'', ''filters'', ''requirements'', ''preferences'']
              ''Intent state has invalid keys.'') (\<lambda>_.
     rbind (guard (jget v ''version'' = jint 1) ''Intent state version is invalid.'') (\<lambda>_.
     rbind (validate_requirements (jget v ''requirements'')) (\<lambda>requirements.
     rbind (validate_preferences (jget v ''preferences'')) (\<lambda>preferences.
     rbind (validate_strict_filters (jget v ''filters'')) (\<lambda>filters.
     Inr \<lparr>iv_filters = filters, iv_requirements = requirements, iv_preferences = preferences\<rparr>))))))"

definition empty_intent_state :: "json \<Rightarrow> interpreted_state res" where
  "empty_intent_state filters =
     rbind (validate_strict_filters filters) (\<lambda>f.
     Inr \<lparr>iv_filters = f, iv_requirements = [],
          iv_preferences = \<lparr>ip_mood = None, ip_companion = None, ip_interests = [],
            ip_experiences = None, ip_soonest = False\<rparr>\<rparr>)"

section \<open>The state as a value\<close>

definition requirement_json :: "requirement \<Rightarrow> json" where
  "requirement_json r =
     JObj [(u ''kind'', JStr (name_in requirement_kinds (rq_kind r))),
           (u ''value'', JStr (rq_value r)),
           (u ''policy'', JStr (name_in requirement_policies (rq_policy r)))]"

definition preferences_json :: "intent_preferences \<Rightarrow> json" where
  "preferences_json p =
     JObj ([(u ''mood'', opt_json (\<lambda>m. JStr (name_in intent_moods m)) (ip_mood p)),
            (u ''companion'', opt_json (\<lambda>c. JStr (name_in intent_companions c)) (ip_companion p)),
            (u ''interests'', JArr (map JStr (ip_interests p)))]
           @ (case ip_experiences p of
                Some es \<Rightarrow> [(u ''experiences'', JArr (map (\<lambda>e. JStr (name_in input_experiences e)) es))]
              | None \<Rightarrow> [])
           @ (if ip_soonest p then [(u ''order'', JStr (u ''soonest''))] else []))"

definition intent_json :: "interpreted_state \<Rightarrow> json" where
  "intent_json s =
     JObj [(u ''version'', jint 1), (u ''filters'', filters_json (iv_filters s)),
           (u ''requirements'', JArr (map requirement_json (iv_requirements s))),
           (u ''preferences'', preferences_json (iv_preferences s))]"

section \<open>Query texts\<close>

fun experience_label :: "input_experience \<Rightarrow> jstr" where
  "experience_label Laughter = tr ''G~ulmek''"
| "experience_label Learning = tr ''Yeni ~seyler ~o~grenmek''"
| "experience_label Participation = tr ''Etkinli~ge aktif kat~ilmak''"
| "experience_label Dancing = tr ''Dans etmek''"

fun experience_query :: "input_experience \<Rightarrow> jstr" where
  "experience_query Laughter = tr ''laughter comedy humour komedi mizah kahkaha g~ulmek''"
| "experience_query Learning =
     tr ''learning educational talks history science ~o~grenmek e~gitim tarih bilim''"
| "experience_query Participation =
     tr ''interactive audience participation interaktif kat~il~im kat~il~imc~i etkile~sim''"
| "experience_query Dancing = tr ''attendee dancing dance floor dans etmek''"

text \<open>
  The parts of a query so far and whether one more fits in 1200 units, with the space before it.
  The first writer counts a space also before the first part.
\<close>

definition add_query_part :: "jstr option \<Rightarrow> jstr list \<Rightarrow> jstr list" where
  "add_query_part part parts =
     (case part of
        None \<Rightarrow> parts
      | Some t \<Rightarrow>
          if t \<noteq> [] \<and> length (join [32] parts) + length t + 1 \<le> 1200 then parts @ [t] else parts)"

definition excluded_values :: "interpreted_state \<Rightarrow> jstr list" where
  "excluded_values s =
     uniq (concat (map (\<lambda>r. values_of (rq_value r))
       (filter (\<lambda>r. rq_policy r = Exclude_positive_evidence) (iv_requirements s))))"

definition opt_part :: "jstr \<Rightarrow> jstr option \<Rightarrow> jstr option" where
  "opt_part before_it v = (case v of Some t \<Rightarrow> if t = [] then None else Some (before_it @ t) | None \<Rightarrow> None)"

text \<open>\<open>intentQuery\<close>, with the lower case of the locale \<open>en-US\<close> as a parameter.\<close>

definition underscored :: "jstr \<Rightarrow> jstr" where
  "underscored s = replace_all (re ''[ -]+'') [95] s"

definition intent_query :: "(jstr \<Rightarrow> jstr) \<Rightarrow> interpreted_state \<Rightarrow> jstr res" where
  "intent_query lower_en state =
     rbind (validate_intent_state (intent_json state)) (\<lambda>s.
     let p = iv_preferences s;
         parts =
           map (\<lambda>c. Some (u ''category:'' @ c)) (selected_categories (iv_filters s))
           @ [opt_part (u ''district:'') (fl_district (iv_filters s))]
           @ map (\<lambda>r. Some (name_in requirement_kinds (rq_kind r) @ u '':'' @ rq_value r))
               (filter (\<lambda>r. rq_policy r = Require_support \<and> rq_kind r \<noteq> Content_kind)
                 (iv_requirements s))
           @ [opt_part (u ''mood:'') (map_option (name_in intent_moods) (ip_mood p)),
              opt_part (u ''companion:'') (map_option (name_in intent_companions) (ip_companion p))]
           @ map (\<lambda>i. if list_ex (contains_text (underscored (lower_en i))) (excluded_values s) then None
                      else Some (u ''interest:'' @ i)) (ip_interests p)
           @ map (\<lambda>e. Some (u ''experience:'' @ experience_query e))
               (case ip_experiences p of Some es \<Rightarrow> es | None \<Rightarrow> []);
         text = join [32] (fold add_query_part parts [])
     in Inr (if text \<noteq> [] then text else u ''Istanbul events''))"

definition category_texts :: "(jstr \<times> jstr) list" where
  "category_texts = map (\<lambda>(c, t). (tr c, tr t)) [
     (''Konser'', ''konser concert music''), (''Tiyatro'', ''tiyatro theatre play''),
     (''Stand-up'', ''stand-up comedy komedi''),
     (''Workshop'', ''workshop at~olye uygulamal~i etkinlik''), (''Sergi'', ''sergi exhibition''),
     (''Festival'', ''festival''), (''Spor'', ''spor sports''), (''Sinema'', ''sinema film cinema''),
     (''S~oyle~si'', ''s~oyle~si talk seminar conference''), (''Dans'', ''dans dance ballet''),
     (''G~osteri'', ''g~osteri show performance''), (''E~gitim'', ''e~gitim course learning''),
     (''Gezi'', ''gezi tour''), (''M~uze'', ''m~uze museum''), (''Di~ger'', ''etkinlik event'')]"

definition requirement_texts :: "(jstr \<times> jstr) list" where
  "requirement_texts = map (\<lambda>(c, t). (u c, tr t)) [
     (''jazz'', ''jazz caz''), (''blues'', ''blues''), (''rock'', ''rock''),
     (''electronic'', ''electronic elektronik m~uzik''), (''rap'', ''rap hip-hop''),
     (''classical'', ''classical klasik m~uzik''), (''comedy'', ''comedy komedi''),
     (''drama'', ''drama''), (''kayaking'', ''kayaking kano''), (''rowing'', ''rowing k~urek''),
     (''alcohol_free'', ''alcohol-free alkols~uz''), (''quiet'', ''quiet sessiz''),
     (''seated'', ''seated oturmal~i''), (''romantic'', ''romantic romantik''),
     (''uncrowded'', ''uncrowded kalabal~ik olmayan''),
     (''children'', ''children ~cocuk etkinli~gi''),
     (''family_friendly'', ''family-friendly aile dostu''),
     (''step_free'',
      ''step-free wheelchair access basamaks~iz tekerlekli sandalye eri~simi''),
     (''accessible_toilet'', ''accessible toilet eri~silebilir tuvalet'')]"

fun mood_text :: "intent_mood \<Rightarrow> jstr" where
  "mood_text Mood_calm = tr ''sakin rahat bir ak~sam plan~i''"
| "mood_text Mood_energetic = tr ''enerjik canl~i bir etkinlik''"
| "mood_text Mood_uplifting = tr ''keyifli moral y~ukselten bir etkinlik''"

fun companion_text :: "intent_companion \<Rightarrow> jstr" where
  "companion_text With_partner = tr ''partnerle birlikte bir etkinlik''"
| "companion_text With_friends = tr ''arkada~slarla birlikte bir etkinlik''"
| "companion_text With_family = tr ''aileyle birlikte bir etkinlik''"

definition fold_underscored :: "platform \<Rightarrow> jstr \<Rightarrow> jstr" where
  "fold_underscored P s = underscored (dot_i (strip_marks (pl_nfd P (pl_lower_tr P s))))"

text \<open>An experience whose expansion names an excluded value keeps its label only.\<close>

definition names_excluded :: "platform \<Rightarrow> jstr list \<Rightarrow> jstr \<Rightarrow> bool" where
  "names_excluded P prohibited terms \<longleftrightarrow>
     list_ex (\<lambda>value.
       list_ex (\<lambda>t. length t > 2 \<and> fold_underscored P t \<in> set (split_on 95 (fold_underscored P terms)))
         (split_rx (re ''%s+'')
           (case map_of requirement_texts value of Some t \<Rightarrow> t | None \<Rightarrow> value)))
       prohibited"

definition experience_part :: "platform \<Rightarrow> bool \<Rightarrow> jstr list \<Rightarrow> input_experience \<Rightarrow> jstr" where
  "experience_part P expand prohibited e =
     (let terms = (if expand then experience_query e else experience_label e)
      in if names_excluded P prohibited terms then experience_label e else terms)"

definition requirement_query_parts :: "requirement \<Rightarrow> jstr option list" where
  "requirement_query_parts r =
     (if rq_policy r \<noteq> Require_support \<or> rq_kind r = Content_kind then []
      else map (\<lambda>value.
        if rq_kind r = Audience \<and> starts_with value (u ''age:'')
        then Some (drop 4 value @ tr '' ya~s ~cocuk'')
        else map_of requirement_texts value) (values_of (rq_value r)))"

definition add_text_part :: "jstr option \<Rightarrow> jstr list \<Rightarrow> jstr list" where
  "add_text_part part parts =
     (case part of
        None \<Rightarrow> parts
      | Some t \<Rightarrow>
          if t \<noteq> [] \<and> length (join [32] (parts @ [t])) \<le> 1200 then parts @ [t] else parts)"

definition query_text :: "platform \<Rightarrow> bool \<Rightarrow> interpreted_state \<Rightarrow> jstr res" where
  "query_text P expand state =
     rbind (validate_intent_state (intent_json state)) (\<lambda>s.
     let p = iv_preferences s;
         prohibited = excluded_values s;
         parts =
           map (map_of category_texts) (selected_categories (iv_filters s))
           @ [fl_district (iv_filters s)]
           @ concat (map requirement_query_parts (iv_requirements s))
           @ [map_option mood_text (ip_mood p), map_option companion_text (ip_companion p)]
           @ map (\<lambda>e. Some (experience_part P expand prohibited e))
               (case ip_experiences p of Some es \<Rightarrow> es | None \<Rightarrow> [])
           @ map (\<lambda>i. if list_ex (\<lambda>v. contains_text (fold_underscored P i) (fold_underscored P v)) prohibited
                      then None else Some i) (ip_interests p);
         text = join [32] (fold add_text_part parts [])
     in Inr (if text \<noteq> [] then text else tr ''~Istanbul etkinlikleri Istanbul events''))"

definition retrieval_query :: "platform \<Rightarrow> interpreted_state \<Rightarrow> jstr res" where
  "retrieval_query P state = query_text P True state"

definition recommendation_query :: "platform \<Rightarrow> interpreted_state \<Rightarrow> jstr res" where
  "recommendation_query P state = query_text P False state"

section \<open>The summary shown to the user\<close>

definition requirement_names :: "(jstr \<times> jstr) list" where
  "requirement_names = map (\<lambda>(c, t). (u c, tr t)) [
     (''jazz'', ''Caz''), (''blues'', ''Blues''), (''rock'', ''Rock''),
     (''electronic'', ''Elektronik m~uzik''), (''rap'', ''Rap''), (''classical'', ''Klasik m~uzik''),
     (''comedy'', ''Komedi''), (''drama'', ''Drama''), (''kayaking'', ''Kano''), (''rowing'', ''K~urek''),
     (''alcohol_free'', ''Alkols~uz ortam''), (''quiet'', ''Sessiz ortam''),
     (''seated'', ''Oturma yeri''), (''romantic'', ''Romantik atmosfer''),
     (''uncrowded'', ''Kalabal~ik olmayan ortam''), (''children'', ''~Cocuklara uygun''),
     (''family_friendly'', ''Ailece uygun''), (''swearing'', ''K~uf~ur i~cermedi~gi belirtilen''),
     (''sexual_content'', ''Cinsel i~cerik i~cermedi~gi belirtilen''),
     (''step_free'', ''Basamaks~iz / tekerlekli sandalye eri~simi''),
     (''accessible_toilet'', ''Eri~silebilir tuvalet'')]"

definition requirement_label :: "requirement \<Rightarrow> jstr" where
  "requirement_label r =
     (let parts = map (\<lambda>v. if starts_with v (u ''age:'') then drop 4 v @ tr '' ya~sa uygun''
                           else case map_of requirement_names v of Some t \<Rightarrow> t | None \<Rightarrow> v)
            (values_of (rq_value r));
          joined = join (if rq_kind r = Content_kind \<or> rq_kind r = Accessibility
                         then u '' ve '' else u '' veya '') parts
      in if rq_policy r = Exclude_positive_evidence then joined @ tr '' olanlar hari~c'' else joined)"

definition summary_dates :: "filters \<Rightarrow> jstr list" where
  "summary_dates f =
     (let a = or_empty (fl_dateFrom f); b = or_empty (fl_dateTo f)
      in if a \<noteq> [] \<and> fl_dateFrom f = fl_dateTo f then [a]
         else (if a \<noteq> [] then [a @ tr '' ve sonras~i''] else [])
              @ (if b \<noteq> [] then [b @ tr '' ve ~oncesi''] else []))"

definition summary_filters :: "(rat \<Rightarrow> jstr) \<Rightarrow> filters \<Rightarrow> jstr list" where
  "summary_filters money f =
     (let from = or_empty (fl_startTimeFrom f); until = or_empty (fl_startTimeTo f);
          strict = (fl_maxPriceExclusive f = Some True);
          most = (\<lambda>text n. text @ (if strict then [] else u ''en fazla '') @ money n
                           @ (if strict then tr '' alt~i'' else []))
      in summary_dates f
         @ (if from = [] then [] else [from @ (if fl_startTimeFromExclusive f = Some True
              then tr '' sonras~i'' else tr '' ve sonras~i'') @ tr '' (~Istanbul)''])
         @ (if until = [] then [] else [until @ (if fl_startTimeToExclusive f = Some True
              then tr '' ~oncesi'' else tr '' ve ~oncesi'') @ tr '' (~Istanbul)''])
         @ (case fl_partySize f of Some n \<Rightarrow> [int_digits n @ tr '' ki~si''] | None \<Rightarrow> [])
         @ (case fl_totalBudget f of Some n \<Rightarrow> [most (u ''Toplam '') n] | None \<Rightarrow> [])
         @ (case fl_maxPrice f of Some n \<Rightarrow> [most (tr ''Ki~si ba~s~i '') n] | None \<Rightarrow> [])
         @ (if selected_categories f = [] then []
            else [join (u '' veya '') (selected_categories f)])
         @ (case fl_excludedCategories f of
              Some xs \<Rightarrow> if xs = [] then [] else [join (u '', '') xs @ tr '' hari~c''] | None \<Rightarrow> [])
         @ (if or_empty (fl_district f) = [] then [] else [or_empty (fl_district f)]))"

fun companion_name :: "intent_companion \<Rightarrow> jstr" where
  "companion_name With_partner = u ''Partnerle birlikte''"
| "companion_name With_friends = tr ''Arkada~slarla birlikte''"
| "companion_name With_family = u ''Aileyle birlikte''"

fun mood_name :: "intent_mood \<Rightarrow> jstr" where
  "mood_name Mood_calm = u ''Sakin bir plan''"
| "mood_name Mood_energetic = u ''Enerjik bir plan''"
| "mood_name Mood_uplifting = tr ''Moral y~ukselten bir plan''"

definition summary_preferences :: "intent_preferences \<Rightarrow> jstr list" where
  "summary_preferences p =
     (case ip_companion p of Some c \<Rightarrow> [companion_name c] | None \<Rightarrow> [])
     @ (case ip_mood p of Some m \<Rightarrow> [mood_name m] | None \<Rightarrow> [])
     @ map experience_label (case ip_experiences p of Some es \<Rightarrow> es | None \<Rightarrow> [])
     @ ip_interests p
     @ (if ip_soonest p then [tr ''En yak~in tarih ~once''] else [])"

definition intent_summary :: "(rat \<Rightarrow> jstr) \<Rightarrow> interpreted_state \<Rightarrow> jstr list \<times> jstr list" where
  "intent_summary money s =
     (uniq (summary_filters money (iv_filters s) @ map requirement_label (iv_requirements s)),
      uniq (summary_preferences (iv_preferences s)))"

end
