(* ===== verification/Retrieval.thy ===== *)
theory Retrieval
  imports Ranking Intent_State EventMerge Intent
begin

text \<open>
  \<open>web/lib/retrieval.ts\<close>: what of a conversation counts for a search of the rules, and the
  shortlist: ranking, one card per production and show, coverage of a calm mood, and the orders
  by date and by price.
\<close>

section \<open>Context\<close>

datatype retrieval_order = No_retrieval_order | Retrieve_soonest | Retrieve_cheapest

record resolved_context =
  rc_query :: jstr
  rc_order :: retrieval_order
  rc_soft :: "soft_preferences option"
  rc_calm :: bool
  rc_child :: bool

record search_context =
  sc_query :: jstr
  sc_history :: "message list"
  sc_rejected :: "jstr list"
  sc_reset :: bool
  sc_category :: "jstr option"

text \<open>One card per show: the display identity, the saved key or the production.\<close>

definition display_key :: "platform \<Rightarrow> event \<Rightarrow> jstr" where
  "display_key P e =
     (case display_show_identity P e of
        Some k \<Rightarrow> k
      | None \<Rightarrow> (case ev_canonicalShowKey e of Some k \<Rightarrow> k | None \<Rightarrow> production_identity e))"

definition diverse_events :: "platform \<Rightarrow> event list \<Rightarrow> nat \<Rightarrow> event list" where
  "diverse_events P events limit = take limit (first_of_each (display_key P) [] events)"

definition category_reset_rx :: string where
  "category_reset_rx =
     ''%b(?:her (?:tur|kategori)|kategori(?:yi)? (?:kaldir|fark etmez|onemli degil)|bastan basla|'' @
     ''tercihleri kaldir)%b''"

definition is_preference_reset :: "platform \<Rightarrow> jstr \<Rightarrow> bool" where
  "is_preference_reset P message \<longleftrightarrow>
     is_full_preference_reset P message \<or> test (re category_reset_rx) (fold_text P message)"

definition positive_categories :: "platform \<Rightarrow> jstr \<Rightarrow> jstr list" where
  "positive_categories P message = ct_requested (category_intent_of P message)"

definition last_index :: "('a \<Rightarrow> bool) \<Rightarrow> 'a list \<Rightarrow> nat option" where
  "last_index ok xs = find (\<lambda>i. ok (xs ! i)) (rev [0..<length xs])"

text \<open>The turns since the last reset; a full reset is itself a turn of the search.\<close>

definition recent_turns :: "platform \<Rightarrow> message list \<Rightarrow> message list" where
  "recent_turns P history =
     (let turns = last_items 6 (filter ms_fromUser history)
      in case last_index (\<lambda>m. is_preference_reset P (ms_content m)) turns of
           None \<Rightarrow> turns
         | Some i \<Rightarrow>
             drop (i + (if is_full_preference_reset P (ms_content (turns ! i)) then 0 else 1)) turns)"

text \<open>The last turn that changed to other categories, with the categories named so far.\<close>

fun last_switch ::
  "platform \<Rightarrow> nat \<Rightarrow> jstr list \<Rightarrow> nat option \<Rightarrow> message list \<Rightarrow> nat option" where
  "last_switch P i previous found [] = found"
| "last_switch P i previous found (m # ms) =
     (let categories = positive_categories P (ms_content m)
      in if categories = [] then last_switch P (Suc i) previous found ms
         else last_switch P (Suc i) categories
                (if previous \<noteq> [] \<and> list_all (\<lambda>c. c \<notin> set previous) categories then Some i else found) ms)"

definition persistent_turns :: "platform \<Rightarrow> message list \<Rightarrow> message list" where
  "persistent_turns P recent =
     (case last_switch P 0 [] None recent of Some i \<Rightarrow> drop i recent | None \<Rightarrow> recent)"

definition latest_categories :: "platform \<Rightarrow> message list \<Rightarrow> jstr list" where
  "latest_categories P turns =
     (case find (\<lambda>cs. cs \<noteq> []) (map (\<lambda>m. positive_categories P (ms_content m)) (rev turns)) of
        Some cs \<Rightarrow> cs | None \<Rightarrow> [])"

text \<open>The cache by term is not observable.\<close>

definition rejected_term_category :: "platform \<Rightarrow> jstr \<Rightarrow> jstr option" where
  "rejected_term_category P term =
     (case ct_excluded (category_intent_of P (term @ u '' istemiyorum'')) of
        [c] \<Rightarrow> Some c | _ \<Rightarrow> None)"

definition whole_word :: "jstr \<Rightarrow> rx" where
  "whole_word w = seqs [Wordb, Lit w, Wordb]"

definition reject_turn :: "platform \<Rightarrow> jstr \<Rightarrow> jstr list \<Rightarrow> jstr list" where
  "reject_turn P turn rejected =
     (let intent = category_intent_of P turn;
          positive = fold_text P (ct_positiveText intent);
          dropped = (\<lambda>t. (case rejected_term_category P t of
                             Some c \<Rightarrow> c \<in> set (ct_requested intent) | None \<Rightarrow> False)
                         \<or> (t \<notin> set (ct_rejected intent) \<and> test (whole_word t) positive))
      in filter (\<lambda>t. \<not> dropped t) (fold set_add (ct_rejected intent) rejected))"

definition inherited_category ::
  "platform \<Rightarrow> jstr list \<Rightarrow> jstr list \<Rightarrow> jstr list \<Rightarrow> bool \<Rightarrow> jstr option" where
  "inherited_category P current latest rejected reset =
     (let candidate = (case current of
            [c] \<Rightarrow> Some c
          | [] \<Rightarrow> (case latest of [c] \<Rightarrow> if reset then None else Some c | _ \<Rightarrow> None)
          | _ \<Rightarrow> None)
      in case candidate of
           None \<Rightarrow> None
         | Some c \<Rightarrow>
             if c = [] \<or> list_ex (\<lambda>t. rejected_term_category P t = Some c) rejected then None else Some c)"

definition search_context_of :: "platform \<Rightarrow> jstr \<Rightarrow> message list \<Rightarrow> search_context" where
  "search_context_of P message history =
     (let persistent = persistent_turns P (recent_turns P history);
          reset = is_preference_reset P message;
          current = positive_categories P message;
          latest = latest_categories P persistent;
          switch = (current \<noteq> [] \<and> latest \<noteq> [] \<and> list_all (\<lambda>c. c \<notin> set latest) current);
          relevant = (if reset \<or> switch then [] else persistent);
          rejected = fold (reject_turn P) (map ms_content relevant @ [message]) []
      in \<lparr>sc_query = join [10] ([message, message, message] @ map ms_content relevant),
          sc_history = relevant, sc_rejected = rejected, sc_reset = (reset \<or> switch),
          sc_category = inherited_category P current latest rejected reset\<rparr>)"

section \<open>Evidence of a child audience\<close>

definition negated_child_rx :: string where
  "negated_child_rx =
     ''%b(?:cocuk(?:lar|lara|larin)?|children|kids?)%b[^.!?%n]{0,36}%b(?:degil(?:dir)?|degildir|i'' @
     ''cermez|yok|not|isn~qt|is not)%b''"

definition child_audience_patterns :: "string list" where
  "child_audience_patterns = [
     ''%b(?:cocuk(?:lar|lara|larin)?%s+(?:icin|oyunu|tiyatrosu|muzikali|sirki|stand[ -]?up)|cocuk'' @
     ''lara%s+yonelik|(?:children|kids?)[~q~rs]*%s+(?:show|theatre|theater|musical|circus|comedy)'' @
     ''|(?:show|theatre|theater|musical|circus|comedy)%s+for%s+(?:children|kids?))%b'',
     ''%b%d{1,2}%s*[~n-]%s*%d{1,2}%s*yas%b[^.!?%n]{0,40}%bcocuk(?:lar|lara|larin)?%b'',
     ''%bcocuk(?:lar|lara|larin)?%b[^.!?%n]{0,32}%b(?:aileleri|aileler)%b[^.!?%n]{0,16}%bicin%b'',
     ''%b(?:merhaba%s+cocuklar|(?:cocuklar|minik%s+(?:seyirciler|izleyiciler))[^.!?%n]{0,64}(?:da'' @
     ''vet|bekliyor|bulusuyor|katil))%b'']"

definition has_child_audience_evidence :: "platform \<Rightarrow> event \<Rightarrow> bool" where
  "has_child_audience_evidence P e \<longleftrightarrow>
     (let text = join [32] (map (\<lambda>s. replace_all (re negated_child_rx) [32] (fold_text P s))
                              [ev_title e, ev_description e])
      in list_ex (\<lambda>p. test (re p) text) child_audience_patterns)"

section \<open>A calm mood\<close>

definition calm_refused_rx :: string where
  "calm_refused_rx =
     ''%b(?:sakin(?:les(?:mek|ebilecegim|ebilecegimiz))?|huzurlu|dinlendirici|calm|relaxed|relaxi'' @
     ''ng|quiet)%b[^.!?]{0,24}%b(?:istemiyorum|istemem|olmasin|degil|is not|isn~qt)%b''"

definition calm_denied_rx :: string where
  "calm_denied_rx =
     ''%b(?:not|no|don~qt want|do not want)%s+(?:a%s+)?(?:calm|relaxed|relaxing|quiet)%b''"

definition calm_wanted_rx :: string where
  "calm_wanted_rx =
     ''%b(?:sakin(?:les(?:mek|ebilecegim|ebilecegimiz))?|huzurlu|dinlendirici|yoruldum|yorgunum|r'' @
     ''ahat(?:%s+bir)?%s+aksam|calm|relaxed|relaxing|tired|exhausted)%b''"

text \<open>The newest turn that speaks of a calm mood decides.\<close>

fun calm_in_turns :: "platform \<Rightarrow> jstr list \<Rightarrow> bool" where
  "calm_in_turns P [] = False"
| "calm_in_turns P (t # ts) =
     (let text = fold_text P t
      in if test (re calm_refused_rx) text \<or> test (re calm_denied_rx) text then False
         else if test (re calm_wanted_rx) text then True else calm_in_turns P ts)"

definition requests_calm_optional_mood :: "platform \<Rightarrow> jstr \<Rightarrow> message list \<Rightarrow> bool" where
  "requests_calm_optional_mood P message history =
     calm_in_turns P (message # map ms_content (rev (filter ms_fromUser history)))"

definition high_energy_rx :: string where
  "high_energy_rx =
     ''%b(?:yuksek sesli|enerjik%s+(?:rock|metal)|hard rock|heavy metal)%b''"

definition acoustic_rx :: string where
  "acoustic_rx =
     ''%bakustik%b''"

definition not_acoustic_rx :: string where
  "not_acoustic_rx =
     ''%bakustik%b[^.!?]{0,20}%b(?:degil|olmayan|yok)%b''"

definition strings_before_rx :: string where
  "strings_before_rx =
     ''%b(?:viyolonsel|cello|yayli|keman|oda muzigi)%b[^.!?]{0,64}%b(?:konser|program|performans|'' @
     ''resital|eser|muzik)%b''"

definition strings_after_rx :: string where
  "strings_after_rx =
     ''%b(?:konser|program|performans|resital|eser|muzik)%b[^.!?]{0,64}%b(?:viyolonsel|cello|yayl'' @
     ''i|keman|oda muzigi)%b''"

definition strings_title_rx :: string where
  "strings_title_rx =
     ''%b(?:viyolonsel|cello|yayli|keman|oda muzigi)%b''"

definition recital_rx :: string where
  "recital_rx =
     ''%b(?:piyano resitali|klasik muzik|resital)%b''"

definition candle_rx :: string where
  "candle_rx =
     ''%b(?:candle|mum isigi|mum isiginda)%b''"

definition calm_format_tags :: "platform \<Rightarrow> event \<Rightarrow> string list" where
  "calm_format_tags P e =
     (let title = fold_text P (ev_title e);
          text = title @ [32] @ fold_text P (ev_description e);
          highEnergy = test (re high_energy_rx) text;
          strings = (test (re strings_before_rx) text \<or> test (re strings_after_rx) text
                     \<or> test (re strings_title_rx) title)
      in (if test (re acoustic_rx) text \<and> \<not> test (re not_acoustic_rx) text then [''acoustic''] else [])
         @ (if strings \<and> \<not> highEnergy then [''chamber-strings''] else [])
         @ (if \<not> highEnergy \<and> test (re recital_rx) text then [''recital-classical''] else [])
         @ (if test (re candle_rx) text then [''candle-format''] else []))"

text \<open>\<open>requestsChildAudience\<close>: a requirement of the state that asks for a child audience.\<close>

definition child_value :: "jstr \<Rightarrow> bool" where
  "child_value v \<longleftrightarrow> v = u ''children'' \<or> v = u ''family_friendly'' \<or> starts_with v (u ''age:'')"

definition requests_child_audience :: "interpreted_state \<Rightarrow> bool" where
  "requests_child_audience s \<longleftrightarrow>
     list_ex (\<lambda>r. rq_kind r = Audience \<and> rq_policy r = Require_support
                  \<and> list_ex child_value (values_of (rq_value r))) (iv_requirements s)"

definition child_word_rx :: string where
  "child_word_rx =
     ''%bcocuk(?:lar|lara|larin)?%b''"

text \<open>The first event of every calm format, up to four or the limit.\<close>

fun calm_supplements ::
  "platform \<Rightarrow> bool \<Rightarrow> nat \<Rightarrow> string list \<Rightarrow> event list \<Rightarrow> event list" where
  "calm_supplements P childWanted room seen [] = []"
| "calm_supplements P childWanted room seen (e # es) =
     (if room = 0 then []
      else if \<not> childWanted \<and> has_child_audience_evidence P e
      then calm_supplements P childWanted room seen es
      else case find (\<lambda>t. t \<notin> set seen) (calm_format_tags P e) of
             None \<Rightarrow> calm_supplements P childWanted room seen es
           | Some t \<Rightarrow> e # calm_supplements P childWanted (room - 1) (t # seen) es)"

text \<open>Ids are added in the order of the ranking until the limit of selected events is reached.\<close>

fun fill_selection :: "nat \<Rightarrow> jstr list \<Rightarrow> event list \<Rightarrow> jstr list" where
  "fill_selection room ids [] = ids"
| "fill_selection room ids (e # es) =
     (if room = 0 then ids
      else if ev_id e \<in> set ids then fill_selection room ids es
      else fill_selection (room - 1) (ids @ [ev_id e]) es)"

definition wants_calm ::
  "platform \<Rightarrow> jstr \<Rightarrow> message list \<Rightarrow> interpreted_state option \<Rightarrow> resolved_context option \<Rightarrow> bool" where
  "wants_calm P message history intent resolved =
     (case (resolved, intent) of
        (Some r, _) \<Rightarrow> rc_calm r
      | (None, Some s) \<Rightarrow> ip_mood (iv_preferences s) = Some Mood_calm
      | (None, None) \<Rightarrow> requests_calm_optional_mood P message history)"

definition wants_children ::
  "platform \<Rightarrow> jstr \<Rightarrow> interpreted_state option \<Rightarrow> resolved_context option \<Rightarrow> bool" where
  "wants_children P message intent resolved =
     (case (resolved, intent) of
        (Some r, _) \<Rightarrow> rc_child r
      | (None, Some s) \<Rightarrow> requests_child_audience s
      | (None, None) \<Rightarrow> test (re child_word_rx) (fold_text P message))"

definition calm_mood_shortlist_coverage ::
  "platform \<Rightarrow> event list \<Rightarrow> jstr \<Rightarrow> message list \<Rightarrow> nat \<Rightarrow> interpreted_state option
     \<Rightarrow> resolved_context option \<Rightarrow> event list option" where
  "calm_mood_shortlist_coverage P ranked message history limit intent resolved =
     (if \<not> wants_calm P message history intent resolved \<or> limit < 2 then None
      else
        let supplements = calm_supplements P (wants_children P message intent resolved) (min 4 limit) [] ranked;
            others = filter (\<lambda>e. ev_id e \<notin> ev_id ` set supplements) ranked;
            selected = take (limit - length supplements) others @ supplements;
            ids = fill_selection (limit - length selected) (map ev_id selected) ranked
        in if supplements = [] then None
           else Some (take limit (filter (\<lambda>e. ev_id e \<in> set ids) ranked)))"

section \<open>Candidates\<close>

definition term_denied_rx :: string where
  "term_denied_rx =
     ''^%s+(?:degil(?:dir)?|icermez|yok)%b''"

definition event_text :: "platform \<Rightarrow> event \<Rightarrow> jstr" where
  "event_text P e =
     fold_text P (join [32] [ev_title e, ev_description e, ev_category e, ev_venue e])"

definition rejects_event :: "platform \<Rightarrow> event \<Rightarrow> jstr \<Rightarrow> bool" where
  "rejects_event P e term =
     (if term = u ''cocuk'' then has_child_audience_evidence P e
      else if term = u ''konser'' \<or> term = u ''muzik'' then ev_category e = tr ''Konser''
      else if term = u ''tiyatro'' then ev_category e = tr ''Tiyatro''
      else if term = u ''stand-up'' \<or> term = u ''stand up'' then ev_category e = tr ''Stand-up''
      else list_ex (\<lambda>m. \<not> test (re term_denied_rx) (take 24 (rm_after m)))
             (match_all (whole_word term) (event_text P e)))"

definition eligible_for_context :: "platform \<Rightarrow> search_context \<Rightarrow> event \<Rightarrow> bool" where
  "eligible_for_context P c e \<longleftrightarrow>
     (case sc_category c of Some k \<Rightarrow> k = [] \<or> ev_category e = k | None \<Rightarrow> True)
     \<and> \<not> list_ex (rejects_event P e) (sc_rejected c)"

text \<open>A partner outing puts the events for children last, unless they were asked for.\<close>

definition demote_child_directed :: "platform \<Rightarrow> event list \<Rightarrow> interpreted_state option \<Rightarrow> event list" where
  "demote_child_directed P ranked intent =
     (case intent of
        None \<Rightarrow> ranked
      | Some s \<Rightarrow>
          if ip_companion (iv_preferences s) \<noteq> Some With_partner \<or> requests_child_audience s then ranked
          else filter (\<lambda>e. \<not> has_child_audience_evidence P e) ranked
               @ filter (has_child_audience_evidence P) ranked)"

definition resolved_search :: "jstr \<Rightarrow> search_context" where
  "resolved_search query =
     \<lparr>sc_query = query, sc_history = [], sc_rejected = [], sc_reset = False, sc_category = None\<rparr>"

definition retrieval_context ::
  "platform \<Rightarrow> jstr \<Rightarrow> message list \<Rightarrow> interpreted_state option \<Rightarrow> resolved_context option
     \<Rightarrow> search_context res" where
  "retrieval_context P message history intent resolved =
     (case (resolved, intent) of
        (Some r, _) \<Rightarrow> Inr (resolved_search (rc_query r))
      | (None, Some s) \<Rightarrow> rbind (retrieval_query P s) (\<lambda>q. Inr (resolved_search q))
      | (None, None) \<Rightarrow> Inr (search_context_of P message history))"

record candidate_events =
  ca_context :: search_context
  ca_allowed :: "event list"
  ca_ranked :: "event list"

text \<open>The arguments of a retrieval, shared by its two entry points.\<close>

record retrieval =
  rv_message :: jstr
  rv_history :: "message list"
  rv_semantic :: "semantic_ranking option"
  rv_intent :: "interpreted_state option"
  rv_resolved :: "resolved_context option"

definition ranked_candidates ::
  "platform \<Rightarrow> (rat \<Rightarrow> rat) \<Rightarrow> event list \<Rightarrow> retrieval \<Rightarrow> candidate_events res" where
  "ranked_candidates P logarithm events r =
     rbind (retrieval_context P (rv_message r) (rv_history r) (rv_intent r) (rv_resolved r)) (\<lambda>context.
     let allowed = (if rv_intent r \<noteq> None \<or> rv_resolved r \<noteq> None then events
                    else filter (eligible_for_context P context) events);
         base = (case rv_semantic r of
             Some s \<Rightarrow> hybrid_rank P logarithm allowed (sc_query context) s
           | None \<Rightarrow> rank_events P allowed (sc_query context) None []);
         soft = apply_soft_preferences P base (Option.bind (rv_resolved r) rc_soft)
     in Inr \<lparr>ca_context = context, ca_allowed = allowed,
             ca_ranked = unique_events (demote_child_directed P soft (rv_intent r)) (length allowed)\<rparr>)"

section \<open>Orders\<close>

definition start_order :: "platform \<Rightarrow> event \<Rightarrow> event \<Rightarrow> int" where
  "start_order P a b =
     cmp_or (pl_collate P (ev_startsAt a) (ev_startsAt b)) (pl_collate P (ev_id a) (ev_id b))"

text \<open>\<open>(a.price ?? Infinity) - (b.price ?? Infinity) || ...\<close>: two unknown prices give \<open>NaN\<close>, which is false.\<close>

definition cheapest_order :: "platform \<Rightarrow> event \<Rightarrow> event \<Rightarrow> int" where
  "cheapest_order P a b =
     (let prices = (case (ev_price a, ev_price b) of
            (Some p, Some q) \<Rightarrow> cmp_int p q
          | (Some p, None) \<Rightarrow> - 1
          | (None, Some q) \<Rightarrow> 1
          | (None, None) \<Rightarrow> 0)
      in cmp_or prices (pl_collate P (ev_startsAt a) (ev_startsAt b)))"

definition soonest_production_representatives ::
  "platform \<Rightarrow> event list \<Rightarrow> interpreted_state option \<Rightarrow> event list" where
  "soonest_production_representatives P events intent =
     diverse_events P
       (unique_events (demote_child_directed P (sort_by (start_order P) events) intent) (length events))
       (length events)"

definition cheapest_production_representatives :: "platform \<Rightarrow> event list \<Rightarrow> nat \<Rightarrow> event list" where
  "cheapest_production_representatives P events limit =
     diverse_events P (unique_events (sort_by (cheapest_order P) events) (length events)) limit"

definition show_key :: "platform \<Rightarrow> event \<Rightarrow> jstr option" where
  "show_key P e =
     (case ev_canonicalShowKey e of Some k \<Rightarrow> Some k | None \<Rightarrow> display_show_identity P e)"

record coverage =
  cv_selected :: "event list"
  cv_productions :: "jstr list"
  cv_shows :: "jstr list"

definition add_covered :: "platform \<Rightarrow> event \<Rightarrow> coverage \<Rightarrow> coverage" where
  "add_covered P e st =
     (let production = production_identity e;
          show_name = (case show_key P e of Some k \<Rightarrow> k | None \<Rightarrow> production)
      in if production \<in> set (cv_productions st) \<or> show_name \<in> set (cv_shows st) then st
         else \<lparr>cv_selected = cv_selected st @ [e], cv_productions = production # cv_productions st,
               cv_shows = show_name # cv_shows st\<rparr>)"

definition add_head :: "platform \<Rightarrow> event list \<Rightarrow> coverage \<Rightarrow> coverage" where
  "add_head P es st = (case es of e # r \<Rightarrow> add_covered P e st | [] \<Rightarrow> st)"

text \<open>Alternately the next event by date and the next by relevance, until the limit.\<close>

fun interleave_from ::
  "platform \<Rightarrow> nat \<Rightarrow> event list \<Rightarrow> event list \<Rightarrow> coverage \<Rightarrow> coverage" where
  "interleave_from P limit [] [] st = st"
| "interleave_from P limit xs ys st =
     (if length (cv_selected st) \<ge> limit then st
      else
        let st1 = add_head P xs st
        in if length (cv_selected st1) < limit
           then interleave_from P limit (tl xs) (tl ys) (add_head P ys st1)
           else st1)"

definition interleave_soonest_coverage ::
  "platform \<Rightarrow> event list \<Rightarrow> event list \<Rightarrow> nat \<Rightarrow> event list" where
  "interleave_soonest_coverage P chronological relevant limit =
     cv_selected (interleave_from P limit chronological relevant
       \<lparr>cv_selected = [], cv_productions = [], cv_shows = []\<rparr>)"

definition map_relevance_to_earliest :: "platform \<Rightarrow> event list \<Rightarrow> event list \<Rightarrow> event list" where
  "map_relevance_to_earliest P relevant chronological =
     (let byProduction = map_of (rev (map (\<lambda>e. (production_identity e, e)) chronological));
          byShow = map_of (rev (List.map_filter (\<lambda>e. case show_key P e of
            Some k \<Rightarrow> if k = [] then None else Some (k, e) | None \<Rightarrow> None) chronological))
      in map (\<lambda>e. case byProduction (production_identity e) of
                Some x \<Rightarrow> x
              | None \<Rightarrow>
                  (case show_key P e of
                     Some k \<Rightarrow> if k = [] then e else (case byShow k of Some x \<Rightarrow> x | None \<Rightarrow> e)
                   | None \<Rightarrow> e)) relevant)"

section \<open>The shortlist\<close>

text \<open>Without a dense ranking: first one event per category, then the rest by production.\<close>

fun one_per_category :: "nat \<Rightarrow> jstr list \<Rightarrow> event list \<Rightarrow> event list" where
  "one_per_category room seen [] = []"
| "one_per_category room seen (e # es) =
     (if room = 0 then []
      else if ev_category e \<in> set seen then one_per_category room seen es
      else e # one_per_category (room - 1) (ev_category e # seen) es)"

definition varied_shortlist :: "event list \<Rightarrow> nat \<Rightarrow> event list" where
  "varied_shortlist ranked limit =
     (let chosen = one_per_category limit [] ranked
      in if length chosen = limit then chosen
         else chosen @ take (limit - length chosen)
                (first_of_each production_identity (map production_identity chosen) ranked))"

definition wants_soonest :: "retrieval \<Rightarrow> bool" where
  "wants_soonest r \<longleftrightarrow>
     (case rv_intent r of Some s \<Rightarrow> ip_soonest (iv_preferences s) | None \<Rightarrow> False)
     \<or> (case rv_resolved r of Some c \<Rightarrow> rc_order c = Retrieve_soonest | None \<Rightarrow> False)"

definition wants_cheapest :: "retrieval \<Rightarrow> bool" where
  "wants_cheapest r \<longleftrightarrow>
     (case rv_resolved r of Some c \<Rightarrow> rc_order c = Retrieve_cheapest | None \<Rightarrow> False)"

definition relevance_covered ::
  "platform \<Rightarrow> candidate_events \<Rightarrow> retrieval \<Rightarrow> nat \<Rightarrow> event list \<Rightarrow> event list" where
  "relevance_covered P c r limit ranked =
     (let calm = (if rv_semantic r \<noteq> None
                  then calm_mood_shortlist_coverage P ranked (rv_message r) (sc_history (ca_context c)) limit
                         (rv_intent r) (rv_resolved r)
                  else None)
      in case calm of
           Some es \<Rightarrow> es
         | None \<Rightarrow> if rv_semantic r \<noteq> None \<and> rv_resolved r = None then take limit ranked else ranked)"

definition shortlist_of :: "platform \<Rightarrow> candidate_events \<Rightarrow> retrieval \<Rightarrow> nat \<Rightarrow> event list" where
  "shortlist_of P c r limit =
     (let ranked = diverse_events P (ca_ranked c) (length (ca_ranked c));
          covered = relevance_covered P c r limit ranked
      in if wants_cheapest r then
           (let cheapest = cheapest_production_representatives P (ca_allowed c) (length (ca_allowed c))
            in interleave_soonest_coverage P cheapest (map_relevance_to_earliest P covered cheapest) limit)
         else if wants_soonest r then
           (let chronological = soonest_production_representatives P (ca_allowed c) (rv_intent r)
            in interleave_soonest_coverage P chronological
                 (map_relevance_to_earliest P covered chronological) limit)
         else if rv_semantic r \<noteq> None then take limit covered
         else varied_shortlist ranked limit)"

definition shortlist_events ::
  "platform \<Rightarrow> (rat \<Rightarrow> rat) \<Rightarrow> event list \<Rightarrow> retrieval \<Rightarrow> nat \<Rightarrow> event list res" where
  "shortlist_events P logarithm events r limit =
     (if limit = 0 then Inr []
      else rbind (ranked_candidates P logarithm events r) (\<lambda>c. Inr (shortlist_of P c r limit)))"

definition fallback_of :: "platform \<Rightarrow> candidate_events \<Rightarrow> retrieval \<Rightarrow> nat \<Rightarrow> event list" where
  "fallback_of P c r limit =
     (if wants_cheapest r then cheapest_production_representatives P (ca_allowed c) limit
      else if wants_soonest r
      then take limit (soonest_production_representatives P (ca_allowed c) (rv_intent r))
      else diverse_events P (ca_ranked c) limit)"

definition fallback_events ::
  "platform \<Rightarrow> (rat \<Rightarrow> rat) \<Rightarrow> event list \<Rightarrow> retrieval \<Rightarrow> nat \<Rightarrow> event list res" where
  "fallback_events P logarithm events r limit =
     (if limit = 0 then Inr []
      else rbind (ranked_candidates P logarithm events r) (\<lambda>c. Inr (fallback_of P c r limit)))"

end
