(* ===== verification/Plan_Properties.thy ===== *)
theory Plan_Properties
  imports Plan_State Retrieval
begin

text \<open>
  What the conditions of a plan promise: the meaning of the three-valued evaluation, the effect of
  operations on a plan, the party that a group budget needs, the plan state as a value, and the
  bounded effect of preferences.
\<close>

section \<open>Three-valued evaluation\<close>

text \<open>The two-valued meaning of a condition under an assignment of its atoms.\<close>

fun condition_holds :: "(plan_atom \<Rightarrow> bool) \<Rightarrow> condition \<Rightarrow> bool" where
  "condition_holds truth (Atom i a) = truth a"
| "condition_holds truth (Not_of i c) = (\<not> condition_holds truth c)"
| "condition_holds truth (All_of i cs) = list_all (condition_holds truth) cs"
| "condition_holds truth (Any_of i cs) = list_ex (condition_holds truth) cs"

text \<open>
  An assignment agrees with verdicts when what is supported is true, what is contradicted is
  false, and a topic that the source does not name at all is not its topic.
\<close>

definition agrees :: "(plan_atom \<Rightarrow> verdict) \<Rightarrow> (plan_atom \<Rightarrow> bool) \<Rightarrow> bool" where
  "agrees result truth \<longleftrightarrow>
     (\<forall>a. (fst (result a) = Supported \<longrightarrow> truth a) \<and> (fst (result a) = Contradicted \<longrightarrow> \<not> truth a)
        \<and> (is_topic a \<and> result a = (Unknown, []) \<longrightarrow> \<not> truth a))"

definition decided_by :: "requirement_status \<Rightarrow> bool \<Rightarrow> bool" where
  "decided_by s b = (case s of Supported \<Rightarrow> b | Contradicted \<Rightarrow> \<not> b | Unknown \<Rightarrow> True)"

lemma decided_by_simps [simp]:
  "decided_by Supported b = b" "decided_by Contradicted b = (\<not> b)" "decided_by Unknown b = True"
  by (simp_all add: decided_by_def)

lemma decided_not: "decided_by s b \<Longrightarrow> decided_by (not_status s) (\<not> b)"
  by (cases s) simp_all

lemma decided_all:
  assumes "\<And>c. c \<in> set cs \<Longrightarrow> decided_by (f c) (g c)"
  shows "decided_by (all_status (map f cs)) (list_all g cs)"
  using assms by (fastforce simp: all_status_def list_all_iff)

lemma decided_any:
  assumes "\<And>c. c \<in> set cs \<Longrightarrow> decided_by (f c) (g c)"
  shows "decided_by (any_status (map f cs)) (list_ex g cs)"
  using assms by (fastforce simp: any_status_def list_all_iff list_ex_iff)

lemma decided_polar: "agrees result truth \<Longrightarrow> decided_by (polar_status negated a (result a)) (truth a)"
  by (cases "result a"; cases "fst (result a)") (auto simp: polar_status_def agrees_def)

lemma decided_evaluate:
  "agrees result truth \<Longrightarrow> decided_by (ev_status (evaluate result negated c)) (condition_holds truth c)"
proof (induction c arbitrary: negated)
  case (All_of i cs)
  then have "decided_by (all_status (map (\<lambda>c. ev_status (evaluate result negated c)) cs)) (list_all (condition_holds truth) cs)"
    by (intro decided_all)
  then show ?case by (simp add: Let_def comp_def)
next
  case (Any_of i cs)
  then have "decided_by (any_status (map (\<lambda>c. ev_status (evaluate result negated c)) cs)) (list_ex (condition_holds truth) cs)"
    by (intro decided_any)
  then show ?case by (simp add: Let_def comp_def)
qed (simp_all add: Let_def decided_polar decided_not)

text \<open>
  C5: the evaluation of a plan is sound for its two-valued meaning: a supported plan holds of
  every event that agrees with the verdicts of its atoms, a contradicted one holds of none.
\<close>

theorem evaluation_sound:
  assumes "agrees result truth"
  shows "decided_by (ev_status (evaluate result False c)) (condition_holds truth c)"
  using assms by (rule decided_evaluate)

definition known_verdicts :: "plan_atom \<Rightarrow> verdict" where
  "known_verdicts a = (if a = Category Concert then (Supported, [u ''Konser'']) else (Unknown, []))"

definition known_truth :: "plan_atom \<Rightarrow> bool" where
  "known_truth a \<longleftrightarrow> a = Category Concert"

definition concert_without_comedy :: condition where
  "concert_without_comedy =
     All_of None [Atom None (Category Concert), Not_of None (Atom None (Topic (u ''comedy'')))]"

theorem evaluation_sound_witness:
  "ev_status (evaluate known_verdicts False concert_without_comedy) = Supported
   \<and> decided_by (ev_status (evaluate known_verdicts False concert_without_comedy))
       (condition_holds known_truth concert_without_comedy)
   \<and> condition_holds known_truth concert_without_comedy"
proof -
  have "agrees known_verdicts known_truth"
    by (auto simp: agrees_def known_verdicts_def known_truth_def)
  moreover have "ev_status (evaluate known_verdicts False concert_without_comedy) = Supported"
    by code_simp
  ultimately show ?thesis
    using evaluation_sound[of known_verdicts known_truth concert_without_comedy] by simp
qed

section \<open>Added conditions\<close>

fun adds_condition :: "operation \<Rightarrow> bool" where
  "adds_condition (Add s c) = (s = Hard \<and> party_counts c = [])"
| "adds_condition _ = False"

lemma party_counts_clone: "party_counts (clone_without_ids c) = party_counts c"
  by (induction c) (auto intro!: arg_cong[where f = concat])

lemma party_counts_with_id: "party_counts (with_id k c) = party_counts c"
  by (cases c) simp_all

text \<open>A reducer that extends another: more hard conditions, none of which names a party.\<close>

definition extends_hard :: "reducer \<Rightarrow> reducer \<Rightarrow> bool" where
  "extends_hard st st1 \<longleftrightarrow>
     (\<exists>cs. rd_hard st1 = rd_hard st @ cs \<and> list_all (\<lambda>c. party_counts c = []) cs)"

lemma extends_hard_refl: "extends_hard st st"
  by (simp add: extends_hard_def)

lemma extends_hard_trans: "extends_hard a b \<Longrightarrow> extends_hard b c \<Longrightarrow> extends_hard a c"
  by (auto simp: extends_hard_def)

lemma add_extends:
  assumes "adds_condition op" and "apply_operation P op st = Inr st1"
  shows "extends_hard st st1"
proof (cases op)
  case (Add s c)
  then show ?thesis
    using assms by (auto simp: add_condition_def Let_def extends_hard_def party_counts_clone party_counts_with_id)
qed (use assms in simp_all)

lemma adds_extend:
  assumes "list_all adds_condition ops" and "rfold (apply_operation P) ops st = Inr st1"
  shows "extends_hard st st1"
  using assms(2) extends_hard_refl
proof (rule rfold_invariant)
  fix op a b
  assume "op \<in> set ops" "extends_hard st a" "apply_operation P op a = Inr b"
  then show "extends_hard st b"
    using assms(1) add_extends extends_hard_trans by (metis list_all_iff)
qed

lemma all_status_append:
  "all_status (xs @ ys) = Supported \<Longrightarrow> all_status xs = Supported"
  by (auto simp: all_status_def split: if_splits)

lemma no_parties:
  "list_all (\<lambda>c. party_counts c = []) new
     \<Longrightarrow> concat (map party_counts (cs @ new)) = concat (map party_counts cs)"
  by (auto simp: list_all_iff)

text \<open>
  C11: hard conditions that are added without a party only narrow a search: every event the new
  plan supports was supported by the plan before.
\<close>

theorem added_conditions_narrow:
  assumes "apply_operations P previous ops = Inr p" and "list_all adds_condition ops"
  shows "{e. fst (evaluate_plan P e p now) = Supported}
     \<subseteq> {e. fst (evaluate_plan P e (starting_plan previous) now) = Supported}"
proof -
  obtain st st1 where st: "reducer_of (starting_plan previous) = Inr st"
    and st1: "rfold (apply_operation P) ops st = Inr st1"
    and p: "p = plan_of (cond_id (plan_hard (starting_plan previous))) st1"
    using assms(1) by (auto simp: apply_operations_def Let_def rbind_eq_Inr)
  obtain i cs where hard: "plan_hard (starting_plan previous) = All_of i cs" and "rd_hard st = cs"
    using st by (cases "plan_hard (starting_plan previous)") (auto simp: reducer_of_def Let_def)
  moreover obtain new where "rd_hard st1 = rd_hard st @ new" and new: "list_all (\<lambda>c. party_counts c = []) new"
    using adds_extend[OF assms(2) st1] by (auto simp: extends_hard_def)
  ultimately have p_hard: "plan_hard p = All_of i (cs @ new)" by (simp add: p plan_of_def)
  then have party: "plan_party_count p = plan_party_count (starting_plan previous)"
    by (simp only: plan_party_count_def p_hard hard party_counts.simps no_parties[OF new])
  show ?thesis
    by (auto simp: evaluate_plan_def Let_def party p_hard hard dest: all_status_append split: if_splits)
qed

definition concert_plan :: plan where
  "concert_plan = \<lparr>plan_hard = All_of None [Atom (Some (u ''h0'')) (Category Concert)],
     plan_preferences = [Atom (Some (u ''p1'')) (Mood Calm)], plan_order = Order_soonest\<rparr>"

definition concert_before :: previous_state where
  "concert_before = \<lparr>prev_revision = 4, prev_plan = concert_plan\<rparr>"

definition cheap_operation :: operation where
  "cheap_operation = Add Hard (Atom None (Budget Less_equal 500 tl_currency Per_ticket))"

theorem added_conditions_narrow_witness:
  "\<exists>p. apply_operations turkish_platform (Some concert_before) [cheap_operation] = Inr p
     \<and> {e. fst (evaluate_plan turkish_platform e p 0) = Supported}
       \<subseteq> {e. fst (evaluate_plan turkish_platform e concert_plan 0) = Supported}"
proof -
  obtain p where p: "apply_operations turkish_platform (Some concert_before) [cheap_operation] = Inr p"
  proof -
    have "map_sum id (\<lambda>p. ()) (apply_operations turkish_platform (Some concert_before) [cheap_operation]) = Inr ()"
      by code_simp
    then show ?thesis
      using that by (cases "apply_operations turkish_platform (Some concert_before) [cheap_operation]") auto
  qed
  moreover have "starting_plan (Some concert_before) = concert_plan"
    by (simp add: starting_plan_def concert_before_def)
  moreover have "list_all adds_condition [cheap_operation]" by (simp add: cheap_operation_def)
  ultimately show ?thesis using added_conditions_narrow by metis
qed

section \<open>Corrections\<close>

fun target_of :: "operation \<Rightarrow> jstr option" where
  "target_of (Remove i) = Some i"
| "target_of (Keep i) = Some i"
| "target_of (Replace i c s) = Some i"
| "target_of _ = None"

definition leaves :: "jstr \<Rightarrow> operation \<Rightarrow> bool" where
  "leaves i op \<longleftrightarrow> op \<noteq> Reset \<and> target_of op \<noteq> Some i"

lemma in_remove_at:
  "k < length cs \<Longrightarrow> c \<in> set cs \<Longrightarrow> c \<noteq> cs ! k \<Longrightarrow> c \<in> set (remove_at k cs)"
  by (induction k cs rule: remove_at.induct) auto

lemma in_update:
  assumes "c \<in> set cs" and "c \<noteq> cs ! k"
  shows "c \<in> set (cs[k := d])"
proof -
  obtain n where n: "n < length cs" "cs ! n = c" using assms(1) by (auto simp: in_set_conv_nth)
  then have "n \<noteq> k" using assms(2) by auto
  then show ?thesis using n by (metis length_list_update nth_list_update_neq nth_mem)
qed

lemma find_id_Some: "find_id j cs = Some k \<Longrightarrow> k < length cs \<and> cond_id (cs ! k) = Some j"
  by (auto simp: find_id_def find_Some_iff)

text \<open>A target found for an id is a condition of that id.\<close>

definition target_at :: "jstr \<Rightarrow> target \<Rightarrow> reducer \<Rightarrow> bool" where
  "target_at j t st \<longleftrightarrow>
     (let cs = (if tg_inHard t then rd_hard st else rd_preferred st)
      in tg_index t < length cs \<and> cond_id (cs ! tg_index t) = Some j)"

lemma lookup_target_at: "lookup_target st j = Inr t \<Longrightarrow> target_at j t st"
  by (auto simp: lookup_target_def target_at_def Let_def dest!: find_id_Some split: option.splits)

text \<open>The conditions that carry an id and are still there, hard and preferred.\<close>

definition remains :: "jstr \<Rightarrow> reducer \<Rightarrow> reducer \<Rightarrow> bool" where
  "remains i st st1 \<longleftrightarrow>
     (\<forall>c. cond_id c = Some i \<longrightarrow>
        (c \<in> set (rd_hard st) \<longrightarrow> c \<in> set (rd_hard st1))
        \<and> (c \<in> set (rd_preferred st) \<longrightarrow> c \<in> set (rd_preferred st1)))"

lemma remains_refl: "remains i st st"
  by (simp add: remains_def)

lemma remains_trans: "remains i a b \<Longrightarrow> remains i b c \<Longrightarrow> remains i a c"
  by (simp add: remains_def)

lemma remains_edit_remove:
  "target_at j t st \<Longrightarrow> j \<noteq> i \<Longrightarrow> remains i st (edit_list t (remove_at (tg_index t)) st)"
  by (auto simp: remains_def edit_list_def target_at_def Let_def intro!: in_remove_at split: if_splits)

lemma remains_edit_update:
  "target_at j t st \<Longrightarrow> j \<noteq> i \<Longrightarrow> remains i st (edit_list t (\<lambda>cs. cs[tg_index t := d]) st)"
  by (auto simp: remains_def edit_list_def target_at_def Let_def intro!: in_update split: if_splits)

lemma remains_push: "remains i st (push_condition preferred c st)"
  by (auto simp: remains_def push_condition_def)

lemma remains_add: "remains i st (add_condition P s c st)"
  by (auto simp: remains_def add_condition_def Let_def split: strength.split)

lemma remains_operation:
  assumes "leaves i op" and "apply_operation P op st = Inr st1"
  shows "remains i st st1"
proof (cases op)
  case (Replace j d s)
  then obtain t where t: "target_at j t st" and st1: "st1 = replace_condition j d s t st"
    using assms(2) lookup_target_at by (auto simp: rbind_eq_Inr)
  have "j \<noteq> i" using assms(1) Replace by (simp add: leaves_def)
  then show ?thesis
    using remains_edit_update[OF t] remains_trans[OF remains_edit_remove[OF t] remains_push]
    by (auto simp: st1 replace_condition_def Let_def)
next
  case (Remove j)
  then obtain t where "target_at j t st" and "st1 = edit_list t (remove_at (tg_index t)) st"
    using assms(2) lookup_target_at by (auto simp: rbind_eq_Inr)
  moreover have "j \<noteq> i" using assms(1) Remove by (simp add: leaves_def)
  ultimately show ?thesis using remains_edit_remove by simp
next
  case (Add s d)
  then show ?thesis using assms(2) remains_add by auto
qed (use assms in \<open>auto simp: leaves_def rbind_eq_Inr remains_def\<close>)

text \<open>
  C12: a correction changes what it names: a condition of the plan that no operation of the turn
  targets is still there, as hard or as preferred as before, unless the plan is reset.
\<close>

theorem untargeted_conditions_kept:
  assumes "apply_operations P (Some previous) ops = Inr p" and "list_all (leaves i) ops"
    and "cond_id c = Some i"
  shows "(c \<in> set (the (conjunction (plan_hard (prev_plan previous)))) \<longrightarrow> c \<in> set (the (conjunction (plan_hard p))))
     \<and> (c \<in> set (plan_preferences (prev_plan previous)) \<longrightarrow> c \<in> set (plan_preferences p))"
proof -
  obtain st st1 where st: "reducer_of (prev_plan previous) = Inr st"
    and st1: "rfold (apply_operation P) ops st = Inr st1"
    and p: "p = plan_of (cond_id (plan_hard (prev_plan previous))) st1"
    using assms(1) by (auto simp: apply_operations_def Let_def rbind_eq_Inr starting_plan_def)
  have start: "the (conjunction (plan_hard (prev_plan previous))) = rd_hard st"
    "plan_preferences (prev_plan previous) = rd_preferred st"
    using st by (auto simp: reducer_of_def Let_def split: option.splits)
  have "remains i st st1"
    using st1 remains_refl
  proof (rule rfold_invariant)
    fix op a b
    assume "op \<in> set ops" "remains i st a" "apply_operation P op a = Inr b"
    then show "remains i st b"
      using assms(2) remains_operation remains_trans by (metis list_all_iff)
  qed
  then show ?thesis using assms(3) by (auto simp: start p plan_of_def remains_def)
qed

definition remove_preference :: operation where
  "remove_preference = Remove (u ''p1'')"

theorem untargeted_conditions_kept_witness:
  "\<exists>p. apply_operations turkish_platform (Some concert_before) [remove_preference, cheap_operation] = Inr p
     \<and> Atom (Some (u ''h0'')) (Category Concert) \<in> set (the (conjunction (plan_hard p)))"
proof -
  let ?ops = "[remove_preference, cheap_operation]"
  obtain p where p: "apply_operations turkish_platform (Some concert_before) ?ops = Inr p"
  proof -
    have "map_sum id (\<lambda>p. ()) (apply_operations turkish_platform (Some concert_before) ?ops) = Inr ()"
      by code_simp
    then show ?thesis
      using that by (cases "apply_operations turkish_platform (Some concert_before) ?ops") auto
  qed
  moreover have "list_all (leaves (u ''h0'')) ?ops"
    by (simp add: leaves_def remove_preference_def cheap_operation_def u_def)
  ultimately show ?thesis
    using untargeted_conditions_kept[of turkish_platform concert_before ?ops p "u ''h0''"
        "Atom (Some (u ''h0'')) (Category Concert)"]
    by (auto simp: concert_before_def concert_plan_def)
qed

section \<open>Party and group budget\<close>

fun group_budgets :: "condition \<Rightarrow> nat" where
  "group_budgets (Atom i a) = (case a of Budget c n currency b \<Rightarrow> (if b = Group_total then 1 else 0) | _ \<Rightarrow> 0)"
| "group_budgets (Not_of i c) = group_budgets c"
| "group_budgets (All_of i cs) = sum_list (map group_budgets cs)"
| "group_budgets (Any_of i cs) = sum_list (map group_budgets cs)"

text \<open>The walk counts the unconditional parties and the group budgets of the hard condition.\<close>

definition counted :: "bool \<Rightarrow> nat \<Rightarrow> nat \<Rightarrow> search_walk \<Rightarrow> search_walk \<Rightarrow> bool" where
  "counted hard parties budgets w w1 \<longleftrightarrow>
     (if hard then sw_groupBudgets w1 = sw_groupBudgets w + budgets \<and> sw_parties w1 = sw_parties w + parties
      else w1 = w)"

lemma counted_trans:
  "counted hard m a w w1 \<Longrightarrow> counted hard n b w1 w2 \<Longrightarrow> counted hard (m + n) (a + b) w w2"
  by (simp add: counted_def split: if_splits)

lemma counted_atom:
  assumes "check_search_atom P unconditional a w = Inr w1"
  shows "counted True (if unconditional then length (party_counts (Atom i a)) else 0) (group_budgets (Atom i a)) w w1"
  using assms by (cases a) (auto simp: check_search_atom_def counted_def split: if_splits)

lemma visit_search_counts:
  "visit_search P hard unconditional c w = Inr w1 \<Longrightarrow>
     counted hard (if unconditional then length (party_counts c) else 0) (group_budgets c) w w1"
  "visit_searches P hard unconditional cs w = Inr w1 \<Longrightarrow>
     counted hard (if unconditional then length (concat (map party_counts cs)) else 0)
       (sum_list (map group_budgets cs)) w w1"
proof (induction P hard unconditional c w and P hard unconditional cs w arbitrary: w1 and w1
    rule: visit_search_visit_searches.induct)
  case (1 P hard unconditional i a w)
  then show ?case using counted_atom[of P unconditional a w w1 i] by (auto simp: counted_def)
next
  case (6 P hard unconditional c cs w)
  then obtain w2 where w2: "visit_search P hard unconditional c w = Inr w2"
    "visit_searches P hard unconditional cs w2 = Inr w1"
    by (auto simp: rbind_eq_Inr)
  show ?case using counted_trans[OF 6(1)[OF w2(1)] 6(2)[OF w2(2)]] by (simp split: if_splits)
qed (auto simp: counted_def split: if_splits)

text \<open>
  C17: a plan that passes the checks of a search and bounds the budget of the group names exactly
  one party, so that the evaluation knows the number of people the price is multiplied by.
\<close>

theorem group_budget_has_party:
  assumes "validate_search_plan P p = Inr ()" and "0 < group_budgets (plan_hard p)"
  shows "\<exists>n. party_counts (plan_hard p) = [n] \<and> plan_party_count p = Some n"
proof -
  let ?w = "\<lparr>sw_parties = 0, sw_groupBudgets = 0, sw_counts = []\<rparr>"
  obtain w w1 where w: "visit_search P True True (plan_hard p) ?w = Inr w"
    and w1: "visit_searches P False True (plan_preferences p) w = Inr w1"
    and ok: "sw_groupBudgets w1 = 0 \<or> sw_parties w1 = 1"
    using assms(1) by (auto simp: validate_search_plan_def rbind_eq_Inr)
  have "w1 = w" using visit_search_counts(2)[OF w1] by (simp add: counted_def)
  moreover have "sw_groupBudgets w = group_budgets (plan_hard p)"
    and "sw_parties w = length (party_counts (plan_hard p))"
    using visit_search_counts(1)[OF w] by (simp_all add: counted_def)
  ultimately have "length (party_counts (plan_hard p)) = 1" using ok assms(2) by simp
  then obtain n where "party_counts (plan_hard p) = [n]" by (auto simp: length_Suc_conv)
  then show ?thesis by (simp add: plan_party_count_def)
qed

definition group_plan :: plan where
  "group_plan = \<lparr>plan_hard = All_of None [Atom None (Party 3),
      Any_of None [Atom None (Category Concert), Atom None (Budget Less 900 tl_currency Group_total)]],
     plan_preferences = [], plan_order = Order_none\<rparr>"

theorem group_budget_has_party_witness:
  "validate_search_plan turkish_platform group_plan = Inr () \<and> plan_party_count group_plan = Some 3"
proof -
  have ok: "validate_search_plan turkish_platform group_plan = Inr ()" by code_simp
  have "\<exists>n. party_counts (plan_hard group_plan) = [n] \<and> plan_party_count group_plan = Some n"
    by (rule group_budget_has_party[OF ok]) (simp add: group_plan_def)
  then show ?thesis using ok by (auto simp: group_plan_def)
qed

section \<open>The plan state as a value\<close>

text \<open>
  C18: a plan state is accepted from the client exactly when it is well formed, and what is
  accepted is read back as the state that was sent, on every plan.
\<close>

theorem plan_state_roundtrip:
  "rbind (validate_plan_state P (plan_state_json s)) (\<lambda>v. Inr (read_plan_state v)) = Inr (Some s)
     \<longleftrightarrow> plan_state_ok s"
proof (cases "plan_state_ok s")
  case True
  then have "validate_plan_state P (plan_state_json s) = Inr (plan_state_json s)"
    by (simp add: plan_state_accepted_iff)
  then show ?thesis using True by (simp add: read_plan_state_written)
next
  case False
  then have "validate_plan_state P (plan_state_json s) \<noteq> Inr v" for v
    using accepted_is_same plan_state_accepted_iff by metis
  then show ?thesis using False by (simp add: rbind_eq_Inr)
qed

section \<open>Preferences\<close>

interpretation soft: comparator_fn soft_order
  by unfold_locales (auto simp: soft_order_def cmp_or_def cmp_int_def split: if_splits)

lemma signal_bounds: "- 1 \<le> soft_preference_signal P e s \<and> soft_preference_signal P e s \<le> 1"
  by (simp add: soft_preference_signal_def Let_def)

text \<open>What the order of two scored events says of their ranks.\<close>

lemma soft_score_order:
  assumes "soft_order ((j, f), soft_score P s j f) ((i, e), soft_score P s i e) \<le> 0" and "i < j"
  shows "3 * (61 + j) < 5 * (61 + i)"
proof -
  have "soft_score P s i e < soft_score P s j f"
    using assms by (auto simp: soft_order_def cmp_or_def cmp_int_def split: if_splits)
  moreover have "3 / 4 / (60 + of_nat i + 1) \<le> soft_score P s i e"
    unfolding soft_score_def using signal_bounds[of P e s] by (intro divide_right_mono) auto
  moreover have "soft_score P s j f \<le> 5 / 4 / (60 + of_nat j + 1)"
    unfolding soft_score_def using signal_bounds[of P f s] by (intro divide_right_mono) auto
  ultimately have "3 / 4 / (60 + of_nat i + 1) < (5 / 4 / (60 + of_nat j + 1) :: rat)" by simp
  then have "(3 :: rat) * (61 + of_nat j) < 5 * (61 + of_nat i)" by (simp add: field_simps)
  then have "(of_nat (3 * (61 + j)) :: rat) < of_nat (5 * (61 + i))" by simp
  then show ?thesis by (simp only: of_nat_less_iff)
qed

text \<open>
  C15: preferences only reorder, and their reach is bounded: an event passes one that is ranked
  before it only if the ranks are close, at most in the ratio 3 to 5 counted from 61.
\<close>

theorem soft_preferences_bounded:
  "\<exists>order. mset order = mset [0..<length es] \<and> apply_soft_preferences P es soft = map ((!) es) order
     \<and> sorted_wrt (\<lambda>j i. j \<le> i \<or> 3 * (61 + j) < 5 * (61 + i)) order"
proof (cases soft)
  case None
  then show ?thesis
    by (intro exI[of _ "[0..<length es]"])
      (auto simp: apply_soft_preferences_def map_nth sorted_wrt_upt intro: sorted_wrt_mono_rel[of _ "(<)"])
next
  case (Some s)
  define scored_events where
    "scored_events = map (\<lambda>x. (x, soft_score P s (fst x) (snd x))) (enumerate 0 es)"
  define sorted_events where "sorted_events = sort_by soft_order scored_events"
  have scored: "x = ((fst (fst x), snd (fst x)), soft_score P s (fst (fst x)) (snd (fst x)))"
    and nth: "snd (fst x) = es ! fst (fst x)" if "x \<in> set sorted_events" for x
    using that by (auto simp: sorted_events_def scored_events_def in_set_enumerate_eq)
  have "mset (map (fst \<circ> fst) sorted_events) = mset (map (fst \<circ> fst) scored_events)"
    by (simp add: sorted_events_def)
  also have "map (fst \<circ> fst) scored_events = [0..<length es]"
    by (simp add: scored_events_def comp_def enumerate_eq_zip)
  finally have "mset (map (fst \<circ> fst) sorted_events) = mset [0..<length es]" .
  moreover have "apply_soft_preferences P es soft = map ((!) es) (map (fst \<circ> fst) sorted_events)"
    using nth by (simp add: Some apply_soft_preferences_def sorted_events_def[symmetric] scored_events_def[symmetric])
  moreover have "sorted_wrt (\<lambda>x y. fst (fst x) \<le> fst (fst y) \<or> 3 * (61 + fst (fst x)) < 5 * (61 + fst (fst y))) sorted_events"
  proof (rule sorted_wrt_mono_rel[of _ "\<lambda>a b. soft_order a b \<le> 0"])
    show "sorted_wrt (\<lambda>a b. soft_order a b \<le> 0) sorted_events"
      unfolding sorted_events_def by (rule soft.sorted_sort_by)
    fix x y
    assume "x \<in> set sorted_events" "y \<in> set sorted_events" "soft_order x y \<le> 0"
    then show "fst (fst x) \<le> fst (fst y) \<or> 3 * (61 + fst (fst x)) < 5 * (61 + fst (fst y))"
      using scored soft_score_order by (metis not_le)
  qed
  ultimately show ?thesis
    by (intro exI[of _ "map (fst \<circ> fst) sorted_events"]) (simp add: sorted_wrt_map)
qed

section \<open>Turns that count\<close>

lemma last_items_append:
  "last_items n (xs @ ys) = (if n \<le> length ys then last_items n ys else last_items (n - length ys) xs @ ys)"
  by (auto simp: last_items_def)

lemma last_index_append:
  assumes "last_index ok ys = Some k"
  shows "last_index ok (xs @ ys) = Some (k + length xs)"
proof -
  have "[0..<length (xs @ ys)] = [0..<length xs] @ map (\<lambda>i. i + length xs) [0..<length ys]"
    unfolding map_add_upt length_append upt_add_eq_append[OF le0] by (simp only: add.commute)
  moreover have shifted: "(xs @ ys) ! (i + length xs) = ys ! i" for i by (simp add: nth_append)
  have "find (\<lambda>i. ok ((xs @ ys) ! i)) (map (\<lambda>i. i + length xs) ks @ others)
      = Some (k + length xs)" if "find (\<lambda>i. ok (ys ! i)) ks = Some k" for ks others
    using that by (induction ks) (auto simp: shifted split: if_splits)
  ultimately show ?thesis using assms by (simp add: last_index_def rev_map)
qed

lemma last_index_found:
  assumes "ok y"
  shows "\<exists>k. last_index ok (y # ys) = Some k"
proof (rule ccontr)
  assume "\<nexists>k. last_index ok (y # ys) = Some k"
  then have "last_index ok (y # ys) = None" by simp
  then have "\<not> (0 \<in> set (rev [0..<length (y # ys)]) \<and> ok ((y # ys) ! 0))"
    unfolding last_index_def find_None_iff by blast
  then show False using assms by simp
qed

lemma recent_turns_forget:
  assumes "ms_fromUser m" and "is_preference_reset P (ms_content m)"
  shows "recent_turns P (old @ m # new) = recent_turns P (m # new)"
proof -
  define F where "F = m # filter ms_fromUser new"
  define O' where "O' = last_items (6 - length F) (filter ms_fromUser old)"
  have turns: "filter ms_fromUser (m # new) = F"
    "filter ms_fromUser (old @ m # new) = filter ms_fromUser old @ F"
    using assms(1) by (simp_all add: F_def)
  show ?thesis
  proof (cases "6 \<le> length F")
    case True
    then show ?thesis unfolding recent_turns_def turns last_items_append by simp
  next
    case False
    then have F: "last_items 6 F = F" by (simp add: last_items_def)
    let ?ok = "\<lambda>m. is_preference_reset P (ms_content m)"
    obtain k where k: "last_index ?ok F = Some k"
      using last_index_found[of ?ok m "filter ms_fromUser new"] assms(2) unfolding F_def by auto
    then have "last_index ?ok (O' @ F) = Some (k + length O')" by (rule last_index_append)
    moreover have "(O' @ F) ! (k + length O') = F ! k" by (simp add: nth_append)
    moreover have "drop (k + length O' + n) (O' @ F) = drop (k + n) F" for n by simp
    ultimately show ?thesis
      unfolding recent_turns_def turns last_items_append using False k
      by (simp add: F O'_def[symmetric])
  qed
qed

text \<open>
  C19: a reset forgets: what the user said before asking to start over does not change the search
  that the rules make of the conversation.
\<close>

theorem reset_forgets_earlier_turns:
  assumes "ms_fromUser m" and "is_preference_reset P (ms_content m)"
  shows "search_context_of P message (old @ m # new) = search_context_of P message (m # new)"
  using recent_turns_forget[OF assms] by (simp add: search_context_of_def)

definition reset_turn :: message where
  "reset_turn = \<lparr>ms_fromUser = True, ms_content = u ''bastan basla''\<rparr>"

definition earlier_turn :: message where
  "earlier_turn = \<lparr>ms_fromUser = True, ms_content = u ''tiyatro''\<rparr>"

theorem reset_forgets_earlier_turns_witness:
  "is_preference_reset turkish_platform (u ''bastan basla'')
   \<and> search_context_of turkish_platform (u ''konser'') [earlier_turn, reset_turn]
     = search_context_of turkish_platform (u ''konser'') [reset_turn]"
proof -
  have r: "is_preference_reset turkish_platform (u ''bastan basla'')" by code_simp
  have "ms_fromUser reset_turn" "is_preference_reset turkish_platform (ms_content reset_turn)"
    using r by (simp_all add: reset_turn_def)
  then have "search_context_of turkish_platform (u ''konser'') ([earlier_turn] @ reset_turn # [])
      = search_context_of turkish_platform (u ''konser'') (reset_turn # [])"
    by (rule reset_forgets_earlier_turns)
  then show ?thesis using r by (simp only: append_Cons append_Nil)
qed

end
