(* ===== verification/Intent_Properties.thy ===== *)
theory Intent_Properties
  imports Intent_State
begin

text \<open>
  What an accepted interpreted state guarantees, and what a supported requirement rests on.
\<close>

section \<open>Accepted states\<close>



















section \<open>What a supported requirement rests on\<close>

text \<open>
  A sentence speaks for a value when it is one of the first three that match the affirming pattern
  and, as far as it is quoted, does not match the negating one; the value is denied by any sentence
  that matches the negating pattern.
\<close>

definition speaks_for :: "jstr \<Rightarrow> jstr \<Rightarrow> jstr \<Rightarrow> bool" where
  "speaks_for text v s \<longleftrightarrow>
     (\<exists>pos neg. term_of v = Some (pos, neg) \<and> s \<in> set (take 3 (filter (test (re pos)) (sentences text)))
        \<and> \<not> test (re neg) (take 240 s))"

definition speaks_against :: "jstr \<Rightarrow> jstr \<Rightarrow> jstr \<Rightarrow> bool" where
  "speaks_against text v s \<longleftrightarrow>
     (\<exists>pos neg. term_of v = Some (pos, neg) \<and> s \<in> set (take 3 (filter (test (re neg)) (sentences text))))"

definition value_affirmed :: "jstr \<Rightarrow> jstr \<Rightarrow> bool" where
  "value_affirmed text v \<longleftrightarrow> (\<exists>s. speaks_for text v s)"

definition value_denied :: "jstr \<Rightarrow> jstr \<Rightarrow> bool" where
  "value_denied text v \<longleftrightarrow>
     (\<exists>pos neg. term_of v = Some (pos, neg) \<and> (\<exists>s \<in> set (sentences text). test (re neg) s))"

text \<open>What each kind of requirement asks of the event's own text.\<close>

definition requirement_met :: "jstr \<Rightarrow> requirement \<Rightarrow> bool" where
  "requirement_met text r \<longleftrightarrow>
     (let vs = set (values_of (rq_value r))
      in if rq_policy r = Exclude_positive_evidence then \<not> (\<exists>v \<in> vs. value_affirmed text v)
         else if rq_kind r = Content_kind then
           (\<forall>v \<in> vs. value_denied text v) \<and> \<not> (\<exists>v \<in> vs. value_affirmed text v)
         else if rq_value r \<in> set scalar_activities then
           (\<exists>v \<in> vs. value_affirmed text v) \<and> \<not> (\<exists>v \<in> vs. value_denied text v)
         else if rq_kind r = Accessibility then (\<forall>v \<in> vs. value_affirmed text v \<and> \<not> value_denied text v)
         else if rq_kind r = Genre \<or> rq_kind r = Audience then
           (\<exists>v \<in> vs. value_affirmed text v \<and> \<not> value_denied text v)
         else (\<exists>v \<in> vs. value_affirmed text v))"

lemma evidence_for_iff:
  "line \<in> set (evidence_for text p)
     \<longleftrightarrow> (\<exists>s \<in> set (take 3 (filter (test (re p)) (sentences text))). line = take 240 s)"
  by (auto simp: evidence_for_def quoted_def)

lemma no_evidence_iff: "evidence_for text p = [] \<longleftrightarrow> \<not> (\<exists>s \<in> set (sentences text). test (re p) s)"
  by (auto simp: evidence_for_def quoted_def filter_empty_conv)

lemma negative_finding: "fd_negative (find_value text r v) \<longleftrightarrow> value_denied text v"
  by (cases "term_of v") (auto simp: find_value_def value_denied_def Let_def no_evidence_iff)

lemma positive_finding:
  "fd_positive (find_value text r v) \<longleftrightarrow>
     value_affirmed text v \<and> \<not> (rq_policy r = Require_support \<and> text_sensitive (rq_kind r) \<and> value_denied text v)"
proof (cases "term_of v")
  case None
  then show ?thesis by (simp add: find_value_def value_affirmed_def speaks_for_def)
next
  case (Some t)
  obtain pos neg where t: "term_of v = Some (pos, neg)" using Some by (cases t) auto
  have a: "filter (\<lambda>line. \<not> test (re neg) line) (evidence_for text pos) \<noteq> [] \<longleftrightarrow> value_affirmed text v"
        using evidence_for_iff by (fastforce simp: filter_empty_conv value_affirmed_def speaks_for_def t)
  have d: "evidence_for text neg = [] \<longleftrightarrow> \<not> value_denied text v"
    by (simp add: no_evidence_iff value_denied_def t)
  show ?thesis by (simp add: find_value_def t Let_def a d del: filter_empty_conv) blast
qed

lemma finding_evidence:
  "line \<in> set (fd_evidence (find_value text r v))
     \<longleftrightarrow> (\<exists>s. line = take 240 s \<and> (speaks_for text v s \<or> speaks_against text v s))"
  by (cases "term_of v")
     (auto simp: find_value_def Let_def evidence_for_iff speaks_for_def speaks_against_def)

lemma supported_findings:
  "status_of_findings r (map (find_value text r) (values_of (rq_value r))) = Supported
     \<longleftrightarrow> requirement_met text r"
proof -
  have policy: "rq_policy r \<noteq> Exclude_positive_evidence \<longleftrightarrow> rq_policy r = Require_support"
    by (cases "rq_policy r") simp_all
  show ?thesis
    unfolding status_of_findings_def requirement_met_def
    by (auto simp: list_ex_iff list_all_iff positive_finding negative_finding policy Let_def
        text_sensitive_def)
qed

text \<open>
  C14: a requirement other than an age is supported exactly when the event's own text supports it:
  an exclusion when no sentence affirms a value; an absence of content when every value is denied
  and none affirmed; a scalar activity when one is affirmed and none denied; accessibility when every
  value is affirmed and none of them denied; a genre or an audience when some value is affirmed and
  not denied; anything else when some value is affirmed. A sentence that matches the negating
  pattern affirms nothing. The evidence shown is exactly the sentences that speak for or against a
  value, cut to 240 units, each once.
\<close>

theorem supported_requirement_has_source:
  assumes "\<not> (rq_kind r = Audience \<and> starts_with (rq_value r) (u ''age:''))"
  shows "(ck_status (check_requirement P e r) = Supported
        \<longleftrightarrow> requirement_met (evidence_text_of P e (rq_kind r)) r)
    \<and> set (ck_evidence (check_requirement P e r))
        = take 240 ` {s. \<exists>v \<in> set (values_of (rq_value r)).
            speaks_for (evidence_text_of P e (rq_kind r)) v s
            \<or> speaks_against (evidence_text_of P e (rq_kind r)) v s}
    \<and> distinct (ck_evidence (check_requirement P e r))"
proof -
  let ?text = "evidence_text_of P e (rq_kind r)"
  have c: "ck_status (check_requirement P e r) = status_of_findings r (map (find_value ?text r) (values_of (rq_value r)))"
    "ck_evidence (check_requirement P e r)
       = uniq (concat (map fd_evidence (map (find_value ?text r) (values_of (rq_value r)))))"
    using assms by (auto simp: check_requirement_def Let_def)
  have "set (ck_evidence (check_requirement P e r))
      = take 240 ` {s. \<exists>v \<in> set (values_of (rq_value r)). speaks_for ?text v s \<or> speaks_against ?text v s}"
    unfolding c(2) by (intro set_eqI) (simp add: finding_evidence image_iff, blast)
  then show ?thesis by (simp add: c supported_findings)
qed

definition blues_requirement :: requirement where
  "blues_requirement = \<lparr>rq_kind = Genre, rq_value = u ''blues'', rq_policy = Require_support\<rparr>"

definition blues_night :: event where
  "blues_night = blank_event\<lparr>ev_title := u ''Blues''\<rparr>"

theorem supported_requirement_has_source_witness:
  "ck_status (check_requirement turkish_platform blues_night blues_requirement) = Supported
   \<and> requirement_met (evidence_text_of turkish_platform blues_night Genre) blues_requirement
   \<and> ck_status (check_requirement turkish_platform blues_night
        (blues_requirement\<lparr>rq_policy := Exclude_positive_evidence\<rparr>)) \<noteq> Supported"
proof -
  have c: "ck_status (check_requirement turkish_platform blues_night blues_requirement) = Supported"
    by code_simp
  have k: "rq_kind blues_requirement = Genre" by (simp add: blues_requirement_def)
  have "requirement_met (evidence_text_of turkish_platform blues_night Genre) blues_requirement"
    using supported_requirement_has_source[of blues_requirement turkish_platform blues_night] c k by simp
  moreover have "ck_status (check_requirement turkish_platform blues_night
        (blues_requirement\<lparr>rq_policy := Exclude_positive_evidence\<rparr>)) \<noteq> Supported"
    by code_simp
  ultimately show ?thesis using c by blast
qed

end
