(* ===== verification/Plan_Query.thy ===== *)
theory Plan_Query
  imports Plan_Evidence
begin

text \<open>
  \<open>web/lib/plan-query.ts\<close>: the retrieval text of a plan, which names only what is wanted, and the
  complete summary of its conditions.
\<close>

fun category_text :: "plan_category \<Rightarrow> jstr" where
  "category_text Concert = u ''konser''"
| "category_text Theatre = u ''tiyatro''"
| "category_text Standup = u ''stand-up''"
| "category_text Workshop = tr ''at~olye''"
| "category_text Exhibition = u ''sergi''"
| "category_text Festival = u ''festival''"
| "category_text Sport = u ''spor''"
| "category_text Cinema = u ''sinema''"
| "category_text Talk = tr ''s~oyle~si''"
| "category_text Dance = u ''dans''"
| "category_text Show = tr ''g~osteri''"
| "category_text Course = tr ''e~gitim''"
| "category_text Tour = u ''gezi''"
| "category_text Museum = tr ''m~uze''"

fun experience_text :: "experience \<Rightarrow> jstr" where
  "experience_text Quiet = u ''sakin''"
| "experience_text Seated = tr ''oturmal~i''"
| "experience_text Outdoors = tr ''a~c~ik hava''"
| "experience_text Wheelchair_accessible = tr ''engelsiz eri~sim''"
| "experience_text Family_friendly = u ''aileye uygun''"
| "experience_text Uncrowded = tr ''kalabal~ik olmayan''"
| "experience_text Romantic = u ''romantik''"
| "experience_text Beginner_friendly = tr ''ba~slang~i~c seviyesine uygun''"

fun comparison_text :: "comparison \<Rightarrow> jstr" where
  "comparison_text Less = tr ''alt~i''"
| "comparison_text Less_equal = tr ''veya alt~i''"
| "comparison_text Greater = tr ''~ust~u''"
| "comparison_text Greater_equal = tr ''veya ~ust~u''"
| "comparison_text Approximate = tr ''civar~i''"

fun basis_text :: "budget_basis \<Rightarrow> jstr" where
  "basis_text Group_total = tr ''grup toplam~i''"
| "basis_text Per_person = tr ''ki~si ba~s~i''"
| "basis_text Per_ticket = u ''bilet''"

fun companion_context :: "companion \<Rightarrow> jstr" where
  "companion_context Partner = u ''partner''"
| "companion_context Friends = tr ''arkada~slar''"
| "companion_context Family = u ''aile''"
| "companion_context Children = tr ''~cocuklar''"

text \<open>The signs are U+2265 and U+2264, or the strict ones.\<close>

definition clock_bound_text :: "nat \<Rightarrow> nat \<Rightarrow> bool option \<Rightarrow> jstr \<Rightarrow> jstr" where
  "clock_bound_text strict weak exclusive t =
     (if t = [] then [] else (if exclusive = Some True then strict else weak) # t)"

fun atom_text :: "platform \<Rightarrow> plan_atom \<Rightarrow> jstr" where
  "atom_text P (Budget comparison amount currency basis) =
     basis_text basis @ u '': '' @ pl_number P amount @ u '' TRY '' @ comparison_text comparison"
| "atom_text P (Party n) = pl_number P n @ tr '' ki~si''"
| "atom_text P (Age n) = pl_number P n @ tr '' ya~s i~cin uygun''"
| "atom_text P (Mood m) =
     (if m = Calm then u ''sakin bir deneyim'' else u ''samimi bir deneyim'')"
| "atom_text P (Companion c) = tr ''e~slik: '' @ companion_context c"
| "atom_text P (Date from to) = u ''tarih '' @ from @ [8211] @ to"
| "atom_text P (Clock from to fromExclusive toExclusive) =
     (let a = or_empty from; b = or_empty to
      in u ''saat '' @ clock_bound_text 62 8805 fromExclusive a
         @ (if a \<noteq> [] \<and> b \<noteq> [] then u '', '' else [])
         @ clock_bound_text 60 8804 toExclusive b)"
| "atom_text P (Location name precision) =
     (if precision = Side_place then name
      else (if precision = District_place then tr ''il~ce'' else u ''mahalle'') @ u '': '' @ name)"
| "atom_text P (Category c) = category_text c"
| "atom_text P (Topic t) = t"
| "atom_text P (Experience x) = experience_text x"
| "atom_text P (Content c) =
     (if c = Profanity then tr ''k~uf~url~u i~cerik'' else tr ''cinsel i~cerik'')"

fun condition_text :: "platform \<Rightarrow> condition \<Rightarrow> jstr" where
  "condition_text P (Atom i a) = atom_text P a"
| "condition_text P (Not_of i c) = tr ''(DE~G~IL '' @ condition_text P c @ u '')''"
| "condition_text P (All_of i cs) =
     u ''('' @ join (u '' VE '') (map (condition_text P) cs) @ u '')''"
| "condition_text P (Any_of i cs) =
     u ''('' @ join (u '' VEYA '') (map (condition_text P) cs) @ u '')''"

fun names_concept :: "plan_atom \<Rightarrow> bool" where
  "names_concept (Category c) = True"
| "names_concept (Topic t) = True"
| "names_concept (Experience x) = True"
| "names_concept (Companion c) = True"
| "names_concept (Mood m) = True"
| "names_concept (Age n) = True"
| "names_concept _ = False"

fun positive_concepts :: "platform \<Rightarrow> bool \<Rightarrow> condition \<Rightarrow> jstr list" where
  "positive_concepts P positive (Atom i a) =
     (if positive \<and> names_concept a then [atom_text P a] else [])"
| "positive_concepts P positive (Not_of i c) = positive_concepts P (\<not> positive) c"
| "positive_concepts P positive (All_of i cs) = concat (map (positive_concepts P positive) cs)"
| "positive_concepts P positive (Any_of i cs) = concat (map (positive_concepts P positive) cs)"

definition plan_retrieval_query :: "platform \<Rightarrow> plan \<Rightarrow> jstr" where
  "plan_retrieval_query P p =
     take 1200 (join [32] (uniq (positive_concepts P True (plan_hard p)
       @ concat (map (positive_concepts P True) (plan_preferences p)))))"

definition plan_summary :: "platform \<Rightarrow> plan \<Rightarrow> jstr list \<times> jstr list" where
  "plan_summary P p =
     ((case conjunction (plan_hard p) of
         Some cs \<Rightarrow> map (condition_text P) cs | None \<Rightarrow> [condition_text P (plan_hard p)]),
      map (condition_text P) (plan_preferences p)
      @ (if plan_order p = Order_soonest then [tr ''en yak~in tarihli olanlar ~once''] else [])
      @ (if plan_order p = Order_cheapest then [tr ''en ucuz olanlar ~once''] else []))"

text \<open>\<open>positivePlanAtoms\<close> of \<open>web/lib/recommend.ts\<close>.\<close>

fun positive_plan_atoms :: "bool \<Rightarrow> condition \<Rightarrow> plan_atom list" where
  "positive_plan_atoms positive (Atom i a) = (if positive then [a] else [])"
| "positive_plan_atoms positive (Not_of i c) = positive_plan_atoms (\<not> positive) c"
| "positive_plan_atoms positive (All_of i cs) = concat (map (positive_plan_atoms positive) cs)"
| "positive_plan_atoms positive (Any_of i cs) = concat (map (positive_plan_atoms positive) cs)"

end
