(* ===== verification/Recommend.thy ===== *)
theory Recommend
  imports Retrieval Plan_State Plan_Query Constraints
begin

text \<open>
  \<open>web/lib/recommend.ts\<close>: a request becomes cards. The catalog, the vectors, the rankers and the
  interpreters of text are dependencies of the function, as they are in the source, and are
  arguments of the model; any of them may fail.
\<close>

section \<open>Requests and results\<close>

datatype input_issue =
    Issue_budget | Issue_date | Issue_constraint | Issue_location | Issue_unsupported
  | Issue_unavailable

record pending_input =
  pi_message :: jstr
  pi_reason :: input_issue

record recommend_input =
  ri_message :: jstr
  ri_history :: "message list"
  ri_filters :: filters
  ri_excludeIds :: "jstr list"
  ri_version :: "nat option"
  ri_planState :: "plan_state option"
  ri_intentState :: "interpreted_state option"
  ri_alternativeIds :: "jstr list option"
  ri_pending :: "pending_input option"

datatype result_mode = By_filters | By_jev
datatype result_status = Results | No_results | Needs_input | Location_unsupported

record search_diagnostics =
  sd_catalogRetrieved :: nat
  sd_eligibleBefore :: nat
  sd_hardRequirements :: "(requirement \<times> (requirement_status \<Rightarrow> nat)) list"
  sd_eligibleAfter :: nat
  sd_alternativeExclusions :: nat
  sd_distinctShortlist :: nat
  sd_vectorsAvailable :: nat
  sd_aboveThreshold :: "nat option"
  sd_planEvidence :: "(requirement_status \<Rightarrow> nat) option"

record search_result =
  re_publicationId :: "jstr option"
  re_recommendations :: "event list"
  re_filters :: filters
  re_mode :: result_mode
  re_status :: result_status
  re_notice :: "jstr option"
  re_total :: nat
  re_intentState :: "interpreted_state option"
  re_planState :: "plan_state option"
  re_pending :: "pending_input option"
  re_excludedIds :: "jstr list option"
  re_clarification :: bool
  re_resetRequired :: bool
  re_diagnostics :: "search_diagnostics option"

text \<open>A result without cards, to which the branches add their fields.\<close>

definition plain_result :: "filters \<Rightarrow> result_status \<Rightarrow> jstr \<Rightarrow> search_result" where
  "plain_result filters status message =
     \<lparr>re_publicationId = None, re_recommendations = [], re_filters = filters, re_mode = By_filters,
      re_status = status, re_notice = Some message, re_total = 0, re_intentState = None,
      re_planState = None, re_pending = None, re_excludedIds = None, re_clarification = False,
      re_resetRequired = False, re_diagnostics = None\<rparr>"

section \<open>Dependencies\<close>

record ranked_event =
  rk_event :: event
  rk_score :: jnum
  rk_probabilities :: "jnum list"
  rk_support :: jnum
  rk_programFit :: "jnum option"

record rank_request =
  rr_message :: jstr
  rr_history :: "jstr list"
  rr_filters :: filters
  rr_requirements :: "requirement list"
  rr_preferences :: "intent_preferences option"
  rr_plan :: "plan option"
  rr_planEvidence :: "(jstr \<times> plan_evidence) list"

datatype span_result =
    Accepted "operation list" plan
  | Ambiguous "plan list"
  | Unsupported jstr

record span_request =
  sq_utterance :: jstr
  sq_referenceDate :: jstr
  sq_previous :: "plan_state option"

datatype intent_action = Search_action | Alternatives_action | Reset_action

record interpreted_input =
  ir_state :: interpreted_state
  ir_action :: intent_action
  ir_issue :: "input_issue option"

record interpret_request =
  iq_message :: jstr
  iq_previous :: interpreted_state
  iq_unresolved :: "jstr option"

record dense_store =
  dn_coverage :: "event list \<Rightarrow> nat res"
  dn_rank :: "event list \<Rightarrow> rat list \<Rightarrow> jstr list res"

datatype interpreter_kind = Rules_interpreter | Jev_interpreter | Span_interpreter

record pinned_catalog =
  pn_publicationId :: jstr
  pn_available :: "bool res option"
  pn_catalogEmpty :: "bool res option"
  pn_candidates :: "filters \<Rightarrow> event list res"
  pn_vectors :: "event list \<Rightarrow> (jstr \<times> rat list) list res"
  pn_dense :: "dense_store option"
  pn_finalize :: "event list \<Rightarrow> event list res"
  pn_emptyNotice :: "jstr option"

record dependencies =
  dp_candidates :: "filters \<Rightarrow> event list res"
  dp_configured :: bool
  dp_now :: int
  dp_rank :: "rank_request \<Rightarrow> event list \<Rightarrow> ranked_event list res"
  dp_embedding :: bool
  dp_vectors :: "(event list \<Rightarrow> (jstr \<times> rat list) list res) option"
  dp_embed :: "jstr \<Rightarrow> rat list res"
  dp_dense :: "dense_store option"
  dp_interpreter :: interpreter_kind
  dp_span :: "span_request \<Rightarrow> span_result res"
  dp_interpret :: "interpret_request \<Rightarrow> interpreted_input res"
  dp_pin :: "pinned_catalog option res"

section \<open>Reading a request\<close>

definition message_ok :: "json \<Rightarrow> bool" where
  "message_ok m \<longleftrightarrow>
     truthy m \<and> str_in (jget m ''role'') [''user'', ''assistant'']
     \<and> (case jget m ''content'' of JStr s \<Rightarrow> length s \<le> 2000 | _ \<Rightarrow> False)"

definition read_message :: "json \<Rightarrow> message" where
  "read_message m =
     \<lparr>ms_fromUser = (jget m ''role'' = JStr (u ''user'')),
      ms_content = or_empty (as_str (jget m ''content''))\<rparr>"

definition ids_ok :: "json \<Rightarrow> bool" where
  "ids_ok v =
     (case v of
        JArr xs \<Rightarrow> length xs \<le> 100 \<and> list_all (\<lambda>x. case x of JStr s \<Rightarrow> length s \<le> 100 | _ \<Rightarrow> False) xs
      | _ \<Rightarrow> False)"

definition list_or_empty :: "json \<Rightarrow> json" where
  "list_or_empty v = (if present v then v else JArr [])"

definition texts_of :: "json \<Rightarrow> jstr list" where
  "texts_of v = (case v of JArr xs \<Rightarrow> List.map_filter as_str xs | _ \<Rightarrow> [])"

definition pending_reasons :: "(jstr \<times> input_issue) list" where
  "pending_reasons =
     [(u ''budget_ambiguous'', Issue_budget), (u ''date_ambiguous'', Issue_date),
      (u ''constraint_ambiguous'', Issue_constraint), (u ''unsupported_location'', Issue_location),
      (u ''unsupported_constraint'', Issue_unsupported),
      (u ''interpreter_unavailable'', Issue_unavailable)]"

definition read_pending :: "json \<Rightarrow> nat option \<Rightarrow> pending_input option res" where
  "read_pending v version =
     (if v = Undefined then Inr None
      else case (jget v ''message'', read_name pending_reasons (jget v ''reason'')) of
             (JStr s, Some r) \<Rightarrow>
               if version \<noteq> None \<and> is_obj v
                  \<and> list_all (\<lambda>k. k \<in> {u ''message'', u ''reason''}) (own_keys v)
                  \<and> trim s \<noteq> [] \<and> length s \<le> 1200
               then Inr (Some \<lparr>pi_message = trim s, pi_reason = r\<rparr>)
               else throw ''Bekleyen arama gecersiz.''
           | _ \<Rightarrow> throw ''Bekleyen arama gecersiz.'')"

definition read_version :: "json \<Rightarrow> nat option" where
  "read_version v = (if v = jint 1 then Some 1 else if v = jint 2 then Some 2 else None)"

definition optional_plan_state :: "platform \<Rightarrow> json \<Rightarrow> plan_state option res" where
  "optional_plan_state P v =
     (if v = Undefined then Inr None
      else rbind (validate_plan_state P v) (\<lambda>w. Inr (read_plan_state w)))"

definition optional_intent_state :: "json \<Rightarrow> interpreted_state option res" where
  "optional_intent_state v =
     (if v = Undefined then Inr None else rbind (validate_intent_state v) (\<lambda>s. Inr (Some s)))"

text \<open>The checks of \<open>validateInput\<close>, in the order of the source.\<close>

definition validate_input :: "platform \<Rightarrow> json \<Rightarrow> recommend_input res" where
  "validate_input P x =
     (let history = list_or_empty (jget x ''history'');
          exclude = list_or_empty (jget x ''excludeIds'');
          alternatives = list_or_empty (jget x ''alternativeIds'');
          version = read_version (jget x ''intentVersion'');
          message = or_empty (as_str (jget x ''message''))
      in rbind (guard (is_obj x) ''Istek gecersiz.'') (\<lambda>_.
         rbind (guard (as_str (jget x ''message'') \<noteq> None \<and> trim message \<noteq> [] \<and> length message \<le> 1200)
                  ''Mesaj 1-1.200 karakter olmali.'') (\<lambda>_.
         rbind (guard (case history of JArr ms \<Rightarrow> length ms \<le> 12 \<and> list_all message_ok ms | _ \<Rightarrow> False)
                  ''Arama gecmisi gecersiz.'') (\<lambda>_.
         rbind (guard (ids_ok exclude) ''Etkinlik secimi gecersiz.'') (\<lambda>_.
         rbind (guard (ids_ok alternatives) ''Etkinlik secimi gecersiz.'') (\<lambda>_.
         rbind (guard (jget x ''intentVersion'' = Undefined \<or> version \<noteq> None) ''Arama surumu gecersiz.'') (\<lambda>_.
         rbind (guard (jget x ''intentState'' = Undefined \<or> version = Some 1) ''Arama surumu gecersiz.'') (\<lambda>_.
         rbind (guard (jget x ''planState'' = Undefined \<or> version = Some 2) ''Plan version is invalid.'') (\<lambda>_.
         rbind (read_pending (jget x ''pendingInput'') version) (\<lambda>pending.
         rbind (validate_filters (if present (jget x ''filters'') then jget x ''filters''
                                  else filters_json empty_filters)) (\<lambda>filters.
         rbind (optional_plan_state P (jget x ''planState'')) (\<lambda>planState.
         rbind (optional_intent_state (jget x ''intentState'')) (\<lambda>intentState.
         Inr \<lparr>ri_message = trim message,
              ri_history = last_items 6 (filter ms_fromUser
                (map read_message (case history of JArr ms \<Rightarrow> ms | _ \<Rightarrow> []))),
              ri_filters = filters, ri_excludeIds = texts_of exclude, ri_version = version,
              ri_planState = planState, ri_intentState = intentState,
              ri_alternativeIds = (if version \<noteq> None then Some (texts_of alternatives) else None),
              ri_pending = pending\<rparr>)))))))))))))"

text \<open>A product request keeps only its message.\<close>

definition validate_request :: "platform \<Rightarrow> json \<Rightarrow> recommend_input res" where
  "validate_request P v =
     rbind (guard (is_obj v) ''Istek gecersiz.'') (\<lambda>_.
     validate_input P (JObj [(u ''message'', jget v ''message'')]))"

section \<open>Choosing from a ranking\<close>

definition min_support_probability :: rat where "min_support_probability = 7 / 10"

fun finite_value :: "jnum \<Rightarrow> rat option" where
  "finite_value (Fin r) = Some r"
| "finite_value _ = None"

definition number_within :: "rat \<Rightarrow> rat \<Rightarrow> jnum \<Rightarrow> bool" where
  "number_within low high v = (case finite_value v of Some r \<Rightarrow> low \<le> r \<and> r \<le> high | None \<Rightarrow> False)"

definition probabilities_ok :: "jnum list \<Rightarrow> bool" where
  "probabilities_ok ps \<longleftrightarrow>
     length ps = 4 \<and> list_all (number_within 0 1) ps
     \<and> \<bar>sum_list (List.map_filter finite_value ps) - 1\<bar> \<le> 2 / 100"

definition support_ok :: "ranked_event \<Rightarrow> bool" where
  "support_ok r \<longleftrightarrow>
     (case (finite_value (rk_support r), finite_value (rk_probabilities r ! 2),
            finite_value (rk_probabilities r ! 3)) of
        (Some s, Some a, Some b) \<Rightarrow>
          s \<ge> min_support_probability \<and> s \<le> 1 \<and> \<bar>s - (a + b)\<bar> \<le> 1 / 1000000000
      | _ \<Rightarrow> False)"

definition program_fit_ok :: "bool \<Rightarrow> ranked_event \<Rightarrow> bool" where
  "program_fit_ok needed r \<longleftrightarrow>
     (case rk_programFit r of None \<Rightarrow> \<not> needed | Some v \<Rightarrow> number_within min_support_probability 1 v)"

definition supported_choice :: "event list \<Rightarrow> bool \<Rightarrow> ranked_event \<Rightarrow> bool" where
  "supported_choice candidates needed r \<longleftrightarrow>
     ev_id (rk_event r) \<in> ev_id ` set candidates \<and> number_within 0 3 (rk_score r)
     \<and> probabilities_ok (rk_probabilities r) \<and> support_ok r \<and> program_fit_ok needed r"

definition score_value :: "ranked_event \<Rightarrow> rat" where
  "score_value r = (case finite_value (rk_score r) of Some s \<Rightarrow> s | None \<Rightarrow> 0)"

text \<open>Only candidates become cards: an event of the ranking stands for the candidate of its id.\<close>

definition select_jev_events ::
  "platform \<Rightarrow> event list \<Rightarrow> ranked_event list \<Rightarrow> bool \<Rightarrow> bool \<Rightarrow> event list" where
  "select_jev_events P candidates ranking soonest needed =
     (let supported = List.map_filter (\<lambda>r. event_by_id candidates (ev_id (rk_event r)))
            (sort_by (\<lambda>a b. cmp_int (score_value b) (score_value a))
               (filter (supported_choice candidates needed) ranking));
          selected = diverse_events P (unique_events supported (length supported)) (length supported)
      in if soonest then sort_by (start_order P) selected else selected)"

section \<open>Notices\<close>

definition basic_notice :: jstr where
  "basic_notice = tr ''Sonu~clar tarih, b~ut~ce, kategori ve kelime e~sle~smesine g~ore listeleniyor.''"

fun issue_notice :: "input_issue \<Rightarrow> jstr" where
  "issue_notice Issue_budget =
     tr (''Bu b~ut~ce ki~si ba~s~i m~i, toplam m~i? ~Orne~gin: ki~si ba~s~i 800 TL veya iki ki~si '' @
         ''toplam 800 TL.'')"
| "issue_notice Issue_date =
     tr (''Tarihi daha a~c~ik belirt. ~Orne~gin: yar~in, bu hafta sonu veya YYYY-AA-GG bi~ciminde '' @
         ''bir tarih.'')"
| "issue_notice Issue_constraint =
     tr (''Ko~sullar~i ayr~i ve a~c~ik bi~cimde belirt. ~Orne~gin: cumartesi, ki~si ba~s~i 800 TL, '' @
         ''konser hari~c.'')"
| "issue_notice Issue_location =
     tr (''~Su an yaln~izca ~Istanbul etkinlikleri var. ~Istanbul i~cin bir arama yapabilirsin.'')"
| "issue_notice Issue_unsupported =
     tr (''Bu zorunlu ko~sulu mevcut etkinlik bilgileriyle g~uvenilir bi~cimde '' @
         ''de~gerlendiremiyoruz. Ko~sulu de~gi~stirerek yeniden arayabilirsin.'')"
| "issue_notice Issue_unavailable =
     tr (''Arama hizmeti iste~gini ~su anda i~sleyemiyor. Biraz sonra yeniden deneyebilirsin.'')"

fun issue_of :: "constraint_issue \<Rightarrow> input_issue" where
  "issue_of Budget_ambiguous = Issue_budget"
| "issue_of Date_ambiguous = Issue_date"
| "issue_of Unsupported_location = Issue_location"
| "issue_of Constraint_ambiguous = Issue_constraint"

definition issue_status :: "input_issue \<Rightarrow> result_status" where
  "issue_status i = (if i = Issue_location then Location_unsupported else Needs_input)"

section \<open>Resolved searches\<close>

text \<open>What is searched for: the state of an interpreter, a plan with the user's requests, or text.\<close>

datatype search_subject =
    By_rules
  | By_intent interpreted_state
  | By_plan plan "jstr list"

fun subject_intent :: "search_subject \<Rightarrow> interpreted_state option" where
  "subject_intent (By_intent s) = Some s"
| "subject_intent _ = None"

fun subject_plan :: "search_subject \<Rightarrow> plan option" where
  "subject_plan (By_plan p rs) = Some p"
| "subject_plan _ = None"

definition excluded_event :: "jstr list \<Rightarrow> event \<Rightarrow> bool" where
  "excluded_event ids e \<longleftrightarrow>
     ev_id e \<in> set ids
     \<or> (or_empty (ev_canonicalProductionKey e) \<noteq> [] \<and> or_empty (ev_canonicalProductionKey e) \<in> set ids)
     \<or> (or_empty (ev_canonicalShowKey e) \<noteq> [] \<and> or_empty (ev_canonicalShowKey e) \<in> set ids)
     \<or> (case ev_mergedIds e of Some ms \<Rightarrow> list_ex (\<lambda>m. m \<in> set ids) ms | None \<Rightarrow> False)"

definition without_excluded :: "jstr list \<Rightarrow> event list \<Rightarrow> event list" where
  "without_excluded ids events =
     (let productions = map production_identity (filter (excluded_event ids) events)
      in filter (\<lambda>e. \<not> excluded_event ids e \<and> production_identity e \<notin> set productions) events)"

definition stated_requirements ::
  "platform \<Rightarrow> search_subject \<Rightarrow> recommend_input \<Rightarrow> message list \<Rightarrow> requirement list" where
  "stated_requirements P subject input history =
     (case subject of
        By_plan p rs \<Rightarrow> []
      | By_intent s \<Rightarrow> iv_requirements s
      | By_rules \<Rightarrow> derive_requirements P (ri_message input) (map ms_content (filter ms_fromUser history)))"

definition event_admitted :: "platform \<Rightarrow> int \<Rightarrow> search_subject \<Rightarrow> requirement list \<Rightarrow> event \<Rightarrow> bool" where
  "event_admitted P now subject requirements e \<longleftrightarrow>
     (case subject_plan subject of
        Some p \<Rightarrow> fst (evaluate_plan P e p now) = Supported | None \<Rightarrow> True)
     \<and> meets_requirements P e requirements"

definition count_status ::
  "(event \<Rightarrow> requirement_status) \<Rightarrow> event list \<Rightarrow> requirement_status \<Rightarrow> nat" where
  "count_status status events s = length (filter (\<lambda>e. status e = s) events)"

definition diagnostics_of ::
  "platform \<Rightarrow> int \<Rightarrow> search_subject \<Rightarrow> requirement list \<Rightarrow> event list \<Rightarrow> event list \<Rightarrow> event list
     \<Rightarrow> search_diagnostics" where
  "diagnostics_of P now subject requirements catalog eligible remaining =
     \<lparr>sd_catalogRetrieved = length catalog, sd_eligibleBefore = length remaining,
      sd_hardRequirements =
        map (\<lambda>r. (r, count_status (\<lambda>e. ck_status (check_requirement P e r)) remaining)) requirements,
      sd_eligibleAfter = length (filter (event_admitted P now subject requirements) remaining),
      sd_alternativeExclusions = length eligible - length remaining,
      sd_distinctShortlist = 0, sd_vectorsAvailable = 0, sd_aboveThreshold = None,
      sd_planEvidence = map_option (\<lambda>p. count_status (\<lambda>e. fst (evaluate_plan P e p now)) remaining)
        (subject_plan subject)\<rparr>"

fun contains_mood :: "condition \<Rightarrow> bool" where
  "contains_mood (Atom i a) = (case a of Mood m \<Rightarrow> True | _ \<Rightarrow> False)"
| "contains_mood (Not_of i c) = contains_mood c"
| "contains_mood (All_of i cs) = list_ex contains_mood cs"
| "contains_mood (Any_of i cs) = list_ex contains_mood cs"

definition has_mood_preferences :: "plan option \<Rightarrow> bool" where
  "has_mood_preferences p = (case p of Some q \<Rightarrow> list_ex contains_mood (plan_preferences q) | None \<Rightarrow> False)"

fun child_atom :: "plan_atom \<Rightarrow> bool" where
  "child_atom (Age n) = True"
| "child_atom (Companion c) = (c = Children)"
| "child_atom _ = False"

definition resolved_of :: "recommend_input \<Rightarrow> plan \<Rightarrow> resolved_context" where
  "resolved_of input p =
     (let wanted = concat (map (positive_plan_atoms True) (plan_preferences p))
      in \<lparr>rc_query = ri_message input,
          rc_order = (case plan_order p of
            Order_soonest \<Rightarrow> Retrieve_soonest | Order_cheapest \<Rightarrow> Retrieve_cheapest
          | _ \<Rightarrow> No_retrieval_order),
          rc_soft = soft_preferences_for p,
          rc_calm = (Mood Calm \<in> set wanted),
          rc_child = list_ex child_atom (positive_plan_atoms True (plan_hard p) @ wanted)\<rparr>)"

text \<open>The dense retrieval: how many vectors are available, the ranking and the notice.\<close>

definition partial_index_notice :: jstr where
  "partial_index_notice =
     tr (''Anlamsal dizin k~ismen haz~ir; yeni etkinlikler kelime aramas~iyla da de~gerlendiriliyor.'')"

definition no_index_notice :: jstr where
  "no_index_notice =
     tr ''Anlamsal arama dizini hen~uz haz~ir de~gil; kelime aramas~i kullan~il~iyor.''"

definition index_failed_notice :: "js_error \<Rightarrow> jstr" where
  "index_failed_notice e =
     (if e = Err ''QueryEmbeddingBusyError''
      then tr ''Anlamsal arama ~su anda yo~gun; kelime aramas~i kullan~il~iyor.''
      else tr ''Anlamsal aramaya ~su anda ula~s~ilam~iyor; kelime aramas~i kullan~il~iyor.'')"

definition vectors_for ::
  "dependencies \<Rightarrow> event list \<Rightarrow> ((jstr \<times> rat list) list \<times> nat) res" where
  "vectors_for d events =
     (case dp_dense d of
        Some store \<Rightarrow> rbind (dn_coverage store events) (\<lambda>n. Inr ([], n))
      | None \<Rightarrow>
          (case dp_vectors d of
             None \<Rightarrow> Inr ([], 0)
           | Some load \<Rightarrow>
               rbind (load events) (\<lambda>vs.
                 Inr (vs, length (filter (\<lambda>e. map_of vs (ev_id e) \<noteq> None) events)))))"

definition semantic_for ::
  "dependencies \<Rightarrow> event list \<Rightarrow> jstr \<Rightarrow> (jstr \<times> rat list) list \<Rightarrow> semantic_ranking res" where
  "semantic_for d events query vectors =
     rbind (dp_embed d query) (\<lambda>q.
     rbind (case dp_dense d of
              None \<Rightarrow> Inr None
            | Some store \<Rightarrow> rbind (dn_rank store events q) (\<lambda>ids. Inr (Some ids))) (\<lambda>ids.
     Inr \<lparr>sr_queryVector = q, sr_vectors = vectors, sr_denseOrder = ids\<rparr>))"

definition retrieve_semantic ::
  "dependencies \<Rightarrow> event list \<Rightarrow> jstr \<Rightarrow> nat \<times> semantic_ranking option \<times> jstr option" where
  "retrieve_semantic d events query =
     (if \<not> dp_embedding d then (0, None, None)
      else case vectors_for d events of
             Inl e \<Rightarrow> (0, None, Some (index_failed_notice e))
           | Inr (vectors, available) \<Rightarrow>
               if available = 0 then (0, None, Some no_index_notice)
               else case semantic_for d events query vectors of
                      Inl e \<Rightarrow> (available, None, Some (index_failed_notice e))
                    | Inr s \<Rightarrow> (available, Some s,
                        if available < length events then Some partial_index_notice else None))"

definition plan_message :: jstr where
  "plan_message = tr ''Etkinlikleri do~grulanm~i~s plan ve tercihlere g~ore de~gerlendir.''"

text \<open>The request to the ranker.\<close>

definition rank_request_of ::
  "platform \<Rightarrow> int \<Rightarrow> recommend_input \<Rightarrow> search_subject \<Rightarrow> filters \<Rightarrow> message list \<Rightarrow> requirement list
     \<Rightarrow> event list \<Rightarrow> rank_request res" where
  "rank_request_of P now input subject filters history requirements shortlist =
     (let base = \<lparr>rr_message = ri_message input, rr_history = map ms_content history,
            rr_filters = filters, rr_requirements = requirements, rr_preferences = None,
            rr_plan = None, rr_planEvidence = []\<rparr>
      in case subject of
           By_rules \<Rightarrow> Inr base
         | By_intent s \<Rightarrow>
             rbind (recommendation_query P s) (\<lambda>q.
             Inr (base\<lparr>rr_message := q, rr_preferences := Some (iv_preferences s)\<rparr>))
         | By_plan p requests \<Rightarrow>
             Inr (base\<lparr>rr_message := (if requests = [] then plan_message else last requests),
                      rr_history := butlast requests, rr_plan := Some p,
                      rr_planEvidence :=
                        map (\<lambda>e. (ev_id e, snd (evaluate_plan P e p now))) shortlist\<rparr>))"

definition ordered_choice :: "platform \<Rightarrow> plan option \<Rightarrow> event list \<Rightarrow> event list" where
  "ordered_choice P p events =
     (case p of
        None \<Rightarrow> events
      | Some q \<Rightarrow>
          (case plan_order q of
             Order_soonest \<Rightarrow> sort_by (start_order P) events
           | Order_cheapest \<Rightarrow> sort_by (cheapest_order P) events
           | _ \<Rightarrow> events))"

definition chosen_events ::
  "platform \<Rightarrow> dependencies \<Rightarrow> recommend_input \<Rightarrow> search_subject \<Rightarrow> filters \<Rightarrow> message list
     \<Rightarrow> requirement list \<Rightarrow> event list \<Rightarrow> event list res" where
  "chosen_events P d input subject filters history requirements shortlist =
     rbind (rank_request_of P (dp_now d) input subject filters history requirements shortlist) (\<lambda>request.
     rbind (dp_rank d request shortlist) (\<lambda>ranking.
     Inr (ordered_choice P (subject_plan subject)
       (select_jev_events P shortlist ranking
         (case subject_intent subject of Some s \<Rightarrow> ip_soonest (iv_preferences s) | None \<Rightarrow> False)
         (has_mood_preferences (subject_plan subject))))))"

text \<open>The result once the shortlist is known.\<close>

definition join_notices :: "jstr option list \<Rightarrow> jstr" where
  "join_notices ns = join [32] (filter (\<lambda>n. n \<noteq> []) (List.map_filter (\<lambda>n. n) ns))"

definition weak_match_notice :: jstr where
  "weak_match_notice =
     tr (''~Iste~gine yeterince uyan bir etkinlik bulunamad~i. ~Iste~gini de~gi~stirebilirsin.'')"

definition ranker_failed_notice :: "bool \<Rightarrow> jstr" where
  "ranker_failed_notice moods =
     (if moods then tr (''Deneyim tercihlerini ~su anda de~gerlendiremiyoruz. Uygunlu~gunu '' @
         ''do~grulayamad~i~g~im~iz se~cenekleri g~ostermiyoruz; yeniden deneyebilirsin.'')
      else tr (''Ak~ill~i s~iralamaya ~su anda ula~s~ilam~iyor. Temel arama sonu~clar~i g~osteriliyor.''))"

definition unranked_notice :: "bool \<Rightarrow> jstr option \<Rightarrow> semantic_ranking option \<Rightarrow> jstr" where
  "unranked_notice moods retrieval semantic =
     (if moods then tr (''Deneyim tercihlerini de~gerlendirmek i~cin ak~ill~i s~iralama gerekli; ~su anda '' @
         ''uygunlu~gunu do~grulayamad~i~g~im~iz se~cenekleri g~ostermiyoruz.'')
      else case retrieval of
             Some n \<Rightarrow> n
           | None \<Rightarrow>
               if semantic \<noteq> None
               then tr ''Sonu~clar anlamsal benzerlik ve kelime e~sle~smesine g~ore listeleniyor.''
               else basic_notice)"

definition status_of_cards :: "event list \<Rightarrow> result_status" where
  "status_of_cards cards = (if cards = [] then No_results else Results)"

definition answer ::
  "platform \<Rightarrow> dependencies \<Rightarrow> recommend_input \<Rightarrow> search_subject \<Rightarrow> filters \<Rightarrow> message list
     \<Rightarrow> requirement list \<Rightarrow> search_result \<Rightarrow> search_diagnostics
     \<Rightarrow> jstr option \<Rightarrow> semantic_ranking option \<Rightarrow> event list \<Rightarrow> event list \<Rightarrow> search_result" where
  "answer P d input subject filters history requirements base diagnostics retrieval semantic shortlist fallback =
     (let moods = has_mood_preferences (subject_plan subject);
          listed = base\<lparr>re_recommendations := fallback, re_status := status_of_cards fallback,
                        re_diagnostics := Some diagnostics\<rparr>
      in if \<not> dp_configured d
         then listed\<lparr>re_notice := Some (unranked_notice moods retrieval semantic)\<rparr>
         else case chosen_events P d input subject filters history requirements shortlist of
                Inl e \<Rightarrow>
                  listed\<lparr>re_notice := Some (join_notices [retrieval, Some (ranker_failed_notice moods)])\<rparr>
              | Inr cards \<Rightarrow>
                  base\<lparr>re_recommendations := cards, re_mode := By_jev, re_status := status_of_cards cards,
                       re_notice := (if cards = [] then Some weak_match_notice else retrieval),
                       re_diagnostics :=
                         Some (diagnostics\<lparr>sd_aboveThreshold := Some (length cards)\<rparr>)\<rparr>)"

definition no_evidence_notice :: "bool \<Rightarrow> jstr" where
  "no_evidence_notice demanding =
     (if demanding
      then tr (''Zorunlu ko~sullar~in~i etkinlik a~c~iklamalar~indan do~grulayamad~ik. Bilgisi eksik '' @
               ''se~cenekleri g~ostermiyoruz.'')
      else tr ''Bu ko~sullara uyan g~uncel bir etkinlik bulunamad~i.'')"

definition no_shortlist_notice :: jstr where
  "no_shortlist_notice =
     tr ''Belirtti~gin tercih ve hari~c tutmalara uyan bir etkinlik bulunamad~i.''"

definition retrieval_of ::
  "recommend_input \<Rightarrow> search_subject \<Rightarrow> semantic_ranking option \<Rightarrow> retrieval" where
  "retrieval_of input subject semantic =
     \<lparr>rv_message = ri_message input, rv_history = ri_history input, rv_semantic = semantic,
      rv_intent = subject_intent subject,
      rv_resolved = map_option (resolved_of input) (subject_plan subject)\<rparr>"

text \<open>Filters and issue of the search.\<close>

definition search_filters ::
  "platform \<Rightarrow> int \<Rightarrow> recommend_input \<Rightarrow> search_subject \<Rightarrow> (filters \<times> input_issue option) res" where
  "search_filters P now input subject =
     (case subject of
        By_plan p rs \<Rightarrow> Inr (empty_filters, None)
      | By_intent s \<Rightarrow> Inr (iv_filters s, None)
      | By_rules \<Rightarrow>
          rbind (interpret_constraints P (ri_message input) (ri_filters input) now) (\<lambda>r.
          Inr (fst r, map_option issue_of (snd r))))"

text \<open>The events that may be shown, after the evidence was checked.\<close>

definition find_cards ::
  "platform \<Rightarrow> (rat \<Rightarrow> rat) \<Rightarrow> dependencies \<Rightarrow> recommend_input \<Rightarrow> search_subject \<Rightarrow> filters
     \<Rightarrow> message list \<Rightarrow> requirement list \<Rightarrow> search_diagnostics \<Rightarrow> event list \<Rightarrow> search_result res" where
  "find_cards P logarithm d input subject filters history requirements diagnostics events =
     (let base = (plain_result filters No_results no_shortlist_notice)
                   \<lparr>re_total := length events, re_diagnostics := Some diagnostics\<rparr>
      in rbind (shortlist_events P logarithm events (retrieval_of input subject None) 16) (\<lambda>first.
         if first = [] then Inr base
         else
           let query = (if subject = By_rules then semantic_query (ri_message input) history
                        else ri_message input);
               (available, semantic, retrieval) = retrieve_semantic d events query
           in rbind (shortlist_events P logarithm events (retrieval_of input subject semantic) 16) (\<lambda>shortlist.
              rbind (if has_mood_preferences (subject_plan subject) then Inr []
                     else fallback_events P logarithm shortlist (retrieval_of input subject semantic)
                            (length shortlist)) (\<lambda>fallback.
              Inr (answer P d input subject filters history requirements base
                (diagnostics\<lparr>sd_vectorsAvailable := available,
                             sd_distinctShortlist := length shortlist\<rparr>)
                retrieval semantic shortlist fallback)))))"

definition recommend_resolved ::
  "platform \<Rightarrow> (rat \<Rightarrow> rat) \<Rightarrow> dependencies \<Rightarrow> recommend_input \<Rightarrow> search_subject \<Rightarrow> search_result res" where
  "recommend_resolved P logarithm d input subject =
     rbind (search_filters P (dp_now d) input subject) (\<lambda>(filters, issue).
     case issue of
       Some i \<Rightarrow> Inr (plain_result filters (issue_status i) (issue_notice i))
     | None \<Rightarrow>
         rbind (dp_candidates d filters) (\<lambda>catalog.
         let eligible = filter (\<lambda>e. is_eligible P e filters (dp_now d)) catalog;
             remaining = without_excluded (ri_excludeIds input) eligible;
             history = (if subject = By_rules
                        then sc_history (search_context_of P (ri_message input) (ri_history input)) else []);
             requirements = stated_requirements P subject input history;
             events = filter (event_admitted P (dp_now d) subject requirements) remaining;
             diagnostics = diagnostics_of P (dp_now d) subject requirements catalog eligible remaining
         in if events = []
            then Inr ((plain_result filters No_results
                   (no_evidence_notice (remaining \<noteq> [] \<and> (requirements \<noteq> [] \<or> subject_plan subject \<noteq> None))))
                   \<lparr>re_diagnostics := Some diagnostics\<rparr>)
            else find_cards P logarithm d input subject filters history requirements diagnostics events))"

section \<open>Plans\<close>

definition input_reset_clause :: string where
  "input_reset_clause =
     ''(?:sifirla|reset|bastan basla(?:yalim)?|onceki kosullari unut|hepsini unut|her seyi unut|'' @
     ''forget everything|start over)''"

text \<open>\<open>isStandaloneInputReset\<close> of \<open>web/lib/input-reset.ts\<close>.\<close>

definition is_standalone_input_reset :: "platform \<Rightarrow> jstr \<Rightarrow> bool" where
  "is_standalone_input_reset P message =
     test (re (''^'' @ input_reset_clause @ ''(?:%s*[,;.!]%s*'' @ input_reset_clause @ '')*[.!]*$''))
       (replace_all (re ''%s+'') [32] (dot_i (strip_marks (pl_nfd P (pl_lower_tr P (trim message))))))"

text \<open>Plans that differ only in the basis of a budget.\<close>

fun forget_basis :: "condition \<Rightarrow> condition" where
  "forget_basis (Atom i a) =
     Atom i (case a of Budget c n currency b \<Rightarrow> Budget c n currency Per_person | _ \<Rightarrow> a)"
| "forget_basis (Not_of i c) = Not_of i (forget_basis c)"
| "forget_basis (All_of i cs) = All_of i (map forget_basis cs)"
| "forget_basis (Any_of i cs) = Any_of i (map forget_basis cs)"

definition plan_without_basis :: "plan \<Rightarrow> plan" where
  "plan_without_basis p =
     p\<lparr>plan_hard := forget_basis (plan_hard p),
       plan_preferences := map forget_basis (plan_preferences p)\<rparr>"

definition is_budget_basis_ambiguity :: "plan list \<Rightarrow> bool" where
  "is_budget_basis_ambiguity plans \<longleftrightarrow>
     length plans > 1 \<and> length (uniq (map plan_without_basis plans)) = 1"

definition invalid_judgments :: jstr where
  "invalid_judgments = u ''invalid or incomplete provider judgments''"

fun span_issue :: "span_result \<Rightarrow> input_issue option" where
  "span_issue (Accepted ops p) = None"
| "span_issue (Ambiguous plans) =
     Some (if is_budget_basis_ambiguity plans then Issue_budget else Issue_constraint)"
| "span_issue (Unsupported reason) =
     Some (if reason = invalid_judgments then Issue_unavailable
           else if reason = u ''unsupported outside_location'' then Issue_location
           else if reason = u ''unreadable date'' \<or> reason = u ''past date'' then Issue_date
           else if starts_with reason (u ''unreadable '') then Issue_constraint
           else Issue_unsupported)"

definition resets :: "operation list \<Rightarrow> bool" where
  "resets ops = list_ex (\<lambda>op. op = Reset) ops"

definition next_requests ::
  "platform \<Rightarrow> jstr \<Rightarrow> jstr \<Rightarrow> plan_state \<Rightarrow> operation list \<Rightarrow> jstr list" where
  "next_requests P raw message previous ops =
     last_items max_plan_requests
       (if resets ops then [message]
        else if is_alternatives_request P raw then pst_requests previous
        else pst_requests previous @ [message])"

definition next_plan_state ::
  "platform \<Rightarrow> jstr \<Rightarrow> jstr \<Rightarrow> plan_state \<Rightarrow> operation list \<Rightarrow> plan \<Rightarrow> plan_state res" where
  "next_plan_state P raw message previous ops p =
     (let state = \<lparr>pst_revision = pst_revision previous + 1, pst_plan = p,
                   pst_requests = next_requests P raw message previous ops\<rparr>
      in rbind (validate_plan_state P (plan_state_json state)) (\<lambda>_.
         rbind (validate_search_plan P p) (\<lambda>_. Inr state)))"

text \<open>Whether a filter of the request is set: neither null, false nor an empty list.\<close>

definition filters_set :: "filters \<Rightarrow> bool" where
  "filters_set f \<longleftrightarrow>
     list_ex (\<lambda>kv. case snd kv of
       Undefined \<Rightarrow> False | Null \<Rightarrow> False | JBool b \<Rightarrow> b | JArr xs \<Rightarrow> xs \<noteq> [] | _ \<Rightarrow> True) (filters_fields f)"

definition renewal_notice :: jstr where
  "renewal_notice =
     tr (''Arama anlay~i~s~i g~uncellendi. Yeni arama ile ko~sullar~in~i yeniden yazabilirsin.'')"

definition plan_too_long_notice :: jstr where
  "plan_too_long_notice =
     tr ''Arama ~cok uzad~i. Yeni arama ile ko~sullar~in~i tek mesajda yazabilirsin.''"

definition cleared_notice :: jstr where
  "cleared_notice = tr ''~Onceki ko~sullar temizlendi. Yeni plan~in~i yazabilirsin.''"

definition plan_excluded_ids :: "platform \<Rightarrow> recommend_input \<Rightarrow> operation list \<Rightarrow> jstr list" where
  "plan_excluded_ids P input ops =
     (if \<not> resets ops \<and> is_alternatives_request P (ri_message input)
      then last_items 100 (uniq (ri_excludeIds input
             @ (case ri_alternativeIds input of Some ids \<Rightarrow> ids | None \<Rightarrow> [])))
      else [])"

definition plan_query_text :: "platform \<Rightarrow> plan_state \<Rightarrow> jstr" where
  "plan_query_text P s =
     (let text = take 1200 (join [10] (filter (\<lambda>t. t \<noteq> [])
            (plan_retrieval_query P (pst_plan s) # rev (pst_requests s))))
      in if text \<noteq> [] then text else tr ''~Istanbul etkinlikleri'')"

definition pending_text :: "recommend_input \<Rightarrow> jstr" where
  "pending_text input =
     (case ri_pending input of
        Some p \<Rightarrow> pi_message p @ [10] @ ri_message input | None \<Rightarrow> ri_message input)"

definition interpret_span ::
  "platform \<Rightarrow> dependencies \<Rightarrow> recommend_input \<Rightarrow> plan_state \<Rightarrow> span_result res" where
  "interpret_span P d input previous =
     (if ri_pending input = None \<and> pst_requests previous \<noteq> []
         \<and> is_standalone_alternatives_request P (ri_message input)
      then Inr (Accepted [] (pst_plan previous))
      else dp_span d \<lparr>sq_utterance = pending_text input,
                      sq_referenceDate = istanbul_day P (dp_now d),
                      sq_previous = ri_planState input\<rparr>)"

definition span_refused ::
  "search_result \<Rightarrow> jstr \<Rightarrow> input_issue \<Rightarrow> search_result" where
  "span_refused base message issue =
     base\<lparr>re_status := Needs_input, re_notice := Some (issue_notice issue),
          re_pending := Some \<lparr>pi_message = message, pi_reason = issue\<rparr>\<rparr>"

definition span_accepted ::
  "platform \<Rightarrow> (rat \<Rightarrow> rat) \<Rightarrow> dependencies \<Rightarrow> recommend_input \<Rightarrow> search_result \<Rightarrow> plan_state
     \<Rightarrow> operation list \<Rightarrow> plan \<Rightarrow> search_result res" where
  "span_accepted P logarithm d input base previous ops p =
     (case next_plan_state P (ri_message input) (pending_text input) previous ops p of
        Inl e \<Rightarrow> Inr (span_refused base (pending_text input) Issue_unsupported)
      | Inr state \<Rightarrow>
          let ids = plan_excluded_ids P input ops;
              search = input\<lparr>ri_message := plan_query_text P state, ri_history := [],
                             ri_filters := empty_filters, ri_excludeIds := ids\<rparr>
          in rbind (recommend_resolved P logarithm d search (By_plan (pst_plan state) (pst_requests state)))
               (\<lambda>r. Inr (r\<lparr>re_planState := Some state, re_excludedIds := Some ids\<rparr>)))"

definition recommend_span ::
  "platform \<Rightarrow> (rat \<Rightarrow> rat) \<Rightarrow> dependencies \<Rightarrow> recommend_input \<Rightarrow> search_result res" where
  "recommend_span P logarithm d input =
     (let previous = (case ri_planState input of Some s \<Rightarrow> s | None \<Rightarrow> empty_plan_state);
          base = (plain_result empty_filters Needs_input renewal_notice)\<lparr>re_planState := Some previous\<rparr>;
          restart = base\<lparr>re_resetRequired := True\<rparr>
      in if ri_version input \<noteq> Some 2 \<or> dp_interpreter d \<noteq> Span_interpreter \<or> ri_intentState input \<noteq> None
            \<or> (ri_planState input = None \<and> (ri_history input \<noteq> [] \<or> filters_set (ri_filters input)))
         then Inr restart
         else if is_standalone_input_reset P (ri_message input)
         then Inr (base\<lparr>re_planState := Some (empty_plan_state\<lparr>pst_revision := pst_revision previous + 1\<rparr>),
                        re_status := No_results, re_excludedIds := Some [],
                        re_notice := Some cleared_notice\<rparr>)
         else if length (pending_text input) > 1200
         then Inr (restart\<lparr>re_pending := ri_pending input, re_notice := Some plan_too_long_notice\<rparr>)
         else case validate_search_plan P (pst_plan previous) of
                Inl e \<Rightarrow> Inr (restart\<lparr>re_notice := Some (issue_notice Issue_unsupported)\<rparr>)
              | Inr ok \<Rightarrow>
                  (case interpret_span P d input previous of
                     Inl e \<Rightarrow> Inr (span_refused base (pending_text input) Issue_unavailable)
                   | Inr r \<Rightarrow>
                       (case r of
                          Accepted ops p \<Rightarrow> span_accepted P logarithm d input base previous ops p
                        | _ \<Rightarrow>
                            let issue = the (span_issue r)
                            in Inr ((span_refused base (pending_text input) issue)
                                 \<lparr>re_clarification := (issue = Issue_budget)\<rparr>))))"

section \<open>Interpreted states\<close>

definition state_renewal_notice :: jstr where
  "state_renewal_notice =
     tr (''Arama anlay~i~s~i g~uncellendi. ~(Yeni arama~) ile ko~sullar~in~i bir kez yeniden '' @
         ''yazabilirsin.'')"

definition state_too_long_notice :: jstr where
  "state_too_long_notice =
     tr (''Arama ~cok uzad~i. ~(Yeni arama~) ile ko~sullar~in~i tek mesajda yeniden yazabilirsin.'')"

definition known_filters :: "recommend_input \<Rightarrow> filters" where
  "known_filters input =
     (case ri_intentState input of Some s \<Rightarrow> iv_filters s | None \<Rightarrow> ri_filters input)"

definition previous_intent :: "recommend_input \<Rightarrow> interpreted_state res" where
  "previous_intent input =
     (case ri_intentState input of
        Some s \<Rightarrow> Inr s | None \<Rightarrow> empty_intent_state (filters_json (ri_filters input)))"

definition restart_result :: "filters \<Rightarrow> jstr \<Rightarrow> search_result" where
  "restart_result filters message = (plain_result filters Needs_input message)\<lparr>re_resetRequired := True\<rparr>"

definition intent_refused ::
  "interpreted_state \<Rightarrow> jstr \<Rightarrow> input_issue \<Rightarrow> search_result" where
  "intent_refused s message issue =
     (plain_result (iv_filters s) (issue_status issue) (issue_notice issue))
       \<lparr>re_intentState := Some s, re_pending := Some \<lparr>pi_message = message, pi_reason = issue\<rparr>,
        re_clarification := (issue = Issue_budget)\<rparr>"

definition intent_accepted ::
  "platform \<Rightarrow> (rat \<Rightarrow> rat) \<Rightarrow> dependencies \<Rightarrow> recommend_input \<Rightarrow> intent_action \<Rightarrow> interpreted_state
     \<Rightarrow> search_result res" where
  "intent_accepted P logarithm d input action s =
     (let ids = (if action = Alternatives_action
                 then last_items 100 (uniq (ri_excludeIds input
                        @ (case ri_alternativeIds input of Some ids \<Rightarrow> ids | None \<Rightarrow> [])))
                 else [])
      in rbind (retrieval_query P s) (\<lambda>query.
         rbind (recommend_resolved P logarithm d
                  (input\<lparr>ri_message := query, ri_history := [], ri_filters := iv_filters s,
                         ri_excludeIds := ids\<rparr>) (By_intent s)) (\<lambda>r.
         Inr (r\<lparr>re_intentState := Some s, re_excludedIds := Some ids\<rparr>))))"

definition recommend_intent ::
  "platform \<Rightarrow> (rat \<Rightarrow> rat) \<Rightarrow> dependencies \<Rightarrow> recommend_input \<Rightarrow> search_result res" where
  "recommend_intent P logarithm d input =
     (if length (pending_text input) > 1200
      then rbind (previous_intent input) (\<lambda>s.
             Inr ((restart_result (known_filters input) state_too_long_notice)
               \<lparr>re_intentState := Some s, re_pending := ri_pending input\<rparr>))
      else
        rbind (previous_intent input) (\<lambda>previous.
        rbind (dp_interpret d \<lparr>iq_message = ri_message input, iq_previous = previous,
                 iq_unresolved = map_option pi_message (ri_pending input)\<rparr>) (\<lambda>i.
        rbind (validate_intent_state (intent_json (ir_state i))) (\<lambda>s.
        case ir_issue i of
          Some issue \<Rightarrow>
            Inr (intent_refused s
              (if ir_action i = Reset_action then ri_message input else pending_text input) issue)
        | None \<Rightarrow> intent_accepted P logarithm d input (ir_action i) s))))"

section \<open>Entry points\<close>

definition recommend_unpinned ::
  "platform \<Rightarrow> (rat \<Rightarrow> rat) \<Rightarrow> dependencies \<Rightarrow> recommend_input \<Rightarrow> search_result res" where
  "recommend_unpinned P logarithm d input =
     (if ri_version input = Some 2 \<or> ri_planState input \<noteq> None \<or> dp_interpreter d = Span_interpreter
      then recommend_span P logarithm d input
      else if dp_interpreter d \<noteq> Jev_interpreter \<and> (ri_intentState input \<noteq> None \<or> ri_pending input \<noteq> None)
      then Inr ((restart_result (known_filters input) state_renewal_notice)
                  \<lparr>re_intentState := ri_intentState input\<rparr>)
      else if dp_interpreter d \<noteq> Jev_interpreter \<or> ri_version input \<noteq> Some 1
      then recommend_resolved P logarithm d input By_rules
      else if ri_intentState input = None \<and> ri_history input \<noteq> []
      then Inr (restart_result (ri_filters input) state_renewal_notice)
      else recommend_intent P logarithm d input)"

definition catalog_empty_notice :: jstr where
  "catalog_empty_notice = tr ''Yay~inlanm~i~s etkinlik katalo~gu ~su anda bo~s.''"

definition catalog_unverified_notice :: jstr where
  "catalog_unverified_notice =
     tr (''Yay~inlanm~i~s etkinliklerin g~uncel kaynak durumu do~grulanamad~i. Biraz sonra yeniden '' @
         ''deneyebilirsin.'')"

definition withheld_notice :: jstr where
  "withheld_notice =
     tr (''Baz~i etkinliklerin g~uncel durumu de~gi~sti; do~grulanamayan se~cenekleri '' @
         ''g~ostermiyoruz.'')"

text \<open>The candidates of a pinned catalog: none while it is not available.\<close>

definition pinned_candidates :: "pinned_catalog \<Rightarrow> filters \<Rightarrow> event list res" where
  "pinned_candidates pin filters =
     rbind (case pn_available pin of None \<Rightarrow> Inr True | Some v \<Rightarrow> v) (\<lambda>ok.
     if ok then pn_candidates pin filters
     else rbind (case pn_catalogEmpty pin of None \<Rightarrow> Inr False | Some v \<Rightarrow> v) (\<lambda>_. Inr []))"

text \<open>
  The catalog was found unavailable when candidates were asked for, which is when the result has
  diagnostics.
\<close>

definition availability_failed :: "pinned_catalog \<Rightarrow> search_result \<Rightarrow> bool" where
  "availability_failed pin r \<longleftrightarrow> re_diagnostics r \<noteq> None \<and> pn_available pin = Some (Inr False)"

definition pinned_notice :: "pinned_catalog \<Rightarrow> search_result \<Rightarrow> event list \<Rightarrow> jstr option" where
  "pinned_notice pin r cards =
     (if re_status r = No_results \<and> cards = [] \<and> or_empty (pn_emptyNotice pin) \<noteq> []
      then pn_emptyNotice pin
      else if availability_failed pin r \<and> re_status r = No_results
      then Some (if pn_catalogEmpty pin = Some (Inr True) then catalog_empty_notice
                 else catalog_unverified_notice)
      else re_notice r)"

definition finish_pinned :: "pinned_catalog \<Rightarrow> search_result \<Rightarrow> event list \<Rightarrow> search_result" where
  "finish_pinned pin r kept =
     (let cards = filter (\<lambda>e. ev_id e \<in> ev_id ` set kept) (re_recommendations r);
          withheld = (length cards < length (re_recommendations r))
      in r\<lparr>re_publicationId := Some (pn_publicationId pin), re_recommendations := cards,
           re_status := (if withheld then status_of_cards cards else re_status r),
           re_notice := (if withheld then Some (join_notices [re_notice r, Some withheld_notice])
                         else pinned_notice pin r cards),
           re_diagnostics := map_option (\<lambda>x. x\<lparr>sd_aboveThreshold :=
             map_option (\<lambda>_. length cards) (sd_aboveThreshold x)\<rparr>) (re_diagnostics r)\<rparr>)"

definition recommend ::
  "platform \<Rightarrow> (rat \<Rightarrow> rat) \<Rightarrow> dependencies \<Rightarrow> recommend_input \<Rightarrow> search_result res" where
  "recommend P logarithm d input =
     rbind (dp_pin d) (\<lambda>pinned.
     case pinned of
       None \<Rightarrow> recommend_unpinned P logarithm d input
     | Some pin \<Rightarrow>
         rbind (recommend_unpinned P logarithm
                  (d\<lparr>dp_candidates := pinned_candidates pin, dp_vectors := Some (pn_vectors pin),
                     dp_dense := pn_dense pin\<rparr>) input) (\<lambda>r.
         rbind (pn_finalize pin (re_recommendations r)) (\<lambda>kept. Inr (finish_pinned pin r kept))))"

definition request_version :: "dependencies \<Rightarrow> nat option \<Rightarrow> nat option" where
  "request_version d version =
     (case dp_interpreter d of
        Span_interpreter \<Rightarrow> Some 2 | Jev_interpreter \<Rightarrow> Some 1 | Rules_interpreter \<Rightarrow> version)"

definition recommend_request ::
  "platform \<Rightarrow> (rat \<Rightarrow> rat) \<Rightarrow> dependencies \<Rightarrow> json \<Rightarrow> search_result res" where
  "recommend_request P logarithm d v =
     rbind (validate_request P v) (\<lambda>input.
     recommend P logarithm d (input\<lparr>ri_version := request_version d (ri_version input)\<rparr>))"

end
