(* ===== verification/Retrieval_Facts.thy ===== *)
theory Retrieval_Facts
  imports Retrieval
begin

text \<open>
  Facts of the ranking and of the shortlist: every ranking permutes its events, every choice takes
  events of its list with distinct productions, and the limits hold.
\<close>

section \<open>Reorderings\<close>

text \<open>The contract of a ranking step: the same events, each as often as before.\<close>

locale reordering =
  fixes rank :: "'a list \<Rightarrow> 'a list"
  assumes permutes: "mset (rank xs) = mset xs"
begin

lemma set_rank [simp]: "set (rank xs) = set xs"
  by (metis permutes set_mset_mset)

lemma length_rank [simp]: "length (rank xs) = length xs"
  by (metis permutes size_mset)

lemma distinct_map_rank: "distinct (map f (rank xs)) = distinct (map f xs)"
  by (metis permutes mset_map mset_eq_imp_distinct_iff)

end

lemma mset_rank_events: "mset (rank_events P es q v vs) = mset es"
proof -
  have "mset (rank_events P es q v vs) = image_mset snd (mset (map (\<lambda>e. (event_score P (search_tokens P q) v vs e, e)) es))"
    unfolding rank_events_def Let_def by (simp only: mset_map mset_sort_by)
  then show ?thesis by (simp add: image_mset.compositionality comp_def)
qed

lemma mset_hybrid_rank: "mset (hybrid_rank P logarithm es q s) = mset es"
  by (simp add: hybrid_rank_def hybrid_rank_from_dense_order_def Let_def mset_rank_events)

lemma map_snd_enumerate: "map snd (enumerate n xs) = xs"
  by (simp add: enumerate_eq_zip)

lemma mset_apply_soft: "mset (apply_soft_preferences P es soft) = mset es"
proof (cases soft)
  case (Some s)
  have "mset (apply_soft_preferences P es soft)
      = image_mset (\<lambda>x. snd (fst x)) (mset (map (\<lambda>x. (x, soft_score P s (fst x) (snd x))) (enumerate 0 es)))"
    unfolding apply_soft_preferences_def Some option.case by (simp only: mset_map mset_sort_by)
  also have "\<dots> = mset (map snd (enumerate 0 es))"
    by (simp only: mset_map image_mset.compositionality comp_def fst_conv)
  finally show ?thesis by (simp add: map_snd_enumerate)
qed (simp add: apply_soft_preferences_def)

lemma mset_demote: "mset (demote_child_directed P es intent) = mset es"
  by (auto simp: demote_child_directed_def union_code[symmetric] multiset_partition split: option.split)

interpretation ranked: reordering "\<lambda>es. rank_events P es q v vs" for P q v vs
  by unfold_locales (rule mset_rank_events)

interpretation fused: reordering "\<lambda>es. hybrid_rank P logarithm es q s" for P logarithm q s
  by unfold_locales (rule mset_hybrid_rank)

interpretation softened: reordering "\<lambda>es. apply_soft_preferences P es soft" for P soft
  by unfold_locales (rule mset_apply_soft)

interpretation demoted: reordering "\<lambda>es. demote_child_directed P es intent" for P intent
  by unfold_locales (rule mset_demote)

section \<open>Choices\<close>

text \<open>What a choice from a list of events promises: events of the list, one per production.\<close>

definition chosen_from :: "event list \<Rightarrow> event list \<Rightarrow> bool" where
  "chosen_from es cs \<longleftrightarrow> set cs \<subseteq> set es \<and> distinct (map production_identity cs)"

lemma set_first_of_each: "set (first_of_each key seen xs) \<subseteq> set xs"
  by (induction key seen xs rule: first_of_each.induct) (auto split: if_splits)

lemma chosen_from_subseq:
  assumes "subseq cs es" and "distinct (map production_identity es)"
  shows "chosen_from es cs"
proof -
  obtain N where "cs = nths es N" using assms(1) by (auto simp: subseq_conv_nths)
  moreover have "distinct (map production_identity (nths es N))"
    using distinct_nthsI[OF assms(2)] by (simp add: nths_map)
  ultimately show ?thesis by (simp add: chosen_from_def set_nths_subset)
qed

lemma chosen_from_trans:
  "set ds \<subseteq> set es \<Longrightarrow> chosen_from ds cs \<Longrightarrow> chosen_from es cs"
  by (auto simp: chosen_from_def)

lemma chosen_from_part:
  assumes "chosen_from es ds" and "subseq cs ds"
  shows "chosen_from es cs"
proof (rule chosen_from_trans)
  show "set ds \<subseteq> set es" using assms(1) by (simp add: chosen_from_def)
  show "chosen_from ds cs"
    by (rule chosen_from_subseq[OF assms(2)]) (use assms(1) in \<open>simp add: chosen_from_def\<close>)
qed

lemma subseq_take: "subseq (take n xs) xs"
  by (metis append_take_drop_id subseq_rev_drop_many subseq_order.refl)

lemma subseq_diverse: "subseq (diverse_events P es n) es"
  unfolding diverse_events_def
  using subseq_take first_of_each_subseq by (rule subseq_order.trans)

lemma length_diverse: "length (diverse_events P es n) \<le> n"
  by (simp add: diverse_events_def)

lemma chosen_unique: "chosen_from es (unique_events es n)"
proof -
  have "chosen_from es (first_of_each production_identity [] es)"
    by (simp add: chosen_from_def set_first_of_each first_of_each_distinct)
  then show ?thesis unfolding unique_events_def using subseq_take by (rule chosen_from_part)
qed

lemma chosen_representatives:
  assumes "set ds \<subseteq> set es"
  shows "chosen_from es (diverse_events P (unique_events ds m) n)"
  using assms chosen_from_part[OF chosen_unique subseq_diverse] by (rule chosen_from_trans)

lemma chosen_soonest: "chosen_from es (soonest_production_representatives P es intent)"
  unfolding soonest_production_representatives_def
  by (rule chosen_representatives) (simp add: demoted.set_rank)

lemma chosen_cheapest: "chosen_from es (cheapest_production_representatives P es n)"
  unfolding cheapest_production_representatives_def by (rule chosen_representatives) simp

section \<open>Coverage\<close>

lemma chosen_calm:
  assumes "distinct (map production_identity ranked)"
    and "calm_mood_shortlist_coverage P ranked m h limit intent resolved = Some cs"
  shows "chosen_from ranked cs"
proof -
  obtain ok where "cs = take limit (filter ok ranked)"
    using assms(2) by (auto simp: calm_mood_shortlist_coverage_def Let_def split: if_splits)
  then have "subseq cs ranked"
    by (metis subseq_filter_left subseq_take subseq_order.trans)
  then show ?thesis using assms(1) by (rule chosen_from_subseq)
qed

text \<open>The state of the interleaving: the productions of the selected events, each once.\<close>

definition covered_ok :: "event list \<Rightarrow> nat \<Rightarrow> coverage \<Rightarrow> bool" where
  "covered_ok es limit st \<longleftrightarrow>
     chosen_from es (cv_selected st) \<and> length (cv_selected st) \<le> limit
     \<and> set (cv_productions st) = production_identity ` set (cv_selected st)"

lemma covered_ok_add:
  assumes "covered_ok es limit st" "length (cv_selected st) < limit" "e \<in> set es"
  shows "covered_ok es limit (add_covered P e st)"
  using assms by (auto simp: covered_ok_def add_covered_def chosen_from_def Let_def image_iff)

lemma covered_ok_head:
  assumes "covered_ok es limit st" "length (cv_selected st) < limit" "set xs \<subseteq> set es"
  shows "covered_ok es limit (add_head P xs st)"
  using assms covered_ok_add by (cases xs) (auto simp: add_head_def)

lemma set_tl_subset: "set xs \<subseteq> A \<Longrightarrow> set (tl xs) \<subseteq> A"
  by (cases xs) auto

lemma covered_ok_interleave:
  "covered_ok es limit st \<Longrightarrow> set xs \<subseteq> set es \<Longrightarrow> set ys \<subseteq> set es
     \<Longrightarrow> covered_ok es limit (interleave_from P limit xs ys st)"
  by (induction P limit xs ys st rule: interleave_from.induct)
     (simp, (auto simp: Let_def not_le covered_ok_head set_tl_subset)[1],
      auto simp: Let_def not_le covered_ok_head set_tl_subset)

lemma chosen_interleaved:
  assumes "set xs \<subseteq> set es" and "set ys \<subseteq> set es"
  shows "chosen_from es (interleave_soonest_coverage P xs ys limit)"
    and "length (interleave_soonest_coverage P xs ys limit) \<le> limit"
  using covered_ok_interleave[where st = "\<lparr>cv_selected = [], cv_productions = [], cv_shows = []\<rparr>", OF _ assms, of limit P]
  by (simp_all add: interleave_soonest_coverage_def covered_ok_def chosen_from_def)

lemma map_of_rev_values:
  "map_of (rev (map (\<lambda>e. (f e, e)) es)) k = Some x \<Longrightarrow> x \<in> set es"
  by (auto dest!: map_of_SomeD)

lemma set_map_relevance:
  "set (map_relevance_to_earliest P relevant chronological) \<subseteq> set relevant \<union> set chronological"
proof -
  have show_values: "x \<in> set chronological"
    if "map_of (rev (List.map_filter (\<lambda>e. case show_key P e of
          Some k \<Rightarrow> if k = [] then None else Some (k, e) | None \<Rightarrow> None) chronological)) k = Some x" for k x
    using map_of_SomeD[OF that] by (auto simp: map_filter_def split: option.splits if_splits)
  show ?thesis
    unfolding map_relevance_to_earliest_def Let_def
    by (auto split: option.splits if_splits dest: map_of_rev_values show_values)
qed

section \<open>The shortlist\<close>

lemma subseq_one_per_category: "subseq (one_per_category room seen es) es"
  by (induction room seen es rule: one_per_category.induct) (auto simp: Let_def)

lemma length_one_per_category: "length (one_per_category room seen es) \<le> room"
  by (induction room seen es rule: one_per_category.induct) auto

lemma first_of_each_fresh:
  "key ` set (first_of_each key seen xs) \<inter> set seen = {}"
  using first_of_each_keys[of key seen xs] by auto

lemma chosen_varied:
  assumes "distinct (map production_identity ranked)"
  shows "chosen_from ranked (varied_shortlist ranked limit)"
    and "length (varied_shortlist ranked limit) \<le> limit"
proof -
  define chosen where "chosen = one_per_category limit [] ranked"
  define others where "others = first_of_each production_identity (map production_identity chosen) ranked"
  have c: "chosen_from ranked chosen" "length chosen \<le> limit"
    unfolding chosen_def
    by (rule chosen_from_subseq[OF subseq_one_per_category assms], rule length_one_per_category)
  have v: "varied_shortlist ranked limit
      = (if length chosen = limit then chosen else chosen @ take (limit - length chosen) others)"
    by (simp add: varied_shortlist_def chosen_def others_def Let_def)
  have "set others \<subseteq> set ranked" by (simp add: others_def set_first_of_each)
  moreover have "distinct (map production_identity (take n others))" for n
    using first_of_each_distinct[of production_identity "map production_identity chosen" ranked]
    by (simp add: others_def flip: take_map)
  moreover have "production_identity ` set others \<inter> production_identity ` set chosen = {}"
    using first_of_each_fresh[of production_identity "map production_identity chosen" ranked]
    by (simp add: others_def)
  ultimately have "chosen_from ranked (chosen @ take n others)" for n
    using c(1) by (auto simp: chosen_from_def dest!: in_set_takeD)
  then show "chosen_from ranked (varied_shortlist ranked limit)" using c(1) by (simp add: v)
  show "length (varied_shortlist ranked limit) \<le> limit" using c(2) by (auto simp: v min_def)
qed

text \<open>The candidates of a retrieval: the events that were given, and their ranking without repeats.\<close>

definition candidates_ok :: "event list \<Rightarrow> candidate_events \<Rightarrow> bool" where
  "candidates_ok es c \<longleftrightarrow> set (ca_allowed c) \<subseteq> set es \<and> chosen_from es (ca_ranked c)"

lemma ranked_candidates_ok:
  assumes "ranked_candidates P logarithm es r = Inr c"
  shows "candidates_ok es c"
proof -
  obtain ctx where c: "c = (let allowed = (if rv_intent r \<noteq> None \<or> rv_resolved r \<noteq> None then es
                    else filter (eligible_for_context P ctx) es);
         base = (case rv_semantic r of
             Some s \<Rightarrow> hybrid_rank P logarithm allowed (sc_query ctx) s
           | None \<Rightarrow> rank_events P allowed (sc_query ctx) None []);
         soft = apply_soft_preferences P base (Option.bind (rv_resolved r) rc_soft)
     in \<lparr>ca_context = ctx, ca_allowed = allowed,
         ca_ranked = unique_events (demote_child_directed P soft (rv_intent r)) (length allowed)\<rparr>)"
    using assms by (auto simp: ranked_candidates_def rbind_eq_Inr Let_def)
  have "set (ca_allowed c) \<subseteq> set es" by (auto simp: c Let_def)
  moreover have "chosen_from (ca_allowed c) (ca_ranked c)"
    by (auto simp: c Let_def demoted.set_rank softened.set_rank fused.set_rank ranked.set_rank
        split: option.split intro!: chosen_from_trans[OF _ chosen_unique])
  ultimately show ?thesis
    by (auto simp: candidates_ok_def intro: chosen_from_trans)
qed

lemma chosen_relevance:
  assumes "distinct (map production_identity ranked)"
  shows "chosen_from ranked (relevance_covered P c r limit ranked)"
proof -
  have "chosen_from ranked ranked" "chosen_from ranked (take limit ranked)"
    using assms by (auto intro: chosen_from_subseq subseq_take)
  then show ?thesis
    using chosen_calm[OF assms]
    by (auto simp: relevance_covered_def Let_def split: option.split)
qed

lemma shortlist_of_ok:
  assumes "candidates_ok es c"
  shows "chosen_from es (shortlist_of P c r limit)" and "length (shortlist_of P c r limit) \<le> limit"
proof -
  define ranked where "ranked = diverse_events P (ca_ranked c) (length (ca_ranked c))"
  define covered where "covered = relevance_covered P c r limit ranked"
  have allowed: "set (ca_allowed c) \<subseteq> set es" and "chosen_from es (ca_ranked c)"
    using assms by (auto simp: candidates_ok_def)
  then have ranked: "chosen_from es ranked"
    unfolding ranked_def by (auto intro: chosen_from_part subseq_diverse)
  then have d: "distinct (map production_identity ranked)" and s: "set ranked \<subseteq> set es"
    by (auto simp: chosen_from_def)
  have covered: "chosen_from es covered"
    unfolding covered_def using s chosen_relevance[OF d] by (rule chosen_from_trans)
  have cheapest: "set (cheapest_production_representatives P (ca_allowed c) n) \<subseteq> set es" for n
    using chosen_cheapest allowed by (fastforce simp: chosen_from_def)
  have soonest: "set (soonest_production_representatives P (ca_allowed c) (rv_intent r)) \<subseteq> set es"
    using chosen_soonest allowed by (fastforce simp: chosen_from_def)
  have mapped: "set (map_relevance_to_earliest P covered xs) \<subseteq> set es" if "set xs \<subseteq> set es" for xs
    using set_map_relevance[of P covered xs] covered that by (auto simp: chosen_from_def)
  have sl: "shortlist_of P c r limit =
      (if wants_cheapest r then
         interleave_soonest_coverage P (cheapest_production_representatives P (ca_allowed c) (length (ca_allowed c)))
           (map_relevance_to_earliest P covered
              (cheapest_production_representatives P (ca_allowed c) (length (ca_allowed c)))) limit
       else if wants_soonest r then
         interleave_soonest_coverage P (soonest_production_representatives P (ca_allowed c) (rv_intent r))
           (map_relevance_to_earliest P covered
              (soonest_production_representatives P (ca_allowed c) (rv_intent r))) limit
       else if rv_semantic r \<noteq> None then take limit covered else varied_shortlist ranked limit)"
    by (simp add: shortlist_of_def Let_def ranked_def covered_def)
  show "chosen_from es (shortlist_of P c r limit)"
    unfolding sl
    using chosen_interleaved(1)[OF cheapest mapped[OF cheapest]]
      chosen_interleaved(1)[OF soonest mapped[OF soonest]]
      chosen_from_part[OF covered subseq_take] chosen_from_trans[OF s chosen_varied(1)[OF d]]
    by simp
  show "length (shortlist_of P c r limit) \<le> limit"
    unfolding sl
    using chosen_interleaved(2)[OF cheapest mapped[OF cheapest]]
      chosen_interleaved(2)[OF soonest mapped[OF soonest]] chosen_varied(2)[OF d]
    by simp
qed

lemma fallback_of_ok:
  assumes "candidates_ok es c"
  shows "chosen_from es (fallback_of P c r limit)"
proof -
  have allowed: "set (ca_allowed c) \<subseteq> set es" and ranked: "chosen_from es (ca_ranked c)"
    using assms by (auto simp: candidates_ok_def)
  show ?thesis
    unfolding fallback_of_def
    using chosen_from_trans[OF allowed chosen_cheapest] chosen_from_part[OF ranked subseq_diverse]
      chosen_from_part[OF chosen_from_trans[OF allowed chosen_soonest] subseq_take]
    by simp
qed

lemma nothing_chosen: "chosen_from es []"
  by (simp add: chosen_from_def)

lemma shortlist_events_ok:
  assumes "shortlist_events P logarithm es r limit = Inr cs"
  shows "chosen_from es cs" and "length cs \<le> limit"
proof -
  have "chosen_from es cs \<and> length cs \<le> limit"
  proof (cases "limit = 0")
    case False
    then obtain c where "ranked_candidates P logarithm es r = Inr c" and "cs = shortlist_of P c r limit"
      using assms by (auto simp: shortlist_events_def rbind_eq_Inr)
    then show ?thesis using shortlist_of_ok[OF ranked_candidates_ok] by simp
  qed (use assms nothing_chosen in \<open>auto simp: shortlist_events_def\<close>)
  then show "chosen_from es cs" and "length cs \<le> limit" by simp_all
qed

lemma fallback_events_ok:
  assumes "fallback_events P logarithm es r limit = Inr cs"
  shows "chosen_from es cs"
proof (cases "limit = 0")
  case False
  then obtain c where "ranked_candidates P logarithm es r = Inr c" and "cs = fallback_of P c r limit"
    using assms by (auto simp: fallback_events_def rbind_eq_Inr)
  then show ?thesis using fallback_of_ok[OF ranked_candidates_ok] by simp
qed (use assms nothing_chosen in \<open>auto simp: fallback_events_def\<close>)

end
