(* ===== verification/Recommendation_Properties.thy ===== *)
theory Recommendation_Properties
  imports Recommend Retrieval_Facts
begin

text \<open>
  What the search promises of its cards: they satisfy every condition of the search, are not
  excluded, and appear once per production; and what a refused turn leaves as it was.
\<close>

section \<open>The cards of a resolved search\<close>

lemma chosen_from_mset:
  assumes "chosen_from es ds" and "mset cs = mset ds"
  shows "chosen_from es cs"
proof -
  have "set cs = set ds" using assms(2) by (rule mset_eq_setD)
  moreover have "mset (map production_identity cs) = mset (map production_identity ds)"
    by (simp add: assms(2))
  then have "distinct (map production_identity cs) = distinct (map production_identity ds)"
    by (rule mset_eq_imp_distinct_iff)
  ultimately show ?thesis using assms(1) by (simp add: chosen_from_def)
qed

lemma event_by_id_in: "event_by_id es i = Some e \<Longrightarrow> e \<in> set es"
  unfolding event_by_id_def by (rule map_of_rev_values)

lemma chosen_by_ranker: "chosen_from es (select_jev_events P es ranking soonest needed)"
proof -
  define supported where "supported = List.map_filter (\<lambda>r. event_by_id es (ev_id (rk_event r)))
     (sort_by (\<lambda>a b. cmp_int (score_value b) (score_value a)) (filter (supported_choice es needed) ranking))"
  have "set supported \<subseteq> set es"
    by (auto simp: supported_def map_filter_def dest: event_by_id_in)
  then have "chosen_from es (diverse_events P (unique_events supported (length supported)) (length supported))"
    by (rule chosen_representatives)
  then show ?thesis
    by (auto simp: select_jev_events_def Let_def supported_def[symmetric] intro: chosen_from_mset)
qed

lemma mset_ordered_choice: "mset (ordered_choice P p es) = mset es"
  by (auto simp: ordered_choice_def split: option.split plan_order.split)

lemma chosen_events_ok:
  assumes "chosen_events P d input subject filters history requirements shortlist = Inr cards"
  shows "chosen_from shortlist cards"
  using assms chosen_by_ranker chosen_from_mset mset_ordered_choice
  by (fastforce simp: chosen_events_def rbind_eq_Inr)

text \<open>The answer only adds cards, a mode, a status, a notice and diagnostics to its base.\<close>

lemma answer_keeps:
  "re_filters (answer P d input subject filters history requirements base diagnostics n s sl fb) = re_filters base"
  "re_planState (answer P d input subject filters history requirements base diagnostics n s sl fb) = re_planState base"
  "re_intentState (answer P d input subject filters history requirements base diagnostics n s sl fb) = re_intentState base"
  "re_excludedIds (answer P d input subject filters history requirements base diagnostics n s sl fb) = re_excludedIds base"
  by (simp_all add: answer_def Let_def split: sum.split)

lemma answer_cards:
  assumes "chosen_from es shortlist" and "chosen_from shortlist fallback"
  shows "chosen_from shortlist (re_recommendations
    (answer P d input subject filters history requirements base diagnostics n s shortlist fallback))"
  using assms chosen_events_ok by (auto simp: answer_def Let_def split: sum.split)

text \<open>At most as many cards as the list they are chosen from is long.\<close>

lemma chosen_from_length:
  assumes "chosen_from es cs"
  shows "length cs \<le> length es"
proof -
  have "length cs = card (production_identity ` set cs)"
    using assms distinct_card[of "map production_identity cs"] by (simp add: chosen_from_def)
  also have "\<dots> \<le> card (production_identity ` set es)"
    using assms by (intro card_mono image_mono) (auto simp: chosen_from_def)
  also have "\<dots> \<le> length es"
    by (metis card_length length_map list.set_map)
  finally show ?thesis .
qed

text \<open>A result without the fields that its callers add.\<close>

definition bare_result :: "filters \<Rightarrow> search_result \<Rightarrow> bool" where
  "bare_result filters r \<longleftrightarrow>
     re_filters r = filters \<and> re_planState r = None \<and> re_intentState r = None \<and> re_excludedIds r = None"

lemma find_cards_ok:
  assumes "find_cards P logarithm d input subject filters history requirements diagnostics es = Inr r"
  shows "chosen_from es (re_recommendations r) \<and> length (re_recommendations r) \<le> 16 \<and> bare_result filters r
     \<and> re_status r \<noteq> Needs_input"
proof -
  obtain first where "shortlist_events P logarithm es (retrieval_of input subject None) 16 = Inr first"
    using assms by (auto simp: find_cards_def Let_def rbind_eq_Inr)
  define query where "query = (if subject = By_rules then semantic_query (ri_message input) history
                        else ri_message input)"
  obtain available semantic note' where s: "retrieve_semantic d es query = (available, semantic, note')"
    by (cases "retrieve_semantic d es query") auto
  show ?thesis
  proof (cases "first = []")
    case True
    then show ?thesis
      using assms \<open>shortlist_events P logarithm es _ 16 = Inr first\<close>
      by (auto simp: find_cards_def Let_def plain_result_def nothing_chosen bare_result_def)
  next
    case False
    define base where "base = (plain_result filters No_results no_shortlist_notice)
                   \<lparr>re_total := length es, re_diagnostics := Some diagnostics\<rparr>"
    have base: "bare_result filters base" by (simp add: base_def plain_result_def bare_result_def)
    obtain shortlist fallback diag where
      sl: "shortlist_events P logarithm es (retrieval_of input subject semantic) 16 = Inr shortlist" and
      fb: "(if has_mood_preferences (subject_plan subject) then Inr []
            else fallback_events P logarithm shortlist (retrieval_of input subject semantic)
                   (length shortlist)) = Inr fallback" and
      r: "r = answer P d input subject filters history requirements base diag note' semantic shortlist fallback"
      using assms False \<open>shortlist_events P logarithm es _ 16 = Inr first\<close> s
      unfolding find_cards_def Let_def base_def[symmetric] query_def[symmetric] rbind_eq_Inr
      by (elim exE conjE) (simp del: rbind_simps add: rbind_eq_Inr, blast)
    have chosen: "chosen_from es shortlist" and short: "length shortlist \<le> 16"
      using sl by (rule shortlist_events_ok)+
    have "chosen_from shortlist fallback"
      using fb fallback_events_ok nothing_chosen by (auto split: if_splits)
    then have cards: "chosen_from shortlist (re_recommendations r)"
      unfolding r by (rule answer_cards[OF chosen])
    then have "chosen_from es (re_recommendations r)"
      using chosen chosen_from_trans by (auto simp: chosen_from_def)
    moreover have "bare_result filters r"
      using base by (simp add: r bare_result_def answer_keeps)
    moreover have "re_status r \<noteq> Needs_input"
      by (simp add: r answer_def Let_def status_of_cards_def split: sum.split)
    ultimately show ?thesis using chosen_from_length[OF cards] short by simp
  qed
qed

text \<open>What every card of a resolved search satisfies.\<close>

definition search_history :: "platform \<Rightarrow> recommend_input \<Rightarrow> search_subject \<Rightarrow> message list" where
  "search_history P input subject =
     (if subject = By_rules then sc_history (search_context_of P (ri_message input) (ri_history input)) else [])"

definition card_ok ::
  "platform \<Rightarrow> int \<Rightarrow> recommend_input \<Rightarrow> search_subject \<Rightarrow> filters \<Rightarrow> event \<Rightarrow> bool" where
  "card_ok P now input subject filters e \<longleftrightarrow>
     is_eligible P e filters now \<and> \<not> excluded_event (ri_excludeIds input) e
     \<and> event_admitted P now subject (stated_requirements P subject input (search_history P input subject)) e"

lemma without_excluded_sub: "e \<in> set (without_excluded ids es) \<Longrightarrow> e \<in> set es \<and> \<not> excluded_event ids e"
  by (simp add: without_excluded_def Let_def)

lemma recommend_resolved_ok:
  assumes "recommend_resolved P logarithm d input subject = Inr r"
  shows "\<exists>filters issue. search_filters P (dp_now d) input subject = Inr (filters, issue)
     \<and> bare_result filters r \<and> list_all (card_ok P (dp_now d) input subject filters) (re_recommendations r)
     \<and> distinct (map production_identity (re_recommendations r)) \<and> length (re_recommendations r) \<le> 16
     \<and> (issue = None \<longrightarrow> re_status r \<noteq> Needs_input)"
proof -
  obtain filters issue where f: "search_filters P (dp_now d) input subject = Inr (filters, issue)"
    using assms by (auto simp: recommend_resolved_def rbind_eq_Inr)
  have "bare_result filters r \<and> list_all (card_ok P (dp_now d) input subject filters) (re_recommendations r)
     \<and> distinct (map production_identity (re_recommendations r)) \<and> length (re_recommendations r) \<le> 16
     \<and> (issue = None \<longrightarrow> re_status r \<noteq> Needs_input)"
  proof (cases issue)
    case (Some i)
    then show ?thesis using assms f
      by (auto simp: recommend_resolved_def plain_result_def bare_result_def)
  next
    case None
    then obtain catalog where "dp_candidates d filters = Inr catalog"
      using assms f by (auto simp: recommend_resolved_def rbind_eq_Inr)
    define remaining where "remaining = without_excluded (ri_excludeIds input)
      (filter (\<lambda>e. is_eligible P e filters (dp_now d)) catalog)"
    define history where "history = search_history P input subject"
    define requirements where "requirements = stated_requirements P subject input history"
    define es where "es = filter (event_admitted P (dp_now d) subject requirements) remaining"
    define diagnostics where "diagnostics = diagnostics_of P (dp_now d) subject requirements catalog
      (filter (\<lambda>e. is_eligible P e filters (dp_now d)) catalog) remaining"
    have r: "(if es = []
            then Inr ((plain_result filters No_results
                   (no_evidence_notice (remaining \<noteq> [] \<and> (requirements \<noteq> [] \<or> subject_plan subject \<noteq> None))))
                   \<lparr>re_diagnostics := Some diagnostics\<rparr>)
            else find_cards P logarithm d input subject filters history requirements diagnostics es) = Inr r"
      using assms
      by (simp only: recommend_resolved_def f None \<open>dp_candidates d filters = Inr catalog\<close>
          rbind_simps prod.case option.case Let_def remaining_def history_def requirements_def es_def
          diagnostics_def search_history_def)
    have ok: "card_ok P (dp_now d) input subject filters e" if "e \<in> set es" for e
      using that by (auto simp: es_def card_ok_def remaining_def requirements_def history_def
          dest!: without_excluded_sub)
    show ?thesis
    proof (cases "es = []")
      case True
      then show ?thesis using r by (auto simp: plain_result_def bare_result_def)
    next
      case False
      then have c: "chosen_from es (re_recommendations r) \<and> length (re_recommendations r) \<le> 16
          \<and> bare_result filters r \<and> re_status r \<noteq> Needs_input"
        using r by (intro find_cards_ok) simp
      then show ?thesis using ok by (auto simp: chosen_from_def list_all_iff)
    qed
  qed
  then show ?thesis using f by blast
qed

section \<open>The cards of a request\<close>

text \<open>
  What a result says of its own cards: the filters, the plan or the interpreted state that it
  reports, or the requirements read from the text, hold of the event, and the excluded ids are not
  its own.
\<close>

definition shown_ok :: "platform \<Rightarrow> int \<Rightarrow> recommend_input \<Rightarrow> search_result \<Rightarrow> event \<Rightarrow> bool" where
  "shown_ok P now input r e \<longleftrightarrow>
     is_eligible P e (re_filters r) now
     \<and> (case (re_planState r, re_intentState r) of
          (Some s, _) \<Rightarrow> fst (evaluate_plan P e (pst_plan s) now) = Supported
        | (None, Some s) \<Rightarrow> meets_requirements P e (iv_requirements s)
        | (None, None) \<Rightarrow> meets_requirements P e
            (stated_requirements P By_rules input (search_history P input By_rules)))
     \<and> \<not> excluded_event (case re_excludedIds r of Some ids \<Rightarrow> ids | None \<Rightarrow> ri_excludeIds input) e"

definition result_ok :: "platform \<Rightarrow> int \<Rightarrow> recommend_input \<Rightarrow> search_result \<Rightarrow> bool" where
  "result_ok P now input r \<longleftrightarrow>
     list_all (shown_ok P now input r) (re_recommendations r)
     \<and> distinct (map production_identity (re_recommendations r)) \<and> length (re_recommendations r) \<le> 16"

lemma no_cards_ok: "re_recommendations r = [] \<Longrightarrow> result_ok P now input r"
  by (simp add: result_ok_def)

lemma rules_ok:
  assumes "recommend_resolved P logarithm d input By_rules = Inr r"
  shows "result_ok P (dp_now d) input r"
  using recommend_resolved_ok[OF assms]
  by (auto simp: result_ok_def bare_result_def list_all_iff card_ok_def shown_ok_def event_admitted_def)

lemma span_refused_cards: "re_recommendations (span_refused base m i) = re_recommendations base"
  by (simp add: span_refused_def)

lemma span_accepted_ok:
  assumes "span_accepted P logarithm d input base previous ops p = Inr r" and "re_recommendations base = []"
  shows "result_ok P (dp_now d) input r"
proof (cases "next_plan_state P (ri_message input) (pending_text input) previous ops p")
  case (Inl e)
  then show ?thesis using assms by (auto simp: span_accepted_def span_refused_cards intro!: no_cards_ok)
next
  case (Inr state)
  define ids where "ids = plan_excluded_ids P input ops"
  define search where "search = input\<lparr>ri_message := plan_query_text P state, ri_history := [],
                             ri_filters := empty_filters, ri_excludeIds := ids\<rparr>"
  obtain q where q: "recommend_resolved P logarithm d search (By_plan (pst_plan state) (pst_requests state)) = Inr q"
    and r: "r = q\<lparr>re_planState := Some state, re_excludedIds := Some ids\<rparr>"
    using assms Inr by (auto simp: span_accepted_def Let_def rbind_eq_Inr ids_def search_def)
  show ?thesis
    using recommend_resolved_ok[OF q]
    by (auto simp: r result_ok_def list_all_iff shown_ok_def card_ok_def event_admitted_def bare_result_def
        search_def)
qed

lemma recommend_span_ok:
  assumes "recommend_span P logarithm d input = Inr r"
  shows "result_ok P (dp_now d) input r"
proof -
  define previous where "previous = (case ri_planState input of Some s \<Rightarrow> s | None \<Rightarrow> empty_plan_state)"
  define base where "base = (plain_result empty_filters Needs_input renewal_notice)\<lparr>re_planState := Some previous\<rparr>"
  have none: "re_recommendations base = []" by (simp add: base_def plain_result_def)
  have "re_recommendations r = [] \<or> (\<exists>ops p. span_accepted P logarithm d input base previous ops p = Inr r)"
    using assms none
    unfolding recommend_span_def Let_def previous_def[symmetric] base_def[symmetric]
    by (auto simp: span_refused_cards split: if_splits sum.splits span_result.splits)
  then show ?thesis using span_accepted_ok[OF _ none] no_cards_ok by blast
qed

lemma intent_accepted_ok:
  assumes "intent_accepted P logarithm d input action s = Inr r"
  shows "result_ok P (dp_now d) input r"
proof -
  obtain ids query q where q: "recommend_resolved P logarithm d
        (input\<lparr>ri_message := query, ri_history := [], ri_filters := iv_filters s, ri_excludeIds := ids\<rparr>)
        (By_intent s) = Inr q"
    and r: "r = q\<lparr>re_intentState := Some s, re_excludedIds := Some ids\<rparr>"
    using assms unfolding intent_accepted_def Let_def rbind_eq_Inr by blast
  show ?thesis
    using recommend_resolved_ok[OF q]
    by (auto simp: r result_ok_def list_all_iff shown_ok_def card_ok_def event_admitted_def bare_result_def
        stated_requirements_def)
qed

lemma recommend_intent_ok:
  assumes "recommend_intent P logarithm d input = Inr r"
  shows "result_ok P (dp_now d) input r"
proof -
  have "re_recommendations r = [] \<or> (\<exists>action s. intent_accepted P logarithm d input action s = Inr r)"
    using assms unfolding recommend_intent_def
    by (auto simp: rbind_eq_Inr restart_result_def plain_result_def intent_refused_def
        split: if_splits option.splits)
  then show ?thesis using intent_accepted_ok no_cards_ok by blast
qed

lemma recommend_unpinned_ok:
  assumes "recommend_unpinned P logarithm d input = Inr r"
  shows "result_ok P (dp_now d) input r"
  using assms recommend_span_ok recommend_intent_ok rules_ok
  by (auto simp: recommend_unpinned_def restart_result_def plain_result_def intro!: no_cards_ok
      split: if_splits)

lemma finish_pinned_ok:
  assumes "result_ok P now input r"
  shows "result_ok P now input (finish_pinned pin r kept)"
proof -
  define ok :: "event \<Rightarrow> bool" where "ok = (\<lambda>e. ev_id e \<in> ev_id ` set kept)"
  have cards: "re_recommendations (finish_pinned pin r kept) = filter ok (re_recommendations r)"
    by (simp add: finish_pinned_def Let_def ok_def)
  have same: "shown_ok P now input (finish_pinned pin r kept) = shown_ok P now input r"
    by (simp add: fun_eq_iff shown_ok_def finish_pinned_def Let_def)
  show ?thesis
    using assms unfolding result_ok_def cards same
    by (auto simp: list_all_iff intro: distinct_map_filter order_trans[OF length_filter_le])
qed

lemma recommend_ok:
  assumes "recommend P logarithm d input = Inr r"
  shows "result_ok P (dp_now d) input r"
proof -
  obtain pinned where p: "dp_pin d = Inr pinned"
    using assms by (auto simp: recommend_def rbind_eq_Inr)
  show ?thesis
  proof (cases pinned)
    case None
    then show ?thesis using assms p recommend_unpinned_ok by (simp add: recommend_def)
  next
    case (Some pin)
    then obtain q kept where "recommend_unpinned P logarithm
                  (d\<lparr>dp_candidates := pinned_candidates pin, dp_vectors := Some (pn_vectors pin),
                     dp_dense := pn_dense pin\<rparr>) input = Inr q"
      and "r = finish_pinned pin q kept"
      using assms p by (auto simp: recommend_def rbind_eq_Inr)
    then show ?thesis using recommend_unpinned_ok finish_pinned_ok by fastforce
  qed
qed

section \<open>Turns of a plan\<close>

definition turn_start :: "recommend_input \<Rightarrow> plan_state" where
  "turn_start input = (case ri_planState input of Some s \<Rightarrow> s | None \<Rightarrow> empty_plan_state)"

text \<open>
  A turn that asks back leaves the plan; every other one makes the next revision, which is
  cleared, or is a plan that can be sent again and searched.
\<close>

definition plan_turn_ok :: "platform \<Rightarrow> plan_state \<Rightarrow> search_result \<Rightarrow> bool" where
  "plan_turn_ok P previous r \<longleftrightarrow>
     (case re_planState r of
        None \<Rightarrow> False
      | Some s \<Rightarrow>
          if re_status r = Needs_input then s = previous
          else pst_revision s = pst_revision previous + 1
               \<and> (s = empty_plan_state\<lparr>pst_revision := pst_revision previous + 1\<rparr>
                  \<or> plan_state_ok s \<and> validate_search_plan P (pst_plan s) = Inr ()))"

lemma next_plan_state_ok:
  assumes "next_plan_state P raw message previous ops p = Inr s"
  shows "pst_revision s = pst_revision previous + 1 \<and> plan_state_ok s
     \<and> validate_search_plan P (pst_plan s) = Inr ()"
proof -
  obtain v x where v: "validate_plan_state P (plan_state_json s) = Inr v" "validate_search_plan P p = Inr x"
    and s: "pst_revision s = pst_revision previous + 1" "pst_plan s = p"
    using assms by (auto simp: next_plan_state_def Let_def rbind_eq_Inr)
  then have "validate_plan_state P (plan_state_json s) = Inr (plan_state_json s)"
    by (metis accepted_is_same)
  then show ?thesis using v s by (simp add: plan_state_accepted_iff)
qed

lemma span_accepted_turn:
  assumes "span_accepted P logarithm d input base previous ops p = Inr r" and "re_planState base = Some previous"
  shows "plan_turn_ok P previous r"
proof (cases "next_plan_state P (ri_message input) (pending_text input) previous ops p")
  case (Inl e)
  then show ?thesis using assms by (auto simp: span_accepted_def span_refused_def plan_turn_ok_def)
next
  case (Inr state)
  then obtain q search where
    q: "recommend_resolved P logarithm d search (By_plan (pst_plan state) (pst_requests state)) = Inr q"
    and r: "re_planState r = Some state" "re_status r = re_status q"
    using assms by (auto simp: span_accepted_def Let_def rbind_eq_Inr)
  have "re_status q \<noteq> Needs_input"
    using recommend_resolved_ok[OF q] by (auto simp: search_filters_def)
  then show ?thesis using next_plan_state_ok[OF Inr] r by (simp add: plan_turn_ok_def)
qed

text \<open>
  C4: a turn of the plan conversation that ends in a question keeps the plan as it was; every
  other turn advances the revision by one, to a cleared plan or to one that validates.
\<close>

theorem plan_turn_keeps_or_advances:
  assumes "recommend_span P logarithm d input = Inr r"
  shows "plan_turn_ok P (turn_start input) r"
proof -
  define base where "base = (plain_result empty_filters Needs_input renewal_notice)
    \<lparr>re_planState := Some (turn_start input)\<rparr>"
  have base: "re_planState base = Some (turn_start input)" "re_status base = Needs_input"
    by (simp_all add: base_def plain_result_def)
  have "plan_turn_ok P (turn_start input) r
     \<or> (\<exists>ops p. span_accepted P logarithm d input base (turn_start input) ops p = Inr r)"
    using assms base
    unfolding recommend_span_def Let_def turn_start_def[symmetric] base_def[symmetric]
    by (auto simp: span_refused_def plan_turn_ok_def split: if_splits sum.splits span_result.splits)
  then show ?thesis using span_accepted_turn[OF _ base(1)] by blast
qed

definition span_dependencies :: dependencies where
  "span_dependencies = \<lparr>dp_candidates = (\<lambda>f. Inr []), dp_configured = False, dp_now = 1790787600000,
     dp_rank = (\<lambda>r es. Inl (Err ''unavailable'')), dp_embedding = False, dp_vectors = None,
     dp_embed = (\<lambda>q. Inr []), dp_dense = None, dp_interpreter = Span_interpreter,
     dp_span = (\<lambda>r. Inl (Err ''unavailable'')), 
     dp_interpret = (\<lambda>r. Inl (Err ''unavailable'')),
     dp_pin = Inr None\<rparr>"

definition second_turn :: recommend_input where
  "second_turn = \<lparr>ri_message = u ''konser'', ri_history = [], ri_filters = empty_filters, ri_excludeIds = [],
     ri_version = Some 2, ri_planState = Some (empty_plan_state\<lparr>pst_revision := 3\<rparr>), ri_intentState = None, ri_alternativeIds = None, ri_pending = None\<rparr>"

theorem plan_turn_keeps_or_advances_witness:
  "\<exists>r. recommend_span turkish_platform (\<lambda>x. x - 1) span_dependencies second_turn = Inr r
     \<and> plan_turn_ok turkish_platform (empty_plan_state\<lparr>pst_revision := 3\<rparr>) r"
proof -
  have "\<exists>r. recommend_span turkish_platform (\<lambda>x. x - 1) span_dependencies second_turn = Inr r"
    by (auto simp: recommend_span_def Let_def span_dependencies_def interpret_span_def second_turn_def
        empty_plan_state_def split: sum.split)
  moreover have "turn_start second_turn = empty_plan_state\<lparr>pst_revision := 3\<rparr>"
    by (simp add: turn_start_def second_turn_def)
  ultimately show ?thesis using plan_turn_keeps_or_advances by fastforce
qed

section \<open>A search with one card\<close>

definition jazz_night :: event where
  "jazz_night = blank_event\<lparr>ev_id := u ''e1'', ev_title := u ''Caz'', ev_startsAt := u ''2026-10-01T17:00:00.000Z'',
     ev_city := tr ''~Istanbul'', ev_venue := u ''Nardis'', ev_category := tr ''Konser'', ev_price := Some 400, ev_currency := u ''TRY'',
     ev_availability := Available, ev_productionKey := Some (u ''p1''), ev_canonicalShowKey := Some (u ''s1''),
     ev_checkedAt := u ''2026-09-30T17:00:00.000Z''\<rparr>"

definition concert_state :: interpreted_state where
  "concert_state = \<lparr>iv_filters = empty_filters\<lparr>fl_categories := Some [tr ''Konser'']\<rparr>, iv_requirements = [],
     iv_preferences = \<lparr>ip_mood = None, ip_companion = None, ip_interests = [],
            ip_experiences = None, ip_soonest = False\<rparr>\<rparr>"

definition intent_dependencies :: dependencies where
  "intent_dependencies = \<lparr>dp_candidates = (\<lambda>f. Inr [jazz_night]), dp_configured = False, dp_now = 1790787600000,
     dp_rank = (\<lambda>r es. Inl (Err ''unavailable'')), dp_embedding = False, dp_vectors = None,
     dp_embed = (\<lambda>q. Inr []), dp_dense = None, dp_interpreter = Jev_interpreter,
     dp_span = (\<lambda>r. Inl (Err ''unavailable'')), 
     dp_interpret = (\<lambda>r. Inr \<lparr>ir_state = concert_state, ir_action = Search_action, ir_issue = None\<rparr>),
     dp_pin = Inr None\<rparr>"

definition first_request :: recommend_input where
  "first_request = \<lparr>ri_message = u ''konser'', ri_history = [], ri_filters = empty_filters, ri_excludeIds = [],
     ri_version = Some 1, ri_planState = None, ri_intentState = None, ri_alternativeIds = None, ri_pending = None\<rparr>"

lemma concert_state_valid: "validate_intent_state (intent_json concert_state) = Inr concert_state"
  by code_simp

lemma concert_query: "retrieval_query turkish_platform concert_state = Inr (u ''konser concert music'')"
  by code_simp

lemma jazz_night_eligible:
  "is_eligible turkish_platform jazz_night (iv_filters concert_state) 1790787600000"
  by code_simp

lemma first_state: "\<exists>s. empty_intent_state (filters_json empty_filters) = Inr s"
proof -
  have "map_sum id (\<lambda>_. ()) (empty_intent_state (filters_json empty_filters)) = Inr ()" by code_simp
  then show ?thesis by (cases "empty_intent_state (filters_json empty_filters)") auto
qed

lemma one_diverse: "0 < n \<Longrightarrow> diverse_events P [e] n = [e]"
  by (simp add: diverse_events_def)

lemma one_unique: "0 < n \<Longrightarrow> unique_events [e] n = [e]"
  by (simp add: unique_events_def)

lemma concert_state_preferences:
  "ip_soonest (iv_preferences concert_state) = False" "ip_companion (iv_preferences concert_state) = None"
  "iv_requirements concert_state = []"
  by (simp_all add: concert_state_def)

lemma one_ranked: "rank_events P [e] q v vs = [e]"
  by (simp add: rank_events_def Let_def sort_by_def)

lemma one_varied: "0 < n \<Longrightarrow> varied_shortlist [e] n = [e]"
  by (cases n) (auto simp: varied_shortlist_def Let_def)

lemma jazz_night_shortlist:
  "0 < n \<Longrightarrow> shortlist_events turkish_platform logarithm [jazz_night]
     (retrieval_of input (By_intent concert_state) None) n = Inr [jazz_night]"
  by (simp add: shortlist_events_def ranked_candidates_def retrieval_of_def retrieval_context_def concert_query
    one_ranked apply_soft_preferences_def demote_child_directed_def concert_state_preferences one_unique
    shortlist_of_def one_diverse wants_cheapest_def wants_soonest_def one_varied Let_def)

lemma jazz_night_fallback:
  "0 < n \<Longrightarrow> fallback_events turkish_platform logarithm [jazz_night]
     (retrieval_of input (By_intent concert_state) None) n = Inr [jazz_night]"
  by (simp add: fallback_events_def ranked_candidates_def retrieval_of_def retrieval_context_def concert_query
    one_ranked apply_soft_preferences_def demote_child_directed_def concert_state_preferences one_unique
    fallback_of_def one_diverse wants_cheapest_def wants_soonest_def Let_def)

lemma jazz_night_shown:
  "\<exists>r. recommend turkish_platform logarithm intent_dependencies first_request = Inr r
     \<and> map ev_id (re_recommendations r) = [u ''e1'']"
proof -
  obtain s where s: "empty_intent_state (filters_json empty_filters) = Inr s" using first_state ..
  let ?search = "first_request\<lparr>ri_message := u ''konser concert music'', ri_history := [],
                       ri_filters := iv_filters concert_state, ri_excludeIds := []\<rparr>"
  have "without_excluded [] [jazz_night] = [jazz_night]"
    by (simp add: without_excluded_def excluded_event_def jazz_night_def blank_event_def or_empty_def)
  then have "\<exists>r. recommend_resolved turkish_platform logarithm intent_dependencies ?search (By_intent concert_state) = Inr r
     \<and> re_recommendations r = [jazz_night]"
    by (simp add: recommend_resolved_def search_filters_def intent_dependencies_def jazz_night_eligible
       event_admitted_def meets_requirements_def stated_requirements_def concert_state_preferences
       check_requirements_def find_cards_def Let_def jazz_night_shortlist jazz_night_fallback retrieve_semantic_def answer_def has_mood_preferences_def)
  then show ?thesis using s
    by (auto simp: recommend_def recommend_unpinned_def recommend_intent_def intent_accepted_def previous_intent_def
       intent_dependencies_def first_request_def pending_text_def concert_state_valid concert_query jazz_night_def)
qed

text \<open>
  C1: every card of a result is an eligible event under the filters the result reports, is
  supported by the plan it reports or meets the requirements of the search, and is not excluded;
  there are at most sixteen cards, one per production.
\<close>

theorem shown_cards_satisfy_search:
  assumes "recommend P logarithm d input = Inr r"
  shows "result_ok P (dp_now d) input r"
  using assms by (rule recommend_ok)

theorem shown_cards_satisfy_search_witness:
  "\<exists>r. recommend turkish_platform (\<lambda>x. x - 1) intent_dependencies first_request = Inr r
     \<and> map ev_id (re_recommendations r) = [u ''e1'']
     \<and> result_ok turkish_platform 1790787600000 first_request r"
proof -
  obtain r where r: "recommend turkish_platform (\<lambda>x. x - 1) intent_dependencies first_request = Inr r"
    and cards: "map ev_id (re_recommendations r) = [u ''e1'']"
    using jazz_night_shown[of "\<lambda>x. x - 1"] by (elim exE conjE) (rule that)
  have "dp_now intent_dependencies = 1790787600000" by (simp add: intent_dependencies_def)
  then have "result_ok turkish_platform 1790787600000 first_request r"
    using shown_cards_satisfy_search[OF r] by (simp only:)
  then show ?thesis using r cards by (intro exI conjI)
qed

text \<open>
  C13: the shortlist for the ranker holds events of the search only, at most as many as its limit,
  and one event per production, in every mode of retrieval.
\<close>

theorem shortlist_sound:
  assumes "shortlist_events P logarithm es r limit = Inr cs"
  shows "set cs \<subseteq> set es \<and> distinct (map production_identity cs) \<and> length cs \<le> limit"
  using shortlist_events_ok[OF assms] by (simp add: chosen_from_def)

theorem shortlist_sound_witness:
  "shortlist_events turkish_platform (\<lambda>x. x - 1) [jazz_night]
      (retrieval_of first_request (By_intent concert_state) None) 16 = Inr [jazz_night]
   \<and> set [jazz_night] \<subseteq> set [jazz_night] \<and> distinct (map production_identity [jazz_night])
   \<and> length [jazz_night] \<le> 16"
proof -
  have h: "shortlist_events turkish_platform (\<lambda>x. x - 1) [jazz_night]
      (retrieval_of first_request (By_intent concert_state) None) 16 = Inr [jazz_night]"
    by (rule jazz_night_shortlist) simp
  show ?thesis using h shortlist_sound[OF h] by (rule conjI)
qed

end
