(* ===== verification/Spec2Isabelle.thy ===== *)
theory Spec2Isabelle
  imports Identity_Properties Store_Properties Search_Properties Conversation_Properties
    Merge_Properties Catalog_Properties Listing_Properties Publication_Properties
    Plan_Properties Intent_Properties Recommendation_Properties
begin

text \<open>
  Verification library of the event recommender, translated from the TypeScript sources under
  \<open>src/\<close>. The program collects event listings of Istanbul, decides which listings are the same
  session (\<open>collector/\<close>), stores them in a bucket with a compare-and-set control object, and
  answers messages of users (\<open>web/\<close>): it reads constraints from the text, keeps the filters of
  the conversation, checks what the sources of an event say about the request, and answers with
  ranked cards. \<open>contracts/\<close> is shared by both.

  \<^bold>\<open>The language.\<close> \<open>Prelude\<close>: strings as lists of UTF-16 code units, thrown errors as the left
  side of a sum, operations on a state, the insertion-ordered \<open>Map\<close> as an association list, and
  the stable \<open>sort\<close> with a locale for comparators. \<open>JsValue\<close>: untrusted values. \<open>JsTime\<close>: time
  stamps and their text. \<open>Text\<close>: the platform record (locale tables, collation, square root and
  time zone are its fields, so every theorem holds for all of them), and the normalisers.
  \<open>Regex\<close> is a backtracking matcher with the order of alternatives, captures and lazy repetition of
  the language; \<open>Regex_Syntax\<close> reads the notation of the sources, so that a definition quotes a
  pattern as the source writes it. Numbers are rationals: rounding of doubles is not modelled.

  \<^bold>\<open>Identity of listings.\<close> \<open>Identity_Text\<close> is \<open>collector/normalize/identity.ts\<close>; \<open>Seeds\<close> the
  reviewed seeds of \<open>identity/seed-overrides.ts\<close>; \<open>Disjoint\<close> the union-find forest, \<open>Venues\<close> and
  \<open>Sessions\<close> the passes of \<open>identity/resolve.ts\<close>. \<open>Session_Facts\<close> and \<open>Identity_Properties\<close> show
  that any two listings of a resolved session could be merged on their own evidence, titles
  included, that sessions partition the listings and, where the collation tells their ids apart, do
  not depend on their order, that venues hold no conflicting pair, and that the forest refines a
  partition. \<open>Sha256\<close> is the synchronous hash of \<open>contracts/hash.ts\<close> on 32-bit words;
  \<open>Sha256_Reference\<close> defines SHA-256 as the standard does and shows that the two are the same
  function. \<open>Timing\<close> is \<open>contracts/timing.ts\<close> and \<open>Evidence\<close> is \<open>contracts/source-evidence.ts\<close>.

  \<^bold>\<open>The store.\<close> \<open>Types\<close> and \<open>Labels\<close> hold the event record and the stored labels, \<open>Operations\<close> the
  collection reports and pointers, \<open>Control\<close> the control object with its leases and request limits,
  \<open>Snapshots\<close> the vector and label snapshots of \<open>web/lib/store.gcp.ts\<close>, written with compare and
  set. \<open>Store_Properties\<close> shows that a lease is granted to one holder, that a window admits at most
  its limit, that immutable objects stay, and that a committed save merges with what others wrote.
  A world is the control object, the immutable blobs and the clock; interference of other processes
  is an arbitrary world between the two halves of an operation.

  \<^bold>\<open>The publication.\<close> \<open>Attempts\<close> is the diagnostic record and its reader, \<open>Catalog\<close> the reads of
  the published checkpoint and search with their caches, the status, the import of pages and the
  activation of a pending search. \<open>Publication\<close> is \<open>publishCheckpoint\<close>, cut into the segments
  between two waits; a run interleaves them with arbitrary changes by others. \<open>Publication_Facts\<close>
  shows that every segment brings the end nearer and what the pages select,
  \<open>Publication_Invariant\<close> what holds between segments. \<open>Storage_System\<close> puts the store and all its
  users into one step relation, where UUIDs are fresh as \<open>crypto.randomUUID\<close> makes them and a
  publication may stop for ever at any point. \<open>Publication_Properties\<close> shows that what is
  published can be read, that it never becomes older, that a publication that returned is visible,
  and that each ends within 5015 segments (two per group of eight sources, 20000 sources at most,
  and 15 more). Failures of the storage service itself are not steps of their own: a publication
  that meets one stops, which the relation allows at any point.

  \<^bold>\<open>Cards.\<close> \<open>Projection\<close> holds what \<open>web/lib/event-merge.ts\<close> and \<open>web/lib/materialized-catalog.ts\<close>
  share when listings become a card: order, representative, offers and the offer shown. \<open>EventMerge\<close>
  is \<open>mergeEventSessions\<close> with its aliases, policies, keys and caches; \<open>Merge_Properties\<close> shows that it
  loses no listing and no offer, on which policies the listings of a card agree, that the card shows
  an offer, available if any is, than which no comparable one is cheaper, and that the caches are
  not observable. \<open>Families\<close> is the union-find of
  \<open>identityFamilies\<close> and the adapter \<open>identity/event-record.ts\<close>, \<open>Materialized\<close> the prepared catalog and
  the selection of a version; \<open>Catalog_Properties\<close> shows that preparing it ends and that selecting
  among its versions answers as a new projection would at every later time. \<open>Listing\<close> is
  \<open>contracts/listing.ts\<close>; \<open>Listing_Properties\<close> shows that an accepted listing is read as it is stated.

  \<^bold>\<open>Search.\<close> \<open>Categories\<close>: \<open>contracts/category.ts\<close> and its copy \<open>web/lib/event-format.ts\<close>.
  \<open>Locations\<close>: \<open>contracts/district.ts\<close>, \<open>location.ts\<close> and \<open>search.ts\<close>; its tables are plain
  objects, so a third kind of shore stands for what a name like \<open>constructor\<close> finds in them. \<open>Intent\<close>:
  \<open>web/lib/intent.ts\<close>. \<open>Eligibility\<close> and \<open>Constraints\<close>: \<open>web/lib/search.ts\<close>, the filters, their
  validation, eligibility and ranking, and the reading of constraints. \<open>Search_Properties\<close> shows
  what accepted filters guarantee, that relaxing a filter loses no event, what ranking and
  choice return, and which location an event has; \<open>Conversation_Properties\<close> that a conversation never
  fails, that an issue leaves the filters as they were, and that the last word about a category
  counts. The time at which a message is read is one that a \<open>Date\<close> can hold.

  \<^bold>\<open>Requirements and plans.\<close> \<open>Requirements\<close> is \<open>web/lib/requirements.ts\<close>: the requirements read
  from the turns of a user and their evidence in the text of an event. \<open>Plans\<close> is the typed plan of
  \<open>web/parser/contract.ts\<close> with its validation and the reducer \<open>applyOperations\<close> of
  \<open>web/parser/state.ts\<close>; its condition tree is a data type, with the optional id at every node.
  \<open>Plan_State\<close> is \<open>web/lib/plan-state.ts\<close> on untrusted values and the writing and reading of the
  typed plan; \<open>Plan_Evidence\<close> is \<open>web/lib/plan-evidence.ts\<close> with \<open>age-evidence.ts\<close>: the verdict of
  an atom over an event, the three-valued evaluation, and the checks of a plan that is searched;
  \<open>Plan_Query\<close> is \<open>web/lib/plan-query.ts\<close>. \<open>Plan_Properties\<close> shows that the evaluation is sound for
  the two-valued meaning of a plan, that added conditions only narrow a search, that a correction
  leaves what it does not name, that a group budget comes with one party, that a plan state is read
  back as it was sent, that preferences move an event only past close ranks, and that a reset
  forgets. \<open>Intent_State\<close> is \<open>web/lib/input-state.ts\<close> with the query texts and the summary of
  \<open>input-retrieval.ts\<close> and \<open>input-summary.ts\<close>; \<open>Intent_Properties\<close> shows what an accepted state
  guarantees and when exactly the sentences of a source support a requirement.

  \<^bold>\<open>Recommendation.\<close> \<open>Ranking\<close> is \<open>web/lib/hybrid.ts\<close> and \<open>soft-preferences.ts\<close>, with the logarithm
  as a parameter; \<open>Retrieval\<close> is \<open>web/lib/retrieval.ts\<close>: the context of a conversation, the ranked
  candidates and the shortlist; \<open>Retrieval_Facts\<close> shows that every ranking is a permutation (a
  locale that each ranking step interprets) and every choice takes events of its list, one per
  production. \<open>Recommend\<close> is \<open>web/lib/recommend.ts\<close>: the catalog, the vectors, the ranker, the
  interpreters of text and the pinned publication are the record of dependencies, as in the source,
  and each of them may fail. \<open>Recommendation_Properties\<close> shows that every card satisfies the search
  that the result reports, whatever the dependencies answer, and that a turn which asks back leaves
  the plan as it was. The time stamps of an event that is evaluated parse, since only eligible
  events are evaluated.

  \<^bold>\<open>Bounds.\<close> The matcher gives a repetition as many steps as its minimum and the units left allow,
  plus one; each step past the minimum consumes a unit, so they suffice. Loops over matches get the
  length of the text plus one. The pattern reader gets three steps per character and three more.

  \<^bold>\<open>Not modelled.\<close> The grammars under \<open>web/parser/\<close> and \<open>input-interpreter.ts\<close>, whose readings of
  free text a remote model judges: their results are parameters of the recommendation, which
  validates them as the source does. The questions sent to remote models (\<open>web/lib/jev.ts\<close>,
  \<open>collector/identity/jev.ts\<close>), PostgreSQL and its types in \<open>contracts/publication.ts\<close>, the HTML page
  parser \<open>contracts/source.ts\<close>, the browsers of the collector jobs and the user interface:
  their code is in services and packages that are not in the repository. Of the mutable caches only
  those whose contents a result could depend on are modelled.
\<close>

end
